(* ===== verification/Prelude.thy ===== *)
theory Prelude imports Main "HOL-Library.AList" begin

text \<open>
  The development's shared vocabulary: Go's errors as values, Go maps (with the nil map) as
  association lists, pointers as options and panics as outcomes, and the rule collections the
  component theories extend.
\<close>

named_theorems calc_defs \<open>definitions that compute a desired resource\<close>
named_theorems proc_eqs \<open>equations that push a run through a program's steps\<close>

section \<open>Errors\<close>

text \<open>
  A Go \<open>error\<close> is either an API status (\<open>apierrors.StatusError\<close>, which carries a reason) or a plain
  message (\<open>errors.New\<close>, \<open>fmt.Errorf\<close>). \<open>nil\<close> is \<^const>\<open>None\<close> of \<open>go_error option\<close>.
\<close>

datatype StatusReason =
    StatusReasonUnknown
  | StatusReasonNotFound
  | StatusReasonAlreadyExists
  | StatusReasonConflict
  | StatusReasonInvalid
  | StatusReasonForbidden
  | StatusReasonBadRequest
  | StatusReasonServerTimeout

datatype go_error =
    StatusError StatusReason string
  | PlainError string

primrec Error :: "go_error \<Rightarrow> string" where
  "Error (StatusError r msg) = msg"
| "Error (PlainError msg) = msg"

fun ReasonForError :: "go_error option \<Rightarrow> StatusReason" where
  "ReasonForError (Some (StatusError r msg)) = r"
| "ReasonForError (Some (PlainError msg)) = StatusReasonUnknown"
| "ReasonForError None = StatusReasonUnknown"

definition IsNotFound :: "go_error option \<Rightarrow> bool" where
  "IsNotFound err \<longleftrightarrow> ReasonForError err = StatusReasonNotFound"

definition IsAlreadyExists :: "go_error option \<Rightarrow> bool" where
  "IsAlreadyExists err \<longleftrightarrow> ReasonForError err = StatusReasonAlreadyExists"

text \<open>\<open>fmt.Errorf("msg: %v", err)\<close>: the status of \<open>err\<close> is lost.\<close>

definition wrapErr :: "string \<Rightarrow> go_error \<Rightarrow> go_error" where
  "wrapErr msg e = PlainError (msg @ '': '' @ Error e)"

lemma wrapErr_reasons [simp]: "\<not> IsNotFound (Some (wrapErr msg e))" "\<not> IsAlreadyExists (Some (wrapErr msg e))"
  by (simp_all add: wrapErr_def IsNotFound_def IsAlreadyExists_def)

lemma reason_preds [simp]:
  "\<not> IsNotFound None"
  "\<not> IsAlreadyExists None"
  "\<not> IsNotFound (Some (PlainError m))"
  "\<not> IsAlreadyExists (Some (PlainError m))"
  "IsNotFound (Some (StatusError r m)) \<longleftrightarrow> r = StatusReasonNotFound"
  "IsAlreadyExists (Some (StatusError r m)) \<longleftrightarrow> r = StatusReasonAlreadyExists"
  by (simp_all add: IsNotFound_def IsAlreadyExists_def)

lemma IsNotFound_SomeD: "IsNotFound e \<Longrightarrow> \<exists>m. e = Some (StatusError StatusReasonNotFound m)"
  by (cases e rule: ReasonForError.cases) (auto simp: IsNotFound_def)

section \<open>Maps and pointers\<close>

text \<open>
  A Go map is an association list with distinct keys, or the nil map (\<^const>\<open>None\<close>): reading the nil
  map finds nothing, writing it panics. \<open>mput\<close> is only ever applied to a map made by \<open>make\<close>
  or a literal in the modelled code, so it takes the pairs.
\<close>

type_synonym 'v gomap = "(string \<times> 'v) list option"

definition mget :: "'v gomap \<Rightarrow> string \<Rightarrow> 'v option" where
  "mget m k = (case m of None \<Rightarrow> None | Some kvs \<Rightarrow> map_of kvs k)"

definition mput :: "string \<Rightarrow> 'v \<Rightarrow> (string \<times> 'v) list \<Rightarrow> (string \<times> 'v) list" where
  "mput k v m = AList.update k v m"

lemma mget_simps [simp]:
  "mget None k = None"
  "mget (Some kvs) k = map_of kvs k"
  by (simp_all add: mget_def)

lemma map_of_mput [simp]: "map_of (mput k v m) k' = (if k' = k then Some v else map_of m k')"
  by (simp add: mput_def update_conv')

lemma mput_Nil [simp]: "mput k v [] = [(k, v)]"
  by (simp add: mput_def)

lemma mput_Cons [simp]:
  "mput k v ((k', v') # m) = (if k' = k then (k, v) # m else (k', v') # mput k v m)"
  by (auto simp: mput_def)

lemma distinct_mput [simp]: "distinct (map fst m) \<Longrightarrow> distinct (map fst (mput k v m))"
  by (simp add: mput_def distinct_update)

text \<open>
  Dereferencing a nil pointer panics; so do failed type assertions and double closes. A computation
  that may panic returns an outcome.
\<close>

datatype 'a outcome = Returns 'a | Panics string

definition deref :: "'a option \<Rightarrow> 'a outcome" where
  "deref p = (case p of None \<Rightarrow> Panics ''nil pointer dereference'' | Some x \<Rightarrow> Returns x)"

primrec obind :: "'a outcome \<Rightarrow> ('a \<Rightarrow> 'b outcome) \<Rightarrow> 'b outcome" where
  "obind (Returns x) f = f x"
| "obind (Panics m) f = Panics m"

lemma deref_simps [simp]:
  "deref None = Panics ''nil pointer dereference''"
  "deref (Some x) = Returns x"
  by (simp_all add: deref_def)

lemma obind_Returns_iff: "obind p f = Returns y \<longleftrightarrow> (\<exists>x. p = Returns x \<and> f x = Returns y)"
  by (cases p) auto

lemma obind_cong [fundef_cong]:
  "p = q \<Longrightarrow> (\<And>x. q = Returns x \<Longrightarrow> f x = g x) \<Longrightarrow> obind p f = obind q g"
  by (cases q) auto

end
