(* ===== verification/Go_Strings.thy ===== *)
theory Go_Strings imports Prelude begin

text \<open>
  The functions of Go's \<open>strings\<close>, \<open>strconv\<close> and \<open>fmt\<close> packages the program calls, on byte
  strings (a Go string is a sequence of bytes, here a \<open>char list\<close>): \<open>strings.Split\<close> with a one-byte
  separator, \<open>strings.Join\<close>, \<open>strconv.Itoa\<close> and the quoting of \<open>%q\<close> for printable strings.
\<close>

section \<open>Split and Join\<close>

fun Split :: "char \<Rightarrow> string \<Rightarrow> string list" where
  "Split c [] = [[]]"
| "Split c (x # xs) =
     (if x = c then [] # Split c xs
      else case Split c xs of [] \<Rightarrow> [[x]] | p # ps \<Rightarrow> (x # p) # ps)"

fun Join :: "string list \<Rightarrow> string \<Rightarrow> string" where
  "Join [] sep = []"
| "Join [p] sep = p"
| "Join (p # q # ps) sep = p @ sep @ Join (q # ps) sep"

lemma Split_ne [simp]: "Split c s \<noteq> []"
  by (induction s) (auto split: list.splits)

lemma Split_cons_ne: "x \<noteq> c \<Longrightarrow> \<exists>p ps. Split c xs = p # ps \<and> Split c (x # xs) = (x # p) # ps"
  by (cases "Split c xs") auto

lemma Split_no_sep: "c \<notin> set s \<Longrightarrow> Split c s = [s]"
  by (induction s) auto

lemma Split_append: "c \<notin> set p \<Longrightarrow> Split c (p @ c # s) = p # Split c s"
  by (induction p) auto

lemma Split_part_no_sep: "p \<in> set (Split c s) \<Longrightarrow> c \<notin> set p"
proof (induction s arbitrary: p)
  case (Cons x xs)
  then show ?case
    by (cases "Split c xs") (fastforce split: if_splits)+
qed simp

lemma Join_Split: "Join (Split c s) [c] = s"
proof (induction s)
  case (Cons x xs)
  show ?case
  proof (cases "x = c")
    case True
    with Cons.IH show ?thesis by (cases "Split c xs") auto
  next
    case False
    then obtain p ps where "Split c xs = p # ps" "Split c (x # xs) = (x # p) # ps"
      using Split_cons_ne by blast
    with Cons.IH show ?thesis by (cases ps) auto
  qed
qed simp

lemma length_Split: "length (Split c s) = Suc (length (filter (\<lambda>x. x = c) s))"
proof (induction s)
  case (Cons x xs)
  show ?case
  proof (cases "x = c")
    case True
    with Cons.IH show ?thesis by simp
  next
    case False
    then obtain p ps where "Split c xs = p # ps" "Split c (x # xs) = (x # p) # ps"
      using Split_cons_ne by blast
    with Cons.IH False show ?thesis by simp
  qed
qed simp

lemma Split_singleton_iff: "Split c s = [p] \<longleftrightarrow> p = s \<and> c \<notin> set s"
proof
  assume h: "Split c s = [p]"
  then have "p = s" using Join_Split [of c s] by simp
  moreover have "filter (\<lambda>x. x = c) s = []"
    using h length_Split [of c s] by simp
  ultimately show "p = s \<and> c \<notin> set s" by (auto simp: filter_empty_conv)
next
  assume "p = s \<and> c \<notin> set s"
  then show "Split c s = [p]" by (simp add: Split_no_sep)
qed

section \<open>Numbers and quoting\<close>

definition digit :: "nat \<Rightarrow> char" where
  "digit d = char_of (48 + d)"

fun utoa :: "nat \<Rightarrow> string" where
  "utoa n = (if n < 10 then [digit n] else utoa (n div 10) @ [digit (n mod 10)])"

declare utoa.simps [simp del]

definition Itoa :: "int \<Rightarrow> string" where
  "Itoa i = (if i < 0 then ''-'' @ utoa (nat (- i)) else utoa (nat i))"

lemma utoa_ne [simp]: "utoa n \<noteq> []"
  by (subst utoa.simps) simp

lemma Itoa_ne [simp]: "Itoa i \<noteq> []"
  by (simp add: Itoa_def)

fun quote_chars :: "string \<Rightarrow> string" where
  "quote_chars [] = []"
| "quote_chars (c # s) =
     (if c = CHR 0x22 \<or> c = CHR 0x5C then [CHR 0x5C, c] else [c]) @ quote_chars s"

definition Quote :: "string \<Rightarrow> string" where
  "Quote s = [CHR 0x22] @ quote_chars s @ [CHR 0x22]"

section \<open>Letter case\<close>

text \<open>\<open>strings.ToLower\<close> on ASCII.\<close>

definition lower :: "char \<Rightarrow> char" where
  "lower c = (if of_char c \<in> {65..(90::nat)} then char_of (of_char c + (32::nat)) else c)"

definition ToLower :: "string \<Rightarrow> string" where
  "ToLower s = map lower s"

end
