(* ===== verification/Regexp.thy ===== *)
theory Regexp imports Main begin

text \<open>
  Go's \<open>regexp.MatchString\<close> on the anchored patterns the program compiles (\<open>^...$\<close>, no flags, so the
  whole string is matched): regular expressions over byte classes, their language, and a matcher
  by derivatives that is proved to decide it.
\<close>

datatype rexp =
    Zero
  | One
  | Cls "(char \<times> char) list"
  | Alt rexp rexp
  | Seq rexp rexp
  | Star rexp

definition in_cls :: "(char \<times> char) list \<Rightarrow> char \<Rightarrow> bool" where
  "in_cls rs c \<longleftrightarrow>
     (\<exists>(lo, hi) \<in> set rs. (of_char lo :: nat) \<le> of_char c \<and> (of_char c :: nat) \<le> of_char hi)"

text \<open>The language as an inductive relation, one rule per way of matching.\<close>

inductive lang :: "rexp \<Rightarrow> string \<Rightarrow> bool" where
  lang_One: "lang One []"
| lang_Cls: "in_cls rs c \<Longrightarrow> lang (Cls rs) [c]"
| lang_AltL: "lang r s \<Longrightarrow> lang (Alt r q) s"
| lang_AltR: "lang q s \<Longrightarrow> lang (Alt r q) s"
| lang_Seq: "lang r s \<Longrightarrow> lang q t \<Longrightarrow> lang (Seq r q) (s @ t)"
| lang_Star0: "lang (Star r) []"
| lang_StarN: "lang r s \<Longrightarrow> lang (Star r) t \<Longrightarrow> lang (Star r) (s @ t)"

inductive_simps lang_Zero [simp]: "lang Zero s"
inductive_simps lang_One_iff [simp]: "lang One s"
inductive_simps lang_Cls_iff [simp]: "lang (Cls rs) s"
inductive_simps lang_Alt_iff [simp]: "lang (Alt r q) s"
inductive_simps lang_Seq_iff: "lang (Seq r q) s"
inductive_cases lang_StarE: "lang (Star r) s"

primrec nullable :: "rexp \<Rightarrow> bool" where
  "nullable Zero = False"
| "nullable One = True"
| "nullable (Cls rs) = False"
| "nullable (Alt r q) = (nullable r \<or> nullable q)"
| "nullable (Seq r q) = (nullable r \<and> nullable q)"
| "nullable (Star r) = True"

primrec deriv :: "char \<Rightarrow> rexp \<Rightarrow> rexp" where
  "deriv c Zero = Zero"
| "deriv c One = Zero"
| "deriv c (Cls rs) = (if in_cls rs c then One else Zero)"
| "deriv c (Alt r q) = Alt (deriv c r) (deriv c q)"
| "deriv c (Seq r q) =
     (if nullable r then Alt (Seq (deriv c r) q) (deriv c q) else Seq (deriv c r) q)"
| "deriv c (Star r) = Seq (deriv c r) (Star r)"

fun MatchString :: "rexp \<Rightarrow> string \<Rightarrow> bool" where
  "MatchString r [] = nullable r"
| "MatchString r (c # s) = MatchString (deriv c r) s"

lemma nullable_lang: "nullable r \<longleftrightarrow> lang r []"
  by (induction r) (auto simp: lang_Seq_iff intro: lang_Star0)

lemma lang_Seq_Cons:
  "lang (Seq r q) (c # s) \<longleftrightarrow>
     (\<exists>t u. s = t @ u \<and> lang r (c # t) \<and> lang q u) \<or> (lang r [] \<and> lang q (c # s))"
  by (auto simp: lang_Seq_iff Cons_eq_append_conv)

lemma lang_Star_Cons:
  "lang (Star r) (c # s) \<longleftrightarrow> (\<exists>t u. s = t @ u \<and> lang r (c # t) \<and> lang (Star r) u)"
proof
  assume "lang (Star r) (c # s)"
  then show "\<exists>t u. s = t @ u \<and> lang r (c # t) \<and> lang (Star r) u"
    by (induction "Star r" "c # s" rule: lang.induct) (auto simp: append_eq_Cons_conv)
next
  assume "\<exists>t u. s = t @ u \<and> lang r (c # t) \<and> lang (Star r) u"
  then obtain t u where "s = t @ u" "lang r (c # t)" "lang (Star r) u" by blast
  then show "lang (Star r) (c # s)" using lang_StarN [of r "c # t" u] by simp
qed

lemma deriv_lang: "lang (deriv c r) s \<longleftrightarrow> lang r (c # s)"
proof (induction r arbitrary: s)
  case (Seq r q)
  then show ?case by (auto simp: lang_Seq_Cons nullable_lang) (auto simp: lang_Seq_iff)
next
  case (Star r)
  then show ?case by (auto simp: lang_Star_Cons lang_Seq_iff)
qed auto

theorem MatchString_lang: "MatchString r s \<longleftrightarrow> lang r s"
  by (induction s arbitrary: r) (auto simp: nullable_lang deriv_lang)

section \<open>Repetition of a class\<close>

lemma lang_Star_Cls: "lang (Star (Cls rs)) s \<longleftrightarrow> list_all (in_cls rs) s"
  by (induction s) (auto simp: lang_Star_Cons intro: lang_Star0)

definition Plus :: "rexp \<Rightarrow> rexp" where
  "Plus r = Seq r (Star r)"

definition Opt :: "rexp \<Rightarrow> rexp" where
  "Opt r = Alt One r"

lemma lang_Plus_Cls: "lang (Plus (Cls rs)) s \<longleftrightarrow> s \<noteq> [] \<and> list_all (in_cls rs) s"
  by (cases s) (auto simp: Plus_def lang_Seq_Cons lang_Star_Cls lang_Seq_iff [where s = "[]"])

lemma lang_Opt: "lang (Opt r) s \<longleftrightarrow> s = [] \<or> lang r s"
  by (auto simp: Opt_def)

end
