(* ===== verification/Validation.thy ===== *)
theory Validation imports Go_Strings Regexp begin

text \<open>
  \<open>k8s.io/apimachinery/pkg/util/validation\<close> (vendored under \<open>src/vendor\<close>): the DNS-1123 checks that
  \<open>Notebook.Validate\<close> applies to a notebook's host, as the regular expressions of the source.
  The main result is the reference reading of \<open>IsDNS1123Subdomain\<close>: dot-separated labels.
\<close>

section \<open>The patterns\<close>

definition lower_alnum :: "(char \<times> char) list" where
  "lower_alnum = [(CHR ''a'', CHR ''z''), (CHR ''0'', CHR ''9'')]"

definition dash_lower_alnum :: "(char \<times> char) list" where
  "dash_lower_alnum = [(CHR ''-'', CHR ''-''), (CHR ''a'', CHR ''z''), (CHR ''0'', CHR ''9'')]"

definition dns1123LabelFmt :: string where
  "dns1123LabelFmt = ''[a-z0-9]([-a-z0-9]*[a-z0-9])?''"

definition dns1123LabelRegexp :: rexp where
  "dns1123LabelRegexp =
     Seq (Cls lower_alnum) (Opt (Seq (Star (Cls dash_lower_alnum)) (Cls lower_alnum)))"

definition DNS1123LabelMaxLength :: nat where
  "DNS1123LabelMaxLength = 63"

definition dns1123LabelErrMsg :: string where
  "dns1123LabelErrMsg = ''a DNS-1123 label must consist of lower case alphanumeric characters or '-', and must start and end with an alphanumeric character''"

definition dns1123SubdomainFmt :: string where
  "dns1123SubdomainFmt = dns1123LabelFmt @ ''('' @ [CHR 0x5C] @ ''.'' @ dns1123LabelFmt @ '')*''"

definition dns1123SubdomainErrorMsg :: string where
  "dns1123SubdomainErrorMsg = ''a DNS-1123 subdomain must consist of lower case alphanumeric characters, '-' or '.', and must start and end with an alphanumeric character''"

definition DNS1123SubdomainMaxLength :: nat where
  "DNS1123SubdomainMaxLength = 253"

definition dns1123SubdomainRegexp :: rexp where
  "dns1123SubdomainRegexp =
     Seq dns1123LabelRegexp (Star (Seq (Cls [(CHR ''.'', CHR ''.'')]) dns1123LabelRegexp))"

section \<open>The checks\<close>

definition MaxLenError :: "nat \<Rightarrow> string" where
  "MaxLenError n = ''must be no more than '' @ Itoa (int n) @ '' characters''"

fun regex_examples :: "nat \<Rightarrow> string list \<Rightarrow> string" where
  "regex_examples i [] = []"
| "regex_examples i (e # es) =
     (if i > 0 then '' or '' else []) @ [CHR 0x27] @ e @ [CHR 0x27] @ '', ''
     @ regex_examples (Suc i) es"

definition RegexError :: "string \<Rightarrow> string \<Rightarrow> string list \<Rightarrow> string" where
  "RegexError msg fmt examples =
     (if examples = [] then msg @ '' (regex used for validation is '' @ [CHR 0x27] @ fmt @ [CHR 0x27] @ '')''
      else msg @ '' (e.g. '' @ regex_examples 0 examples
           @ ''regex used for validation is '' @ [CHR 0x27] @ fmt @ [CHR 0x27] @ '')'')"

definition IsDNS1123Label :: "string \<Rightarrow> string list" where
  "IsDNS1123Label value =
     (if length value > DNS1123LabelMaxLength then [MaxLenError DNS1123LabelMaxLength] else [])
   @ (if \<not> MatchString dns1123LabelRegexp value
      then [RegexError dns1123LabelErrMsg dns1123LabelFmt [''my-name'', ''123-abc'']] else [])"

definition IsDNS1123Subdomain :: "string \<Rightarrow> string list" where
  "IsDNS1123Subdomain value =
     (if length value > DNS1123SubdomainMaxLength then [MaxLenError DNS1123SubdomainMaxLength] else [])
   @ (if \<not> MatchString dns1123SubdomainRegexp value
      then [RegexError dns1123SubdomainErrorMsg dns1123SubdomainFmt [''example.com'']] else [])"

section \<open>What the patterns mean\<close>

definition is_lower_alnum :: "char \<Rightarrow> bool" where
  "is_lower_alnum c \<longleftrightarrow> in_cls lower_alnum c"

definition label_syntax :: "string \<Rightarrow> bool" where
  "label_syntax s \<longleftrightarrow> s \<noteq> [] \<and> is_lower_alnum (hd s) \<and> is_lower_alnum (last s)
     \<and> list_all (\<lambda>c. is_lower_alnum c \<or> c = CHR ''-'') s"

lemma in_cls_Cons [simp]:
  "in_cls [] c \<longleftrightarrow> False"
  "in_cls ((lo, hi) # rs) c \<longleftrightarrow>
     ((of_char lo :: nat) \<le> of_char c \<and> (of_char c :: nat) \<le> of_char hi) \<or> in_cls rs c"
  by (auto simp: in_cls_def)

lemma in_cls_point: "(of_char k :: nat) \<le> of_char c \<and> (of_char c :: nat) \<le> of_char k \<longleftrightarrow> c = k"
  by (auto simp: order.antisym)

lemma in_cls_dash: "in_cls dash_lower_alnum c \<longleftrightarrow> is_lower_alnum c \<or> c = CHR ''-''"
  using in_cls_point [of "CHR ''-''" c]
  unfolding dash_lower_alnum_def is_lower_alnum_def lower_alnum_def in_cls_Cons by blast

lemma dash_not_alnum [simp]: "\<not> is_lower_alnum (CHR ''-'')" "\<not> is_lower_alnum (CHR ''.'')"
  by (simp_all add: is_lower_alnum_def lower_alnum_def of_char_def)

lemma label_lang: "lang dns1123LabelRegexp s \<longleftrightarrow> label_syntax s"
proof
  assume "lang dns1123LabelRegexp s"
  then show "label_syntax s"
    unfolding dns1123LabelRegexp_def
    by (auto simp: lang_Seq_iff lang_Opt lang_Star_Cls in_cls_dash label_syntax_def
        is_lower_alnum_def [symmetric] list_all_iff)
next
  assume h: "label_syntax s"
  then obtain c t where s: "s = c # t" and c: "is_lower_alnum c" by (auto simp: label_syntax_def neq_Nil_conv)
  have "t = [] \<or> lang (Seq (Star (Cls dash_lower_alnum)) (Cls lower_alnum)) t"
  proof (cases t rule: rev_cases)
    case (snoc u d)
    with h s have "list_all (in_cls dash_lower_alnum) u" "in_cls lower_alnum d"
      by (auto simp: label_syntax_def in_cls_dash is_lower_alnum_def list_all_iff)
    then show ?thesis using snoc by (auto simp: lang_Seq_iff lang_Star_Cls)
  qed simp
  then show "lang dns1123LabelRegexp s"
    using c s lang_Seq [of "Cls lower_alnum" "[c]" _ t]
    by (auto simp: dns1123LabelRegexp_def lang_Opt is_lower_alnum_def)
qed

lemma label_no_dot: "label_syntax s \<Longrightarrow> CHR ''.'' \<notin> set s"
  by (auto simp: label_syntax_def list_all_iff)

text \<open>One step of the star: a label up to the next dot, and the rest of the labels.\<close>

lemma dotted_step:
  assumes rest: "\<And>w. length w \<le> length u \<Longrightarrow> L w \<longleftrightarrow>
      w = [] \<or> (\<exists>t. w = CHR ''.'' # t \<and> list_all label_syntax (Split (CHR ''.'') t))"
  shows "(\<exists>v w. u = v @ w \<and> label_syntax v \<and> L w) \<longleftrightarrow> list_all label_syntax (Split (CHR ''.'') u)"
proof
  assume "\<exists>v w. u = v @ w \<and> label_syntax v \<and> L w"
  then obtain v w where u: "u = v @ w" "label_syntax v" "L w" by blast
  then have "w = [] \<or> (\<exists>t. w = CHR ''.'' # t \<and> list_all label_syntax (Split (CHR ''.'') t))"
    using rest [of w] by simp
  with u label_no_dot [OF u(2)] show "list_all label_syntax (Split (CHR ''.'') u)"
    by (auto simp: Split_no_sep Split_append)
next
  assume R: "list_all label_syntax (Split (CHR ''.'') u)"
  show "\<exists>v w. u = v @ w \<and> label_syntax v \<and> L w"
  proof (cases "CHR ''.'' \<in> set u")
    case False
    with R rest [of "[]"] show ?thesis by (intro exI [of _ u] exI [of _ "[]"]) (simp add: Split_no_sep)
  next
    case True
    then obtain v t where u: "u = v @ CHR ''.'' # t" and nv: "CHR ''.'' \<notin> set v"
      using split_list_first by fast
    with R rest [of "CHR ''.'' # t"] have "L (CHR ''.'' # t)" by (simp add: Split_append)
    with R nv u show ?thesis by (auto simp: Split_append)
  qed
qed

lemma dotted_tail_lang:
  "lang (Star (Seq (Cls [(CHR ''.'', CHR ''.'')]) dns1123LabelRegexp)) s \<longleftrightarrow>
     s = [] \<or> (\<exists>t. s = CHR ''.'' # t \<and> list_all label_syntax (Split (CHR ''.'') t))"
  (is "lang (Star ?r) s \<longleftrightarrow> _")
proof (induction "length s" arbitrary: s rule: less_induct)
  case less
  show ?case
  proof (cases s)
    case Nil
    then show ?thesis by (auto intro: lang_Star0)
  next
    case (Cons c u)
    have "lang (Star ?r) s \<longleftrightarrow>
        (\<exists>v w. u = v @ w \<and> lang ?r (c # v) \<and> lang (Star ?r) w)"
      by (simp add: Cons lang_Star_Cons)
    also have "\<dots> \<longleftrightarrow> c = CHR ''.'' \<and>
        (\<exists>v w. u = v @ w \<and> label_syntax v \<and> lang (Star ?r) w)"
      using in_cls_point [of "CHR ''.''" c] by (auto simp: lang_Seq_Cons label_lang)
    also have "(\<exists>v w. u = v @ w \<and> label_syntax v \<and> lang (Star ?r) w)
        \<longleftrightarrow> list_all label_syntax (Split (CHR ''.'') u)"
      by (rule dotted_step, rule less) (simp add: Cons)
    finally show ?thesis by (simp add: Cons)
  qed
qed

lemma subdomain_lang:
  "lang dns1123SubdomainRegexp s \<longleftrightarrow> list_all label_syntax (Split (CHR ''.'') s)"
proof -
  have "lang dns1123SubdomainRegexp s \<longleftrightarrow>
      lang (Star (Seq (Cls [(CHR ''.'', CHR ''.'')]) dns1123LabelRegexp)) (CHR ''.'' # s)"
    unfolding dns1123SubdomainRegexp_def lang_Star_Cons lang_Seq_iff [of dns1123LabelRegexp]
    using in_cls_point [of "CHR ''.''" "CHR ''.''"] by (auto simp: lang_Seq_Cons)
  then show ?thesis by (simp add: dotted_tail_lang)
qed

lemma IsDNS1123Subdomain_reading:
  "IsDNS1123Subdomain s = [] \<longleftrightarrow>
     length s \<le> 253 \<and> list_all label_syntax (Split (CHR ''.'') s)"
  by (auto simp: IsDNS1123Subdomain_def DNS1123SubdomainMaxLength_def MatchString_lang subdomain_lang)

text \<open>A host is accepted by IsDNS1123Subdomain exactly when it has at most 253 bytes and each of
  its dot-separated parts is non-empty, starts and ends with [a-z0-9] and holds only [-a-z0-9]:
  the compiled regular expression decides the documented label syntax.\<close>

theorem IsDNS1123Subdomain_labels:
  "IsDNS1123Subdomain s = [] \<longleftrightarrow>
     length s \<le> 253 \<and> list_all label_syntax (Split (CHR ''.'') s)"
  by (rule IsDNS1123Subdomain_reading)

lemma IsDNS1123Subdomain_empty: "IsDNS1123Subdomain [] \<noteq> []"
  by (simp add: IsDNS1123Subdomain_def MatchString_lang subdomain_lang label_syntax_def)

end
