(* ===== verification/Meta_Types.thy ===== *)
theory Meta_Types imports Go_Strings "HOL-Library.Word" begin

text \<open>
  The parts of \<open>k8s.io/apimachinery\<close> (vendored) that every API object shares: type and object
  metadata, owner references, the int-or-string union and the cache keys. Of \<open>ObjectMeta\<close> the record
  holds the fields the operator, its informers' handlers or its listers read or write.
\<close>

section \<open>Metadata\<close>

record TypeMeta =
  tm_Kind :: string
  tm_APIVersion :: string

record OwnerReference =
  or_APIVersion :: string
  or_Kind :: string
  or_Name :: string
  or_UID :: string
  or_Controller :: "bool option"
  or_BlockOwnerDeletion :: "bool option"

record ObjectMeta =
  om_Name :: string
  om_Namespace :: string
  om_SelfLink :: string
  om_UID :: string
  om_ResourceVersion :: string
  om_DeletionTimestamp :: "nat option"
  om_Labels :: "string gomap"
  om_Annotations :: "string gomap"
  om_OwnerReferences :: "OwnerReference list"

definition emptyMeta :: ObjectMeta where
  "emptyMeta = \<lparr> om_Name = [], om_Namespace = [], om_SelfLink = [], om_UID = [],
     om_ResourceVersion = [], om_DeletionTimestamp = None, om_Labels = None,
     om_Annotations = None, om_OwnerReferences = [] \<rparr>"

text \<open>\<open>metav1.GetControllerOf\<close>: the first owner reference whose \<open>Controller\<close> flag is set.\<close>

fun controller_ref :: "OwnerReference list \<Rightarrow> OwnerReference option" where
  "controller_ref [] = None"
| "controller_ref (ref # refs) =
     (if or_Controller ref = Some True then Some ref else controller_ref refs)"

definition GetControllerOf :: "ObjectMeta \<Rightarrow> OwnerReference option" where
  "GetControllerOf m = controller_ref (om_OwnerReferences m)"

lemma controller_ref_Some:
  "controller_ref refs = Some r \<Longrightarrow> r \<in> set refs \<and> or_Controller r = Some True"
  by (induction refs) (auto split: if_splits)

section \<open>IntOrString\<close>

datatype IntOrStringType = IntType | StringType

record IntOrString =
  ios_Type :: IntOrStringType
  ios_IntVal :: "32 word"
  ios_StrVal :: string

definition FromInt :: "int \<Rightarrow> IntOrString" where
  "FromInt val = \<lparr> ios_Type = IntType, ios_IntVal = word_of_int val, ios_StrVal = [] \<rparr>"

definition FromString :: "string \<Rightarrow> IntOrString" where
  "FromString val = \<lparr> ios_Type = StringType, ios_IntVal = 0, ios_StrVal = val \<rparr>"

definition ios_String :: "IntOrString \<Rightarrow> string" where
  "ios_String v = (if ios_Type v = StringType then ios_StrVal v else Itoa (sint (ios_IntVal v)))"

lemma ios_String_empty: "ios_String v = [] \<longleftrightarrow> ios_Type v = StringType \<and> ios_StrVal v = []"
  by (cases "ios_Type v") (auto simp: ios_String_def)

section \<open>Cache keys\<close>

text \<open>
  \<open>cache.MetaNamespaceKeyFunc\<close> and \<open>cache.SplitMetaNamespaceKey\<close>: the keys of the work queue and of
  the informers' stores. The listers build their keys as namespace, slash, name.
\<close>

definition MetaNamespaceKey :: "ObjectMeta \<Rightarrow> string" where
  "MetaNamespaceKey m =
     (if length (om_Namespace m) > 0 then om_Namespace m @ ''/'' @ om_Name m else om_Name m)"

definition SplitMetaNamespaceKey :: "string \<Rightarrow> go_error + string \<times> string" where
  "SplitMetaNamespaceKey key =
     (case Split (CHR ''/'') key of
        [name] \<Rightarrow> Inr ([], name)
      | [namespace, name] \<Rightarrow> Inr (namespace, name)
      | _ \<Rightarrow> Inl (PlainError (''unexpected key format: '' @ Quote key)))"

definition listerKey :: "string \<Rightarrow> string \<Rightarrow> string" where
  "listerKey namespace name = namespace @ ''/'' @ name"

lemma Split_key:
  assumes "CHR ''/'' \<notin> set ns" "CHR ''/'' \<notin> set nm"
  shows "Split (CHR ''/'') (ns @ ''/'' @ nm) = [ns, nm]"
  using assms Split_append [of "CHR ''/''" ns nm] by (simp add: Split_no_sep)

theorem SplitMetaNamespaceKey_roundtrip:
  assumes "CHR ''/'' \<notin> set (om_Namespace m)" "CHR ''/'' \<notin> set (om_Name m)"
  shows "SplitMetaNamespaceKey (MetaNamespaceKey m) = Inr (om_Namespace m, om_Name m)"
proof (cases "om_Namespace m = []")
  case True
  with assms show ?thesis
    by (simp add: SplitMetaNamespaceKey_def MetaNamespaceKey_def Split_no_sep)
next
  case False
  with Split_key [OF assms] show ?thesis
    by (simp add: SplitMetaNamespaceKey_def MetaNamespaceKey_def)
qed

lemma SplitMetaNamespaceKey_Inr:
  assumes "SplitMetaNamespaceKey key = Inr (ns, nm)"
  shows "CHR ''/'' \<notin> set ns \<and> CHR ''/'' \<notin> set nm \<and> (key = ns @ ''/'' @ nm \<or> ns = [] \<and> key = nm)"
proof -
  have no: "CHR ''/'' \<notin> set p" if "p \<in> set (Split (CHR ''/'') key)" for p
    using that by (rule Split_part_no_sep)
  consider "Split (CHR ''/'') key = [ns, nm]" | "ns = []" "Split (CHR ''/'') key = [nm]"
    using assms unfolding SplitMetaNamespaceKey_def by (auto split: list.splits)
  then show ?thesis
  proof cases
    case 1
    then have "key = ns @ ''/'' @ nm" using Join_Split [of "CHR ''/''" key] by simp
    moreover have "CHR ''/'' \<notin> set ns" "CHR ''/'' \<notin> set nm" using no 1 by simp_all
    ultimately show ?thesis by blast
  next
    case 2
    then have "key = nm" using Join_Split [of "CHR ''/''" key] by simp
    moreover have "CHR ''/'' \<notin> set nm" using no 2 by simp
    ultimately show ?thesis using 2 by simp
  qed
qed

text \<open>Distinct namespace/name pairs get distinct lister keys.\<close>

lemma listerKey_inject:
  assumes "CHR ''/'' \<notin> set ns" "CHR ''/'' \<notin> set nm" "CHR ''/'' \<notin> set ns'" "CHR ''/'' \<notin> set nm'"
  shows "listerKey ns nm = listerKey ns' nm' \<longleftrightarrow> ns = ns' \<and> nm = nm'"
proof
  assume "listerKey ns nm = listerKey ns' nm'"
  then have "Split (CHR ''/'') (ns @ ''/'' @ nm) = Split (CHR ''/'') (ns' @ ''/'' @ nm')"
    by (simp only: listerKey_def)
  then have "[ns, nm] = [ns', nm']"
    by (simp only: Split_key [OF assms(1,2)] Split_key [OF assms(3,4)])
  then show "ns = ns' \<and> nm = nm'" by simp
qed simp

section \<open>The codec interface\<close>

text \<open>
  What the controller needs of its queue keys: a key written for an object is read back as its
  namespace and name, and no two well-formed objects share a key.
\<close>

locale key_codec =
  fixes enc :: "string \<times> string \<Rightarrow> string"
    and dec :: "string \<Rightarrow> go_error + string \<times> string"
    and ok :: "string \<times> string \<Rightarrow> bool"
  assumes dec_enc: "ok p \<Longrightarrow> dec (enc p) = Inr p"
begin

lemma enc_inject: "ok p \<Longrightarrow> ok q \<Longrightarrow> enc p = enc q \<longleftrightarrow> p = q"
  by (metis dec_enc sum.inject(2))

end

definition metaKey :: "string \<times> string \<Rightarrow> string" where
  "metaKey p = MetaNamespaceKey (emptyMeta\<lparr>om_Namespace := fst p, om_Name := snd p\<rparr>)"

definition slashFree :: "string \<times> string \<Rightarrow> bool" where
  "slashFree p \<longleftrightarrow> CHR ''/'' \<notin> set (fst p) \<and> CHR ''/'' \<notin> set (snd p)"

lemma MetaNamespaceKey_metaKey: "MetaNamespaceKey m = metaKey (om_Namespace m, om_Name m)"
  by (simp add: metaKey_def MetaNamespaceKey_def)

interpretation meta_codec: key_codec metaKey SplitMetaNamespaceKey slashFree
proof unfold_locales
  fix p :: "string \<times> string"
  assume "slashFree p"
  then show "SplitMetaNamespaceKey (metaKey p) = Inr p"
    using SplitMetaNamespaceKey_roundtrip [of "emptyMeta\<lparr>om_Namespace := fst p, om_Name := snd p\<rparr>"]
    by (simp add: metaKey_def slashFree_def)
qed

end
