(* ===== verification/Notebook_Types.thy ===== *)
theory Notebook_Types imports Validation Meta_Types begin

text \<open>
  \<open>pkg/apis/jupyter/v1\<close>: the Notebook API type (\<open>types.go\<close>), its validation, its defaults and its
  owner reference, and the group's registration (\<open>register.go\<close>). Pointers are options, the
  package list keeps the nil slice apart from the empty one, and the string types
  \<open>NotebookPhase\<close>, \<open>NotebookTLS\<close> and \<open>NotebookFlavor\<close> are strings with named constants, as in Go: any
  string is a value of them.
\<close>

section \<open>Names\<close>

definition GroupName :: string where
  "GroupName = ''jupyter.squat.ai''"

record GroupVersion =
  gv_Group :: string
  gv_Version :: string

definition SchemeGroupVersion :: GroupVersion where
  "SchemeGroupVersion = \<lparr> gv_Group = GroupName, gv_Version = ''v1'' \<rparr>"

definition GroupVersion_String :: "GroupVersion \<Rightarrow> string" where
  "GroupVersion_String gv =
     (if gv_Group gv = [] \<and> gv_Version gv = [] then []
      else if gv_Group gv = [] \<and> gv_Version gv = ''v1'' then gv_Version gv
      else if gv_Group gv \<noteq> [] then gv_Group gv @ ''/'' @ gv_Version gv
      else gv_Version gv)"

definition NotebookKind :: string where
  "NotebookKind = ''Notebook''"

definition NotebookPlural :: string where
  "NotebookPlural = ''notebooks''"

definition NotebookShortNames :: "string list" where
  "NotebookShortNames = [''nb'', ''notebook'']"

definition NotebookName :: string where
  "NotebookName = NotebookPlural @ ''.'' @ GroupName"

definition NotebookPhasePending :: string where "NotebookPhasePending = ''Pending''"
definition NotebookPhaseRunning :: string where "NotebookPhaseRunning = ''Running''"
definition NotebookPhaseUnknown :: string where "NotebookPhaseUnknown = ''Unknown''"
definition NotebookPhaseFailed :: string where "NotebookPhaseFailed = ''Failed''"

definition NotebookTLSSelfSigned :: string where "NotebookTLSSelfSigned = ''self-signed''"
definition NotebookTLSAcme :: string where "NotebookTLSAcme = ''acme''"
definition NotebookTLSNone :: string where "NotebookTLSNone = ''none''"

definition NotebookFlavorBase :: string where "NotebookFlavorBase = ''base''"
definition NotebookFlavorMinimal :: string where "NotebookFlavorMinimal = ''minimal''"
definition NotebookFlavorR :: string where "NotebookFlavorR = ''r''"
definition NotebookFlavorScipy :: string where "NotebookFlavorScipy = ''scipy''"
definition NotebookFlavorTensorFlow :: string where "NotebookFlavorTensorFlow = ''tensorflow''"
definition NotebookFlavorDataScience :: string where "NotebookFlavorDataScience = ''datascience''"
definition NotebookFlavorPyspark :: string where "NotebookFlavorPyspark = ''pyspark''"
definition NotebookFlavorAllSpark :: string where "NotebookFlavorAllSpark = ''all-spark''"

lemmas phase_defs = NotebookPhasePending_def NotebookPhaseRunning_def NotebookPhaseUnknown_def
  NotebookPhaseFailed_def

lemmas tls_defs = NotebookTLSSelfSigned_def NotebookTLSAcme_def NotebookTLSNone_def

lemma phase_neq [simp]:
  "NotebookPhasePending \<noteq> NotebookPhaseRunning" "NotebookPhaseRunning \<noteq> NotebookPhasePending"
  "NotebookPhasePending \<noteq> NotebookPhaseFailed" "NotebookPhaseFailed \<noteq> NotebookPhasePending"
  "NotebookPhaseRunning \<noteq> NotebookPhaseFailed" "NotebookPhaseFailed \<noteq> NotebookPhaseRunning"
  by (simp_all add: phase_defs)

lemma tls_neq [simp]:
  "NotebookTLSSelfSigned \<noteq> NotebookTLSNone" "NotebookTLSNone \<noteq> NotebookTLSSelfSigned"
  "NotebookTLSAcme \<noteq> NotebookTLSNone" "NotebookTLSNone \<noteq> NotebookTLSAcme"
  "NotebookTLSSelfSigned \<noteq> NotebookTLSAcme" "NotebookTLSAcme \<noteq> NotebookTLSSelfSigned"
  by (simp_all add: tls_defs)

section \<open>The Notebook type\<close>

record IngressBackend =
  ib_ServiceName :: string
  ib_ServicePort :: IntOrString

record NotebookSpec =
  spec_Flavor :: "string option"
  spec_GPU :: bool
  spec_Host :: "string option"
  spec_Ingress :: "IngressBackend option"
  spec_Packages :: "string list option"
  spec_Password :: "string option"
  spec_ServiceAccountName :: "string option"
  spec_TLS :: "string option"

record NotebookStatus =
  st_ObservedGeneration :: "64 word"
  st_Phase :: string

record Notebook =
  nb_TypeMeta :: TypeMeta
  nb_Meta :: ObjectMeta
  nb_Spec :: NotebookSpec
  nb_Status :: NotebookStatus

abbreviation nb_Name :: "Notebook \<Rightarrow> string" where
  "nb_Name n \<equiv> om_Name (nb_Meta n)"

abbreviation nb_Namespace :: "Notebook \<Rightarrow> string" where
  "nb_Namespace n \<equiv> om_Namespace (nb_Meta n)"

abbreviation nb_Kind :: "Notebook \<Rightarrow> string" where
  "nb_Kind n \<equiv> tm_Kind (nb_TypeMeta n)"

abbreviation nb_Phase :: "Notebook \<Rightarrow> string" where
  "nb_Phase n \<equiv> st_Phase (nb_Status n)"

text \<open>\<open>new(jupyterv1.Notebook)\<close>: every field at its zero value.\<close>

definition newNotebook :: Notebook where
  "newNotebook = \<lparr> nb_TypeMeta = \<lparr> tm_Kind = [], tm_APIVersion = [] \<rparr>, nb_Meta = emptyMeta,
     nb_Spec = \<lparr> spec_Flavor = None, spec_GPU = False, spec_Host = None, spec_Ingress = None,
       spec_Packages = None, spec_Password = None, spec_ServiceAccountName = None, spec_TLS = None \<rparr>,
     nb_Status = \<lparr> st_ObservedGeneration = 0, st_Phase = [] \<rparr> \<rparr>"

definition AsOwner :: "Notebook \<Rightarrow> OwnerReference" where
  "AsOwner n = \<lparr> or_APIVersion = tm_APIVersion (nb_TypeMeta n), or_Kind = tm_Kind (nb_TypeMeta n),
     or_Name = om_Name (nb_Meta n), or_UID = om_UID (nb_Meta n),
     or_Controller = Some True, or_BlockOwnerDeletion = Some True \<rparr>"

section \<open>Validation\<close>

definition validPackageName :: rexp where
  "validPackageName = Plus (Cls [(CHR ''a'', CHR ''z''), (CHR ''A'', CHR ''Z''), (CHR ''0'', CHR ''9''),
     (CHR ''-'', CHR ''-''), (CHR ''_'', CHR ''_'')])"

definition validPackageVersion :: rexp where
  "validPackageVersion = Plus (Cls [(CHR ''a'', CHR ''z''), (CHR ''A'', CHR ''Z''), (CHR ''0'', CHR ''9''),
     (CHR ''.'', CHR ''.'')])"

definition packageErr :: go_error where
  "packageErr = PlainError ''packages must be a valid list of package names and versions matching \"package\" or \"package=version\"''"

fun validatePackages :: "string list \<Rightarrow> go_error option" where
  "validatePackages [] = None"
| "validatePackages (p # ps) =
     (let parts = Split (CHR ''='') p in
      if length parts > 2 then Some packageErr
      else if \<not> MatchString validPackageName (parts ! 0) then Some packageErr
      else if length parts = 2 \<and> \<not> MatchString validPackageVersion (parts ! 1) then Some packageErr
      else validatePackages ps)"

definition Validate :: "Notebook \<Rightarrow> go_error option" where
  "Validate n =
     (if (case spec_Host (nb_Spec n) of None \<Rightarrow> False | Some h \<Rightarrow> IsDNS1123Subdomain h \<noteq> [])
      then Some (PlainError ''host is required and must be a valid DNS-1123 subdomain'')
      else if (case spec_Ingress (nb_Spec n) of None \<Rightarrow> False
               | Some ib \<Rightarrow> (ib_ServiceName ib = []) \<noteq> (ios_String (ib_ServicePort ib) = []))
      then Some (PlainError ''ingress service name and port must be both defined or both undefined'')
      else validatePackages (case spec_Packages (nb_Spec n) of None \<Rightarrow> [] | Some ps \<Rightarrow> ps))"

section \<open>Defaults\<close>

definition default_spec :: "NotebookSpec \<Rightarrow> bool \<times> NotebookSpec" where
  "default_spec s0 =
     (let c0 = False;
          (c1, s1) = (if spec_Flavor s0 = None
            then (True, s0\<lparr>spec_Flavor := Some NotebookFlavorMinimal\<rparr>) else (c0, s0));
          (c2, s2) = (if spec_Host s1 = None then (True, s1\<lparr>spec_Host := Some []\<rparr>) else (c1, s1));
          (c3, s3) = (if spec_Password s2 = None
            then (True, s2\<lparr>spec_Password := Some []\<rparr>) else (c2, s2));
          (c4, s4) = (if spec_ServiceAccountName s3 = None
            then (True, s3\<lparr>spec_ServiceAccountName := Some []\<rparr>) else (c3, s3));
          (c5, s5) = (if spec_TLS s4 = None
            then (True, s4\<lparr>spec_TLS := Some NotebookTLSSelfSigned\<rparr>) else (c4, s4))
      in (c5, s5))"

definition SetDefaults :: "Notebook \<Rightarrow> bool \<times> Notebook" where
  "SetDefaults n = (let (changed, s) = default_spec (nb_Spec n) in (changed, n\<lparr>nb_Spec := s\<rparr>))"


section \<open>What Validate accepts\<close>

definition is_alnum :: "char \<Rightarrow> bool" where
  "is_alnum c \<longleftrightarrow> in_cls [(CHR ''a'', CHR ''z''), (CHR ''A'', CHR ''Z''), (CHR ''0'', CHR ''9'')] c"

definition package_name :: "string \<Rightarrow> bool" where
  "package_name s \<longleftrightarrow> s \<noteq> [] \<and> list_all (\<lambda>c. is_alnum c \<or> c = CHR ''-'' \<or> c = CHR ''_'') s"

definition package_version :: "string \<Rightarrow> bool" where
  "package_version s \<longleftrightarrow> s \<noteq> [] \<and> list_all (\<lambda>c. is_alnum c \<or> c = CHR ''.'') s"

definition package_syntax :: "string \<Rightarrow> bool" where
  "package_syntax p \<longleftrightarrow>
     package_name p \<or> (\<exists>nm ver. p = nm @ ''='' @ ver \<and> package_name nm \<and> package_version ver)"

definition ingress_ok :: "IngressBackend \<Rightarrow> bool" where
  "ingress_ok ib \<longleftrightarrow>
     (ib_ServiceName ib = [] \<longleftrightarrow>
        ios_Type (ib_ServicePort ib) = StringType \<and> ios_StrVal (ib_ServicePort ib) = [])"

lemma in_cls_name:
  "in_cls [(CHR ''a'', CHR ''z''), (CHR ''A'', CHR ''Z''), (CHR ''0'', CHR ''9''),
     (CHR ''-'', CHR ''-''), (CHR ''_'', CHR ''_'')] = (\<lambda>c. is_alnum c \<or> c = CHR ''-'' \<or> c = CHR ''_'')"
  unfolding is_alnum_def in_cls_Cons in_cls_point fun_eq_iff by blast

lemma in_cls_version:
  "in_cls [(CHR ''a'', CHR ''z''), (CHR ''A'', CHR ''Z''), (CHR ''0'', CHR ''9''),
     (CHR ''.'', CHR ''.'')] = (\<lambda>c. is_alnum c \<or> c = CHR ''.'')"
  unfolding is_alnum_def in_cls_Cons in_cls_point fun_eq_iff by blast

lemma match_name: "MatchString validPackageName s \<longleftrightarrow> package_name s"
  by (simp only: MatchString_lang validPackageName_def lang_Plus_Cls in_cls_name package_name_def)

lemma match_version: "MatchString validPackageVersion s \<longleftrightarrow> package_version s"
  by (simp only: MatchString_lang validPackageVersion_def lang_Plus_Cls in_cls_version package_version_def)

lemma eq_not_alnum [simp]: "\<not> is_alnum (CHR ''='')"
  by (simp add: is_alnum_def of_char_def)

lemma package_no_eq:
  "package_name s \<Longrightarrow> CHR ''='' \<notin> set s"
  "package_version s \<Longrightarrow> CHR ''='' \<notin> set s"
  by (auto simp: package_name_def package_version_def list_all_iff)

lemma package_check:
  "(let parts = Split (CHR ''='') p in
     length parts \<le> 2 \<and> package_name (parts ! 0) \<and> (length parts = 2 \<longrightarrow> package_version (parts ! 1)))
   \<longleftrightarrow> package_syntax p" (is "?L \<longleftrightarrow> _")
proof
  assume L: ?L
  obtain a rest where ab: "Split (CHR ''='') p = a # rest" by (cases "Split (CHR ''='') p") auto
  show "package_syntax p"
  proof (cases rest)
    case Nil
    with ab L Split_singleton_iff [of "CHR ''=''" p a] show ?thesis
      by (simp add: package_syntax_def)
  next
    case (Cons b rest')
    with ab L have "rest' = []" "package_name a" "package_version b" by auto
    moreover have "p = a @ ''='' @ b"
      using Join_Split [of "CHR ''=''" p] ab Cons \<open>rest' = []\<close> by simp
    ultimately show ?thesis by (auto simp: package_syntax_def)
  qed
next
  assume "package_syntax p"
  then consider "package_name p" | nm ver where "p = nm @ ''='' @ ver" "package_name nm" "package_version ver"
    by (auto simp: package_syntax_def)
  then show ?L
  proof cases
    case 1
    then show ?thesis by (simp add: Split_no_sep package_no_eq)
  next
    case 2
    then have "Split (CHR ''='') p = [nm, ver]"
      using Split_append [of "CHR ''=''" nm ver] by (simp add: Split_no_sep package_no_eq)
    with 2 show ?thesis by simp
  qed
qed

lemma validatePackages_None: "validatePackages ps = None \<longleftrightarrow> list_all package_syntax ps"
proof (induction ps)
  case (Cons p ps)
  show ?case
    using Cons package_check [of p] by (auto simp: Let_def match_name match_version not_less)
qed simp

lemma validatePackages_Some: "validatePackages ps = Some e \<Longrightarrow> e = packageErr"
  by (induction ps) (auto simp: Let_def split: if_splits)


section \<open>What SetDefaults does\<close>

definition defaulted :: "NotebookSpec \<Rightarrow> bool" where
  "defaulted s \<longleftrightarrow> spec_Flavor s \<noteq> None \<and> spec_Host s \<noteq> None \<and> spec_Password s \<noteq> None
     \<and> spec_ServiceAccountName s \<noteq> None \<and> spec_TLS s \<noteq> None"

definition orElse :: "'a option \<Rightarrow> 'a \<Rightarrow> 'a option" where
  "orElse p d = (case p of None \<Rightarrow> Some d | Some x \<Rightarrow> Some x)"

lemma orElse_ne [simp]: "orElse p d \<noteq> None"
  by (simp add: orElse_def split: option.splits)

lemma default_spec_eq:
  "default_spec s =
     (\<not> defaulted s,
      s\<lparr>spec_Flavor := orElse (spec_Flavor s) NotebookFlavorMinimal,
        spec_Host := orElse (spec_Host s) [],
        spec_Password := orElse (spec_Password s) [],
        spec_ServiceAccountName := orElse (spec_ServiceAccountName s) [],
        spec_TLS := orElse (spec_TLS s) NotebookTLSSelfSigned\<rparr>)"
  by (cases "spec_Flavor s"; cases "spec_Host s"; cases "spec_Password s";
      cases "spec_ServiceAccountName s"; cases "spec_TLS s";
      simp add: default_spec_def defaulted_def orElse_def)

lemma SetDefaults_spec: "nb_Spec (snd (SetDefaults n)) = snd (default_spec (nb_Spec n))"
  by (simp add: SetDefaults_def split: prod.splits)

lemma SetDefaults_frame [simp]:
  "nb_TypeMeta (snd (SetDefaults n)) = nb_TypeMeta n"
  "nb_Meta (snd (SetDefaults n)) = nb_Meta n"
  "nb_Status (snd (SetDefaults n)) = nb_Status n"
  by (simp_all add: SetDefaults_def split: prod.splits)

lemma SetDefaults_changed: "fst (SetDefaults n) \<longleftrightarrow> \<not> defaulted (nb_Spec n)"
  by (simp add: SetDefaults_def default_spec_eq)

lemma SetDefaults_defaulted: "defaulted (nb_Spec (snd (SetDefaults n)))"
  by (simp add: SetDefaults_spec default_spec_eq defaulted_def)

lemma SetDefaults_id: "defaulted (nb_Spec n) \<Longrightarrow> SetDefaults n = (False, n)"
  by (cases n) (auto simp: SetDefaults_def default_spec_eq defaulted_def orElse_def)

text \<open>C20: SetDefaults fills exactly the unset fields: it never overwrites a field the user set, leaves
  metadata, status, GPU flag, ingress backend and packages alone, reports a change exactly when a
  field was unset, and a second application changes nothing.\<close>

theorem SetDefaults_contract:
  "SetDefaults n =
     (\<not> defaulted (nb_Spec n),
      n\<lparr>nb_Spec := (nb_Spec n)\<lparr>
        spec_Flavor := orElse (spec_Flavor (nb_Spec n)) NotebookFlavorMinimal,
        spec_Host := orElse (spec_Host (nb_Spec n)) [],
        spec_Password := orElse (spec_Password (nb_Spec n)) [],
        spec_ServiceAccountName := orElse (spec_ServiceAccountName (nb_Spec n)) [],
        spec_TLS := orElse (spec_TLS (nb_Spec n)) NotebookTLSSelfSigned\<rparr>\<rparr>)
   \<and> SetDefaults (snd (SetDefaults n)) = (False, snd (SetDefaults n))"
  using SetDefaults_id [OF SetDefaults_defaulted [of n]]
  by (simp add: SetDefaults_def default_spec_eq)

text \<open>
  The defaults make a valid notebook without a host invalid: the default host is the empty string,
  which is no DNS-1123 subdomain.
\<close>

lemma hostless_defaults_invalid:
  assumes "spec_Host (nb_Spec n) = None"
  shows "Validate (snd (SetDefaults n)) =
    Some (PlainError ''host is required and must be a valid DNS-1123 subdomain'')"
  using assms IsDNS1123Subdomain_empty
  by (simp add: Validate_def SetDefaults_spec default_spec_eq orElse_def)

end
