(* ===== verification/Core_Types.thy ===== *)
theory Core_Types imports Notebook_Types begin

text \<open>
  The Kubernetes API objects the operator manages (\<open>core/v1\<close> Service and Secret, \<open>extensions/v1beta1\<close>
  Ingress, \<open>apps/v1\<close> StatefulSet), with the fields the operator sets, reads or compares; fields it
  leaves at their zero value are not represented. Slices and maps inside a pod template keep nil
  apart from empty, because the template comparison does. Integers keep their width.
\<close>

type_synonym bytes = string

section \<open>Service and Secret\<close>

record ServicePort =
  sp_Name :: string
  sp_Port :: "32 word"
  sp_Protocol :: string

record ServiceSpec =
  svs_Ports :: "ServicePort list"
  svs_Selector :: "string gomap"
  svs_Type :: string
  svs_ClusterIP :: string

record Service =
  svc_Meta :: ObjectMeta
  svc_Spec :: ServiceSpec

record Secret =
  sec_Meta :: ObjectMeta
  sec_Data :: "bytes option gomap"

text \<open>\<open>secret.Data[k]\<close>: the nil slice when the key is absent.\<close>

definition dataGet :: "bytes option gomap \<Rightarrow> string \<Rightarrow> bytes option" where
  "dataGet m k = (case mget m k of None \<Rightarrow> None | Some b \<Rightarrow> b)"

definition TLSCertKey :: string where "TLSCertKey = ''tls.crt''"
definition TLSPrivateKeyKey :: string where "TLSPrivateKeyKey = ''tls.key''"

section \<open>Ingress\<close>

record HTTPIngressPath =
  hip_Path :: string
  hip_Backend :: IngressBackend

record IngressRule =
  ir_Host :: string
  ir_HTTP :: "HTTPIngressPath list option"

record IngressTLS =
  it_Hosts :: "string list"
  it_SecretName :: string

record IngressSpec =
  is_TLS :: "IngressTLS list"
  is_Rules :: "IngressRule list"

record Ingress =
  ing_Meta :: ObjectMeta
  ing_Spec :: IngressSpec

section \<open>StatefulSet\<close>

record ExecAction =
  ea_Command :: "string list option"

record Handler =
  h_Exec :: "ExecAction option"

record Lifecycle =
  lc_PostStart :: "Handler option"

record ContainerPort =
  cp_Name :: string
  cp_ContainerPort :: "32 word"
  cp_Protocol :: string

record SecretKeySelector =
  sks_Name :: string
  sks_Key :: string

record EnvVarSource =
  evs_SecretKeyRef :: "SecretKeySelector option"

record EnvVar =
  ev_Name :: string
  ev_Value :: string
  ev_ValueFrom :: "EnvVarSource option"

record VolumeMount =
  vm_Name :: string
  vm_ReadOnly :: bool
  vm_MountPath :: string

record Quantity =
  q_Value :: int
  q_Format :: string

record ResourceRequirements =
  rr_Limits :: "Quantity gomap"
  rr_Requests :: "Quantity gomap"

record Container =
  ct_Name :: string
  ct_Image :: string
  ct_Args :: "string list option"
  ct_Ports :: "ContainerPort list option"
  ct_Env :: "EnvVar list option"
  ct_Resources :: ResourceRequirements
  ct_VolumeMounts :: "VolumeMount list option"
  ct_Lifecycle :: "Lifecycle option"
  ct_TerminationMessagePath :: string
  ct_TerminationMessagePolicy :: string
  ct_ImagePullPolicy :: string

record KeyToPath =
  ktp_Key :: string
  ktp_Path :: string

record SecretVolumeSource =
  svol_SecretName :: string
  svol_Items :: "KeyToPath list option"
  svol_DefaultMode :: "32 word option"

record Volume =
  vol_Name :: string
  vol_Secret :: "SecretVolumeSource option"

record PodSecurityContext =
  psc_RunAsUser :: "64 word option"

record Toleration =
  tol_Key :: string
  tol_Operator :: string
  tol_Effect :: string

record PodSpec =
  ps_Volumes :: "Volume list option"
  ps_Containers :: "Container list option"
  ps_RestartPolicy :: string
  ps_TerminationGracePeriodSeconds :: "64 word option"
  ps_DNSPolicy :: string
  ps_ServiceAccountName :: string
  ps_DeprecatedServiceAccount :: string
  ps_AutomountServiceAccountToken :: "bool option"
  ps_SecurityContext :: "PodSecurityContext option"
  ps_SchedulerName :: string
  ps_Tolerations :: "Toleration list option"

record PodTemplateSpec =
  pts_Labels :: "string gomap"
  pts_Spec :: PodSpec

record StatefulSetSpec =
  sss_Replicas :: "32 word option"
  sss_MatchLabels :: "string gomap"
  sss_Template :: PodTemplateSpec
  sss_ServiceName :: string

record StatefulSet =
  sts_Meta :: ObjectMeta
  sts_Spec :: StatefulSetSpec
  sts_ReadyReplicas :: "32 word"

section \<open>Kinds and objects\<close>

text \<open>
  The five kinds the operator's clients and listers handle, and the objects themselves as one type:
  an informer's store holds \<open>interface{}\<close> values, which a lister converts back by a type assertion.
\<close>

datatype kind = KService | KSecret | KStatefulSet | KIngress | KNotebook

datatype object =
    OService Service
  | OSecret Secret
  | OStatefulSet StatefulSet
  | OIngress Ingress
  | ONotebook Notebook

primrec kind_of :: "object \<Rightarrow> kind" where
  "kind_of (OService x) = KService"
| "kind_of (OSecret x) = KSecret"
| "kind_of (OStatefulSet x) = KStatefulSet"
| "kind_of (OIngress x) = KIngress"
| "kind_of (ONotebook x) = KNotebook"

primrec meta_of :: "object \<Rightarrow> ObjectMeta" where
  "meta_of (OService x) = svc_Meta x"
| "meta_of (OSecret x) = sec_Meta x"
| "meta_of (OStatefulSet x) = sts_Meta x"
| "meta_of (OIngress x) = ing_Meta x"
| "meta_of (ONotebook x) = nb_Meta x"

text \<open>Kinds are ordered as the reconcilers list them, so they can key ordered containers.\<close>

instantiation kind :: linorder
begin

primrec kind_rank :: "kind \<Rightarrow> nat" where
  "kind_rank KService = 0"
| "kind_rank KSecret = 1"
| "kind_rank KStatefulSet = 2"
| "kind_rank KIngress = 3"
| "kind_rank KNotebook = 4"

definition less_eq_kind :: "kind \<Rightarrow> kind \<Rightarrow> bool" where
  "less_eq_kind a b \<longleftrightarrow> kind_rank a \<le> kind_rank b"

definition less_kind :: "kind \<Rightarrow> kind \<Rightarrow> bool" where
  "less_kind a b \<longleftrightarrow> kind_rank a < kind_rank b"

instance
proof
  fix a b :: kind
  show "a \<le> b \<Longrightarrow> b \<le> a \<Longrightarrow> a = b"
    by (cases a; cases b) (simp_all add: less_eq_kind_def)
qed (auto simp: less_eq_kind_def less_kind_def)

end

end
