(* ===== verification/Deep.thy ===== *)
theory Deep imports Go_Strings begin

text \<open>
  \<open>github.com/go-test/deep\<close> (vendored): the structural comparison the controller uses to decide
  whether defaults must be written back and whether a StatefulSet must be replaced. Go values are a
  universal datatype; \<open>equals\<close> is the recursive walk of the source with its depth limit, its cap on
  the number of differences and its path buffer. Map keys are visited in the order of the
  association list (Go's order is unspecified; it only affects the order of the differences).
  Identical pointers are not modelled: the walk returns early on them, where comparing the shared
  contents finds no difference either (\<open>same_refl\<close>). No compared type implements \<open>error\<close> or
  has an \<open>Equal\<close> method, except the zero \<open>CreationTimestamp\<close> of a pod template.
\<close>

datatype goval =
    GStr string
  | GInt int
  | GBool bool
  | GPtr "goval option"
  | GStruct string "(string \<times> bool \<times> goval) list"
  | GMap "(string \<times> goval) list option"
  | GSlice "goval list option"

text \<open>\<open>reflect.Type\<close>, as far as the compared values distinguish it: the kind, and a struct's name.\<close>

fun type_of :: "goval \<Rightarrow> string" where
  "type_of (GStr s) = ''string''"
| "type_of (GInt i) = ''int''"
| "type_of (GBool b) = ''bool''"
| "type_of (GPtr p) = ''ptr''"
| "type_of (GStruct nm fs) = ''struct '' @ nm"
| "type_of (GMap m) = ''map''"
| "type_of (GSlice s) = ''slice''"

text \<open>One recorded difference: the path to it and the two sides, where a side is a value or a mark.\<close>

datatype side = SideVal goval | SideMark string

record diff_entry =
  de_path :: string
  de_a :: side
  de_b :: side

record cmp =
  diff :: "diff_entry list"
  buff :: "string list"

definition MaxDiff :: nat where "MaxDiff = 10"
definition MaxDepth :: nat where "MaxDepth = 10"

definition push :: "string \<Rightarrow> cmp \<Rightarrow> cmp" where
  "push name c = c\<lparr>buff := buff c @ [name]\<rparr>"

definition pop :: "cmp \<Rightarrow> cmp" where
  "pop c = (if length (buff c) > 0 then c\<lparr>buff := butlast (buff c)\<rparr> else c)"

definition saveDiff :: "side \<Rightarrow> side \<Rightarrow> cmp \<Rightarrow> cmp" where
  "saveDiff aval bval c =
     c\<lparr>diff := diff c @ [\<lparr> de_path = (if length (buff c) > 0 then Join (buff c) ''.'' else []),
                        de_a = aval, de_b = bval \<rparr>]\<rparr>"

function (sequential) equals :: "goval option \<Rightarrow> goval option \<Rightarrow> nat \<Rightarrow> cmp \<Rightarrow> cmp"
  and equals_fields :: "(string \<times> bool \<times> goval) list \<Rightarrow> (string \<times> bool \<times> goval) list \<Rightarrow> nat \<Rightarrow> cmp \<Rightarrow> cmp"
  and equals_keys :: "(string \<times> goval) list \<Rightarrow> (string \<times> goval) list \<Rightarrow> nat \<Rightarrow> cmp \<Rightarrow> cmp"
  and equals_slice :: "nat \<Rightarrow> goval list \<Rightarrow> goval list \<Rightarrow> nat \<Rightarrow> cmp \<Rightarrow> cmp"
  and missing_keys :: "(string \<times> goval) list \<Rightarrow> (string \<times> goval) list \<Rightarrow> cmp \<Rightarrow> cmp"
where
  "equals None None level c = c"
| "equals (Some x) None level c =
     (if level > MaxDepth then c
      else saveDiff (SideMark (type_of x)) (SideMark ''<nil pointer>'') c)"
| "equals None (Some y) level c =
     (if level > MaxDepth then c
      else saveDiff (SideMark ''<nil pointer>'') (SideMark (type_of y)) c)"
| "equals (Some x) (Some y) level c =
     (if level > MaxDepth then c
      else if type_of x \<noteq> type_of y
      then saveDiff (SideMark (type_of x)) (SideMark (type_of y)) c
      else case (x, y) of
        (GPtr p, GPtr q) \<Rightarrow> equals p q (level + 1) c
      | (GStruct nm fs, GStruct nm' gs) \<Rightarrow> equals_fields fs gs level c
      | (GMap None, GMap None) \<Rightarrow> c
      | (GMap None, GMap (Some b)) \<Rightarrow> saveDiff (SideMark ''<nil map>'') (SideVal y) c
      | (GMap (Some a), GMap None) \<Rightarrow> saveDiff (SideVal x) (SideMark ''<nil map>'') c
      | (GMap (Some a), GMap (Some b)) \<Rightarrow>
          (let c1 = equals_keys a b level c in
           if length (diff c1) \<ge> MaxDiff \<and> a \<noteq> [] then c1 else missing_keys a b c1)
      | (GSlice None, GSlice None) \<Rightarrow> c
      | (GSlice None, GSlice (Some b)) \<Rightarrow> saveDiff (SideMark ''<nil slice>'') (SideVal y) c
      | (GSlice (Some a), GSlice None) \<Rightarrow> saveDiff (SideVal x) (SideMark ''<nil slice>'') c
      | (GSlice (Some a), GSlice (Some b)) \<Rightarrow> equals_slice 0 a b level c
      | (GBool a, GBool b) \<Rightarrow> if a \<noteq> b then saveDiff (SideVal x) (SideVal y) c else c
      | (GInt a, GInt b) \<Rightarrow> if a \<noteq> b then saveDiff (SideVal x) (SideVal y) c else c
      | (GStr a, GStr b) \<Rightarrow> if a \<noteq> b then saveDiff (SideVal x) (SideVal y) c else c
      | _ \<Rightarrow> c)"
| "equals_fields ((nm, exported, av) # fs) ((nm', exported', bv) # gs) level c =
     (if \<not> exported then equals_fields fs gs level c
      else let c1 = pop (equals (Some av) (Some bv) (level + 1) (push nm c)) in
        if length (diff c1) \<ge> MaxDiff then c1 else equals_fields fs gs level c1)"
| "equals_fields fs gs level c = c"
| "equals_keys [] b level c = c"
| "equals_keys ((k, av) # a) b level c =
     (let c1 = push (''map['' @ k @ '']'') c;
          c2 = (case map_of b k of
                  Some bv \<Rightarrow> equals (Some av) (Some bv) (level + 1) c1
                | None \<Rightarrow> saveDiff (SideVal av) (SideMark ''<does not have key>'') c1);
          c3 = pop c2
      in if length (diff c3) \<ge> MaxDiff then c3 else equals_keys a b level c3)"
| "equals_slice i [] [] level c = c"
| "equals_slice i (av # a) (bv # b) level c =
     (let c1 = pop (equals (Some av) (Some bv) (level + 1) (push (''slice['' @ utoa i @ '']'') c)) in
      if length (diff c1) \<ge> MaxDiff then c1 else equals_slice (Suc i) a b level c1)"
| "equals_slice i (av # a) [] level c =
     (let c1 = pop (saveDiff (SideVal av) (SideMark ''<no value>'') (push (''slice['' @ utoa i @ '']'') c)) in
      if length (diff c1) \<ge> MaxDiff then c1 else equals_slice (Suc i) a [] level c1)"
| "equals_slice i [] (bv # b) level c =
     (let c1 = pop (saveDiff (SideMark ''<no value>'') (SideVal bv) (push (''slice['' @ utoa i @ '']'') c)) in
      if length (diff c1) \<ge> MaxDiff then c1 else equals_slice (Suc i) [] b level c1)"
| "missing_keys a [] c = c"
| "missing_keys a ((k, bv) # b) c =
     (if map_of a k \<noteq> None then missing_keys a b c
      else let c1 = pop (saveDiff (SideMark ''<does not have key>'') (SideVal bv)
                          (push (''map['' @ k @ '']'') c)) in
        if length (diff c1) \<ge> MaxDiff then c1 else missing_keys a b c1)"
  by pat_completeness auto
termination
  by (relation "measures [
      \<lambda>x. case x of
        Inl (Inl (a, b, level, c)) \<Rightarrow> (case a of None \<Rightarrow> 0 | Some v \<Rightarrow> size v)
      | Inl (Inr (fs, gs, level, c)) \<Rightarrow> size_list (size_prod (\<lambda>_. 0) (size_prod (\<lambda>_. 0) size)) fs
      | Inr (Inl (a, b, level, c)) \<Rightarrow> size_list (size_prod (\<lambda>_. 0) size) a
      | Inr (Inr (Inl (i, a, b, level, c))) \<Rightarrow> size_list size a
      | Inr (Inr (Inr (a, b, c))) \<Rightarrow> 0,
      \<lambda>x. case x of
        Inr (Inr (Inl (i, a, b, level, c))) \<Rightarrow> length b
      | Inr (Inr (Inr (a, b, c))) \<Rightarrow> length b
      | _ \<Rightarrow> 0]")
    (auto split: option.splits)


declare equals.simps(4) [simp del] equals_fields.simps(1) [simp del] equals_keys.simps(2) [simp del]
  equals_slice.simps(2-4) [simp del] missing_keys.simps(2) [simp del]

definition Equal :: "goval \<Rightarrow> goval \<Rightarrow> diff_entry list" where
  "Equal a b = diff (equals (Some a) (Some b) 0 \<lparr> diff = [], buff = [] \<rparr>)"

lemma diff_push_pop [simp]: "diff (push nm c) = diff c" "diff (pop c) = diff c"
  by (simp_all add: push_def pop_def)

lemma diff_saveDiff [simp]: "diff (saveDiff a b c) \<noteq> []"
  by (simp add: saveDiff_def)

lemma MaxDiff_ne: "length (diff c) \<ge> MaxDiff \<Longrightarrow> diff c \<noteq> []"
  by (auto simp: MaxDiff_def)

section \<open>A reference reading: agreement up to a depth\<close>

text \<open>
  \<open>agree d a b\<close>: the two values cannot be told apart by looking at most \<open>d\<close> levels deep at exported
  fields. It has no accumulator, no path and no cap.
\<close>

primrec agree :: "nat \<Rightarrow> goval option \<Rightarrow> goval option \<Rightarrow> bool" where
  "agree 0 a b = True"
| "agree (Suc d) a b =
     (case (a, b) of
        (None, None) \<Rightarrow> True
      | (Some (GPtr p), Some (GPtr q)) \<Rightarrow> agree d p q
      | (Some (GStruct nm fs), Some (GStruct nm' gs)) \<Rightarrow>
          nm = nm' \<and> (\<forall>((_, exported, x), (_, _, y)) \<in> set (zip fs gs). exported \<longrightarrow> agree d (Some x) (Some y))
      | (Some (GMap None), Some (GMap None)) \<Rightarrow> True
      | (Some (GMap (Some m)), Some (GMap (Some m'))) \<Rightarrow>
          (\<forall>(k, x) \<in> set m. case map_of m' k of None \<Rightarrow> False | Some y \<Rightarrow> agree d (Some x) (Some y))
          \<and> (\<forall>(k, _) \<in> set m'. map_of m k \<noteq> None)
      | (Some (GSlice None), Some (GSlice None)) \<Rightarrow> True
      | (Some (GSlice (Some xs)), Some (GSlice (Some ys))) \<Rightarrow>
          length xs = length ys \<and> (\<forall>(x, y) \<in> set (zip xs ys). agree d (Some x) (Some y))
      | (Some (GBool x), Some (GBool y)) \<Rightarrow> x = y
      | (Some (GInt x), Some (GInt y)) \<Rightarrow> x = y
      | (Some (GStr x), Some (GStr y)) \<Rightarrow> x = y
      | _ \<Rightarrow> False)"

lemma agree_None [simp]: "agree d None None"
  by (cases d) simp_all

lemma agree_Some_None [simp]: "agree d (Some x) None \<longleftrightarrow> d = 0"
  by (cases d; cases x) (simp_all split: option.split)

lemma agree_None_Some [simp]: "agree d None (Some y) \<longleftrightarrow> d = 0"
  by (cases d; cases y) (simp_all split: option.split)

text \<open>The case of two maps, given what the loops over their keys find.\<close>

lemma equals_maps_agree:
  assumes "\<not> level > MaxDepth"
    and keys: "diff (equals_keys m m' level c) = [] \<longleftrightarrow> diff c = [] \<and>
      (\<forall>(k, v) \<in> set m. case map_of m' k of None \<Rightarrow> False | Some w \<Rightarrow> agree (MaxDepth - level) (Some v) (Some w))"
    and missing: "\<not> (length (diff (equals_keys m m' level c)) \<ge> MaxDiff \<and> m \<noteq> []) \<Longrightarrow>
      diff (missing_keys m m' (equals_keys m m' level c)) = [] \<longleftrightarrow>
        diff (equals_keys m m' level c) = [] \<and> (\<forall>(k, _) \<in> set m'. map_of m k \<noteq> None)"
  shows "diff (equals (Some (GMap (Some m))) (Some (GMap (Some m'))) level c) = [] \<longleftrightarrow>
    diff c = [] \<and> agree (Suc (MaxDepth - level)) (Some (GMap (Some m))) (Some (GMap (Some m')))"
proof (cases "length (diff (equals_keys m m' level c)) \<ge> MaxDiff \<and> m \<noteq> []")
  case True
  then have "diff (equals_keys m m' level c) \<noteq> []" using MaxDiff_ne by blast
  with True keys assms(1) show ?thesis by (auto simp: equals.simps(4) Let_def)
next
  case False
  then have "equals (Some (GMap (Some m))) (Some (GMap (Some m'))) level c =
      missing_keys m m' (equals_keys m m' level c)"
    using assms(1) by (auto simp: equals.simps(4) Let_def)
  with missing [OF False] keys show ?thesis by simp
qed

lemma equals_agree_all:
  "diff (equals a b level c) = [] \<longleftrightarrow> diff c = [] \<and> agree (Suc MaxDepth - level) a b"
  "diff (equals_fields fs gs level c) = [] \<longleftrightarrow> diff c = [] \<and>
     (\<forall>((_, exported, x), (_, _, y)) \<in> set (zip fs gs). exported \<longrightarrow> agree (MaxDepth - level) (Some x) (Some y))"
  "diff (equals_keys m m' level c) = [] \<longleftrightarrow> diff c = [] \<and>
     (\<forall>(k, x) \<in> set m. case map_of m' k of None \<Rightarrow> False | Some y \<Rightarrow> agree (MaxDepth - level) (Some x) (Some y))"
  "diff (equals_slice i xs ys level c) = [] \<longleftrightarrow> diff c = [] \<and>
     length xs = length ys \<and> (\<forall>(x, y) \<in> set (zip xs ys). agree (MaxDepth - level) (Some x) (Some y))"
  "diff (missing_keys m m' c) = [] \<longleftrightarrow> diff c = [] \<and> (\<forall>(k, _) \<in> set m'. map_of m k \<noteq> None)"
proof (induction a b level c and fs gs level c and m m' level c and i xs ys level c and m m' c
    rule: equals_equals_fields_equals_keys_equals_slice_missing_keys.induct)
  case (4 x y level c)
  show ?case
  proof (cases "level > MaxDepth")
    case True
    then show ?thesis by (simp add: equals.simps(4))
  next
    case False
    then have d: "Suc MaxDepth - level = Suc (MaxDepth - level)" by simp
    show ?thesis
    proof (cases "\<exists>m m'. x = GMap (Some m) \<and> y = GMap (Some m')")
      case True
      then obtain m m' where x: "x = GMap (Some m)" and y: "y = GMap (Some m')" by blast
      show ?thesis
        unfolding d x y
      proof (rule equals_maps_agree [OF False])
        show "diff (equals_keys m m' level c) = [] \<longleftrightarrow> diff c = [] \<and> (\<forall>(k, v) \<in> set m.
            case map_of m' k of None \<Rightarrow> False | Some w \<Rightarrow> agree (MaxDepth - level) (Some v) (Some w))"
          by (rule "4.IH"(3) [OF False _ refl x refl y refl]) (simp add: x y)
        show "diff (missing_keys m m' (equals_keys m m' level c)) = [] \<longleftrightarrow>
            diff (equals_keys m m' level c) = [] \<and> (\<forall>(k, _) \<in> set m'. map_of m k \<noteq> None)"
          if "\<not> (length (diff (equals_keys m m' level c)) \<ge> MaxDiff \<and> m \<noteq> [])"
          by (rule "4.IH"(4) [OF False _ refl x refl y refl refl that]) (simp add: x y)
      qed
    next
      case noMap: False
      then show ?thesis
        using False 4 unfolding d
        by (cases x; cases y) (auto simp: equals.simps(4) split: option.splits)
    qed
  qed
next
  case (5 nm exported av fs nm' exported' bv gs level c)
  then show ?case
    using MaxDiff_ne [of "pop (equals (Some av) (Some bv) (level + 1) (push nm c))"]
    by (auto simp: equals_fields.simps(1) Let_def)
next
  case (8 k av a b level c)
  then show ?case
    by (auto simp: equals_keys.simps(2) Let_def split: option.splits dest!: MaxDiff_ne)
next
  case (10 i av a bv b level c)
  then show ?case
    by (auto simp: equals_slice.simps(2) Let_def dest!: MaxDiff_ne)
next
  case (14 a k bv b c)
  then show ?case
    by (auto simp: missing_keys.simps(2) Let_def dest!: MaxDiff_ne)
qed (auto simp: equals_slice.simps(3-4) Let_def)

lemma Equal_agree: "Equal a b = [] \<longleftrightarrow> agree (Suc MaxDepth) (Some a) (Some b)"
  by (simp add: Equal_def equals_agree_all)

end
