(* ===== verification/Template_Diff.thy ===== *)
theory Template_Diff imports Core_Types Deep begin

text \<open>
  The two comparisons the controller makes with \<open>deep.Equal\<close>: a notebook's spec against its
  defaulted copy (\<open>specDiff\<close> in \<open>sync\<close>), and a computed pod template against the one in the cluster
  (\<open>templateDiff\<close> in \<open>CreateOrUpdateStatefulSet\<close>). The encodings list the represented fields
  in the order of the Go structs, an embedded struct as a field of its own.
\<close>

section \<open>Encodings\<close>

definition fld :: "string \<Rightarrow> goval \<Rightarrow> string \<times> bool \<times> goval" where
  "fld nm v = (nm, True, v)"

definition gptr :: "('a \<Rightarrow> goval) \<Rightarrow> 'a option \<Rightarrow> goval" where
  "gptr f p = GPtr (map_option f p)"

definition gslice :: "('a \<Rightarrow> goval) \<Rightarrow> 'a list option \<Rightarrow> goval" where
  "gslice f xs = GSlice (map_option (map f) xs)"

definition gmap :: "('a \<Rightarrow> goval) \<Rightarrow> 'a gomap \<Rightarrow> goval" where
  "gmap f m = GMap (map_option (map (\<lambda>(k, v). (k, f v))) m)"

definition gword :: "'a::len word \<Rightarrow> goval" where
  "gword w = GInt (sint w)"

definition enc_IntOrString :: "IntOrString \<Rightarrow> goval" where
  "enc_IntOrString v = GStruct ''IntOrString''
     [fld ''Type'' (GInt (case ios_Type v of IntType \<Rightarrow> 0 | StringType \<Rightarrow> 1)),
      fld ''IntVal'' (gword (ios_IntVal v)), fld ''StrVal'' (GStr (ios_StrVal v))]"

definition enc_IngressBackend :: "IngressBackend \<Rightarrow> goval" where
  "enc_IngressBackend ib = GStruct ''IngressBackend''
     [fld ''ServiceName'' (GStr (ib_ServiceName ib)),
      fld ''ServicePort'' (enc_IntOrString (ib_ServicePort ib))]"

definition enc_NotebookSpec :: "NotebookSpec \<Rightarrow> goval" where
  "enc_NotebookSpec s = GStruct ''NotebookSpec''
     [fld ''Flavor'' (gptr GStr (spec_Flavor s)), fld ''GPU'' (GBool (spec_GPU s)),
      fld ''Host'' (gptr GStr (spec_Host s)), fld ''Ingress'' (gptr enc_IngressBackend (spec_Ingress s)),
      fld ''Packages'' (gslice GStr (spec_Packages s)), fld ''Password'' (gptr GStr (spec_Password s)),
      fld ''ServiceAccountName'' (gptr GStr (spec_ServiceAccountName s)),
      fld ''TLS'' (gptr GStr (spec_TLS s))]"

definition enc_ExecAction :: "ExecAction \<Rightarrow> goval" where
  "enc_ExecAction e = GStruct ''ExecAction'' [fld ''Command'' (gslice GStr (ea_Command e))]"

definition enc_Handler :: "Handler \<Rightarrow> goval" where
  "enc_Handler h = GStruct ''Handler'' [fld ''Exec'' (gptr enc_ExecAction (h_Exec h))]"

definition enc_Lifecycle :: "Lifecycle \<Rightarrow> goval" where
  "enc_Lifecycle l = GStruct ''Lifecycle'' [fld ''PostStart'' (gptr enc_Handler (lc_PostStart l))]"

definition enc_ContainerPort :: "ContainerPort \<Rightarrow> goval" where
  "enc_ContainerPort p = GStruct ''ContainerPort''
     [fld ''Name'' (GStr (cp_Name p)), fld ''ContainerPort'' (gword (cp_ContainerPort p)),
      fld ''Protocol'' (GStr (cp_Protocol p))]"

definition enc_SecretKeySelector :: "SecretKeySelector \<Rightarrow> goval" where
  "enc_SecretKeySelector k = GStruct ''SecretKeySelector''
     [fld ''LocalObjectReference'' (GStruct ''LocalObjectReference'' [fld ''Name'' (GStr (sks_Name k))]),
      fld ''Key'' (GStr (sks_Key k))]"

definition enc_EnvVarSource :: "EnvVarSource \<Rightarrow> goval" where
  "enc_EnvVarSource v = GStruct ''EnvVarSource''
     [fld ''SecretKeyRef'' (gptr enc_SecretKeySelector (evs_SecretKeyRef v))]"

definition enc_EnvVar :: "EnvVar \<Rightarrow> goval" where
  "enc_EnvVar v = GStruct ''EnvVar''
     [fld ''Name'' (GStr (ev_Name v)), fld ''Value'' (GStr (ev_Value v)),
      fld ''ValueFrom'' (gptr enc_EnvVarSource (ev_ValueFrom v))]"

definition enc_VolumeMount :: "VolumeMount \<Rightarrow> goval" where
  "enc_VolumeMount m = GStruct ''VolumeMount''
     [fld ''Name'' (GStr (vm_Name m)), fld ''ReadOnly'' (GBool (vm_ReadOnly m)),
      fld ''MountPath'' (GStr (vm_MountPath m))]"

text \<open>
  \<open>resource.Quantity\<close> has no \<open>Equal\<close> method and keeps its amount in unexported fields, which the walk
  skips: only the embedded \<open>Format\<close> is compared.
\<close>

definition enc_Quantity :: "Quantity \<Rightarrow> goval" where
  "enc_Quantity q = GStruct ''Quantity''
     [(''i'', False, GInt (q_Value q)), fld ''Format'' (GStr (q_Format q))]"

definition enc_ResourceRequirements :: "ResourceRequirements \<Rightarrow> goval" where
  "enc_ResourceRequirements r = GStruct ''ResourceRequirements''
     [fld ''Limits'' (gmap enc_Quantity (rr_Limits r)), fld ''Requests'' (gmap enc_Quantity (rr_Requests r))]"

definition enc_Container :: "Container \<Rightarrow> goval" where
  "enc_Container c = GStruct ''Container''
     [fld ''Name'' (GStr (ct_Name c)), fld ''Image'' (GStr (ct_Image c)),
      fld ''Args'' (gslice GStr (ct_Args c)), fld ''Ports'' (gslice enc_ContainerPort (ct_Ports c)),
      fld ''Env'' (gslice enc_EnvVar (ct_Env c)),
      fld ''Resources'' (enc_ResourceRequirements (ct_Resources c)),
      fld ''VolumeMounts'' (gslice enc_VolumeMount (ct_VolumeMounts c)),
      fld ''Lifecycle'' (gptr enc_Lifecycle (ct_Lifecycle c)),
      fld ''TerminationMessagePath'' (GStr (ct_TerminationMessagePath c)),
      fld ''TerminationMessagePolicy'' (GStr (ct_TerminationMessagePolicy c)),
      fld ''ImagePullPolicy'' (GStr (ct_ImagePullPolicy c))]"

definition enc_KeyToPath :: "KeyToPath \<Rightarrow> goval" where
  "enc_KeyToPath k = GStruct ''KeyToPath''
     [fld ''Key'' (GStr (ktp_Key k)), fld ''Path'' (GStr (ktp_Path k))]"

definition enc_SecretVolumeSource :: "SecretVolumeSource \<Rightarrow> goval" where
  "enc_SecretVolumeSource v = GStruct ''SecretVolumeSource''
     [fld ''SecretName'' (GStr (svol_SecretName v)), fld ''Items'' (gslice enc_KeyToPath (svol_Items v)),
      fld ''DefaultMode'' (gptr gword (svol_DefaultMode v))]"

definition enc_Volume :: "Volume \<Rightarrow> goval" where
  "enc_Volume v = GStruct ''Volume''
     [fld ''Name'' (GStr (vol_Name v)),
      fld ''VolumeSource'' (GStruct ''VolumeSource''
        [fld ''Secret'' (gptr enc_SecretVolumeSource (vol_Secret v))])]"

definition enc_PodSecurityContext :: "PodSecurityContext \<Rightarrow> goval" where
  "enc_PodSecurityContext c = GStruct ''PodSecurityContext''
     [fld ''RunAsUser'' (gptr gword (psc_RunAsUser c))]"

definition enc_Toleration :: "Toleration \<Rightarrow> goval" where
  "enc_Toleration t = GStruct ''Toleration''
     [fld ''Key'' (GStr (tol_Key t)), fld ''Operator'' (GStr (tol_Operator t)),
      fld ''Effect'' (GStr (tol_Effect t))]"

definition enc_PodSpec :: "PodSpec \<Rightarrow> goval" where
  "enc_PodSpec p = GStruct ''PodSpec''
     [fld ''Volumes'' (gslice enc_Volume (ps_Volumes p)),
      fld ''Containers'' (gslice enc_Container (ps_Containers p)),
      fld ''RestartPolicy'' (GStr (ps_RestartPolicy p)),
      fld ''TerminationGracePeriodSeconds'' (gptr gword (ps_TerminationGracePeriodSeconds p)),
      fld ''DNSPolicy'' (GStr (ps_DNSPolicy p)),
      fld ''ServiceAccountName'' (GStr (ps_ServiceAccountName p)),
      fld ''DeprecatedServiceAccount'' (GStr (ps_DeprecatedServiceAccount p)),
      fld ''AutomountServiceAccountToken'' (gptr GBool (ps_AutomountServiceAccountToken p)),
      fld ''SecurityContext'' (gptr enc_PodSecurityContext (ps_SecurityContext p)),
      fld ''SchedulerName'' (GStr (ps_SchedulerName p)),
      fld ''Tolerations'' (gslice enc_Toleration (ps_Tolerations p))]"

definition enc_PodTemplateSpec :: "PodTemplateSpec \<Rightarrow> goval" where
  "enc_PodTemplateSpec t = GStruct ''PodTemplateSpec''
     [fld ''ObjectMeta'' (GStruct ''ObjectMeta'' [fld ''Labels'' (gmap GStr (pts_Labels t))]),
      fld ''Spec'' (enc_PodSpec (pts_Spec t))]"

definition specDiff :: "NotebookSpec \<Rightarrow> NotebookSpec \<Rightarrow> diff_entry list" where
  "specDiff a b = Equal (enc_NotebookSpec a) (enc_NotebookSpec b)"

definition templateDiff :: "PodTemplateSpec \<Rightarrow> PodTemplateSpec \<Rightarrow> diff_entry list" where
  "templateDiff a b = Equal (enc_PodTemplateSpec a) (enc_PodTemplateSpec b)"

section \<open>Agreement of encoded values\<close>

named_theorems agree_simps \<open>agreement of encoded values at a positive depth\<close>

lemma agree_prims [agree_simps]:
  "agree (Suc d) (Some (GStr a)) (Some (GStr b)) \<longleftrightarrow> a = b"
  "agree (Suc d) (Some (GInt i)) (Some (GInt j)) \<longleftrightarrow> i = j"
  "agree (Suc d) (Some (GBool p)) (Some (GBool q)) \<longleftrightarrow> p = q"
  by simp_all

lemma agree_gword [agree_simps]:
  fixes v w :: "'a::len word"
  shows "agree (Suc d) (Some (gword v)) (Some (gword w)) \<longleftrightarrow> v = w"
  by (auto simp: gword_def intro: signed_word_eqI)

lemma agree_gptr [agree_simps]:
  "agree (Suc d) (Some (gptr f p)) (Some (gptr f q)) \<longleftrightarrow>
     (case (p, q) of (None, None) \<Rightarrow> True | (Some x, Some y) \<Rightarrow> agree d (Some (f x)) (Some (f y))
      | _ \<Rightarrow> d = 0)"
  by (cases p; cases q) (simp_all add: gptr_def)

lemma set_zip_maps:
  "(\<forall>(x, y) \<in> set (zip (map f xs) (map f ys)). P x y) \<longleftrightarrow> (\<forall>(x, y) \<in> set (zip xs ys). P (f x) (f y))"
  by (auto simp: zip_map_map)

lemma agree_gslice [agree_simps]:
  "agree (Suc d) (Some (gslice f p)) (Some (gslice f q)) \<longleftrightarrow>
     (case (p, q) of (None, None) \<Rightarrow> True
      | (Some xs, Some ys) \<Rightarrow> list_all2 (\<lambda>x y. agree d (Some (f x)) (Some (f y))) xs ys
      | _ \<Rightarrow> False)"
  by (cases p; cases q) (simp_all add: gslice_def list_all2_iff set_zip_maps)

lemma agree_struct [agree_simps]:
  "agree (Suc d) (Some (GStruct nm [])) (Some (GStruct nm []))"
  "agree (Suc d) (Some (GStruct nm (fld l x # fs))) (Some (GStruct nm (fld l y # gs))) \<longleftrightarrow>
     agree d (Some x) (Some y) \<and> agree (Suc d) (Some (GStruct nm fs)) (Some (GStruct nm gs))"
  "agree (Suc d) (Some (GStruct nm ((l, False, x) # fs))) (Some (GStruct nm ((l', e, y) # gs))) \<longleftrightarrow>
     agree (Suc d) (Some (GStruct nm fs)) (Some (GStruct nm gs))"
  by (simp_all add: fld_def)


definition gomap_rel :: "('v \<Rightarrow> 'v \<Rightarrow> bool) \<Rightarrow> 'v gomap \<Rightarrow> 'v gomap \<Rightarrow> bool" where
  "gomap_rel R m m' \<longleftrightarrow>
     (case (m, m') of (None, None) \<Rightarrow> True
      | (Some a, Some b) \<Rightarrow>
          (\<forall>(k, x) \<in> set a. case map_of b k of None \<Rightarrow> False | Some y \<Rightarrow> R x y)
          \<and> (\<forall>(k, _) \<in> set b. map_of a k \<noteq> None)
      | _ \<Rightarrow> False)"

lemma map_of_map_snd:
  "map_of (map (\<lambda>(k, v). (k, f v)) m) k = map_option f (map_of m k)"
  "map_of (map (\<lambda>p. (fst p, f (snd p))) m) k = map_option f (map_of m k)"
  by (induction m) auto

lemma agree_gmap [agree_simps]:
  "agree (Suc d) (Some (gmap f m)) (Some (gmap f m')) \<longleftrightarrow>
     gomap_rel (\<lambda>x y. agree d (Some (f x)) (Some (f y))) m m'"
proof (cases m; cases m')
  fix a b assume "m = Some a" "m' = Some b"
  then show ?thesis
    by (simp add: gmap_def gomap_rel_def map_of_map_snd case_prod_unfold split: option.split)
qed (simp_all add: gmap_def gomap_rel_def)

lemma list_all2_eq_conv: "list_all2 (=) = (=)"
  by (rule list.rel_eq)

lemma depth_11: "Suc MaxDepth = Suc (Suc (Suc (Suc (Suc (Suc (Suc (Suc (Suc (Suc (Suc 0))))))))))"
  by (simp add: MaxDepth_def)

lemma agree_0_fun: "agree 0 = (\<lambda>a b. True)"
  by (simp add: fun_eq_iff)

section \<open>The spec comparison is exact\<close>

lemma agree_IntOrString:
  "agree (Suc (Suc d)) (Some (enc_IntOrString a)) (Some (enc_IntOrString b)) \<longleftrightarrow> a = b"
  by (cases a; cases b)
    (auto simp: enc_IntOrString_def agree_simps simp del: agree.simps split: IntOrStringType.splits)

lemma agree_IngressBackend:
  "agree (Suc (Suc (Suc d))) (Some (enc_IngressBackend a)) (Some (enc_IngressBackend b)) \<longleftrightarrow> a = b"
  by (cases a; cases b)
    (simp add: enc_IngressBackend_def agree_simps agree_IntOrString del: agree.simps)

lemma agree_gptr_eq:
  assumes "\<And>x y. agree (Suc d) (Some (f x)) (Some (f y)) \<longleftrightarrow> x = y"
  shows "agree (Suc (Suc d)) (Some (gptr f p)) (Some (gptr f q)) \<longleftrightarrow> p = q"
  by (cases p; cases q) (simp_all add: agree_gptr assms del: agree.simps)

lemma agree_gslice_eq:
  assumes "\<And>x y. agree (Suc d) (Some (f x)) (Some (f y)) \<longleftrightarrow> x = y"
  shows "agree (Suc (Suc d)) (Some (gslice f p)) (Some (gslice f q)) \<longleftrightarrow> p = q"
  by (cases p; cases q) (simp_all add: agree_gslice assms list.rel_eq del: agree.simps)

lemmas agree_leaf_eqs =
  agree_gptr_eq [of _ GStr, OF agree_prims(1)] agree_gptr_eq [of _ GBool, OF agree_prims(3)]
  agree_gptr_eq [of _ gword, OF agree_gword] agree_gslice_eq [of _ GStr, OF agree_prims(1)]

lemma specDiff_nil: "specDiff a b = [] \<longleftrightarrow> a = b"
  unfolding specDiff_def Equal_agree depth_11
  by (cases a; cases b)
    (simp add: enc_NotebookSpec_def agree_simps(1-3) agree_struct agree_leaf_eqs
      agree_gptr_eq [OF agree_IngressBackend] del: agree.simps)


section \<open>What the template comparison sees\<close>

text \<open>
  The walk stops below depth ten, and some leaves of a pod template lie deeper: the strings of an
  exec command (a post-start hook) and the name of a secret an environment variable refers to.
  The amount of a resource quantity is unexported. Erasing those leaves describes the comparison.
\<close>

definition erase_exec :: "ExecAction \<Rightarrow> ExecAction" where
  "erase_exec e = e\<lparr>ea_Command := map_option (map (\<lambda>_. [])) (ea_Command e)\<rparr>"

definition erase_handler :: "Handler \<Rightarrow> Handler" where
  "erase_handler h = h\<lparr>h_Exec := map_option erase_exec (h_Exec h)\<rparr>"

definition erase_lifecycle :: "Lifecycle \<Rightarrow> Lifecycle" where
  "erase_lifecycle l = l\<lparr>lc_PostStart := map_option erase_handler (lc_PostStart l)\<rparr>"

definition erase_selector :: "SecretKeySelector \<Rightarrow> SecretKeySelector" where
  "erase_selector k = k\<lparr>sks_Name := []\<rparr>"

definition erase_source :: "EnvVarSource \<Rightarrow> EnvVarSource" where
  "erase_source v = v\<lparr>evs_SecretKeyRef := map_option erase_selector (evs_SecretKeyRef v)\<rparr>"

definition erase_env :: "EnvVar \<Rightarrow> EnvVar" where
  "erase_env v = v\<lparr>ev_ValueFrom := map_option erase_source (ev_ValueFrom v)\<rparr>"

definition resources_seen :: "ResourceRequirements \<Rightarrow> ResourceRequirements \<Rightarrow> bool" where
  "resources_seen a b \<longleftrightarrow>
     gomap_rel (\<lambda>x y. q_Format x = q_Format y) (rr_Limits a) (rr_Limits b)
     \<and> gomap_rel (\<lambda>x y. q_Format x = q_Format y) (rr_Requests a) (rr_Requests b)"

definition container_seen :: "Container \<Rightarrow> Container \<Rightarrow> bool" where
  "container_seen a b \<longleftrightarrow> ct_Name a = ct_Name b \<and> ct_Image a = ct_Image b \<and> ct_Args a = ct_Args b
     \<and> ct_Ports a = ct_Ports b
     \<and> map_option (map erase_env) (ct_Env a) = map_option (map erase_env) (ct_Env b)
     \<and> resources_seen (ct_Resources a) (ct_Resources b) \<and> ct_VolumeMounts a = ct_VolumeMounts b
     \<and> map_option erase_lifecycle (ct_Lifecycle a) = map_option erase_lifecycle (ct_Lifecycle b)
     \<and> ct_TerminationMessagePath a = ct_TerminationMessagePath b
     \<and> ct_TerminationMessagePolicy a = ct_TerminationMessagePolicy b
     \<and> ct_ImagePullPolicy a = ct_ImagePullPolicy b"

definition pod_seen :: "PodSpec \<Rightarrow> PodSpec \<Rightarrow> bool" where
  "pod_seen a b \<longleftrightarrow> ps_Volumes a = ps_Volumes b
     \<and> rel_option (list_all2 container_seen) (ps_Containers a) (ps_Containers b)
     \<and> ps_RestartPolicy a = ps_RestartPolicy b
     \<and> ps_TerminationGracePeriodSeconds a = ps_TerminationGracePeriodSeconds b
     \<and> ps_DNSPolicy a = ps_DNSPolicy b \<and> ps_ServiceAccountName a = ps_ServiceAccountName b
     \<and> ps_DeprecatedServiceAccount a = ps_DeprecatedServiceAccount b
     \<and> ps_AutomountServiceAccountToken a = ps_AutomountServiceAccountToken b
     \<and> ps_SecurityContext a = ps_SecurityContext b \<and> ps_SchedulerName a = ps_SchedulerName b
     \<and> ps_Tolerations a = ps_Tolerations b"

definition template_seen :: "PodTemplateSpec \<Rightarrow> PodTemplateSpec \<Rightarrow> bool" where
  "template_seen a b \<longleftrightarrow> gomap_rel (=) (pts_Labels a) (pts_Labels b) \<and> pod_seen (pts_Spec a) (pts_Spec b)"

lemma agree_gptr_map:
  assumes "\<And>x y. agree (Suc d) (Some (f x)) (Some (f y)) \<longleftrightarrow> g x = g y"
  shows "agree (Suc (Suc d)) (Some (gptr f p)) (Some (gptr f q)) \<longleftrightarrow> map_option g p = map_option g q"
  by (cases p; cases q) (simp_all add: agree_gptr assms del: agree.simps)

lemma agree_gslice_map:
  assumes "\<And>x y. agree d (Some (f x)) (Some (f y)) \<longleftrightarrow> g x = g y"
  shows "agree (Suc d) (Some (gslice f p)) (Some (gslice f q)) \<longleftrightarrow>
    map_option (map g) p = map_option (map g) q"
  by (cases p; cases q)
    (auto simp add: agree_gslice assms list_all2_conv_all_nth list_eq_iff_nth_eq
      simp del: agree.simps)

lemma agree_exec:
  "agree (Suc (Suc 0)) (Some (enc_ExecAction a)) (Some (enc_ExecAction b)) \<longleftrightarrow> erase_exec a = erase_exec b"
  by (cases a; cases b)
    (simp add: enc_ExecAction_def agree_struct agree_gslice_map [where g = "\<lambda>_. []"] erase_exec_def
      del: agree.simps(2))

lemma agree_handler:
  "agree (Suc (Suc (Suc (Suc 0)))) (Some (enc_Handler a)) (Some (enc_Handler b)) \<longleftrightarrow>
     erase_handler a = erase_handler b"
  by (cases a; cases b)
    (simp add: enc_Handler_def agree_struct agree_gptr_map [OF agree_exec] erase_handler_def
      del: agree.simps(2))

lemma agree_lifecycle:
  "agree (Suc (Suc (Suc (Suc (Suc (Suc 0)))))) (Some (enc_Lifecycle a)) (Some (enc_Lifecycle b)) \<longleftrightarrow>
     erase_lifecycle a = erase_lifecycle b"
  by (cases a; cases b)
    (simp add: enc_Lifecycle_def agree_struct agree_gptr_map [OF agree_handler] erase_lifecycle_def
      del: agree.simps(2))

lemma agree_selector:
  "agree (Suc (Suc 0)) (Some (enc_SecretKeySelector a)) (Some (enc_SecretKeySelector b)) \<longleftrightarrow>
     erase_selector a = erase_selector b"
  by (cases a; cases b)
    (simp add: enc_SecretKeySelector_def agree_struct agree_prims erase_selector_def del: agree.simps(2))

lemma agree_source:
  "agree (Suc (Suc (Suc (Suc 0)))) (Some (enc_EnvVarSource a)) (Some (enc_EnvVarSource b)) \<longleftrightarrow>
     erase_source a = erase_source b"
  by (cases a; cases b)
    (simp add: enc_EnvVarSource_def agree_struct agree_gptr_map [OF agree_selector] erase_source_def
      del: agree.simps(2))

lemma agree_env:
  "agree (Suc (Suc (Suc (Suc (Suc (Suc 0)))))) (Some (enc_EnvVar a)) (Some (enc_EnvVar b)) \<longleftrightarrow>
     erase_env a = erase_env b"
  by (cases a; cases b)
    (auto simp add: enc_EnvVar_def agree_struct agree_prims agree_gptr_map [OF agree_source] erase_env_def
      simp del: agree.simps(2))

lemma agree_quantity:
  "agree (Suc (Suc d)) (Some (enc_Quantity a)) (Some (enc_Quantity b)) \<longleftrightarrow> q_Format a = q_Format b"
  by (simp add: enc_Quantity_def agree_struct agree_prims del: agree.simps(2))

lemma agree_resources:
  "agree (Suc (Suc (Suc (Suc d)))) (Some (enc_ResourceRequirements a)) (Some (enc_ResourceRequirements b)) \<longleftrightarrow>
     resources_seen a b"
  by (simp add: enc_ResourceRequirements_def agree_struct agree_gmap agree_quantity resources_seen_def
      del: agree.simps(2))

lemma agree_port:
  "agree (Suc (Suc d)) (Some (enc_ContainerPort a)) (Some (enc_ContainerPort b)) \<longleftrightarrow> a = b"
  by (cases a; cases b)
    (simp add: enc_ContainerPort_def agree_struct agree_prims agree_gword del: agree.simps(2))

lemma agree_mount:
  "agree (Suc (Suc d)) (Some (enc_VolumeMount a)) (Some (enc_VolumeMount b)) \<longleftrightarrow> a = b"
  by (cases a; cases b)
    (simp add: enc_VolumeMount_def agree_struct agree_prims del: agree.simps(2))

lemma agree_container:
  "agree (Suc (Suc (Suc (Suc (Suc (Suc (Suc (Suc 0)))))))) (Some (enc_Container a)) (Some (enc_Container b))
     \<longleftrightarrow> container_seen a b"
  by (simp add: enc_Container_def agree_struct agree_prims agree_leaf_eqs agree_resources
      agree_gslice_eq [OF agree_port] agree_gslice_eq [OF agree_mount] agree_gslice_map [OF agree_env]
      agree_gptr_map [OF agree_lifecycle] container_seen_def del: agree.simps(2))

lemma agree_keypath:
  "agree (Suc (Suc d)) (Some (enc_KeyToPath a)) (Some (enc_KeyToPath b)) \<longleftrightarrow> a = b"
  by (cases a; cases b) (simp add: enc_KeyToPath_def agree_struct agree_prims del: agree.simps(2))

lemma agree_secretvol:
  "agree (Suc (Suc (Suc (Suc d)))) (Some (enc_SecretVolumeSource a)) (Some (enc_SecretVolumeSource b)) \<longleftrightarrow> a = b"
  by (cases a; cases b)
    (simp add: enc_SecretVolumeSource_def agree_struct agree_prims agree_leaf_eqs
      agree_gslice_eq [OF agree_keypath] del: agree.simps(2))

lemma agree_volume:
  "agree (Suc (Suc (Suc (Suc (Suc (Suc (Suc d))))))) (Some (enc_Volume a)) (Some (enc_Volume b)) \<longleftrightarrow> a = b"
  by (cases a; cases b)
    (simp add: enc_Volume_def agree_struct agree_prims agree_gptr_eq [OF agree_secretvol] del: agree.simps(2))

lemma agree_psc:
  "agree (Suc (Suc (Suc d))) (Some (enc_PodSecurityContext a)) (Some (enc_PodSecurityContext b)) \<longleftrightarrow> a = b"
  by (cases a; cases b) (simp add: enc_PodSecurityContext_def agree_struct agree_leaf_eqs del: agree.simps(2))

lemma agree_toleration:
  "agree (Suc (Suc d)) (Some (enc_Toleration a)) (Some (enc_Toleration b)) \<longleftrightarrow> a = b"
  by (cases a; cases b) (simp add: enc_Toleration_def agree_struct agree_prims del: agree.simps(2))

lemma agree_containers:
  "agree (Suc (Suc (Suc (Suc (Suc (Suc (Suc (Suc (Suc 0)))))))))
     (Some (gslice enc_Container p)) (Some (gslice enc_Container q)) \<longleftrightarrow> rel_option (list_all2 container_seen) p q"
  by (cases p; cases q) (simp_all add: agree_gslice agree_container del: agree.simps(2))

lemma agree_pod:
  "agree (Suc (Suc (Suc (Suc (Suc (Suc (Suc (Suc (Suc (Suc 0)))))))))) (Some (enc_PodSpec a)) (Some (enc_PodSpec b))
     \<longleftrightarrow> pod_seen a b"
  by (simp add: enc_PodSpec_def agree_struct agree_prims agree_leaf_eqs agree_containers
      agree_gslice_eq [OF agree_volume] agree_gptr_eq [OF agree_psc] agree_gslice_eq [OF agree_toleration]
      pod_seen_def del: agree.simps(2))

lemma templateDiff_nil: "templateDiff a b = [] \<longleftrightarrow> template_seen a b"
  unfolding templateDiff_def Equal_agree depth_11
  by (simp add: enc_PodTemplateSpec_def agree_struct agree_pod agree_gmap agree_prims template_seen_def
      del: agree.simps(2))

end
