(* ===== verification/Proc.thy ===== *)
theory Proc imports Core_Types begin

text \<open>
  The operator's code talks to the world: it reads the informers' caches through listers, sends
  requests to the API server, adds keys to its work queue, sleeps, and races with other goroutines. A routine is modelled as the
  tree of its actions, branching on the world's answers; the leaves are its return, a panic, or the
  end of the fuel given to a loop. Trees are finite in depth, so a routine without an
  \<open>OutOfFuel\<close> leaf returns or panics whatever the world does. \<open>feed\<close> runs a tree along a trace of
  actions and answers, \<open>run\<close> against a deterministic world, and \<open>par\<close> interleaves two goroutines
  under a scheduler.
\<close>

section \<open>Actions and answers\<close>

text \<open>
  \<open>DoneClosed\<close> asks whether a \<open>done\<close> channel is closed, \<open>TimerFired\<close> whether its timer goroutine has
  left its select to close it, \<open>Delivered\<close> whether a nonblocking send found its receiver waiting. A
  \<open>Delete\<close> carries the propagation policy of its options.
\<close>

datatype question = DoneClosed | TimerFired | Delivered

datatype request =
    Create string object
  | Update string object
  | UpdateStatus string object
  | Delete kind string string "string option"

datatype action =
    ALookup kind string
  | ARequest request
  | ASleep nat
  | AEnqueue string
  | AAsk question
  | ASched

datatype answer =
    Found "object option"
  | Replied "go_error option"
  | Ack
  | Answered bool

fun fits :: "action \<Rightarrow> answer \<Rightarrow> bool" where
  "fits (ALookup k key) (Found x) = (case x of None \<Rightarrow> True | Some obj \<Rightarrow> kind_of obj = k)"
| "fits (ARequest req) (Replied e) = True"
| "fits (ASleep d) Ack = True"
| "fits (AEnqueue key) Ack = True"
| "fits (AAsk q) (Answered b) = True"
| "fits ASched (Answered b) = True"
| "fits _ _ = False"

type_synonym event = "action \<times> answer"

primrec found :: "answer \<Rightarrow> object option" where
  "found (Found x) = x"
| "found (Replied e) = None"
| "found Ack = None"
| "found (Answered b) = None"

primrec replied :: "answer \<Rightarrow> go_error option" where
  "replied (Replied e) = e"
| "replied (Found x) = None"
| "replied Ack = None"
| "replied (Answered b) = None"

primrec answered :: "answer \<Rightarrow> bool" where
  "answered (Answered b) = b"
| "answered (Found x) = False"
| "answered (Replied e) = False"
| "answered Ack = False"

lemma fits_simps:
  "fits (ALookup k key) r \<longleftrightarrow> (\<exists>x. r = Found x \<and> (case x of None \<Rightarrow> True | Some obj \<Rightarrow> kind_of obj = k))"
  "fits (ARequest req) r \<longleftrightarrow> (\<exists>e. r = Replied e)"
  "fits (ASleep d) r \<longleftrightarrow> r = Ack"
  "fits (AEnqueue key) r \<longleftrightarrow> r = Ack"
  "fits (AAsk q) r \<longleftrightarrow> (\<exists>b. r = Answered b)"
  "fits ASched r \<longleftrightarrow> (\<exists>b. r = Answered b)"
  by (cases r; simp)+

section \<open>Routines\<close>

datatype 'a proc =
    Done 'a
  | Crash string
  | OutOfFuel
  | Act action "answer \<Rightarrow> 'a proc"

primrec pbind :: "'a proc \<Rightarrow> ('a \<Rightarrow> 'b proc) \<Rightarrow> 'b proc" where
  "pbind (Done x) g = g x"
| "pbind (Crash m) g = Crash m"
| "pbind OutOfFuel g = OutOfFuel"
| "pbind (Act a f) g = Act a (\<lambda>r. pbind (f r) g)"

definition lookup :: "kind \<Rightarrow> string \<Rightarrow> object option proc" where
  "lookup k key = Act (ALookup k key) (\<lambda>r. Done (found r))"

definition request :: "request \<Rightarrow> go_error option proc" where
  "request req = Act (ARequest req) (\<lambda>r. Done (replied r))"

definition sleep :: "nat \<Rightarrow> unit proc" where
  "sleep d = Act (ASleep d) (\<lambda>r. Done ())"

definition enqueueKey :: "string \<Rightarrow> unit proc" where
  "enqueueKey key = Act (AEnqueue key) (\<lambda>r. Done ())"

definition ask :: "question \<Rightarrow> bool proc" where
  "ask q = Act (AAsk q) (\<lambda>r. Done (answered r))"

primrec pout :: "'a outcome \<Rightarrow> 'a proc" where
  "pout (Returns x) = Done x"
| "pout (Panics m) = Crash m"

lemma pbind_assoc: "pbind (pbind p f) g = pbind p (\<lambda>x. pbind (f x) g)"
  by (induction p) auto

lemma pbind_Done [simp]: "pbind p Done = p"
  by (induction p) auto

lemma pbind_Done_iff:
  "pbind p g = Done y \<longleftrightarrow> (\<exists>x. p = Done x \<and> g x = Done y)"
  by (cases p) auto

lemma pbind_cong [fundef_cong]:
  "p = q \<Longrightarrow> (\<And>x. g x = g' x) \<Longrightarrow> pbind p g = pbind q g'"
  by (metis ext)

section \<open>Traces\<close>

fun feed :: "'a proc \<Rightarrow> event list \<Rightarrow> 'a proc option" where
  "feed p [] = Some p"
| "feed (Act a f) ((a', r) # es) = (if a' = a \<and> fits a r then feed (f r) es else None)"
| "feed _ (e # es) = None"

lemma feed_leaf [simp]:
  "feed (Done x) es = Some q \<longleftrightarrow> es = [] \<and> q = Done x"
  "feed (Crash m) es = Some q \<longleftrightarrow> es = [] \<and> q = Crash m"
  "feed OutOfFuel es = Some q \<longleftrightarrow> es = [] \<and> q = OutOfFuel"
  by (cases es; auto)+

lemma feed_Act:
  "feed (Act a f) es = Some q \<longleftrightarrow>
     es = [] \<and> q = Act a f \<or> (\<exists>r es'. es = (a, r) # es' \<and> fits a r \<and> feed (f r) es' = Some q)"
  by (cases es) (auto split: if_splits)

lemma feed_append:
  "feed p (es @ es') = (case feed p es of None \<Rightarrow> None | Some q \<Rightarrow> feed q es')"
  by (induction p es rule: feed.induct) auto

text \<open>A finished run of a sequence is a finished run of its first part, then of the rest.\<close>

lemma feed_bind_Done:
  "feed (pbind p g) es = Some (Done y) \<longleftrightarrow>
     (\<exists>es1 es2 x. es = es1 @ es2 \<and> feed p es1 = Some (Done x) \<and> feed (g x) es2 = Some (Done y))"
proof (induction p arbitrary: es)
  case (Act a f)
  show ?case
  proof
    assume "feed (pbind (Act a f) g) es = Some (Done y)"
    then obtain r es' where es: "es = (a, r) # es'" "fits a r" "feed (pbind (f r) g) es' = Some (Done y)"
      by (auto simp: feed_Act)
    with Act.IH [of "f r" es'] obtain es1 es2 x where
      "es' = es1 @ es2" "feed (f r) es1 = Some (Done x)" "feed (g x) es2 = Some (Done y)" by auto
    with es show "\<exists>es1 es2 x. es = es1 @ es2 \<and> feed (Act a f) es1 = Some (Done x) \<and> feed (g x) es2 = Some (Done y)"
      by (intro exI [of _ "(a, r) # es1"] exI [of _ es2] exI [of _ x]) simp
  next
    assume "\<exists>es1 es2 x. es = es1 @ es2 \<and> feed (Act a f) es1 = Some (Done x) \<and> feed (g x) es2 = Some (Done y)"
    then obtain es1 es2 x where *: "es = es1 @ es2" "feed (Act a f) es1 = Some (Done x)"
      "feed (g x) es2 = Some (Done y)" by blast
    from *(2) obtain r es' where "es1 = (a, r) # es'" "fits a r" "feed (f r) es' = Some (Done x)"
      by (auto simp: feed_Act)
    with * Act.IH [of "f r" "es' @ es2"] show "feed (pbind (Act a f) g) es = Some (Done y)" by auto
  qed
qed auto

lemma split_Act:
  assumes "fits a r"
  shows "(\<exists>es1 es2 x. (a, r) # es = es1 @ es2 \<and> feed (Act a f) es1 = Some (Done x) \<and> P x es2)
    \<longleftrightarrow> (\<exists>es1 es2 x. es = es1 @ es2 \<and> feed (f r) es1 = Some (Done x) \<and> P x es2)"
proof
  assume "\<exists>es1 es2 x. (a, r) # es = es1 @ es2 \<and> feed (Act a f) es1 = Some (Done x) \<and> P x es2"
  then obtain es1 es2 x where *: "(a, r) # es = es1 @ es2" "feed (Act a f) es1 = Some (Done x)" "P x es2"
    by blast
  from *(2) obtain r' es' where es': "es1 = (a, r') # es'" "feed (f r') es' = Some (Done x)"
    by (auto simp: feed_Act)
  with * have "es = es' @ es2" "r' = r" by auto
  with * es' show "\<exists>es1 es2 x. es = es1 @ es2 \<and> feed (f r) es1 = Some (Done x) \<and> P x es2" by blast
next
  assume "\<exists>es1 es2 x. es = es1 @ es2 \<and> feed (f r) es1 = Some (Done x) \<and> P x es2"
  then obtain es1 es2 x where "es = es1 @ es2" "feed (f r) es1 = Some (Done x)" "P x es2" by blast
  with assms show "\<exists>es1 es2 x. (a, r) # es = es1 @ es2 \<and> feed (Act a f) es1 = Some (Done x) \<and> P x es2"
    by (intro exI [of _ "(a, r) # es1"] exI [of _ es2] exI [of _ x]) simp
qed

text \<open>
  \<open>fails p m es\<close>: on the events \<open>es\<close> the routine ends in a panic (\<open>m\<close> is its message) or runs out of
  its loop's fuel (\<open>m\<close> is \<^const>\<open>None\<close>).
\<close>

definition failed :: "'a proc \<Rightarrow> string option \<Rightarrow> bool" where
  "failed q m \<longleftrightarrow> (case m of Some msg \<Rightarrow> q = Crash msg | None \<Rightarrow> q = OutOfFuel)"

definition fails :: "'a proc \<Rightarrow> string option \<Rightarrow> event list \<Rightarrow> bool" where
  "fails p m es \<longleftrightarrow> (\<exists>q. feed p es = Some q \<and> failed q m)"

lemma fails_simps [simp]:
  "\<not> fails (Done x) m es"
  "fails (Crash msg) m es \<longleftrightarrow> es = [] \<and> m = Some msg"
  "fails OutOfFuel m es \<longleftrightarrow> es = [] \<and> m = None"
  by (auto simp: fails_def failed_def split: option.splits)

lemma fails_Act:
  "fails (Act a f) m es \<longleftrightarrow> (\<exists>r es'. es = (a, r) # es' \<and> fits a r \<and> fails (f r) m es')"
  by (auto simp: fails_def failed_def feed_Act split: option.splits)

lemma fails_Some: "fails p (Some m) es \<longleftrightarrow> feed p es = Some (Crash m)"
  by (auto simp: fails_def failed_def)

lemma fails_None: "fails p None es \<longleftrightarrow> feed p es = Some OutOfFuel"
  by (auto simp: fails_def failed_def)

text \<open>A sequence fails when one of its parts does.\<close>

lemma fails_bind:
  "fails (pbind p g) m es \<longleftrightarrow>
     fails p m es \<or> (\<exists>es1 es2 x. es = es1 @ es2 \<and> feed p es1 = Some (Done x) \<and> fails (g x) m es2)"
proof (induction p arbitrary: es)
  case (Act a f)
  show ?case
  proof (cases es)
    case Nil
    then show ?thesis by (simp add: fails_Act)
  next
    case (Cons e es')
    obtain a' r where e: "e = (a', r)" by (cases e)
    show ?thesis
    proof (cases "a' = a \<and> fits a r")
      case True
      with Cons e Act.IH [of "f r" es']
        split_Act [of a r es' f "\<lambda>x es2. fails (g x) m es2"]
      show ?thesis by (simp add: fails_Act)
    next
      case False
      with Cons e show ?thesis by (auto simp: fails_Act feed_Act Cons_eq_append_conv)
    qed
  qed
qed auto

lemma fails_bind_leaf: "fails (pbind p (\<lambda>x. Done (g x))) m es \<longleftrightarrow> fails p m es"
  by (simp add: fails_bind)

text \<open>The events of a finished run of the basic actions.\<close>

lemma feed_basic [simp]:
  "feed (lookup k key) es = Some (Done x) \<longleftrightarrow>
     es = [(ALookup k key, Found x)] \<and> (case x of None \<Rightarrow> True | Some obj \<Rightarrow> kind_of obj = k)"
  "feed (request req) es = Some (Done e) \<longleftrightarrow> es = [(ARequest req, Replied e)]"
  "feed (sleep d) es = Some (Done u) \<longleftrightarrow> es = [(ASleep d, Ack)]"
  "feed (ask qu) es = Some (Done b) \<longleftrightarrow> es = [(AAsk qu, Answered b)]"
  "feed (enqueueKey key) es = Some (Done u) \<longleftrightarrow> es = [(AEnqueue key, Ack)]"
  by (auto simp: lookup_def request_def sleep_def ask_def enqueueKey_def feed_Act fits_simps)

text \<open>A run that starts with a basic action has that action's event at its head.\<close>

lemma feed_steps:
  "feed (pbind (lookup k key) g) es = Some (Done y) \<longleftrightarrow>
     (\<exists>x es'. es = (ALookup k key, Found x) # es' \<and> (case x of None \<Rightarrow> True | Some obj \<Rightarrow> kind_of obj = k)
        \<and> feed (g x) es' = Some (Done y))"
  "feed (pbind (request req) h) es = Some (Done y) \<longleftrightarrow>
     (\<exists>e es'. es = (ARequest req, Replied e) # es' \<and> feed (h e) es' = Some (Done y))"
  "feed (pbind (sleep d) i) es = Some (Done y) \<longleftrightarrow>
     (\<exists>es'. es = (ASleep d, Ack) # es' \<and> feed (i ()) es' = Some (Done y))"
  "feed (pbind (ask qu) j) es = Some (Done y) \<longleftrightarrow>
     (\<exists>b es'. es = (AAsk qu, Answered b) # es' \<and> feed (j b) es' = Some (Done y))"
  "feed (pbind (enqueueKey key') u) es = Some (Done y) \<longleftrightarrow>
     (\<exists>es'. es = (AEnqueue key', Ack) # es' \<and> feed (u ()) es' = Some (Done y))"
  by (auto simp: lookup_def request_def sleep_def ask_def enqueueKey_def feed_Act fits_simps)

lemma fails_basic [simp]:
  "\<not> fails (lookup k key) m es" "\<not> fails (request req) m es" "\<not> fails (sleep d) m es"
  "\<not> fails (ask qu) m es" "\<not> fails (enqueueKey key) m es"
  by (auto simp: lookup_def request_def sleep_def ask_def enqueueKey_def fails_Act)

lemma fails_steps:
  "fails (pbind (lookup k key) g) m es \<longleftrightarrow>
     (\<exists>x es'. es = (ALookup k key, Found x) # es' \<and> (case x of None \<Rightarrow> True | Some obj \<Rightarrow> kind_of obj = k)
        \<and> fails (g x) m es')"
  "fails (pbind (request req) h) m es \<longleftrightarrow>
     (\<exists>e es'. es = (ARequest req, Replied e) # es' \<and> fails (h e) m es')"
  "fails (pbind (sleep d) i) m es \<longleftrightarrow> (\<exists>es'. es = (ASleep d, Ack) # es' \<and> fails (i ()) m es')"
  "fails (pbind (ask qu) j) m es \<longleftrightarrow>
     (\<exists>b es'. es = (AAsk qu, Answered b) # es' \<and> fails (j b) m es')"
  by (auto simp: lookup_def request_def sleep_def ask_def fails_Act fits_simps)

lemma fails_pout [simp]: "fails (pout x) m es \<longleftrightarrow> es = [] \<and> (\<exists>msg. x = Panics msg \<and> m = Some msg)"
  by (cases x) auto

section \<open>What a routine may do\<close>

text \<open>
  \<open>guarded G h p\<close>: after the history \<open>h\<close>, whatever the answers, every action \<open>p\<close> takes satisfies \<open>G\<close> of
  the history before it.
\<close>

primrec guarded :: "(event list \<Rightarrow> action \<Rightarrow> bool) \<Rightarrow> 'a proc \<Rightarrow> event list \<Rightarrow> bool" where
  "guarded G (Done x) h = True"
| "guarded G (Crash m) h = True"
| "guarded G OutOfFuel h = True"
| "guarded G (Act a f) h = (G h a \<and> (\<forall>r. fits a r \<longrightarrow> guarded G (f r) (h @ [(a, r)])))"

definition stable :: "(event list \<Rightarrow> action \<Rightarrow> bool) \<Rightarrow> bool" where
  "stable G \<longleftrightarrow> (\<forall>h h' a. set h \<subseteq> set h' \<longrightarrow> G h a \<longrightarrow> G h' a)"

lemma stableD: "stable G \<Longrightarrow> set h \<subseteq> set h' \<Longrightarrow> G h a \<Longrightarrow> G h' a"
  unfolding stable_def by blast

lemma guarded_stable:
  assumes "stable G" "set h \<subseteq> set h'" "guarded G p h"
  shows "guarded G p h'"
  using assms(2,3)
proof (induction p arbitrary: h h')
  case (Act a f)
  have "guarded G (f r) (h' @ [(a, r)])" if "fits a r" for r
    by (rule Act.IH [of "f r" "h @ [(a, r)]"]) (use Act.prems that in auto)
  then show ?case using stableD [OF assms(1)] Act.prems by auto
qed auto

lemma guarded_bind:
  assumes "stable G" "guarded G p h" "\<And>x. guarded G (g x) []"
  shows "guarded G (pbind p g) h"
  using assms(2)
proof (induction p arbitrary: h)
  case (Done x)
  show ?case using guarded_stable [OF assms(1) _ assms(3) [of x], of h] by simp
qed auto

lemma guarded_bind_hist:
  assumes "guarded G p h"
    and "\<And>es x. feed p es = Some (Done x) \<Longrightarrow> guarded G (g x) (h @ es)"
  shows "guarded G (pbind p g) h"
  using assms
proof (induction p arbitrary: h)
  case (Done x)
  from Done.prems(2) [of "[]" x] show ?case by simp
next
  case (Act a f)
  have "guarded G (pbind (f r) g) (h @ [(a, r)])" if "fits a r" for r
  proof (rule Act.IH)
    show "guarded G (f r) (h @ [(a, r)])" using Act.prems(1) that by simp
    show "guarded G (g x) ((h @ [(a, r)]) @ es)" if "feed (f r) es = Some (Done x)" for es x
      using Act.prems(2) [of "(a, r) # es" x] that \<open>fits a r\<close> by simp
  qed simp
  with Act.prems(1) show ?case by simp
qed auto

lemma guarded_feed:
  assumes "guarded G p h" "feed p (es @ (a, r) # es') = Some q"
  shows "G (h @ es) a"
  using assms
proof (induction es arbitrary: p h)
  case Nil
  then show ?case by (cases p) (auto split: if_splits)
next
  case (Cons e es)
  obtain a' r' where e: "e = (a', r')" by (cases e)
  with Cons.prems obtain f where p: "p = Act a' f" "fits a' r'" by (cases p) (auto split: if_splits)
  with Cons.prems e have "G ((h @ [(a', r')]) @ es) a" by (intro Cons.IH [of "f r'"]) auto
  with e show ?case by simp
qed

section \<open>Running against a world\<close>

type_synonym 'w world = "'w \<Rightarrow> action \<Rightarrow> answer \<times> 'w"

primrec run :: "'w world \<Rightarrow> 'a proc \<Rightarrow> 'w \<Rightarrow> 'a proc \<times> 'w" where
  "run W (Done x) w = (Done x, w)"
| "run W (Crash m) w = (Crash m, w)"
| "run W OutOfFuel w = (OutOfFuel, w)"
| "run W (Act a f) w = (let (r, w') = W w a in run W (f r) w')"

lemma run_bind:
  "run W (pbind p g) w =
     (case run W p w of
        (Done x, w') \<Rightarrow> run W (g x) w'
      | (Crash m, w') \<Rightarrow> (Crash m, w')
      | (OutOfFuel, w') \<Rightarrow> (OutOfFuel, w')
      | (Act a f, w') \<Rightarrow> (OutOfFuel, w'))"
proof (induction p arbitrary: w)
  case (Act a f)
  obtain r w' where W: "W w a = (r, w')" by (cases "W w a")
  show ?case using Act.IH [of "f r" w'] by (simp add: W)
qed auto

lemma run_not_Act: "run W p w = (q, w') \<Longrightarrow> \<not> (\<exists>a f. q = Act a f)"
  by (induction p arbitrary: w) (auto split: prod.splits)

text \<open>Every run is the run of a trace, when the world's answers fit.\<close>

lemma run_feed:
  assumes "\<And>w a. fits a (fst (W w a))" "run W p w = (q, w')"
  shows "\<exists>es. feed p es = Some q"
  using assms(2)
proof (induction p arbitrary: w)
  case (Act a f)
  obtain r w1 where W: "W w a = (r, w1)" by (cases "W w a")
  with Act.prems have "run W (f r) w1 = (q, w')" by simp
  with Act.IH [of "f r" w1] obtain es where "feed (f r) es = Some q" by auto
  moreover have "fits a r" using assms(1) [of a w] W by simp
  ultimately have "feed (Act a f) ((a, r) # es) = Some q" by simp
  then show ?case by blast
qed (auto intro: exI [of _ "[]"])

end
