(* ===== verification/Interleave.thy ===== *)
theory Interleave imports Proc "HOL-Library.Sublist" "HOL-Library.Multiset" begin

text \<open>
  Two goroutines under a scheduler: \<open>par p q\<close> asks the scheduler which of them takes the next action
  while both can, and pairs their results; a panic in either ends the program. The lemmas project a
  run of \<open>par\<close> to a run of each side whose events are shuffled into it, and back.
\<close>

section \<open>The scheduler\<close>

definition subproc :: "('a proc \<times> 'a proc) set" where
  "subproc = {(q, p). \<exists>a f r. p = Act a f \<and> q = f r}"

lemma wf_subproc: "wf subproc"
proof (rule wfUNIVI)
  fix P :: "'a proc \<Rightarrow> bool" and p
  assume step: "\<forall>p. (\<forall>q. (q, p) \<in> subproc \<longrightarrow> P q) \<longrightarrow> P p"
  show "P p"
  proof (induction p)
    case (Act a f)
    then have "\<forall>q. (q, Act a f) \<in> subproc \<longrightarrow> P q" by (auto simp: subproc_def)
    with step show ?case by blast
  qed (use step in \<open>auto simp: subproc_def\<close>)
qed

function par :: "'a proc \<Rightarrow> 'b proc \<Rightarrow> ('a \<times> 'b) proc" where
  "par (Crash m) q = Crash m"
| "par OutOfFuel q = OutOfFuel"
| "par (Done x) q = pbind q (\<lambda>y. Done (x, y))"
| "par (Act a f) (Crash m) = Crash m"
| "par (Act a f) OutOfFuel = OutOfFuel"
| "par (Act a f) (Done y) = pbind (Act a f) (\<lambda>x. Done (x, y))"
| "par (Act a f) (Act b g) =
     Act ASched (\<lambda>s. if answered s then Act a (\<lambda>r. par (f r) (Act b g))
                     else Act b (\<lambda>r. par (Act a f) (g r)))"
  by pat_completeness auto
termination
  by (relation "subproc <*lex*> subproc") (simp add: wf_lex_prod wf_subproc, auto simp: subproc_def)

section \<open>Projection\<close>

definition acts :: "event list \<Rightarrow> event list" where
  "acts es = filter (\<lambda>e. fst e \<noteq> ASched) es"

lemma acts_simps [simp]:
  "acts [] = []"
  "acts ((a, r) # es) = (if a = ASched then acts es else (a, r) # acts es)"
  "acts (es @ es') = acts es @ acts es'"
  "acts (acts es) = acts es"
  by (simp_all add: acts_def)

lemma set_acts: "e \<in> set (acts es) \<longleftrightarrow> e \<in> set es \<and> fst e \<noteq> ASched"
  by (auto simp: acts_def)

lemma par_Done_D:
  assumes "feed (par p q) es = Some (Done (x, y))"
  shows "\<exists>es1 es2. feed p es1 = Some (Done x) \<and> feed q es2 = Some (Done y)
    \<and> acts es \<in> shuffles (acts es1) (acts es2)"
  using assms
proof (induction p q arbitrary: es rule: par.induct)
  case (3 x' q)
  then have "x' = x" "feed q es = Some (Done y)" by (auto simp: feed_bind_Done)
  then show ?case by (intro exI [of _ "[]"] exI [of _ es]) simp
next
  case (6 a f y')
  then have "y' = y" "feed (Act a f) es = Some (Done x)"
    unfolding par.simps feed_bind_Done by auto
  then show ?case by (intro exI [of _ es] exI [of _ "[]"]) simp
next
  case (7 a f b g)
  from "7.prems" obtain s es' where es: "es = (ASched, s) # es'"
    "feed (if answered s then Act a (\<lambda>r. par (f r) (Act b g)) else Act b (\<lambda>r. par (Act a f) (g r))) es'
       = Some (Done (x, y))"
    by (auto simp: feed_Act)
  show ?case
  proof (cases "answered s")
    case True
    with es obtain r es'' where r: "es' = (a, r) # es''" "fits a r"
      "feed (par (f r) (Act b g)) es'' = Some (Done (x, y))" by (auto simp: feed_Act)
    from "7.IH"(1) [OF True r(3)] obtain es1 es2 where
      *: "feed (f r) es1 = Some (Done x)" "feed (Act b g) es2 = Some (Done y)"
        "acts es'' \<in> shuffles (acts es1) (acts es2)" by blast
    have "acts es \<in> shuffles (acts ((a, r) # es1)) (acts es2)"
      using * es r by (cases "acts es2") auto
    moreover have "feed (Act a f) ((a, r) # es1) = Some (Done x)" using * r by simp
    ultimately show ?thesis using *(2) by blast
  next
    case False
    with es obtain r es'' where r: "es' = (b, r) # es''" "fits b r"
      "feed (par (Act a f) (g r)) es'' = Some (Done (x, y))" by (auto simp: feed_Act)
    from "7.IH"(2) [OF False r(3)] obtain es1 es2 where
      *: "feed (Act a f) es1 = Some (Done x)" "feed (g r) es2 = Some (Done y)"
        "acts es'' \<in> shuffles (acts es1) (acts es2)" by blast
    have "acts es \<in> shuffles (acts es1) (acts ((b, r) # es2))"
      using * es r by (cases "acts es1") auto
    moreover have "feed (Act b g) ((b, r) # es2) = Some (Done y)" using * r by simp
    ultimately show ?thesis using *(1) by blast
  qed
qed auto

lemma shuffles_subseq:
  "zs \<in> shuffles xs ys \<Longrightarrow> subseq xs zs \<and> subseq ys zs"
proof (induction xs ys arbitrary: zs rule: shuffles.induct)
  case (3 x xs y ys)
  then consider zs' where "zs = x # zs'" "zs' \<in> shuffles xs (y # ys)"
    | zs' where "zs = y # zs'" "zs' \<in> shuffles (x # xs) ys" by auto
  then show ?case
  proof cases
    case 1
    with "3.IH"(1) [OF 1(2)] show ?thesis by (auto intro: subseq_Cons')
  next
    case 2
    with "3.IH"(2) [OF 2(2)] show ?thesis by (auto intro: subseq_Cons')
  qed
qed auto

text \<open>A run of \<open>par\<close> that fails has a side that fails, on events of the run.\<close>

lemma par_fails:
  assumes "fails (par p q) m es"
  shows "\<exists>es1. (fails p m es1 \<or> fails q m es1) \<and> subseq (acts es1) (acts es)"
  using assms
proof (induction p q arbitrary: es rule: par.induct)
  case (3 x q)
  then show ?case by (auto simp: fails_bind_leaf)
next
  case (6 a f y)
  then have "fails (Act a f) m es" by (simp only: par.simps fails_bind_leaf)
  then show ?case by blast
next
  case (7 a f b g)
  from "7.prems" obtain s es' where es: "es = (ASched, s) # es'"
    "fails (if answered s then Act a (\<lambda>r. par (f r) (Act b g)) else Act b (\<lambda>r. par (Act a f) (g r))) m es'"
    unfolding par.simps fails_Act by blast
  show ?case
  proof (cases "answered s")
    case True
    with es obtain r es'' where r: "es' = (a, r) # es''" "fits a r" "fails (par (f r) (Act b g)) m es''"
      by (auto simp: fails_Act)
    from "7.IH"(1) [OF True r(3)] obtain es1 where
      *: "fails (f r) m es1 \<or> fails (Act b g) m es1" "subseq (acts es1) (acts es'')" by blast
    from *(1) show ?thesis
    proof
      assume "fails (f r) m es1"
      then show ?thesis using * es r by (intro exI [of _ "(a, r) # es1"]) (auto simp: fails_Act)
    next
      assume "fails (Act b g) m es1"
      then show ?thesis using * es r by (intro exI [of _ es1]) (auto simp: list_emb_Cons)
    qed
  next
    case False
    with es obtain r es'' where r: "es' = (b, r) # es''" "fits b r" "fails (par (Act a f) (g r)) m es''"
      by (auto simp: fails_Act)
    from "7.IH"(2) [OF False r(3)] obtain es1 where
      *: "fails (Act a f) m es1 \<or> fails (g r) m es1" "subseq (acts es1) (acts es'')" by blast
    from *(1) show ?thesis
    proof
      assume "fails (Act a f) m es1"
      then show ?thesis using * es r by (intro exI [of _ es1]) (auto simp: list_emb_Cons)
    next
      assume "fails (g r) m es1"
      then show ?thesis using * es r by (intro exI [of _ "(b, r) # es1"]) (auto simp: fails_Act)
    qed
  qed
qed (auto intro: exI [of _ "[]"])

section \<open>Many goroutines\<close>

text \<open>\<open>parAll\<close> starts a goroutine per routine and waits for all of them, as a wait group does.\<close>

primrec parAll :: "'a proc list \<Rightarrow> 'a list proc" where
  "parAll [] = Done []"
| "parAll (p # ps) = pbind (par p (parAll ps)) (\<lambda>(x, xs). Done (x # xs))"

lemma acts_subseq_trans: "subseq (acts es) (acts es') \<Longrightarrow> subseq (acts es') (acts es'') \<Longrightarrow> subseq (acts es) (acts es'')"
  by (rule subseq_order.trans)

text \<open>
  A finished run splits into one run per routine: their events are subsequences of the run's, and
  together they are all of it.
\<close>

lemma parAll_Done:
  "feed (parAll ps) es = Some (Done xs) \<Longrightarrow>
     \<exists>ess. list_all2 (\<lambda>p (es', x). feed p es' = Some (Done x)) ps (zip ess xs) \<and> length ess = length xs
       \<and> list_all (\<lambda>es'. subseq (acts es') (acts es)) ess
       \<and> mset (acts es) = mset (concat (map acts ess))"
proof (induction ps arbitrary: es xs)
  case Nil
  then show ?case by (intro exI [of _ "[]"]) simp
next
  case (Cons p ps)
  then obtain x ys where xs: "xs = x # ys" "feed (par p (parAll ps)) es = Some (Done (x, ys))"
    by (auto simp: feed_bind_Done)
  from par_Done_D [OF xs(2)] obtain es1 es2 where
    *: "feed p es1 = Some (Done x)" "feed (parAll ps) es2 = Some (Done ys)"
      "acts es \<in> shuffles (acts es1) (acts es2)" by blast
  then have sub: "subseq (acts es1) (acts es)" "subseq (acts es2) (acts es)"
    and ms: "mset (acts es) = mset (acts es1) + mset (acts es2)"
    using shuffles_subseq mset_shuffles by blast+
  from Cons.IH [OF *(2)] obtain ess where
    IH: "list_all2 (\<lambda>p (es', x). feed p es' = Some (Done x)) ps (zip ess ys)" "length ess = length ys"
      "list_all (\<lambda>es'. subseq (acts es') (acts es2)) ess" "mset (acts es2) = mset (concat (map acts ess))" by blast
  have "list_all (\<lambda>es'. subseq (acts es') (acts es)) ess"
    using IH(3) by (rule list.pred_mono_strong) (use acts_subseq_trans [OF _ sub(2)] in blast)
  with xs(1) * IH sub ms show ?case
    by (intro exI [of _ "es1 # ess"]) simp
qed

lemma parAll_fails:
  "fails (parAll ps) m es \<Longrightarrow> \<exists>p\<in>set ps. \<exists>es1. fails p m es1 \<and> subseq (acts es1) (acts es)"
proof (induction ps arbitrary: es)
  case (Cons p ps)
  then have "fails (par p (parAll ps)) m es" by (auto simp: fails_bind split: prod.splits)
  from par_fails [OF this] obtain es1 where
    *: "fails p m es1 \<or> fails (parAll ps) m es1" "subseq (acts es1) (acts es)" by blast
  from *(1) show ?case
  proof
    assume "fails p m es1"
    with * show ?thesis by auto
  next
    assume "fails (parAll ps) m es1"
    from Cons.IH [OF this] * show ?thesis using acts_subseq_trans by fastforce
  qed
qed simp

section \<open>Guards and the scheduler\<close>

lemma guarded_pbind_leaf: "guarded G p h \<Longrightarrow> guarded G (pbind p (\<lambda>x. Done (g x))) h"
  by (induction p arbitrary: h) auto

lemma guarded_par:
  assumes "stable G" "\<And>h. G h ASched" "guarded G p h" "guarded G q h"
  shows "guarded G (par p q) h"
  using assms(3,4)
proof (induction p q arbitrary: h rule: par.induct)
  case (3 x q)
  then show ?case by (simp add: guarded_pbind_leaf)
next
  case (6 a f y)
  from "6.prems"(1) show ?case unfolding par.simps by (rule guarded_pbind_leaf)
next
  case (7 a f b g)
  let ?h = "\<lambda>s. h @ [(ASched, s)]"
  have left: "guarded G (par (f r) (Act b g)) (?h s @ [(a, r)])" if "answered s" "fits a r" for s r
  proof (rule "7.IH"(1) [OF that(1)])
    from "7.prems"(1) that have "guarded G (f r) (h @ [(a, r)])" by simp
    then show "guarded G (f r) (?h s @ [(a, r)])"
      by (rule guarded_stable [OF assms(1), rotated]) auto
    show "guarded G (Act b g) (?h s @ [(a, r)])"
      using "7.prems"(2) by (rule guarded_stable [OF assms(1), rotated]) auto
  qed
  have right: "guarded G (par (Act a f) (g r)) (?h s @ [(b, r)])" if "\<not> answered s" "fits b r" for s r
  proof (rule "7.IH"(2) [OF that(1)])
    from "7.prems"(2) that have "guarded G (g r) (h @ [(b, r)])" by simp
    then show "guarded G (g r) (?h s @ [(b, r)])"
      by (rule guarded_stable [OF assms(1), rotated]) auto
    show "guarded G (Act a f) (?h s @ [(b, r)])"
      using "7.prems"(1) by (rule guarded_stable [OF assms(1), rotated]) auto
  qed
  have "G (?h s) a" "G (?h s) b" for s
    using "7.prems" stableD [OF assms(1), of h "?h s"] by auto
  with left right assms(2) show ?case by (auto split: if_splits)
qed auto

lemma guarded_parAll:
  assumes "stable G" "\<And>h. G h ASched" "\<And>p. p \<in> set ps \<Longrightarrow> guarded G p h"
  shows "guarded G (parAll ps) h"
  using assms(3)
proof (induction ps)
  case (Cons p ps)
  then have "guarded G (par p (parAll ps)) h"
    by (intro guarded_par assms(1,2)) auto
  then show ?case by (auto intro!: guarded_bind_hist)
qed simp

end
