(* ===== verification/K8s_Names.thy ===== *)
theory K8s_Names imports Interleave begin

text \<open>
  \<open>pkg/k8sutil/k8s.go\<close>: the names, labels and owner references every managed resource carries; the
  \<open>Get\<close> of the namespace listers through which the operator reads its caches; and the contract the
  three \<open>CreateOrUpdate\<close> routines and the StatefulSet's share, as locales.
\<close>

section \<open>Names and labels\<close>

text \<open>\<open>fmt.Sprintf\<close> of a template with one \<open>%s\<close>.\<close>

fun Sprintf_s :: "string \<Rightarrow> string \<Rightarrow> string" where
  "Sprintf_s [] a = []"
| "Sprintf_s [c] a = [c]"
| "Sprintf_s (c # d # cs) a =
     (if c = CHR ''%'' \<and> d = CHR ''s'' then a @ cs else c # Sprintf_s (d # cs) a)"

definition notebookImageTemplate :: string where
  "notebookImageTemplate = ''jupyter/%s-notebook:latest''"
definition notebookContainerName :: string where
  "notebookContainerName = ''notebook''"
definition notebookPort :: int where
  "notebookPort = 8888"
definition notebookPortName :: string where
  "notebookPortName = ''notebook-port''"
definition notebookNameTemplate :: string where
  "notebookNameTemplate = ''jupyter-notebook-%s''"
definition notebookIngressTLSSecretNameTemplate :: string where
  "notebookIngressTLSSecretNameTemplate = ''%s-tls''"
definition notebookPasswordKey :: string where
  "notebookPasswordKey = ''password''"
definition notebookTLSMountPath :: string where
  "notebookTLSMountPath = ''/var/lib/tls''"
definition managedByOperatorLabel :: string where
  "managedByOperatorLabel = ''managed-by''"
definition managedByOperatorLabelValue :: string where
  "managedByOperatorLabelValue = ''jupyter-operator''"
definition notebookLabel :: string where
  "notebookLabel = ''jupyter.squat.ai/notebook''"

definition resourceName :: "string \<Rightarrow> string" where
  "resourceName name = Sprintf_s notebookNameTemplate name"

text \<open>
  The label maps are made by \<open>make\<close> before they are written, so they are passed as their pairs; each
  function returns the map it has updated.
\<close>

definition addManagedByOperatorLabels :: "(string \<times> string) list \<Rightarrow> (string \<times> string) list" where
  "addManagedByOperatorLabels labels = mput managedByOperatorLabel managedByOperatorLabelValue labels"

definition isManagedByOperator :: "string gomap \<Rightarrow> bool" where
  "isManagedByOperator labels =
     (case mget labels managedByOperatorLabel of
        Some v \<Rightarrow> if v = managedByOperatorLabelValue then True else False
      | None \<Rightarrow> False)"

definition addMatchLabels :: "(string \<times> string) list \<Rightarrow> string \<Rightarrow> (string \<times> string) list" where
  "addMatchLabels labels name = mput notebookLabel name labels"

definition notebookLabels :: "string \<Rightarrow> (string \<times> string) list" where
  "notebookLabels name =
     (let l = [];
          l1 = addManagedByOperatorLabels l;
          l2 = addMatchLabels l1 name
      in l2)"

definition addOwnerRefToObject :: "ObjectMeta \<Rightarrow> OwnerReference \<Rightarrow> ObjectMeta" where
  "addOwnerRefToObject m r = m\<lparr>om_OwnerReferences := om_OwnerReferences m @ [r]\<rparr>"

lemma resourceName_eq: "resourceName name = ''jupyter-notebook-'' @ name"
  by (simp add: resourceName_def notebookNameTemplate_def)

lemma resourceName_inject [simp]: "resourceName a = resourceName b \<longleftrightarrow> a = b"
  by (simp add: resourceName_eq)

lemma tlsSecretName_eq: "Sprintf_s notebookIngressTLSSecretNameTemplate s = s @ ''-tls''"
  by (simp add: notebookIngressTLSSecretNameTemplate_def)

lemma label_neq [simp]:
  "managedByOperatorLabel \<noteq> notebookLabel" "notebookLabel \<noteq> managedByOperatorLabel"
  by (simp_all add: managedByOperatorLabel_def notebookLabel_def)

lemma notebookLabels_eq:
  "notebookLabels name =
     [(managedByOperatorLabel, managedByOperatorLabelValue), (notebookLabel, name)]"
  by (simp add: notebookLabels_def addManagedByOperatorLabels_def addMatchLabels_def)

lemma isManaged_iff:
  "isManagedByOperator labels \<longleftrightarrow> mget labels managedByOperatorLabel = Some managedByOperatorLabelValue"
  by (simp add: isManagedByOperator_def split: option.splits)

lemma isManaged_notebookLabels [simp]: "isManagedByOperator (Some (notebookLabels name))"
  by (simp add: isManaged_iff notebookLabels_eq)

lemma matchLabels_sub: "map_of (addMatchLabels [] name) l = Some v \<Longrightarrow> map_of (notebookLabels name) l = Some v"
  by (auto simp: addMatchLabels_def notebookLabels_eq split: if_splits)

lemma GetControllerOf_addOwnerRef:
  "om_OwnerReferences m = [] \<Longrightarrow> or_Controller r = Some True \<Longrightarrow> GetControllerOf (addOwnerRefToObject m r) = Some r"
  by (simp add: GetControllerOf_def addOwnerRefToObject_def)

lemma addOwnerRef_frame [simp]:
  "om_Name (addOwnerRefToObject m r) = om_Name m"
  "om_Namespace (addOwnerRefToObject m r) = om_Namespace m"
  "om_Labels (addOwnerRefToObject m r) = om_Labels m"
  "om_Annotations (addOwnerRefToObject m r) = om_Annotations m"
  "om_ResourceVersion (addOwnerRefToObject m r) = om_ResourceVersion m"
  "om_UID (addOwnerRefToObject m r) = om_UID m"
  "om_OwnerReferences (addOwnerRefToObject m r) = om_OwnerReferences m @ [r]"
  by (simp_all add: addOwnerRefToObject_def)

section \<open>Namespace listers\<close>

text \<open>
  \<open>Get\<close> of a namespace lister: the cache entry under \<open>namespace/name\<close>, a NotFound status when there is
  none, and a panic when the entry is no object of the lister's type.
\<close>

primrec groupResource :: "kind \<Rightarrow> string" where
  "groupResource KService = ''service''"
| "groupResource KSecret = ''secret''"
| "groupResource KStatefulSet = ''statefulset.apps''"
| "groupResource KIngress = ''ingress.extensions''"
| "groupResource KNotebook = ''notebook.'' @ GroupName"

definition NewNotFound :: "kind \<Rightarrow> string \<Rightarrow> go_error" where
  "NewNotFound k name =
     StatusError StatusReasonNotFound (groupResource k @ '' '' @ Quote name @ '' not found'')"

definition lister_Get :: "kind \<Rightarrow> (object \<Rightarrow> 'r option) \<Rightarrow> string \<Rightarrow> string \<Rightarrow> (go_error + 'r) proc" where
  "lister_Get k as namespace name =
     pbind (lookup k (listerKey namespace name))
       (\<lambda>obj. case obj of
          None \<Rightarrow> Done (Inl (NewNotFound k name))
        | Some x \<Rightarrow> (case as x of None \<Rightarrow> Crash ''interface conversion'' | Some v \<Rightarrow> Done (Inr v)))"

definition as_Service :: "object \<Rightarrow> Service option" where
  "as_Service x = (case x of OService v \<Rightarrow> Some v | _ \<Rightarrow> None)"
definition as_Secret :: "object \<Rightarrow> Secret option" where
  "as_Secret x = (case x of OSecret v \<Rightarrow> Some v | _ \<Rightarrow> None)"
definition as_StatefulSet :: "object \<Rightarrow> StatefulSet option" where
  "as_StatefulSet x = (case x of OStatefulSet v \<Rightarrow> Some v | _ \<Rightarrow> None)"
definition as_Ingress :: "object \<Rightarrow> Ingress option" where
  "as_Ingress x = (case x of OIngress v \<Rightarrow> Some v | _ \<Rightarrow> None)"
definition as_Notebook :: "object \<Rightarrow> Notebook option" where
  "as_Notebook x = (case x of ONotebook v \<Rightarrow> Some v | _ \<Rightarrow> None)"

definition ServiceLister_Get :: "string \<Rightarrow> string \<Rightarrow> (go_error + Service) proc" where
  "ServiceLister_Get = lister_Get KService as_Service"
definition SecretLister_Get :: "string \<Rightarrow> string \<Rightarrow> (go_error + Secret) proc" where
  "SecretLister_Get = lister_Get KSecret as_Secret"
definition StatefulSetLister_Get :: "string \<Rightarrow> string \<Rightarrow> (go_error + StatefulSet) proc" where
  "StatefulSetLister_Get = lister_Get KStatefulSet as_StatefulSet"
definition IngressLister_Get :: "string \<Rightarrow> string \<Rightarrow> (go_error + Ingress) proc" where
  "IngressLister_Get = lister_Get KIngress as_Ingress"
definition NotebookLister_Get :: "string \<Rightarrow> string \<Rightarrow> (go_error + Notebook) proc" where
  "NotebookLister_Get = lister_Get KNotebook as_Notebook"

lemmas lister_defs = ServiceLister_Get_def SecretLister_Get_def StatefulSetLister_Get_def
  IngressLister_Get_def NotebookLister_Get_def

lemma NewNotFound_simps [simp]: "IsNotFound (Some (NewNotFound k name))"
  by (simp add: NewNotFound_def)

lemma as_iff [simp]:
  "as_Service x = Some a \<longleftrightarrow> x = OService a"
  "as_Secret x = Some b \<longleftrightarrow> x = OSecret b"
  "as_StatefulSet x = Some c \<longleftrightarrow> x = OStatefulSet c"
  "as_Ingress x = Some d \<longleftrightarrow> x = OIngress d"
  "as_Notebook x = Some e \<longleftrightarrow> x = ONotebook e"
  by (cases x; auto simp: as_Service_def as_Secret_def as_StatefulSet_def as_Ingress_def as_Notebook_def)+

lemma as_of_kind:
  "kind_of x = KService \<Longrightarrow> \<exists>a. x = OService a"
  "kind_of x = KSecret \<Longrightarrow> \<exists>b. x = OSecret b"
  "kind_of x = KStatefulSet \<Longrightarrow> \<exists>c. x = OStatefulSet c"
  "kind_of x = KIngress \<Longrightarrow> \<exists>d. x = OIngress d"
  "kind_of x = KNotebook \<Longrightarrow> \<exists>e. x = ONotebook e"
  by (cases x; simp)+

text \<open>A lister's \<open>Get\<close> is one lookup; it finds exactly the wrapped objects of its kind.\<close>

definition lister_type :: "kind \<Rightarrow> ('r \<Rightarrow> object) \<Rightarrow> (object \<Rightarrow> 'r option) \<Rightarrow> bool" where
  "lister_type k wrap as \<longleftrightarrow>
     (\<forall>x. kind_of x = k \<longrightarrow> (\<exists>v. x = wrap v)) \<and> (\<forall>v. kind_of (wrap v) = k) \<and> (\<forall>v. as (wrap v) = Some v)"

lemma lister_types [simp]:
  "lister_type KService OService as_Service"
  "lister_type KSecret OSecret as_Secret"
  "lister_type KStatefulSet OStatefulSet as_StatefulSet"
  "lister_type KIngress OIngress as_Ingress"
  "lister_type KNotebook ONotebook as_Notebook"
  by (auto simp: lister_type_def dest: as_of_kind)

definition get_result :: "kind \<Rightarrow> string \<Rightarrow> 'r option \<Rightarrow> go_error + 'r" where
  "get_result k name x = (case x of None \<Rightarrow> Inl (NewNotFound k name) | Some v \<Rightarrow> Inr v)"

lemma feed_Get_bind:
  assumes "lister_type k wrap as"
  shows "feed (pbind (lister_Get k as ns nm) g) es = Some (Done y) \<longleftrightarrow>
    (\<exists>x es'. es = (ALookup k (listerKey ns nm), Found (map_option wrap x)) # es'
       \<and> feed (g (get_result k nm x)) es' = Some (Done y))" (is "?L \<longleftrightarrow> ?R")
proof
  assume ?L
  then obtain z es' where es: "es = (ALookup k (listerKey ns nm), Found z) # es'"
    "case z of None \<Rightarrow> True | Some obj \<Rightarrow> kind_of obj = k"
    "feed (pbind (case z of None \<Rightarrow> Done (Inl (NewNotFound k nm))
        | Some x \<Rightarrow> (case as x of None \<Rightarrow> Crash ''interface conversion'' | Some v \<Rightarrow> Done (Inr v))) g) es'
      = Some (Done y)"
    unfolding lister_Get_def pbind_assoc feed_steps by blast
  show ?R
  proof (cases z)
    case None
    with es show ?thesis by (intro exI [of _ None] exI [of _ es']) (simp add: get_result_def)
  next
    case (Some obj)
    with es assms obtain v where "obj = wrap v" "as obj = Some v" by (auto simp: lister_type_def)
    with es Some show ?thesis by (intro exI [of _ "Some v"] exI [of _ es']) (simp add: get_result_def)
  qed
next
  assume ?R
  then obtain x es' where "es = (ALookup k (listerKey ns nm), Found (map_option wrap x)) # es'"
    "feed (g (get_result k nm x)) es' = Some (Done y)" by blast
  with assms show ?L
    unfolding lister_Get_def pbind_assoc feed_steps
    by (intro exI [of _ "map_option wrap x"] exI [of _ es'])
      (auto simp: lister_type_def get_result_def split: option.splits)
qed

lemma lister_Get_no_fail:
  assumes "lister_type k wrap as"
  shows "\<not> fails (lister_Get k as ns nm) m es"
  using assms by (auto simp: lister_Get_def fails_steps lister_type_def split: option.splits)

lemma lister_Get_Done:
  assumes "lister_type k wrap as"
  shows "feed (lister_Get k as ns nm) es = Some (Done res) \<longleftrightarrow>
    (\<exists>x. es = [(ALookup k (listerKey ns nm), Found (map_option wrap x))] \<and> res = get_result k nm x)"
  using feed_Get_bind [OF assms, of ns nm Done] by auto

lemma fails_Get_bind:
  assumes "lister_type k wrap as"
  shows "fails (pbind (lister_Get k as ns nm) g) m es \<longleftrightarrow>
    (\<exists>x es'. es = (ALookup k (listerKey ns nm), Found (map_option wrap x)) # es'
       \<and> fails (g (get_result k nm x)) m es')" (is "?L \<longleftrightarrow> ?R")
proof
  assume ?L
  then show ?R
    using lister_Get_no_fail [OF assms] by (auto simp: fails_bind lister_Get_Done [OF assms])
next
  assume ?R
  then obtain x es' where "es = [(ALookup k (listerKey ns nm), Found (map_option wrap x))] @ es'"
    "fails (g (get_result k nm x)) m es'" by auto
  then show ?L unfolding fails_bind lister_Get_Done [OF assms] by blast
qed

lemma guarded_Get_bind:
  assumes "lister_type k wrap as"
    and "G h (ALookup k (listerKey ns nm))"
    and "\<And>x. guarded G (g (get_result k nm x)) (h @ [(ALookup k (listerKey ns nm), Found (map_option wrap x))])"
  shows "guarded G (pbind (lister_Get k as ns nm) g) h"
proof (rule guarded_bind_hist)
  show "guarded G (lister_Get k as ns nm) h"
    using assms(2) by (auto simp: lister_Get_def lookup_def split: option.splits)
  show "guarded G (g x) (h @ es)" if "feed (lister_Get k as ns nm) es = Some (Done x)" for es x
    using that assms(3) unfolding lister_Get_Done [OF assms(1)] by blast
qed

section \<open>The adoption contract\<close>

definition refusal :: "string \<Rightarrow> go_error" where
  "refusal ty = PlainError (''refusing to adopt existing '' @ ty @ '': not managed by this operator'')"

text \<open>
  \<open>owned_writes h a\<close>: an update of a managed kind, or a delete that is to be followed by a new create,
  only touches an object that a lookup in the history returned with the operator's label; an update
  carries that object's resource version.
\<close>

definition seen_managed :: "event list \<Rightarrow> kind \<Rightarrow> ObjectMeta \<Rightarrow> bool" where
  "seen_managed h k m \<longleftrightarrow> (\<exists>key s. (ALookup k key, Found (Some s)) \<in> set h
     \<and> meta_of s = m \<and> isManagedByOperator (om_Labels m))"

lemma seen_managedI:
  "(ALookup k key, Found (Some s)) \<in> set h \<Longrightarrow> isManagedByOperator (om_Labels (meta_of s)) \<Longrightarrow>
    seen_managed h k (meta_of s)"
  unfolding seen_managed_def by blast

fun owned_writes :: "event list \<Rightarrow> action \<Rightarrow> bool" where
  "owned_writes h (ARequest (Update ns obj)) \<longleftrightarrow>
     kind_of obj = KNotebook \<or>
     (\<exists>m. seen_managed h (kind_of obj) m \<and> om_ResourceVersion m = om_ResourceVersion (meta_of obj))"
| "owned_writes h (ARequest (Delete k ns nm (Some pol))) \<longleftrightarrow>
     (\<exists>m. seen_managed h k m \<and> om_Name m = nm)"
| "owned_writes h a \<longleftrightarrow> True"

lemma stable_owned_writes: "stable owned_writes"
  unfolding stable_def
proof (intro allI impI)
  fix h h' a
  assume sub: "set h \<subseteq> set h'" and G: "owned_writes h a"
  from sub have "seen_managed h k m \<Longrightarrow> seen_managed h' k m" for k m
    unfolding seen_managed_def by blast
  with G show "owned_writes h' a" by (cases "(h, a)" rule: owned_writes.cases) auto
qed

text \<open>
  The contract of a \<open>CreateOrUpdate\<close> routine, as its caller sees it in a trace: it starts by looking
  the object up; it creates the object when there is none; it refuses to touch one without the
  operator's label; and it writes to nothing it has not seen so labelled.
\<close>

locale adopting_resource =
  fixes k :: kind
    and wrap :: "'r \<Rightarrow> object"
    and ty :: string
    and cou :: "string \<Rightarrow> 'r \<Rightarrow> go_error option proc"
  assumes looks_up: "feed (cou c x) es = Some (Done e) \<Longrightarrow>
      \<exists>r es'. es = (ALookup k (listerKey (om_Namespace (meta_of (wrap x))) (om_Name (meta_of (wrap x)))),
        Found (map_option wrap r)) # es'"
    and creates_absent: "feed (cou c x) ((a, Found None) # es) = Some (Done e) \<Longrightarrow>
      es = [(ARequest (Create c (wrap x)), Replied e)]"
    and refuses_foreign: "feed (cou c x) ((a, Found (Some (wrap s))) # es) = Some (Done e) \<Longrightarrow>
      \<not> isManagedByOperator (om_Labels (meta_of (wrap s))) \<Longrightarrow> es = [] \<and> e = Some (refusal ty)"
    and writes_owned: "guarded owned_writes (cou c x) []"
begin

text \<open>Success means the object was created, or an object with the operator's label was there.\<close>

lemma success_adopts:
  assumes "feed (cou c x) es = Some (Done None)"
  shows "(\<exists>a. es = [(a, Found None), (ARequest (Create c (wrap x)), Replied None)])
    \<or> (\<exists>a s es'. es = (a, Found (Some (wrap s))) # es' \<and> isManagedByOperator (om_Labels (meta_of (wrap s))))"
proof -
  obtain a r es' where es: "es = (a, Found (map_option wrap r)) # es'"
    using looks_up [OF assms] by blast
  show ?thesis
  proof (cases r)
    case None
    with es assms creates_absent [of c x a es' None] show ?thesis by simp
  next
    case (Some s)
    with es assms refuses_foreign [of c x a s es' None] show ?thesis by auto
  qed
qed

lemma no_write_before_lookup:
  assumes "feed (cou c x) (es @ (ARequest (Update ns obj), r) # es') = Some q" "kind_of obj \<noteq> KNotebook"
  shows "\<exists>m. seen_managed es (kind_of obj) m \<and> om_ResourceVersion m = om_ResourceVersion (meta_of obj)"
  using guarded_feed [OF writes_owned assms(1)] assms(2) by simp

end

text \<open>Service, Secret and Ingress are updated in place, from a merge of the found and wanted objects.\<close>

locale merging_resource = adopting_resource +
  fixes merge :: "'a \<Rightarrow> 'a \<Rightarrow> 'a"
  assumes updates_managed: "feed (cou c x) ((a, Found (Some (wrap s))) # es) = Some (Done e) \<Longrightarrow>
      isManagedByOperator (om_Labels (meta_of (wrap s))) \<Longrightarrow>
      es = [(ARequest (Update c (wrap (merge s x))), Replied e)]"
    and merge_meta: "meta_of (wrap (merge s x)) =
      (meta_of (wrap x))\<lparr>om_ResourceVersion := om_ResourceVersion (meta_of (wrap s))\<rparr>"
begin

text \<open>Whatever it finds, the routine sends at most one request.\<close>

lemma one_request:
  assumes "feed (cou c x) es = Some (Done e)"
  shows "length es \<le> 2"
proof -
  obtain a r es' where es: "es = (a, Found (map_option wrap r)) # es'"
    using looks_up [OF assms] by blast
  show ?thesis
  proof (cases r)
    case None
    with es assms creates_absent [of c x a es' e] show ?thesis by simp
  next
    case (Some s)
    with es assms refuses_foreign [of c x a s es' e] updates_managed [of c x a s es' e]
    show ?thesis by (cases "isManagedByOperator (om_Labels (meta_of (wrap s)))") auto
  qed
qed

end

text \<open>The whole trace of a merging routine, from which its contract follows.\<close>

definition merging_trace ::
  "kind \<Rightarrow> ('r \<Rightarrow> object) \<Rightarrow> string \<Rightarrow> ('r \<Rightarrow> 'r \<Rightarrow> 'r) \<Rightarrow> string \<Rightarrow> 'r \<Rightarrow> event list \<Rightarrow> go_error option \<Rightarrow> bool" where
  "merging_trace k wrap ty merge c x es e \<longleftrightarrow>
     (\<exists>r es'. es = (ALookup k (listerKey (om_Namespace (meta_of (wrap x))) (om_Name (meta_of (wrap x)))),
                    Found (map_option wrap r)) # es' \<and>
       (case r of
          None \<Rightarrow> es' = [(ARequest (Create c (wrap x)), Replied e)]
        | Some s \<Rightarrow> if isManagedByOperator (om_Labels (meta_of (wrap s)))
                    then es' = [(ARequest (Update c (wrap (merge s x))), Replied e)]
                    else es' = [] \<and> e = Some (refusal ty)))"

lemma merging_resourceI:
  assumes trace: "\<And>c x es e. feed (cou c x) es = Some (Done e) \<longleftrightarrow> merging_trace k wrap ty merge c x es e"
    and owned: "\<And>c x. guarded owned_writes (cou c x) []"
    and meta: "\<And>s x. meta_of (wrap (merge s x)) =
      (meta_of (wrap x))\<lparr>om_ResourceVersion := om_ResourceVersion (meta_of (wrap s))\<rparr>"
    and inj: "inj wrap"
  shows "merging_resource k wrap ty cou merge"
proof -
  have eq: "Some (wrap s) = map_option wrap r \<longleftrightarrow> r = Some s" for r s
    by (cases r) (auto simp: inj_eq [OF inj])
  show ?thesis
  proof unfold_locales
  fix c x es e
  assume "feed (cou c x) es = Some (Done e)"
  then show "\<exists>r es'. es = (ALookup k (listerKey (om_Namespace (meta_of (wrap x))) (om_Name (meta_of (wrap x)))),
        Found (map_option wrap r)) # es'"
    unfolding trace merging_trace_def by blast
next
  fix c x a es e
  assume "feed (cou c x) ((a, Found None) # es) = Some (Done e)"
  then show "es = [(ARequest (Create c (wrap x)), Replied e)]"
    unfolding trace merging_trace_def by auto
next
  fix c x a s es e
  assume "feed (cou c x) ((a, Found (Some (wrap s))) # es) = Some (Done e)"
    and "\<not> isManagedByOperator (om_Labels (meta_of (wrap s)))"
  then show "es = [] \<and> e = Some (refusal ty)"
    unfolding trace merging_trace_def by (auto simp: eq)
next
  fix c x a s es e
  assume "feed (cou c x) ((a, Found (Some (wrap s))) # es) = Some (Done e)"
    and "isManagedByOperator (om_Labels (meta_of (wrap s)))"
  then show "es = [(ARequest (Update c (wrap (merge s x))), Replied e)]"
    unfolding trace merging_trace_def by (auto simp: eq)
qed (rule owned meta)+
qed

lemma inj_wraps [simp]: "inj OService" "inj OSecret" "inj OStatefulSet" "inj OIngress"
  by (simp_all add: inj_def)

end
