(* ===== verification/Service_Util.thy ===== *)
theory Service_Util imports K8s_Names begin

text \<open>
  \<open>pkg/k8sutil/service.go\<close>: the Service of a notebook, its create-or-update and its deletion. The
  client and the lister are the world's: \<open>c\<close> is the namespace the client is bound to.
\<close>

definition tolerateUnreadyEndpointsAnnotation :: string where
  "tolerateUnreadyEndpointsAnnotation = ''service.alpha.kubernetes.io/tolerate-unready-endpoints''"

definition ProtocolTCP :: string where "ProtocolTCP = ''TCP''"
definition ServiceTypeClusterIP :: string where "ServiceTypeClusterIP = ''ClusterIP''"

definition CalculateService :: "Notebook \<Rightarrow> Service" where
  "CalculateService n =
     (let labels = notebookLabels (nb_Name n);
          svc = \<lparr> svc_Meta = emptyMeta\<lparr>
                    om_Name := resourceName (nb_Name n),
                    om_Namespace := nb_Namespace n,
                    om_Labels := Some labels,
                    om_Annotations := Some [(tolerateUnreadyEndpointsAnnotation, ''true'')]\<rparr>,
                  svc_Spec = \<lparr>
                    svs_Ports = [\<lparr> sp_Name = notebookPortName, sp_Port = word_of_int notebookPort,
                                   sp_Protocol = ProtocolTCP \<rparr>],
                    svs_Selector = Some (addMatchLabels [] (nb_Name n)),
                    svs_Type = ServiceTypeClusterIP,
                    svs_ClusterIP = [] \<rparr> \<rparr>
      in svc\<lparr>svc_Meta := addOwnerRefToObject (svc_Meta svc) (AsOwner n)\<rparr>)"

definition CreateOrUpdateService :: "string \<Rightarrow> Service \<Rightarrow> go_error option proc" where
  "CreateOrUpdateService c svc =
     pbind (ServiceLister_Get (om_Namespace (svc_Meta svc)) (om_Name (svc_Meta svc)))
       (\<lambda>res. case res of
          Inl err \<Rightarrow>
            if \<not> IsNotFound (Some err) then Done (Some err)
            else request (Create c (OService svc))
        | Inr s \<Rightarrow>
            if \<not> isManagedByOperator (om_Labels (svc_Meta s)) then Done (Some (refusal ''*v1.Service''))
            else
              let svc1 = svc\<lparr>svc_Meta := (svc_Meta svc)\<lparr>om_ResourceVersion := om_ResourceVersion (svc_Meta s)\<rparr>\<rparr>;
                  svc2 = svc1\<lparr>svc_Spec := (svc_Spec svc1)\<lparr>svs_ClusterIP := svs_ClusterIP (svc_Spec s)\<rparr>\<rparr>
              in request (Update c (OService svc2)))"

definition DeleteService :: "string \<Rightarrow> Notebook \<Rightarrow> go_error option proc" where
  "DeleteService c n = request (Delete KService c (resourceName (nb_Name n)) None)"

section \<open>The adoption contract\<close>

text \<open>What an update sends: the wanted service under the found version and cluster IP.\<close>

definition mergeService :: "Service \<Rightarrow> Service \<Rightarrow> Service" where
  "mergeService s svc = svc\<lparr>
     svc_Meta := (svc_Meta svc)\<lparr>om_ResourceVersion := om_ResourceVersion (svc_Meta s)\<rparr>,
     svc_Spec := (svc_Spec svc)\<lparr>svs_ClusterIP := svs_ClusterIP (svc_Spec s)\<rparr>\<rparr>"

lemma CreateOrUpdateService_trace:
  "feed (CreateOrUpdateService c svc) es = Some (Done e) \<longleftrightarrow>
     merging_trace KService OService ''*v1.Service'' mergeService c svc es e"
  unfolding CreateOrUpdateService_def ServiceLister_Get_def feed_Get_bind [OF lister_types(1)] merging_trace_def
  by (intro ex_cong1) (auto simp: get_result_def mergeService_def split: option.splits)

lemma CreateOrUpdateService_no_fail [simp]: "\<not> fails (CreateOrUpdateService c svc) m es"
  unfolding CreateOrUpdateService_def ServiceLister_Get_def fails_Get_bind [OF lister_types(1)]
  by (auto simp: get_result_def split: option.splits if_splits)

lemma CreateOrUpdateService_owned: "guarded owned_writes (CreateOrUpdateService c svc) []"
  unfolding CreateOrUpdateService_def ServiceLister_Get_def
proof (rule guarded_Get_bind [OF lister_types(1)])
  fix x
  let ?ev = "(ALookup KService (listerKey (om_Namespace (svc_Meta svc)) (om_Name (svc_Meta svc))),
    Found (map_option OService x))"
  show "guarded owned_writes (case get_result KService (om_Name (svc_Meta svc)) x of
      Inl err \<Rightarrow> if \<not> IsNotFound (Some err) then Done (Some err) else request (Create c (OService svc))
    | Inr s \<Rightarrow> if \<not> isManagedByOperator (om_Labels (svc_Meta s)) then Done (Some (refusal ''*v1.Service''))
        else let svc1 = svc\<lparr>svc_Meta := (svc_Meta svc)\<lparr>om_ResourceVersion := om_ResourceVersion (svc_Meta s)\<rparr>\<rparr>;
                 svc2 = svc1\<lparr>svc_Spec := (svc_Spec svc1)\<lparr>svs_ClusterIP := svs_ClusterIP (svc_Spec s)\<rparr>\<rparr>
             in request (Update c (OService svc2))) ([] @ [?ev])"
  proof (cases x)
    case (Some s)
    then show ?thesis
      using seen_managedI [of KService _ "OService s" "[?ev]"]
      by (auto simp: get_result_def request_def)
  qed (simp add: get_result_def request_def)
qed simp

interpretation svc_res: merging_resource KService OService "''*v1.Service''" CreateOrUpdateService mergeService
  by (rule merging_resourceI)
    (simp_all add: CreateOrUpdateService_trace CreateOrUpdateService_owned mergeService_def)

end
