(* ===== verification/Tls.thy ===== *)
theory Tls imports Prelude begin

text \<open>
  \<open>pkg/tls/tls.go\<close> and the part of the vendored \<open>tlsutil\<close> it calls. RSA, X.509, PEM, randomness and the
  clock belong to Go's crypto libraries: they are the fields of a \<open>crypto\<close> record and of a \<open>draw\<close> (what
  one call takes from the random source and the clock), arguments of every definition here. What
  the proofs rely on is stated by \<open>crypto_laws\<close> and \<open>signs\<close>.
\<close>

section \<open>The crypto libraries as parameters\<close>

datatype KeyUsage = KeyUsageDigitalSignature | KeyUsageKeyEncipherment | KeyUsageCertSign
datatype ExtKeyUsage = ExtKeyUsageServerAuth | ExtKeyUsageClientAuth

record AltNames =
  an_DNSNames :: "string list"
  an_IPs :: "string list"

record Certificate =
  crt_Raw :: string
  crt_CommonName :: string
  crt_Organization :: "string list"
  crt_OrganizationalUnit :: "string list"
  crt_DNSNames :: "string list"
  crt_IPAddresses :: "string list"
  crt_SerialNumber :: int
  crt_NotBefore :: int
  crt_NotAfter :: int
  crt_KeyUsage :: "KeyUsage list"
  crt_ExtKeyUsage :: "ExtKeyUsage list"
  crt_BasicConstraintsValid :: bool
  crt_IsCA :: bool

record draw =
  dr_key :: nat
  dr_serial :: nat
  dr_sign :: nat
  dr_uuid :: string
  dr_now :: int

record 'k crypto =
  rsa_GenerateKey :: "nat \<Rightarrow> int \<Rightarrow> go_error + 'k"
  rand_Int :: "nat \<Rightarrow> int \<Rightarrow> go_error + int"
  x509_CreateCertificate :: "nat \<Rightarrow> Certificate \<Rightarrow> Certificate \<Rightarrow> 'k \<Rightarrow> 'k \<Rightarrow> go_error + string"
  x509_ParseCertificate :: "string \<Rightarrow> go_error + Certificate"
  x509_MarshalPKCS1PrivateKey :: "'k \<Rightarrow> string"
  x509_CheckSignatureFrom :: "Certificate \<Rightarrow> Certificate \<Rightarrow> go_error option"
  pem_EncodeToMemory :: "string \<Rightarrow> string \<Rightarrow> string"
  pem_Decode :: "string \<Rightarrow> string option"

definition emptyCertificate :: Certificate where
  "emptyCertificate = \<lparr> crt_Raw = [], crt_CommonName = [], crt_Organization = [],
     crt_OrganizationalUnit = [], crt_DNSNames = [], crt_IPAddresses = [], crt_SerialNumber = 0,
     crt_NotBefore = 0, crt_NotAfter = 0, crt_KeyUsage = [], crt_ExtKeyUsage = [],
     crt_BasicConstraintsValid = False, crt_IsCA = False \<rparr>"

section \<open>tlsutil\<close>

definition RSAKeySize :: int where "RSAKeySize = 2048"
definition Duration365d :: int where "Duration365d = 3600 * 1000000000 * 24 * 365"
definition MaxInt64 :: int where "MaxInt64 = 2 ^ 63 - 1"

record CertConfig =
  cc_CommonName :: string
  cc_Organization :: "string list"
  cc_OrganizationalUnit :: "string list"
  cc_AltNames :: AltNames

definition NewPrivateKey :: "'k crypto \<Rightarrow> draw \<Rightarrow> go_error + 'k" where
  "NewPrivateKey cr d = rsa_GenerateKey cr (dr_key d) RSAKeySize"

definition EncodePrivateKeyPEM :: "'k crypto \<Rightarrow> 'k \<Rightarrow> string" where
  "EncodePrivateKeyPEM cr key =
     pem_EncodeToMemory cr ''RSA PRIVATE KEY'' (x509_MarshalPKCS1PrivateKey cr key)"

definition EncodeCertificatePEM :: "'k crypto \<Rightarrow> Certificate \<Rightarrow> string" where
  "EncodeCertificatePEM cr cert = pem_EncodeToMemory cr ''CERTIFICATE'' (crt_Raw cert)"

definition NewSelfSignedCACertificate ::
  "'k crypto \<Rightarrow> draw \<Rightarrow> CertConfig \<Rightarrow> 'k \<Rightarrow> go_error + Certificate" where
  "NewSelfSignedCACertificate cr d cfg key =
     (let now = dr_now d;
          tmpl = emptyCertificate\<lparr>
            crt_SerialNumber := 0,
            crt_CommonName := cc_CommonName cfg,
            crt_Organization := cc_Organization cfg,
            crt_OrganizationalUnit := cc_OrganizationalUnit cfg,
            crt_NotBefore := now,
            crt_NotAfter := now + Duration365d * 10,
            crt_KeyUsage := [KeyUsageKeyEncipherment, KeyUsageDigitalSignature, KeyUsageCertSign],
            crt_BasicConstraintsValid := True,
            crt_IsCA := True\<rparr>
      in case x509_CreateCertificate cr (dr_sign d) tmpl tmpl key key of
           Inl err \<Rightarrow> Inl err
         | Inr der \<Rightarrow> x509_ParseCertificate cr der)"

definition ParsePEMEncodedCACert :: "'k crypto \<Rightarrow> string \<Rightarrow> go_error + Certificate" where
  "ParsePEMEncodedCACert cr pemdata =
     (case pem_Decode cr pemdata of
        None \<Rightarrow> Inl (PlainError ''no PEM data found'')
      | Some bytes \<Rightarrow> x509_ParseCertificate cr bytes)"

definition NewSignedCertificate ::
  "'k crypto \<Rightarrow> draw \<Rightarrow> CertConfig \<Rightarrow> 'k \<Rightarrow> Certificate \<Rightarrow> 'k \<Rightarrow> go_error + Certificate" where
  "NewSignedCertificate cr d cfg key caCert caKey =
     (case rand_Int cr (dr_serial d) MaxInt64 of
        Inl err \<Rightarrow> Inl err
      | Inr serial \<Rightarrow>
          let certTmpl = emptyCertificate\<lparr>
                crt_CommonName := cc_CommonName cfg,
                crt_Organization := cc_Organization cfg,
                crt_DNSNames := an_DNSNames (cc_AltNames cfg),
                crt_IPAddresses := an_IPs (cc_AltNames cfg),
                crt_SerialNumber := serial,
                crt_NotBefore := crt_NotBefore caCert,
                crt_NotAfter := dr_now d + Duration365d,
                crt_KeyUsage := [KeyUsageKeyEncipherment, KeyUsageDigitalSignature],
                crt_ExtKeyUsage := [ExtKeyUsageServerAuth, ExtKeyUsageClientAuth]\<rparr>
          in case x509_CreateCertificate cr (dr_sign d) certTmpl caCert key caKey of
               Inl err \<Rightarrow> Inl err
             | Inr der \<Rightarrow> x509_ParseCertificate cr der)"

section \<open>tls.go\<close>

definition organization :: string where "organization = ''jupyter-operator''"

definition NewCACert :: "'k crypto \<Rightarrow> draw \<Rightarrow> go_error + Certificate \<times> 'k" where
  "NewCACert cr d =
     (case NewPrivateKey cr d of
        Inl err \<Rightarrow> Inl err
      | Inr key \<Rightarrow>
          let config = \<lparr> cc_CommonName = ''kube-ca'', cc_Organization = [organization],
                         cc_OrganizationalUnit = [dr_uuid d],
                         cc_AltNames = \<lparr> an_DNSNames = [], an_IPs = [] \<rparr> \<rparr>
          in case NewSelfSignedCACertificate cr d config key of
               Inl err \<Rightarrow> Inl err
             | Inr cert \<Rightarrow> Inr (cert, key))"

definition NewSignedCert ::
  "'k crypto \<Rightarrow> draw \<Rightarrow> Certificate \<Rightarrow> 'k \<Rightarrow> AltNames \<Rightarrow> string \<Rightarrow> go_error + Certificate \<times> 'k" where
  "NewSignedCert cr d caCert caKey altNames commonName =
     (case NewPrivateKey cr d of
        Inl err \<Rightarrow> Inl err
      | Inr key \<Rightarrow>
          let config = \<lparr> cc_CommonName = commonName, cc_Organization = [organization],
                         cc_OrganizationalUnit = [], cc_AltNames = altNames \<rparr>
          in case NewSignedCertificate cr d config key caCert caKey of
               Inl err \<Rightarrow> Inl err
             | Inr cert \<Rightarrow> Inr (cert, key))"

section \<open>What the libraries promise\<close>

text \<open>
  PEM decodes what it encoded; a created certificate parses, to the template's names and dates, with
  the DER bytes as its \<open>Raw\<close> field; \<open>signs\<close>: what is created under this CA and key verifies against it.
\<close>

definition crypto_laws :: "'k crypto \<Rightarrow> bool" where
  "crypto_laws cr \<longleftrightarrow>
     (\<forall>ty b. pem_Decode cr (pem_EncodeToMemory cr ty b) = Some b) \<and>
     (\<forall>r tmpl parent pub signer der. x509_CreateCertificate cr r tmpl parent pub signer = Inr der \<longrightarrow>
        x509_ParseCertificate cr der = Inr (tmpl\<lparr>crt_Raw := der\<rparr>))"

definition signs :: "'k crypto \<Rightarrow> Certificate \<Rightarrow> 'k \<Rightarrow> bool" where
  "signs cr caCert caKey \<longleftrightarrow>
     (\<forall>r tmpl pub der crt. x509_CreateCertificate cr r tmpl caCert pub caKey = Inr der \<longrightarrow>
        x509_ParseCertificate cr der = Inr crt \<longrightarrow> x509_CheckSignatureFrom cr crt caCert = None)"

lemma NewSignedCert_names:
  assumes "crypto_laws cr" "NewSignedCert cr d caCert caKey altNames cn = Inr (cert, key)"
  shows "crt_DNSNames cert = an_DNSNames altNames" "crt_CommonName cert = cn"
    "crt_NotBefore cert = crt_NotBefore caCert" "\<not> crt_IsCA cert"
  using assms
  by (auto simp: NewSignedCert_def NewSignedCertificate_def crypto_laws_def emptyCertificate_def Let_def
      split: sum.splits)

lemma NewSignedCert_parses:
  assumes "crypto_laws cr" "NewSignedCert cr d caCert caKey altNames cn = Inr (cert, key)"
  shows "ParsePEMEncodedCACert cr (EncodeCertificatePEM cr cert) = Inr cert"
proof -
  from assms(2) obtain tmpl der where
    der: "x509_CreateCertificate cr (dr_sign d) tmpl caCert key caKey = Inr der"
      "x509_ParseCertificate cr der = Inr cert"
    by (auto simp: NewSignedCert_def NewSignedCertificate_def Let_def split: sum.splits)
  with assms(1) have "crt_Raw cert = der" by (auto simp: crypto_laws_def)
  with der assms(1) show ?thesis
    by (simp add: ParsePEMEncodedCACert_def EncodeCertificatePEM_def crypto_laws_def)
qed

lemma NewSignedCert_signed:
  assumes "signs cr caCert caKey" "NewSignedCert cr d caCert caKey altNames cn = Inr (cert, key)"
  shows "x509_CheckSignatureFrom cr cert caCert = None"
  using assms
  by (auto simp: NewSignedCert_def NewSignedCertificate_def signs_def Let_def split: sum.splits)

end
