(* ===== verification/Secret_Util.thy ===== *)
theory Secret_Util imports K8s_Names Tls begin

text \<open>
  \<open>pkg/k8sutil/secret.go\<close>: the Secret of a notebook with its certificate and password, its
  create-or-update, which keeps an existing certificate that this operator's CA signed, and its
  deletion. \<open>Returns\<close> and \<open>Panics\<close> of \<open>CalculateSecret\<close> are its two ends.
\<close>

definition ShouldHaveCerts :: "Notebook \<Rightarrow> bool" where
  "ShouldHaveCerts n =
     (if spec_TLS (nb_Spec n) \<noteq> None \<and> the (spec_TLS (nb_Spec n)) = NotebookTLSNone then False else True)"

definition hasPassword :: "Notebook \<Rightarrow> bool" where
  "hasPassword n \<longleftrightarrow> (case spec_Password (nb_Spec n) of None \<Rightarrow> False | Some pw \<Rightarrow> pw \<noteq> [])"

definition CalculateSecret ::
  "'k crypto \<Rightarrow> draw \<Rightarrow> Notebook \<Rightarrow> Certificate \<Rightarrow> 'k \<Rightarrow> Secret outcome" where
  "CalculateSecret cr d n caCert caKey =
     (let labels = notebookLabels (nb_Name n);
          m = emptyMeta\<lparr>om_Name := resourceName (nb_Name n), om_Namespace := nb_Namespace n,
                om_Labels := Some labels, om_Annotations := Some []\<rparr>;
          data0 = [];
          withCerts =
            (if ShouldHaveCerts n
             then
               let altNames = \<lparr> an_DNSNames = (case spec_Host (nb_Spec n) of
                                   None \<Rightarrow> [] | Some h \<Rightarrow> if h \<noteq> [] then [h] else []),
                                 an_IPs = [] \<rparr>
               in case NewSignedCert cr d caCert caKey altNames (nb_Name n) of
                    Inl err \<Rightarrow> Panics ''failed to generate certificate''
                  | Inr (cert, key) \<Rightarrow>
                      Returns (mput TLSPrivateKeyKey (Some (EncodePrivateKeyPEM cr key))
                        (mput TLSCertKey (Some (EncodeCertificatePEM cr cert)) data0))
             else Returns data0)
      in obind withCerts (\<lambda>data1.
           let data2 = (case spec_Password (nb_Spec n) of
                 None \<Rightarrow> data1
               | Some pw \<Rightarrow> if pw \<noteq> [] then mput notebookPasswordKey (Some pw) data1 else data1)
           in Returns \<lparr> sec_Meta = addOwnerRefToObject m (AsOwner n), sec_Data = Some data2 \<rparr>))"

text \<open>The certificate branch of \<open>CreateOrUpdateSecret\<close>: what becomes of the wanted secret's data.\<close>

definition keepCertificate :: "'k crypto \<Rightarrow> Certificate \<Rightarrow> Secret \<Rightarrow> Secret \<Rightarrow> Secret" where
  "keepCertificate cr caCert s secret =
     (case mget (sec_Data s) TLSCertKey of
        None \<Rightarrow> secret
      | Some pem \<Rightarrow>
          if dataGet (sec_Data secret) TLSCertKey \<noteq> None
          then (case ParsePEMEncodedCACert cr (case pem of None \<Rightarrow> [] | Some b \<Rightarrow> b) of
                  Inl err \<Rightarrow> secret
                | Inr cert \<Rightarrow>
                    (case x509_CheckSignatureFrom cr cert caCert of
                       Some err \<Rightarrow> secret
                     | None \<Rightarrow>
                         secret\<lparr>sec_Data := map_option (\<lambda>kvs.
                           mput TLSPrivateKeyKey (dataGet (sec_Data s) TLSPrivateKeyKey)
                             (mput TLSCertKey (dataGet (sec_Data s) TLSCertKey) kvs))
                           (sec_Data secret)\<rparr>))
          else secret)"

definition CreateOrUpdateSecret ::
  "'k crypto \<Rightarrow> Certificate \<Rightarrow> string \<Rightarrow> Secret \<Rightarrow> go_error option proc" where
  "CreateOrUpdateSecret cr caCert c secret =
     pbind (SecretLister_Get (om_Namespace (sec_Meta secret)) (om_Name (sec_Meta secret)))
       (\<lambda>res. case res of
          Inl err \<Rightarrow>
            if \<not> IsNotFound (Some err) then Done (Some err)
            else request (Create c (OSecret secret))
        | Inr s \<Rightarrow>
            if \<not> isManagedByOperator (om_Labels (sec_Meta s)) then Done (Some (refusal ''*v1.Secret''))
            else
              let secret1 = keepCertificate cr caCert s secret;
                  secret2 = secret1\<lparr>sec_Meta := (sec_Meta secret1)\<lparr>
                    om_ResourceVersion := om_ResourceVersion (sec_Meta s)\<rparr>\<rparr>
              in request (Update c (OSecret secret2)))"

definition DeleteSecret :: "string \<Rightarrow> Notebook \<Rightarrow> go_error option proc" where
  "DeleteSecret c n = request (Delete KSecret c (resourceName (nb_Name n)) None)"

section \<open>The adoption contract\<close>

definition mergeSecret :: "'k crypto \<Rightarrow> Certificate \<Rightarrow> Secret \<Rightarrow> Secret \<Rightarrow> Secret" where
  "mergeSecret cr caCert s secret = (keepCertificate cr caCert s secret)
     \<lparr>sec_Meta := (sec_Meta secret)\<lparr>om_ResourceVersion := om_ResourceVersion (sec_Meta s)\<rparr>\<rparr>"

text \<open>The existing certificate is kept when it parses and this CA signed it.\<close>

definition keepsCert :: "'k crypto \<Rightarrow> Certificate \<Rightarrow> Secret \<Rightarrow> bool" where
  "keepsCert cr caCert s \<longleftrightarrow>
     (case mget (sec_Data s) TLSCertKey of
        None \<Rightarrow> False
      | Some pem \<Rightarrow> (case ParsePEMEncodedCACert cr (case pem of None \<Rightarrow> [] | Some b \<Rightarrow> b) of
          Inl err \<Rightarrow> False
        | Inr cert \<Rightarrow> x509_CheckSignatureFrom cr cert caCert = None))"

lemma keepCertificate_frame [simp]: "sec_Meta (keepCertificate cr caCert s secret) = sec_Meta secret"
  by (simp add: keepCertificate_def split: option.splits sum.splits)

lemma keepCertificate_data:
  "dataGet (sec_Data (keepCertificate cr caCert s secret)) k =
     (if keepsCert cr caCert s \<and> dataGet (sec_Data secret) TLSCertKey \<noteq> None \<and>
         (k = TLSCertKey \<or> k = TLSPrivateKeyKey)
      then dataGet (sec_Data s) k else dataGet (sec_Data secret) k)"
  by (cases "sec_Data secret")
    (auto simp: keepCertificate_def keepsCert_def dataGet_def TLSCertKey_def TLSPrivateKeyKey_def
      split: option.splits sum.splits)

lemma CreateOrUpdateSecret_trace:
  "feed (CreateOrUpdateSecret cr caCert c secret) es = Some (Done e) \<longleftrightarrow>
     merging_trace KSecret OSecret ''*v1.Secret'' (mergeSecret cr caCert) c secret es e"
  unfolding CreateOrUpdateSecret_def SecretLister_Get_def feed_Get_bind [OF lister_types(2)] merging_trace_def
  by (intro ex_cong1) (auto simp: get_result_def mergeSecret_def split: option.splits)

lemma CreateOrUpdateSecret_no_fail [simp]: "\<not> fails (CreateOrUpdateSecret cr caCert c secret) m es"
  unfolding CreateOrUpdateSecret_def SecretLister_Get_def fails_Get_bind [OF lister_types(2)]
  by (auto simp: get_result_def split: option.splits if_splits)

lemma mergeSecret_meta [simp]:
  "sec_Meta (mergeSecret cr caCert s secret) =
     (sec_Meta secret)\<lparr>om_ResourceVersion := om_ResourceVersion (sec_Meta s)\<rparr>"
  by (simp add: mergeSecret_def)

lemma CreateOrUpdateSecret_owned: "guarded owned_writes (CreateOrUpdateSecret cr caCert c secret) []"
  unfolding CreateOrUpdateSecret_def SecretLister_Get_def
proof (rule guarded_Get_bind [OF lister_types(2)])
  fix x
  let ?ev = "(ALookup KSecret (listerKey (om_Namespace (sec_Meta secret)) (om_Name (sec_Meta secret))),
    Found (map_option OSecret x))"
  show "guarded owned_writes (case get_result KSecret (om_Name (sec_Meta secret)) x of
      Inl err \<Rightarrow> if \<not> IsNotFound (Some err) then Done (Some err) else request (Create c (OSecret secret))
    | Inr s \<Rightarrow> if \<not> isManagedByOperator (om_Labels (sec_Meta s)) then Done (Some (refusal ''*v1.Secret''))
        else let secret1 = keepCertificate cr caCert s secret;
                 secret2 = secret1\<lparr>sec_Meta := (sec_Meta secret1)\<lparr>
                    om_ResourceVersion := om_ResourceVersion (sec_Meta s)\<rparr>\<rparr>
              in request (Update c (OSecret secret2))) ([] @ [?ev])"
  proof (cases x)
    case (Some s)
    then show ?thesis
      using seen_managedI [of KSecret _ "OSecret s" "[?ev]"]
      by (auto simp: get_result_def request_def)
  qed (simp add: get_result_def request_def)
qed simp

interpretation sec_res: merging_resource KSecret OSecret "''*v1.Secret''"
  "CreateOrUpdateSecret cr caCert" "mergeSecret cr caCert" for cr :: "'k crypto" and caCert
  by (rule merging_resourceI)
    (simp_all add: CreateOrUpdateSecret_trace CreateOrUpdateSecret_owned)

end
