(* ===== verification/Retry.thy ===== *)
theory Retry imports K8s_Names begin

text \<open>
  The vendored \<open>github.com/squat/retry\<close> and the loop with which \<open>k8sutil\<close> consumes it. A retrier goroutine
  runs the retriable until it succeeds or its \<open>done\<close> channel is closed, and reports over an unbuffered
  channel with sends that give up when nobody is receiving; a timer goroutine closes \<open>done\<close> after the
  timeout; the caller ranges over the messages. The retrier and its reader are one tree here: a
  send asks the world whether the reader was waiting (\<open>Delivered\<close>), each look at \<open>done\<close> asks whether
  it is closed by now (\<open>DoneClosed\<close>), each close whether the timer got there first (\<open>TimerFired\<close>). The loop runs on fuel.
\<close>

section \<open>Durations and messages\<close>

definition Second :: nat where "Second = 1000000000"
definition Minute :: nat where "Minute = 60 * Second"

text \<open>\<open>Duration.String\<close> of the whole-second backoff in use.\<close>

definition Duration_String :: "nat \<Rightarrow> string" where
  "Duration_String d = utoa (d div Second) @ ''s''"

record Message =
  msg_Done :: bool
  msg_Error :: "go_error option"

definition errTimedOut :: go_error where
  "errTimedOut = PlainError ''timed out waiting for operation to finish''"
definition errMaxRetries :: go_error where
  "errMaxRetries = PlainError ''the operation reached the maximum amount of retries''"

text \<open>
  A \<open>BackOff\<close> gives the next pause, \<open>stopBackOff\<close> being \<^const>\<open>None\<close>; the operator only uses
  \<open>ConstantBackOff\<close>.
\<close>

datatype BackOff = ConstantBackOff "nat option"

primrec NextBackOff :: "BackOff \<Rightarrow> nat option" where
  "NextBackOff (ConstantBackOff d) = d"

section \<open>The reader\<close>

text \<open>
  The reader of the messages: still receiving, or returned with its error. It returns at the first
  message with \<open>Done\<close> set; when the channel is closed first, the loop ends and it returns nil.
\<close>

datatype reader = Receiving | Returned "go_error option"

definition receive :: "Message \<Rightarrow> reader" where
  "receive m =
     (if msg_Done m then (if msg_Error m \<noteq> None then Returned (msg_Error m) else Returned None)
      else Receiving)"

lemma receive_simps [simp]:
  "receive \<lparr> msg_Done = True, msg_Error = e \<rparr> = Returned e"
  "receive \<lparr> msg_Done = False, msg_Error = e \<rparr> = Receiving"
  by (simp_all add: receive_def)

primrec rangeEnds :: "reader \<Rightarrow> go_error option" where
  "rangeEnds Receiving = None"
| "rangeEnds (Returned e) = e"

definition sendNonblockingMessage :: "Message \<Rightarrow> reader \<Rightarrow> reader proc" where
  "sendNonblockingMessage m c =
     (case c of
        Returned e \<Rightarrow> Done c
      | Receiving \<Rightarrow> pbind (ask Delivered) (\<lambda>ready. Done (if ready then receive m else c)))"

section \<open>The retrier\<close>

definition stopped :: "bool proc" where
  "stopped = ask DoneClosed"

text \<open>
  \<open>close(done)\<close>: when the timer goroutine has left its select to close the channel, one of the two
  closes comes second and panics.
\<close>

definition closeDone :: "unit proc" where
  "closeDone = pbind (ask TimerFired) (\<lambda>c. if c then Crash ''close of closed channel'' else Done ())"

definition sleepOrDone :: "nat \<Rightarrow> unit proc" where
  "sleepOrDone d = sleep d"

text \<open>What follows a call of the retriable: \<open>again\<close> is the loop's next round.\<close>

definition retryRound ::
  "(reader \<Rightarrow> reader proc) \<Rightarrow> BackOff \<Rightarrow> reader \<Rightarrow> go_error option \<Rightarrow> reader proc" where
  "retryRound again b c err =
     (case err of
        None \<Rightarrow>
          pbind (sendNonblockingMessage \<lparr> msg_Done = True, msg_Error = None \<rparr> c) (\<lambda>c1.
            pbind closeDone (\<lambda>_. Done c1))
      | Some e \<Rightarrow>
          (case NextBackOff b of
             None \<Rightarrow>
               pbind (sendNonblockingMessage \<lparr> msg_Done = True, msg_Error = Some errMaxRetries \<rparr> c) (\<lambda>c1.
                 pbind closeDone (\<lambda>_. Done c1))
           | Some pause \<Rightarrow>
               pbind (sendNonblockingMessage \<lparr> msg_Done = False, msg_Error = Some (PlainError
                   (''got '' @ Error e @ ''; retrying in '' @ Duration_String pause)) \<rparr> c) (\<lambda>c1.
                 pbind (sleepOrDone pause) (\<lambda>_. again c1))))"

primrec Retry :: "nat \<Rightarrow> BackOff \<Rightarrow> go_error option proc \<Rightarrow> reader \<Rightarrow> reader proc" where
  "Retry 0 b f c = OutOfFuel"
| "Retry (Suc fuel) b f c =
     pbind stopped (\<lambda>st.
       if st then sendNonblockingMessage \<lparr> msg_Done = True, msg_Error = Some errTimedOut \<rparr> c
       else pbind f (retryRound (Retry fuel b f) b c))"

text \<open>
  The callers' loop, over a retrier with a pause of five seconds and a timeout of a minute. Twenty-five
  rounds let the timer be a minute late.
\<close>

definition retryFuel :: nat where "retryFuel = 25"
definition retryPause :: nat where "retryPause = 5 * Second"
definition retryTimeout :: nat where "retryTimeout = 1 * Minute"

definition waitLoop :: "go_error option proc \<Rightarrow> go_error option proc" where
  "waitLoop f = pbind (Retry retryFuel (ConstantBackOff (Some retryPause)) f Receiving) (\<lambda>c. Done (rangeEnds c))"

section \<open>Time\<close>

text \<open>
  The pauses of a trace add up to at least \<open>slept\<close> unless \<open>done\<close> was closed meanwhile; a trace is \<open>timely\<close>
  for a deadline when a look at \<open>done\<close> after that much sleep finds it closed.
\<close>

fun slept :: "event list \<Rightarrow> nat" where
  "slept [] = 0"
| "slept ((ASleep d, r) # es) = d + slept es"
| "slept (e # es) = slept es"

fun timely_from :: "nat \<Rightarrow> nat \<Rightarrow> event list \<Rightarrow> bool" where
  "timely_from deadline t [] = True"
| "timely_from deadline t ((ASleep d, r) # es) = timely_from deadline (t + d) es"
| "timely_from deadline t ((AAsk DoneClosed, r) # es) =
     ((deadline \<le> t \<longrightarrow> r = Answered True) \<and> timely_from deadline t es)"
| "timely_from deadline t (e # es) = timely_from deadline t es"

definition timely :: "nat \<Rightarrow> event list \<Rightarrow> bool" where
  "timely deadline es = timely_from deadline 0 es"

lemma slept_append [simp]: "slept (es @ es') = slept es + slept es'"
  by (induction es rule: slept.induct) auto

lemma timely_from_append:
  "timely_from deadline t (es @ es') \<longleftrightarrow>
     timely_from deadline t es \<and> timely_from deadline (t + slept es) es'"
  by (induction deadline t es rule: timely_from.induct) (auto simp: add.assoc)

section \<open>Enough fuel\<close>

lemma send_no_fail [simp]: "\<not> fails (sendNonblockingMessage m c) msg es"
  by (auto simp: sendNonblockingMessage_def fails_steps split: reader.splits)

lemma send_Done:
  "feed (sendNonblockingMessage m c) es = Some (Done c') \<longleftrightarrow>
     (case c of
        Returned e \<Rightarrow> es = [] \<and> c' = c
      | Receiving \<Rightarrow> \<exists>b. es = [(AAsk Delivered, Answered b)] \<and> c' = (if b then receive m else Receiving))"
  by (auto simp: sendNonblockingMessage_def feed_steps split: reader.splits)

lemma send_slept: "feed (sendNonblockingMessage m c) es = Some (Done c') \<Longrightarrow> slept es = 0"
  by (auto simp: send_Done split: reader.splits)

lemma stopped_leaves [simp]:
  "\<not> fails stopped m es"
  "feed stopped es = Some (Done b) \<longleftrightarrow> es = [(AAsk DoneClosed, Answered b)]"
  by (auto simp: stopped_def)

lemma closeDone_leaves [simp]:
  "fails closeDone m es \<longleftrightarrow> es = [(AAsk TimerFired, Answered True)] \<and> m = Some ''close of closed channel''"
  "feed closeDone es = Some (Done u) \<longleftrightarrow> es = [(AAsk TimerFired, Answered False)]"
  by (auto simp: closeDone_def fails_steps feed_steps)

lemma sleepOrDone_leaves [simp]:
  "\<not> fails (sleepOrDone d) m es"
  "feed (sleepOrDone d) es = Some (Done u) \<longleftrightarrow> es = [(ASleep d, Ack)]"
  by (auto simp: sleepOrDone_def)

lemma retryRound_fails:
  assumes "fails (retryRound again b c err) m es"
  obtains
    (close) "m = Some ''close of closed channel''" "(AAsk TimerFired, Answered True) \<in> set es"
  | (paused) e pause es1 es2 c1 where "err = Some e" "NextBackOff b = Some pause" "slept es1 = 0"
      "es = es1 @ (ASleep pause, Ack) # es2" "fails (again c1) m es2"
proof (cases err)
  case None
  with assms close show ?thesis by (auto simp: retryRound_def fails_bind)
next
  case (Some e)
  show ?thesis
  proof (cases "NextBackOff b")
    case None
    with Some assms close show ?thesis by (auto simp: retryRound_def fails_bind)
  next
    case (Some pause)
    with \<open>err = Some e\<close> assms obtain es1 es2 c1 msg where
      "feed (sendNonblockingMessage msg c) es1 = Some (Done c1)" "es = es1 @ (ASleep pause, Ack) # es2"
      "fails (again c1) m es2"
      by (auto simp: retryRound_def fails_bind)
    with paused \<open>err = Some e\<close> Some show ?thesis using send_slept by blast
  qed
qed

text \<open>
  A retrier that fails does so because its retriable did, because its close of \<open>done\<close> met the timer's,
  or because it ran out of fuel; and when the pauses the fuel allows reach the deadline, a timely
  trace does not run out of it. A retrier on a timely trace returns or panics.
\<close>

lemma Retry_fails:
  assumes "fails (Retry fuel (ConstantBackOff (Some pause)) f c) m es"
    and "deadline \<le> t + pause * (fuel - 1)" "fuel > 0"
  shows "(\<exists>mid. fails f m mid \<and> set mid \<subseteq> set es)
    \<or> m = Some ''close of closed channel'' \<and> (AAsk TimerFired, Answered True) \<in> set es
    \<or> m = None \<and> \<not> timely_from deadline t es"
  using assms
proof (induction fuel arbitrary: t es c)
  case (Suc fuel)
  let ?again = "Retry fuel (ConstantBackOff (Some pause)) f"
  from Suc.prems(1) obtain st es2 where st: "es = (AAsk DoneClosed, Answered st) # es2"
    "fails (if st then sendNonblockingMessage \<lparr> msg_Done = True, msg_Error = Some errTimedOut \<rparr> c
       else pbind f (retryRound ?again (ConstantBackOff (Some pause)) c)) m es2"
    unfolding Retry.simps fails_bind by fastforce
  have "\<not> st" using st(2) by (cases st) auto
  with st(2) consider "fails f m es2" | es3 es4 err where "es2 = es3 @ es4"
      "fails (retryRound ?again (ConstantBackOff (Some pause)) c err) m es4"
    by (auto simp: fails_bind)
  then show ?case
  proof cases
    case 1
    with st(1) show ?thesis by auto
  next
    case 2
    from 2(2) show ?thesis
    proof (cases rule: retryRound_fails)
      case close
      with st(1) 2(1) show ?thesis by auto
    next
      case (paused e pause' es5 es6 c1)
      then have "pause' = pause" by simp
      have T: "timely_from deadline t es \<Longrightarrow>
          (deadline \<le> t \<longrightarrow> st) \<and> timely_from deadline (t + slept es3 + pause) es6"
        using st(1) 2(1) paused \<open>pause' = pause\<close> by (auto simp: timely_from_append)
      show ?thesis
      proof (cases fuel)
        case 0
        with paused have "m = None" by simp
        with 0 T \<open>\<not> st\<close> Suc.prems(2) show ?thesis by auto
      next
        case (Suc k)
        with Suc.prems(2) have "deadline \<le> (t + slept es3 + pause) + pause * (fuel - 1)"
          by (simp add: algebra_simps)
        from Suc.IH [OF paused(5) this]
        have IH: "(\<exists>mid. fails f m mid \<and> set mid \<subseteq> set es6)
          \<or> m = Some ''close of closed channel'' \<and> (AAsk TimerFired, Answered True) \<in> set es6
          \<or> m = None \<and> \<not> timely_from deadline (t + slept es3 + pause) es6" using Suc by simp
        moreover have "set es6 \<subseteq> set es" using st(1) 2(1) paused(4) by auto
        ultimately show ?thesis using T by blast
      qed
    qed
  qed
qed simp

section \<open>What a wait's result means\<close>

definition delivered_all :: "event list \<Rightarrow> bool" where
  "delivered_all es \<longleftrightarrow> (AAsk Delivered, Answered False) \<notin> set es"

definition happened :: "'a proc \<Rightarrow> 'a \<Rightarrow> event list \<Rightarrow> bool" where
  "happened f x es \<longleftrightarrow> (\<exists>pre mid post. es = pre @ mid @ post \<and> feed f mid = Some (Done x))"

lemma happened_context: "happened f x es \<Longrightarrow> happened f x (es1 @ es @ es2)"
  unfolding happened_def
proof (elim exE conjE)
  fix pre mid post
  assume "es = pre @ mid @ post" "feed f mid = Some (Done x)"
  then show "\<exists>pre mid post. es1 @ es @ es2 = pre @ mid @ post \<and> feed f mid = Some (Done x)"
    by (intro exI [of _ "es1 @ pre"] exI [of _ mid] exI [of _ "post @ es2"]) simp
qed

lemma happenedI: "feed f es = Some (Done x) \<Longrightarrow> happened f x (es1 @ es @ es2)"
  unfolding happened_def by blast

lemma retryRound_Done:
  assumes "feed (retryRound again b Receiving err) es = Some (Done c')"
  obtains
    (success) r where "err = None" "es = [(AAsk Delivered, Answered r), (AAsk TimerFired, Answered False)]"
      "c' = (if r then Returned None else Receiving)"
  | (gave_up) r e where "err = Some e" "NextBackOff b = None"
      "es = [(AAsk Delivered, Answered r), (AAsk TimerFired, Answered False)]"
      "c' = (if r then Returned (Some errMaxRetries) else Receiving)"
  | (paused) r e pause es' where "err = Some e" "NextBackOff b = Some pause"
      "es = (AAsk Delivered, Answered r) # (ASleep pause, Ack) # es'"
      "feed (again Receiving) es' = Some (Done c')"
proof (cases err)
  case None
  with assms success show ?thesis
    by (auto simp: retryRound_def feed_bind_Done send_Done)
next
  case (Some e)
  show ?thesis
  proof (cases "NextBackOff b")
    case None
    with Some assms gave_up show ?thesis
      by (auto simp: retryRound_def feed_bind_Done send_Done)
  next
    case (Some pause)
    with \<open>err = Some e\<close> assms obtain r es' where
      "es = (AAsk Delivered, Answered r) # (ASleep pause, Ack) # es'"
      "feed (again Receiving) es' = Some (Done c')"
      by (auto simp: retryRound_def feed_bind_Done send_Done split: if_splits)
    with \<open>err = Some e\<close> Some paused show ?thesis by blast
  qed
qed

lemma Retry_Done:
  assumes "feed (Retry fuel b f Receiving) es = Some (Done c')"
  shows "c' = Receiving \<and> \<not> delivered_all es
    \<or> c' = Returned (Some errTimedOut)
    \<or> c' = Returned None \<and> happened f None es
    \<or> c' = Returned (Some errMaxRetries) \<and> NextBackOff b = None"
  using assms
proof (induction fuel arbitrary: es)
  case (Suc fuel)
  from Suc.prems obtain st es2 where st: "es = (AAsk DoneClosed, Answered st) # es2"
    "feed (if st then sendNonblockingMessage \<lparr> msg_Done = True, msg_Error = Some errTimedOut \<rparr> Receiving
       else pbind f (retryRound (Retry fuel b f) b Receiving)) es2 = Some (Done c')"
    unfolding Retry.simps feed_bind_Done by fastforce
  show ?case
  proof (cases st)
    case True
    with st show ?thesis by (auto simp: send_Done delivered_all_def split: if_splits)
  next
    case False
    with st(2) obtain es3 es4 err where f: "es2 = es3 @ es4" "feed f es3 = Some (Done err)"
      "feed (retryRound (Retry fuel b f) b Receiving err) es4 = Some (Done c')"
      by (auto simp: feed_bind_Done)
    from f(3) show ?thesis
    proof (cases rule: retryRound_Done)
      case (success r)
      with f(2) have "happened f None ([(AAsk DoneClosed, Answered st)] @ es3 @ es4)"
        by (intro happenedI) simp
      with success st(1) f(1) show ?thesis by (cases r) (simp_all add: delivered_all_def)
    next
      case (gave_up r e)
      with st(1) f(1) show ?thesis by (cases r) (simp_all add: delivered_all_def)
    next
      case (paused r e pause es')
      let ?pre = "(AAsk DoneClosed, Answered st) # es3 @ [(AAsk Delivered, Answered r), (ASleep pause, Ack)]"
      have es: "es = ?pre @ es' @ []" using paused st(1) f(1) by simp
      from Suc.IH [OF paused(4)] happened_context [of f None es' ?pre "[]"] show ?thesis
        unfolding es delivered_all_def by auto
    qed
  qed
qed simp

text \<open>The callers' loop: what its result says about the retriable.\<close>

lemma waitLoop_result:
  assumes "feed (waitLoop f) es = Some (Done res)"
  shows "res = Some errTimedOut \<or> res = None \<and> (happened f None es \<or> \<not> delivered_all es)"
proof -
  from assms obtain es1 c where "feed (Retry retryFuel (ConstantBackOff (Some retryPause)) f Receiving) es = Some (Done c)"
    "res = rangeEnds c"
    unfolding waitLoop_def feed_bind_Done by auto
  with Retry_Done [of retryFuel "ConstantBackOff (Some retryPause)" f es c] show ?thesis by auto
qed

text \<open>
  \<open>wait_failed\<close> is how a wait ends without returning: the two closes of \<open>done\<close> met, or (out of fuel) two
  minutes of pauses went by and \<open>done\<close> was still open.
\<close>

definition wait_failed :: "string option \<Rightarrow> event list \<Rightarrow> bool" where
  "wait_failed m es \<longleftrightarrow>
     m = Some ''close of closed channel'' \<and> (AAsk TimerFired, Answered True) \<in> set es
     \<or> m = None \<and> (\<exists>pre late. es = pre @ late \<and> \<not> timely (retryTimeout + 60 * Second) late)"

lemma wait_failed_append: "wait_failed m es \<Longrightarrow> wait_failed m (es' @ es)"
  unfolding wait_failed_def
proof (elim disjE conjE exE)
  fix pre late
  assume "m = None" "es = pre @ late" "\<not> timely (retryTimeout + 60 * Second) late"
  then show "m = Some ''close of closed channel'' \<and> (AAsk TimerFired, Answered True) \<in> set (es' @ es)
     \<or> m = None \<and> (\<exists>pre late. es' @ es = pre @ late \<and> \<not> timely (retryTimeout + 60 * Second) late)"
    by (intro disjI2 conjI exI [of _ "es' @ pre"] exI [of _ late]) simp_all
qed simp

lemma waitLoop_fails:
  assumes "fails (waitLoop f) m es"
  shows "(\<exists>mid. fails f m mid \<and> set mid \<subseteq> set es) \<or> wait_failed m es"
proof -
  have "fails (Retry retryFuel (ConstantBackOff (Some retryPause)) f Receiving) m es"
    using assms by (simp add: waitLoop_def fails_bind)
  moreover have "retryTimeout + 60 * Second \<le> 0 + retryPause * (retryFuel - 1)" "retryFuel > 0"
    by (simp_all add: retryTimeout_def retryPause_def retryFuel_def Minute_def Second_def)
  ultimately have "(\<exists>mid. fails f m mid \<and> set mid \<subseteq> set es)
      \<or> m = Some ''close of closed channel'' \<and> (AAsk TimerFired, Answered True) \<in> set es
      \<or> m = None \<and> \<not> timely (retryTimeout + 60 * Second) es"
    unfolding timely_def by (rule Retry_fails)
  then show ?thesis
    unfolding wait_failed_def by (metis append_Nil)
qed

text \<open>A wait reads; it writes nothing its retriable does not write.\<close>

definition reads_only :: "(event list \<Rightarrow> action \<Rightarrow> bool) \<Rightarrow> bool" where
  "reads_only G \<longleftrightarrow> (\<forall>h a. (\<forall>req. a \<noteq> ARequest req) \<longrightarrow> G h a)"

lemma reads_onlyD: "reads_only G \<Longrightarrow> (\<And>req. a \<noteq> ARequest req) \<Longrightarrow> G h a"
  unfolding reads_only_def by blast

lemma guarded_send: "reads_only G \<Longrightarrow> guarded G (sendNonblockingMessage m c) h"
  by (auto simp: sendNonblockingMessage_def ask_def intro: reads_onlyD split: reader.splits)

lemma guarded_Retry:
  assumes "stable G" "reads_only G" "guarded G f []"
  shows "guarded G (Retry fuel b f c) h"
proof (induction fuel arbitrary: c h)
  case (Suc fuel)
  have close: "guarded G closeDone []" and sleep: "guarded G (sleepOrDone d) []" for d
    using assms(2) by (auto simp: closeDone_def sleepOrDone_def ask_def sleep_def intro: reads_onlyD)
  have round: "guarded G (retryRound (Retry fuel b f) b c err) []" for err
    unfolding retryRound_def
    by (auto intro!: guarded_bind [OF assms(1)] guarded_send [OF assms(2)] close sleep Suc.IH
        split: option.splits)
  have "guarded G stopped h'" for h'
    using reads_onlyD [OF assms(2), of "AAsk DoneClosed"] by (simp add: stopped_def ask_def)
  then show ?case
    by (auto intro!: guarded_bind [OF assms(1)] guarded_send [OF assms(2)] round assms(3))
qed simp

lemma guarded_waitLoop: "stable G \<Longrightarrow> reads_only G \<Longrightarrow> guarded G f [] \<Longrightarrow> guarded G (waitLoop f) h"
  unfolding waitLoop_def by (intro guarded_bind guarded_Retry) auto

lemma reads_only_owned_writes [simp]: "reads_only owned_writes"
  unfolding reads_only_def
proof (intro allI impI)
  fix h a assume "\<forall>req. a \<noteq> ARequest req"
  then show "owned_writes h a" by (cases "(h, a)" rule: owned_writes.cases) auto
qed

end
