(* ===== verification/Ingress_Util.thy ===== *)
theory Ingress_Util imports Secret_Util Retry begin

text \<open>
  \<open>pkg/k8sutil/ingress.go\<close>: the Ingress of a notebook, its create-or-update, the wait for the TLS
  secret an ACME controller makes for it, and its deletion.
\<close>

definition CalculateIngress :: "Notebook \<Rightarrow> Ingress outcome" where
  "CalculateIngress n =
     (let backend0 = \<lparr> ib_ServiceName = resourceName (nb_Name n), ib_ServicePort = FromInt notebookPort \<rparr>;
          backend = (case spec_Ingress (nb_Spec n) of None \<Rightarrow> backend0 | Some ib \<Rightarrow> ib);
          labels = notebookLabels (nb_Name n);
          annotations0 = [(''kubernetes.io/ingress.class'', ''nginx'')]
      in obind (deref (spec_Host (nb_Spec n))) (\<lambda>host.
           let m = emptyMeta\<lparr>om_Name := resourceName (nb_Name n), om_Namespace := nb_Namespace n,
                     om_Labels := Some labels\<rparr>;
               rule = \<lparr> ir_Host = nb_Name n @ ''.'' @ host,
                        ir_HTTP = Some [\<lparr> hip_Path = ''/'', hip_Backend = backend \<rparr>] \<rparr>;
               (annotations, tls) =
                 (if ShouldHaveCerts n
                  then
                    let tls0 = \<lparr> it_Hosts = [nb_Name n @ ''.'' @ host], it_SecretName = [] \<rparr>;
                        (tls1, ann1) =
                          (if spec_TLS (nb_Spec n) \<noteq> None \<and> the (spec_TLS (nb_Spec n)) = NotebookTLSAcme
                           then (tls0\<lparr>it_SecretName := Sprintf_s notebookIngressTLSSecretNameTemplate
                                        (resourceName (nb_Name n))\<rparr>,
                                 mput ''kubernetes.io/tls-acme'' ''true'' annotations0)
                           else (tls0, mput ''nginx.ingress.kubernetes.io/ssl-passthrough'' ''true'' annotations0));
                        ann2 = mput ''nginx.ingress.kubernetes.io/backend-protocol'' ''HTTPS'' ann1;
                        ann3 = mput ''nginx.ingress.kubernetes.io/ssl-redirect'' ''true'' ann2
                    in (ann3, [tls1])
                  else (annotations0, []))
           in Returns \<lparr> ing_Meta = addOwnerRefToObject (m\<lparr>om_Annotations := Some annotations\<rparr>) (AsOwner n),
                        ing_Spec = \<lparr> is_TLS = tls, is_Rules = [rule] \<rparr> \<rparr>))"

definition CreateOrUpdateIngress :: "string \<Rightarrow> Ingress \<Rightarrow> go_error option proc" where
  "CreateOrUpdateIngress c ing =
     pbind (IngressLister_Get (om_Namespace (ing_Meta ing)) (om_Name (ing_Meta ing)))
       (\<lambda>res. case res of
          Inl err \<Rightarrow>
            if \<not> IsNotFound (Some err) then Done (Some err)
            else request (Create c (OIngress ing))
        | Inr i \<Rightarrow>
            if \<not> isManagedByOperator (om_Labels (ing_Meta i)) then Done (Some (refusal ''*v1beta1.Ingress''))
            else
              let ing1 = ing\<lparr>ing_Meta := (ing_Meta ing)\<lparr>om_ResourceVersion := om_ResourceVersion (ing_Meta i)\<rparr>\<rparr>
              in request (Update c (OIngress ing1)))"

definition tlsSecretExists :: "Notebook \<Rightarrow> go_error option proc" where
  "tlsSecretExists n =
     (let name = Sprintf_s notebookIngressTLSSecretNameTemplate (Sprintf_s notebookNameTemplate (nb_Name n))
      in pbind (SecretLister_Get (nb_Namespace n) name)
           (\<lambda>res. case res of Inl err \<Rightarrow> Done (Some err) | Inr s \<Rightarrow> Done None))"

definition WaitForIngressTLSSecret :: "Notebook \<Rightarrow> go_error option proc" where
  "WaitForIngressTLSSecret n = waitLoop (tlsSecretExists n)"

definition DeleteIngress :: "string \<Rightarrow> Notebook \<Rightarrow> go_error option proc" where
  "DeleteIngress c n = request (Delete KIngress c (resourceName (nb_Name n)) None)"

section \<open>The adoption contract\<close>

definition mergeIngress :: "Ingress \<Rightarrow> Ingress \<Rightarrow> Ingress" where
  "mergeIngress i ing =
     ing\<lparr>ing_Meta := (ing_Meta ing)\<lparr>om_ResourceVersion := om_ResourceVersion (ing_Meta i)\<rparr>\<rparr>"

lemma CreateOrUpdateIngress_trace:
  "feed (CreateOrUpdateIngress c ing) es = Some (Done e) \<longleftrightarrow>
     merging_trace KIngress OIngress ''*v1beta1.Ingress'' mergeIngress c ing es e"
  unfolding CreateOrUpdateIngress_def IngressLister_Get_def feed_Get_bind [OF lister_types(4)] merging_trace_def
  by (intro ex_cong1) (auto simp: get_result_def mergeIngress_def split: option.splits)

lemma CreateOrUpdateIngress_no_fail [simp]: "\<not> fails (CreateOrUpdateIngress c ing) m es"
  unfolding CreateOrUpdateIngress_def IngressLister_Get_def fails_Get_bind [OF lister_types(4)]
  by (auto simp: get_result_def split: option.splits if_splits)

lemma CreateOrUpdateIngress_owned: "guarded owned_writes (CreateOrUpdateIngress c ing) []"
  unfolding CreateOrUpdateIngress_def IngressLister_Get_def
proof (rule guarded_Get_bind [OF lister_types(4)])
  fix x
  let ?ev = "(ALookup KIngress (listerKey (om_Namespace (ing_Meta ing)) (om_Name (ing_Meta ing))),
    Found (map_option OIngress x))"
  show "guarded owned_writes (case get_result KIngress (om_Name (ing_Meta ing)) x of
      Inl err \<Rightarrow> if \<not> IsNotFound (Some err) then Done (Some err) else request (Create c (OIngress ing))
    | Inr i \<Rightarrow> if \<not> isManagedByOperator (om_Labels (ing_Meta i)) then Done (Some (refusal ''*v1beta1.Ingress''))
        else let ing1 = ing\<lparr>ing_Meta := (ing_Meta ing)\<lparr>om_ResourceVersion := om_ResourceVersion (ing_Meta i)\<rparr>\<rparr>
             in request (Update c (OIngress ing1))) ([] @ [?ev])"
  proof (cases x)
    case (Some s)
    then show ?thesis
      using seen_managedI [of KIngress _ "OIngress s" "[?ev]"]
      by (auto simp: get_result_def request_def)
  qed (simp add: get_result_def request_def)
qed simp

interpretation ing_res: merging_resource KIngress OIngress "''*v1beta1.Ingress''"
  CreateOrUpdateIngress mergeIngress
  by (rule merging_resourceI)
    (simp_all add: CreateOrUpdateIngress_trace CreateOrUpdateIngress_owned mergeIngress_def)

section \<open>The wait for the TLS secret\<close>

definition tlsSecretName :: "Notebook \<Rightarrow> string" where
  "tlsSecretName n = resourceName (nb_Name n) @ ''-tls''"

lemma tlsSecretExists_Done:
  "feed (tlsSecretExists n) es = Some (Done e) \<longleftrightarrow>
     (\<exists>x. es = [(ALookup KSecret (listerKey (nb_Namespace n) (tlsSecretName n)), Found (map_option OSecret x))]
        \<and> (case x of None \<Rightarrow> e = Some (NewNotFound KSecret (tlsSecretName n)) | Some s \<Rightarrow> e = None))"
  unfolding tlsSecretExists_def Let_def SecretLister_Get_def feed_Get_bind [OF lister_types(2)]
  by (auto simp: tlsSecretName_eq tlsSecretName_def resourceName_def get_result_def split: option.splits)

lemma tlsSecretExists_no_fail [simp]: "\<not> fails (tlsSecretExists n) m es"
  unfolding tlsSecretExists_def Let_def SecretLister_Get_def fails_Get_bind [OF lister_types(2)]
  by (auto simp: get_result_def split: option.splits)

lemma tlsSecretExists_reads: "reads_only G \<Longrightarrow> guarded G (tlsSecretExists n) h"
  by (auto simp: tlsSecretExists_def Let_def SecretLister_Get_def get_result_def
      intro!: guarded_Get_bind [OF lister_types(2)] intro: reads_onlyD split: option.splits)

end
