(* ===== verification/StatefulSet_Util.thy ===== *)
theory StatefulSet_Util imports Secret_Util Retry Template_Diff begin

text \<open>
  \<open>pkg/k8sutil/statefulset.go\<close>: the StatefulSet that runs a notebook, its create-or-update, which
  replaces one whose pod template differs, the waits for it to be ready and to be gone, and its
  deletion. \<open>CreateOrUpdateStatefulSet\<close> adopts the cluster's spec into the object its caller goes on
  to wait for, so it returns that object beside its error.
\<close>

section \<open>Constants of the API\<close>

definition PullAlways :: string where "PullAlways = ''Always''"
definition TerminationMessagePathDefault :: string where
  "TerminationMessagePathDefault = ''/dev/termination-log''"
definition TerminationMessageReadFile :: string where "TerminationMessageReadFile = ''File''"
definition DNSClusterFirst :: string where "DNSClusterFirst = ''ClusterFirst''"
definition RestartPolicyAlways :: string where "RestartPolicyAlways = ''Always''"
definition DefaultSchedulerName :: string where "DefaultSchedulerName = ''default-scheduler''"
definition TaintEffectNoSchedule :: string where "TaintEffectNoSchedule = ''NoSchedule''"
definition TolerationOpExists :: string where "TolerationOpExists = ''Exists''"
definition DecimalExponent :: string where "DecimalExponent = ''DecimalExponent''"
definition DecimalSI :: string where "DecimalSI = ''DecimalSI''"
definition DeletePropagationForeground :: string where "DeletePropagationForeground = ''Foreground''"
definition gpuResource :: string where "gpuResource = ''nvidia.com/gpu''"

definition NewQuantity :: "int \<Rightarrow> string \<Rightarrow> Quantity" where
  "NewQuantity v format = \<lparr> q_Value = v, q_Format = format \<rparr>"

section \<open>CalculateStatefulSet\<close>

definition packageLifecycle :: "string list option \<Rightarrow> Lifecycle option" where
  "packageLifecycle packages =
     (let ps = (case packages of None \<Rightarrow> [] | Some xs \<Rightarrow> xs)
      in if length ps \<noteq> 0
         then Some \<lparr> lc_PostStart = Some \<lparr> h_Exec = Some \<lparr>
                ea_Command = Some ([''conda'', ''install'', ''-y''] @ ps) \<rparr> \<rparr> \<rparr>
         else None)"

definition passwordEnv :: "Notebook \<Rightarrow> EnvVar" where
  "passwordEnv n = \<lparr> ev_Name = ''PASSWORD'', ev_Value = [],
     ev_ValueFrom = Some \<lparr> evs_SecretKeyRef = Some \<lparr>
       sks_Name = resourceName (nb_Name n), sks_Key = notebookPasswordKey \<rparr> \<rparr> \<rparr>"

definition tlsVolume :: "Notebook \<Rightarrow> Volume" where
  "tlsVolume n = \<lparr> vol_Name = ''tls'', vol_Secret = Some \<lparr>
     svol_SecretName = resourceName (nb_Name n),
     svol_Items = Some [\<lparr> ktp_Key = TLSCertKey, ktp_Path = ''cert'' \<rparr>,
                        \<lparr> ktp_Key = TLSPrivateKeyKey, ktp_Path = ''key'' \<rparr>],
     svol_DefaultMode = Some 420 \<rparr> \<rparr>"

definition calculateContainer :: "Notebook \<Rightarrow> string \<Rightarrow> Container" where
  "calculateContainer n flavor =
     (let container0 = \<lparr>
            ct_Name = notebookContainerName,
            ct_Image = Sprintf_s notebookImageTemplate flavor,
            ct_Args = Some [''start-notebook.sh'', ''--NotebookApp.token=''],
            ct_Ports = Some [\<lparr> cp_Name = notebookPortName, cp_ContainerPort = word_of_int notebookPort,
                               cp_Protocol = ''TCP'' \<rparr>],
            ct_Env = None,
            ct_Resources = \<lparr> rr_Limits = None, rr_Requests = None \<rparr>,
            ct_VolumeMounts = None,
            ct_Lifecycle = packageLifecycle (spec_Packages (nb_Spec n)),
            ct_TerminationMessagePath = TerminationMessagePathDefault,
            ct_TerminationMessagePolicy = TerminationMessageReadFile,
            ct_ImagePullPolicy = PullAlways \<rparr>;
          args0 = [''start-notebook.sh'', ''--NotebookApp.token=''];
          (container1, args1) =
            (if (case spec_Password (nb_Spec n) of None \<Rightarrow> False | Some pw \<Rightarrow> pw \<noteq> [])
             then (container0\<lparr>ct_Env := Some [passwordEnv n]\<rparr>,
                   args0 @ [''--NotebookApp.password=\"$(PASSWORD)\"''])
             else (container0, args0));
          (container2, args2) =
            (if ShouldHaveCerts n
             then (container1\<lparr>ct_VolumeMounts := Some [\<lparr> vm_Name = ''tls'', vm_ReadOnly = True,
                     vm_MountPath = notebookTLSMountPath \<rparr>]\<rparr>,
                   (args1 @ [''--NotebookApp.certfile='' @ notebookTLSMountPath @ ''/cert''])
                     @ [''--NotebookApp.keyfile='' @ notebookTLSMountPath @ ''/key''])
             else (container1, args1));
          container3 =
            (if spec_GPU (nb_Spec n)
             then container2\<lparr>ct_Resources := \<lparr>
                    rr_Limits = Some [(gpuResource, NewQuantity 1 DecimalExponent)], rr_Requests = None \<rparr>\<rparr>
             else container2)
      in container3\<lparr>ct_Args := Some args2\<rparr>)"

definition CalculateStatefulSet :: "Notebook \<Rightarrow> StatefulSet outcome" where
  "CalculateStatefulSet n =
     obind (deref (spec_Flavor (nb_Spec n))) (\<lambda>flavor.
     obind (deref (spec_ServiceAccountName (nb_Spec n))) (\<lambda>sa.
       let container = calculateContainer n flavor;
           volumes = (if ShouldHaveCerts n then Some [tlsVolume n] else None);
           tolerations =
             (if spec_GPU (nb_Spec n)
              then Some [\<lparr> tol_Key = gpuResource, tol_Operator = TolerationOpExists,
                           tol_Effect = TaintEffectNoSchedule \<rparr>]
              else None);
           automount = (if sa \<noteq> [] then True else False);
           podLabels = Some (addMatchLabels [] (nb_Name n));
           pod = \<lparr> pts_Labels = podLabels, pts_Spec = \<lparr>
             ps_Volumes = volumes,
             ps_Containers = Some [container],
             ps_RestartPolicy = RestartPolicyAlways,
             ps_TerminationGracePeriodSeconds = Some 120,
             ps_DNSPolicy = DNSClusterFirst,
             ps_ServiceAccountName = sa,
             ps_DeprecatedServiceAccount = sa,
             ps_AutomountServiceAccountToken = Some automount,
             ps_SecurityContext = Some \<lparr> psc_RunAsUser = None \<rparr>,
             ps_SchedulerName = DefaultSchedulerName,
             ps_Tolerations = tolerations \<rparr> \<rparr>;
           m = emptyMeta\<lparr>om_Name := resourceName (nb_Name n), om_Namespace := nb_Namespace n,
                 om_Labels := Some (notebookLabels (nb_Name n))\<rparr>
       in Returns \<lparr> sts_Meta = addOwnerRefToObject m (AsOwner n),
                    sts_Spec = \<lparr> sss_Replicas = Some 1, sss_MatchLabels = podLabels,
                      sss_Template = pod, sss_ServiceName = resourceName (nb_Name n) \<rparr>,
                    sts_ReadyReplicas = 0 \<rparr>))"

lemma calculateContainer_fields [simp]:
  "ct_Name (calculateContainer n f) = notebookContainerName"
  "ct_Image (calculateContainer n f) = Sprintf_s notebookImageTemplate f"
  "ct_Ports (calculateContainer n f) = Some [\<lparr> cp_Name = notebookPortName,
     cp_ContainerPort = word_of_int notebookPort, cp_Protocol = ''TCP'' \<rparr>]"
  "ct_Env (calculateContainer n f) = (if hasPassword n then Some [passwordEnv n] else None)"
  "ct_Resources (calculateContainer n f) =
     \<lparr> rr_Limits = (if spec_GPU (nb_Spec n) then Some [(gpuResource, NewQuantity 1 DecimalExponent)] else None),
       rr_Requests = None \<rparr>"
  "ct_Lifecycle (calculateContainer n f) = packageLifecycle (spec_Packages (nb_Spec n))"
  by (simp_all add: calculateContainer_def hasPassword_def Let_def split: option.splits)

section \<open>Waiting\<close>

text \<open>\<open>ready\<close> and \<open>gone\<close> are the retriables of the two waits.\<close>

definition ready :: "StatefulSet \<Rightarrow> go_error option proc" where
  "ready sts =
     pbind (StatefulSetLister_Get (om_Namespace (sts_Meta sts)) (om_Name (sts_Meta sts)))
       (\<lambda>res. case res of
          Inl err \<Rightarrow> Done (Some err)
        | Inr s \<Rightarrow>
            pbind (pout (deref (sss_Replicas (sts_Spec sts)))) (\<lambda>replicas.
              if sts_ReadyReplicas s \<noteq> replicas
              then Done (Some (PlainError (''ready replicas is '' @ Itoa (sint (sts_ReadyReplicas s))
                     @ '', waiting for ready replicas to be '' @ Itoa (sint replicas))))
              else Done None))"

definition WaitForStatefulSet :: "StatefulSet \<Rightarrow> go_error option proc" where
  "WaitForStatefulSet sts = waitLoop (ready sts)"

definition gone :: "StatefulSet \<Rightarrow> go_error option proc" where
  "gone sts =
     pbind (StatefulSetLister_Get (om_Namespace (sts_Meta sts)) (om_Name (sts_Meta sts)))
       (\<lambda>res. let err = (case res of Inl e \<Rightarrow> Some e | Inr s \<Rightarrow> None)
              in if IsNotFound err then Done None
                 else Done (Some (PlainError ''waiting for StatefulSet to be deleted'')))"

definition WaitForStatefulSetDeleted :: "StatefulSet \<Rightarrow> go_error option proc" where
  "WaitForStatefulSetDeleted sts = waitLoop (gone sts)"

section \<open>CreateOrUpdateStatefulSet\<close>

text \<open>The three steps of a replacement, the last first: create, wait for the deletion, delete.\<close>

definition recreateStatefulSet ::
  "string \<Rightarrow> StatefulSet \<Rightarrow> go_error option \<Rightarrow> (go_error option \<times> StatefulSet) proc" where
  "recreateStatefulSet c sts err =
     (case err of
        Some e \<Rightarrow> Done (Some (wrapErr ''failed waiting for StatefulSet to be deleted'' e), sts)
      | None \<Rightarrow> pbind (request (Create c (OStatefulSet sts))) (\<lambda>err. Done (err, sts)))"

definition awaitAndRecreate ::
  "string \<Rightarrow> StatefulSet \<Rightarrow> StatefulSet \<Rightarrow> go_error option \<Rightarrow> (go_error option \<times> StatefulSet) proc" where
  "awaitAndRecreate c s sts err =
     (case err of
        Some e \<Rightarrow> Done (Some (wrapErr ''failed to delete old StatefulSet before updating'' e), sts)
      | None \<Rightarrow> pbind (WaitForStatefulSetDeleted s) (recreateStatefulSet c sts))"

definition replaceStatefulSet :: "string \<Rightarrow> StatefulSet \<Rightarrow> StatefulSet \<Rightarrow> (go_error option \<times> StatefulSet) proc" where
  "replaceStatefulSet c s sts =
     pbind (request (Delete KStatefulSet c (om_Name (sts_Meta s)) (Some DeletePropagationForeground)))
       (awaitAndRecreate c s sts)"

definition CreateOrUpdateStatefulSet :: "string \<Rightarrow> StatefulSet \<Rightarrow> (go_error option \<times> StatefulSet) proc" where
  "CreateOrUpdateStatefulSet c sts =
     pbind (StatefulSetLister_Get (om_Namespace (sts_Meta sts)) (om_Name (sts_Meta sts)))
       (\<lambda>res. case res of
          Inl err \<Rightarrow>
            if \<not> IsNotFound (Some err) then Done (Some err, sts)
            else pbind (request (Create c (OStatefulSet sts))) (\<lambda>err. Done (err, sts))
        | Inr s \<Rightarrow>
            if \<not> isManagedByOperator (om_Labels (sts_Meta s)) then Done (Some (refusal ''*v1.StatefulSet''), sts)
            else if templateDiff (sss_Template (sts_Spec sts)) (sss_Template (sts_Spec s)) = []
            then
              let sts1 = sts\<lparr>sts_Meta := (sts_Meta sts)\<lparr>om_ResourceVersion := om_ResourceVersion (sts_Meta s)\<rparr>\<rparr>;
                  sts2 = sts1\<lparr>sts_Spec := sts_Spec s\<rparr>
              in pbind (request (Update c (OStatefulSet sts2))) (\<lambda>err. Done (err, sts2))
            else replaceStatefulSet c s sts)"

definition DeleteStatefulSet :: "string \<Rightarrow> Notebook \<Rightarrow> go_error option proc" where
  "DeleteStatefulSet c n = request (Delete KStatefulSet c (resourceName (nb_Name n)) None)"

section \<open>What the waits see\<close>

lemma ready_Done:
  "feed (ready sts) es = Some (Done e) \<longleftrightarrow>
     (\<exists>x. es = [(ALookup KStatefulSet (listerKey (om_Namespace (sts_Meta sts)) (om_Name (sts_Meta sts))),
                Found (map_option OStatefulSet x))] \<and>
       (case x of
          None \<Rightarrow> e = Some (NewNotFound KStatefulSet (om_Name (sts_Meta sts)))
        | Some s \<Rightarrow> (\<exists>rep. sss_Replicas (sts_Spec sts) = Some rep \<and>
            e = (if sts_ReadyReplicas s = rep then None
                 else Some (PlainError (''ready replicas is '' @ Itoa (sint (sts_ReadyReplicas s))
                     @ '', waiting for ready replicas to be '' @ Itoa (sint rep)))))))"
  unfolding ready_def StatefulSetLister_Get_def feed_Get_bind [OF lister_types(3)]
  by (intro ex_cong1, cases "sss_Replicas (sts_Spec sts)") (auto simp: get_result_def split: option.splits)

lemma ready_fails:
  assumes "fails (ready sts) m es"
  shows "m = Some ''nil pointer dereference'' \<and> sss_Replicas (sts_Spec sts) = None"
  using assms unfolding ready_def StatefulSetLister_Get_def fails_Get_bind [OF lister_types(3)]
  by (cases "sss_Replicas (sts_Spec sts)")
    (auto simp: get_result_def fails_bind split: option.splits if_splits)

lemma gone_Done:
  "feed (gone sts) es = Some (Done e) \<longleftrightarrow>
     (\<exists>x. es = [(ALookup KStatefulSet (listerKey (om_Namespace (sts_Meta sts)) (om_Name (sts_Meta sts))),
                Found (map_option OStatefulSet x))] \<and>
       e = (case x of None \<Rightarrow> None | Some s \<Rightarrow> Some (PlainError ''waiting for StatefulSet to be deleted'')))"
  unfolding gone_def StatefulSetLister_Get_def feed_Get_bind [OF lister_types(3)]
  by (auto simp: get_result_def split: option.splits)

lemma gone_no_fail [simp]: "\<not> fails (gone sts) m es"
  unfolding gone_def StatefulSetLister_Get_def fails_Get_bind [OF lister_types(3)]
  by (auto simp: get_result_def split: option.splits)

lemma wait_bodies_read:
  "reads_only G \<Longrightarrow> guarded G (ready sts) h" "reads_only G \<Longrightarrow> guarded G (gone sts) h"
proof -
  assume G: "reads_only G"
  show "guarded G (ready sts) h"
    unfolding ready_def StatefulSetLister_Get_def
    by (cases "sss_Replicas (sts_Spec sts)")
      (auto simp: get_result_def intro!: guarded_Get_bind [OF lister_types(3)] reads_onlyD [OF G] split: option.splits)
  show "guarded G (gone sts) h"
    unfolding gone_def StatefulSetLister_Get_def
    by (auto simp: get_result_def Let_def intro!: guarded_Get_bind [OF lister_types(3)] reads_onlyD [OF G]
        split: option.splits)
qed

lemma WaitForStatefulSet_result:
  assumes "feed (WaitForStatefulSet sts) es = Some (Done res)"
  shows "res = Some errTimedOut \<or> res = None \<and> (happened (ready sts) None es \<or> \<not> delivered_all es)"
  using assms unfolding WaitForStatefulSet_def by (rule waitLoop_result)

lemma WaitForStatefulSetDeleted_result:
  assumes "feed (WaitForStatefulSetDeleted sts) es = Some (Done res)"
  shows "res = Some errTimedOut \<or> res = None \<and> (happened (gone sts) None es \<or> \<not> delivered_all es)"
  using assms unfolding WaitForStatefulSetDeleted_def by (rule waitLoop_result)

section \<open>The adoption contract\<close>

text \<open>What an adoption sends: the wanted metadata under the found version, with the found spec.\<close>

definition adoptStatefulSet :: "StatefulSet \<Rightarrow> StatefulSet \<Rightarrow> StatefulSet" where
  "adoptStatefulSet s sts = sts\<lparr>
     sts_Meta := (sts_Meta sts)\<lparr>om_ResourceVersion := om_ResourceVersion (sts_Meta s)\<rparr>,
     sts_Spec := sts_Spec s\<rparr>"

definition stsError :: "string \<Rightarrow> StatefulSet \<Rightarrow> go_error option proc" where
  "stsError c sts = pbind (CreateOrUpdateStatefulSet c sts) (\<lambda>(e, sts'). Done e)"

abbreviation stsKey :: "StatefulSet \<Rightarrow> string" where
  "stsKey sts \<equiv> listerKey (om_Namespace (sts_Meta sts)) (om_Name (sts_Meta sts))"

lemma CreateOrUpdateStatefulSet_trace:
  "feed (CreateOrUpdateStatefulSet c sts) es = Some (Done (e, sts')) \<longleftrightarrow>
     (\<exists>x es'. es = (ALookup KStatefulSet (stsKey sts), Found (map_option OStatefulSet x)) # es' \<and>
       (case x of
          None \<Rightarrow> es' = [(ARequest (Create c (OStatefulSet sts)), Replied e)] \<and> sts' = sts
        | Some s \<Rightarrow>
            if \<not> isManagedByOperator (om_Labels (sts_Meta s))
            then es' = [] \<and> e = Some (refusal ''*v1.StatefulSet'') \<and> sts' = sts
            else if templateDiff (sss_Template (sts_Spec sts)) (sss_Template (sts_Spec s)) = []
            then es' = [(ARequest (Update c (OStatefulSet (adoptStatefulSet s sts))), Replied e)]
              \<and> sts' = adoptStatefulSet s sts
            else feed (replaceStatefulSet c s sts) es' = Some (Done (e, sts'))))"
  unfolding CreateOrUpdateStatefulSet_def StatefulSetLister_Get_def feed_Get_bind [OF lister_types(3)]
  by (intro ex_cong1) (auto simp: get_result_def adoptStatefulSet_def feed_steps Let_def split: option.splits)

text \<open>
  A replacement deletes the old StatefulSet in the foreground, waits, and only creates the new one when
  the wait returned nil.
\<close>

lemma recreateStatefulSet_trace:
  "feed (recreateStatefulSet c sts res) es = Some (Done (e, sts')) \<longleftrightarrow> sts' = sts \<and>
     (case res of
        Some w \<Rightarrow> es = [] \<and> e = Some (wrapErr ''failed waiting for StatefulSet to be deleted'' w)
      | None \<Rightarrow> es = [(ARequest (Create c (OStatefulSet sts)), Replied e)])"
  by (cases res) (auto simp: recreateStatefulSet_def feed_steps)

lemma awaitAndRecreate_trace:
  "feed (awaitAndRecreate c s sts r) es = Some (Done (e, sts')) \<longleftrightarrow>
     (case r of
        Some d \<Rightarrow> es = [] \<and> e = Some (wrapErr ''failed to delete old StatefulSet before updating'' d) \<and> sts' = sts
      | None \<Rightarrow> (\<exists>es1 es2 res. es = es1 @ es2 \<and> feed (WaitForStatefulSetDeleted s) es1 = Some (Done res) \<and>
          feed (recreateStatefulSet c sts res) es2 = Some (Done (e, sts'))))"
  by (cases r) (auto simp: awaitAndRecreate_def feed_bind_Done)

lemma replaceStatefulSet_trace:
  "feed (replaceStatefulSet c s sts) es = Some (Done (e, sts')) \<longleftrightarrow>
     (\<exists>r es'. es = (ARequest (Delete KStatefulSet c (om_Name (sts_Meta s)) (Some DeletePropagationForeground)),
        Replied r) # es' \<and> feed (awaitAndRecreate c s sts r) es' = Some (Done (e, sts')))"
  unfolding replaceStatefulSet_def feed_steps ..

lemma replaceStatefulSet_owned:
  assumes "seen_managed h KStatefulSet (sts_Meta s)"
  shows "guarded owned_writes (replaceStatefulSet c s sts) h"
proof -
  have wait: "guarded owned_writes (WaitForStatefulSetDeleted s) []"
    unfolding WaitForStatefulSetDeleted_def
    by (intro guarded_waitLoop stable_owned_writes reads_only_owned_writes wait_bodies_read)
  have create: "guarded owned_writes (recreateStatefulSet c sts res) []" for res
    by (auto simp: recreateStatefulSet_def request_def split: option.splits)
  have "guarded owned_writes (awaitAndRecreate c s sts err) []" for err
    by (auto simp: awaitAndRecreate_def intro!: guarded_bind [OF stable_owned_writes] wait create split: option.splits)
  then show ?thesis unfolding replaceStatefulSet_def
    by (rule guarded_bind [OF stable_owned_writes, rotated]) (use assms in \<open>auto simp: request_def\<close>)
qed

lemma CreateOrUpdateStatefulSet_owned: "guarded owned_writes (CreateOrUpdateStatefulSet c sts) []"
  unfolding CreateOrUpdateStatefulSet_def StatefulSetLister_Get_def
proof (rule guarded_Get_bind [OF lister_types(3)])
  fix x
  let ?ev = "(ALookup KStatefulSet (stsKey sts), Found (map_option OStatefulSet x))"
  show "guarded owned_writes (case get_result KStatefulSet (om_Name (sts_Meta sts)) x of
      Inl err \<Rightarrow> if \<not> IsNotFound (Some err) then Done (Some err, sts)
        else pbind (request (Create c (OStatefulSet sts))) (\<lambda>err. Done (err, sts))
    | Inr s \<Rightarrow> if \<not> isManagedByOperator (om_Labels (sts_Meta s)) then Done (Some (refusal ''*v1.StatefulSet''), sts)
        else if templateDiff (sss_Template (sts_Spec sts)) (sss_Template (sts_Spec s)) = []
        then let sts1 = sts\<lparr>sts_Meta := (sts_Meta sts)\<lparr>om_ResourceVersion := om_ResourceVersion (sts_Meta s)\<rparr>\<rparr>;
                 sts2 = sts1\<lparr>sts_Spec := sts_Spec s\<rparr>
             in pbind (request (Update c (OStatefulSet sts2))) (\<lambda>err. Done (err, sts2))
        else replaceStatefulSet c s sts) ([] @ [?ev])"
  proof (cases x)
    case (Some s)
    then have "isManagedByOperator (om_Labels (sts_Meta s)) \<Longrightarrow> seen_managed [?ev] KStatefulSet (sts_Meta s)"
      using seen_managedI [of KStatefulSet _ "OStatefulSet s" "[?ev]"] by simp
    then show ?thesis
      using Some replaceStatefulSet_owned [of "[?ev]" s c sts]
      by (auto simp: get_result_def request_def Let_def)
  qed (simp add: get_result_def request_def)
qed simp

lemma stsError_trace:
  "feed (stsError c sts) es = Some (Done e) \<longleftrightarrow> (\<exists>sts'. feed (CreateOrUpdateStatefulSet c sts) es = Some (Done (e, sts')))"
  by (auto simp: stsError_def feed_bind_Done)

interpretation sts_res: adopting_resource KStatefulSet OStatefulSet "''*v1.StatefulSet''" stsError
proof unfold_locales
  fix c x es e
  assume "feed (stsError c x) es = Some (Done e)"
  then show "\<exists>r es'. es = (ALookup KStatefulSet (listerKey (om_Namespace (meta_of (OStatefulSet x)))
      (om_Name (meta_of (OStatefulSet x)))), Found (map_option OStatefulSet r)) # es'"
    unfolding stsError_trace CreateOrUpdateStatefulSet_trace by auto
next
  show "guarded owned_writes (stsError c x) []" for c x
    unfolding stsError_def
    by (rule guarded_bind [OF stable_owned_writes CreateOrUpdateStatefulSet_owned]) auto
next
  fix c x a s es e
  assume *: "feed (stsError c x) ((a, Found (Some (OStatefulSet s))) # es) = Some (Done e)"
    "\<not> isManagedByOperator (om_Labels (meta_of (OStatefulSet s)))"
  have "Some (OStatefulSet s) = map_option OStatefulSet y \<longleftrightarrow> y = Some s" for y
    by (cases y) auto
  with * show "es = [] \<and> e = Some (refusal ''*v1.StatefulSet'')"
    unfolding stsError_trace CreateOrUpdateStatefulSet_trace by auto
qed (auto simp: stsError_trace CreateOrUpdateStatefulSet_trace)

section \<open>What goes wrong\<close>

lemma WaitForStatefulSet_fails:
  assumes "fails (WaitForStatefulSet sts) m es"
  shows "wait_failed m es \<or> m = Some ''nil pointer dereference'' \<and> sss_Replicas (sts_Spec sts) = None"
  using waitLoop_fails [OF assms [unfolded WaitForStatefulSet_def]] ready_fails by blast

lemma WaitForStatefulSetDeleted_fails:
  "fails (WaitForStatefulSetDeleted s) m es \<Longrightarrow> wait_failed m es"
  unfolding WaitForStatefulSetDeleted_def using waitLoop_fails gone_no_fail by blast

lemma recreateStatefulSet_no_fail [simp]: "\<not> fails (recreateStatefulSet c sts err) m es"
  by (cases err) (auto simp: recreateStatefulSet_def fails_steps)

lemma awaitAndRecreate_fails: "fails (awaitAndRecreate c s sts err) m es \<Longrightarrow> wait_failed m es"
  by (cases err) (auto simp: awaitAndRecreate_def fails_bind dest: WaitForStatefulSetDeleted_fails)

lemma replaceStatefulSet_fails: "fails (replaceStatefulSet c s sts) m es \<Longrightarrow> wait_failed m es"
  unfolding replaceStatefulSet_def fails_steps
  using awaitAndRecreate_fails wait_failed_append [of m _ "[_]"] by fastforce

lemma CreateOrUpdateStatefulSet_fails:
  assumes "fails (CreateOrUpdateStatefulSet c sts) m es"
  shows "wait_failed m es"
proof -
  obtain x es' where x: "es = [(ALookup KStatefulSet (stsKey sts), Found (map_option OStatefulSet x))] @ es'"
    "fails (case get_result KStatefulSet (om_Name (sts_Meta sts)) x of
      Inl err \<Rightarrow> if \<not> IsNotFound (Some err) then Done (Some err, sts)
        else pbind (request (Create c (OStatefulSet sts))) (\<lambda>err. Done (err, sts))
    | Inr s \<Rightarrow> if \<not> isManagedByOperator (om_Labels (sts_Meta s)) then Done (Some (refusal ''*v1.StatefulSet''), sts)
        else if templateDiff (sss_Template (sts_Spec sts)) (sss_Template (sts_Spec s)) = []
        then let sts1 = sts\<lparr>sts_Meta := (sts_Meta sts)\<lparr>om_ResourceVersion := om_ResourceVersion (sts_Meta s)\<rparr>\<rparr>;
                 sts2 = sts1\<lparr>sts_Spec := sts_Spec s\<rparr>
             in pbind (request (Update c (OStatefulSet sts2))) (\<lambda>err. Done (err, sts2))
        else replaceStatefulSet c s sts) m es'"
    using assms unfolding CreateOrUpdateStatefulSet_def StatefulSetLister_Get_def
      fails_Get_bind [OF lister_types(3)] by auto
  then obtain s where "fails (replaceStatefulSet c s sts) m es'"
    by (cases x) (auto simp: get_result_def fails_steps Let_def split: if_splits)
  then have "wait_failed m es'" by (rule replaceStatefulSet_fails)
  with x(1) show ?thesis using wait_failed_append by blast
qed

end
