(* ===== verification/Rollout.thy ===== *)
theory Rollout imports StatefulSet_Util begin

text \<open>
  How a change of a notebook's spec reaches its pods. \<open>CreateOrUpdateStatefulSet\<close> compares the computed
  pod template with the one in the cache: if they agree it adopts the found spec as it is, otherwise
  it replaces the StatefulSet. The lemmas say which edits the comparison sees and in which order a
  replacement goes.
\<close>

section \<open>Which edits the comparison sees\<close>

lemma image_inject: "Sprintf_s notebookImageTemplate f = Sprintf_s notebookImageTemplate g \<longleftrightarrow> f = g"
  by (simp add: notebookImageTemplate_def)

definition packageCount :: "Notebook \<Rightarrow> nat" where
  "packageCount n = (case spec_Packages (nb_Spec n) of None \<Rightarrow> 0 | Some ps \<Rightarrow> length ps)"

definition templateOf :: "StatefulSet \<Rightarrow> PodTemplateSpec" where
  "templateOf s = sss_Template (sts_Spec s)"

text \<open>The fields of the spec the template comparison distinguishes, of two notebooks of one name.\<close>

definition sameRollout :: "Notebook \<Rightarrow> Notebook \<Rightarrow> bool" where
  "sameRollout n m \<longleftrightarrow>
     spec_Flavor (nb_Spec n) = spec_Flavor (nb_Spec m)
     \<and> spec_ServiceAccountName (nb_Spec n) = spec_ServiceAccountName (nb_Spec m)
     \<and> spec_GPU (nb_Spec n) = spec_GPU (nb_Spec m)
     \<and> ShouldHaveCerts n = ShouldHaveCerts m
     \<and> hasPassword n = hasPassword m
     \<and> packageCount n = packageCount m"

lemma packageLifecycle_seen:
  "map_option erase_lifecycle (packageLifecycle (spec_Packages (nb_Spec n))) =
     map_option erase_lifecycle (packageLifecycle (spec_Packages (nb_Spec m))) \<longleftrightarrow>
   packageCount n = packageCount m"
proof -
  have lc: "map_option erase_lifecycle (packageLifecycle ps) =
      (let k = (case ps of None \<Rightarrow> 0 | Some xs \<Rightarrow> length xs)
       in if k = 0 then None
          else Some \<lparr> lc_PostStart = Some \<lparr> h_Exec = Some \<lparr> ea_Command = Some (replicate (k + 3) []) \<rparr> \<rparr> \<rparr>)" for ps
    by (cases ps)
      (simp_all add: packageLifecycle_def erase_lifecycle_def erase_handler_def erase_exec_def map_replicate_const numeral_3_eq_3)
  show ?thesis
    unfolding lc packageCount_def Let_def by (auto simp del: replicate_Suc replicate.simps dest: arg_cong [where f = length])
qed

lemma resources_seen_container:
  "resources_seen (ct_Resources (calculateContainer n f)) (ct_Resources (calculateContainer m g)) \<longleftrightarrow>
     spec_GPU (nb_Spec n) = spec_GPU (nb_Spec m)"
  by (simp add: resources_seen_def gomap_rel_def)

lemma args_container:
  "ct_Args (calculateContainer n f) = Some ([''start-notebook.sh'', ''--NotebookApp.token='']
     @ (if hasPassword n then [''--NotebookApp.password=\"$(PASSWORD)\"''] else [])
     @ (if ShouldHaveCerts n then [''--NotebookApp.certfile='' @ notebookTLSMountPath @ ''/cert'',
          ''--NotebookApp.keyfile='' @ notebookTLSMountPath @ ''/key''] else []))"
  "ct_VolumeMounts (calculateContainer n f) = (if ShouldHaveCerts n
     then Some [\<lparr> vm_Name = ''tls'', vm_ReadOnly = True, vm_MountPath = notebookTLSMountPath \<rparr>] else None)"
  "ct_TerminationMessagePath (calculateContainer n f) = TerminationMessagePathDefault"
  "ct_TerminationMessagePolicy (calculateContainer n f) = TerminationMessageReadFile"
  "ct_ImagePullPolicy (calculateContainer n f) = PullAlways"
  by (simp_all add: calculateContainer_def hasPassword_def Let_def split: option.splits)

lemma container_seen_edit:
  assumes "nb_Name n = nb_Name m"
  shows "container_seen (calculateContainer n f) (calculateContainer m g) \<longleftrightarrow>
    f = g \<and> spec_GPU (nb_Spec n) = spec_GPU (nb_Spec m) \<and> ShouldHaveCerts n = ShouldHaveCerts m
    \<and> hasPassword n = hasPassword m \<and> packageCount n = packageCount m"
  using assms
  unfolding container_seen_def resources_seen_container
  by (auto simp add: image_inject packageLifecycle_seen args_container passwordEnv_def split: if_splits)

definition computedTemplate :: "Notebook \<Rightarrow> string \<Rightarrow> string \<Rightarrow> PodTemplateSpec" where
  "computedTemplate n f sa = \<lparr> pts_Labels = Some (addMatchLabels [] (nb_Name n)), pts_Spec = \<lparr>
     ps_Volumes = (if ShouldHaveCerts n then Some [tlsVolume n] else None),
     ps_Containers = Some [calculateContainer n f],
     ps_RestartPolicy = RestartPolicyAlways,
     ps_TerminationGracePeriodSeconds = Some 120,
     ps_DNSPolicy = DNSClusterFirst,
     ps_ServiceAccountName = sa,
     ps_DeprecatedServiceAccount = sa,
     ps_AutomountServiceAccountToken = Some (sa \<noteq> []),
     ps_SecurityContext = Some \<lparr> psc_RunAsUser = None \<rparr>,
     ps_SchedulerName = DefaultSchedulerName,
     ps_Tolerations = (if spec_GPU (nb_Spec n)
       then Some [\<lparr> tol_Key = gpuResource, tol_Operator = TolerationOpExists,
                    tol_Effect = TaintEffectNoSchedule \<rparr>]
       else None) \<rparr> \<rparr>"

lemma CalculateStatefulSet_template:
  assumes "CalculateStatefulSet n = Returns s"
  obtains f sa where "spec_Flavor (nb_Spec n) = Some f" "spec_ServiceAccountName (nb_Spec n) = Some sa"
    "templateOf s = computedTemplate n f sa"
proof -
  from assms obtain f sa where "spec_Flavor (nb_Spec n) = Some f" "spec_ServiceAccountName (nb_Spec n) = Some sa"
    by (cases "spec_Flavor (nb_Spec n)"; cases "spec_ServiceAccountName (nb_Spec n)")
      (simp_all add: CalculateStatefulSet_def)
  with assms that show ?thesis
    by (auto simp: CalculateStatefulSet_def templateOf_def computedTemplate_def Let_def)
qed

lemma CalculateStatefulSet_meta:
  assumes "CalculateStatefulSet n = Returns s"
  shows "om_Name (sts_Meta s) = resourceName (nb_Name n)" "om_Namespace (sts_Meta s) = nb_Namespace n"
  using assms
  by (cases "spec_Flavor (nb_Spec n)"; cases "spec_ServiceAccountName (nb_Spec n)";
    auto simp: CalculateStatefulSet_def Let_def addOwnerRefToObject_def emptyMeta_def)+

lemma template_seen_edit:
  assumes "CalculateStatefulSet n = Returns s" "CalculateStatefulSet m = Returns t" "nb_Name n = nb_Name m"
  shows "template_seen (templateOf t) (templateOf s) \<longleftrightarrow> sameRollout n m"
proof -
  from assms(1) obtain f sa where s: "spec_Flavor (nb_Spec n) = Some f"
    "spec_ServiceAccountName (nb_Spec n) = Some sa" "templateOf s = computedTemplate n f sa"
    by (rule CalculateStatefulSet_template)
  from assms(2) obtain g sb where t: "spec_Flavor (nb_Spec m) = Some g"
    "spec_ServiceAccountName (nb_Spec m) = Some sb" "templateOf t = computedTemplate m g sb"
    by (rule CalculateStatefulSet_template)
  have "tlsVolume n = tlsVolume m" using assms(3) by (simp add: tlsVolume_def)
  moreover have "gomap_rel (=) (Some (addMatchLabels [] (nb_Name m))) (Some (addMatchLabels [] (nb_Name m)))"
    by (simp add: gomap_rel_def addMatchLabels_def)
  ultimately show ?thesis
    unfolding template_seen_def pod_seen_def sameRollout_def s t computedTemplate_def
    using assms(3) container_seen_edit [OF assms(3) [symmetric], of g f] by (auto split: if_splits)
qed

text \<open>What the pass does to a managed StatefulSet that it finds.\<close>

lemma found_managed_trace:
  assumes "isManagedByOperator (om_Labels (sts_Meta s))"
    and "feed (CreateOrUpdateStatefulSet c sts) ((a, Found (Some (OStatefulSet s))) # es) = Some (Done (e, sts'))"
  shows "if template_seen (templateOf sts) (templateOf s)
    then es = [(ARequest (Update c (OStatefulSet (adoptStatefulSet s sts))), Replied e)] \<and> sts' = adoptStatefulSet s sts
    else feed (replaceStatefulSet c s sts) es = Some (Done (e, sts'))"
proof -
  have "Some (OStatefulSet s) = map_option OStatefulSet x \<longleftrightarrow> x = Some s" for x by (cases x) auto
  with assms show ?thesis
    unfolding CreateOrUpdateStatefulSet_trace templateDiff_nil templateOf_def by auto
qed

section \<open>Properties\<close>

text \<open>
  C17: which edits of a notebook reach its pods. Over a managed StatefulSet that carries the template
  computed from the notebook before the edit, a pass for the notebook after the edit starts a
  replacement exactly when the edit changed the flavor, the service account, the GPU flag, whether
  there are certificates, whether there is a password, or the number of packages. Otherwise it sends
  one update that puts the old template back, so an exchange of packages is never rolled out.
\<close>

theorem which_edits_roll_out:
  assumes "CalculateStatefulSet n = Returns old" "CalculateStatefulSet m = Returns new" "nb_Name n = nb_Name m"
    and "isManagedByOperator (om_Labels (sts_Meta s))" "templateOf s = templateOf old"
    and "feed (CreateOrUpdateStatefulSet c new) ((a, Found (Some (OStatefulSet s))) # es) = Some (Done (e, sts'))"
  shows "if sameRollout n m
    then es = [(ARequest (Update c (OStatefulSet (adoptStatefulSet s new))), Replied e)]
      \<and> templateOf (adoptStatefulSet s new) = templateOf old
    else \<exists>r es'. es = (ARequest (Delete KStatefulSet c (om_Name (sts_Meta s)) (Some DeletePropagationForeground)),
        Replied r) # es'"
  using found_managed_trace [OF assms(4,6)] template_seen_edit [OF assms(1-3)] assms(5)
  by (auto simp: replaceStatefulSet_trace adoptStatefulSet_def templateOf_def split: if_splits)

text \<open>
  C9: a replacement is ordered. When the template differs, the old StatefulSet is deleted in the
  foreground first; nothing else is sent if that delete failed or the wait for its end timed out, and
  the new one is created only after the wait returned nil, that is after a lookup that no longer found
  the old one or after a dropped message. The pass fails if any of the three failed.
\<close>

theorem replacement_is_ordered:
  assumes "isManagedByOperator (om_Labels (sts_Meta s))" "templateDiff (templateOf sts) (templateOf s) \<noteq> []"
    and "feed (CreateOrUpdateStatefulSet c sts) ((a, Found (Some (OStatefulSet s))) # es) = Some (Done (e, sts'))"
  shows "\<exists>r es1 es2. es = (ARequest (Delete KStatefulSet c (om_Name (sts_Meta s)) (Some DeletePropagationForeground)),
        Replied r) # es1 @ es2
    \<and> (case r of
         Some d \<Rightarrow> es1 = [] \<and> es2 = [] \<and> e = Some (wrapErr ''failed to delete old StatefulSet before updating'' d)
       | None \<Rightarrow> \<exists>res. feed (WaitForStatefulSetDeleted s) es1 = Some (Done res)
           \<and> (case res of
                Some w \<Rightarrow> es2 = [] \<and> e = Some (wrapErr ''failed waiting for StatefulSet to be deleted'' w)
              | None \<Rightarrow> es2 = [(ARequest (Create c (OStatefulSet sts)), Replied e)]
                  \<and> (happened (gone s) None es1 \<or> \<not> delivered_all es1)))"
proof -
  have "feed (replaceStatefulSet c s sts) es = Some (Done (e, sts'))"
    using found_managed_trace [OF assms(1,3)] assms(2) by (simp add: templateDiff_nil)
  then obtain r es' where r: "es = (ARequest (Delete KStatefulSet c (om_Name (sts_Meta s))
        (Some DeletePropagationForeground)), Replied r) # es'"
      "feed (awaitAndRecreate c s sts r) es' = Some (Done (e, sts'))"
    unfolding replaceStatefulSet_trace by blast
  show ?thesis
  proof (cases r)
    case (Some d)
    with r show ?thesis unfolding awaitAndRecreate_trace by (intro exI [of _ r] exI [of _ "[]"]) simp
  next
    case None
    with r(2) obtain es1 es2 res where w: "es' = es1 @ es2" "feed (WaitForStatefulSetDeleted s) es1 = Some (Done res)"
        "feed (recreateStatefulSet c sts res) es2 = Some (Done (e, sts'))"
      unfolding awaitAndRecreate_trace by auto
    have "res = None \<Longrightarrow> happened (gone s) None es1 \<or> \<not> delivered_all es1"
      using WaitForStatefulSetDeleted_result [OF w(2)] by auto
    with w None r(1) show ?thesis unfolding recreateStatefulSet_trace
      by (intro exI [of _ r] exI [of _ es1] exI [of _ es2]) (auto split: option.splits)
  qed
qed

text \<open>
  C25: a GPU notebook never settles. The computed GPU limit is written in the DecimalExponent format and
  the API server hands quantities back in DecimalSI; over a managed StatefulSet whose limit reads
  DecimalSI, even if nothing else differs, the pass deletes the StatefulSet.
\<close>

theorem gpu_notebook_never_settles:
  assumes "CalculateStatefulSet n = Returns sts" "spec_GPU (nb_Spec n)"
    and "isManagedByOperator (om_Labels (sts_Meta s))"
    and "ps_Containers (pts_Spec (templateOf s)) = Some [ct]"
    and "rr_Limits (ct_Resources ct) = Some [(gpuResource, NewQuantity v DecimalSI)]"
    and "feed (CreateOrUpdateStatefulSet c sts) ((a, Found (Some (OStatefulSet s))) # es) = Some (Done (e, sts'))"
  shows "\<exists>r es'. es = (ARequest (Delete KStatefulSet c (om_Name (sts_Meta s)) (Some DeletePropagationForeground)),
    Replied r) # es'"
proof -
  from assms(1) obtain f sa where t: "templateOf sts = computedTemplate n f sa"
    by (rule CalculateStatefulSet_template)
  have "\<not> container_seen (calculateContainer n f) ct"
    using assms(2,5) by (simp add: container_seen_def resources_seen_def gomap_rel_def NewQuantity_def
        DecimalExponent_def DecimalSI_def)
  then have "\<not> template_seen (templateOf sts) (templateOf s)"
    using assms(4) by (simp add: template_seen_def pod_seen_def t computedTemplate_def)
  then show ?thesis using found_managed_trace [OF assms(3,6)] by (auto simp: replaceStatefulSet_trace)
qed

end
