(* ===== verification/Reconcilers.thy ===== *)
theory Reconcilers imports Service_Util Ingress_Util StatefulSet_Util begin

text \<open>
  \<open>pkg/controller/reconcilers.go\<close> and the reconciling half of \<open>handlers.go\<close>: one reconciler per managed
  kind, run as goroutines whose errors are joined. The StatefulSet's two closures share the object
  they were made with, so a reconcile hands that object on to its wait.
\<close>

section \<open>The controller's configuration\<close>

record 'k Config =
  cfg_CACert :: Certificate
  cfg_Key :: 'k
  cfg_Kubeconfig :: string
  cfg_Namespace :: string

section \<open>Reconcilers\<close>

record reconciler =
  rc_reconcile :: "(go_error option \<times> StatefulSet option) proc option"
  rc_resourceType :: string
  rc_wait :: "(StatefulSet option \<Rightarrow> go_error option proc) option"

definition unshared :: "go_error option proc \<Rightarrow> (go_error option \<times> StatefulSet option) proc" where
  "unshared p = pbind p (\<lambda>err. Done (err, None))"

definition statefulSetShouldExist :: "Notebook option \<Rightarrow> bool" where
  "statefulSetShouldExist n =
     (case n of
        None \<Rightarrow> False
      | Some nb \<Rightarrow> if om_DeletionTimestamp (nb_Meta nb) \<noteq> None then False else True)"

definition ingressShouldExist :: "Notebook option \<Rightarrow> bool" where
  "ingressShouldExist n =
     (case n of
        None \<Rightarrow> False
      | Some nb \<Rightarrow>
          if om_DeletionTimestamp (nb_Meta nb) \<noteq> None then False
          else if (case spec_Host (nb_Spec nb) of None \<Rightarrow> True | Some h \<Rightarrow> h = []) then False
          else True)"

definition secretShouldExist :: "Notebook option \<Rightarrow> bool" where
  "secretShouldExist n =
     (case n of
        None \<Rightarrow> False
      | Some nb \<Rightarrow>
          if om_DeletionTimestamp (nb_Meta nb) \<noteq> None then False
          else if (case spec_Password (nb_Spec nb) of None \<Rightarrow> False | Some pw \<Rightarrow> pw \<noteq> []) \<or> ShouldHaveCerts nb
          then True else False)"

definition serviceShouldExist :: "Notebook option \<Rightarrow> bool" where
  "serviceShouldExist n =
     (case n of
        None \<Rightarrow> False
      | Some nb \<Rightarrow> if om_DeletionTimestamp (nb_Meta nb) \<noteq> None then False else True)"

definition serviceReconciler :: "Notebook \<Rightarrow> reconciler outcome" where
  "serviceReconciler n =
     (let r = \<lparr> rc_reconcile = None, rc_resourceType = ''*v1.Service'', rc_wait = None \<rparr>
      in if serviceShouldExist (Some n)
         then
           let svc = CalculateService n
           in Returns (r\<lparr>rc_reconcile := Some (unshared (CreateOrUpdateService (nb_Namespace n) svc))\<rparr>)
         else Returns (r\<lparr>rc_reconcile := Some (unshared (DeleteService (nb_Namespace n) n))\<rparr>))"

definition secretReconciler :: "'k crypto \<Rightarrow> draw \<Rightarrow> 'k Config \<Rightarrow> Notebook \<Rightarrow> reconciler outcome" where
  "secretReconciler cr d cfg n =
     (let r = \<lparr> rc_reconcile = None, rc_resourceType = ''*v1.Secret'', rc_wait = None \<rparr>
      in if secretShouldExist (Some n)
         then
           obind (CalculateSecret cr d n (cfg_CACert cfg) (cfg_Key cfg)) (\<lambda>secret.
             Returns (r\<lparr>rc_reconcile :=
               Some (unshared (CreateOrUpdateSecret cr (cfg_CACert cfg) (nb_Namespace n) secret))\<rparr>))
         else Returns (r\<lparr>rc_reconcile := Some (unshared (DeleteSecret (nb_Namespace n) n))\<rparr>))"

definition statefulSetReconciler :: "Notebook \<Rightarrow> reconciler outcome" where
  "statefulSetReconciler n =
     (let r = \<lparr> rc_reconcile = None, rc_resourceType = ''*v1.StatefulSet'', rc_wait = None \<rparr>
      in if statefulSetShouldExist (Some n)
         then
           obind (CalculateStatefulSet n) (\<lambda>sts.
             Returns (r\<lparr>
               rc_reconcile := Some (pbind (CreateOrUpdateStatefulSet (nb_Namespace n) sts)
                 (\<lambda>(err, sts'). Done (err, Some sts'))),
               rc_wait := Some (\<lambda>shared. WaitForStatefulSet (case shared of None \<Rightarrow> sts | Some sts' \<Rightarrow> sts'))\<rparr>))
         else Returns (r\<lparr>rc_reconcile := Some (unshared (DeleteStatefulSet (nb_Namespace n) n))\<rparr>))"

definition ingressReconciler :: "Notebook \<Rightarrow> reconciler outcome" where
  "ingressReconciler n =
     (let r = \<lparr> rc_reconcile = None, rc_resourceType = ''*v1beta1.Ingress'', rc_wait = None \<rparr>
      in if ingressShouldExist (Some n)
         then
           obind (CalculateIngress n) (\<lambda>ing.
             let r1 = r\<lparr>rc_reconcile := Some (unshared (CreateOrUpdateIngress (nb_Namespace n) ing))\<rparr>
             in if spec_TLS (nb_Spec n) \<noteq> None \<and> the (spec_TLS (nb_Spec n)) = NotebookTLSAcme
                then Returns (r1\<lparr>rc_wait := Some (\<lambda>shared. WaitForIngressTLSSecret n)\<rparr>)
                else Returns r1)
         else Returns (r\<lparr>rc_reconcile := Some (unshared (DeleteIngress (nb_Namespace n) n))\<rparr>))"

definition reconcilers :: "'k crypto \<Rightarrow> draw \<Rightarrow> 'k Config \<Rightarrow> Notebook \<Rightarrow> reconciler list outcome" where
  "reconcilers cr d cfg n =
     obind (serviceReconciler n) (\<lambda>r1.
     obind (secretReconciler cr d cfg n) (\<lambda>r2.
     obind (statefulSetReconciler n) (\<lambda>r3.
     obind (ingressReconciler n) (\<lambda>r4.
       Returns [r1, r2, r3, r4]))))"

section \<open>Joined errors\<close>

fun filteredErrs :: "(go_error option \<Rightarrow> bool) list \<Rightarrow> go_error option list \<Rightarrow> string list" where
  "filteredErrs ignore [] = []"
| "filteredErrs ignore (err # errs) =
     (case err of
        None \<Rightarrow> filteredErrs ignore errs
      | Some e \<Rightarrow>
          if list_ex (\<lambda>ign. ign err) ignore then filteredErrs ignore errs
          else Error e # filteredErrs ignore errs)"

definition joinErrors :: "go_error option list \<Rightarrow> (go_error option \<Rightarrow> bool) list \<Rightarrow> go_error option" where
  "joinErrors errs ignore =
     (let filtered = filteredErrs ignore errs
      in if length filtered \<noteq> 0 then Some (PlainError (Join filtered ''; '')) else None)"

section \<open>Running the reconcilers\<close>

text \<open>
  The body of the goroutine \<open>reconcileNotebookResources\<close> starts for one reconciler: the reconcile, with
  NotFound and AlreadyExists filtered from its error, then the wait.
\<close>

definition filterErr :: "go_error option \<Rightarrow> go_error option" where
  "filterErr err = (if err \<noteq> None then joinErrors [err] [IsNotFound, IsAlreadyExists] else None)"

definition tryReconcile :: "reconciler \<Rightarrow> (go_error option \<times> StatefulSet option) proc" where
  "tryReconcile r =
     (case rc_reconcile r of
        None \<Rightarrow> Done (None, None)
      | Some reconcile \<Rightarrow> pbind reconcile (\<lambda>(err, shared). Done (filterErr err, shared)))"

definition tryWait :: "reconciler \<Rightarrow> go_error option \<times> StatefulSet option \<Rightarrow> go_error option proc" where
  "tryWait r = (\<lambda>(err, shared).
     if err \<noteq> None then Done err
     else (case rc_wait r of None \<Rightarrow> Done None | Some wait \<Rightarrow> wait shared))"

definition goroutine :: "reconciler \<Rightarrow> go_error option proc" where
  "goroutine r = pbind (tryReconcile r) (tryWait r)"

definition reconcileNotebookResources ::
  "'k crypto \<Rightarrow> draw \<Rightarrow> 'k Config \<Rightarrow> Notebook \<Rightarrow> go_error option proc" where
  "reconcileNotebookResources cr d cfg n =
     pbind (pout (reconcilers cr d cfg n)) (\<lambda>rs.
     pbind (parAll (map goroutine rs)) (\<lambda>errs.
       case joinErrors errs [] of
         Some err \<Rightarrow> Done (Some (wrapErr (''failed to reconcile notebook resources for '' @ nb_Name n) err))
       | None \<Rightarrow> Done None))"

section \<open>Joined errors are nil when every error is nil or ignored\<close>

lemma filteredErrs_Nil:
  "filteredErrs ignore errs = [] \<longleftrightarrow>
     list_all (\<lambda>err. err = None \<or> list_ex (\<lambda>ign. ign err) ignore) errs"
  by (induction errs) (auto split: option.splits)

lemma joinErrors_None:
  "joinErrors errs ignore = None \<longleftrightarrow>
     list_all (\<lambda>err. err = None \<or> list_ex (\<lambda>ign. ign err) ignore) errs"
  by (simp add: joinErrors_def Let_def filteredErrs_Nil)

lemma joinErrors_reasons [simp]:
  "\<not> IsNotFound (joinErrors errs ignore)" "\<not> IsAlreadyExists (joinErrors errs ignore)"
  by (simp_all add: joinErrors_def Let_def)

text \<open>The errors a goroutine takes for success: none, NotFound and AlreadyExists.\<close>

definition benign :: "go_error option \<Rightarrow> bool" where
  "benign err \<longleftrightarrow> err = None \<or> IsNotFound err \<or> IsAlreadyExists err"

lemma filterErr_None: "filterErr err = None \<longleftrightarrow> benign err"
  by (simp add: filterErr_def joinErrors_None benign_def)

section \<open>What a goroutine's result means\<close>

lemma goroutine_Done:
  assumes "feed (goroutine r) es = Some (Done e)" "rc_reconcile r = Some p"
  obtains es1 es2 err shared where "es = es1 @ es2" "feed p es1 = Some (Done (err, shared))"
    "if benign err
     then (case rc_wait r of None \<Rightarrow> es2 = [] \<and> e = None | Some w \<Rightarrow> feed (w shared) es2 = Some (Done e))
     else es2 = [] \<and> e \<noteq> None"
proof -
  from assms obtain es1 es2 err shared where *: "es = es1 @ es2" "feed p es1 = Some (Done (err, shared))"
    "feed (tryWait r (filterErr err, shared)) es2 = Some (Done e)"
    unfolding goroutine_def tryReconcile_def by (auto simp: feed_bind_Done)
  with that [of es1 es2 err shared] show ?thesis
    by (auto simp: tryWait_def filterErr_None [symmetric] split: if_splits option.splits)
qed

lemma goroutine_None:
  assumes "feed (goroutine r) es = Some (Done None)" "rc_reconcile r = Some p"
  obtains es1 es2 err shared where "es = es1 @ es2" "feed p es1 = Some (Done (err, shared))" "benign err"
    "case rc_wait r of None \<Rightarrow> es2 = [] | Some w \<Rightarrow> feed (w shared) es2 = Some (Done None)"
  by (rule goroutine_Done [OF assms], cases "rc_wait r") (auto split: if_splits)

lemma guarded_goroutine:
  assumes "stable G" "\<And>p. rc_reconcile r = Some p \<Longrightarrow> guarded G p []"
    and "\<And>w shared. rc_wait r = Some w \<Longrightarrow> guarded G (w shared) []"
  shows "guarded G (goroutine r) []"
proof -
  have "guarded G (tryReconcile r) []"
  proof (cases "rc_reconcile r")
    case (Some p)
    show ?thesis unfolding tryReconcile_def Some option.case
      by (rule guarded_bind [OF assms(1) assms(2) [OF Some]]) auto
  qed (simp add: tryReconcile_def)
  moreover have "guarded G (tryWait r x) []" for x
    by (auto simp: tryWait_def intro: assms(3) split: prod.splits option.splits)
  ultimately show ?thesis unfolding goroutine_def by (rule guarded_bind [OF assms(1)])
qed

lemma guarded_unshared: "stable G \<Longrightarrow> guarded G p [] \<Longrightarrow> guarded G (unshared p) []"
  unfolding unshared_def by (rule guarded_bind) auto

lemma unshared_Done:
  "feed (unshared p) es = Some (Done (e, sh)) \<longleftrightarrow> feed p es = Some (Done e) \<and> sh = None"
  by (auto simp: unshared_def feed_bind_Done)

section \<open>The reconcilers\<close>

definition live :: "Notebook \<Rightarrow> bool" where
  "live n \<longleftrightarrow> om_DeletionTimestamp (nb_Meta n) = None"

lemma live_shouldExist [simp]:
  "live n \<Longrightarrow> serviceShouldExist (Some n)" "live n \<Longrightarrow> statefulSetShouldExist (Some n)"
  "\<not> live n \<Longrightarrow> \<not> serviceShouldExist (Some n)" "\<not> live n \<Longrightarrow> \<not> statefulSetShouldExist (Some n)"
  "\<not> live n \<Longrightarrow> \<not> secretShouldExist (Some n)" "\<not> live n \<Longrightarrow> \<not> ingressShouldExist (Some n)"
  by (simp_all add: live_def serviceShouldExist_def statefulSetShouldExist_def secretShouldExist_def
      ingressShouldExist_def)

lemma live_secret: "live n \<Longrightarrow> secretShouldExist (Some n) \<longleftrightarrow> hasPassword n \<or> ShouldHaveCerts n"
  by (auto simp: live_def secretShouldExist_def hasPassword_def split: option.splits)

lemma live_ingress:
  "live n \<Longrightarrow> ingressShouldExist (Some n) \<longleftrightarrow> (\<exists>h. spec_Host (nb_Spec n) = Some h \<and> h \<noteq> [])"
  by (auto simp: live_def ingressShouldExist_def split: option.splits)

lemma delete_owned: "guarded owned_writes (request (Delete k c nm None)) h"
  by (simp add: request_def)

text \<open>No reconciler writes to a resource it has not seen to be managed by this operator.\<close>

lemma serviceReconciler_owned:
  "serviceReconciler n = Returns r \<Longrightarrow> guarded owned_writes (goroutine r) []"
  by (rule guarded_goroutine [OF stable_owned_writes])
    (auto simp: serviceReconciler_def Let_def DeleteService_def split: if_splits
      intro!: guarded_unshared [OF stable_owned_writes] CreateOrUpdateService_owned delete_owned)

lemma secretReconciler_owned:
  "secretReconciler cr d cfg n = Returns r \<Longrightarrow> guarded owned_writes (goroutine r) []"
  by (rule guarded_goroutine [OF stable_owned_writes])
    (auto simp: secretReconciler_def Let_def DeleteSecret_def obind_Returns_iff split: if_splits
      intro!: guarded_unshared [OF stable_owned_writes] CreateOrUpdateSecret_owned delete_owned)

lemma ingressReconciler_owned:
  "ingressReconciler n = Returns r \<Longrightarrow> guarded owned_writes (goroutine r) []"
  by (rule guarded_goroutine [OF stable_owned_writes])
    (auto simp: ingressReconciler_def Let_def DeleteIngress_def obind_Returns_iff WaitForIngressTLSSecret_def
      split: if_splits
      intro!: guarded_unshared [OF stable_owned_writes] CreateOrUpdateIngress_owned delete_owned
        guarded_waitLoop [OF stable_owned_writes] tlsSecretExists_reads)

lemma statefulSetReconciler_owned:
  "statefulSetReconciler n = Returns r \<Longrightarrow> guarded owned_writes (goroutine r) []"
  by (rule guarded_goroutine [OF stable_owned_writes])
    (auto simp: statefulSetReconciler_def Let_def DeleteStatefulSet_def obind_Returns_iff WaitForStatefulSet_def
      split: if_splits
      intro!: guarded_unshared [OF stable_owned_writes] guarded_bind [OF stable_owned_writes]
        CreateOrUpdateStatefulSet_owned delete_owned guarded_waitLoop [OF stable_owned_writes] wait_bodies_read)

lemma reconcilers_Returns:
  "reconcilers cr d cfg n = Returns rs \<longleftrightarrow>
     (\<exists>r1 r2 r3 r4. rs = [r1, r2, r3, r4] \<and> serviceReconciler n = Returns r1 \<and>
        secretReconciler cr d cfg n = Returns r2 \<and> statefulSetReconciler n = Returns r3 \<and>
        ingressReconciler n = Returns r4)"
  by (auto simp: reconcilers_def obind_Returns_iff)

lemma reconcile_owned: "guarded owned_writes (reconcileNotebookResources cr d cfg n) h"
proof (cases "reconcilers cr d cfg n")
  case (Panics m)
  then show ?thesis by (simp add: reconcileNotebookResources_def)
next
  case (Returns rs)
  then have "guarded owned_writes p []" if "p \<in> set (map goroutine rs)" for p
    using that by (auto simp: reconcilers_Returns serviceReconciler_owned secretReconciler_owned
        statefulSetReconciler_owned ingressReconciler_owned)
  then have all: "guarded owned_writes p h" if "p \<in> set (map goroutine rs)" for p h
    using that guarded_stable [OF stable_owned_writes, of "[]" h p] by simp
  have "guarded owned_writes (parAll (map goroutine rs)) h"
    by (rule guarded_parAll [OF stable_owned_writes]) (use all in auto)
  then show ?thesis
    by (auto simp: reconcileNotebookResources_def Returns
        intro!: guarded_bind [OF stable_owned_writes] split: option.splits)
qed

text \<open>The result of the whole is nil exactly when every goroutine's is.\<close>

lemma list_all2_4:
  "list_all2 P [a, b, c, d] xs \<longleftrightarrow> (\<exists>w x y z. xs = [w, x, y, z] \<and> P a w \<and> P b x \<and> P c y \<and> P d z)"
  by (auto simp: list_all2_Cons1)

lemma reconcile_Done:
  assumes "feed (reconcileNotebookResources cr d cfg n) es = Some (Done res)"
  obtains r1 r2 r3 r4 e1 e2 e3 e4 es1 es2 es3 es4 where
    "serviceReconciler n = Returns r1" "secretReconciler cr d cfg n = Returns r2"
    "statefulSetReconciler n = Returns r3" "ingressReconciler n = Returns r4"
    "feed (goroutine r1) es1 = Some (Done e1)" "feed (goroutine r2) es2 = Some (Done e2)"
    "feed (goroutine r3) es3 = Some (Done e3)" "feed (goroutine r4) es4 = Some (Done e4)"
    "subseq (acts es1) (acts es)" "subseq (acts es2) (acts es)"
    "subseq (acts es3) (acts es)" "subseq (acts es4) (acts es)"
    "mset (acts es) = mset (acts es1 @ acts es2 @ acts es3 @ acts es4)"
    "res = None \<longleftrightarrow> e1 = None \<and> e2 = None \<and> e3 = None \<and> e4 = None"
proof -
  from assms obtain rs where "reconcilers cr d cfg n = Returns rs"
    by (cases "reconcilers cr d cfg n") (auto simp: reconcileNotebookResources_def)
  then obtain r1 r2 r3 r4 where rs: "reconcilers cr d cfg n = Returns [r1, r2, r3, r4]"
    "serviceReconciler n = Returns r1" "secretReconciler cr d cfg n = Returns r2"
    "statefulSetReconciler n = Returns r3" "ingressReconciler n = Returns r4"
    by (auto simp: reconcilers_Returns)
  from assms obtain errs where errs: "feed (parAll (map goroutine [r1, r2, r3, r4])) es = Some (Done errs)"
    "res = None \<longleftrightarrow> joinErrors errs [] = None"
    by (auto simp: reconcileNotebookResources_def rs(1) feed_bind_Done simp del: parAll.simps split: option.splits)
  from parAll_Done [OF errs(1)] obtain ess where
    ess: "list_all2 (\<lambda>p (es', x). feed p es' = Some (Done x)) (map goroutine [r1, r2, r3, r4]) (zip ess errs)"
      "length ess = length errs" "list_all (\<lambda>es'. subseq (acts es') (acts es)) ess"
      "mset (acts es) = mset (concat (map acts ess))" by blast
  from list_all2_lengthD [OF ess(1)] ess(2) have "length ess = 4" "length errs = 4" by simp_all
  then obtain es1 es2 es3 es4 e1 e2 e3 e4 where eqs: "ess = [es1, es2, es3, es4]" "errs = [e1, e2, e3, e4]"
    by (auto simp: eval_nat_numeral length_Suc_conv)
  have "res = None \<longleftrightarrow> e1 = None \<and> e2 = None \<and> e3 = None \<and> e4 = None"
    using errs(2) eqs by (simp add: joinErrors_None)
  with ess eqs show ?thesis by (intro that [OF rs(2-)]) auto
qed

lemma did_mem:
  assumes "subseq (acts es') (acts es)" "e \<in> set es'" "fst e \<noteq> ASched"
  shows "e \<in> set es"
  using assms list_emb_set [of "(=)" "acts es'" "acts es" e] by (auto simp: set_acts)

section \<open>How a reconcile can fail to return\<close>

lemma goroutine_fails:
  assumes "fails (goroutine r) m es" "rc_reconcile r = Some p"
  obtains "fails p m es"
  | es1 es2 err shared w where "es = es1 @ es2" "feed p es1 = Some (Done (err, shared))"
      "rc_wait r = Some w" "fails (w shared) m es2"
proof -
  from assms consider "fails p m es" | es1 es2 err shared where "es = es1 @ es2"
      "feed p es1 = Some (Done (err, shared))" "fails (tryWait r (filterErr err, shared)) m es2"
    unfolding goroutine_def tryReconcile_def by (auto simp: fails_bind feed_bind_Done)
  then show thesis
  proof cases
    case 1
    then show ?thesis by (rule that(1))
  next
    case 2
    then show ?thesis
      by (intro that(2) [of es1 es2 err shared "the (rc_wait r)"])
        (auto simp: tryWait_def split: if_splits option.splits)
  qed
qed

lemma unshared_fails: "fails (unshared p) m es \<longleftrightarrow> fails p m es"
  by (simp add: unshared_def fails_bind)

lemma serviceReconciler_no_fail: "serviceReconciler n = Returns r \<Longrightarrow> \<not> fails (goroutine r) m es"
  by (auto simp: serviceReconciler_def Let_def DeleteService_def unshared_fails split: if_splits
      elim!: goroutine_fails)

lemma secretReconciler_no_fail: "secretReconciler cr d cfg n = Returns r \<Longrightarrow> \<not> fails (goroutine r) m es"
  by (auto simp: secretReconciler_def Let_def obind_Returns_iff DeleteSecret_def unshared_fails split: if_splits
      elim!: goroutine_fails)

lemma WaitForIngressTLSSecret_fails: "fails (WaitForIngressTLSSecret n) m es \<Longrightarrow> wait_failed m es"
  unfolding WaitForIngressTLSSecret_def using waitLoop_fails tlsSecretExists_no_fail by blast

lemma ingressReconciler_fails:
  "ingressReconciler n = Returns r \<Longrightarrow> fails (goroutine r) m es \<Longrightarrow> wait_failed m es"
  by (auto simp: ingressReconciler_def Let_def obind_Returns_iff DeleteIngress_def unshared_fails split: if_splits
      elim!: goroutine_fails dest!: WaitForIngressTLSSecret_fails intro: wait_failed_append)

text \<open>A StatefulSet in the cache without its replica count (which the API server always sets).\<close>

definition sawNoReplicas :: "event list \<Rightarrow> bool" where
  "sawNoReplicas es \<longleftrightarrow> (\<exists>key s. (ALookup KStatefulSet key, Found (Some (OStatefulSet s))) \<in> set es
     \<and> sss_Replicas (sts_Spec s) = None)"

lemma CalculateStatefulSet_replicas:
  "CalculateStatefulSet n = Returns sts \<Longrightarrow> sss_Replicas (sts_Spec sts) = Some 1"
  by (auto simp: CalculateStatefulSet_def Let_def obind_Returns_iff)

lemma CreateOrUpdateStatefulSet_replicas:
  assumes "feed (CreateOrUpdateStatefulSet c sts) es = Some (Done (e, sts'))"
    and "sss_Replicas (sts_Spec sts) \<noteq> None" "sss_Replicas (sts_Spec sts') = None"
  shows "sawNoReplicas es"
proof -
  from assms(1) obtain x es' where x: "es = (ALookup KStatefulSet (stsKey sts), Found (map_option OStatefulSet x)) # es'"
    and br: "case x of
          None \<Rightarrow> es' = [(ARequest (Create c (OStatefulSet sts)), Replied e)] \<and> sts' = sts
        | Some s \<Rightarrow>
            if \<not> isManagedByOperator (om_Labels (sts_Meta s))
            then es' = [] \<and> e = Some (refusal ''*v1.StatefulSet'') \<and> sts' = sts
            else if templateDiff (sss_Template (sts_Spec sts)) (sss_Template (sts_Spec s)) = []
            then es' = [(ARequest (Update c (OStatefulSet (adoptStatefulSet s sts))), Replied e)]
              \<and> sts' = adoptStatefulSet s sts
            else feed (replaceStatefulSet c s sts) es' = Some (Done (e, sts'))"
    unfolding CreateOrUpdateStatefulSet_trace by blast
  have "feed (replaceStatefulSet c s sts) es' \<noteq> Some (Done (e, sts'))" for s
    using assms(2,3)
    by (auto simp: replaceStatefulSet_trace awaitAndRecreate_trace recreateStatefulSet_trace split: option.splits)
  with br assms(2,3) obtain s where "x = Some s" "sts' = adoptStatefulSet s sts"
    by (cases x) (auto split: if_splits)
  with x assms(3) show ?thesis by (auto simp: sawNoReplicas_def adoptStatefulSet_def)
qed

lemma statefulSetReconciler_fails:
  assumes "statefulSetReconciler n = Returns r" "fails (goroutine r) m es"
  shows "wait_failed m es \<or> m = Some ''nil pointer dereference'' \<and> sawNoReplicas es"
proof (cases "statefulSetShouldExist (Some n)")
  case False
  with assms show ?thesis
    by (auto simp: statefulSetReconciler_def DeleteStatefulSet_def unshared_fails elim!: goroutine_fails)
next
  case True
  with assms(1) obtain sts where sts: "CalculateStatefulSet n = Returns sts"
    "rc_reconcile r = Some (pbind (CreateOrUpdateStatefulSet (nb_Namespace n) sts) (\<lambda>(err, sts'). Done (err, Some sts')))"
    "rc_wait r = Some (\<lambda>shared. WaitForStatefulSet (case shared of None \<Rightarrow> sts | Some sts' \<Rightarrow> sts'))"
    by (auto simp: statefulSetReconciler_def obind_Returns_iff)
  from assms(2) sts(2) show ?thesis
  proof (cases rule: goroutine_fails)
    case 1
    then have "fails (CreateOrUpdateStatefulSet (nb_Namespace n) sts) m es" by (auto simp: fails_bind)
    then show ?thesis using CreateOrUpdateStatefulSet_fails by blast
  next
    case (2 es1 es2 err shared w)
    then obtain sts' where sts': "shared = Some sts'"
      "feed (CreateOrUpdateStatefulSet (nb_Namespace n) sts) es1 = Some (Done (err, sts'))"
      by (auto simp: feed_bind_Done)
    moreover from 2(3) sts(3) have "w = (\<lambda>shared. WaitForStatefulSet (case shared of None \<Rightarrow> sts | Some sts' \<Rightarrow> sts'))"
      by simp
    ultimately have "fails (WaitForStatefulSet sts') m es2" using 2(4) by simp
    from WaitForStatefulSet_fails [OF this] show ?thesis
    proof
      assume "wait_failed m es2"
      with 2(1) show ?thesis using wait_failed_append by blast
    next
      assume "m = Some ''nil pointer dereference'' \<and> sss_Replicas (sts_Spec sts') = None"
      with CreateOrUpdateStatefulSet_replicas [OF sts'(2)] CalculateStatefulSet_replicas [OF sts(1)] 2(1)
      show ?thesis by (auto simp: sawNoReplicas_def)
    qed
  qed
qed

text \<open>
  A reconcile panics while computing its resources, or one of its goroutines fails on its own share
  of the events.
\<close>

lemma reconcile_fails:
  assumes "fails (reconcileNotebookResources cr d cfg n) m es"
  shows "(\<exists>msg. reconcilers cr d cfg n = Panics msg \<and> m = Some msg)
    \<or> (\<exists>es1. subseq (acts es1) (acts es) \<and>
         (wait_failed m es1 \<or> m = Some ''nil pointer dereference'' \<and> sawNoReplicas es1))"
proof (cases "reconcilers cr d cfg n")
  case (Panics msg)
  with assms show ?thesis by (simp add: reconcileNotebookResources_def)
next
  case (Returns rs)
  with assms have "fails (parAll (map goroutine rs)) m es"
    by (auto simp: reconcileNotebookResources_def fails_bind simp del: parAll.simps split: option.splits)
  from parAll_fails [OF this] obtain r es1 where r: "r \<in> set rs" "fails (goroutine r) m es1"
    "subseq (acts es1) (acts es)" by auto
  with Returns serviceReconciler_no_fail secretReconciler_no_fail ingressReconciler_fails
    statefulSetReconciler_fails have "wait_failed m es1 \<or> m = Some ''nil pointer dereference'' \<and> sawNoReplicas es1"
    unfolding reconcilers_Returns by (auto; blast)
  with r(3) show ?thesis by blast
qed

end
