(* ===== verification/Notebook_Resources.thy ===== *)
theory Notebook_Resources imports Reconcilers begin

text \<open>
  What the reconcilers' definitions add up to: the computed resources fit together, computing them
  does not panic, a deleted notebook's resources are all asked to be deleted, and a reconcile that
  returns nil has written every resource of a live notebook.
\<close>

section \<open>The computed resources fit together\<close>

definition carries :: "Notebook \<Rightarrow> ObjectMeta \<Rightarrow> bool" where
  "carries n m \<longleftrightarrow> om_Name m = resourceName (nb_Name n) \<and> om_Namespace m = nb_Namespace n
     \<and> om_Labels m = Some (notebookLabels (nb_Name n)) \<and> GetControllerOf m = Some (AsOwner n)"

definition secretKeysOf :: "PodSpec \<Rightarrow> (string \<times> string) list" where
  "secretKeysOf ps =
     concat (map (\<lambda>v. case vol_Secret v of None \<Rightarrow> []
         | Some sv \<Rightarrow> map (\<lambda>it. (svol_SecretName sv, ktp_Key it))
             (case svol_Items sv of None \<Rightarrow> [] | Some its \<Rightarrow> its))
       (case ps_Volumes ps of None \<Rightarrow> [] | Some vs \<Rightarrow> vs))
     @ concat (map (\<lambda>c. concat (map (\<lambda>e. case ev_ValueFrom e of None \<Rightarrow> []
         | Some src \<Rightarrow> (case evs_SecretKeyRef src of None \<Rightarrow> [] | Some k \<Rightarrow> [(sks_Name k, sks_Key k)]))
       (case ct_Env c of None \<Rightarrow> [] | Some es \<Rightarrow> es)))
       (case ps_Containers ps of None \<Rightarrow> [] | Some cs \<Rightarrow> cs))"

lemma CalculateStatefulSet_Returns:
  "CalculateStatefulSet n = Returns sts \<Longrightarrow> \<exists>flavor sa. spec_Flavor (nb_Spec n) = Some flavor
     \<and> spec_ServiceAccountName (nb_Spec n) = Some sa"
  by (cases "spec_Flavor (nb_Spec n)"; cases "spec_ServiceAccountName (nb_Spec n)")
    (auto simp: CalculateStatefulSet_def)

lemma AsOwner_controller [simp]: "or_Controller (AsOwner n) = Some True"
  by (simp add: AsOwner_def)

lemma emptyMeta_owners [simp]: "om_OwnerReferences emptyMeta = []"
  by (simp add: emptyMeta_def)

lemma CalculateService_carries: "carries n (svc_Meta (CalculateService n))"
  by (simp add: carries_def CalculateService_def Let_def GetControllerOf_addOwnerRef)

lemma CalculateSecret_carries: "CalculateSecret cr d n ca key = Returns sec \<Longrightarrow> carries n (sec_Meta sec)"
  by (auto simp: carries_def CalculateSecret_def Let_def GetControllerOf_addOwnerRef obind_Returns_iff)

lemma CalculateStatefulSet_carries: "CalculateStatefulSet n = Returns sts \<Longrightarrow> carries n (sts_Meta sts)"
  by (auto simp: carries_def CalculateStatefulSet_def Let_def GetControllerOf_addOwnerRef obind_Returns_iff)

lemma CalculateIngress_carries: "CalculateIngress n = Returns ing \<Longrightarrow> carries n (ing_Meta ing)"
  by (auto simp: carries_def CalculateIngress_def Let_def GetControllerOf_addOwnerRef obind_Returns_iff
      split: if_splits)

text \<open>The secret's data: the password when there is one, a certificate and key when TLS is on.\<close>

lemma key_neq [simp]:
  "TLSCertKey \<noteq> TLSPrivateKeyKey" "TLSPrivateKeyKey \<noteq> TLSCertKey"
  "notebookPasswordKey \<noteq> TLSCertKey" "notebookPasswordKey \<noteq> TLSPrivateKeyKey"
  "TLSCertKey \<noteq> notebookPasswordKey" "TLSPrivateKeyKey \<noteq> notebookPasswordKey"
  by (simp_all add: TLSCertKey_def TLSPrivateKeyKey_def notebookPasswordKey_def)

definition altNamesOf :: "Notebook \<Rightarrow> AltNames" where
  "altNamesOf n = \<lparr> an_DNSNames = (case spec_Host (nb_Spec n) of
      None \<Rightarrow> [] | Some h \<Rightarrow> if h \<noteq> [] then [h] else []), an_IPs = [] \<rparr>"

lemma CalculateSecret_data:
  assumes "CalculateSecret cr d n ca key = Returns sec"
  shows "dataGet (sec_Data sec) notebookPasswordKey =
      (if hasPassword n then spec_Password (nb_Spec n) else None)"
    and "ShouldHaveCerts n \<Longrightarrow> \<exists>crt k. NewSignedCert cr d ca key (altNamesOf n) (nb_Name n) = Inr (crt, k)
      \<and> dataGet (sec_Data sec) TLSCertKey = Some (EncodeCertificatePEM cr crt)
      \<and> dataGet (sec_Data sec) TLSPrivateKeyKey = Some (EncodePrivateKeyPEM cr k)"
    and "\<not> ShouldHaveCerts n \<Longrightarrow> dataGet (sec_Data sec) TLSCertKey = None"
  using assms
  by (auto simp: CalculateSecret_def Let_def obind_Returns_iff dataGet_def hasPassword_def altNamesOf_def
      split: if_splits option.splits sum.splits)

lemma CalculateSecret_panics:
  "CalculateSecret cr d n ca key = Panics m \<longleftrightarrow>
     ShouldHaveCerts n \<and> (\<exists>err. NewSignedCert cr d ca key (altNamesOf n) (nb_Name n) = Inl err)
     \<and> m = ''failed to generate certificate''"
  by (auto simp: CalculateSecret_def Let_def altNamesOf_def split: sum.splits)

lemma secretKeys_StatefulSet:
  assumes "CalculateStatefulSet n = Returns sts"
  shows "secretKeysOf (pts_Spec (sss_Template (sts_Spec sts))) =
    (if ShouldHaveCerts n then [(resourceName (nb_Name n), TLSCertKey), (resourceName (nb_Name n), TLSPrivateKeyKey)] else [])
    @ (if hasPassword n then [(resourceName (nb_Name n), notebookPasswordKey)] else [])"
  using assms
  by (auto simp: CalculateStatefulSet_def Let_def obind_Returns_iff secretKeysOf_def tlsVolume_def passwordEnv_def)

text \<open>C18: The resources computed for one notebook fit together: each has the notebook's resource name,
  namespace and labels and is controlled by the notebook; the service selects the pods of the
  StatefulSet, which is governed by that service, and targets a port its container opens; every
  secret key the pods mount or read is a key the computed secret holds; and an ingress without a
  custom backend points at the service and its port.\<close>

theorem resources_wired:
  assumes "CalculateSecret cr d n ca key = Returns sec"
    and "CalculateStatefulSet n = Returns sts"
    and "CalculateIngress n = Returns ing"
  shows "carries n (svc_Meta (CalculateService n)) \<and> carries n (sec_Meta sec)
      \<and> carries n (sts_Meta sts) \<and> carries n (ing_Meta ing)
    \<and> (\<forall>l v. mget (svs_Selector (svc_Spec (CalculateService n))) l = Some v \<longrightarrow>
         mget (pts_Labels (sss_Template (sts_Spec sts))) l = Some v)
    \<and> sss_MatchLabels (sts_Spec sts) = pts_Labels (sss_Template (sts_Spec sts))
    \<and> sss_ServiceName (sts_Spec sts) = om_Name (svc_Meta (CalculateService n))
    \<and> (\<exists>c. ps_Containers (pts_Spec (sss_Template (sts_Spec sts))) = Some [c] \<and>
         map_option (map (\<lambda>p. (cp_Name p, cp_ContainerPort p, cp_Protocol p))) (ct_Ports c) =
         Some (map (\<lambda>p. (sp_Name p, sp_Port p, sp_Protocol p)) (svs_Ports (svc_Spec (CalculateService n)))))
    \<and> list_all (\<lambda>(nm, k). nm = om_Name (sec_Meta sec) \<and> dataGet (sec_Data sec) k \<noteq> None)
        (secretKeysOf (pts_Spec (sss_Template (sts_Spec sts))))
    \<and> (spec_Ingress (nb_Spec n) = None \<longrightarrow>
         list_all (\<lambda>r. map_option (map hip_Backend) (ir_HTTP r) =
           Some [\<lparr> ib_ServiceName = om_Name (svc_Meta (CalculateService n)),
                   ib_ServicePort = FromInt (sint (sp_Port (hd (svs_Ports (svc_Spec (CalculateService n)))))) \<rparr>])
           (is_Rules (ing_Spec ing)))"
    (is "?M1 \<and> ?M2 \<and> ?M3 \<and> ?M4 \<and> ?sel \<and> ?match \<and> ?gov \<and> ?port \<and> ?keys \<and> ?backend")
proof (intro conjI)
  note sts = assms(2) [unfolded CalculateStatefulSet_def Let_def obind_Returns_iff]
  show ?M1 ?M2 ?M3 ?M4
    using assms by (simp_all add: CalculateService_carries CalculateSecret_carries
        CalculateStatefulSet_carries CalculateIngress_carries)
  show ?sel ?match ?gov using sts by (auto simp: CalculateService_def Let_def)
  show ?port using sts
    by (auto simp: CalculateService_def Let_def ProtocolTCP_def)
  have nm: "om_Name (sec_Meta sec) = resourceName (nb_Name n)"
    using CalculateSecret_carries [OF assms(1)] by (simp add: carries_def)
  show ?keys
    using CalculateSecret_data [OF assms(1)] nm unfolding secretKeys_StatefulSet [OF assms(2)]
    by (auto simp: hasPassword_def split: option.splits)
  show ?backend
    using assms(3)
    by (auto simp: CalculateIngress_def Let_def obind_Returns_iff CalculateService_def notebookPort_def
        split: if_splits)
qed

section \<open>Computing the resources\<close>

lemma CalculateIngress_total: "spec_Host (nb_Spec n) \<noteq> None \<Longrightarrow> \<exists>ing. CalculateIngress n = Returns ing"
  by (auto simp: CalculateIngress_def Let_def split: prod.splits)

lemma CalculateStatefulSet_total:
  "spec_Flavor (nb_Spec n) \<noteq> None \<Longrightarrow> spec_ServiceAccountName (nb_Spec n) \<noteq> None \<Longrightarrow>
    \<exists>sts. CalculateStatefulSet n = Returns sts"
  by (auto simp: CalculateStatefulSet_def Let_def)

lemma obind_Panics: "obind p f = Panics m \<longleftrightarrow> p = Panics m \<or> (\<exists>x. p = Returns x \<and> f x = Panics m)"
  by (cases p) auto

lemma reconcilers_panic:
  assumes "defaulted (nb_Spec n) \<or> \<not> live n"
  shows "reconcilers cr d cfg n = Panics m \<longleftrightarrow>
     live n \<and> ShouldHaveCerts n \<and>
     (\<exists>err. NewSignedCert cr d (cfg_CACert cfg) (cfg_Key cfg) (altNamesOf n) (nb_Name n) = Inl err) \<and>
     m = ''failed to generate certificate''"
proof (cases "live n")
  case False
  then show ?thesis
    by (simp add: reconcilers_def serviceReconciler_def secretReconciler_def statefulSetReconciler_def
        ingressReconciler_def)
next
  case True
  with assms have spec: "spec_Flavor (nb_Spec n) \<noteq> None" "spec_Host (nb_Spec n) \<noteq> None"
    "spec_ServiceAccountName (nb_Spec n) \<noteq> None" by (auto simp: defaulted_def)
  have no1: "\<nexists>m. serviceReconciler n = Panics m" by (auto simp: serviceReconciler_def Let_def)
  have no3: "\<nexists>m. statefulSetReconciler n = Panics m"
    using CalculateStatefulSet_total [OF spec(1,3)] True by (auto simp: statefulSetReconciler_def Let_def)
  have no4: "\<nexists>m. ingressReconciler n = Panics m"
    using CalculateIngress_total [OF spec(2)] by (auto simp: ingressReconciler_def Let_def split: if_splits)
  have "secretReconciler cr d cfg n = Panics m \<longleftrightarrow>
      ShouldHaveCerts n \<and>
      (\<exists>err. NewSignedCert cr d (cfg_CACert cfg) (cfg_Key cfg) (altNamesOf n) (nb_Name n) = Inl err) \<and>
      m = ''failed to generate certificate''"
    using True by (auto simp: secretReconciler_def Let_def obind_Panics CalculateSecret_panics live_secret)
  moreover have "reconcilers cr d cfg n = Panics m \<longleftrightarrow> secretReconciler cr d cfg n = Panics m"
    using no1 no3 no4
    by (cases "serviceReconciler n"; cases "statefulSetReconciler n"; cases "ingressReconciler n")
      (auto simp: reconcilers_def obind_Panics)
  ultimately show ?thesis using True by simp
qed

text \<open>C21: Once SetDefaults has filled the spec, computing the four reconcilers of a notebook never
  dereferences a nil pointer: the only panic left is the deliberate one when a certificate is wanted
  and its generation fails. For a notebook being deleted nothing is computed at all.\<close>

theorem reconcilers_total:
  assumes "\<And>err. NewSignedCert cr d (cfg_CACert cfg) (cfg_Key cfg) (altNamesOf (snd (SetDefaults n))) (nb_Name n) \<noteq> Inl err"
  shows "(\<exists>rs. reconcilers cr d cfg (snd (SetDefaults n)) = Returns rs) \<and>
    (\<not> live n \<longrightarrow> (\<exists>rs. reconcilers cr d cfg n = Returns rs))"
proof (intro conjI impI)
  show "\<exists>rs. reconcilers cr d cfg (snd (SetDefaults n)) = Returns rs"
    using reconcilers_panic [of "snd (SetDefaults n)" cr d cfg] SetDefaults_defaulted [of n] assms
    by (cases "reconcilers cr d cfg (snd (SetDefaults n))") auto
  show "\<exists>rs. reconcilers cr d cfg n = Returns rs" if "\<not> live n"
    using reconcilers_panic [of n cr d cfg] that by (cases "reconcilers cr d cfg n") auto
qed

section \<open>Deletion\<close>

lemma goroutine_Delete:
  assumes "feed (goroutine \<lparr> rc_reconcile = Some (unshared (request req)), rc_resourceType = ty, rc_wait = None \<rparr>) es
    = Some (Done e)"
  shows "\<exists>a. es = [(ARequest req, Replied a)] \<and> (e = None \<longleftrightarrow> benign a)"
  by (rule goroutine_Done [OF assms]) (auto simp: unshared_Done split: if_splits)

lemma reconcile_deleted:
  assumes "\<not> live n" "feed (reconcileNotebookResources cr d cfg n) es = Some (Done res)"
  shows "\<exists>a b c d. mset (acts es) =
      {# (ARequest (Delete KService (nb_Namespace n) (resourceName (nb_Name n)) None), Replied a),
         (ARequest (Delete KSecret (nb_Namespace n) (resourceName (nb_Name n)) None), Replied b),
         (ARequest (Delete KStatefulSet (nb_Namespace n) (resourceName (nb_Name n)) None), Replied c),
         (ARequest (Delete KIngress (nb_Namespace n) (resourceName (nb_Name n)) None), Replied d) #}
    \<and> (res = None \<longleftrightarrow> benign a \<and> benign b \<and> benign c \<and> benign d)"
proof -
  from assms(2) obtain r1 r2 r3 r4 e1 e2 e3 e4 es1 es2 es3 es4 where
    r: "serviceReconciler n = Returns r1" "secretReconciler cr d cfg n = Returns r2"
      "statefulSetReconciler n = Returns r3" "ingressReconciler n = Returns r4" and
    g: "feed (goroutine r1) es1 = Some (Done e1)" "feed (goroutine r2) es2 = Some (Done e2)"
      "feed (goroutine r3) es3 = Some (Done e3)" "feed (goroutine r4) es4 = Some (Done e4)" and
    m: "mset (acts es) = mset (acts es1 @ acts es2 @ acts es3 @ acts es4)" and
    res: "res = None \<longleftrightarrow> e1 = None \<and> e2 = None \<and> e3 = None \<and> e4 = None"
    by (rule reconcile_Done) blast
  from r assms(1) have eqs:
    "r1 = \<lparr> rc_reconcile = Some (unshared (DeleteService (nb_Namespace n) n)),
            rc_resourceType = ''*v1.Service'', rc_wait = None \<rparr>"
    "r2 = \<lparr> rc_reconcile = Some (unshared (DeleteSecret (nb_Namespace n) n)),
            rc_resourceType = ''*v1.Secret'', rc_wait = None \<rparr>"
    "r3 = \<lparr> rc_reconcile = Some (unshared (DeleteStatefulSet (nb_Namespace n) n)),
            rc_resourceType = ''*v1.StatefulSet'', rc_wait = None \<rparr>"
    "r4 = \<lparr> rc_reconcile = Some (unshared (DeleteIngress (nb_Namespace n) n)),
            rc_resourceType = ''*v1beta1.Ingress'', rc_wait = None \<rparr>"
    by (simp_all add: serviceReconciler_def secretReconciler_def statefulSetReconciler_def
        ingressReconciler_def)
  from g [unfolded eqs DeleteService_def DeleteSecret_def DeleteStatefulSet_def DeleteIngress_def,
      THEN goroutine_Delete]
  obtain a b c d where "es1 = [(ARequest (Delete KService (nb_Namespace n) (resourceName (nb_Name n)) None), Replied a)]"
    "es2 = [(ARequest (Delete KSecret (nb_Namespace n) (resourceName (nb_Name n)) None), Replied b)]"
    "es3 = [(ARequest (Delete KStatefulSet (nb_Namespace n) (resourceName (nb_Name n)) None), Replied c)]"
    "es4 = [(ARequest (Delete KIngress (nb_Namespace n) (resourceName (nb_Name n)) None), Replied d)]"
    "e1 = None \<longleftrightarrow> benign a" "e2 = None \<longleftrightarrow> benign b" "e3 = None \<longleftrightarrow> benign c" "e4 = None \<longleftrightarrow> benign d"
    by auto
  with m res show ?thesis by (intro exI [of _ a] exI [of _ b] exI [of _ c] exI [of _ d]) simp
qed

section \<open>A reconcile that returns nil\<close>

text \<open>
  \<open>written es c wrap merge x x'\<close>: among the events the server took a create of \<open>x\<close>, or an update to \<open>x'\<close>
  made by merging \<open>x\<close> with a managed object.
\<close>

definition written ::
  "event list \<Rightarrow> string \<Rightarrow> ('r \<Rightarrow> object) \<Rightarrow> ('r \<Rightarrow> 'r \<Rightarrow> 'r) \<Rightarrow> 'r \<Rightarrow> 'r \<Rightarrow> bool" where
  "written es c wrap merge x x' \<longleftrightarrow> (\<exists>e. benign e \<and>
     (x' = x \<and> (ARequest (Create c (wrap x)), Replied e) \<in> set es \<or>
      (\<exists>s. isManagedByOperator (om_Labels (meta_of (wrap s))) \<and> x' = merge s x \<and>
           (ARequest (Update c (wrap x')), Replied e) \<in> set es)))"

definition deleted :: "event list \<Rightarrow> kind \<Rightarrow> string \<Rightarrow> string \<Rightarrow> bool" where
  "deleted es k c nm \<longleftrightarrow> (\<exists>e. benign e \<and> (ARequest (Delete k c nm None), Replied e) \<in> set es)"

lemma written_mono: "written es c wrap merge x x' \<Longrightarrow> subseq (acts es) (acts es') \<Longrightarrow> written es' c wrap merge x x'"
  unfolding written_def using did_mem [of es es'] by fastforce

lemma deleted_mono: "deleted es k c nm \<Longrightarrow> subseq (acts es) (acts es') \<Longrightarrow> deleted es' k c nm"
  unfolding deleted_def using did_mem [of es es'] by fastforce

lemma refusal_not_benign [simp]: "\<not> benign (Some (refusal ty))"
  by (simp add: benign_def refusal_def)

lemma wrapErr_not_benign [simp]: "\<not> benign (Some (wrapErr msg e))"
  by (simp add: benign_def)

lemma merging_written:
  assumes "merging_trace k wrap ty merge c x es e" "benign e"
  shows "\<exists>x'. written es c wrap merge x x'"
proof -
  from assms(1) obtain r es' where es: "es = (ALookup k (listerKey (om_Namespace (meta_of (wrap x)))
      (om_Name (meta_of (wrap x)))), Found (map_option wrap r)) # es'"
    and r: "case r of None \<Rightarrow> es' = [(ARequest (Create c (wrap x)), Replied e)]
        | Some s \<Rightarrow> if isManagedByOperator (om_Labels (meta_of (wrap s)))
                    then es' = [(ARequest (Update c (wrap (merge s x))), Replied e)]
                    else es' = [] \<and> e = Some (refusal ty)"
    unfolding merging_trace_def by blast
  show ?thesis
  proof (cases r)
    case None
    with es r assms(2) have "written es c wrap merge x x" by (auto simp: written_def)
    then show ?thesis ..
  next
    case (Some s)
    with es r assms(2) have "written es c wrap merge x (merge s x)"
      by (auto simp: written_def split: if_splits)
    then show ?thesis ..
  qed
qed

lemma goroutine_plain:
  assumes "feed (goroutine \<lparr> rc_reconcile = Some (unshared p), rc_resourceType = ty, rc_wait = None \<rparr>) es
    = Some (Done None)"
  shows "\<exists>e. feed p es = Some (Done e) \<and> benign e"
  by (rule goroutine_None [OF assms]) (auto simp: unshared_Done)

lemma statefulSet_written:
  assumes "feed (CreateOrUpdateStatefulSet c sts) es = Some (Done (e, sts'))" "benign e"
  shows "written es c OStatefulSet adoptStatefulSet sts sts'"
proof -
  from assms(1) obtain x es' where es: "es = (ALookup KStatefulSet (stsKey sts), Found (map_option OStatefulSet x)) # es'"
    and x: "case x of
          None \<Rightarrow> es' = [(ARequest (Create c (OStatefulSet sts)), Replied e)] \<and> sts' = sts
        | Some s \<Rightarrow>
            if \<not> isManagedByOperator (om_Labels (sts_Meta s))
            then es' = [] \<and> e = Some (refusal ''*v1.StatefulSet'') \<and> sts' = sts
            else if templateDiff (sss_Template (sts_Spec sts)) (sss_Template (sts_Spec s)) = []
            then es' = [(ARequest (Update c (OStatefulSet (adoptStatefulSet s sts))), Replied e)]
              \<and> sts' = adoptStatefulSet s sts
            else feed (replaceStatefulSet c s sts) es' = Some (Done (e, sts'))"
    unfolding CreateOrUpdateStatefulSet_trace by blast
  show ?thesis
  proof (cases x)
    case None
    with es x assms(2) show ?thesis by (auto simp: written_def)
  next
    case (Some s)
    show ?thesis
    proof (cases "isManagedByOperator (om_Labels (sts_Meta s))
        \<and> templateDiff (sss_Template (sts_Spec sts)) (sss_Template (sts_Spec s)) = []")
      case True
      with es x assms(2) Some show ?thesis by (auto simp: written_def)
    next
      case False
      with x Some assms(2) have "feed (replaceStatefulSet c s sts) es' = Some (Done (e, sts'))"
        by (auto split: if_splits)
      with assms(2) obtain es2 where "sts' = sts" "es' = es2 @ [(ARequest (Create c (OStatefulSet sts)), Replied e)]"
        by (auto simp: replaceStatefulSet_trace awaitAndRecreate_trace recreateStatefulSet_trace split: option.splits)
      with es assms(2) show ?thesis by (auto simp: written_def)
    qed
  qed
qed

text \<open>A wait that returned nil saw what it waited for, or lost a message.\<close>

definition sawReady :: "event list \<Rightarrow> StatefulSet \<Rightarrow> bool" where
  "sawReady es sts \<longleftrightarrow> (\<exists>s. (ALookup KStatefulSet (stsKey sts), Found (Some (OStatefulSet s))) \<in> set es
     \<and> sss_Replicas (sts_Spec sts) = Some (sts_ReadyReplicas s))"

definition sawTLSSecret :: "event list \<Rightarrow> Notebook \<Rightarrow> bool" where
  "sawTLSSecret es n \<longleftrightarrow>
     (\<exists>s. (ALookup KSecret (listerKey (nb_Namespace n) (tlsSecretName n)), Found (Some (OSecret s))) \<in> set es)"

lemma saw_mono:
  assumes "subseq (acts es) (acts es')"
  shows "sawReady es sts \<Longrightarrow> sawReady es' sts" "sawTLSSecret es n \<Longrightarrow> sawTLSSecret es' n"
    "\<not> delivered_all es \<Longrightarrow> \<not> delivered_all es'"
  unfolding sawReady_def sawTLSSecret_def delivered_all_def using did_mem [OF assms] by fastforce+

lemma WaitForStatefulSet_saw:
  "feed (WaitForStatefulSet sts) es = Some (Done None) \<Longrightarrow> sawReady es sts \<or> \<not> delivered_all es"
  by (auto dest!: WaitForStatefulSet_result simp: happened_def ready_Done sawReady_def split: option.splits if_splits)

lemma WaitForIngressTLSSecret_saw:
  "feed (WaitForIngressTLSSecret n) es = Some (Done None) \<Longrightarrow> sawTLSSecret es n \<or> \<not> delivered_all es"
  unfolding WaitForIngressTLSSecret_def
  by (drule waitLoop_result) (force simp: happened_def tlsSecretExists_Done sawTLSSecret_def split: option.splits)

lemma delivered_all_append [simp]: "delivered_all (es @ es') \<longleftrightarrow> delivered_all es \<and> delivered_all es'"
  by (simp add: delivered_all_def)

lemma saw_append:
  "sawReady es' sts \<Longrightarrow> sawReady (es @ es') sts" "sawTLSSecret es' n \<Longrightarrow> sawTLSSecret (es @ es') n"
  by (auto simp: sawReady_def sawTLSSecret_def)

lemma written_append: "written es c wrap merge x x' \<Longrightarrow> written (es @ es') c wrap merge x x'"
  unfolding written_def by auto

section \<open>One goroutine at a time\<close>

lemma service_goroutine:
  assumes "live n" "serviceReconciler n = Returns r" "feed (goroutine r) es = Some (Done None)"
  shows "\<exists>svc'. written es (nb_Namespace n) OService mergeService (CalculateService n) svc'"
proof -
  from assms have "r = \<lparr> rc_reconcile = Some (unshared (CreateOrUpdateService (nb_Namespace n) (CalculateService n))),
      rc_resourceType = ''*v1.Service'', rc_wait = None \<rparr>"
    by (simp add: serviceReconciler_def)
  with assms(3) goroutine_plain obtain e where
    "feed (CreateOrUpdateService (nb_Namespace n) (CalculateService n)) es = Some (Done e)" "benign e" by blast
  then show ?thesis unfolding CreateOrUpdateService_trace by (rule merging_written)
qed

lemma secret_goroutine:
  assumes "live n" "secretReconciler cr d cfg n = Returns r" "feed (goroutine r) es = Some (Done None)"
  shows "if hasPassword n \<or> ShouldHaveCerts n
    then \<exists>sec sec'. CalculateSecret cr d n (cfg_CACert cfg) (cfg_Key cfg) = Returns sec \<and>
      written es (nb_Namespace n) OSecret (mergeSecret cr (cfg_CACert cfg)) sec sec'
    else deleted es KSecret (nb_Namespace n) (resourceName (nb_Name n))"
proof (cases "hasPassword n \<or> ShouldHaveCerts n")
  case True
  with assms(1,2) obtain sec where sec: "CalculateSecret cr d n (cfg_CACert cfg) (cfg_Key cfg) = Returns sec"
    "r = \<lparr> rc_reconcile = Some (unshared (CreateOrUpdateSecret cr (cfg_CACert cfg) (nb_Namespace n) sec)),
      rc_resourceType = ''*v1.Secret'', rc_wait = None \<rparr>"
    by (auto simp: secretReconciler_def live_secret obind_Returns_iff)
  with assms(3) goroutine_plain obtain e where
    "feed (CreateOrUpdateSecret cr (cfg_CACert cfg) (nb_Namespace n) sec) es = Some (Done e)" "benign e" by blast
  then have "\<exists>sec'. written es (nb_Namespace n) OSecret (mergeSecret cr (cfg_CACert cfg)) sec sec'"
    unfolding CreateOrUpdateSecret_trace by (rule merging_written)
  with True sec(1) show ?thesis by auto
next
  case False
  with assms(1,2) have "r = \<lparr> rc_reconcile = Some (unshared (DeleteSecret (nb_Namespace n) n)),
      rc_resourceType = ''*v1.Secret'', rc_wait = None \<rparr>"
    by (simp add: secretReconciler_def live_secret)
  with assms(3) goroutine_plain obtain e where
    "feed (DeleteSecret (nb_Namespace n) n) es = Some (Done e)" "benign e" by blast
  with False show ?thesis by (auto simp: deleted_def DeleteSecret_def)
qed

lemma statefulSet_goroutine:
  assumes "live n" "statefulSetReconciler n = Returns r" "feed (goroutine r) es = Some (Done None)"
  shows "\<exists>sts sts'. CalculateStatefulSet n = Returns sts \<and>
    written es (nb_Namespace n) OStatefulSet adoptStatefulSet sts sts' \<and> (sawReady es sts' \<or> \<not> delivered_all es)"
proof -
  from assms(1,2) obtain sts where sts: "CalculateStatefulSet n = Returns sts"
    "r = \<lparr> rc_reconcile = Some (pbind (CreateOrUpdateStatefulSet (nb_Namespace n) sts) (\<lambda>(err, sts'). Done (err, Some sts'))),
           rc_resourceType = ''*v1.StatefulSet'',
           rc_wait = Some (\<lambda>shared. WaitForStatefulSet (case shared of None \<Rightarrow> sts | Some sts' \<Rightarrow> sts')) \<rparr>"
    by (auto simp: statefulSetReconciler_def obind_Returns_iff)
  from assms(3) obtain es1 es2 err shared where *: "es = es1 @ es2"
    "feed (pbind (CreateOrUpdateStatefulSet (nb_Namespace n) sts) (\<lambda>(err, sts'). Done (err, Some sts'))) es1
       = Some (Done (err, shared))"
    "benign err" "feed (WaitForStatefulSet (case shared of None \<Rightarrow> sts | Some sts' \<Rightarrow> sts')) es2 = Some (Done None)"
    by (rule goroutine_None [of r es]) (auto simp: sts(2))
  from *(2) obtain sts' where sts': "shared = Some sts'"
    "feed (CreateOrUpdateStatefulSet (nb_Namespace n) sts) es1 = Some (Done (err, sts'))"
    by (auto simp: feed_bind_Done)
  with *(4) have "feed (WaitForStatefulSet sts') es2 = Some (Done None)" by simp
  with sts' * statefulSet_written WaitForStatefulSet_saw saw_append(1) written_append sts(1)
  show ?thesis by (metis delivered_all_append)
qed

lemma ingress_goroutine:
  assumes "live n" "ingressReconciler n = Returns r" "feed (goroutine r) es = Some (Done None)"
  shows "if \<exists>h. spec_Host (nb_Spec n) = Some h \<and> h \<noteq> []
    then \<exists>ing ing'. CalculateIngress n = Returns ing \<and>
      written es (nb_Namespace n) OIngress mergeIngress ing ing' \<and>
      (spec_TLS (nb_Spec n) = Some NotebookTLSAcme \<longrightarrow> sawTLSSecret es n \<or> \<not> delivered_all es)
    else deleted es KIngress (nb_Namespace n) (resourceName (nb_Name n))"
proof (cases "\<exists>h. spec_Host (nb_Spec n) = Some h \<and> h \<noteq> []")
  case True
  then have should: "ingressShouldExist (Some n)" using live_ingress [OF assms(1)] by simp
  with assms(2) obtain ing where ing: "CalculateIngress n = Returns ing"
    "rc_reconcile r = Some (unshared (CreateOrUpdateIngress (nb_Namespace n) ing))"
    "rc_wait r = (if spec_TLS (nb_Spec n) = Some NotebookTLSAcme
       then Some (\<lambda>shared. WaitForIngressTLSSecret n) else None)"
    by (cases "spec_TLS (nb_Spec n)") (auto simp: ingressReconciler_def Let_def obind_Returns_iff split: if_splits)
  obtain es1 es2 err shared where g: "es = es1 @ es2"
    "feed (unshared (CreateOrUpdateIngress (nb_Namespace n) ing)) es1 = Some (Done (err, shared))"
    "benign err" "case rc_wait r of None \<Rightarrow> es2 = [] | Some w \<Rightarrow> feed (w shared) es2 = Some (Done None)"
    by (rule goroutine_None [OF assms(3) ing(2)])
  then have *: "es = es1 @ es2" "benign err"
    "feed (CreateOrUpdateIngress (nb_Namespace n) ing) es1 = Some (Done err)"
    "spec_TLS (nb_Spec n) = Some NotebookTLSAcme \<longrightarrow> feed (WaitForIngressTLSSecret n) es2 = Some (Done None)"
    by (auto simp: unshared_Done ing(3) split: if_splits)
  with merging_written [OF *(3) [unfolded CreateOrUpdateIngress_trace] *(2)]
  obtain ing' where "written es1 (nb_Namespace n) OIngress mergeIngress ing ing'" by blast
  with * ing(1) True WaitForIngressTLSSecret_saw [of n es2] saw_append(2) [of es2 n es1]
    written_append [of es1 _ OIngress mergeIngress ing ing' es2]
  show ?thesis by auto
next
  case False
  then have "\<not> ingressShouldExist (Some n)" using live_ingress [OF assms(1)] by simp
  with assms(2) have "r = \<lparr> rc_reconcile = Some (unshared (DeleteIngress (nb_Namespace n) n)),
      rc_resourceType = ''*v1beta1.Ingress'', rc_wait = None \<rparr>"
    by (simp add: ingressReconciler_def)
  with assms(3) goroutine_plain obtain e where
    "feed (DeleteIngress (nb_Namespace n) n) es = Some (Done e)" "benign e" by blast
  with False show ?thesis by (auto simp: deleted_def DeleteIngress_def)
qed

text \<open>What a successful reconcile of a live notebook has done.\<close>

definition reconciled :: "'k crypto \<Rightarrow> draw \<Rightarrow> 'k Config \<Rightarrow> Notebook \<Rightarrow> event list \<Rightarrow> bool" where
  "reconciled cr d cfg n es \<longleftrightarrow>
     (\<exists>svc'. written es (nb_Namespace n) OService mergeService (CalculateService n) svc')
    \<and> (if hasPassword n \<or> ShouldHaveCerts n
       then \<exists>sec sec'. CalculateSecret cr d n (cfg_CACert cfg) (cfg_Key cfg) = Returns sec \<and>
         written es (nb_Namespace n) OSecret (mergeSecret cr (cfg_CACert cfg)) sec sec'
       else deleted es KSecret (nb_Namespace n) (resourceName (nb_Name n)))
    \<and> (\<exists>sts sts'. CalculateStatefulSet n = Returns sts \<and>
         written es (nb_Namespace n) OStatefulSet adoptStatefulSet sts sts' \<and>
         (sawReady es sts' \<or> \<not> delivered_all es))
    \<and> (if \<exists>h. spec_Host (nb_Spec n) = Some h \<and> h \<noteq> []
       then \<exists>ing ing'. CalculateIngress n = Returns ing \<and>
         written es (nb_Namespace n) OIngress mergeIngress ing ing' \<and>
         (spec_TLS (nb_Spec n) = Some NotebookTLSAcme \<longrightarrow> sawTLSSecret es n \<or> \<not> delivered_all es)
       else deleted es KIngress (nb_Namespace n) (resourceName (nb_Name n)))"

lemma reconcile_writes:
  assumes "live n" "feed (reconcileNotebookResources cr d cfg n) es = Some (Done None)"
  shows "reconciled cr d cfg n es"
proof -
  from assms(2) obtain r1 r2 r3 r4 es1 es2 es3 es4 where
    r: "serviceReconciler n = Returns r1" "secretReconciler cr d cfg n = Returns r2"
      "statefulSetReconciler n = Returns r3" "ingressReconciler n = Returns r4" and
    g: "feed (goroutine r1) es1 = Some (Done None)" "feed (goroutine r2) es2 = Some (Done None)"
      "feed (goroutine r3) es3 = Some (Done None)" "feed (goroutine r4) es4 = Some (Done None)" and
    sub: "subseq (acts es1) (acts es)" "subseq (acts es2) (acts es)"
      "subseq (acts es3) (acts es)" "subseq (acts es4) (acts es)"
    by (rule reconcile_Done) auto
  show ?thesis
    unfolding reconciled_def
  proof (intro conjI)
    show "\<exists>svc'. written es (nb_Namespace n) OService mergeService (CalculateService n) svc'"
      using service_goroutine [OF assms(1) r(1) g(1)] by (blast intro: written_mono [OF _ sub(1)])
    show "if hasPassword n \<or> ShouldHaveCerts n
       then \<exists>sec sec'. CalculateSecret cr d n (cfg_CACert cfg) (cfg_Key cfg) = Returns sec \<and>
         written es (nb_Namespace n) OSecret (mergeSecret cr (cfg_CACert cfg)) sec sec'
       else deleted es KSecret (nb_Namespace n) (resourceName (nb_Name n))"
      using secret_goroutine [OF assms(1) r(2) g(2)]
      by (auto split: if_splits intro: written_mono [OF _ sub(2)] deleted_mono [OF _ sub(2)])
    show "\<exists>sts sts'. CalculateStatefulSet n = Returns sts \<and>
         written es (nb_Namespace n) OStatefulSet adoptStatefulSet sts sts' \<and>
         (sawReady es sts' \<or> \<not> delivered_all es)"
      using statefulSet_goroutine [OF assms(1) r(3) g(3)]
      by (metis written_mono [OF _ sub(3)] saw_mono(1,3) [OF sub(3)])
    show "if \<exists>h. spec_Host (nb_Spec n) = Some h \<and> h \<noteq> []
       then \<exists>ing ing'. CalculateIngress n = Returns ing \<and>
         written es (nb_Namespace n) OIngress mergeIngress ing ing' \<and>
         (spec_TLS (nb_Spec n) = Some NotebookTLSAcme \<longrightarrow> sawTLSSecret es n \<or> \<not> delivered_all es)
       else deleted es KIngress (nb_Namespace n) (resourceName (nb_Name n))"
      using ingress_goroutine [OF assms(1) r(4) g(4)]
      by (auto split: if_splits intro: written_mono [OF _ sub(4)] deleted_mono [OF _ sub(4)] saw_mono(2) [OF sub(4)]
          dest: saw_mono(3) [OF sub(4)])
  qed
qed

lemma reconciled_mono:
  assumes "reconciled cr d cfg n es" "subseq (acts es) (acts es')"
  shows "reconciled cr d cfg n es'"
  using assms(1) unfolding reconciled_def
  by (auto split: if_splits intro: written_mono [OF _ assms(2)] deleted_mono [OF _ assms(2)]
      saw_mono(1,2) [OF assms(2)] dest: saw_mono(3) [OF assms(2)])


end
