(* ===== verification/Certificates.thy ===== *)
theory Certificates imports Notebook_Resources begin

text \<open>
  The certificates of the notebooks: what the operator's CA looks like, and which certificate a
  notebook's Secret holds after a pass. Both rest on what Go's crypto libraries promise
  (\<open>crypto_laws\<close>, \<open>signs\<close> in \<open>Tls\<close>).
\<close>

section \<open>What a secret serves\<close>

text \<open>The certificate a reader of the secret's data finds under \<open>tls.crt\<close>.\<close>

definition servedCert :: "'k crypto \<Rightarrow> Secret \<Rightarrow> go_error + Certificate" where
  "servedCert cr s =
     ParsePEMEncodedCACert cr (case dataGet (sec_Data s) TLSCertKey of None \<Rightarrow> [] | Some b \<Rightarrow> b)"

lemma keepsCert_served:
  assumes "keepsCert cr ca s"
  shows "\<exists>cert. servedCert cr s = Inr cert \<and> x509_CheckSignatureFrom cr cert ca = None"
  using assms by (auto simp: keepsCert_def servedCert_def dataGet_def split: option.splits sum.splits)

lemma mergeSecret_data: "sec_Data (mergeSecret cr ca s sec) = sec_Data (keepCertificate cr ca s sec)"
  by (simp add: mergeSecret_def)

lemma computed_cert:
  assumes "CalculateSecret cr d n ca key = Returns sec" "ShouldHaveCerts n" "crypto_laws cr" "signs cr ca key"
  shows "\<exists>crt. servedCert cr sec = Inr crt \<and> x509_CheckSignatureFrom cr crt ca = None
    \<and> crt_DNSNames crt = an_DNSNames (altNamesOf n) \<and> crt_CommonName crt = nb_Name n"
proof -
  from CalculateSecret_data(2) [OF assms(1,2)] obtain crt k where
    *: "NewSignedCert cr d ca key (altNamesOf n) (nb_Name n) = Inr (crt, k)"
      "dataGet (sec_Data sec) TLSCertKey = Some (EncodeCertificatePEM cr crt)" by blast
  from NewSignedCert_parses [OF assms(3) *(1)] *(2) have "servedCert cr sec = Inr crt"
    by (simp add: servedCert_def)
  with NewSignedCert_signed [OF assms(4) *(1)] NewSignedCert_names(1,2) [OF assms(3) *(1)] show ?thesis by blast
qed

section \<open>Properties\<close>


text \<open>
  The operator's CA. \<open>NewCACert\<close> yields a certificate that parses back from its PEM file, is a CA
  able to sign certificates, is valid from now for ten years, and carries the operator's
  organization; what \<open>NewSignedCert\<close> signs with it is no CA itself, is valid for a year from when it
  is signed and starts with the CA's validity.
\<close>

theorem ca_certificate:
  assumes "crypto_laws cr" "NewCACert cr d = Inr (ca, key)"
    and "NewSignedCert cr d' ca key altNames cn = Inr (cert, k)"
  shows "ParsePEMEncodedCACert cr (EncodeCertificatePEM cr ca) = Inr ca
    \<and> crt_IsCA ca \<and> KeyUsageCertSign \<in> set (crt_KeyUsage ca) \<and> crt_Organization ca = [organization]
    \<and> crt_NotBefore ca = dr_now d \<and> crt_NotAfter ca = dr_now d + 10 * Duration365d
    \<and> ParsePEMEncodedCACert cr (EncodeCertificatePEM cr cert) = Inr cert
    \<and> \<not> crt_IsCA cert \<and> KeyUsageCertSign \<notin> set (crt_KeyUsage cert)
    \<and> crt_DNSNames cert = an_DNSNames altNames
    \<and> crt_NotBefore cert = dr_now d \<and> crt_NotAfter cert = dr_now d' + Duration365d"
proof -
  from assms(2) obtain tmpl der where der: "x509_CreateCertificate cr (dr_sign d) tmpl tmpl key key = Inr der"
      "x509_ParseCertificate cr der = Inr ca"
    and t: "crt_IsCA tmpl" "KeyUsageCertSign \<in> set (crt_KeyUsage tmpl)" "crt_Organization tmpl = [organization]"
      "crt_NotBefore tmpl = dr_now d" "crt_NotAfter tmpl = dr_now d + 10 * Duration365d"
    by (auto simp: NewCACert_def NewSelfSignedCACertificate_def Let_def split: sum.splits)
  with assms(1) have ca: "ca = tmpl\<lparr>crt_Raw := der\<rparr>" by (auto simp: crypto_laws_def)
  have pem: "ParsePEMEncodedCACert cr (EncodeCertificatePEM cr ca) = Inr ca"
    using assms(1) der ca by (simp add: ParsePEMEncodedCACert_def EncodeCertificatePEM_def crypto_laws_def)
  note names = NewSignedCert_names [OF assms(1,3)]
  have "KeyUsageCertSign \<notin> set (crt_KeyUsage cert) \<and> crt_NotAfter cert = dr_now d' + Duration365d"
    using assms(1,3)
    by (auto simp: NewSignedCert_def NewSignedCertificate_def crypto_laws_def emptyCertificate_def Let_def
        split: sum.splits)
  with pem names ca t NewSignedCert_parses [OF assms(1,3)] show ?thesis by simp
qed

end
