(* ===== verification/Sync.thy ===== *)
theory Sync imports Notebook_Resources begin

text \<open>
  \<open>Controller.sync\<close> of \<open>pkg/controller/controller.go\<close> and \<open>setNotebookPhase\<close> of \<open>handlers.go\<close>: one pass
  over one notebook key. \<open>sync\<close> works on a deep copy of the cached notebook, so the copy is a value
  here; the time of \<open>metav1.Now\<close> comes with the draw.
\<close>

section \<open>The code\<close>

definition setNotebookPhase :: "Notebook \<Rightarrow> string \<Rightarrow> (go_error option \<times> Notebook) proc" where
  "setNotebookPhase n phase =
     (if nb_Phase n = phase then Done (None, n)
      else
        let n1 = n\<lparr>nb_Status := (nb_Status n)\<lparr>st_Phase := phase\<rparr>\<rparr>
        in pbind (request (UpdateStatus (nb_Namespace n) (ONotebook n1))) (\<lambda>err. Done (err, n1)))"

text \<open>The notebook \<open>sync\<close> makes up for a key whose notebook is gone.\<close>

definition goneNotebook :: "draw \<Rightarrow> string \<Rightarrow> string \<Rightarrow> Notebook" where
  "goneNotebook d namespace name =
     newNotebook\<lparr>nb_Meta := emptyMeta\<lparr>om_Name := name, om_Namespace := namespace,
       om_DeletionTimestamp := Some (nat (dr_now d))\<rparr>\<rparr>"

definition setKind :: "Notebook \<Rightarrow> Notebook" where
  "setKind n =
     (if nb_Kind n = []
      then n\<lparr>nb_TypeMeta := \<lparr> tm_Kind = NotebookKind, tm_APIVersion = GroupVersion_String SchemeGroupVersion \<rparr>\<rparr>
      else n)"

definition startPhase :: "Notebook \<Rightarrow> (go_error option \<times> Notebook) proc" where
  "startPhase n =
     (if nb_Phase n \<noteq> NotebookPhaseRunning \<and> nb_Phase n \<noteq> NotebookPhaseFailed
      then setNotebookPhase n NotebookPhasePending else Done (None, n))"

definition finishPhase :: "Notebook \<Rightarrow> go_error option \<Rightarrow> go_error option proc" where
  "finishPhase n err =
     (case err of
        Some e \<Rightarrow> pbind (setNotebookPhase n NotebookPhaseFailed) (\<lambda>_. Done (Some e))
      | None \<Rightarrow> pbind (setNotebookPhase n NotebookPhaseRunning) (\<lambda>_. Done None))"

definition syncResources :: "'k crypto \<Rightarrow> draw \<Rightarrow> 'k Config \<Rightarrow> Notebook \<Rightarrow> go_error option proc" where
  "syncResources cr d cfg n =
     pbind (startPhase n) (\<lambda>(phaseErr, n1).
       pbind (reconcileNotebookResources cr d cfg n1) (finishPhase n1))"

definition updateDefaults :: "string \<Rightarrow> Notebook \<Rightarrow> go_error option proc" where
  "updateDefaults key n =
     pbind (request (Update (nb_Namespace n) (ONotebook n))) (\<lambda>err.
       Done (map_option (wrapErr (''failed to set defaults for '' @ key)) err))"

definition syncNotebook ::
  "'k crypto \<Rightarrow> draw \<Rightarrow> 'k Config \<Rightarrow> string \<Rightarrow> Notebook \<Rightarrow> go_error option proc" where
  "syncNotebook cr d cfg key notebook =
     (case Validate notebook of
        Some err \<Rightarrow> pbind (setNotebookPhase notebook NotebookPhaseFailed) (\<lambda>_. Done (Some err))
      | None \<Rightarrow>
          let n1 = snd (SetDefaults notebook);
              n2 = setKind n1
          in if specDiff (nb_Spec n2) (nb_Spec notebook) \<noteq> [] then updateDefaults key n2
             else syncResources cr d cfg n2)"

definition sync :: "'k crypto \<Rightarrow> draw \<Rightarrow> 'k Config \<Rightarrow> string \<Rightarrow> go_error option proc" where
  "sync cr d cfg key =
     (case SplitMetaNamespaceKey key of
        Inl err \<Rightarrow> Done (Some err)
      | Inr (namespace, name) \<Rightarrow>
          pbind (NotebookLister_Get namespace name)
            (\<lambda>res. case res of
               Inl err \<Rightarrow>
                 if IsNotFound (Some err)
                 then reconcileNotebookResources cr d cfg (goneNotebook d namespace name)
                 else Done (Some err)
             | Inr notebook \<Rightarrow> syncNotebook cr d cfg key notebook))"

section \<open>Branches\<close>

lemma setKind_frame [simp]:
  "nb_Meta (setKind n) = nb_Meta n" "nb_Spec (setKind n) = nb_Spec n" "nb_Status (setKind n) = nb_Status n"
  by (simp_all add: setKind_def)

lemma setNotebookPhase_Done:
  "feed (setNotebookPhase n phase) es = Some (Done (e, n')) \<longleftrightarrow>
     (if nb_Phase n = phase then es = [] \<and> e = None \<and> n' = n
      else n' = n\<lparr>nb_Status := (nb_Status n)\<lparr>st_Phase := phase\<rparr>\<rparr> \<and>
        es = [(ARequest (UpdateStatus (nb_Namespace n) (ONotebook n')), Replied e)])"
  by (auto simp: setNotebookPhase_def Let_def feed_steps)

lemma setNotebookPhase_fails: "\<not> fails (setNotebookPhase n phase) m es"
  by (auto simp: setNotebookPhase_def Let_def fails_bind request_def fails_Act)

lemma specDiff_SetDefaults:
  "specDiff (nb_Spec (snd (SetDefaults n))) (nb_Spec n) = [] \<longleftrightarrow> defaulted (nb_Spec n)"
proof
  assume "specDiff (nb_Spec (snd (SetDefaults n))) (nb_Spec n) = []"
  then have "nb_Spec (snd (SetDefaults n)) = nb_Spec n" by (simp only: specDiff_nil)
  then show "defaulted (nb_Spec n)" using SetDefaults_defaulted [of n] by simp
next
  assume "defaulted (nb_Spec n)"
  then show "specDiff (nb_Spec (snd (SetDefaults n))) (nb_Spec n) = []"
    by (simp add: SetDefaults_id specDiff_nil)
qed

lemma syncNotebook_branches:
  "syncNotebook cr d cfg key n =
     (case Validate n of
        Some err \<Rightarrow> pbind (setNotebookPhase n NotebookPhaseFailed) (\<lambda>_. Done (Some err))
      | None \<Rightarrow>
          if defaulted (nb_Spec n) then syncResources cr d cfg (setKind n)
          else updateDefaults key (setKind (snd (SetDefaults n))))"
proof (cases "defaulted (nb_Spec n)")
  case True
  then show ?thesis by (simp add: syncNotebook_def SetDefaults_id specDiff_nil split: option.split)
next
  case False
  then show ?thesis by (simp add: syncNotebook_def specDiff_SetDefaults split: option.split)
qed

lemma updateDefaults_Done:
  "feed (updateDefaults key n) es = Some (Done res) \<longleftrightarrow>
     (\<exists>e. es = [(ARequest (Update (nb_Namespace n) (ONotebook n)), Replied e)] \<and>
        res = map_option (wrapErr (''failed to set defaults for '' @ key)) e)"
  unfolding updateDefaults_def feed_steps by auto

lemma sync_Done:
  assumes "SplitMetaNamespaceKey key = Inr (ns, nm)"
  shows "feed (sync cr d cfg key) es = Some (Done res) \<longleftrightarrow>
    (\<exists>x es'. es = (ALookup KNotebook (listerKey ns nm), Found (map_option ONotebook x)) # es' \<and>
       feed (case x of
          None \<Rightarrow> reconcileNotebookResources cr d cfg (goneNotebook d ns nm)
        | Some n \<Rightarrow> syncNotebook cr d cfg key n) es' = Some (Done res))"
  unfolding sync_def assms sum.case prod.case NotebookLister_Get_def feed_Get_bind [OF lister_types(5)]
  by (auto simp: get_result_def split: option.splits)

text \<open>The parts of a pass over a valid, defaulted notebook.\<close>

lemma startPhase_Done:
  "feed (startPhase n) es = Some (Done (e, n1)) \<longleftrightarrow>
     (if nb_Phase n \<noteq> NotebookPhaseRunning \<and> nb_Phase n \<noteq> NotebookPhaseFailed
      then feed (setNotebookPhase n NotebookPhasePending) es = Some (Done (e, n1))
      else es = [] \<and> e = None \<and> n1 = n)"
  by (auto simp: startPhase_def)

lemma finishPhase_Done:
  "feed (finishPhase n err) es = Some (Done res) \<longleftrightarrow> res = err \<and>
     (\<exists>e n'. feed (setNotebookPhase n (if err = None then NotebookPhaseRunning else NotebookPhaseFailed)) es
        = Some (Done (e, n')))"
  by (cases err) (auto simp: finishPhase_def feed_bind_Done)

lemma syncResources_Done:
  "feed (syncResources cr d cfg n) es = Some (Done res) \<longleftrightarrow>
     (\<exists>es1 es2 es3 e1 n1. es = es1 @ es2 @ es3 \<and> feed (startPhase n) es1 = Some (Done (e1, n1)) \<and>
        feed (reconcileNotebookResources cr d cfg n1) es2 = Some (Done res) \<and>
        feed (finishPhase n1 res) es3 = Some (Done res))"
  (is "?L \<longleftrightarrow> ?R")
proof
  assume ?L
  then obtain es1 es' x where 1: "es = es1 @ es'" "feed (startPhase n) es1 = Some (Done x)"
    "feed (case x of (phaseErr, n1) \<Rightarrow> pbind (reconcileNotebookResources cr d cfg n1) (finishPhase n1)) es' = Some (Done res)"
    unfolding syncResources_def feed_bind_Done by blast
  then obtain es2 es3 err where "es' = es2 @ es3"
    "feed (reconcileNotebookResources cr d cfg (snd x)) es2 = Some (Done err)"
    "feed (finishPhase (snd x) err) es3 = Some (Done res)"
    by (cases x) (auto simp: feed_bind_Done)
  moreover from this have "res = err" by (simp add: finishPhase_Done)
  ultimately show ?R
    using 1 by (intro exI [of _ es1] exI [of _ es2] exI [of _ es3] exI [of _ "fst x"] exI [of _ "snd x"]) simp
next
  assume ?R
  then obtain es1 es2 es3 e1 n1 where 1: "es = es1 @ es2 @ es3" "feed (startPhase n) es1 = Some (Done (e1, n1))"
    "feed (reconcileNotebookResources cr d cfg n1) es2 = Some (Done res)"
    "feed (finishPhase n1 res) es3 = Some (Done res)" by blast
  then have "feed (case (e1, n1) of (phaseErr, n1) \<Rightarrow> pbind (reconcileNotebookResources cr d cfg n1) (finishPhase n1))
      (es2 @ es3) = Some (Done res)"
    unfolding prod.case feed_bind_Done by blast
  with 1 show ?L unfolding syncResources_def feed_bind_Done by blast
qed

section \<open>What a pass writes\<close>

lemma setNotebookPhase_owned: "guarded owned_writes (setNotebookPhase n phase) h"
  by (simp add: setNotebookPhase_def Let_def request_def)

lemma startPhase_owned: "guarded owned_writes (startPhase n) h"
  by (simp add: startPhase_def setNotebookPhase_owned)

lemma finishPhase_owned: "guarded owned_writes (finishPhase n err) h"
  by (cases err) (auto simp: finishPhase_def setNotebookPhase_owned intro!: guarded_bind [OF stable_owned_writes])

lemma updateDefaults_owned: "guarded owned_writes (updateDefaults key n) h"
  by (simp add: updateDefaults_def request_def)

lemma syncResources_owned: "guarded owned_writes (syncResources cr d cfg n) h"
  unfolding syncResources_def
proof (rule guarded_bind [OF stable_owned_writes startPhase_owned])
  show "guarded owned_writes (case x of (phaseErr, n1) \<Rightarrow> pbind (reconcileNotebookResources cr d cfg n1) (finishPhase n1)) []" for x
    by (cases x) (simp add: guarded_bind [OF stable_owned_writes reconcile_owned finishPhase_owned])
qed

lemma syncNotebook_owned: "guarded owned_writes (syncNotebook cr d cfg key n) h"
  unfolding syncNotebook_branches
  by (auto simp: updateDefaults_owned syncResources_owned setNotebookPhase_owned
      intro!: guarded_bind [OF stable_owned_writes] split: option.splits)


text \<open>C13: Whenever a key's notebook is not in the cache, sync asks for the deletion of the four resources
  the name stands for and for nothing else, and forgets the key (returns nil) only when each delete
  succeeded or found nothing.\<close>

theorem sync_gone:
  assumes "slashFree (ns, nm)"
    and "feed (sync cr d cfg (metaKey (ns, nm))) ((a, Found None) # es) = Some (Done res)"
  shows "\<exists>e1 e2 e3 e4. mset (acts es) =
      {# (ARequest (Delete KService ns (resourceName nm) None), Replied e1),
         (ARequest (Delete KSecret ns (resourceName nm) None), Replied e2),
         (ARequest (Delete KStatefulSet ns (resourceName nm) None), Replied e3),
         (ARequest (Delete KIngress ns (resourceName nm) None), Replied e4) #}
    \<and> (res = None \<longleftrightarrow> benign e1 \<and> benign e2 \<and> benign e3 \<and> benign e4)"
proof -
  from meta_codec.dec_enc [OF assms(1)] assms(2)
  have "feed (reconcileNotebookResources cr d cfg (goneNotebook d ns nm)) es = Some (Done res)"
    by (auto simp: sync_Done)
  from reconcile_deleted [OF _ this] show ?thesis
    by (simp add: live_def goneNotebook_def newNotebook_def)
qed

text \<open>The pass over a key whose notebook is cached.\<close>

lemma sync_found:
  assumes "slashFree (ns, nm)"
    and "feed (sync cr d cfg (metaKey (ns, nm))) ((a, Found (Some (ONotebook n))) # es) = Some (Done res)"
  shows "feed (syncNotebook cr d cfg (metaKey (ns, nm)) n) es = Some (Done res)"
proof -
  from assms(2) obtain x where "Some (ONotebook n) = map_option ONotebook x"
    "feed (case x of None \<Rightarrow> reconcileNotebookResources cr d cfg (goneNotebook d ns nm)
        | Some n \<Rightarrow> syncNotebook cr d cfg (metaKey (ns, nm)) n) es = Some (Done res)"
    by (auto simp: sync_Done [OF meta_codec.dec_enc [OF assms(1)]])
  then show ?thesis by (cases x) auto
qed

definition withPhase :: "Notebook \<Rightarrow> string \<Rightarrow> Notebook" where
  "withPhase n phase = n\<lparr>nb_Status := (nb_Status n)\<lparr>st_Phase := phase\<rparr>\<rparr>"

text \<open>C14: A pass over a cached notebook that Validate rejects returns Validate's error and touches no
  resource: it sends nothing at all if the notebook is already marked Failed, and otherwise the one
  status update that marks it so.\<close>

theorem sync_invalid:
  assumes "slashFree (ns, nm)" "Validate n = Some err"
    and "feed (sync cr d cfg (metaKey (ns, nm))) ((a, Found (Some (ONotebook n))) # es) = Some (Done res)"
  shows "res = Some err \<and>
    (if nb_Phase n = NotebookPhaseFailed then es = []
     else \<exists>e. es = [(ARequest (UpdateStatus (nb_Namespace n) (ONotebook (withPhase n NotebookPhaseFailed))), Replied e)])"
  using sync_found [OF assms(1,3)]
  by (auto simp: syncNotebook_branches assms(2) feed_bind_Done setNotebookPhase_Done withPhase_def split: if_splits)

text \<open>C15: A pass over a valid cached notebook with an unset field stores the notebook with exactly the
  defaults filled in (and its kind set) in one update, touches no resource, and reports the
  update's error.\<close>

theorem sync_defaults:
  assumes "slashFree (ns, nm)" "Validate n = None" "\<not> defaulted (nb_Spec n)"
    and "feed (sync cr d cfg (metaKey (ns, nm))) ((a, Found (Some (ONotebook n))) # es) = Some (Done res)"
  shows "\<exists>e n'. es = [(ARequest (Update (nb_Namespace n) (ONotebook n')), Replied e)]
    \<and> nb_Meta n' = nb_Meta n \<and> nb_Status n' = nb_Status n \<and> nb_Spec n' = snd (default_spec (nb_Spec n))
    \<and> defaulted (nb_Spec n') \<and> nb_Kind n' \<noteq> []
    \<and> (res = None \<longleftrightarrow> e = None)"
proof -
  from sync_found [OF assms(1,4)] obtain e where
    "es = [(ARequest (Update (nb_Namespace n) (ONotebook (setKind (snd (SetDefaults n))))), Replied e)]"
    "res = None \<longleftrightarrow> e = None"
    by (auto simp: syncNotebook_branches assms(2,3) updateDefaults_Done)
  moreover have "nb_Kind (setKind (snd (SetDefaults n))) \<noteq> []"
    by (auto simp: setKind_def NotebookKind_def)
  ultimately show ?thesis
    using SetDefaults_defaulted [of n]
    by (intro exI [of _ e] exI [of _ "setKind (snd (SetDefaults n))"]) (simp add: SetDefaults_spec)
qed

lemma withPhase_simps [simp]:
  "nb_Meta (withPhase n p) = nb_Meta n" "nb_Spec (withPhase n p) = nb_Spec n" "nb_Phase (withPhase n p) = p"
  "nb_TypeMeta (withPhase n p) = nb_TypeMeta n" "withPhase (withPhase n p) q = withPhase n q"
  by (simp_all add: withPhase_def)

lemma withPhase_id [simp]: "nb_Phase n = p \<Longrightarrow> withPhase n p = n"
  by (cases n) (auto simp: withPhase_def)

lemma startPhase_trace:
  assumes "feed (startPhase n) es = Some (Done (e, n1))"
  shows "n1 = withPhase n (if nb_Phase n = NotebookPhaseRunning \<or> nb_Phase n = NotebookPhaseFailed
      then nb_Phase n else NotebookPhasePending)"
  using assms by (auto simp: startPhase_Done setNotebookPhase_Done withPhase_def [symmetric] split: if_splits)

text \<open>C5: A pass over a valid, fully defaulted notebook reconciles its resources exactly once, between
  two status writes: before, a notebook that is neither Running nor Failed is marked Pending; after,
  it is marked Running if the reconcile returned nil and Failed otherwise (no write where the phase
  is already right). The pass returns the reconcile's result, whatever the status writes return.\<close>

theorem sync_reconciles:
  assumes "slashFree (ns, nm)" "Validate n = None" "defaulted (nb_Spec n)"
    and "feed (sync cr d cfg (metaKey (ns, nm))) ((a, Found (Some (ONotebook n))) # es) = Some (Done res)"
  shows "\<exists>es1 es2 es3 e1 e3 n1 n3. es = es1 @ es2 @ es3
    \<and> n1 = withPhase (setKind n) (if nb_Phase n = NotebookPhaseRunning \<or> nb_Phase n = NotebookPhaseFailed
        then nb_Phase n else NotebookPhasePending)
    \<and> es1 = (if nb_Phase n1 = nb_Phase n then []
        else [(ARequest (UpdateStatus (nb_Namespace n) (ONotebook n1)), Replied e1)])
    \<and> feed (reconcileNotebookResources cr d cfg n1) es2 = Some (Done res)
    \<and> n3 = withPhase n1 (if res = None then NotebookPhaseRunning else NotebookPhaseFailed)
    \<and> es3 = (if nb_Phase n3 = nb_Phase n1 then []
        else [(ARequest (UpdateStatus (nb_Namespace n) (ONotebook n3)), Replied e3)])"
proof -
  let ?p = "if nb_Phase n = NotebookPhaseRunning \<or> nb_Phase n = NotebookPhaseFailed
    then nb_Phase n else NotebookPhasePending"
  from sync_found [OF assms(1,4)] have "feed (syncResources cr d cfg (setKind n)) es = Some (Done res)"
    by (simp add: syncNotebook_branches assms(2,3))
  then obtain es1 es2 es3 e1 n1 where *: "es = es1 @ es2 @ es3"
    "feed (startPhase (setKind n)) es1 = Some (Done (e1, n1))"
    "feed (reconcileNotebookResources cr d cfg n1) es2 = Some (Done res)"
    "feed (finishPhase n1 res) es3 = Some (Done res)"
    unfolding syncResources_Done by blast
  have n1: "n1 = withPhase (setKind n) ?p" using startPhase_trace [OF *(2)] by simp
  have es1: "es1 = (if nb_Phase n1 = nb_Phase n then []
      else [(ARequest (UpdateStatus (nb_Namespace n) (ONotebook n1)), Replied e1)])"
    using *(2) by (auto simp: startPhase_Done setNotebookPhase_Done withPhase_def split: if_splits)
  from *(4) obtain e3 n3 where
    "feed (setNotebookPhase n1 (if res = None then NotebookPhaseRunning else NotebookPhaseFailed)) es3 = Some (Done (e3, n3))"
    by (auto simp: finishPhase_Done)
  then have "n3 = withPhase n1 (if res = None then NotebookPhaseRunning else NotebookPhaseFailed)"
    "es3 = (if nb_Phase n3 = nb_Phase n1 then []
        else [(ARequest (UpdateStatus (nb_Namespace n) (ONotebook n3)), Replied e3)])"
    by (auto simp: setNotebookPhase_Done withPhase_def [symmetric] n1 split: if_splits)
  with * n1 es1 show ?thesis by blast
qed

text \<open>A pass that reports no error has found a valid notebook, and reconciled it if it was complete.\<close>

lemma sync_success:
  assumes "slashFree (ns, nm)"
    and "feed (sync cr d cfg (metaKey (ns, nm))) ((a, Found (Some (ONotebook n))) # es) = Some (Done None)"
  shows "Validate n = None"
    and "defaulted (nb_Spec n) \<Longrightarrow> \<exists>n1 es1 es2 es3. es = es1 @ es2 @ es3
      \<and> nb_Meta n1 = nb_Meta n \<and> nb_Spec n1 = nb_Spec n
      \<and> feed (reconcileNotebookResources cr d cfg n1) es2 = Some (Done None)"
proof -
  note pass = sync_found [OF assms]
  show valid: "Validate n = None"
    using pass by (cases "Validate n") (auto simp: syncNotebook_branches feed_bind_Done)
  assume "defaulted (nb_Spec n)"
  with pass valid have "feed (syncResources cr d cfg (setKind n)) es = Some (Done None)"
    by (simp add: syncNotebook_branches)
  then obtain es1 es2 es3 e1 n1 where *: "es = es1 @ es2 @ es3"
    "feed (startPhase (setKind n)) es1 = Some (Done (e1, n1))"
    "feed (reconcileNotebookResources cr d cfg n1) es2 = Some (Done None)"
    unfolding syncResources_Done by blast
  from startPhase_trace [OF *(2)] have "nb_Meta n1 = nb_Meta n" "nb_Spec n1 = nb_Spec n" by simp_all
  with * show "\<exists>n1 es1 es2 es3. es = es1 @ es2 @ es3
      \<and> nb_Meta n1 = nb_Meta n \<and> nb_Spec n1 = nb_Spec n
      \<and> feed (reconcileNotebookResources cr d cfg n1) es2 = Some (Done None)" by blast
qed

section \<open>The notebook without a host\<close>

definition hostErr :: go_error where
  "hostErr = PlainError ''host is required and must be a valid DNS-1123 subdomain''"

lemma hostless_invalid:
  fixes n n' :: Notebook
  assumes "spec_Host (nb_Spec n) = None" "nb_Spec n' = snd (default_spec (nb_Spec n))"
  shows "Validate n' = Some hostErr"
proof -
  have "Validate n' = Validate (snd (SetDefaults n))"
    unfolding Validate_def SetDefaults_spec assms(2) ..
  then show ?thesis using hostless_defaults_invalid [OF assms(1)] by (simp add: hostErr_def)
qed

text \<open>C26: A notebook created without a host, which the API documents as allowed, is never served. The
  first pass stores its defaults, among them an empty host; every pass that sees what was stored
  fails validation of that host, asks for no resource and leaves the notebook Failed.\<close>

theorem hostless_never_served:
  assumes "slashFree (ns, nm)" "Validate n = None" "spec_Host (nb_Spec n) = None"
    and "feed (sync cr d cfg (metaKey (ns, nm))) ((a, Found (Some (ONotebook n))) # es) = Some (Done res)"
    and "es = [(ARequest (Update c (ONotebook stored)), Replied None)]" "nb_Spec seen = nb_Spec stored"
    and "feed (sync cr' d' cfg' (metaKey (ns, nm))) ((a', Found (Some (ONotebook seen))) # es') = Some (Done res')"
  shows "res' = Some hostErr \<and> set es' \<subseteq>
    {(ARequest (UpdateStatus (nb_Namespace seen) (ONotebook (withPhase seen NotebookPhaseFailed))), Replied e) | e. True}"
proof -
  have "\<not> defaulted (nb_Spec n)" using assms(3) by (simp add: defaulted_def)
  from sync_found [OF assms(1,4)] this assms(5)
  have "nb_Spec stored = snd (default_spec (nb_Spec n))"
    by (auto simp: syncNotebook_branches assms(2) updateDefaults_Done SetDefaults_spec)
  with assms(3,6) have "Validate seen = Some hostErr" by (intro hostless_invalid [of n]) simp_all
  with sync_found [OF assms(1,7)] show ?thesis
    by (auto simp: syncNotebook_branches feed_bind_Done setNotebookPhase_Done withPhase_def split: if_splits)
qed

section \<open>How a pass can fail to return\<close>

lemma updateDefaults_no_fail [simp]: "\<not> fails (updateDefaults key n) m es"
  by (simp add: updateDefaults_def fails_bind)

lemma startPhase_no_fail [simp]: "\<not> fails (startPhase n) m es"
  by (simp add: startPhase_def setNotebookPhase_fails)

lemma finishPhase_no_fail [simp]: "\<not> fails (finishPhase n err) m es"
  by (cases err) (simp_all add: finishPhase_def fails_bind setNotebookPhase_fails)

definition failsAt :: "'k crypto \<Rightarrow> draw \<Rightarrow> 'k Config \<Rightarrow> string option \<Rightarrow> event list \<Rightarrow> bool" where
  "failsAt cr d cfg m es \<longleftrightarrow>
     m = Some ''failed to generate certificate'' \<and>
       (\<exists>names cn err. NewSignedCert cr d (cfg_CACert cfg) (cfg_Key cfg) names cn = Inl err)
     \<or> (\<exists>es1. subseq (acts es1) (acts es) \<and>
         (wait_failed m es1 \<or> m = Some ''nil pointer dereference'' \<and> sawNoReplicas es1))"

lemma failsAt_context: "failsAt cr d cfg m es \<Longrightarrow> failsAt cr d cfg m (es' @ es)"
proof -
  have "subseq (acts es1) (acts es) \<Longrightarrow> subseq (acts es1) (acts (es' @ es))" for es1
    by (simp add: list_emb_append2)
  then show "failsAt cr d cfg m es \<Longrightarrow> failsAt cr d cfg m (es' @ es)"
    unfolding failsAt_def by blast
qed

lemma reconcile_failsAt:
  assumes "fails (reconcileNotebookResources cr d cfg n) m es" "defaulted (nb_Spec n) \<or> \<not> live n"
  shows "failsAt cr d cfg m es"
  using reconcile_fails [OF assms(1)]
proof (elim disjE exE conjE)
  fix msg
  assume "reconcilers cr d cfg n = Panics msg" "m = Some msg"
  with reconcilers_panic [OF assms(2), of cr d cfg msg] show ?thesis by (auto simp: failsAt_def)
next
  fix es1
  assume "subseq (acts es1) (acts es)" "wait_failed m es1"
  then show ?thesis unfolding failsAt_def by blast
next
  fix es1
  assume "subseq (acts es1) (acts es)" "m = Some ''nil pointer dereference''" "sawNoReplicas es1"
  then show ?thesis unfolding failsAt_def by blast
qed

text \<open>C16: A pass panics or spins only in four ways: generating a wanted certificate failed; a wait's
  close of its done channel met the timer's; two minutes of a wait's pauses passed without its timer
  closing the channel; or the cache held a StatefulSet without a replica count. On every other
  behaviour of the API server and of the scheduler it returns.\<close>

theorem sync_fails_only:
  assumes "fails (sync cr d cfg key) m es"
  shows "failsAt cr d cfg m es"
proof (cases "SplitMetaNamespaceKey key")
  case (Inl err)
  with assms show ?thesis by (simp add: sync_def)
next
  case (Inr p)
  obtain ns nm where p: "p = (ns, nm)" by (cases p)
  from assms Inr p obtain x es' where x: "es = [(ALookup KNotebook (listerKey ns nm), Found (map_option ONotebook x))] @ es'"
    "fails (case get_result KNotebook nm x of
               Inl err \<Rightarrow> if IsNotFound (Some err) then reconcileNotebookResources cr d cfg (goneNotebook d ns nm)
                 else Done (Some err)
             | Inr notebook \<Rightarrow> syncNotebook cr d cfg key notebook) m es'"
    by (auto simp: sync_def NotebookLister_Get_def fails_Get_bind [OF lister_types(5)])
  have "failsAt cr d cfg m es'"
  proof (cases x)
    case None
    with x(2) have "fails (reconcileNotebookResources cr d cfg (goneNotebook d ns nm)) m es'"
      by (simp add: get_result_def)
    then show ?thesis by (rule reconcile_failsAt) (simp add: live_def goneNotebook_def)
  next
    case (Some n)
    with x(2) have "fails (syncNotebook cr d cfg key n) m es'" by (simp add: get_result_def)
    then have def: "defaulted (nb_Spec n)" and "fails (syncResources cr d cfg (setKind n)) m es'"
      by (auto simp: syncNotebook_branches fails_bind setNotebookPhase_fails split: option.splits if_splits)
    then obtain es1 es2 e1 n1 where es: "es' = es1 @ es2" "feed (startPhase (setKind n)) es1 = Some (Done (e1, n1))"
      "fails (reconcileNotebookResources cr d cfg n1) m es2"
      unfolding syncResources_def by (auto simp: fails_bind split: prod.splits)
    from startPhase_trace [OF es(2)] def have "defaulted (nb_Spec n1)" by simp
    with es reconcile_failsAt failsAt_context show ?thesis by blast
  qed
  with x(1) show ?thesis using failsAt_context by blast
qed

end
