(* ===== verification/Handlers.thy ===== *)
theory Handlers imports Sync begin

text \<open>
  The informers' event handlers (\<open>pkg/controller/handlers.go\<close>) with \<open>enqueue\<close>, \<open>resolveOwnerRef\<close> and
  \<open>addHandlers\<close> of \<open>controller.go\<close>. An informer hands a handler an \<open>interface{}\<close>: a pointer to an API
  object, the tombstone of an object whose deletion it missed, or anything else.
\<close>

section \<open>Interface values\<close>

datatype iface =
    IObject object
  | ITombstone string "object option"
  | IOther string

text \<open>The assertions \<open>obj.(*Notebook)\<close> and \<open>obj.(metav1.Object)\<close>.\<close>

fun asNotebookPtr :: "iface \<Rightarrow> Notebook option" where
  "asNotebookPtr (IObject x) = as_Notebook x"
| "asNotebookPtr (ITombstone key x) = None"
| "asNotebookPtr (IOther what) = None"

fun asMetaObject :: "iface \<Rightarrow> ObjectMeta option" where
  "asMetaObject (IObject x) = Some (meta_of x)"
| "asMetaObject (ITombstone key x) = None"
| "asMetaObject (IOther what) = None"

text \<open>\<open>cache.DeletionHandlingMetaNamespaceKeyFunc\<close>.\<close>

fun DeletionHandlingMetaNamespaceKeyFunc :: "iface \<Rightarrow> go_error + string" where
  "DeletionHandlingMetaNamespaceKeyFunc (ITombstone key x) = Inr key"
| "DeletionHandlingMetaNamespaceKeyFunc (IObject x) = Inr (MetaNamespaceKey (meta_of x))"
| "DeletionHandlingMetaNamespaceKeyFunc (IOther what) =
     Inl (PlainError (''object has no meta: '' @ what))"

section \<open>Enqueueing\<close>

definition enqueue :: "Notebook \<Rightarrow> unit proc" where
  "enqueue n =
     (case DeletionHandlingMetaNamespaceKeyFunc (IObject (ONotebook n)) of
        Inl err \<Rightarrow> Done ()
      | Inr key \<Rightarrow> enqueueKey key)"

definition resolveOwnerRef :: "string \<Rightarrow> OwnerReference option \<Rightarrow> Notebook option proc" where
  "resolveOwnerRef namespace ref =
     (case ref of
        None \<Rightarrow> Done None
      | Some r \<Rightarrow>
          if or_Kind r \<noteq> NotebookKind then Done None
          else
            pbind (NotebookLister_Get namespace (or_Name r))
              (\<lambda>res. case res of
                 Inl err \<Rightarrow> Done None
               | Inr n \<Rightarrow> if om_UID (nb_Meta n) \<noteq> or_UID r then Done None else Done (Some n)))"

section \<open>Notebook events\<close>

definition onAddNotebook :: "iface \<Rightarrow> unit proc" where
  "onAddNotebook obj =
     (case asNotebookPtr obj of
        None \<Rightarrow> Done ()
      | Some n \<Rightarrow> enqueue n)"

definition onUpdateNotebook :: "iface \<Rightarrow> iface \<Rightarrow> unit proc" where
  "onUpdateNotebook old cur =
     (case asNotebookPtr old of
        None \<Rightarrow> Done ()
      | Some oldN \<Rightarrow>
          (case asNotebookPtr cur of
             None \<Rightarrow> Done ()
           | Some curN \<Rightarrow> enqueue curN))"

definition onDeleteNotebook :: "iface \<Rightarrow> unit proc" where
  "onDeleteNotebook obj =
     (case asNotebookPtr obj of
        None \<Rightarrow> Done ()
      | Some n \<Rightarrow> enqueue n)"

section \<open>Events of the managed objects\<close>

definition onDeleteObject :: "iface \<Rightarrow> unit proc" where
  "onDeleteObject obj =
     (case asMetaObject obj of
        None \<Rightarrow> Done ()
      | Some o1 \<Rightarrow>
          (case GetControllerOf o1 of
             None \<Rightarrow> Done ()
           | Some ownerRef \<Rightarrow>
               pbind (resolveOwnerRef (om_Namespace o1) (Some ownerRef))
                 (\<lambda>n. case n of None \<Rightarrow> Done () | Some nb \<Rightarrow> enqueue nb)))"

definition onAddObject :: "iface \<Rightarrow> unit proc" where
  "onAddObject obj =
     (case asMetaObject obj of
        None \<Rightarrow> Done ()
      | Some o1 \<Rightarrow>
          if om_DeletionTimestamp o1 \<noteq> None then onDeleteObject obj
          else
            (case GetControllerOf o1 of
               None \<Rightarrow> Done ()
             | Some ownerRef \<Rightarrow>
                 pbind (resolveOwnerRef (om_Namespace o1) (Some ownerRef))
                   (\<lambda>n. case n of None \<Rightarrow> Done () | Some nb \<Rightarrow> enqueue nb)))"

definition onUpdateObject :: "iface \<Rightarrow> iface \<Rightarrow> unit proc" where
  "onUpdateObject old cur =
     (case asMetaObject old of
        None \<Rightarrow> Done ()
      | Some oldO \<Rightarrow>
          (case asMetaObject cur of
             None \<Rightarrow> Done ()
           | Some curO \<Rightarrow>
               if om_ResourceVersion oldO = om_ResourceVersion curO then Done ()
               else
                 let oldOwnerRef = GetControllerOf oldO;
                     curOwnerRef = GetControllerOf curO;
                     ownerRefChanged = (oldOwnerRef \<noteq> curOwnerRef)
                 in pbind (if ownerRefChanged \<and> oldOwnerRef \<noteq> None
                           then pbind (resolveOwnerRef (om_Namespace oldO) oldOwnerRef)
                             (\<lambda>n. case n of None \<Rightarrow> Done () | Some nb \<Rightarrow> enqueue nb)
                           else Done ()) (\<lambda>_.
                    pbind (resolveOwnerRef (om_Namespace curO) curOwnerRef)
                      (\<lambda>n. case n of None \<Rightarrow> Done () | Some nb \<Rightarrow> enqueue nb))))"

text \<open>
  \<open>addHandlers\<close>: the notebook informer gets the notebook handlers, every other informer the object
  handlers; an informer's notification runs the handler of its kind.
\<close>

datatype notification = Added iface | Updated iface iface | Deleted iface

record eventHandler =
  eh_AddFunc :: "iface \<Rightarrow> unit proc"
  eh_UpdateFunc :: "iface \<Rightarrow> iface \<Rightarrow> unit proc"
  eh_DeleteFunc :: "iface \<Rightarrow> unit proc"

definition addHandlers :: "kind \<Rightarrow> eventHandler" where
  "addHandlers it =
     (if it = KNotebook
      then \<lparr> eh_AddFunc = onAddNotebook, eh_UpdateFunc = onUpdateNotebook, eh_DeleteFunc = onDeleteNotebook \<rparr>
      else \<lparr> eh_AddFunc = onAddObject, eh_UpdateFunc = onUpdateObject, eh_DeleteFunc = onDeleteObject \<rparr>)"

fun notify :: "kind \<Rightarrow> notification \<Rightarrow> unit proc" where
  "notify it (Added obj) = eh_AddFunc (addHandlers it) obj"
| "notify it (Updated old cur) = eh_UpdateFunc (addHandlers it) old cur"
| "notify it (Deleted obj) = eh_DeleteFunc (addHandlers it) obj"

section \<open>What the handlers do\<close>

lemma enqueue_eq: "enqueue n = enqueueKey (MetaNamespaceKey (nb_Meta n))"
  by (simp add: enqueue_def)

definition enqueueOwner :: "string \<Rightarrow> OwnerReference option \<Rightarrow> unit proc" where
  "enqueueOwner ns ref =
     pbind (resolveOwnerRef ns ref) (\<lambda>n. case n of None \<Rightarrow> Done () | Some nb \<Rightarrow> enqueue nb)"

lemma enqueueOwner_None [simp]: "enqueueOwner ns None = Done ()"
  by (simp add: enqueueOwner_def resolveOwnerRef_def)

lemma enqueueOwner_Done:
  "feed (enqueueOwner ns (Some r)) es = Some (Done u) \<longleftrightarrow>
     (if or_Kind r \<noteq> NotebookKind then es = []
      else \<exists>x. es = (ALookup KNotebook (listerKey ns (or_Name r)), Found (map_option ONotebook x)) #
        (case x of
           None \<Rightarrow> []
         | Some n \<Rightarrow> if om_UID (nb_Meta n) = or_UID r then [(AEnqueue (MetaNamespaceKey (nb_Meta n)), Ack)] else []))"
proof (cases "or_Kind r = NotebookKind")
  case True
  have "feed (enqueueOwner ns (Some r)) es = Some (Done u) \<longleftrightarrow>
     (\<exists>x es'. es = (ALookup KNotebook (listerKey ns (or_Name r)), Found (map_option ONotebook x)) # es' \<and>
        feed (case x of None \<Rightarrow> Done () | Some n \<Rightarrow>
          if om_UID (nb_Meta n) = or_UID r then enqueue n else Done ()) es' = Some (Done u))"
    unfolding enqueueOwner_def resolveOwnerRef_def using True
    by (auto simp: pbind_assoc NotebookLister_Get_def feed_Get_bind [OF lister_types(5)] get_result_def
        split: option.splits)
  with True show ?thesis
    by (auto simp: enqueue_eq split: option.splits if_splits)
qed (simp add: enqueueOwner_def resolveOwnerRef_def)

lemma onDeleteObject_eq:
  "onDeleteObject obj = (case asMetaObject obj of None \<Rightarrow> Done () | Some m \<Rightarrow> enqueueOwner (om_Namespace m) (GetControllerOf m))"
  by (auto simp: onDeleteObject_def enqueueOwner_def [symmetric] split: option.splits)

lemma onAddObject_eq: "onAddObject obj = onDeleteObject obj"
  by (auto simp: onAddObject_def onDeleteObject_def split: option.splits)

lemma onUpdateObject_eq:
  "onUpdateObject (IObject old) (IObject cur) =
     (if om_ResourceVersion (meta_of old) = om_ResourceVersion (meta_of cur) then Done ()
      else pbind (if GetControllerOf (meta_of old) \<noteq> GetControllerOf (meta_of cur)
                  then enqueueOwner (om_Namespace (meta_of old)) (GetControllerOf (meta_of old)) else Done ())
        (\<lambda>_. enqueueOwner (om_Namespace (meta_of cur)) (GetControllerOf (meta_of cur))))"
  by (cases "GetControllerOf (meta_of old)") (auto simp: onUpdateObject_def enqueueOwner_def [symmetric])

text \<open>The notifications that concern an object: its addition, its deletion, and a real update of it.\<close>

definition concerns :: "object \<Rightarrow> notification \<Rightarrow> bool" where
  "concerns x ev \<longleftrightarrow> ev = Added (IObject x) \<or> ev = Deleted (IObject x)
     \<or> (\<exists>old. ev = Updated (IObject old) (IObject x)
          \<and> om_ResourceVersion (meta_of old) \<noteq> om_ResourceVersion (meta_of x)
          \<and> GetControllerOf (meta_of old) = GetControllerOf (meta_of x))"

lemma notify_concerns:
  assumes "concerns x ev" "it \<noteq> KNotebook"
  shows "notify it ev = enqueueOwner (om_Namespace (meta_of x)) (GetControllerOf (meta_of x))"
  using assms by (auto simp: concerns_def addHandlers_def onAddObject_eq onDeleteObject_eq onUpdateObject_eq)

text \<open>C22: A change to a resource leads back to its notebook: when a resource that carries a notebook's
  name and owner reference is added, deleted or really updated, and the cache still holds that
  notebook, the handler adds exactly one key to the queue, and that key is read back by sync as the
  notebook's namespace and name.\<close>

theorem resource_event_resyncs_owner:
  assumes "carries n (meta_of x)" "nb_Kind n = NotebookKind" "slashFree (nb_Namespace n, nb_Name n)"
    and "concerns x ev" "it \<noteq> KNotebook"
    and "om_UID (nb_Meta m) = om_UID (nb_Meta n)" "nb_Namespace m = nb_Namespace n" "nb_Name m = nb_Name n"
    and "feed (notify it ev) ((a, Found (Some (ONotebook m))) # es) = Some (Done u)"
  shows "a = ALookup KNotebook (listerKey (nb_Namespace n) (nb_Name n))
    \<and> (\<exists>key. es = [(AEnqueue key, Ack)] \<and> SplitMetaNamespaceKey key = Inr (nb_Namespace n, nb_Name n))"
proof -
  let ?r = "AsOwner n"
  have r: "or_Kind ?r = NotebookKind" "or_Name ?r = nb_Name n" "or_UID ?r = om_UID (nb_Meta n)"
    using assms(2) by (simp_all add: AsOwner_def)
  have "feed (enqueueOwner (nb_Namespace n) (Some ?r)) ((a, Found (Some (ONotebook m))) # es) = Some (Done u)"
    using assms(1,9) by (simp add: notify_concerns [OF assms(4,5)] carries_def)
  then obtain y where y: "a = ALookup KNotebook (listerKey (nb_Namespace n) (nb_Name n))"
    "Some (ONotebook m) = map_option ONotebook y"
    "es = (case y of None \<Rightarrow> []
         | Some n' \<Rightarrow> if om_UID (nb_Meta n') = or_UID ?r then [(AEnqueue (MetaNamespaceKey (nb_Meta n')), Ack)] else [])"
    by (auto simp: enqueueOwner_Done r(1,2))
  then have "y = Some m" by (cases y) auto
  with y r(3) assms(6) have "es = [(AEnqueue (MetaNamespaceKey (nb_Meta m)), Ack)]"
    "a = ALookup KNotebook (listerKey (nb_Namespace n) (nb_Name n))" by simp_all
  moreover have "SplitMetaNamespaceKey (MetaNamespaceKey (nb_Meta m)) = Inr (nb_Namespace n, nb_Name n)"
    using SplitMetaNamespaceKey_roundtrip [of "nb_Meta m"] assms(3,7,8) by (simp add: slashFree_def)
  ultimately show ?thesis by blast
qed

fun metasOf :: "notification \<Rightarrow> ObjectMeta list" where
  "metasOf (Added obj) = (case asMetaObject obj of None \<Rightarrow> [] | Some m \<Rightarrow> [m])"
| "metasOf (Deleted obj) = (case asMetaObject obj of None \<Rightarrow> [] | Some m \<Rightarrow> [m])"
| "metasOf (Updated old cur) =
     (case asMetaObject old of None \<Rightarrow> [] | Some m \<Rightarrow> [m]) @ (case asMetaObject cur of None \<Rightarrow> [] | Some m \<Rightarrow> [m])"

fun owner_found :: "ObjectMeta set \<Rightarrow> event list \<Rightarrow> action \<Rightarrow> bool" where
  "owner_found ms h (AEnqueue key) \<longleftrightarrow>
     (\<exists>m\<in>ms. \<exists>ref n. GetControllerOf m = Some ref \<and> or_Kind ref = NotebookKind \<and> om_UID (nb_Meta n) = or_UID ref \<and>
        (ALookup KNotebook (listerKey (om_Namespace m) (or_Name ref)), Found (Some (ONotebook n))) \<in> set h \<and>
        key = MetaNamespaceKey (nb_Meta n))"
| "owner_found ms h (ARequest req) \<longleftrightarrow> False"
| "owner_found ms h a \<longleftrightarrow> True"

lemma stable_owner_found: "stable (owner_found ms)"
  unfolding stable_def
proof (intro allI impI)
  fix h h' a
  assume "set h \<subseteq> set h'" "owner_found ms h a"
  then show "owner_found ms h' a" by (cases a) (simp_all, blast)
qed

lemma guarded_enqueueOwner:
  assumes "m \<in> ms"
  shows "guarded (owner_found ms) (enqueueOwner (om_Namespace m) (GetControllerOf m)) []"
proof (cases "GetControllerOf m")
  case (Some ref)
  show ?thesis
  proof (cases "or_Kind ref = NotebookKind")
    case True
    have "enqueueOwner (om_Namespace m) (Some ref) =
      pbind (NotebookLister_Get (om_Namespace m) (or_Name ref)) (\<lambda>res. pbind (case res of
                 Inl err \<Rightarrow> Done None
               | Inr n \<Rightarrow> if om_UID (nb_Meta n) \<noteq> or_UID ref then Done None else Done (Some n))
        (\<lambda>n. case n of None \<Rightarrow> Done () | Some nb \<Rightarrow> enqueue nb))"
      using True by (simp add: enqueueOwner_def resolveOwnerRef_def pbind_assoc)
    then show ?thesis
      unfolding Some NotebookLister_Get_def
    proof (elim ssubst, intro guarded_Get_bind [OF lister_types(5)])
      fix x
      show "guarded (owner_found ms) (pbind (case get_result KNotebook (or_Name ref) x of
                 Inl err \<Rightarrow> Done None
               | Inr n \<Rightarrow> if om_UID (nb_Meta n) \<noteq> or_UID ref then Done None else Done (Some n))
        (\<lambda>n. case n of None \<Rightarrow> Done () | Some nb \<Rightarrow> enqueue nb))
          ([] @ [(ALookup KNotebook (listerKey (om_Namespace m) (or_Name ref)), Found (map_option ONotebook x))])"
        using assms Some True
        by (cases x) (auto simp: get_result_def enqueue_eq enqueueKey_def)
    qed simp
  qed (simp add: enqueueOwner_def resolveOwnerRef_def Some)
qed simp

text \<open>C23: The handlers of the managed kinds never send a request, and they add a key to the queue only
  if it is the key of a cached notebook that the event's object names as its controller by kind,
  namespace, name and UID: events of foreign objects, of objects controlled by something else, and
  of a deleted notebook's successor with the same name enqueue nothing.\<close>

theorem object_events_enqueue_owners_only:
  assumes "it \<noteq> KNotebook"
  shows "guarded (owner_found (set (metasOf ev))) (notify it ev) []"
proof (cases ev)
  case (Added obj)
  then show ?thesis
    using assms by (cases "asMetaObject obj")
      (auto simp: addHandlers_def onAddObject_eq onDeleteObject_eq guarded_enqueueOwner)
next
  case (Deleted obj)
  then show ?thesis
    using assms by (cases "asMetaObject obj") (auto simp: addHandlers_def onDeleteObject_eq guarded_enqueueOwner)
next
  case (Updated old cur)
  show ?thesis
  proof (cases "\<exists>x y. old = IObject x \<and> cur = IObject y")
    case True
    then obtain x y where "old = IObject x" "cur = IObject y" by blast
    with Updated assms guarded_enqueueOwner [of "meta_of x" "set (metasOf ev)"]
      guarded_enqueueOwner [of "meta_of y" "set (metasOf ev)"]
    show ?thesis
      by (auto simp: addHandlers_def onUpdateObject_eq intro!: guarded_bind [OF stable_owner_found])
  next
    case False
    with Updated assms show ?thesis
      by (cases old; cases cur) (auto simp: addHandlers_def onUpdateObject_def)
  qed
qed

text \<open>
  A deletion the informer missed arrives as a tombstone, which carries the key; every handler drops
  it, though the key function \<open>enqueue\<close> uses would have read it.
\<close>

lemma tombstones_dropped:
  "notify it (Deleted (ITombstone key x)) = Done ()
   \<and> DeletionHandlingMetaNamespaceKeyFunc (ITombstone key x) = Inr key"
  by (simp add: addHandlers_def onDeleteNotebook_def onDeleteObject_def)

end
