(* ===== verification/Workqueue.thy ===== *)
theory Workqueue imports Prelude begin

text \<open>
  The vendored \<open>client-go/util/workqueue\<close>: the deduplicating queue, the delaying queue around it and
  the rate limiters, as the controller composes them. Every operation holds the queue's lock, so
  each is one step. A blocked \<open>Get\<close> is \<^const>\<open>None\<close>: it can be tried again after another operation.
  Times and delays are nanoseconds; the token bucket of \<open>golang.org/x/time/rate\<close> contributes a delay
  that is an argument here.
\<close>

section \<open>The work queue\<close>

record wq =
  wq_queue :: "string list"
  wq_dirty :: "string set"
  wq_processing :: "string set"
  wq_shuttingDown :: bool

definition New :: wq where
  "New = \<lparr> wq_queue = [], wq_dirty = {}, wq_processing = {}, wq_shuttingDown = False \<rparr>"

definition Add :: "string \<Rightarrow> wq \<Rightarrow> wq" where
  "Add item q =
     (if wq_shuttingDown q then q
      else if item \<in> wq_dirty q then q
      else
        let q1 = q\<lparr>wq_dirty := insert item (wq_dirty q)\<rparr>
        in if item \<in> wq_processing q1 then q1
           else q1\<lparr>wq_queue := wq_queue q1 @ [item]\<rparr>)"

datatype got = Item string | Quit

definition Get :: "wq \<Rightarrow> (got \<times> wq) option" where
  "Get q =
     (case wq_queue q of
        [] \<Rightarrow> if wq_shuttingDown q then Some (Quit, q) else None
      | item # rest \<Rightarrow>
          Some (Item item, q\<lparr>wq_queue := rest,
            wq_processing := insert item (wq_processing q),
            wq_dirty := wq_dirty q - {item}\<rparr>))"

definition DoneItem :: "string \<Rightarrow> wq \<Rightarrow> wq" where
  "DoneItem item q =
     (let q1 = q\<lparr>wq_processing := wq_processing q - {item}\<rparr>
      in if item \<in> wq_dirty q1 then q1\<lparr>wq_queue := wq_queue q1 @ [item]\<rparr> else q1)"

definition ShutDown :: "wq \<Rightarrow> wq" where
  "ShutDown q = q\<lparr>wq_shuttingDown := True\<rparr>"

definition Len :: "wq \<Rightarrow> nat" where
  "Len q = length (wq_queue q)"

section \<open>The invariant\<close>

text \<open>
  What the comment on \<open>queue\<close> says, and more: the queue holds, without repetition, exactly the dirty
  items that are not being processed.
\<close>

definition wq_inv :: "wq \<Rightarrow> bool" where
  "wq_inv q \<longleftrightarrow> distinct (wq_queue q) \<and> set (wq_queue q) = wq_dirty q - wq_processing q"

lemma wq_inv_New: "wq_inv New"
  by (simp add: wq_inv_def New_def)

lemma wq_inv_Add: "wq_inv q \<Longrightarrow> wq_inv (Add item q)"
  by (auto simp: wq_inv_def Add_def Let_def)

lemma wq_inv_Get: "wq_inv q \<Longrightarrow> Get q = Some (g, q') \<Longrightarrow> wq_inv q'"
  by (auto simp: wq_inv_def Get_def split: list.splits if_splits)

lemma wq_inv_DoneItem: "wq_inv q \<Longrightarrow> item \<in> wq_processing q \<Longrightarrow> wq_inv (DoneItem item q)"
  by (auto simp: wq_inv_def DoneItem_def Let_def)

lemma wq_inv_ShutDown: "wq_inv q \<Longrightarrow> wq_inv (ShutDown q)"
  by (simp add: wq_inv_def ShutDown_def)

section \<open>The queue's contract\<close>

text \<open>
  What a worker pool needs of a queue of keys: items added stay pending until some \<open>get\<close> takes them,
  a taken item is in flight until it is done, and no item is handed out while it is in flight. The
  client lemmas are about any sequence of operations.
\<close>

datatype qop = OpAdd string | OpGet | OpDone string

primrec qstep ::
  "(string \<Rightarrow> 'q \<Rightarrow> 'q) \<Rightarrow> ('q \<Rightarrow> (got \<times> 'q) option) \<Rightarrow> (string \<Rightarrow> 'q \<Rightarrow> 'q) \<Rightarrow> qop \<Rightarrow> 'q \<Rightarrow> string option \<times> 'q" where
  "qstep add get done (OpAdd k) q = (None, add k q)"
| "qstep add get done OpGet q =
     (case get q of
        Some (Item k, q') \<Rightarrow> (Some k, q')
      | Some (Quit, q') \<Rightarrow> (None, q')
      | None \<Rightarrow> (None, q))"
| "qstep add get done (OpDone k) q = (None, done k q)"

primrec qrun ::
  "(string \<Rightarrow> 'q \<Rightarrow> 'q) \<Rightarrow> ('q \<Rightarrow> (got \<times> 'q) option) \<Rightarrow> (string \<Rightarrow> 'q \<Rightarrow> 'q) \<Rightarrow> qop list \<Rightarrow> 'q \<Rightarrow> string list \<times> 'q" where
  "qrun add get done [] q = ([], q)"
| "qrun add get done (c # cs) q =
     (let (k, q1) = qstep add get done c q;
          (ks, q2) = qrun add get done cs q1
      in ((case k of None \<Rightarrow> ks | Some x \<Rightarrow> x # ks), q2))"

locale work_queue =
  fixes add :: "string \<Rightarrow> 'q \<Rightarrow> 'q"
    and get :: "'q \<Rightarrow> (got \<times> 'q) option"
    and fin :: "string \<Rightarrow> 'q \<Rightarrow> 'q"
    and inv :: "'q \<Rightarrow> bool"
    and closed :: "'q \<Rightarrow> bool"
    and pending inflight :: "'q \<Rightarrow> string set"
  assumes inv_add: "inv q \<Longrightarrow> inv (add k q)"
    and pending_add: "inv q \<Longrightarrow> pending (add k q) = (if closed q then pending q else insert k (pending q))"
    and inflight_add: "inv q \<Longrightarrow> inflight (add k q) = inflight q"
    and closed_add: "closed (add k q) = closed q"
    and get_Item: "inv q \<Longrightarrow> get q = Some (Item k, q') \<Longrightarrow>
      inv q' \<and> k \<in> pending q \<and> k \<notin> inflight q \<and> pending q' = pending q - {k}
      \<and> inflight q' = insert k (inflight q) \<and> closed q' = closed q"
    and get_Quit: "inv q \<Longrightarrow> get q = Some (Quit, q') \<Longrightarrow> q' = q \<and> closed q \<and> pending q \<subseteq> inflight q"
    and get_blocks: "inv q \<Longrightarrow> get q = None \<Longrightarrow> pending q \<subseteq> inflight q"
    and fin_inv: "inv q \<Longrightarrow> k \<in> inflight q \<Longrightarrow> inv (fin k q)"
    and fin_sets: "pending (fin k q) = pending q" "inflight (fin k q) = inflight q - {k}" "closed (fin k q) = closed q"
begin

text \<open>Operations a correct client issues: it only reports done what it has in flight.\<close>

definition legal :: "qop list \<Rightarrow> 'q \<Rightarrow> bool" where
  "legal cs q \<longleftrightarrow> (\<forall>pre k post. cs = pre @ OpDone k # post \<longrightarrow> k \<in> inflight (snd (qrun add get fin pre q)))"

lemma legal_Cons: "legal (c # cs) q \<Longrightarrow> legal cs (snd (qstep add get fin c q))"
  unfolding legal_def
proof (intro allI impI)
  fix pre k post
  assume *: "\<forall>pre k post. c # cs = pre @ OpDone k # post \<longrightarrow> k \<in> inflight (snd (qrun add get fin pre q))"
    and cs: "cs = pre @ OpDone k # post"
  from * cs have "k \<in> inflight (snd (qrun add get fin (c # pre) q))" by (metis append_Cons)
  then show "k \<in> inflight (snd (qrun add get fin pre (snd (qstep add get fin c q))))"
    by (simp add: case_prod_beta Let_def)
qed

lemma legal_head: "legal (OpDone k # cs) q \<Longrightarrow> k \<in> inflight q"
  unfolding legal_def by (metis append_Nil qrun.simps(1) snd_conv)

lemma get_step:
  assumes "inv q"
  obtains (item) k q' where "qstep add get fin OpGet q = (Some k, q')" "inv q'" "k \<in> pending q"
      "k \<notin> inflight q" "pending q' = pending q - {k}" "inflight q' = insert k (inflight q)"
  | (idle) "qstep add get fin OpGet q = (None, q)"
proof (cases "get q")
  case None
  then show ?thesis using idle by simp
next
  case (Some r)
  obtain g q' where r: "r = (g, q')" by (cases r)
  show ?thesis
  proof (cases g)
    case (Item k)
    with get_Item [OF assms, of k q'] Some r show ?thesis using item [of k q'] by simp
  next
    case Quit
    with get_Quit [OF assms, of q'] Some r show ?thesis using idle by simp
  qed
qed

lemma step_inv:
  assumes "inv q" "legal (c # cs) q"
  shows "inv (snd (qstep add get fin c q))"
proof (cases c)
  case OpGet
  with get_step [OF assms(1)] show ?thesis by (metis snd_conv assms(1))
next
  case (OpDone k)
  with assms legal_head fin_inv show ?thesis by simp
qed (use assms inv_add in simp)

lemma run_inv: "inv q \<Longrightarrow> legal cs q \<Longrightarrow> inv (snd (qrun add get fin cs q))"
proof (induction cs arbitrary: q)
  case (Cons c cs)
  from Cons.IH [OF step_inv [OF Cons.prems] legal_Cons [OF Cons.prems(2)]]
  show ?case by (simp add: case_prod_beta Let_def)
qed simp

text \<open>No wakeup is lost: what is pending stays pending until it is handed out.\<close>

lemma pending_until_got:
  assumes "inv q" "legal cs q" "k \<in> pending q"
  shows "k \<in> set (fst (qrun add get fin cs q)) \<or> k \<in> pending (snd (qrun add get fin cs q))"
  using assms
proof (induction cs arbitrary: q)
  case (Cons c cs)
  let ?s = "qstep add get fin c q"
  have "fst ?s = Some k \<or> k \<in> pending (snd ?s)"
  proof (cases c)
    case OpGet
    from get_step [OF Cons.prems(1)] show ?thesis
      unfolding OpGet by cases (use Cons.prems in auto)
  qed (use Cons.prems pending_add fin_sets in auto)
  then show ?case
  proof
    assume "fst ?s = Some k"
    then show ?thesis by (simp add: case_prod_beta Let_def)
  next
    assume "k \<in> pending (snd ?s)"
    from Cons.IH [OF step_inv [OF Cons.prems(1,2)] legal_Cons [OF Cons.prems(2)] this]
    show ?thesis by (auto simp: case_prod_beta Let_def split: option.splits)
  qed
qed simp

text \<open>Mutual exclusion: what is in flight is not handed out again before it is done.\<close>

lemma inflight_exclusive:
  assumes "inv q" "legal cs q" "k \<in> inflight q" "OpDone k \<notin> set cs"
  shows "k \<notin> set (fst (qrun add get fin cs q)) \<and> k \<in> inflight (snd (qrun add get fin cs q))"
  using assms
proof (induction cs arbitrary: q)
  case (Cons c cs)
  let ?s = "qstep add get fin c q"
  have step: "fst ?s \<noteq> Some k \<and> k \<in> inflight (snd ?s)"
  proof (cases c)
    case OpGet
    from get_step [OF Cons.prems(1)] show ?thesis
      unfolding OpGet by cases (use Cons.prems in auto)
  qed (use Cons.prems inflight_add fin_sets in auto)
  then have "k \<notin> set (fst (qrun add get fin cs (snd ?s))) \<and> k \<in> inflight (snd (qrun add get fin cs (snd ?s)))"
    using Cons.prems by (intro Cons.IH step_inv [of q c cs] legal_Cons) auto
  with step show ?case by (auto simp: case_prod_beta Let_def split: option.splits)
qed simp

end

lemma Add_sets [simp]:
  "wq_dirty (Add k q) = (if wq_shuttingDown q then wq_dirty q else insert k (wq_dirty q))"
  "wq_processing (Add k q) = wq_processing q"
  "wq_shuttingDown (Add k q) = wq_shuttingDown q"
  by (auto simp: Add_def Let_def)

lemma DoneItem_sets [simp]:
  "wq_dirty (DoneItem k q) = wq_dirty q"
  "wq_processing (DoneItem k q) = wq_processing q - {k}"
  "wq_shuttingDown (DoneItem k q) = wq_shuttingDown q"
  by (auto simp: DoneItem_def Let_def)

lemma Get_Item:
  assumes "wq_inv q" "Get q = Some (Item k, q')"
  shows "wq_inv q' \<and> k \<in> wq_dirty q \<and> k \<notin> wq_processing q \<and> wq_dirty q' = wq_dirty q - {k}
    \<and> wq_processing q' = insert k (wq_processing q) \<and> wq_shuttingDown q' = wq_shuttingDown q"
proof (cases "wq_queue q")
  case Nil
  with assms show ?thesis by (simp add: Get_def split: if_splits)
next
  case (Cons item rest)
  with assms(2) have k: "k = item" and q': "q' = q\<lparr>wq_queue := rest,
      wq_processing := insert item (wq_processing q), wq_dirty := wq_dirty q - {item}\<rparr>"
    by (auto simp: Get_def)
  from assms(1) Cons have inv: "distinct (item # rest)" "set (item # rest) = wq_dirty q - wq_processing q"
    by (simp_all add: wq_inv_def)
  then have "item \<in> wq_dirty q" "item \<notin> wq_processing q" by (metis DiffE list.set_intros(1))+
  moreover have "set rest = (wq_dirty q - {item}) - insert item (wq_processing q)"
    using inv by (simp, blast)
  ultimately show ?thesis using k q' inv by (simp add: wq_inv_def)
qed

lemma Get_Quit:
  assumes "wq_inv q" "Get q = Some (Quit, q')"
  shows "q' = q \<and> wq_shuttingDown q \<and> wq_dirty q \<subseteq> wq_processing q"
proof (cases "wq_queue q")
  case Nil
  with assms show ?thesis by (simp add: Get_def wq_inv_def split: if_splits)
next
  case (Cons item rest)
  with assms(2) show ?thesis by (simp add: Get_def)
qed

lemma Get_None:
  assumes "wq_inv q" "Get q = None"
  shows "wq_dirty q \<subseteq> wq_processing q"
proof (cases "wq_queue q")
  case Nil
  with assms show ?thesis by (simp add: wq_inv_def)
next
  case (Cons item rest)
  with assms(2) show ?thesis by (simp add: Get_def)
qed

interpretation notebook_queue: work_queue Add Get DoneItem wq_inv wq_shuttingDown wq_dirty wq_processing
proof unfold_locales
  fix q k q'
  assume *: "wq_inv q" "Get q = Some (Item k, q')"
  show "wq_inv q' \<and> k \<in> wq_dirty q \<and> k \<notin> wq_processing q \<and> wq_dirty q' = wq_dirty q - {k}
      \<and> wq_processing q' = insert k (wq_processing q) \<and> wq_shuttingDown q' = wq_shuttingDown q"
    by (rule Get_Item [OF *])
next
  fix q q'
  assume *: "wq_inv q" "Get q = Some (Quit, q')"
  show "q' = q \<and> wq_shuttingDown q \<and> wq_dirty q \<subseteq> wq_processing q"
    by (rule Get_Quit [OF *])
next
  fix q
  assume "wq_inv q" "Get q = None"
  then show "wq_dirty q \<subseteq> wq_processing q" by (rule Get_None)
qed (simp_all add: wq_inv_Add wq_inv_DoneItem)

end
