(* ===== verification/Rate_Limit.thy ===== *)
theory Rate_Limit imports Workqueue "HOL-Library.Word" begin

text \<open>
  The rate limiters and the delaying queue around the work queue, as
  \<open>NewNamedRateLimitingQueue(DefaultControllerRateLimiter(), "notebook")\<close> composes them. Times and
  delays are nanoseconds. The token bucket of \<open>golang.org/x/time/rate\<close> contributes a delay that is
  an argument here. The heap of waiting entries is a list in the order of arrival from which the
  earliest entry is taken, so entries due at the same instant leave in the order of arrival; each
  turn of \<open>waitingLoop\<close> is one operation, and so is the reception of what is in its channel.
\<close>

section \<open>Rate limiters\<close>

record ItemExponentialFailureRateLimiter =
  failures :: "string \<rightharpoonup> nat"
  baseDelay :: int
  maxDelay :: int

datatype RateLimiter =
    Exponential ItemExponentialFailureRateLimiter
  | Bucket
  | MaxOf "RateLimiter list"

definition NewItemExponentialFailureRateLimiter :: "int \<Rightarrow> int \<Rightarrow> RateLimiter" where
  "NewItemExponentialFailureRateLimiter base mx =
     Exponential \<lparr> failures = Map.empty, baseDelay = base, maxDelay = mx \<rparr>"

definition DefaultControllerRateLimiter :: RateLimiter where
  "DefaultControllerRateLimiter =
     MaxOf [NewItemExponentialFailureRateLimiter 5000000 1000000000000, Bucket]"

definition failuresOf :: "string \<Rightarrow> ItemExponentialFailureRateLimiter \<Rightarrow> nat" where
  "failuresOf item r = (case failures r item of None \<Rightarrow> 0 | Some n \<Rightarrow> n)"

text \<open>
  The product of the base and a power of two is exact in binary floating point, and infinite beyond
  its range; the conversion to a \<open>time.Duration\<close> is to 64 signed bits.
\<close>

definition expWhen :: "string \<Rightarrow> ItemExponentialFailureRateLimiter \<Rightarrow> int \<times> ItemExponentialFailureRateLimiter" where
  "expWhen item r =
     (let exp = failuresOf item r;
          r1 = r\<lparr>failures := (failures r)(item \<mapsto> exp + 1)\<rparr>;
          backoff = baseDelay r * 2 ^ exp
      in if backoff > 2 ^ 63 then (maxDelay r, r1)
         else
           let calculated = sint (word_of_int backoff :: 64 word)
           in if calculated > maxDelay r then (maxDelay r, r1) else (calculated, r1))"

fun When :: "int \<Rightarrow> string \<Rightarrow> RateLimiter \<Rightarrow> int \<times> RateLimiter"
  and WhenAll :: "int \<Rightarrow> string \<Rightarrow> int \<Rightarrow> RateLimiter list \<Rightarrow> int \<times> RateLimiter list" where
  "When bucket item (Exponential r) = (let (d, r1) = expWhen item r in (d, Exponential r1))"
| "When bucket item Bucket = (bucket, Bucket)"
| "When bucket item (MaxOf limiters) =
     (let (ret, ls) = WhenAll bucket item 0 limiters in (ret, MaxOf ls))"
| "WhenAll bucket item ret [] = (ret, [])"
| "WhenAll bucket item ret (limiter # limiters) =
     (let (curr, l1) = When bucket item limiter;
          (ret1, ls) = WhenAll bucket item (if curr > ret then curr else ret) limiters
      in (ret1, l1 # ls))"

fun ForgetItem :: "string \<Rightarrow> RateLimiter \<Rightarrow> RateLimiter" where
  "ForgetItem item (Exponential r) = Exponential (r\<lparr>failures := (failures r)(item := None)\<rparr>)"
| "ForgetItem item Bucket = Bucket"
| "ForgetItem item (MaxOf limiters) = MaxOf (map (ForgetItem item) limiters)"

fun NumRequeues :: "string \<Rightarrow> RateLimiter \<Rightarrow> nat" where
  "NumRequeues item (Exponential r) = failuresOf item r"
| "NumRequeues item Bucket = 0"
| "NumRequeues item (MaxOf limiters) =
     foldl (\<lambda>ret limiter. let curr = NumRequeues item limiter in if curr > ret then curr else ret) 0 limiters"

section \<open>The delaying queue\<close>

text \<open>
  \<open>inbox\<close> is the buffer of \<open>waitingForAddCh\<close>, \<open>waiting\<close> the loop's heap with its index by item. An
  \<open>AddAfter\<close> into a full buffer blocks: it is \<^const>\<open>None\<close>.
\<close>

record rlq =
  base :: wq
  inbox :: "(string \<times> int) list"
  waiting :: "(string \<times> int) list"
  limiter :: RateLimiter

definition NewNamedRateLimitingQueue :: "RateLimiter \<Rightarrow> rlq" where
  "NewNamedRateLimitingQueue r = \<lparr> base = New, inbox = [], waiting = [], limiter = r \<rparr>"

definition AddNow :: "string \<Rightarrow> rlq \<Rightarrow> rlq" where
  "AddNow item q = q\<lparr>base := Add item (base q)\<rparr>"

definition AddAfter :: "int \<Rightarrow> string \<Rightarrow> int \<Rightarrow> rlq \<Rightarrow> rlq option" where
  "AddAfter now item duration q =
     (if wq_shuttingDown (base q) then Some q
      else if duration \<le> 0 then Some (AddNow item q)
      else if length (inbox q) \<ge> 1000 then None
      else Some (q\<lparr>inbox := inbox q @ [(item, now + duration)]\<rparr>))"

definition AddRateLimited :: "int \<Rightarrow> int \<Rightarrow> string \<Rightarrow> rlq \<Rightarrow> rlq option" where
  "AddRateLimited now bucket item q =
     (let (d, l) = When bucket item (limiter q) in AddAfter now item d (q\<lparr>limiter := l\<rparr>))"

definition Forget :: "string \<Rightarrow> rlq \<Rightarrow> rlq" where
  "Forget item q = q\<lparr>limiter := ForgetItem item (limiter q)\<rparr>"

text \<open>\<open>insert\<close>: an item waits once, for the earliest of its times.\<close>

fun insertEntry :: "string \<times> int \<Rightarrow> (string \<times> int) list \<Rightarrow> (string \<times> int) list" where
  "insertEntry (item, readyAt) [] = [(item, readyAt)]"
| "insertEntry (item, readyAt) ((i, t) # ws) =
     (if i = item then (if t > readyAt then (i, readyAt) # ws else (i, t) # ws)
      else (i, t) # insertEntry (item, readyAt) ws)"

definition receiveEntry :: "int \<Rightarrow> string \<times> int \<Rightarrow> rlq \<Rightarrow> rlq" where
  "receiveEntry now e q =
     (if snd e > now then q\<lparr>waiting := insertEntry e (waiting q)\<rparr> else AddNow (fst e) q)"

definition drainInbox :: "int \<Rightarrow> rlq \<Rightarrow> rlq" where
  "drainInbox now q = fold (receiveEntry now) (inbox q) (q\<lparr>inbox := []\<rparr>)"

text \<open>The entry the heap has at its root, and the queue without it.\<close>

fun popEarliest :: "(string \<times> int) list \<Rightarrow> ((string \<times> int) \<times> (string \<times> int) list) option" where
  "popEarliest [] = None"
| "popEarliest (e # es) =
     (case popEarliest es of
        None \<Rightarrow> Some (e, [])
      | Some (m, rest) \<Rightarrow> if snd m < snd e then Some (m, e # rest) else Some (e, es))"

lemma popEarliest_length: "popEarliest es = Some (m, rest) \<Longrightarrow> length rest < length es"
  by (induction es arbitrary: m rest) (force split: option.splits if_splits)+

function fireReady :: "int \<Rightarrow> (string \<times> int) list \<Rightarrow> string list \<times> (string \<times> int) list" where
  "fireReady now ws =
     (case popEarliest ws of
        None \<Rightarrow> ([], ws)
      | Some (e, rest) \<Rightarrow>
          if snd e > now then ([], ws)
          else let (ready, left) = fireReady now rest in (fst e # ready, left))"
  by pat_completeness auto
termination
  by (relation "measure (\<lambda>(now, ws). length ws)") (auto dest: popEarliest_length)

declare fireReady.simps [simp del]

definition addReady :: "int \<Rightarrow> rlq \<Rightarrow> rlq" where
  "addReady now q =
     (let (ready, left) = fireReady now (waiting q)
      in q\<lparr>base := fold Add ready (base q), waiting := left\<rparr>)"

text \<open>
  One turn of \<open>waitingLoop\<close>, woken by a timer or by a message: unless the queue is shutting down,
  what has arrived is received, then what is due is added.
\<close>

definition waitingLoopTurn :: "int \<Rightarrow> rlq \<Rightarrow> rlq" where
  "waitingLoopTurn now q =
     (if wq_shuttingDown (base q) then q else addReady now (drainInbox now q))"

definition ShutDownQueue :: "rlq \<Rightarrow> rlq" where
  "ShutDownQueue q = q\<lparr>base := ShutDown (base q)\<rparr>"

section \<open>Back-off\<close>

definition initialBackoff :: int where "initialBackoff = 5000000"
definition maximalBackoff :: int where "maximalBackoff = 1000000000000"

definition backoff :: "nat \<Rightarrow> int" where
  "backoff k = min maximalBackoff (initialBackoff * 2 ^ k)"

lemma expWhen_closed:
  assumes "0 < baseDelay r" "maxDelay r < 2 ^ 63 - 1" "baseDelay r * 2 ^ failuresOf item r \<noteq> 2 ^ 63"
  shows "fst (expWhen item r) = min (maxDelay r) (baseDelay r * 2 ^ failuresOf item r)"
proof -
  let ?b = "baseDelay r * 2 ^ failuresOf item r"
  show ?thesis
  proof (cases "?b > 2 ^ 63")
    case True
    with assms(2) show ?thesis by (simp add: expWhen_def Let_def min_def)
  next
    case False
    with assms(3) have lt: "?b < 2 ^ 63" by simp
    have pos: "0 \<le> ?b" using assms(1) by simp
    have "sint (word_of_int i :: 64 word) = i" if "0 \<le> i" "i < 2 ^ 63" for i :: int
      using that by (simp add: int_word_sint)
    from this [OF pos lt] have "sint (word_of_int ?b :: 64 word) = ?b" .
    then show ?thesis using False by (simp add: expWhen_def Let_def min_def)
  qed
qed

lemma failuresOf_update [simp]:
  "failuresOf item (r\<lparr>failures := (failures r)(item \<mapsto> n)\<rparr>) = n"
  "failuresOf item (r\<lparr>failures := (failures r)(item := None)\<rparr>) = 0"
  "i \<noteq> item \<Longrightarrow> failuresOf i (r\<lparr>failures := (failures r)(item := x)\<rparr>) = failuresOf i r"
  by (simp_all add: failuresOf_def)

lemma five_is_no_power: "5000000 * 2 ^ k \<noteq> (2::int) ^ 63"
proof
  assume *: "5000000 * 2 ^ k = (2::int) ^ 63"
  have "(0::int) = 5000000 * 2 ^ k mod 5"
    by (rule mod_eq_0_iff_dvd [THEN iffD2, symmetric], rule dvd_mult2) simp
  also have "\<dots> = 2 ^ 63 mod 5" by (rule arg_cong [OF *])
  also have "\<dots> = 3" by simp
  finally show False by simp
qed

text \<open>The limiter the controller builds, with any history of failures.\<close>

definition isControllerLimiter :: "RateLimiter \<Rightarrow> bool" where
  "isControllerLimiter l \<longleftrightarrow>
     (\<exists>r. l = MaxOf [Exponential r, Bucket] \<and> baseDelay r = initialBackoff \<and> maxDelay r = maximalBackoff)"

lemma isControllerLimiterE:
  assumes "isControllerLimiter l"
  obtains r where "l = MaxOf [Exponential r, Bucket]" "baseDelay r = initialBackoff" "maxDelay r = maximalBackoff"
  using assms by (auto simp: isControllerLimiter_def)

lemma isControllerLimiter_default [simp]: "isControllerLimiter DefaultControllerRateLimiter"
  by (simp add: isControllerLimiter_def DefaultControllerRateLimiter_def
      NewItemExponentialFailureRateLimiter_def initialBackoff_def maximalBackoff_def)

lemma expWhen_failures:
  "snd (expWhen item r) = r\<lparr>failures := (failures r)(item \<mapsto> failuresOf item r + 1)\<rparr>"
  by (simp add: expWhen_def Let_def)

lemma controller_backoff:
  assumes "baseDelay r = initialBackoff" "maxDelay r = maximalBackoff"
  shows "fst (expWhen item r) = backoff (failuresOf item r)"
  using expWhen_closed [of r item] assms five_is_no_power
  by (simp add: initialBackoff_def maximalBackoff_def backoff_def)

lemma backoff_pos: "0 < backoff k"
  by (simp add: backoff_def initialBackoff_def maximalBackoff_def)

lemma backoff_le: "backoff k \<le> maximalBackoff"
  by (simp add: backoff_def)

lemma backoff_mono: "j \<le> k \<Longrightarrow> backoff j \<le> backoff k"
proof -
  assume "j \<le> k"
  then have "(2::int) ^ j \<le> 2 ^ k" by (simp add: power_increasing)
  then have "initialBackoff * 2 ^ j \<le> initialBackoff * 2 ^ k" by (simp add: initialBackoff_def)
  then show ?thesis unfolding backoff_def by (rule min.mono [OF order_refl])
qed

lemma When_controller:
  assumes "isControllerLimiter l"
  shows "fst (When b item l) = max (backoff (NumRequeues item l)) b"
    and "isControllerLimiter (snd (When b item l))"
    and "NumRequeues i (snd (When b item l)) = NumRequeues i l + (if i = item then 1 else 0)"
proof -
  from assms obtain r where r: "l = MaxOf [Exponential r, Bucket]"
    "baseDelay r = initialBackoff" "maxDelay r = maximalBackoff" by (rule isControllerLimiterE)
  have w: "When b item l = (max (backoff (failuresOf item r)) b, MaxOf [Exponential (snd (expWhen item r)), Bucket])"
    using r backoff_pos [of "failuresOf item r"] controller_backoff [OF r(2,3), of item]
    by (simp add: case_prod_beta Let_def max_def)
  show "fst (When b item l) = max (backoff (NumRequeues item l)) b"
    unfolding w using r by (simp add: Let_def)
  show "isControllerLimiter (snd (When b item l))"
    unfolding w using r by (simp add: isControllerLimiter_def expWhen_failures)
  show "NumRequeues i (snd (When b item l)) = NumRequeues i l + (if i = item then 1 else 0)"
    unfolding w using r by (simp add: Let_def expWhen_failures)
qed

lemma Forget_controller:
  assumes "isControllerLimiter l"
  shows "isControllerLimiter (ForgetItem item l)"
    and "NumRequeues i (ForgetItem item l) = (if i = item then 0 else NumRequeues i l)"
proof -
  from assms obtain r where r: "l = MaxOf [Exponential r, Bucket]"
    "baseDelay r = initialBackoff" "maxDelay r = maximalBackoff" by (rule isControllerLimiterE)
  then show "isControllerLimiter (ForgetItem item l)" by (simp add: isControllerLimiter_def)
  show "NumRequeues i (ForgetItem item l) = (if i = item then 0 else NumRequeues i l)"
    using r by (simp add: Let_def)
qed

section \<open>Waiting entries\<close>

text \<open>\<open>dueBy t k q\<close>: the item is in the queue, or an entry will put it there at \<open>t\<close> at the latest.\<close>

definition dueBy :: "int \<Rightarrow> string \<Rightarrow> rlq \<Rightarrow> bool" where
  "dueBy t k q \<longleftrightarrow> k \<in> wq_dirty (base q) \<or> (\<exists>r \<le> t. (k, r) \<in> set (inbox q) \<union> set (waiting q))"

lemma insertEntry_keeps:
  "(k, r) \<in> set ws \<Longrightarrow> \<exists>r' \<le> r. (k, r') \<in> set (insertEntry e ws)"
proof (induction e ws rule: insertEntry.induct)
  case (2 item readyAt i t ws)
  show ?case
  proof (cases "(k, r) = (i, t)")
    case True
    then show ?thesis by (cases "t > readyAt") (auto intro: exI [of _ readyAt] less_imp_le)
  next
    case False
    with 2 show ?thesis by (cases "i = item") auto
  qed
qed simp

lemma insertEntry_has: "\<exists>r' \<le> r. (k, r') \<in> set (insertEntry (k, r) ws)"
proof (induction ws)
  case (Cons e ws)
  obtain i t where e: "e = (i, t)" by (cases e)
  show ?case
  proof (cases "i = k \<and> \<not> r < t")
    case True
    with e show ?thesis by (auto intro: exI [of _ t])
  next
    case False
    with e Cons show ?thesis by (cases "i = k") auto
  qed
qed simp

lemma insertEntry_distinct:
  "distinct (map fst ws) \<Longrightarrow> distinct (map fst (insertEntry e ws))
     \<and> set (map fst (insertEntry e ws)) = insert (fst e) (set (map fst ws))"
  by (induction e ws rule: insertEntry.induct) auto

lemma popEarliest_None [simp]: "popEarliest es = None \<longleftrightarrow> es = []"
  by (cases es) (auto split: option.splits if_splits)

lemma popEarliest_sets:
  assumes "popEarliest es = Some (m, rest)"
  shows "set es = insert m (set rest) \<and> (\<forall>e \<in> set rest. snd m \<le> snd e)"
  using assms
proof (induction es arbitrary: m rest)
  case (Cons e es)
  show ?case
  proof (cases "popEarliest es")
    case None
    with Cons.prems show ?thesis by simp
  next
    case (Some mr)
    obtain m' rest' where mr: "popEarliest es = Some (m', rest')" using Some by (cases mr) simp
    from Cons.IH [OF mr] Cons.prems mr show ?thesis by (auto split: if_splits)
  qed
qed simp

text \<open>What is due is added in the order of the times; what is not stays.\<close>

lemma fireReady_result:
  assumes "fireReady now ws = (ready, left)"
  shows "set ready = fst ` {e \<in> set ws. snd e \<le> now} \<and> set left = {e \<in> set ws. now < snd e}"
  using assms
proof (induction now ws arbitrary: ready rule: fireReady.induct)
  case (1 now ws)
  show ?case
  proof (cases "popEarliest ws")
    case None
    with 1(2) show ?thesis by (subst (asm) fireReady.simps) simp
  next
    case (Some mr)
    obtain e rest where mr: "popEarliest ws = Some (e, rest)" using Some by (cases mr) simp
    note sets = popEarliest_sets [OF mr]
    show ?thesis
    proof (cases "snd e > now")
      case True
      have "fireReady now ws = ([], ws)" using mr True by (subst fireReady.simps) simp
      then have "ready = []" "left = ws" using 1(2) by auto
      with sets True show ?thesis by force
    next
      case False
      obtain ready' left' where f: "fireReady now rest = (ready', left')" by (cases "fireReady now rest")
      have "fireReady now ws = (fst e # ready', left')"
        using mr False f by (subst fireReady.simps) simp
      then have eq: "ready = fst e # ready'" "left = left'" using 1(2) by auto
      have "fireReady now rest = (ready', left)" using f eq by simp
      note IH = 1(1) [OF mr refl False this]
      have "set ready = insert (fst e) (fst ` {x \<in> set rest. snd x \<le> now})" using eq(1) IH by simp
      moreover have "{x \<in> set ws. snd x \<le> now} = insert e {x \<in> set rest. snd x \<le> now}"
        "{x \<in> set ws. now < snd x} = {x \<in> set rest. now < snd x}" using sets False by auto
      ultimately show ?thesis using IH by simp
    qed
  qed
qed

section \<open>The delaying queue loses nothing\<close>

lemma fold_Add [simp]:
  "wq_processing (fold Add ks q) = wq_processing q"
  "wq_shuttingDown (fold Add ks q) = wq_shuttingDown q"
  "wq_dirty (fold Add ks q) = (if wq_shuttingDown q then wq_dirty q else wq_dirty q \<union> set ks)"
  "wq_inv q \<Longrightarrow> wq_inv (fold Add ks q)"
  by (induction ks arbitrary: q) (auto simp: wq_inv_Add)

definition held :: "int \<Rightarrow> string \<Rightarrow> rlq \<Rightarrow> bool" where
  "held t k q \<longleftrightarrow> k \<in> wq_dirty (base q) \<or> (\<exists>r \<le> t. (k, r) \<in> set (waiting q))"

text \<open>What the reception and the firing of entries never touch.\<close>

definition sameWork :: "rlq \<Rightarrow> rlq \<Rightarrow> bool" where
  "sameWork q q' \<longleftrightarrow>
     wq_processing (base q') = wq_processing (base q)
     \<and> wq_shuttingDown (base q') = wq_shuttingDown (base q)
     \<and> limiter q' = limiter q \<and> wq_dirty (base q) \<subseteq> wq_dirty (base q')
     \<and> (wq_inv (base q) \<longrightarrow> wq_inv (base q'))"

lemma sameWork_refl [simp]: "sameWork q q"
  by (simp add: sameWork_def)

lemma sameWork_trans [trans]: "sameWork q q' \<Longrightarrow> sameWork q' q'' \<Longrightarrow> sameWork q q''"
  unfolding sameWork_def by auto

lemma receiveEntry_sameWork: "sameWork q (receiveEntry now e q)"
  by (auto simp: sameWork_def receiveEntry_def AddNow_def wq_inv_Add)

lemma fold_receiveEntry_sameWork: "sameWork q (fold (receiveEntry now) es q)"
  by (induction es arbitrary: q) (auto intro: sameWork_trans receiveEntry_sameWork)

lemma receiveEntry_held:
  assumes "\<not> wq_shuttingDown (base q)" "held t k q \<or> fst e = k \<and> snd e \<le> t"
  shows "held t k (receiveEntry now e q)"
proof (cases "snd e > now")
  case True
  show ?thesis
    using assms(2)
  proof
    assume "held t k q"
    then show ?thesis
      using insertEntry_keeps [of k _ "waiting q" e] True
      by (auto simp: held_def receiveEntry_def; meson order_trans)
  next
    assume e: "fst e = k \<and> snd e \<le> t"
    obtain r where r: "e = (k, r)" "r \<le> t" using e by (cases e) simp
    from insertEntry_has [of r k "waiting q"] True r show ?thesis
      by (auto simp: held_def receiveEntry_def; meson order_trans)
  qed
next
  case False
  with assms show ?thesis by (auto simp: held_def receiveEntry_def AddNow_def)
qed

lemma fold_receiveEntry_held:
  assumes "\<not> wq_shuttingDown (base q)" "held t k q \<or> (\<exists>r \<le> t. (k, r) \<in> set es)"
  shows "held t k (fold (receiveEntry now) es q)"
  using assms
proof (induction es arbitrary: q)
  case (Cons e es)
  let ?q = "receiveEntry now e q"
  have shut: "\<not> wq_shuttingDown (base ?q)"
    using receiveEntry_sameWork [of q now e] Cons.prems(1) by (simp add: sameWork_def)
  have "held t k ?q \<or> (\<exists>r \<le> t. (k, r) \<in> set es)"
    using receiveEntry_held [OF Cons.prems(1), of t k e now] Cons.prems(2) by auto
  from Cons.IH [OF shut this] show ?case by simp
qed simp

lemma drainInbox_sameWork: "sameWork q (drainInbox now q)"
proof -
  have "sameWork q (q\<lparr>inbox := []\<rparr>)" by (simp add: sameWork_def)
  then show ?thesis
    unfolding drainInbox_def by (rule sameWork_trans) (rule fold_receiveEntry_sameWork)
qed

lemma drainInbox_held:
  assumes "\<not> wq_shuttingDown (base q)" "dueBy t k q"
  shows "held t k (drainInbox now q)"
  unfolding drainInbox_def
  by (rule fold_receiveEntry_held) (use assms in \<open>auto simp: held_def dueBy_def\<close>)

lemma addReady_sameWork: "sameWork q (addReady now q)"
  by (auto simp: sameWork_def addReady_def case_prod_beta)

lemma addReady_held:
  assumes "\<not> wq_shuttingDown (base q)" "held t k q"
  shows "held t k (addReady now q)" and "t \<le> now \<Longrightarrow> k \<in> wq_dirty (base (addReady now q))"
proof -
  obtain ready left where f: "fireReady now (waiting q) = (ready, left)" by (cases "fireReady now (waiting q)")
  note fired = fireReady_result [OF f]
  have a: "addReady now q = q\<lparr>base := fold Add ready (base q), waiting := left\<rparr>"
    by (simp add: addReady_def f)
  have dirty: "wq_dirty (base (addReady now q)) = wq_dirty (base q) \<union> set ready"
    using assms(1) by (simp add: a)
  have cases: "k \<in> wq_dirty (base q) \<union> set ready \<or> (\<exists>r \<le> t. now < r \<and> (k, r) \<in> set left)"
    using assms(2) fired by (force simp: held_def)
  show "held t k (addReady now q)"
    using cases unfolding held_def dirty by (auto simp: a)
  show "t \<le> now \<Longrightarrow> k \<in> wq_dirty (base (addReady now q))"
    using cases unfolding dirty by auto
qed

lemma waitingLoopTurn_sameWork: "sameWork q (waitingLoopTurn now q)"
  by (simp add: waitingLoopTurn_def sameWork_trans [OF drainInbox_sameWork addReady_sameWork])

lemma waitingLoopTurn_due:
  assumes "dueBy t k q"
  shows "dueBy t k (waitingLoopTurn now q)"
    and "t \<le> now \<Longrightarrow> \<not> wq_shuttingDown (base q) \<Longrightarrow> k \<in> wq_dirty (base (waitingLoopTurn now q))"
proof -
  let ?d = "drainInbox now q"
  have d: "\<not> wq_shuttingDown (base ?d) \<and> held t k ?d" if "\<not> wq_shuttingDown (base q)"
    using drainInbox_held [OF that assms] drainInbox_sameWork [of q now] that by (simp add: sameWork_def)
  show "dueBy t k (waitingLoopTurn now q)"
  proof (cases "wq_shuttingDown (base q)")
    case False
    then have "held t k (addReady now ?d)" using addReady_held(1) d by blast
    with False show ?thesis by (auto simp: waitingLoopTurn_def held_def dueBy_def)
  qed (use assms in \<open>simp add: waitingLoopTurn_def\<close>)
  show "k \<in> wq_dirty (base (waitingLoopTurn now q))" if "t \<le> now" "\<not> wq_shuttingDown (base q)"
    using addReady_held(2) [of ?d t k now] d that by (simp add: waitingLoopTurn_def)
qed

text \<open>Adding after a delay: the item is due when the delay has passed.\<close>

lemma AddAfter_some:
  assumes "AddAfter now item d q = Some q'"
  shows "sameWork q q'" and "dueBy t k q \<Longrightarrow> dueBy t k q'"
    and "\<not> wq_shuttingDown (base q) \<Longrightarrow> dueBy (now + max 0 d) item q'"
  using assms
  by (auto simp: AddAfter_def AddNow_def sameWork_def dueBy_def wq_inv_Add split: if_splits)

lemma AddNow_sameWork: "sameWork q (AddNow item q)"
  by (auto simp: AddNow_def sameWork_def wq_inv_Add)

lemma AddNow_due: "dueBy t k q \<Longrightarrow> dueBy t k (AddNow item q)"
  by (auto simp: AddNow_def dueBy_def)

lemma AddRateLimited_some:
  assumes "AddRateLimited now b item q = Some q'" "isControllerLimiter (limiter q)"
  shows "isControllerLimiter (limiter q')"
    and "NumRequeues k (limiter q') = NumRequeues k (limiter q) + (if k = item then 1 else 0)"
    and "wq_processing (base q') = wq_processing (base q)"
    and "wq_shuttingDown (base q') = wq_shuttingDown (base q)"
    and "wq_inv (base q) \<Longrightarrow> wq_inv (base q')"
    and "dueBy t k q \<Longrightarrow> dueBy t k q'"
    and "\<not> wq_shuttingDown (base q) \<Longrightarrow>
      dueBy (now + max (backoff (NumRequeues item (limiter q))) b) item q'"
proof -
  let ?w = "When b item (limiter q)"
  let ?q = "q\<lparr>limiter := snd ?w\<rparr>"
  have a: "AddAfter now item (fst ?w) ?q = Some q'"
    using assms(1) by (simp add: AddRateLimited_def case_prod_beta)
  note w = When_controller(1,2) [OF assms(2), of b item] When_controller(3) [OF assms(2), of k b item]
  note same = AddAfter_some(1) [OF a, unfolded sameWork_def]
  show "isControllerLimiter (limiter q')" using same w by simp
  show "NumRequeues k (limiter q') = NumRequeues k (limiter q) + (if k = item then 1 else 0)"
    using same w by simp
  show "wq_processing (base q') = wq_processing (base q)" using same by simp
  show "wq_shuttingDown (base q') = wq_shuttingDown (base q)" using same by simp
  show "wq_inv (base q) \<Longrightarrow> wq_inv (base q')" using same by simp
  show "dueBy t k q \<Longrightarrow> dueBy t k q'"
    using AddAfter_some(2) [OF a, of t k] by (simp add: dueBy_def)
  show "\<not> wq_shuttingDown (base q) \<Longrightarrow>
      dueBy (now + max (backoff (NumRequeues item (limiter q))) b) item q'"
  proof -
    let ?b = "max (backoff (NumRequeues item (limiter q))) b"
    assume "\<not> wq_shuttingDown (base q)"
    then have "dueBy (now + max 0 ?b) item q'" using AddAfter_some(3) [OF a] w(1) by simp
    moreover have "max 0 ?b = ?b"
      using backoff_pos [of "NumRequeues item (limiter q)"] by (simp add: max_absorb2)
    ultimately show ?thesis by simp
  qed
qed

end
