(* ===== verification/Worker.thy ===== *)
theory Worker imports Rate_Limit Sync begin

text \<open>
  The controller's workers: \<open>worker\<close> and \<open>processNextWorkItem\<close> of \<open>pkg/controller/controller.go\<close>, run
  concurrently by \<open>Run\<close> over the rate limited queue, with the event handlers adding keys and the
  delaying queue's goroutine moving entries beside them. A step is what happens under one lock, or
  one action of a sync; so every interleaving of the goroutines is a run.
\<close>

section \<open>The queue as the workers use it\<close>

definition GetNext :: "rlq \<Rightarrow> (got \<times> rlq) option" where
  "GetNext q = (case Get (base q) of None \<Rightarrow> None | Some (g, b) \<Rightarrow> Some (g, q\<lparr>base := b\<rparr>))"

definition Finish :: "string \<Rightarrow> rlq \<Rightarrow> rlq" where
  "Finish k q = q\<lparr>base := DoneItem k (base q)\<rparr>"

definition rlq_inv :: "rlq \<Rightarrow> bool" where
  "rlq_inv q \<longleftrightarrow> wq_inv (base q) \<and> isControllerLimiter (limiter q)"

definition pendingKeys :: "rlq \<Rightarrow> string set" where
  "pendingKeys q = wq_dirty (base q)"

definition inflightKeys :: "rlq \<Rightarrow> string set" where
  "inflightKeys q = wq_processing (base q)"

definition shutting :: "rlq \<Rightarrow> bool" where
  "shutting q \<longleftrightarrow> wq_shuttingDown (base q)"

lemmas rlq_views = pendingKeys_def inflightKeys_def shutting_def

lemma GetNext_Some:
  "GetNext q = Some (g, q') \<longleftrightarrow> (\<exists>b. Get (base q) = Some (g, b) \<and> q' = q\<lparr>base := b\<rparr>)"
  by (cases "Get (base q)") (auto simp: GetNext_def)

lemma GetNext_None: "GetNext q = None \<longleftrightarrow> Get (base q) = None"
  by (cases "Get (base q)") (auto simp: GetNext_def)

interpretation limited_queue: work_queue AddNow GetNext Finish rlq_inv shutting pendingKeys inflightKeys
proof unfold_locales
  fix q k q'
  assume *: "rlq_inv q" "GetNext q = Some (Item k, q')"
  then obtain b where b: "Get (base q) = Some (Item k, b)" "q' = q\<lparr>base := b\<rparr>"
    unfolding GetNext_Some by blast
  from notebook_queue.get_Item [OF _ b(1)] * b(2)
  show "rlq_inv q' \<and> k \<in> pendingKeys q \<and> k \<notin> inflightKeys q \<and> pendingKeys q' = pendingKeys q - {k}
      \<and> inflightKeys q' = insert k (inflightKeys q) \<and> shutting q' = shutting q"
    by (simp add: rlq_inv_def rlq_views)
next
  fix q q'
  assume *: "rlq_inv q" "GetNext q = Some (Quit, q')"
  then obtain b where b: "Get (base q) = Some (Quit, b)" "q' = q\<lparr>base := b\<rparr>"
    unfolding GetNext_Some by blast
  from notebook_queue.get_Quit [OF _ b(1)] * b(2)
  show "q' = q \<and> shutting q \<and> pendingKeys q \<subseteq> inflightKeys q"
    by (simp add: rlq_inv_def rlq_views)
next
  fix q
  assume "rlq_inv q" "GetNext q = None"
  then show "pendingKeys q \<subseteq> inflightKeys q"
    by (simp add: GetNext_None rlq_inv_def rlq_views notebook_queue.get_blocks)
qed (simp_all add: rlq_inv_def rlq_views AddNow_def Finish_def wq_inv_Add wq_inv_DoneItem)

lemma GetNext_due:
  assumes "GetNext q = Some (g, q')" "dueBy t k q" "g \<noteq> Item k"
  shows "dueBy t k q'"
proof -
  from assms(1) obtain b where b: "Get (base q) = Some (g, b)" "q' = q\<lparr>base := b\<rparr>"
    unfolding GetNext_Some by blast
  have "wq_dirty (base q) \<subseteq> wq_dirty b \<union> (case g of Item i \<Rightarrow> {i} | Quit \<Rightarrow> {})"
    using b(1) by (cases "wq_queue (base q)") (auto simp: Get_def split: if_splits)
  then show ?thesis
    using assms(2,3) b(2) by (cases g) (auto simp: dueBy_def)
qed

section \<open>Workers\<close>

text \<open>The constant of the controller the informers are made with.\<close>

definition resyncPeriod :: nat where
  "resyncPeriod = 5 * Minute"

text \<open>
  \<open>Finishing\<close>: \<open>sync\<close> has returned and its outcome is recorded in the rate limiter; the deferred
  \<open>Done\<close> is still to run. \<open>Stopped\<close>: the worker has returned.
\<close>

datatype wstate =
    Idle
  | Syncing string "go_error option proc"
  | Finishing string
  | Stopped

record ctl =
  queue :: rlq
  workers :: "wstate list"
  now :: int
  crashed :: bool

datatype label =
    Took nat string
  | Quitted nat
  | Acted nat action answer
  | Succeeded nat string
  | Failed nat string int
  | Finished nat string
  | Crashed nat
  | Enqueued string
  | Turned int
  | ShutDowned

definition startWorkers :: "nat \<Rightarrow> int \<Rightarrow> ctl" where
  "startWorkers n t =
     \<lparr> queue = NewNamedRateLimitingQueue DefaultControllerRateLimiter,
       workers = replicate n Idle, now = t, crashed = False \<rparr>"

text \<open>
  A failed sync goes through the rate limiter with the delay its token bucket asks for. A panic
  runs the deferred \<open>Done\<close>, then \<open>HandleCrash\<close> panics again and the process ends.
\<close>

inductive work_step :: "'k crypto \<Rightarrow> 'k Config \<Rightarrow> ctl \<Rightarrow> label \<Rightarrow> ctl \<Rightarrow> bool"
  for cr :: "'k crypto" and cfg :: "'k Config" where
  take: "\<lbrakk> \<not> crashed s; w < length (workers s); workers s ! w = Idle; GetNext (queue s) = Some (Item k, q) \<rbrakk>
    \<Longrightarrow> work_step cr cfg s (Took w k)
          (s\<lparr>queue := q, workers := (workers s)[w := Syncing k (sync cr d cfg k)]\<rparr>)"
| quit: "\<lbrakk> \<not> crashed s; w < length (workers s); workers s ! w = Idle; GetNext (queue s) = Some (Quit, q) \<rbrakk>
    \<Longrightarrow> work_step cr cfg s (Quitted w) (s\<lparr>queue := q, workers := (workers s)[w := Stopped]\<rparr>)"
| act: "\<lbrakk> \<not> crashed s; w < length (workers s); workers s ! w = Syncing k (Act a f); fits a r \<rbrakk>
    \<Longrightarrow> work_step cr cfg s (Acted w a r) (s\<lparr>workers := (workers s)[w := Syncing k (f r)]\<rparr>)"
| succeed: "\<lbrakk> \<not> crashed s; w < length (workers s); workers s ! w = Syncing k (Done None) \<rbrakk>
    \<Longrightarrow> work_step cr cfg s (Succeeded w k)
          (s\<lparr>queue := Forget k (queue s), workers := (workers s)[w := Finishing k]\<rparr>)"
| fail: "\<lbrakk> \<not> crashed s; w < length (workers s); workers s ! w = Syncing k (Done (Some e));
      AddRateLimited (now s) b k (queue s) = Some q \<rbrakk>
    \<Longrightarrow> work_step cr cfg s (Failed w k b) (s\<lparr>queue := q, workers := (workers s)[w := Finishing k]\<rparr>)"
| finish: "\<lbrakk> \<not> crashed s; w < length (workers s); workers s ! w = Finishing k \<rbrakk>
    \<Longrightarrow> work_step cr cfg s (Finished w k)
          (s\<lparr>queue := Finish k (queue s), workers := (workers s)[w := Idle]\<rparr>)"
| crash: "\<lbrakk> \<not> crashed s; w < length (workers s); workers s ! w = Syncing k (Crash m) \<rbrakk>
    \<Longrightarrow> work_step cr cfg s (Crashed w)
          (s\<lparr>queue := Finish k (queue s), workers := (workers s)[w := Stopped], crashed := True\<rparr>)"
| enqueued: "\<not> crashed s \<Longrightarrow> work_step cr cfg s (Enqueued k) (s\<lparr>queue := AddNow k (queue s)\<rparr>)"
| turn: "\<lbrakk> \<not> crashed s; now s \<le> t \<rbrakk>
    \<Longrightarrow> work_step cr cfg s (Turned t) (s\<lparr>queue := waitingLoopTurn t (queue s), now := t\<rparr>)"
| shut: "\<not> crashed s \<Longrightarrow> work_step cr cfg s ShutDowned (s\<lparr>queue := ShutDownQueue (queue s)\<rparr>)"

inductive work_steps :: "'k crypto \<Rightarrow> 'k Config \<Rightarrow> ctl \<Rightarrow> label list \<Rightarrow> ctl \<Rightarrow> bool"
  for cr :: "'k crypto" and cfg :: "'k Config" where
  none: "work_steps cr cfg s [] s"
| more: "work_step cr cfg s l s' \<Longrightarrow> work_steps cr cfg s' ls s'' \<Longrightarrow> work_steps cr cfg s (l # ls) s''"

inductive_simps work_steps_Nil [simp]: "work_steps cr cfg s [] s'"
inductive_simps work_steps_Cons [simp]: "work_steps cr cfg s (l # ls) s'"

section \<open>Which worker has which key\<close>

fun keyOf :: "wstate \<Rightarrow> string option" where
  "keyOf (Syncing k p) = Some k"
| "keyOf (Finishing k) = Some k"
| "keyOf Idle = None"
| "keyOf Stopped = None"

definition busy :: "wstate list \<Rightarrow> nat \<rightharpoonup> string" where
  "busy ws w = (if w < length ws then keyOf (ws ! w) else None)"

definition pool_ok :: "wstate list \<Rightarrow> string set \<Rightarrow> bool" where
  "pool_ok ws P \<longleftrightarrow> ran (busy ws) = P \<and> inj_on (busy ws) (dom (busy ws))"

lemma busy_update: "w < length ws \<Longrightarrow> busy (ws[w := x]) = (busy ws)(w := keyOf x)"
  by (rule ext) (simp add: busy_def nth_list_update)

lemma pool_take:
  assumes "pool_ok ws P" "w < length ws" "keyOf (ws ! w) = None" "k \<notin> P" "keyOf x = Some k"
  shows "pool_ok (ws[w := x]) (insert k P)"
proof -
  have "busy ws w = None" using assms(2,3) by (simp add: busy_def)
  moreover have "busy ws v \<noteq> Some k" for v using assms(1,4) by (auto simp: pool_ok_def ran_def)
  ultimately show ?thesis
    using assms(1) unfolding pool_ok_def busy_update [OF assms(2)] assms(5)
    by (auto simp: inj_on_def)
qed

lemma pool_key: "pool_ok ws P \<Longrightarrow> w < length ws \<Longrightarrow> keyOf (ws ! w) = Some k \<Longrightarrow> k \<in> P"
  by (auto simp: pool_ok_def ran_def busy_def)

lemma pool_same:
  assumes "pool_ok ws P" "w < length ws" "keyOf x = keyOf (ws ! w)"
  shows "pool_ok (ws[w := x]) P"
proof -
  have "(busy ws)(w := keyOf x) = busy ws" using assms(2,3) by (auto simp: busy_def)
  then show ?thesis using assms(1,2) by (simp add: pool_ok_def busy_update)
qed

lemma pool_release:
  assumes "pool_ok ws P" "w < length ws" "keyOf (ws ! w) = Some k" "keyOf x = None"
  shows "pool_ok (ws[w := x]) (P - {k})"
proof -
  have w: "busy ws w = Some k" using assms(2,3) by (simp add: busy_def)
  have only: "v = w" if "busy ws v = Some k" for v
    using assms(1) w that unfolding pool_ok_def by (metis domI inj_onD)
  have "ran ((busy ws)(w := None)) = ran (busy ws) - {k}"
  proof (intro set_eqI iffI)
    fix x
    assume "x \<in> ran ((busy ws)(w := None))"
    then obtain v where "v \<noteq> w" "busy ws v = Some x" by (auto simp: ran_def split: if_splits)
    with only show "x \<in> ran (busy ws) - {k}" by (auto simp: ran_def)
  next
    fix x
    assume x: "x \<in> ran (busy ws) - {k}"
    then obtain v where v: "busy ws v = Some x" by (auto simp: ran_def)
    then have "v \<noteq> w" using x w by auto
    with v have "((busy ws)(w := None)) v = Some x" by simp
    then show "x \<in> ran ((busy ws)(w := None))" by (rule ranI)
  qed
  moreover have "inj_on ((busy ws)(w := None)) (dom ((busy ws)(w := None)))"
  proof (rule inj_onI)
    fix u v
    assume *: "u \<in> dom ((busy ws)(w := None))" "v \<in> dom ((busy ws)(w := None))"
      "((busy ws)(w := None)) u = ((busy ws)(w := None)) v"
    then have ne: "u \<noteq> w" "v \<noteq> w" by auto
    with * have "busy ws u = busy ws v" "u \<in> dom (busy ws)" "v \<in> dom (busy ws)" by simp_all
    moreover have "inj_on (busy ws) (dom (busy ws))" using assms(1) by (simp add: pool_ok_def)
    ultimately show "u = v" by (rule inj_onD [rotated 1])
  qed
  ultimately show ?thesis
    using assms(1) by (simp add: pool_ok_def busy_update [OF assms(2)] assms(4))
qed

definition ctl_inv :: "ctl \<Rightarrow> bool" where
  "ctl_inv s \<longleftrightarrow> rlq_inv (queue s) \<and> pool_ok (workers s) (inflightKeys (queue s))"

lemma rlq_inv_init: "rlq_inv (NewNamedRateLimitingQueue DefaultControllerRateLimiter)"
  by (simp add: rlq_inv_def NewNamedRateLimitingQueue_def wq_inv_New)

lemma ctl_inv_init: "ctl_inv (startWorkers n t)"
proof -
  have "busy (replicate n Idle) = Map.empty" by (rule ext) (simp add: busy_def)
  then show ?thesis
    using rlq_inv_init
    by (simp add: ctl_inv_def startWorkers_def pool_ok_def inflightKeys_def NewNamedRateLimitingQueue_def New_def)
qed

lemma sameWork_rlq:
  assumes "sameWork q q'" "rlq_inv q"
  shows "rlq_inv q'" "inflightKeys q' = inflightKeys q" "pendingKeys q \<subseteq> pendingKeys q'" "shutting q' = shutting q"
  using assms by (auto simp: sameWork_def rlq_inv_def rlq_views)

text \<open>A worker keeps its key, or gives it up.\<close>

lemma ctl_inv_keep:
  assumes "ctl_inv s" "w < length (workers s)" "keyOf x = keyOf (workers s ! w)"
    and "workers s' = (workers s)[w := x]" "rlq_inv (queue s')" "inflightKeys (queue s') = inflightKeys (queue s)"
  shows "ctl_inv s'"
  using assms by (simp add: ctl_inv_def pool_same)

lemma ctl_inv_release:
  assumes "ctl_inv s" "w < length (workers s)" "keyOf (workers s ! w) = Some k" "keyOf x = None"
    and "workers s' = (workers s)[w := x]" "queue s' = Finish k (queue s)"
  shows "ctl_inv s'"
proof -
  have "k \<in> inflightKeys (queue s)" using assms(1-3) pool_key [of "workers s" _ w k] by (simp add: ctl_inv_def)
  moreover have "pool_ok (workers s') (inflightKeys (queue s) - {k})"
    using assms by (simp add: ctl_inv_def pool_release)
  ultimately show ?thesis
    using assms(1,6) by (simp add: ctl_inv_def limited_queue.fin_inv limited_queue.fin_sets)
qed

lemma work_step_inv:
  assumes "work_step cr cfg s l s'" "ctl_inv s"
  shows "ctl_inv s'"
  using assms
proof cases
  case (take w k q d)
  from limited_queue.get_Item [OF _ take(6)] assms(2)
  have q: "rlq_inv q" "k \<notin> inflightKeys (queue s)" "inflightKeys q = insert k (inflightKeys (queue s))"
    by (auto simp: ctl_inv_def)
  have "pool_ok ((workers s)[w := Syncing k (sync cr d cfg k)]) (insert k (inflightKeys (queue s)))"
    by (rule pool_take) (use assms(2) take q in \<open>simp_all add: ctl_inv_def\<close>)
  with q take show ?thesis by (simp add: ctl_inv_def)
next
  case (quit w q)
  from limited_queue.get_Quit [OF _ quit(6)] assms(2) have "q = queue s" by (auto simp: ctl_inv_def)
  show ?thesis
    by (rule ctl_inv_keep [of s w Stopped]) (use quit \<open>q = queue s\<close> assms(2) in \<open>simp_all add: ctl_inv_def\<close>)
next
  case (act w k a f r)
  show ?thesis
    by (rule ctl_inv_keep [of s w "Syncing k (f r)"]) (use act assms(2) in \<open>simp_all add: ctl_inv_def\<close>)
next
  case (succeed w k)
  show ?thesis
    by (rule ctl_inv_keep [of s w "Finishing k"])
       (use succeed assms(2) in \<open>simp_all add: ctl_inv_def rlq_inv_def rlq_views Forget_def Forget_controller\<close>)
next
  case (fail w k e b q)
  with AddRateLimited_some [OF fail(6)] assms(2) show ?thesis
    by (simp add: ctl_inv_def rlq_inv_def rlq_views pool_same)
next
  case (finish w k)
  show ?thesis by (rule ctl_inv_release [of s w k Idle]) (use finish assms(2) in simp_all)
next
  case (crash w k m)
  show ?thesis by (rule ctl_inv_release [of s w k Stopped]) (use crash assms(2) in simp_all)
next
  case (enqueued k)
  with assms(2) show ?thesis
    by (simp add: ctl_inv_def limited_queue.inv_add limited_queue.inflight_add)
next
  case (turn t)
  with assms(2) sameWork_rlq [OF waitingLoopTurn_sameWork, of "queue s" t] show ?thesis
    by (simp add: ctl_inv_def)
next
  case shut
  with assms(2) wq_inv_ShutDown [of "base (queue s)"] show ?thesis
    by (simp add: ctl_inv_def rlq_inv_def rlq_views ShutDownQueue_def ShutDown_def)
qed

lemma work_steps_inv: "work_steps cr cfg s ls s' \<Longrightarrow> ctl_inv s \<Longrightarrow> ctl_inv s'"
  by (induction rule: work_steps.induct) (auto dest: work_step_inv)

lemma work_steps_append:
  "work_steps cr cfg s (ls @ ls') s'' \<longleftrightarrow> (\<exists>s'. work_steps cr cfg s ls s' \<and> work_steps cr cfg s' ls' s'')"
by (induction ls arbitrary: s) auto

text \<open>A run that has the label \<open>l\<close> in its middle passes through the step.\<close>

lemma work_steps_middle:
  assumes "work_steps cr cfg s (ls @ l # ls') s''"
  obtains s1 s2 where "work_steps cr cfg s ls s1" "work_step cr cfg s1 l s2" "work_steps cr cfg s2 ls' s''"
  using assms by (auto simp: work_steps_append)

section \<open>What the labels of a run determine\<close>

definition clockOf :: "int \<Rightarrow> label list \<Rightarrow> int" where
  "clockOf t ls = foldl (\<lambda>t l. case l of Turned t' \<Rightarrow> t' | _ \<Rightarrow> t) t ls"

text \<open>The failures of a notebook since its last success.\<close>

definition failuresIn :: "string \<Rightarrow> label list \<Rightarrow> nat" where
  "failuresIn k ls =
     foldl (\<lambda>n l. case l of Failed w i b \<Rightarrow> if i = k then n + 1 else n
                   | Succeeded w i \<Rightarrow> if i = k then 0 else n
                   | _ \<Rightarrow> n) 0 ls"

lemma clockOf_snoc [simp]: "clockOf t (ls @ [l]) = (case l of Turned t' \<Rightarrow> t' | _ \<Rightarrow> clockOf t ls)"
  by (simp add: clockOf_def split: label.split)

lemma failuresIn_snoc [simp]:
  "failuresIn k (ls @ [l]) =
     (case l of Failed w i b \<Rightarrow> if i = k then failuresIn k ls + 1 else failuresIn k ls
      | Succeeded w i \<Rightarrow> if i = k then 0 else failuresIn k ls
      | _ \<Rightarrow> failuresIn k ls)"
  by (simp add: failuresIn_def split: label.split)

lemma GetNext_base: "GetNext q = Some (g, q') \<Longrightarrow> limiter q' = limiter q"
  by (auto simp: GetNext_Some)

lemma work_step_limiter:
  assumes "work_step cr cfg s l s'" "ctl_inv s"
  shows "now s' = (case l of Turned t \<Rightarrow> t | _ \<Rightarrow> now s)"
    and "NumRequeues k (limiter (queue s')) =
      (case l of Failed w i b \<Rightarrow> if i = k then NumRequeues k (limiter (queue s)) + 1 else NumRequeues k (limiter (queue s))
       | Succeeded w i \<Rightarrow> if i = k then 0 else NumRequeues k (limiter (queue s))
       | _ \<Rightarrow> NumRequeues k (limiter (queue s)))"
    and "shutting (queue s') \<longleftrightarrow> shutting (queue s) \<or> l = ShutDowned"
proof -
  have lim: "isControllerLimiter (limiter (queue s))" using assms(2) by (simp add: ctl_inv_def rlq_inv_def)
  have same: "limiter (waitingLoopTurn t (queue s)) = limiter (queue s)"
    "wq_shuttingDown (base (waitingLoopTurn t (queue s))) = wq_shuttingDown (base (queue s))" for t
    using waitingLoopTurn_sameWork [of "queue s" t] by (simp_all add: sameWork_def)
  have inv: "rlq_inv (queue s)" using assms(2) by (simp add: ctl_inv_def)
  have shut: "shutting q = shutting (queue s)" if "GetNext (queue s) = Some (g, q)" for g q
    using limited_queue.get_Item [OF inv] limited_queue.get_Quit [OF inv] that by (cases g) auto
  show "now s' = (case l of Turned t \<Rightarrow> t | _ \<Rightarrow> now s)"
    using assms(1) by cases simp_all
  show "shutting (queue s') \<longleftrightarrow> shutting (queue s) \<or> l = ShutDowned"
    using assms(1)
    by cases (auto dest: shut simp: same limited_queue.closed_add limited_queue.fin_sets
        shutting_def Forget_def AddRateLimited_some(4) [OF _ lim] ShutDownQueue_def ShutDown_def
        AddNow_def Finish_def)
  show "NumRequeues k (limiter (queue s')) =
      (case l of Failed w i b \<Rightarrow> if i = k then NumRequeues k (limiter (queue s)) + 1 else NumRequeues k (limiter (queue s))
       | Succeeded w i \<Rightarrow> if i = k then 0 else NumRequeues k (limiter (queue s))
       | _ \<Rightarrow> NumRequeues k (limiter (queue s)))"
    using assms(1)
    by cases (simp_all add: same Forget_def Forget_controller(2) [OF lim] AddRateLimited_some(2) [OF _ lim]
        AddNow_def Finish_def ShutDownQueue_def GetNext_base)
qed

lemma work_steps_labels:
  assumes "work_steps cr cfg (startWorkers n t) ls s"
  shows "now s = clockOf t ls" and "NumRequeues k (limiter (queue s)) = failuresIn k ls"
    and "shutting (queue s) \<longleftrightarrow> ShutDowned \<in> set ls"
proof -
  have "now s = clockOf t ls \<and> NumRequeues k (limiter (queue s)) = failuresIn k ls
      \<and> (shutting (queue s) \<longleftrightarrow> ShutDowned \<in> set ls)"
    using assms
  proof (induction ls arbitrary: s rule: rev_induct)
    case Nil
    then have "s = startWorkers n t" by simp
    then show ?case
      by (simp add: startWorkers_def clockOf_def failuresIn_def NewNamedRateLimitingQueue_def New_def
          DefaultControllerRateLimiter_def NewItemExponentialFailureRateLimiter_def failuresOf_def shutting_def)
  next
    case (snoc l ls)
    then obtain s1 where run: "work_steps cr cfg (startWorkers n t) ls s1" and step: "work_step cr cfg s1 l s"
      by (auto simp: work_steps_append)
    note inv = work_steps_inv [OF run ctl_inv_init]
    from snoc.IH [OF run] work_step_limiter(1,3) [OF step inv] work_step_limiter(2) [OF step inv, of k] show ?case
      by (simp split: label.split)
  qed
  then show "now s = clockOf t ls" "NumRequeues k (limiter (queue s)) = failuresIn k ls"
    "shutting (queue s) \<longleftrightarrow> ShutDowned \<in> set ls" by auto
qed

section \<open>Nothing is forgotten\<close>

lemma work_step_due:
  assumes "work_step cr cfg s l s'" "ctl_inv s" "dueBy t k (queue s)" "\<And>w. l \<noteq> Took w k"
  shows "dueBy t k (queue s')"
proof -
  have lim: "isControllerLimiter (limiter (queue s))" using assms(2) by (simp add: ctl_inv_def rlq_inv_def)
  show ?thesis
    using assms(1)
  proof cases
    case (take w i q d)
    with assms(4) have "Item i \<noteq> Item k" by auto
    from GetNext_due [OF take(6) assms(3) this] take show ?thesis by simp
  next
    case (quit w q)
    from GetNext_due [OF quit(6) assms(3)] quit show ?thesis by simp
  next
    case (fail w i e b q)
    from AddRateLimited_some(6) [OF fail(6) lim assms(3)] fail show ?thesis by simp
  next
    case (turn t')
    from waitingLoopTurn_due(1) [OF assms(3)] turn show ?thesis by simp
  next
    case (enqueued i)
    from AddNow_due [OF assms(3)] enqueued show ?thesis by simp
  qed (use assms(3) in \<open>simp_all add: dueBy_def Forget_def Finish_def ShutDownQueue_def ShutDown_def\<close>)
qed

lemma work_steps_due:
  assumes "work_steps cr cfg s ls s'" "ctl_inv s" "dueBy t k (queue s)"
  shows "(\<exists>w. Took w k \<in> set ls) \<or> dueBy t k (queue s')"
  using assms
proof (induction rule: work_steps.induct)
  case (more s l s' ls s'')
  show ?case
  proof (cases "\<exists>w. l = Took w k")
    case False
    with work_step_due [OF more(1,4,5)] have "dueBy t k (queue s')" by blast
    from more(3) [OF work_step_inv [OF more(1,4)] this] show ?thesis by auto
  qed auto
qed simp

lemma work_step_pending:
  assumes "work_step cr cfg s l s'" "ctl_inv s" "k \<in> pendingKeys (queue s)" "\<And>w. l \<noteq> Took w k"
  shows "k \<in> pendingKeys (queue s')"
proof -
  have inv: "rlq_inv (queue s)" using assms(2) by (simp add: ctl_inv_def)
  show ?thesis
    using assms(1)
  proof cases
    case (take w i q d)
    with limited_queue.get_Item [OF inv take(6)] assms(3,4) show ?thesis by auto
  next
    case (quit w q)
    with limited_queue.get_Quit [OF inv quit(6)] assms(3) show ?thesis by auto
  next
    case (fail w i e b q)
    have "pendingKeys (queue s) \<subseteq> pendingKeys q"
      using fail(6) by (auto simp: AddRateLimited_def AddAfter_def AddNow_def rlq_views case_prod_beta split: if_splits)
    with fail assms(3) show ?thesis by auto
  next
    case (turn t')
    with sameWork_rlq(3) [OF waitingLoopTurn_sameWork inv] assms(3) show ?thesis by auto
  next
    case (enqueued i)
    with assms(3) limited_queue.pending_add [OF inv, of i] show ?thesis by (auto split: if_splits)
  qed (use assms(3) in \<open>simp_all add: rlq_views Forget_def Finish_def ShutDownQueue_def ShutDown_def\<close>)
qed

lemma pending_stays:
  assumes "work_steps cr cfg s ls s'" "ctl_inv s" "k \<in> pendingKeys (queue s)"
  shows "(\<exists>w. Took w k \<in> set ls) \<or> k \<in> pendingKeys (queue s')"
  using assms
proof (induction rule: work_steps.induct)
  case (more s l s' ls s'')
  show ?case
  proof (cases "\<exists>w. l = Took w k")
    case False
    with work_step_pending [OF more(1,4,5)] have "k \<in> pendingKeys (queue s')" by blast
    from more(3) [OF work_step_inv [OF more(1,4)] this] show ?thesis by auto
  qed auto
qed simp

text \<open>A turn of the delaying queue at or after the time an item is due puts it in the queue.\<close>

lemma turned_pending:
  assumes "work_steps cr cfg s ls s'" "ctl_inv s" "\<not> shutting (queue s)" "dueBy t k (queue s)"
    and "\<exists>t' \<ge> t. Turned t' \<in> set ls" "ShutDowned \<notin> set ls"
  shows "(\<exists>w. Took w k \<in> set ls) \<or> k \<in> pendingKeys (queue s')"
  using assms
proof (induction rule: work_steps.induct)
  case (more s l s' ls s'')
  note inv' = work_step_inv [OF more(1,4)]
  have open': "\<not> shutting (queue s')" using work_step_limiter(3) [OF more(1,4)] more(5,8) by auto
  consider (took) w where "l = Took w k" | (turned) t' where "l = Turned t'" "t \<le> t'"
    | (other) "\<And>w. l \<noteq> Took w k" "\<exists>t' \<ge> t. Turned t' \<in> set ls" using more(7) by auto
  then show ?case
  proof cases
    case turned
    have "k \<in> pendingKeys (queue s')"
      using more(1) turned waitingLoopTurn_due(2) [OF more(6) turned(2)] more(5)
      by cases (simp_all add: rlq_views)
    from pending_stays [OF more(2) inv' this] show ?thesis by auto
  next
    case other
    from more(3) [OF inv' open' work_step_due [OF more(1,4,6) other(1)] other(2)] more(8)
    show ?thesis by auto
  qed auto
qed simp

section \<open>The queue is first in, first out\<close>

definition queued :: "ctl \<Rightarrow> string list" where
  "queued s = wq_queue (base (queue s))"

fun isTook :: "label \<Rightarrow> bool" where
  "isTook (Took w k) = True"
| "isTook _ = False"

text \<open>A step takes at most the head of the queue, and adds only at its end.\<close>

definition grows :: "string list \<Rightarrow> string list \<Rightarrow> bool" where
  "grows ks ks' \<longleftrightarrow> (\<exists>new. ks' = ks @ new)"

lemma grows_refl [simp]: "grows ks ks"
  by (simp add: grows_def)

lemma grows_trans: "grows ks ks' \<Longrightarrow> grows ks' ks'' \<Longrightarrow> grows ks ks''"
  by (auto simp: grows_def)

lemma grows_Add: "grows (wq_queue q) (wq_queue (Add k q))"
  by (auto simp: grows_def Add_def Let_def)

lemma grows_DoneItem: "grows (wq_queue q) (wq_queue (DoneItem k q))"
  by (auto simp: grows_def DoneItem_def Let_def)

lemma grows_fold_Add: "grows (wq_queue q) (wq_queue (fold Add ks q))"
  by (induction ks arbitrary: q) (auto intro: grows_trans grows_Add)

lemma grows_receive: "grows (wq_queue (base q)) (wq_queue (base (fold (receiveEntry t) es q)))"
proof (induction es arbitrary: q)
  case (Cons e es)
  have "grows (wq_queue (base q)) (wq_queue (base (receiveEntry t e q)))"
    by (simp add: receiveEntry_def AddNow_def grows_Add)
  with Cons [of "receiveEntry t e q"] show ?case by (auto intro: grows_trans)
qed simp

lemma grows_turn: "grows (wq_queue (base q)) (wq_queue (base (waitingLoopTurn t q)))"
proof -
  have "grows (wq_queue (base q)) (wq_queue (base (drainInbox t q)))"
    using grows_receive [of "q\<lparr>inbox := []\<rparr>" t "inbox q"] by (simp add: drainInbox_def)
  moreover have "grows (wq_queue (base q')) (wq_queue (base (addReady t q')))" for q'
    by (simp add: addReady_def case_prod_beta grows_fold_Add)
  ultimately show ?thesis by (auto simp: waitingLoopTurn_def intro: grows_trans)
qed

lemma grows_AddAfter: "AddAfter t k d q = Some q' \<Longrightarrow> grows (wq_queue (base q)) (wq_queue (base q'))"
  by (auto simp: AddAfter_def AddNow_def grows_Add split: if_splits)

lemma grows_AddRateLimited:
  "AddRateLimited t b k q = Some q' \<Longrightarrow> grows (wq_queue (base q)) (wq_queue (base q'))"
  using grows_AddAfter by (fastforce simp: AddRateLimited_def case_prod_beta)

lemma work_step_queue:
  assumes "work_step cr cfg s l s'"
  shows "grows (if isTook l then tl (queued s) else queued s) (queued s')"
    and "l = Took w k \<Longrightarrow> \<exists>rest. queued s = k # rest"
proof -
  have took: "\<exists>rest. wq_queue (base q) = k # rest \<and> wq_queue (base q') = rest"
    if "GetNext q = Some (Item k, q')" for k q q'
    using that by (cases "wq_queue (base q)") (auto simp: GetNext_Some Get_def split: if_splits)
  have quit: "wq_queue (base q') = wq_queue (base q)" if "GetNext q = Some (Quit, q')" for q q'
    using that by (cases "wq_queue (base q)") (auto simp: GetNext_Some Get_def split: if_splits)
  show "grows (if isTook l then tl (queued s) else queued s) (queued s')"
    using assms
    by cases (auto simp: queued_def Forget_def Finish_def AddNow_def ShutDownQueue_def ShutDown_def
        grows_Add grows_DoneItem grows_turn dest: took quit grows_AddRateLimited)
  show "l = Took w k \<Longrightarrow> \<exists>rest. queued s = k # rest"
    using assms by cases (auto simp: queued_def dest: took)
qed

lemma queue_order:
  assumes "work_steps cr cfg s ls s'" "queued s = pre @ k # post"
  shows "(\<exists>w. Took w k \<in> set ls) \<or>
    (\<exists>pre' post'. queued s' = pre' @ k # post' \<and> length (filter isTook ls) + length pre' = length pre)"
  using assms
proof (induction arbitrary: pre post rule: work_steps.induct)
  case (more s l s' ls s'')
  note step = work_step_queue [OF more(1)]
  show ?case
  proof (cases "isTook l")
    case False
    with step(1) more(4) obtain post1 where "queued s' = pre @ k # post1" by (auto simp: grows_def)
    from more(3) [OF this] False show ?thesis by auto
  next
    case True
    then obtain w i where l: "l = Took w i" by (cases l) auto
    show ?thesis
    proof (cases pre)
      case Nil
      with step(2) [OF l] more(4) l show ?thesis by auto
    next
      case (Cons j pre1)
      with step(1) True more(4) obtain post1 where "queued s' = pre1 @ k # post1" by (auto simp: grows_def)
      from more(3) [OF this] True Cons show ?thesis by auto
    qed
  qed
qed auto

section \<open>Properties\<close>

text \<open>
  C2: no notebook is synced by two workers at once. In every run of the workers from the start, two
  workers that hold the same key are the same worker.
\<close>

theorem one_worker_per_notebook:
  assumes "work_steps cr cfg (startWorkers n t) ls s"
    and "v < length (workers s)" "w < length (workers s)"
    and "keyOf (workers s ! v) = Some k" "keyOf (workers s ! w) = Some k"
  shows "v = w"
proof -
  have "pool_ok (workers s) (inflightKeys (queue s))"
    using work_steps_inv [OF assms(1) ctl_inv_init] by (simp add: ctl_inv_def)
  moreover have "busy (workers s) v = Some k" "busy (workers s) w = Some k"
    using assms(2-5) by (simp_all add: busy_def)
  ultimately show ?thesis unfolding pool_ok_def by (metis domI inj_onD)
qed


text \<open>
  C11: a failed sync is retried with exponential back-off. After the failure of a notebook that has
  failed \<open>m\<close> times in a row before, either a worker takes it again, or it is in the queue, or an
  entry waits that puts it there after the longer of the token bucket's delay and
  \<open>min (1000 s) (5 ms * 2 ^ m)\<close>; and once the delaying queue has turned at or after that time, it
  is in the queue unless the controller was shut down.
\<close>

theorem failure_is_retried:
  assumes "work_steps cr cfg (startWorkers n t) (ls @ Failed w k b # ls') s" "ShutDowned \<notin> set ls"
    and due: "due = clockOf t ls + max (backoff (failuresIn k ls)) b"
  shows "(\<exists>v. Took v k \<in> set ls') \<or>
     (dueBy due k (queue s) \<and>
      ((\<exists>t' \<ge> due. Turned t' \<in> set ls') \<longrightarrow> ShutDowned \<notin> set ls' \<longrightarrow> k \<in> pendingKeys (queue s)))"
proof -
  obtain s1 s2 where run: "work_steps cr cfg (startWorkers n t) ls s1"
    and step: "work_step cr cfg s1 (Failed w k b) s2" and rest: "work_steps cr cfg s2 ls' s"
    using assms(1) by (rule work_steps_middle)
  note inv = work_steps_inv [OF run ctl_inv_init]
  note labels = work_steps_labels(1,3) [OF run] work_steps_labels(2) [OF run, of k]
  have lim: "isControllerLimiter (limiter (queue s1))" using inv by (simp add: ctl_inv_def rlq_inv_def)
  have due2: "dueBy due k (queue s2)"
    using step
  proof cases
    case (fail e q)
    from AddRateLimited_some(7) [OF fail(5) lim] labels assms(2) fail due show ?thesis
      by (simp add: shutting_def)
  qed
  have open2: "\<not> shutting (queue s2)"
    using work_step_limiter(3) [OF step inv] labels assms(2) by simp
  note inv2 = work_step_inv [OF step inv]
  show ?thesis
    using work_steps_due [OF rest inv2 due2] turned_pending [OF rest inv2 open2 due2] by blast
qed

text \<open>
  C24: the queue is fair. While a notebook is in the queue, workers take at most as many other keys as
  were before it before they take it, whatever is added meanwhile; it keeps its place otherwise.
\<close>

theorem queue_is_fair:
  assumes "work_steps cr cfg s ls s'" "queued s = pre @ k # post" "length pre < length (filter isTook ls)"
  shows "\<exists>w. Took w k \<in> set ls"
  using queue_order [OF assms(1,2)] assms(3) by auto

text \<open>
  An idle worker does not starve. In every state the workers reach, if some key is pending and no
  worker holds it, any idle worker can take a key.
\<close>

theorem idle_worker_takes:
  assumes "work_steps cr cfg (startWorkers n t) ls s" "\<not> crashed s"
    and "k \<in> pendingKeys (queue s)" "\<forall>v < length (workers s). keyOf (workers s ! v) \<noteq> Some k"
    and "w < length (workers s)" "workers s ! w = Idle"
  shows "\<exists>i s'. work_step cr cfg s (Took w i) s'"
proof -
  note inv = work_steps_inv [OF assms(1) ctl_inv_init]
  have "inflightKeys (queue s) = ran (busy (workers s))" using inv by (simp add: ctl_inv_def pool_ok_def)
  then have "k \<notin> inflightKeys (queue s)" using assms(4) by (auto simp: ran_def busy_def split: if_splits)
  with assms(3) have "\<not> pendingKeys (queue s) \<subseteq> inflightKeys (queue s)" by blast
  then obtain g q where g: "GetNext (queue s) = Some (g, q)" "g \<noteq> Quit"
    using limited_queue.get_blocks [of "queue s"] limited_queue.get_Quit [of "queue s"] inv
    by (cases "GetNext (queue s)") (auto simp: ctl_inv_def)
  then obtain i where "g = Item i" by (cases g) auto
  with work_step.take [OF assms(2,5,6)] g show ?thesis by blast
qed

end
