(* ===== verification/OpenAPI_Schema.thy ===== *)
theory OpenAPI_Schema
  imports Prelude
begin

text \<open>
  The OpenAPI types of the generated file pkg/apis/jupyter/v1/openapi_generated.go: type names,
  schemas (spec.Schema with the SchemaProps it embeds), definitions and the reference callback.
  A Go type name is a package path and a name; the package is a constructor here and
  \<open>type_path\<close> gives the string the Go code uses, which determines the name (\<open>type_path_inj\<close>).
  A Go map literal is the list of its pairs, in the order they are written. The fields of
  spec.Schema that no schema of the file sets have no counterpart, and neither has Description,
  whose text nothing in the program inspects.
\<close>

datatype type_name =
    JupyterV1 string
  | CoreV1 string
  | MetaV1 string
  | ExtensionsV1beta1 string
  | ApiResource string
  | UtilIntstr string
  | ApiRuntime string

fun type_path :: "type_name \<Rightarrow> string" where
  "type_path (JupyterV1 t) = ''github.com/squat/jupyter-operator/pkg/apis/jupyter/v1.'' @ t"
| "type_path (CoreV1 t) = ''k8s.io/api/core/v1.'' @ t"
| "type_path (MetaV1 t) = ''k8s.io/apimachinery/pkg/apis/meta/v1.'' @ t"
| "type_path (ExtensionsV1beta1 t) = ''k8s.io/api/extensions/v1beta1.'' @ t"
| "type_path (ApiResource t) = ''k8s.io/apimachinery/pkg/api/resource.'' @ t"
| "type_path (UtilIntstr t) = ''k8s.io/apimachinery/pkg/util/intstr.'' @ t"
| "type_path (ApiRuntime t) = ''k8s.io/apimachinery/pkg/runtime.'' @ t"

lemma type_path_inj: "type_path m = type_path n \<longleftrightarrow> m = n"
  by (cases m; cases n) simp_all

text \<open>A spec.Ref is the name it was made from, or the zero Ref, whose String is empty.\<close>

type_synonym Ref = "type_name option"
type_synonym ReferenceCallback = "type_name \<Rightarrow> Ref"

datatype Schema = Schema
  (SchemaRef: Ref)
  (SchemaType: "string list")
  (SchemaFormat: string)
  (SchemaItems: "Schema option")
  (SchemaProperties: "(string \<times> Schema) list")
  (SchemaAdditional: "Schema option")
  (SchemaAnyOf: "Schema list")
  (SchemaRequired: "string list")
  (SchemaExtensions: "(string \<times> string) list")

record OpenAPIDefinition =
  DefSchema :: Schema
  DefDependencies :: "type_name list"

type_synonym openapi_spec = "(type_name \<times> OpenAPIDefinition) list"

definition zeroSchema :: Schema where
  "zeroSchema = Schema None [] '''' None [] None [] [] []"

text \<open>The literals the generated functions are written with.\<close>

definition prim :: "string \<Rightarrow> string \<Rightarrow> Schema" where
  "prim t f = Schema None [t] f None [] None [] [] []"

definition refTo :: "Ref \<Rightarrow> Schema" where
  "refTo r = Schema r [] '''' None [] None [] [] []"

definition arrayOf :: "Schema \<Rightarrow> Schema" where
  "arrayOf s = Schema None [''array''] '''' (Some s) [] None [] [] []"

text \<open>AdditionalProperties with Allows true, as every map of the file has it.\<close>

definition mapOf :: "Schema \<Rightarrow> Schema" where
  "mapOf s = Schema None [''object''] '''' None [] (Some s) [] [] []"

definition objectOf :: "(string \<times> Schema) list \<Rightarrow> string list \<Rightarrow> Schema" where
  "objectOf props req = Schema None [''object''] '''' None props None [] req []"

definition extended :: "(string \<times> string) list \<Rightarrow> Schema \<Rightarrow> Schema" where
  "extended ext s = (case s of Schema r t f i p a y q _ \<Rightarrow> Schema r t f i p a y q ext)"

definition openapiDefinition :: "Schema \<Rightarrow> type_name list \<Rightarrow> OpenAPIDefinition" where
  "openapiDefinition s deps = \<lparr>DefSchema = s, DefDependencies = deps\<rparr>"

text \<open>The methods of metav1.Time and metav1.MicroTime that the generated file calls.\<close>

definition Time_OpenAPISchemaType :: "string list" where
  "Time_OpenAPISchemaType = [''string'']"

definition Time_OpenAPISchemaFormat :: string where
  "Time_OpenAPISchemaFormat = ''date-time''"

definition MicroTime_OpenAPISchemaType :: "string list" where
  "MicroTime_OpenAPISchemaType = [''string'']"

definition MicroTime_OpenAPISchemaFormat :: string where
  "MicroTime_OpenAPISchemaFormat = ''date-time''"

lemmas schema_builders = prim_def refTo_def arrayOf_def mapOf_def objectOf_def
  extended_def openapiDefinition_def Time_OpenAPISchemaType_def Time_OpenAPISchemaFormat_def
  MicroTime_OpenAPISchemaType_def MicroTime_OpenAPISchemaFormat_def

text \<open>The names a schema refers to.\<close>

fun schemaRefs :: "Schema \<Rightarrow> type_name list" where
  "schemaRefs (Schema r t f i p a y q x) =
     (case r of None \<Rightarrow> [] | Some n \<Rightarrow> [n]) @
     (case i of None \<Rightarrow> [] | Some s \<Rightarrow> schemaRefs s) @
     concat (map (\<lambda>(k, s). schemaRefs s) p) @
     (case a of None \<Rightarrow> [] | Some s \<Rightarrow> schemaRefs s) @
     concat (map schemaRefs y)"

text \<open>
  A schema is a reference and nothing else, or it has one JSON type, with Items exactly for an
  array; only an object has properties, under distinct keys, and it requires some of them.
\<close>

fun wfSchema :: "Schema \<Rightarrow> bool" where
  "wfSchema (Schema r t f i p a y q x) \<longleftrightarrow>
     (case r of
        Some n \<Rightarrow> t = [] \<and> f = '''' \<and> i = None \<and> p = [] \<and> a = None \<and> y = [] \<and> q = []
      | None \<Rightarrow>
          (case t of
             [u] \<Rightarrow> u \<in> {''string'', ''integer'', ''number'', ''boolean'', ''object'', ''array''} \<and>
                    (i = None \<longleftrightarrow> u \<noteq> ''array'') \<and>
                    (u \<noteq> ''object'' \<longrightarrow> p = [] \<and> a = None \<and> q = [])
           | _ \<Rightarrow> False)) \<and>
     distinct (map fst p) \<and> set q \<subseteq> fst ` set p \<and>
     (case i of None \<Rightarrow> True | Some s \<Rightarrow> wfSchema s) \<and>
     (\<forall>(k, s) \<in> set p. wfSchema s) \<and>
     (case a of None \<Rightarrow> True | Some s \<Rightarrow> wfSchema s) \<and>
     (\<forall>s \<in> set y. wfSchema s)"

definition wfDefinition :: "OpenAPIDefinition \<Rightarrow> bool" where
  "wfDefinition d \<longleftrightarrow> wfSchema (DefSchema d) \<and>
     set (schemaRefs (DefSchema d)) = set (DefDependencies d)"

end
