(* ===== verification/OpenAPI_Core_A.thy ===== *)
theory OpenAPI_Core_A
  imports OpenAPI_Schema
begin

text \<open>
  The schemas of the Kubernetes core/v1 types from AWSElasticBlockStoreVolumeSource to
  Endpoints, one definition per generated
  function of pkg/apis/jupyter/v1/openapi_generated.go, with its properties in the
  order of the file, the required ones and the declared dependencies.
\<close>

definition schema_k8sio_api_core_v1_AWSElasticBlockStoreVolumeSource ::
  "ReferenceCallback \<Rightarrow> OpenAPIDefinition" where
  "schema_k8sio_api_core_v1_AWSElasticBlockStoreVolumeSource ref = openapiDefinition
    (objectOf
      [(''volumeID'', prim ''string'' ''''),
       (''fsType'', prim ''string'' ''''),
       (''partition'', prim ''integer'' ''int32''),
       (''readOnly'', prim ''boolean'' '''')]
      [''volumeID''])
    []"

definition schema_k8sio_api_core_v1_Affinity ::
  "ReferenceCallback \<Rightarrow> OpenAPIDefinition" where
  "schema_k8sio_api_core_v1_Affinity ref = openapiDefinition
    (objectOf
      [(''nodeAffinity'', refTo (ref (CoreV1 ''NodeAffinity''))),
       (''podAffinity'', refTo (ref (CoreV1 ''PodAffinity''))),
       (''podAntiAffinity'', refTo (ref (CoreV1 ''PodAntiAffinity'')))]
      [])
    [CoreV1 ''NodeAffinity'', CoreV1 ''PodAffinity'', CoreV1 ''PodAntiAffinity'']"

definition schema_k8sio_api_core_v1_AttachedVolume ::
  "ReferenceCallback \<Rightarrow> OpenAPIDefinition" where
  "schema_k8sio_api_core_v1_AttachedVolume ref = openapiDefinition
    (objectOf
      [(''name'', prim ''string'' ''''),
       (''devicePath'', prim ''string'' '''')]
      [''name'', ''devicePath''])
    []"

definition schema_k8sio_api_core_v1_AvoidPods ::
  "ReferenceCallback \<Rightarrow> OpenAPIDefinition" where
  "schema_k8sio_api_core_v1_AvoidPods ref = openapiDefinition
    (objectOf
      [(''preferAvoidPods'', arrayOf (refTo (ref (CoreV1 ''PreferAvoidPodsEntry''))))]
      [])
    [CoreV1 ''PreferAvoidPodsEntry'']"

definition schema_k8sio_api_core_v1_AzureDiskVolumeSource ::
  "ReferenceCallback \<Rightarrow> OpenAPIDefinition" where
  "schema_k8sio_api_core_v1_AzureDiskVolumeSource ref = openapiDefinition
    (objectOf
      [(''diskName'', prim ''string'' ''''),
       (''diskURI'', prim ''string'' ''''),
       (''cachingMode'', prim ''string'' ''''),
       (''fsType'', prim ''string'' ''''),
       (''readOnly'', prim ''boolean'' ''''),
       (''kind'', prim ''string'' '''')]
      [''diskName'', ''diskURI''])
    []"

definition schema_k8sio_api_core_v1_AzureFilePersistentVolumeSource ::
  "ReferenceCallback \<Rightarrow> OpenAPIDefinition" where
  "schema_k8sio_api_core_v1_AzureFilePersistentVolumeSource ref = openapiDefinition
    (objectOf
      [(''secretName'', prim ''string'' ''''),
       (''shareName'', prim ''string'' ''''),
       (''readOnly'', prim ''boolean'' ''''),
       (''secretNamespace'', prim ''string'' '''')]
      [''secretName'', ''shareName''])
    []"

definition schema_k8sio_api_core_v1_AzureFileVolumeSource ::
  "ReferenceCallback \<Rightarrow> OpenAPIDefinition" where
  "schema_k8sio_api_core_v1_AzureFileVolumeSource ref = openapiDefinition
    (objectOf
      [(''secretName'', prim ''string'' ''''),
       (''shareName'', prim ''string'' ''''),
       (''readOnly'', prim ''boolean'' '''')]
      [''secretName'', ''shareName''])
    []"

definition schema_k8sio_api_core_v1_Binding ::
  "ReferenceCallback \<Rightarrow> OpenAPIDefinition" where
  "schema_k8sio_api_core_v1_Binding ref = openapiDefinition
    (objectOf
      [(''kind'', prim ''string'' ''''),
       (''apiVersion'', prim ''string'' ''''),
       (''metadata'', refTo (ref (MetaV1 ''ObjectMeta''))),
       (''target'', refTo (ref (CoreV1 ''ObjectReference'')))]
      [''target''])
    [CoreV1 ''ObjectReference'', MetaV1 ''ObjectMeta'']"

definition schema_k8sio_api_core_v1_CSIPersistentVolumeSource ::
  "ReferenceCallback \<Rightarrow> OpenAPIDefinition" where
  "schema_k8sio_api_core_v1_CSIPersistentVolumeSource ref = openapiDefinition
    (objectOf
      [(''driver'', prim ''string'' ''''),
       (''volumeHandle'', prim ''string'' ''''),
       (''readOnly'', prim ''boolean'' ''''),
       (''fsType'', prim ''string'' ''''),
       (''volumeAttributes'', mapOf (prim ''string'' '''')),
       (''controllerPublishSecretRef'', refTo (ref (CoreV1 ''SecretReference''))),
       (''nodeStageSecretRef'', refTo (ref (CoreV1 ''SecretReference''))),
       (''nodePublishSecretRef'', refTo (ref (CoreV1 ''SecretReference'')))]
      [''driver'', ''volumeHandle''])
    [CoreV1 ''SecretReference'']"

definition schema_k8sio_api_core_v1_Capabilities ::
  "ReferenceCallback \<Rightarrow> OpenAPIDefinition" where
  "schema_k8sio_api_core_v1_Capabilities ref = openapiDefinition
    (objectOf
      [(''add'', arrayOf (prim ''string'' '''')),
       (''drop'', arrayOf (prim ''string'' ''''))]
      [])
    []"

definition schema_k8sio_api_core_v1_CephFSPersistentVolumeSource ::
  "ReferenceCallback \<Rightarrow> OpenAPIDefinition" where
  "schema_k8sio_api_core_v1_CephFSPersistentVolumeSource ref = openapiDefinition
    (objectOf
      [(''monitors'', arrayOf (prim ''string'' '''')),
       (''path'', prim ''string'' ''''),
       (''user'', prim ''string'' ''''),
       (''secretFile'', prim ''string'' ''''),
       (''secretRef'', refTo (ref (CoreV1 ''SecretReference''))),
       (''readOnly'', prim ''boolean'' '''')]
      [''monitors''])
    [CoreV1 ''SecretReference'']"

definition schema_k8sio_api_core_v1_CephFSVolumeSource ::
  "ReferenceCallback \<Rightarrow> OpenAPIDefinition" where
  "schema_k8sio_api_core_v1_CephFSVolumeSource ref = openapiDefinition
    (objectOf
      [(''monitors'', arrayOf (prim ''string'' '''')),
       (''path'', prim ''string'' ''''),
       (''user'', prim ''string'' ''''),
       (''secretFile'', prim ''string'' ''''),
       (''secretRef'', refTo (ref (CoreV1 ''LocalObjectReference''))),
       (''readOnly'', prim ''boolean'' '''')]
      [''monitors''])
    [CoreV1 ''LocalObjectReference'']"

definition schema_k8sio_api_core_v1_CinderPersistentVolumeSource ::
  "ReferenceCallback \<Rightarrow> OpenAPIDefinition" where
  "schema_k8sio_api_core_v1_CinderPersistentVolumeSource ref = openapiDefinition
    (objectOf
      [(''volumeID'', prim ''string'' ''''),
       (''fsType'', prim ''string'' ''''),
       (''readOnly'', prim ''boolean'' ''''),
       (''secretRef'', refTo (ref (CoreV1 ''SecretReference'')))]
      [''volumeID''])
    [CoreV1 ''SecretReference'']"

definition schema_k8sio_api_core_v1_CinderVolumeSource ::
  "ReferenceCallback \<Rightarrow> OpenAPIDefinition" where
  "schema_k8sio_api_core_v1_CinderVolumeSource ref = openapiDefinition
    (objectOf
      [(''volumeID'', prim ''string'' ''''),
       (''fsType'', prim ''string'' ''''),
       (''readOnly'', prim ''boolean'' ''''),
       (''secretRef'', refTo (ref (CoreV1 ''LocalObjectReference'')))]
      [''volumeID''])
    [CoreV1 ''LocalObjectReference'']"

definition schema_k8sio_api_core_v1_ClientIPConfig ::
  "ReferenceCallback \<Rightarrow> OpenAPIDefinition" where
  "schema_k8sio_api_core_v1_ClientIPConfig ref = openapiDefinition
    (objectOf
      [(''timeoutSeconds'', prim ''integer'' ''int32'')]
      [])
    []"

definition schema_k8sio_api_core_v1_ComponentCondition ::
  "ReferenceCallback \<Rightarrow> OpenAPIDefinition" where
  "schema_k8sio_api_core_v1_ComponentCondition ref = openapiDefinition
    (objectOf
      [(''type'', prim ''string'' ''''),
       (''status'', prim ''string'' ''''),
       (''message'', prim ''string'' ''''),
       (''error'', prim ''string'' '''')]
      [''type'', ''status''])
    []"

definition schema_k8sio_api_core_v1_ComponentStatus ::
  "ReferenceCallback \<Rightarrow> OpenAPIDefinition" where
  "schema_k8sio_api_core_v1_ComponentStatus ref = openapiDefinition
    (objectOf
      [(''kind'', prim ''string'' ''''),
       (''apiVersion'', prim ''string'' ''''),
       (''metadata'', refTo (ref (MetaV1 ''ObjectMeta''))),
       (''conditions'', extended [(''x-kubernetes-patch-merge-key'', ''type''), (''x-kubernetes-patch-strategy'', ''merge'')] (arrayOf (refTo (ref (CoreV1 ''ComponentCondition'')))))]
      [])
    [CoreV1 ''ComponentCondition'', MetaV1 ''ObjectMeta'']"

definition schema_k8sio_api_core_v1_ComponentStatusList ::
  "ReferenceCallback \<Rightarrow> OpenAPIDefinition" where
  "schema_k8sio_api_core_v1_ComponentStatusList ref = openapiDefinition
    (objectOf
      [(''kind'', prim ''string'' ''''),
       (''apiVersion'', prim ''string'' ''''),
       (''metadata'', refTo (ref (MetaV1 ''ListMeta''))),
       (''items'', arrayOf (refTo (ref (CoreV1 ''ComponentStatus''))))]
      [''items''])
    [CoreV1 ''ComponentStatus'', MetaV1 ''ListMeta'']"

definition schema_k8sio_api_core_v1_ConfigMap ::
  "ReferenceCallback \<Rightarrow> OpenAPIDefinition" where
  "schema_k8sio_api_core_v1_ConfigMap ref = openapiDefinition
    (objectOf
      [(''kind'', prim ''string'' ''''),
       (''apiVersion'', prim ''string'' ''''),
       (''metadata'', refTo (ref (MetaV1 ''ObjectMeta''))),
       (''data'', mapOf (prim ''string'' '''')),
       (''binaryData'', mapOf (prim ''string'' ''byte''))]
      [])
    [MetaV1 ''ObjectMeta'']"

definition schema_k8sio_api_core_v1_ConfigMapEnvSource ::
  "ReferenceCallback \<Rightarrow> OpenAPIDefinition" where
  "schema_k8sio_api_core_v1_ConfigMapEnvSource ref = openapiDefinition
    (objectOf
      [(''name'', prim ''string'' ''''),
       (''optional'', prim ''boolean'' '''')]
      [])
    []"

definition schema_k8sio_api_core_v1_ConfigMapKeySelector ::
  "ReferenceCallback \<Rightarrow> OpenAPIDefinition" where
  "schema_k8sio_api_core_v1_ConfigMapKeySelector ref = openapiDefinition
    (objectOf
      [(''name'', prim ''string'' ''''),
       (''key'', prim ''string'' ''''),
       (''optional'', prim ''boolean'' '''')]
      [''key''])
    []"

definition schema_k8sio_api_core_v1_ConfigMapList ::
  "ReferenceCallback \<Rightarrow> OpenAPIDefinition" where
  "schema_k8sio_api_core_v1_ConfigMapList ref = openapiDefinition
    (objectOf
      [(''kind'', prim ''string'' ''''),
       (''apiVersion'', prim ''string'' ''''),
       (''metadata'', refTo (ref (MetaV1 ''ListMeta''))),
       (''items'', arrayOf (refTo (ref (CoreV1 ''ConfigMap''))))]
      [''items''])
    [CoreV1 ''ConfigMap'', MetaV1 ''ListMeta'']"

definition schema_k8sio_api_core_v1_ConfigMapNodeConfigSource ::
  "ReferenceCallback \<Rightarrow> OpenAPIDefinition" where
  "schema_k8sio_api_core_v1_ConfigMapNodeConfigSource ref = openapiDefinition
    (objectOf
      [(''namespace'', prim ''string'' ''''),
       (''name'', prim ''string'' ''''),
       (''uid'', prim ''string'' ''''),
       (''resourceVersion'', prim ''string'' ''''),
       (''kubeletConfigKey'', prim ''string'' '''')]
      [''namespace'', ''name'', ''kubeletConfigKey''])
    []"

definition schema_k8sio_api_core_v1_ConfigMapProjection ::
  "ReferenceCallback \<Rightarrow> OpenAPIDefinition" where
  "schema_k8sio_api_core_v1_ConfigMapProjection ref = openapiDefinition
    (objectOf
      [(''name'', prim ''string'' ''''),
       (''items'', arrayOf (refTo (ref (CoreV1 ''KeyToPath'')))),
       (''optional'', prim ''boolean'' '''')]
      [])
    [CoreV1 ''KeyToPath'']"

definition schema_k8sio_api_core_v1_ConfigMapVolumeSource ::
  "ReferenceCallback \<Rightarrow> OpenAPIDefinition" where
  "schema_k8sio_api_core_v1_ConfigMapVolumeSource ref = openapiDefinition
    (objectOf
      [(''name'', prim ''string'' ''''),
       (''items'', arrayOf (refTo (ref (CoreV1 ''KeyToPath'')))),
       (''defaultMode'', prim ''integer'' ''int32''),
       (''optional'', prim ''boolean'' '''')]
      [])
    [CoreV1 ''KeyToPath'']"

text \<open>The properties of the schema from volumeDevices on.\<close>

definition moreContainerProperties :: "ReferenceCallback \<Rightarrow> (string \<times> Schema) list" where
  "moreContainerProperties ref =
      [(''volumeDevices'', extended [(''x-kubernetes-patch-merge-key'', ''devicePath''), (''x-kubernetes-patch-strategy'', ''merge'')] (arrayOf (refTo (ref (CoreV1 ''VolumeDevice''))))),
       (''livenessProbe'', refTo (ref (CoreV1 ''Probe''))),
       (''readinessProbe'', refTo (ref (CoreV1 ''Probe''))),
       (''lifecycle'', refTo (ref (CoreV1 ''Lifecycle''))),
       (''terminationMessagePath'', prim ''string'' ''''),
       (''terminationMessagePolicy'', prim ''string'' ''''),
       (''imagePullPolicy'', prim ''string'' ''''),
       (''securityContext'', refTo (ref (CoreV1 ''SecurityContext''))),
       (''stdin'', prim ''boolean'' ''''),
       (''stdinOnce'', prim ''boolean'' ''''),
       (''tty'', prim ''boolean'' '''')]"

definition schema_k8sio_api_core_v1_Container ::
  "ReferenceCallback \<Rightarrow> OpenAPIDefinition" where
  "schema_k8sio_api_core_v1_Container ref = openapiDefinition
    (objectOf
      ([(''name'', prim ''string'' ''''),
       (''image'', prim ''string'' ''''),
       (''command'', arrayOf (prim ''string'' '''')),
       (''args'', arrayOf (prim ''string'' '''')),
       (''workingDir'', prim ''string'' ''''),
       (''ports'', extended [(''x-kubernetes-patch-merge-key'', ''containerPort''), (''x-kubernetes-patch-strategy'', ''merge'')] (arrayOf (refTo (ref (CoreV1 ''ContainerPort''))))),
       (''envFrom'', arrayOf (refTo (ref (CoreV1 ''EnvFromSource'')))),
       (''env'', extended [(''x-kubernetes-patch-merge-key'', ''name''), (''x-kubernetes-patch-strategy'', ''merge'')] (arrayOf (refTo (ref (CoreV1 ''EnvVar''))))),
       (''resources'', refTo (ref (CoreV1 ''ResourceRequirements''))),
       (''volumeMounts'', extended [(''x-kubernetes-patch-merge-key'', ''mountPath''), (''x-kubernetes-patch-strategy'', ''merge'')] (arrayOf (refTo (ref (CoreV1 ''VolumeMount'')))))]
       @ moreContainerProperties ref)
      [''name''])
    [CoreV1 ''ContainerPort'', CoreV1 ''EnvFromSource'', CoreV1 ''EnvVar'', CoreV1 ''Lifecycle'',
     CoreV1 ''Probe'', CoreV1 ''ResourceRequirements'', CoreV1 ''SecurityContext'',
     CoreV1 ''VolumeDevice'', CoreV1 ''VolumeMount'']"

definition schema_k8sio_api_core_v1_ContainerImage ::
  "ReferenceCallback \<Rightarrow> OpenAPIDefinition" where
  "schema_k8sio_api_core_v1_ContainerImage ref = openapiDefinition
    (objectOf
      [(''names'', arrayOf (prim ''string'' '''')),
       (''sizeBytes'', prim ''integer'' ''int64'')]
      [''names''])
    []"

definition schema_k8sio_api_core_v1_ContainerPort ::
  "ReferenceCallback \<Rightarrow> OpenAPIDefinition" where
  "schema_k8sio_api_core_v1_ContainerPort ref = openapiDefinition
    (objectOf
      [(''name'', prim ''string'' ''''),
       (''hostPort'', prim ''integer'' ''int32''),
       (''containerPort'', prim ''integer'' ''int32''),
       (''protocol'', prim ''string'' ''''),
       (''hostIP'', prim ''string'' '''')]
      [''containerPort''])
    []"

definition schema_k8sio_api_core_v1_ContainerState ::
  "ReferenceCallback \<Rightarrow> OpenAPIDefinition" where
  "schema_k8sio_api_core_v1_ContainerState ref = openapiDefinition
    (objectOf
      [(''waiting'', refTo (ref (CoreV1 ''ContainerStateWaiting''))),
       (''running'', refTo (ref (CoreV1 ''ContainerStateRunning''))),
       (''terminated'', refTo (ref (CoreV1 ''ContainerStateTerminated'')))]
      [])
    [CoreV1 ''ContainerStateRunning'', CoreV1 ''ContainerStateTerminated'',
     CoreV1 ''ContainerStateWaiting'']"

definition schema_k8sio_api_core_v1_ContainerStateRunning ::
  "ReferenceCallback \<Rightarrow> OpenAPIDefinition" where
  "schema_k8sio_api_core_v1_ContainerStateRunning ref = openapiDefinition
    (objectOf
      [(''startedAt'', refTo (ref (MetaV1 ''Time'')))]
      [])
    [MetaV1 ''Time'']"

definition schema_k8sio_api_core_v1_ContainerStateTerminated ::
  "ReferenceCallback \<Rightarrow> OpenAPIDefinition" where
  "schema_k8sio_api_core_v1_ContainerStateTerminated ref = openapiDefinition
    (objectOf
      [(''exitCode'', prim ''integer'' ''int32''),
       (''signal'', prim ''integer'' ''int32''),
       (''reason'', prim ''string'' ''''),
       (''message'', prim ''string'' ''''),
       (''startedAt'', refTo (ref (MetaV1 ''Time''))),
       (''finishedAt'', refTo (ref (MetaV1 ''Time''))),
       (''containerID'', prim ''string'' '''')]
      [''exitCode''])
    [MetaV1 ''Time'']"

definition schema_k8sio_api_core_v1_ContainerStateWaiting ::
  "ReferenceCallback \<Rightarrow> OpenAPIDefinition" where
  "schema_k8sio_api_core_v1_ContainerStateWaiting ref = openapiDefinition
    (objectOf
      [(''reason'', prim ''string'' ''''),
       (''message'', prim ''string'' '''')]
      [])
    []"

definition schema_k8sio_api_core_v1_ContainerStatus ::
  "ReferenceCallback \<Rightarrow> OpenAPIDefinition" where
  "schema_k8sio_api_core_v1_ContainerStatus ref = openapiDefinition
    (objectOf
      [(''name'', prim ''string'' ''''),
       (''state'', refTo (ref (CoreV1 ''ContainerState''))),
       (''lastState'', refTo (ref (CoreV1 ''ContainerState''))),
       (''ready'', prim ''boolean'' ''''),
       (''restartCount'', prim ''integer'' ''int32''),
       (''image'', prim ''string'' ''''),
       (''imageID'', prim ''string'' ''''),
       (''containerID'', prim ''string'' '''')]
      [''name'', ''ready'', ''restartCount'', ''image'', ''imageID''])
    [CoreV1 ''ContainerState'']"

definition schema_k8sio_api_core_v1_DaemonEndpoint ::
  "ReferenceCallback \<Rightarrow> OpenAPIDefinition" where
  "schema_k8sio_api_core_v1_DaemonEndpoint ref = openapiDefinition
    (objectOf
      [(''Port'', prim ''integer'' ''int32'')]
      [''Port''])
    []"

definition schema_k8sio_api_core_v1_DownwardAPIProjection ::
  "ReferenceCallback \<Rightarrow> OpenAPIDefinition" where
  "schema_k8sio_api_core_v1_DownwardAPIProjection ref = openapiDefinition
    (objectOf
      [(''items'', arrayOf (refTo (ref (CoreV1 ''DownwardAPIVolumeFile''))))]
      [])
    [CoreV1 ''DownwardAPIVolumeFile'']"

definition schema_k8sio_api_core_v1_DownwardAPIVolumeFile ::
  "ReferenceCallback \<Rightarrow> OpenAPIDefinition" where
  "schema_k8sio_api_core_v1_DownwardAPIVolumeFile ref = openapiDefinition
    (objectOf
      [(''path'', prim ''string'' ''''),
       (''fieldRef'', refTo (ref (CoreV1 ''ObjectFieldSelector''))),
       (''resourceFieldRef'', refTo (ref (CoreV1 ''ResourceFieldSelector''))),
       (''mode'', prim ''integer'' ''int32'')]
      [''path''])
    [CoreV1 ''ObjectFieldSelector'', CoreV1 ''ResourceFieldSelector'']"

definition schema_k8sio_api_core_v1_DownwardAPIVolumeSource ::
  "ReferenceCallback \<Rightarrow> OpenAPIDefinition" where
  "schema_k8sio_api_core_v1_DownwardAPIVolumeSource ref = openapiDefinition
    (objectOf
      [(''items'', arrayOf (refTo (ref (CoreV1 ''DownwardAPIVolumeFile'')))),
       (''defaultMode'', prim ''integer'' ''int32'')]
      [])
    [CoreV1 ''DownwardAPIVolumeFile'']"

definition schema_k8sio_api_core_v1_EmptyDirVolumeSource ::
  "ReferenceCallback \<Rightarrow> OpenAPIDefinition" where
  "schema_k8sio_api_core_v1_EmptyDirVolumeSource ref = openapiDefinition
    (objectOf
      [(''medium'', prim ''string'' ''''),
       (''sizeLimit'', refTo (ref (ApiResource ''Quantity'')))]
      [])
    [ApiResource ''Quantity'']"

definition schema_k8sio_api_core_v1_EndpointAddress ::
  "ReferenceCallback \<Rightarrow> OpenAPIDefinition" where
  "schema_k8sio_api_core_v1_EndpointAddress ref = openapiDefinition
    (objectOf
      [(''ip'', prim ''string'' ''''),
       (''hostname'', prim ''string'' ''''),
       (''nodeName'', prim ''string'' ''''),
       (''targetRef'', refTo (ref (CoreV1 ''ObjectReference'')))]
      [''ip''])
    [CoreV1 ''ObjectReference'']"

definition schema_k8sio_api_core_v1_EndpointPort ::
  "ReferenceCallback \<Rightarrow> OpenAPIDefinition" where
  "schema_k8sio_api_core_v1_EndpointPort ref = openapiDefinition
    (objectOf
      [(''name'', prim ''string'' ''''),
       (''port'', prim ''integer'' ''int32''),
       (''protocol'', prim ''string'' '''')]
      [''port''])
    []"

definition schema_k8sio_api_core_v1_EndpointSubset ::
  "ReferenceCallback \<Rightarrow> OpenAPIDefinition" where
  "schema_k8sio_api_core_v1_EndpointSubset ref = openapiDefinition
    (objectOf
      [(''addresses'', arrayOf (refTo (ref (CoreV1 ''EndpointAddress'')))),
       (''notReadyAddresses'', arrayOf (refTo (ref (CoreV1 ''EndpointAddress'')))),
       (''ports'', arrayOf (refTo (ref (CoreV1 ''EndpointPort''))))]
      [])
    [CoreV1 ''EndpointAddress'', CoreV1 ''EndpointPort'']"

definition schema_k8sio_api_core_v1_Endpoints ::
  "ReferenceCallback \<Rightarrow> OpenAPIDefinition" where
  "schema_k8sio_api_core_v1_Endpoints ref = openapiDefinition
    (objectOf
      [(''kind'', prim ''string'' ''''),
       (''apiVersion'', prim ''string'' ''''),
       (''metadata'', refTo (ref (MetaV1 ''ObjectMeta''))),
       (''subsets'', arrayOf (refTo (ref (CoreV1 ''EndpointSubset''))))]
      [])
    [CoreV1 ''EndpointSubset'', MetaV1 ''ObjectMeta'']"

text \<open>Every one of them is well formed and declares exactly what it refers to.\<close>

lemma wf_core_a:
  "list_all wfDefinition
    [schema_k8sio_api_core_v1_AWSElasticBlockStoreVolumeSource Some,
     schema_k8sio_api_core_v1_Affinity Some, schema_k8sio_api_core_v1_AttachedVolume Some,
     schema_k8sio_api_core_v1_AvoidPods Some,
     schema_k8sio_api_core_v1_AzureDiskVolumeSource Some,
     schema_k8sio_api_core_v1_AzureFilePersistentVolumeSource Some,
     schema_k8sio_api_core_v1_AzureFileVolumeSource Some, schema_k8sio_api_core_v1_Binding Some,
     schema_k8sio_api_core_v1_CSIPersistentVolumeSource Some,
     schema_k8sio_api_core_v1_Capabilities Some,
     schema_k8sio_api_core_v1_CephFSPersistentVolumeSource Some,
     schema_k8sio_api_core_v1_CephFSVolumeSource Some,
     schema_k8sio_api_core_v1_CinderPersistentVolumeSource Some,
     schema_k8sio_api_core_v1_CinderVolumeSource Some,
     schema_k8sio_api_core_v1_ClientIPConfig Some,
     schema_k8sio_api_core_v1_ComponentCondition Some,
     schema_k8sio_api_core_v1_ComponentStatus Some,
     schema_k8sio_api_core_v1_ComponentStatusList Some, schema_k8sio_api_core_v1_ConfigMap Some,
     schema_k8sio_api_core_v1_ConfigMapEnvSource Some,
     schema_k8sio_api_core_v1_ConfigMapKeySelector Some,
     schema_k8sio_api_core_v1_ConfigMapList Some,
     schema_k8sio_api_core_v1_ConfigMapNodeConfigSource Some,
     schema_k8sio_api_core_v1_ConfigMapProjection Some,
     schema_k8sio_api_core_v1_ConfigMapVolumeSource Some,
     schema_k8sio_api_core_v1_Container Some, schema_k8sio_api_core_v1_ContainerImage Some,
     schema_k8sio_api_core_v1_ContainerPort Some, schema_k8sio_api_core_v1_ContainerState Some,
     schema_k8sio_api_core_v1_ContainerStateRunning Some,
     schema_k8sio_api_core_v1_ContainerStateTerminated Some,
     schema_k8sio_api_core_v1_ContainerStateWaiting Some,
     schema_k8sio_api_core_v1_ContainerStatus Some, schema_k8sio_api_core_v1_DaemonEndpoint Some,
     schema_k8sio_api_core_v1_DownwardAPIProjection Some,
     schema_k8sio_api_core_v1_DownwardAPIVolumeFile Some,
     schema_k8sio_api_core_v1_DownwardAPIVolumeSource Some,
     schema_k8sio_api_core_v1_EmptyDirVolumeSource Some,
     schema_k8sio_api_core_v1_EndpointAddress Some, schema_k8sio_api_core_v1_EndpointPort Some,
     schema_k8sio_api_core_v1_EndpointSubset Some, schema_k8sio_api_core_v1_Endpoints Some]"
  by code_simp

end
