(* ===== verification/OpenAPI_Core_B.thy ===== *)
theory OpenAPI_Core_B
  imports OpenAPI_Schema
begin

text \<open>
  The schemas of the Kubernetes core/v1 types from EndpointsList to
  NodeCondition, one definition per generated
  function of pkg/apis/jupyter/v1/openapi_generated.go, with its properties in the
  order of the file, the required ones and the declared dependencies.
\<close>

definition schema_k8sio_api_core_v1_EndpointsList ::
  "ReferenceCallback \<Rightarrow> OpenAPIDefinition" where
  "schema_k8sio_api_core_v1_EndpointsList ref = openapiDefinition
    (objectOf
      [(''kind'', prim ''string'' ''''),
       (''apiVersion'', prim ''string'' ''''),
       (''metadata'', refTo (ref (MetaV1 ''ListMeta''))),
       (''items'', arrayOf (refTo (ref (CoreV1 ''Endpoints''))))]
      [''items''])
    [CoreV1 ''Endpoints'', MetaV1 ''ListMeta'']"

definition schema_k8sio_api_core_v1_EnvFromSource ::
  "ReferenceCallback \<Rightarrow> OpenAPIDefinition" where
  "schema_k8sio_api_core_v1_EnvFromSource ref = openapiDefinition
    (objectOf
      [(''prefix'', prim ''string'' ''''),
       (''configMapRef'', refTo (ref (CoreV1 ''ConfigMapEnvSource''))),
       (''secretRef'', refTo (ref (CoreV1 ''SecretEnvSource'')))]
      [])
    [CoreV1 ''ConfigMapEnvSource'', CoreV1 ''SecretEnvSource'']"

definition schema_k8sio_api_core_v1_EnvVar ::
  "ReferenceCallback \<Rightarrow> OpenAPIDefinition" where
  "schema_k8sio_api_core_v1_EnvVar ref = openapiDefinition
    (objectOf
      [(''name'', prim ''string'' ''''),
       (''value'', prim ''string'' ''''),
       (''valueFrom'', refTo (ref (CoreV1 ''EnvVarSource'')))]
      [''name''])
    [CoreV1 ''EnvVarSource'']"

definition schema_k8sio_api_core_v1_EnvVarSource ::
  "ReferenceCallback \<Rightarrow> OpenAPIDefinition" where
  "schema_k8sio_api_core_v1_EnvVarSource ref = openapiDefinition
    (objectOf
      [(''fieldRef'', refTo (ref (CoreV1 ''ObjectFieldSelector''))),
       (''resourceFieldRef'', refTo (ref (CoreV1 ''ResourceFieldSelector''))),
       (''configMapKeyRef'', refTo (ref (CoreV1 ''ConfigMapKeySelector''))),
       (''secretKeyRef'', refTo (ref (CoreV1 ''SecretKeySelector'')))]
      [])
    [CoreV1 ''ConfigMapKeySelector'', CoreV1 ''ObjectFieldSelector'',
     CoreV1 ''ResourceFieldSelector'', CoreV1 ''SecretKeySelector'']"

definition schema_k8sio_api_core_v1_Event ::
  "ReferenceCallback \<Rightarrow> OpenAPIDefinition" where
  "schema_k8sio_api_core_v1_Event ref = openapiDefinition
    (objectOf
      [(''kind'', prim ''string'' ''''),
       (''apiVersion'', prim ''string'' ''''),
       (''metadata'', refTo (ref (MetaV1 ''ObjectMeta''))),
       (''involvedObject'', refTo (ref (CoreV1 ''ObjectReference''))),
       (''reason'', prim ''string'' ''''),
       (''message'', prim ''string'' ''''),
       (''source'', refTo (ref (CoreV1 ''EventSource''))),
       (''firstTimestamp'', refTo (ref (MetaV1 ''Time''))),
       (''lastTimestamp'', refTo (ref (MetaV1 ''Time''))),
       (''count'', prim ''integer'' ''int32''),
       (''type'', prim ''string'' ''''),
       (''eventTime'', refTo (ref (MetaV1 ''MicroTime''))),
       (''series'', refTo (ref (CoreV1 ''EventSeries''))),
       (''action'', prim ''string'' ''''),
       (''related'', refTo (ref (CoreV1 ''ObjectReference''))),
       (''reportingComponent'', prim ''string'' ''''),
       (''reportingInstance'', prim ''string'' '''')]
      [''metadata'', ''involvedObject''])
    [CoreV1 ''EventSeries'', CoreV1 ''EventSource'', CoreV1 ''ObjectReference'',
     MetaV1 ''MicroTime'', MetaV1 ''ObjectMeta'', MetaV1 ''Time'']"

definition schema_k8sio_api_core_v1_EventList ::
  "ReferenceCallback \<Rightarrow> OpenAPIDefinition" where
  "schema_k8sio_api_core_v1_EventList ref = openapiDefinition
    (objectOf
      [(''kind'', prim ''string'' ''''),
       (''apiVersion'', prim ''string'' ''''),
       (''metadata'', refTo (ref (MetaV1 ''ListMeta''))),
       (''items'', arrayOf (refTo (ref (CoreV1 ''Event''))))]
      [''items''])
    [CoreV1 ''Event'', MetaV1 ''ListMeta'']"

definition schema_k8sio_api_core_v1_EventSeries ::
  "ReferenceCallback \<Rightarrow> OpenAPIDefinition" where
  "schema_k8sio_api_core_v1_EventSeries ref = openapiDefinition
    (objectOf
      [(''count'', prim ''integer'' ''int32''),
       (''lastObservedTime'', refTo (ref (MetaV1 ''MicroTime''))),
       (''state'', prim ''string'' '''')]
      [])
    [MetaV1 ''MicroTime'']"

definition schema_k8sio_api_core_v1_EventSource ::
  "ReferenceCallback \<Rightarrow> OpenAPIDefinition" where
  "schema_k8sio_api_core_v1_EventSource ref = openapiDefinition
    (objectOf
      [(''component'', prim ''string'' ''''),
       (''host'', prim ''string'' '''')]
      [])
    []"

definition schema_k8sio_api_core_v1_ExecAction ::
  "ReferenceCallback \<Rightarrow> OpenAPIDefinition" where
  "schema_k8sio_api_core_v1_ExecAction ref = openapiDefinition
    (objectOf
      [(''command'', arrayOf (prim ''string'' ''''))]
      [])
    []"

definition schema_k8sio_api_core_v1_FCVolumeSource ::
  "ReferenceCallback \<Rightarrow> OpenAPIDefinition" where
  "schema_k8sio_api_core_v1_FCVolumeSource ref = openapiDefinition
    (objectOf
      [(''targetWWNs'', arrayOf (prim ''string'' '''')),
       (''lun'', prim ''integer'' ''int32''),
       (''fsType'', prim ''string'' ''''),
       (''readOnly'', prim ''boolean'' ''''),
       (''wwids'', arrayOf (prim ''string'' ''''))]
      [])
    []"

definition schema_k8sio_api_core_v1_FlexPersistentVolumeSource ::
  "ReferenceCallback \<Rightarrow> OpenAPIDefinition" where
  "schema_k8sio_api_core_v1_FlexPersistentVolumeSource ref = openapiDefinition
    (objectOf
      [(''driver'', prim ''string'' ''''),
       (''fsType'', prim ''string'' ''''),
       (''secretRef'', refTo (ref (CoreV1 ''SecretReference''))),
       (''readOnly'', prim ''boolean'' ''''),
       (''options'', mapOf (prim ''string'' ''''))]
      [''driver''])
    [CoreV1 ''SecretReference'']"

definition schema_k8sio_api_core_v1_FlexVolumeSource ::
  "ReferenceCallback \<Rightarrow> OpenAPIDefinition" where
  "schema_k8sio_api_core_v1_FlexVolumeSource ref = openapiDefinition
    (objectOf
      [(''driver'', prim ''string'' ''''),
       (''fsType'', prim ''string'' ''''),
       (''secretRef'', refTo (ref (CoreV1 ''LocalObjectReference''))),
       (''readOnly'', prim ''boolean'' ''''),
       (''options'', mapOf (prim ''string'' ''''))]
      [''driver''])
    [CoreV1 ''LocalObjectReference'']"

definition schema_k8sio_api_core_v1_FlockerVolumeSource ::
  "ReferenceCallback \<Rightarrow> OpenAPIDefinition" where
  "schema_k8sio_api_core_v1_FlockerVolumeSource ref = openapiDefinition
    (objectOf
      [(''datasetName'', prim ''string'' ''''),
       (''datasetUUID'', prim ''string'' '''')]
      [])
    []"

definition schema_k8sio_api_core_v1_GCEPersistentDiskVolumeSource ::
  "ReferenceCallback \<Rightarrow> OpenAPIDefinition" where
  "schema_k8sio_api_core_v1_GCEPersistentDiskVolumeSource ref = openapiDefinition
    (objectOf
      [(''pdName'', prim ''string'' ''''),
       (''fsType'', prim ''string'' ''''),
       (''partition'', prim ''integer'' ''int32''),
       (''readOnly'', prim ''boolean'' '''')]
      [''pdName''])
    []"

definition schema_k8sio_api_core_v1_GitRepoVolumeSource ::
  "ReferenceCallback \<Rightarrow> OpenAPIDefinition" where
  "schema_k8sio_api_core_v1_GitRepoVolumeSource ref = openapiDefinition
    (objectOf
      [(''repository'', prim ''string'' ''''),
       (''revision'', prim ''string'' ''''),
       (''directory'', prim ''string'' '''')]
      [''repository''])
    []"

definition schema_k8sio_api_core_v1_GlusterfsVolumeSource ::
  "ReferenceCallback \<Rightarrow> OpenAPIDefinition" where
  "schema_k8sio_api_core_v1_GlusterfsVolumeSource ref = openapiDefinition
    (objectOf
      [(''endpoints'', prim ''string'' ''''),
       (''path'', prim ''string'' ''''),
       (''readOnly'', prim ''boolean'' '''')]
      [''endpoints'', ''path''])
    []"

definition schema_k8sio_api_core_v1_HTTPGetAction ::
  "ReferenceCallback \<Rightarrow> OpenAPIDefinition" where
  "schema_k8sio_api_core_v1_HTTPGetAction ref = openapiDefinition
    (objectOf
      [(''path'', prim ''string'' ''''),
       (''port'', refTo (ref (UtilIntstr ''IntOrString''))),
       (''host'', prim ''string'' ''''),
       (''scheme'', prim ''string'' ''''),
       (''httpHeaders'', arrayOf (refTo (ref (CoreV1 ''HTTPHeader''))))]
      [''port''])
    [CoreV1 ''HTTPHeader'', UtilIntstr ''IntOrString'']"

definition schema_k8sio_api_core_v1_HTTPHeader ::
  "ReferenceCallback \<Rightarrow> OpenAPIDefinition" where
  "schema_k8sio_api_core_v1_HTTPHeader ref = openapiDefinition
    (objectOf
      [(''name'', prim ''string'' ''''),
       (''value'', prim ''string'' '''')]
      [''name'', ''value''])
    []"

definition schema_k8sio_api_core_v1_Handler ::
  "ReferenceCallback \<Rightarrow> OpenAPIDefinition" where
  "schema_k8sio_api_core_v1_Handler ref = openapiDefinition
    (objectOf
      [(''exec'', refTo (ref (CoreV1 ''ExecAction''))),
       (''httpGet'', refTo (ref (CoreV1 ''HTTPGetAction''))),
       (''tcpSocket'', refTo (ref (CoreV1 ''TCPSocketAction'')))]
      [])
    [CoreV1 ''ExecAction'', CoreV1 ''HTTPGetAction'', CoreV1 ''TCPSocketAction'']"

definition schema_k8sio_api_core_v1_HostAlias ::
  "ReferenceCallback \<Rightarrow> OpenAPIDefinition" where
  "schema_k8sio_api_core_v1_HostAlias ref = openapiDefinition
    (objectOf
      [(''ip'', prim ''string'' ''''),
       (''hostnames'', arrayOf (prim ''string'' ''''))]
      [])
    []"

definition schema_k8sio_api_core_v1_HostPathVolumeSource ::
  "ReferenceCallback \<Rightarrow> OpenAPIDefinition" where
  "schema_k8sio_api_core_v1_HostPathVolumeSource ref = openapiDefinition
    (objectOf
      [(''path'', prim ''string'' ''''),
       (''type'', prim ''string'' '''')]
      [''path''])
    []"

definition schema_k8sio_api_core_v1_ISCSIPersistentVolumeSource ::
  "ReferenceCallback \<Rightarrow> OpenAPIDefinition" where
  "schema_k8sio_api_core_v1_ISCSIPersistentVolumeSource ref = openapiDefinition
    (objectOf
      [(''targetPortal'', prim ''string'' ''''),
       (''iqn'', prim ''string'' ''''),
       (''lun'', prim ''integer'' ''int32''),
       (''iscsiInterface'', prim ''string'' ''''),
       (''fsType'', prim ''string'' ''''),
       (''readOnly'', prim ''boolean'' ''''),
       (''portals'', arrayOf (prim ''string'' '''')),
       (''chapAuthDiscovery'', prim ''boolean'' ''''),
       (''chapAuthSession'', prim ''boolean'' ''''),
       (''secretRef'', refTo (ref (CoreV1 ''SecretReference''))),
       (''initiatorName'', prim ''string'' '''')]
      [''targetPortal'', ''iqn'', ''lun''])
    [CoreV1 ''SecretReference'']"

definition schema_k8sio_api_core_v1_ISCSIVolumeSource ::
  "ReferenceCallback \<Rightarrow> OpenAPIDefinition" where
  "schema_k8sio_api_core_v1_ISCSIVolumeSource ref = openapiDefinition
    (objectOf
      [(''targetPortal'', prim ''string'' ''''),
       (''iqn'', prim ''string'' ''''),
       (''lun'', prim ''integer'' ''int32''),
       (''iscsiInterface'', prim ''string'' ''''),
       (''fsType'', prim ''string'' ''''),
       (''readOnly'', prim ''boolean'' ''''),
       (''portals'', arrayOf (prim ''string'' '''')),
       (''chapAuthDiscovery'', prim ''boolean'' ''''),
       (''chapAuthSession'', prim ''boolean'' ''''),
       (''secretRef'', refTo (ref (CoreV1 ''LocalObjectReference''))),
       (''initiatorName'', prim ''string'' '''')]
      [''targetPortal'', ''iqn'', ''lun''])
    [CoreV1 ''LocalObjectReference'']"

definition schema_k8sio_api_core_v1_KeyToPath ::
  "ReferenceCallback \<Rightarrow> OpenAPIDefinition" where
  "schema_k8sio_api_core_v1_KeyToPath ref = openapiDefinition
    (objectOf
      [(''key'', prim ''string'' ''''),
       (''path'', prim ''string'' ''''),
       (''mode'', prim ''integer'' ''int32'')]
      [''key'', ''path''])
    []"

definition schema_k8sio_api_core_v1_Lifecycle ::
  "ReferenceCallback \<Rightarrow> OpenAPIDefinition" where
  "schema_k8sio_api_core_v1_Lifecycle ref = openapiDefinition
    (objectOf
      [(''postStart'', refTo (ref (CoreV1 ''Handler''))),
       (''preStop'', refTo (ref (CoreV1 ''Handler'')))]
      [])
    [CoreV1 ''Handler'']"

definition schema_k8sio_api_core_v1_LimitRange ::
  "ReferenceCallback \<Rightarrow> OpenAPIDefinition" where
  "schema_k8sio_api_core_v1_LimitRange ref = openapiDefinition
    (objectOf
      [(''kind'', prim ''string'' ''''),
       (''apiVersion'', prim ''string'' ''''),
       (''metadata'', refTo (ref (MetaV1 ''ObjectMeta''))),
       (''spec'', refTo (ref (CoreV1 ''LimitRangeSpec'')))]
      [])
    [CoreV1 ''LimitRangeSpec'', MetaV1 ''ObjectMeta'']"

definition schema_k8sio_api_core_v1_LimitRangeItem ::
  "ReferenceCallback \<Rightarrow> OpenAPIDefinition" where
  "schema_k8sio_api_core_v1_LimitRangeItem ref = openapiDefinition
    (objectOf
      [(''type'', prim ''string'' ''''),
       (''max'', mapOf (refTo (ref (ApiResource ''Quantity'')))),
       (''min'', mapOf (refTo (ref (ApiResource ''Quantity'')))),
       (''default'', mapOf (refTo (ref (ApiResource ''Quantity'')))),
       (''defaultRequest'', mapOf (refTo (ref (ApiResource ''Quantity'')))),
       (''maxLimitRequestRatio'', mapOf (refTo (ref (ApiResource ''Quantity''))))]
      [])
    [ApiResource ''Quantity'']"

definition schema_k8sio_api_core_v1_LimitRangeList ::
  "ReferenceCallback \<Rightarrow> OpenAPIDefinition" where
  "schema_k8sio_api_core_v1_LimitRangeList ref = openapiDefinition
    (objectOf
      [(''kind'', prim ''string'' ''''),
       (''apiVersion'', prim ''string'' ''''),
       (''metadata'', refTo (ref (MetaV1 ''ListMeta''))),
       (''items'', arrayOf (refTo (ref (CoreV1 ''LimitRange''))))]
      [''items''])
    [CoreV1 ''LimitRange'', MetaV1 ''ListMeta'']"

definition schema_k8sio_api_core_v1_LimitRangeSpec ::
  "ReferenceCallback \<Rightarrow> OpenAPIDefinition" where
  "schema_k8sio_api_core_v1_LimitRangeSpec ref = openapiDefinition
    (objectOf
      [(''limits'', arrayOf (refTo (ref (CoreV1 ''LimitRangeItem''))))]
      [''limits''])
    [CoreV1 ''LimitRangeItem'']"

definition schema_k8sio_api_core_v1_List ::
  "ReferenceCallback \<Rightarrow> OpenAPIDefinition" where
  "schema_k8sio_api_core_v1_List ref = openapiDefinition
    (objectOf
      [(''kind'', prim ''string'' ''''),
       (''apiVersion'', prim ''string'' ''''),
       (''metadata'', refTo (ref (MetaV1 ''ListMeta''))),
       (''items'', arrayOf (refTo (ref (ApiRuntime ''RawExtension''))))]
      [''items''])
    [MetaV1 ''ListMeta'', ApiRuntime ''RawExtension'']"

definition schema_k8sio_api_core_v1_LoadBalancerIngress ::
  "ReferenceCallback \<Rightarrow> OpenAPIDefinition" where
  "schema_k8sio_api_core_v1_LoadBalancerIngress ref = openapiDefinition
    (objectOf
      [(''ip'', prim ''string'' ''''),
       (''hostname'', prim ''string'' '''')]
      [])
    []"

definition schema_k8sio_api_core_v1_LoadBalancerStatus ::
  "ReferenceCallback \<Rightarrow> OpenAPIDefinition" where
  "schema_k8sio_api_core_v1_LoadBalancerStatus ref = openapiDefinition
    (objectOf
      [(''ingress'', arrayOf (refTo (ref (CoreV1 ''LoadBalancerIngress''))))]
      [])
    [CoreV1 ''LoadBalancerIngress'']"

definition schema_k8sio_api_core_v1_LocalObjectReference ::
  "ReferenceCallback \<Rightarrow> OpenAPIDefinition" where
  "schema_k8sio_api_core_v1_LocalObjectReference ref = openapiDefinition
    (objectOf
      [(''name'', prim ''string'' '''')]
      [])
    []"

definition schema_k8sio_api_core_v1_LocalVolumeSource ::
  "ReferenceCallback \<Rightarrow> OpenAPIDefinition" where
  "schema_k8sio_api_core_v1_LocalVolumeSource ref = openapiDefinition
    (objectOf
      [(''path'', prim ''string'' ''''),
       (''fsType'', prim ''string'' '''')]
      [''path''])
    []"

definition schema_k8sio_api_core_v1_NFSVolumeSource ::
  "ReferenceCallback \<Rightarrow> OpenAPIDefinition" where
  "schema_k8sio_api_core_v1_NFSVolumeSource ref = openapiDefinition
    (objectOf
      [(''server'', prim ''string'' ''''),
       (''path'', prim ''string'' ''''),
       (''readOnly'', prim ''boolean'' '''')]
      [''server'', ''path''])
    []"

definition schema_k8sio_api_core_v1_Namespace ::
  "ReferenceCallback \<Rightarrow> OpenAPIDefinition" where
  "schema_k8sio_api_core_v1_Namespace ref = openapiDefinition
    (objectOf
      [(''kind'', prim ''string'' ''''),
       (''apiVersion'', prim ''string'' ''''),
       (''metadata'', refTo (ref (MetaV1 ''ObjectMeta''))),
       (''spec'', refTo (ref (CoreV1 ''NamespaceSpec''))),
       (''status'', refTo (ref (CoreV1 ''NamespaceStatus'')))]
      [])
    [CoreV1 ''NamespaceSpec'', CoreV1 ''NamespaceStatus'', MetaV1 ''ObjectMeta'']"

definition schema_k8sio_api_core_v1_NamespaceList ::
  "ReferenceCallback \<Rightarrow> OpenAPIDefinition" where
  "schema_k8sio_api_core_v1_NamespaceList ref = openapiDefinition
    (objectOf
      [(''kind'', prim ''string'' ''''),
       (''apiVersion'', prim ''string'' ''''),
       (''metadata'', refTo (ref (MetaV1 ''ListMeta''))),
       (''items'', arrayOf (refTo (ref (CoreV1 ''Namespace''))))]
      [''items''])
    [CoreV1 ''Namespace'', MetaV1 ''ListMeta'']"

definition schema_k8sio_api_core_v1_NamespaceSpec ::
  "ReferenceCallback \<Rightarrow> OpenAPIDefinition" where
  "schema_k8sio_api_core_v1_NamespaceSpec ref = openapiDefinition
    (objectOf
      [(''finalizers'', arrayOf (prim ''string'' ''''))]
      [])
    []"

definition schema_k8sio_api_core_v1_NamespaceStatus ::
  "ReferenceCallback \<Rightarrow> OpenAPIDefinition" where
  "schema_k8sio_api_core_v1_NamespaceStatus ref = openapiDefinition
    (objectOf
      [(''phase'', prim ''string'' '''')]
      [])
    []"

definition schema_k8sio_api_core_v1_Node ::
  "ReferenceCallback \<Rightarrow> OpenAPIDefinition" where
  "schema_k8sio_api_core_v1_Node ref = openapiDefinition
    (objectOf
      [(''kind'', prim ''string'' ''''),
       (''apiVersion'', prim ''string'' ''''),
       (''metadata'', refTo (ref (MetaV1 ''ObjectMeta''))),
       (''spec'', refTo (ref (CoreV1 ''NodeSpec''))),
       (''status'', refTo (ref (CoreV1 ''NodeStatus'')))]
      [])
    [CoreV1 ''NodeSpec'', CoreV1 ''NodeStatus'', MetaV1 ''ObjectMeta'']"

definition schema_k8sio_api_core_v1_NodeAddress ::
  "ReferenceCallback \<Rightarrow> OpenAPIDefinition" where
  "schema_k8sio_api_core_v1_NodeAddress ref = openapiDefinition
    (objectOf
      [(''type'', prim ''string'' ''''),
       (''address'', prim ''string'' '''')]
      [''type'', ''address''])
    []"

definition schema_k8sio_api_core_v1_NodeAffinity ::
  "ReferenceCallback \<Rightarrow> OpenAPIDefinition" where
  "schema_k8sio_api_core_v1_NodeAffinity ref = openapiDefinition
    (objectOf
      [(''requiredDuringSchedulingIgnoredDuringExecution'', refTo (ref (CoreV1 ''NodeSelector''))),
       (''preferredDuringSchedulingIgnoredDuringExecution'', arrayOf (refTo (ref (CoreV1 ''PreferredSchedulingTerm''))))]
      [])
    [CoreV1 ''NodeSelector'', CoreV1 ''PreferredSchedulingTerm'']"

definition schema_k8sio_api_core_v1_NodeCondition ::
  "ReferenceCallback \<Rightarrow> OpenAPIDefinition" where
  "schema_k8sio_api_core_v1_NodeCondition ref = openapiDefinition
    (objectOf
      [(''type'', prim ''string'' ''''),
       (''status'', prim ''string'' ''''),
       (''lastHeartbeatTime'', refTo (ref (MetaV1 ''Time''))),
       (''lastTransitionTime'', refTo (ref (MetaV1 ''Time''))),
       (''reason'', prim ''string'' ''''),
       (''message'', prim ''string'' '''')]
      [''type'', ''status''])
    [MetaV1 ''Time'']"

text \<open>Every one of them is well formed and declares exactly what it refers to.\<close>

lemma wf_core_b:
  "list_all wfDefinition
    [schema_k8sio_api_core_v1_EndpointsList Some, schema_k8sio_api_core_v1_EnvFromSource Some,
     schema_k8sio_api_core_v1_EnvVar Some, schema_k8sio_api_core_v1_EnvVarSource Some,
     schema_k8sio_api_core_v1_Event Some, schema_k8sio_api_core_v1_EventList Some,
     schema_k8sio_api_core_v1_EventSeries Some, schema_k8sio_api_core_v1_EventSource Some,
     schema_k8sio_api_core_v1_ExecAction Some, schema_k8sio_api_core_v1_FCVolumeSource Some,
     schema_k8sio_api_core_v1_FlexPersistentVolumeSource Some,
     schema_k8sio_api_core_v1_FlexVolumeSource Some,
     schema_k8sio_api_core_v1_FlockerVolumeSource Some,
     schema_k8sio_api_core_v1_GCEPersistentDiskVolumeSource Some,
     schema_k8sio_api_core_v1_GitRepoVolumeSource Some,
     schema_k8sio_api_core_v1_GlusterfsVolumeSource Some,
     schema_k8sio_api_core_v1_HTTPGetAction Some, schema_k8sio_api_core_v1_HTTPHeader Some,
     schema_k8sio_api_core_v1_Handler Some, schema_k8sio_api_core_v1_HostAlias Some,
     schema_k8sio_api_core_v1_HostPathVolumeSource Some,
     schema_k8sio_api_core_v1_ISCSIPersistentVolumeSource Some,
     schema_k8sio_api_core_v1_ISCSIVolumeSource Some, schema_k8sio_api_core_v1_KeyToPath Some,
     schema_k8sio_api_core_v1_Lifecycle Some, schema_k8sio_api_core_v1_LimitRange Some,
     schema_k8sio_api_core_v1_LimitRangeItem Some, schema_k8sio_api_core_v1_LimitRangeList Some,
     schema_k8sio_api_core_v1_LimitRangeSpec Some, schema_k8sio_api_core_v1_List Some,
     schema_k8sio_api_core_v1_LoadBalancerIngress Some,
     schema_k8sio_api_core_v1_LoadBalancerStatus Some,
     schema_k8sio_api_core_v1_LocalObjectReference Some,
     schema_k8sio_api_core_v1_LocalVolumeSource Some,
     schema_k8sio_api_core_v1_NFSVolumeSource Some, schema_k8sio_api_core_v1_Namespace Some,
     schema_k8sio_api_core_v1_NamespaceList Some, schema_k8sio_api_core_v1_NamespaceSpec Some,
     schema_k8sio_api_core_v1_NamespaceStatus Some, schema_k8sio_api_core_v1_Node Some,
     schema_k8sio_api_core_v1_NodeAddress Some, schema_k8sio_api_core_v1_NodeAffinity Some,
     schema_k8sio_api_core_v1_NodeCondition Some]"
  by code_simp

end
