(* ===== verification/OpenAPI_Core_C.thy ===== *)
theory OpenAPI_Core_C
  imports OpenAPI_Schema
begin

text \<open>
  The schemas of the Kubernetes core/v1 types from NodeConfigSource to
  PodList, one definition per generated
  function of pkg/apis/jupyter/v1/openapi_generated.go, with its properties in the
  order of the file, the required ones and the declared dependencies.
\<close>

definition schema_k8sio_api_core_v1_NodeConfigSource ::
  "ReferenceCallback \<Rightarrow> OpenAPIDefinition" where
  "schema_k8sio_api_core_v1_NodeConfigSource ref = openapiDefinition
    (objectOf
      [(''configMap'', refTo (ref (CoreV1 ''ConfigMapNodeConfigSource'')))]
      [])
    [CoreV1 ''ConfigMapNodeConfigSource'']"

definition schema_k8sio_api_core_v1_NodeConfigStatus ::
  "ReferenceCallback \<Rightarrow> OpenAPIDefinition" where
  "schema_k8sio_api_core_v1_NodeConfigStatus ref = openapiDefinition
    (objectOf
      [(''assigned'', refTo (ref (CoreV1 ''NodeConfigSource''))),
       (''active'', refTo (ref (CoreV1 ''NodeConfigSource''))),
       (''lastKnownGood'', refTo (ref (CoreV1 ''NodeConfigSource''))),
       (''error'', prim ''string'' '''')]
      [])
    [CoreV1 ''NodeConfigSource'']"

definition schema_k8sio_api_core_v1_NodeDaemonEndpoints ::
  "ReferenceCallback \<Rightarrow> OpenAPIDefinition" where
  "schema_k8sio_api_core_v1_NodeDaemonEndpoints ref = openapiDefinition
    (objectOf
      [(''kubeletEndpoint'', refTo (ref (CoreV1 ''DaemonEndpoint'')))]
      [])
    [CoreV1 ''DaemonEndpoint'']"

definition schema_k8sio_api_core_v1_NodeList ::
  "ReferenceCallback \<Rightarrow> OpenAPIDefinition" where
  "schema_k8sio_api_core_v1_NodeList ref = openapiDefinition
    (objectOf
      [(''kind'', prim ''string'' ''''),
       (''apiVersion'', prim ''string'' ''''),
       (''metadata'', refTo (ref (MetaV1 ''ListMeta''))),
       (''items'', arrayOf (refTo (ref (CoreV1 ''Node''))))]
      [''items''])
    [CoreV1 ''Node'', MetaV1 ''ListMeta'']"

definition schema_k8sio_api_core_v1_NodeProxyOptions ::
  "ReferenceCallback \<Rightarrow> OpenAPIDefinition" where
  "schema_k8sio_api_core_v1_NodeProxyOptions ref = openapiDefinition
    (objectOf
      [(''kind'', prim ''string'' ''''),
       (''apiVersion'', prim ''string'' ''''),
       (''path'', prim ''string'' '''')]
      [])
    []"

definition schema_k8sio_api_core_v1_NodeResources ::
  "ReferenceCallback \<Rightarrow> OpenAPIDefinition" where
  "schema_k8sio_api_core_v1_NodeResources ref = openapiDefinition
    (objectOf
      [(''Capacity'', mapOf (refTo (ref (ApiResource ''Quantity''))))]
      [''Capacity''])
    [ApiResource ''Quantity'']"

definition schema_k8sio_api_core_v1_NodeSelector ::
  "ReferenceCallback \<Rightarrow> OpenAPIDefinition" where
  "schema_k8sio_api_core_v1_NodeSelector ref = openapiDefinition
    (objectOf
      [(''nodeSelectorTerms'', arrayOf (refTo (ref (CoreV1 ''NodeSelectorTerm''))))]
      [''nodeSelectorTerms''])
    [CoreV1 ''NodeSelectorTerm'']"

definition schema_k8sio_api_core_v1_NodeSelectorRequirement ::
  "ReferenceCallback \<Rightarrow> OpenAPIDefinition" where
  "schema_k8sio_api_core_v1_NodeSelectorRequirement ref = openapiDefinition
    (objectOf
      [(''key'', prim ''string'' ''''),
       (''operator'', prim ''string'' ''''),
       (''values'', arrayOf (prim ''string'' ''''))]
      [''key'', ''operator''])
    []"

definition schema_k8sio_api_core_v1_NodeSelectorTerm ::
  "ReferenceCallback \<Rightarrow> OpenAPIDefinition" where
  "schema_k8sio_api_core_v1_NodeSelectorTerm ref = openapiDefinition
    (objectOf
      [(''matchExpressions'', arrayOf (refTo (ref (CoreV1 ''NodeSelectorRequirement'')))),
       (''matchFields'', arrayOf (refTo (ref (CoreV1 ''NodeSelectorRequirement''))))]
      [])
    [CoreV1 ''NodeSelectorRequirement'']"

definition schema_k8sio_api_core_v1_NodeSpec ::
  "ReferenceCallback \<Rightarrow> OpenAPIDefinition" where
  "schema_k8sio_api_core_v1_NodeSpec ref = openapiDefinition
    (objectOf
      [(''podCIDR'', prim ''string'' ''''),
       (''providerID'', prim ''string'' ''''),
       (''unschedulable'', prim ''boolean'' ''''),
       (''taints'', arrayOf (refTo (ref (CoreV1 ''Taint'')))),
       (''configSource'', refTo (ref (CoreV1 ''NodeConfigSource''))),
       (''externalID'', prim ''string'' '''')]
      [])
    [CoreV1 ''NodeConfigSource'', CoreV1 ''Taint'']"

definition schema_k8sio_api_core_v1_NodeStatus ::
  "ReferenceCallback \<Rightarrow> OpenAPIDefinition" where
  "schema_k8sio_api_core_v1_NodeStatus ref = openapiDefinition
    (objectOf
      [(''capacity'', mapOf (refTo (ref (ApiResource ''Quantity'')))),
       (''allocatable'', mapOf (refTo (ref (ApiResource ''Quantity'')))),
       (''phase'', prim ''string'' ''''),
       (''conditions'', extended [(''x-kubernetes-patch-merge-key'', ''type''), (''x-kubernetes-patch-strategy'', ''merge'')] (arrayOf (refTo (ref (CoreV1 ''NodeCondition''))))),
       (''addresses'', extended [(''x-kubernetes-patch-merge-key'', ''type''), (''x-kubernetes-patch-strategy'', ''merge'')] (arrayOf (refTo (ref (CoreV1 ''NodeAddress''))))),
       (''daemonEndpoints'', refTo (ref (CoreV1 ''NodeDaemonEndpoints''))),
       (''nodeInfo'', refTo (ref (CoreV1 ''NodeSystemInfo''))),
       (''images'', arrayOf (refTo (ref (CoreV1 ''ContainerImage'')))),
       (''volumesInUse'', arrayOf (prim ''string'' '''')),
       (''volumesAttached'', arrayOf (refTo (ref (CoreV1 ''AttachedVolume'')))),
       (''config'', refTo (ref (CoreV1 ''NodeConfigStatus'')))]
      [])
    [CoreV1 ''AttachedVolume'', CoreV1 ''ContainerImage'', CoreV1 ''NodeAddress'',
     CoreV1 ''NodeCondition'', CoreV1 ''NodeConfigStatus'', CoreV1 ''NodeDaemonEndpoints'',
     CoreV1 ''NodeSystemInfo'', ApiResource ''Quantity'']"

definition schema_k8sio_api_core_v1_NodeSystemInfo ::
  "ReferenceCallback \<Rightarrow> OpenAPIDefinition" where
  "schema_k8sio_api_core_v1_NodeSystemInfo ref = openapiDefinition
    (objectOf
      [(''machineID'', prim ''string'' ''''),
       (''systemUUID'', prim ''string'' ''''),
       (''bootID'', prim ''string'' ''''),
       (''kernelVersion'', prim ''string'' ''''),
       (''osImage'', prim ''string'' ''''),
       (''containerRuntimeVersion'', prim ''string'' ''''),
       (''kubeletVersion'', prim ''string'' ''''),
       (''kubeProxyVersion'', prim ''string'' ''''),
       (''operatingSystem'', prim ''string'' ''''),
       (''architecture'', prim ''string'' '''')]
      [''machineID'', ''systemUUID'', ''bootID'', ''kernelVersion'', ''osImage'', ''containerRuntimeVersion'', ''kubeletVersion'', ''kubeProxyVersion'', ''operatingSystem'', ''architecture''])
    []"

definition schema_k8sio_api_core_v1_ObjectFieldSelector ::
  "ReferenceCallback \<Rightarrow> OpenAPIDefinition" where
  "schema_k8sio_api_core_v1_ObjectFieldSelector ref = openapiDefinition
    (objectOf
      [(''apiVersion'', prim ''string'' ''''),
       (''fieldPath'', prim ''string'' '''')]
      [''fieldPath''])
    []"

definition schema_k8sio_api_core_v1_ObjectReference ::
  "ReferenceCallback \<Rightarrow> OpenAPIDefinition" where
  "schema_k8sio_api_core_v1_ObjectReference ref = openapiDefinition
    (objectOf
      [(''kind'', prim ''string'' ''''),
       (''namespace'', prim ''string'' ''''),
       (''name'', prim ''string'' ''''),
       (''uid'', prim ''string'' ''''),
       (''apiVersion'', prim ''string'' ''''),
       (''resourceVersion'', prim ''string'' ''''),
       (''fieldPath'', prim ''string'' '''')]
      [])
    []"

definition schema_k8sio_api_core_v1_PersistentVolume ::
  "ReferenceCallback \<Rightarrow> OpenAPIDefinition" where
  "schema_k8sio_api_core_v1_PersistentVolume ref = openapiDefinition
    (objectOf
      [(''kind'', prim ''string'' ''''),
       (''apiVersion'', prim ''string'' ''''),
       (''metadata'', refTo (ref (MetaV1 ''ObjectMeta''))),
       (''spec'', refTo (ref (CoreV1 ''PersistentVolumeSpec''))),
       (''status'', refTo (ref (CoreV1 ''PersistentVolumeStatus'')))]
      [])
    [CoreV1 ''PersistentVolumeSpec'', CoreV1 ''PersistentVolumeStatus'', MetaV1 ''ObjectMeta'']"

definition schema_k8sio_api_core_v1_PersistentVolumeClaim ::
  "ReferenceCallback \<Rightarrow> OpenAPIDefinition" where
  "schema_k8sio_api_core_v1_PersistentVolumeClaim ref = openapiDefinition
    (objectOf
      [(''kind'', prim ''string'' ''''),
       (''apiVersion'', prim ''string'' ''''),
       (''metadata'', refTo (ref (MetaV1 ''ObjectMeta''))),
       (''spec'', refTo (ref (CoreV1 ''PersistentVolumeClaimSpec''))),
       (''status'', refTo (ref (CoreV1 ''PersistentVolumeClaimStatus'')))]
      [])
    [CoreV1 ''PersistentVolumeClaimSpec'', CoreV1 ''PersistentVolumeClaimStatus'',
     MetaV1 ''ObjectMeta'']"

definition schema_k8sio_api_core_v1_PersistentVolumeClaimCondition ::
  "ReferenceCallback \<Rightarrow> OpenAPIDefinition" where
  "schema_k8sio_api_core_v1_PersistentVolumeClaimCondition ref = openapiDefinition
    (objectOf
      [(''type'', prim ''string'' ''''),
       (''status'', prim ''string'' ''''),
       (''lastProbeTime'', refTo (ref (MetaV1 ''Time''))),
       (''lastTransitionTime'', refTo (ref (MetaV1 ''Time''))),
       (''reason'', prim ''string'' ''''),
       (''message'', prim ''string'' '''')]
      [''type'', ''status''])
    [MetaV1 ''Time'']"

definition schema_k8sio_api_core_v1_PersistentVolumeClaimList ::
  "ReferenceCallback \<Rightarrow> OpenAPIDefinition" where
  "schema_k8sio_api_core_v1_PersistentVolumeClaimList ref = openapiDefinition
    (objectOf
      [(''kind'', prim ''string'' ''''),
       (''apiVersion'', prim ''string'' ''''),
       (''metadata'', refTo (ref (MetaV1 ''ListMeta''))),
       (''items'', arrayOf (refTo (ref (CoreV1 ''PersistentVolumeClaim''))))]
      [''items''])
    [CoreV1 ''PersistentVolumeClaim'', MetaV1 ''ListMeta'']"

definition schema_k8sio_api_core_v1_PersistentVolumeClaimSpec ::
  "ReferenceCallback \<Rightarrow> OpenAPIDefinition" where
  "schema_k8sio_api_core_v1_PersistentVolumeClaimSpec ref = openapiDefinition
    (objectOf
      [(''accessModes'', arrayOf (prim ''string'' '''')),
       (''selector'', refTo (ref (MetaV1 ''LabelSelector''))),
       (''resources'', refTo (ref (CoreV1 ''ResourceRequirements''))),
       (''volumeName'', prim ''string'' ''''),
       (''storageClassName'', prim ''string'' ''''),
       (''volumeMode'', prim ''string'' ''''),
       (''dataSource'', refTo (ref (CoreV1 ''TypedLocalObjectReference'')))]
      [])
    [CoreV1 ''ResourceRequirements'', CoreV1 ''TypedLocalObjectReference'',
     MetaV1 ''LabelSelector'']"

definition schema_k8sio_api_core_v1_PersistentVolumeClaimStatus ::
  "ReferenceCallback \<Rightarrow> OpenAPIDefinition" where
  "schema_k8sio_api_core_v1_PersistentVolumeClaimStatus ref = openapiDefinition
    (objectOf
      [(''phase'', prim ''string'' ''''),
       (''accessModes'', arrayOf (prim ''string'' '''')),
       (''capacity'', mapOf (refTo (ref (ApiResource ''Quantity'')))),
       (''conditions'', extended [(''x-kubernetes-patch-merge-key'', ''type''), (''x-kubernetes-patch-strategy'', ''merge'')] (arrayOf (refTo (ref (CoreV1 ''PersistentVolumeClaimCondition'')))))]
      [])
    [CoreV1 ''PersistentVolumeClaimCondition'', ApiResource ''Quantity'']"

definition schema_k8sio_api_core_v1_PersistentVolumeClaimVolumeSource ::
  "ReferenceCallback \<Rightarrow> OpenAPIDefinition" where
  "schema_k8sio_api_core_v1_PersistentVolumeClaimVolumeSource ref = openapiDefinition
    (objectOf
      [(''claimName'', prim ''string'' ''''),
       (''readOnly'', prim ''boolean'' '''')]
      [''claimName''])
    []"

definition schema_k8sio_api_core_v1_PersistentVolumeList ::
  "ReferenceCallback \<Rightarrow> OpenAPIDefinition" where
  "schema_k8sio_api_core_v1_PersistentVolumeList ref = openapiDefinition
    (objectOf
      [(''kind'', prim ''string'' ''''),
       (''apiVersion'', prim ''string'' ''''),
       (''metadata'', refTo (ref (MetaV1 ''ListMeta''))),
       (''items'', arrayOf (refTo (ref (CoreV1 ''PersistentVolume''))))]
      [''items''])
    [CoreV1 ''PersistentVolume'', MetaV1 ''ListMeta'']"

definition schema_k8sio_api_core_v1_PersistentVolumeSource ::
  "ReferenceCallback \<Rightarrow> OpenAPIDefinition" where
  "schema_k8sio_api_core_v1_PersistentVolumeSource ref = openapiDefinition
    (objectOf
      [(''gcePersistentDisk'', refTo (ref (CoreV1 ''GCEPersistentDiskVolumeSource''))),
       (''awsElasticBlockStore'', refTo (ref (CoreV1 ''AWSElasticBlockStoreVolumeSource''))),
       (''hostPath'', refTo (ref (CoreV1 ''HostPathVolumeSource''))),
       (''glusterfs'', refTo (ref (CoreV1 ''GlusterfsVolumeSource''))),
       (''nfs'', refTo (ref (CoreV1 ''NFSVolumeSource''))),
       (''rbd'', refTo (ref (CoreV1 ''RBDPersistentVolumeSource''))),
       (''iscsi'', refTo (ref (CoreV1 ''ISCSIPersistentVolumeSource''))),
       (''cinder'', refTo (ref (CoreV1 ''CinderPersistentVolumeSource''))),
       (''cephfs'', refTo (ref (CoreV1 ''CephFSPersistentVolumeSource''))),
       (''fc'', refTo (ref (CoreV1 ''FCVolumeSource''))),
       (''flocker'', refTo (ref (CoreV1 ''FlockerVolumeSource''))),
       (''flexVolume'', refTo (ref (CoreV1 ''FlexPersistentVolumeSource''))),
       (''azureFile'', refTo (ref (CoreV1 ''AzureFilePersistentVolumeSource''))),
       (''vsphereVolume'', refTo (ref (CoreV1 ''VsphereVirtualDiskVolumeSource''))),
       (''quobyte'', refTo (ref (CoreV1 ''QuobyteVolumeSource''))),
       (''azureDisk'', refTo (ref (CoreV1 ''AzureDiskVolumeSource''))),
       (''photonPersistentDisk'', refTo (ref (CoreV1 ''PhotonPersistentDiskVolumeSource''))),
       (''portworxVolume'', refTo (ref (CoreV1 ''PortworxVolumeSource''))),
       (''scaleIO'', refTo (ref (CoreV1 ''ScaleIOPersistentVolumeSource''))),
       (''local'', refTo (ref (CoreV1 ''LocalVolumeSource''))),
       (''storageos'', refTo (ref (CoreV1 ''StorageOSPersistentVolumeSource''))),
       (''csi'', refTo (ref (CoreV1 ''CSIPersistentVolumeSource'')))]
      [])
    [CoreV1 ''AWSElasticBlockStoreVolumeSource'', CoreV1 ''AzureDiskVolumeSource'',
     CoreV1 ''AzureFilePersistentVolumeSource'', CoreV1 ''CSIPersistentVolumeSource'',
     CoreV1 ''CephFSPersistentVolumeSource'', CoreV1 ''CinderPersistentVolumeSource'',
     CoreV1 ''FCVolumeSource'', CoreV1 ''FlexPersistentVolumeSource'',
     CoreV1 ''FlockerVolumeSource'', CoreV1 ''GCEPersistentDiskVolumeSource'',
     CoreV1 ''GlusterfsVolumeSource'', CoreV1 ''HostPathVolumeSource'',
     CoreV1 ''ISCSIPersistentVolumeSource'', CoreV1 ''LocalVolumeSource'',
     CoreV1 ''NFSVolumeSource'', CoreV1 ''PhotonPersistentDiskVolumeSource'',
     CoreV1 ''PortworxVolumeSource'', CoreV1 ''QuobyteVolumeSource'',
     CoreV1 ''RBDPersistentVolumeSource'', CoreV1 ''ScaleIOPersistentVolumeSource'',
     CoreV1 ''StorageOSPersistentVolumeSource'', CoreV1 ''VsphereVirtualDiskVolumeSource'']"

text \<open>The properties of the schema from csi on.\<close>

definition morePersistentVolumeSpecProperties :: "ReferenceCallback \<Rightarrow> (string \<times> Schema) list" where
  "morePersistentVolumeSpecProperties ref =
      [(''csi'', refTo (ref (CoreV1 ''CSIPersistentVolumeSource''))),
       (''accessModes'', arrayOf (prim ''string'' '''')),
       (''claimRef'', refTo (ref (CoreV1 ''ObjectReference''))),
       (''persistentVolumeReclaimPolicy'', prim ''string'' ''''),
       (''storageClassName'', prim ''string'' ''''),
       (''mountOptions'', arrayOf (prim ''string'' '''')),
       (''volumeMode'', prim ''string'' ''''),
       (''nodeAffinity'', refTo (ref (CoreV1 ''VolumeNodeAffinity'')))]"

definition schema_k8sio_api_core_v1_PersistentVolumeSpec ::
  "ReferenceCallback \<Rightarrow> OpenAPIDefinition" where
  "schema_k8sio_api_core_v1_PersistentVolumeSpec ref = openapiDefinition
    (objectOf
      ([(''capacity'', mapOf (refTo (ref (ApiResource ''Quantity'')))),
       (''gcePersistentDisk'', refTo (ref (CoreV1 ''GCEPersistentDiskVolumeSource''))),
       (''awsElasticBlockStore'', refTo (ref (CoreV1 ''AWSElasticBlockStoreVolumeSource''))),
       (''hostPath'', refTo (ref (CoreV1 ''HostPathVolumeSource''))),
       (''glusterfs'', refTo (ref (CoreV1 ''GlusterfsVolumeSource''))),
       (''nfs'', refTo (ref (CoreV1 ''NFSVolumeSource''))),
       (''rbd'', refTo (ref (CoreV1 ''RBDPersistentVolumeSource''))),
       (''iscsi'', refTo (ref (CoreV1 ''ISCSIPersistentVolumeSource''))),
       (''cinder'', refTo (ref (CoreV1 ''CinderPersistentVolumeSource''))),
       (''cephfs'', refTo (ref (CoreV1 ''CephFSPersistentVolumeSource''))),
       (''fc'', refTo (ref (CoreV1 ''FCVolumeSource''))),
       (''flocker'', refTo (ref (CoreV1 ''FlockerVolumeSource''))),
       (''flexVolume'', refTo (ref (CoreV1 ''FlexPersistentVolumeSource''))),
       (''azureFile'', refTo (ref (CoreV1 ''AzureFilePersistentVolumeSource''))),
       (''vsphereVolume'', refTo (ref (CoreV1 ''VsphereVirtualDiskVolumeSource''))),
       (''quobyte'', refTo (ref (CoreV1 ''QuobyteVolumeSource''))),
       (''azureDisk'', refTo (ref (CoreV1 ''AzureDiskVolumeSource''))),
       (''photonPersistentDisk'', refTo (ref (CoreV1 ''PhotonPersistentDiskVolumeSource''))),
       (''portworxVolume'', refTo (ref (CoreV1 ''PortworxVolumeSource''))),
       (''scaleIO'', refTo (ref (CoreV1 ''ScaleIOPersistentVolumeSource''))),
       (''local'', refTo (ref (CoreV1 ''LocalVolumeSource''))),
       (''storageos'', refTo (ref (CoreV1 ''StorageOSPersistentVolumeSource'')))]
       @ morePersistentVolumeSpecProperties ref)
      [])
    [CoreV1 ''AWSElasticBlockStoreVolumeSource'', CoreV1 ''AzureDiskVolumeSource'',
     CoreV1 ''AzureFilePersistentVolumeSource'', CoreV1 ''CSIPersistentVolumeSource'',
     CoreV1 ''CephFSPersistentVolumeSource'', CoreV1 ''CinderPersistentVolumeSource'',
     CoreV1 ''FCVolumeSource'', CoreV1 ''FlexPersistentVolumeSource'',
     CoreV1 ''FlockerVolumeSource'', CoreV1 ''GCEPersistentDiskVolumeSource'',
     CoreV1 ''GlusterfsVolumeSource'', CoreV1 ''HostPathVolumeSource'',
     CoreV1 ''ISCSIPersistentVolumeSource'', CoreV1 ''LocalVolumeSource'',
     CoreV1 ''NFSVolumeSource'', CoreV1 ''ObjectReference'',
     CoreV1 ''PhotonPersistentDiskVolumeSource'', CoreV1 ''PortworxVolumeSource'',
     CoreV1 ''QuobyteVolumeSource'', CoreV1 ''RBDPersistentVolumeSource'',
     CoreV1 ''ScaleIOPersistentVolumeSource'', CoreV1 ''StorageOSPersistentVolumeSource'',
     CoreV1 ''VolumeNodeAffinity'', CoreV1 ''VsphereVirtualDiskVolumeSource'',
     ApiResource ''Quantity'']"

definition schema_k8sio_api_core_v1_PersistentVolumeStatus ::
  "ReferenceCallback \<Rightarrow> OpenAPIDefinition" where
  "schema_k8sio_api_core_v1_PersistentVolumeStatus ref = openapiDefinition
    (objectOf
      [(''phase'', prim ''string'' ''''),
       (''message'', prim ''string'' ''''),
       (''reason'', prim ''string'' '''')]
      [])
    []"

definition schema_k8sio_api_core_v1_PhotonPersistentDiskVolumeSource ::
  "ReferenceCallback \<Rightarrow> OpenAPIDefinition" where
  "schema_k8sio_api_core_v1_PhotonPersistentDiskVolumeSource ref = openapiDefinition
    (objectOf
      [(''pdID'', prim ''string'' ''''),
       (''fsType'', prim ''string'' '''')]
      [''pdID''])
    []"

definition schema_k8sio_api_core_v1_Pod ::
  "ReferenceCallback \<Rightarrow> OpenAPIDefinition" where
  "schema_k8sio_api_core_v1_Pod ref = openapiDefinition
    (objectOf
      [(''kind'', prim ''string'' ''''),
       (''apiVersion'', prim ''string'' ''''),
       (''metadata'', refTo (ref (MetaV1 ''ObjectMeta''))),
       (''spec'', refTo (ref (CoreV1 ''PodSpec''))),
       (''status'', refTo (ref (CoreV1 ''PodStatus'')))]
      [])
    [CoreV1 ''PodSpec'', CoreV1 ''PodStatus'', MetaV1 ''ObjectMeta'']"

definition schema_k8sio_api_core_v1_PodAffinity ::
  "ReferenceCallback \<Rightarrow> OpenAPIDefinition" where
  "schema_k8sio_api_core_v1_PodAffinity ref = openapiDefinition
    (objectOf
      [(''requiredDuringSchedulingIgnoredDuringExecution'', arrayOf (refTo (ref (CoreV1 ''PodAffinityTerm'')))),
       (''preferredDuringSchedulingIgnoredDuringExecution'', arrayOf (refTo (ref (CoreV1 ''WeightedPodAffinityTerm''))))]
      [])
    [CoreV1 ''PodAffinityTerm'', CoreV1 ''WeightedPodAffinityTerm'']"

definition schema_k8sio_api_core_v1_PodAffinityTerm ::
  "ReferenceCallback \<Rightarrow> OpenAPIDefinition" where
  "schema_k8sio_api_core_v1_PodAffinityTerm ref = openapiDefinition
    (objectOf
      [(''labelSelector'', refTo (ref (MetaV1 ''LabelSelector''))),
       (''namespaces'', arrayOf (prim ''string'' '''')),
       (''topologyKey'', prim ''string'' '''')]
      [''topologyKey''])
    [MetaV1 ''LabelSelector'']"

definition schema_k8sio_api_core_v1_PodAntiAffinity ::
  "ReferenceCallback \<Rightarrow> OpenAPIDefinition" where
  "schema_k8sio_api_core_v1_PodAntiAffinity ref = openapiDefinition
    (objectOf
      [(''requiredDuringSchedulingIgnoredDuringExecution'', arrayOf (refTo (ref (CoreV1 ''PodAffinityTerm'')))),
       (''preferredDuringSchedulingIgnoredDuringExecution'', arrayOf (refTo (ref (CoreV1 ''WeightedPodAffinityTerm''))))]
      [])
    [CoreV1 ''PodAffinityTerm'', CoreV1 ''WeightedPodAffinityTerm'']"

definition schema_k8sio_api_core_v1_PodAttachOptions ::
  "ReferenceCallback \<Rightarrow> OpenAPIDefinition" where
  "schema_k8sio_api_core_v1_PodAttachOptions ref = openapiDefinition
    (objectOf
      [(''kind'', prim ''string'' ''''),
       (''apiVersion'', prim ''string'' ''''),
       (''stdin'', prim ''boolean'' ''''),
       (''stdout'', prim ''boolean'' ''''),
       (''stderr'', prim ''boolean'' ''''),
       (''tty'', prim ''boolean'' ''''),
       (''container'', prim ''string'' '''')]
      [])
    []"

definition schema_k8sio_api_core_v1_PodCondition ::
  "ReferenceCallback \<Rightarrow> OpenAPIDefinition" where
  "schema_k8sio_api_core_v1_PodCondition ref = openapiDefinition
    (objectOf
      [(''type'', prim ''string'' ''''),
       (''status'', prim ''string'' ''''),
       (''lastProbeTime'', refTo (ref (MetaV1 ''Time''))),
       (''lastTransitionTime'', refTo (ref (MetaV1 ''Time''))),
       (''reason'', prim ''string'' ''''),
       (''message'', prim ''string'' '''')]
      [''type'', ''status''])
    [MetaV1 ''Time'']"

definition schema_k8sio_api_core_v1_PodDNSConfig ::
  "ReferenceCallback \<Rightarrow> OpenAPIDefinition" where
  "schema_k8sio_api_core_v1_PodDNSConfig ref = openapiDefinition
    (objectOf
      [(''nameservers'', arrayOf (prim ''string'' '''')),
       (''searches'', arrayOf (prim ''string'' '''')),
       (''options'', arrayOf (refTo (ref (CoreV1 ''PodDNSConfigOption''))))]
      [])
    [CoreV1 ''PodDNSConfigOption'']"

definition schema_k8sio_api_core_v1_PodDNSConfigOption ::
  "ReferenceCallback \<Rightarrow> OpenAPIDefinition" where
  "schema_k8sio_api_core_v1_PodDNSConfigOption ref = openapiDefinition
    (objectOf
      [(''name'', prim ''string'' ''''),
       (''value'', prim ''string'' '''')]
      [])
    []"

definition schema_k8sio_api_core_v1_PodExecOptions ::
  "ReferenceCallback \<Rightarrow> OpenAPIDefinition" where
  "schema_k8sio_api_core_v1_PodExecOptions ref = openapiDefinition
    (objectOf
      [(''kind'', prim ''string'' ''''),
       (''apiVersion'', prim ''string'' ''''),
       (''stdin'', prim ''boolean'' ''''),
       (''stdout'', prim ''boolean'' ''''),
       (''stderr'', prim ''boolean'' ''''),
       (''tty'', prim ''boolean'' ''''),
       (''container'', prim ''string'' ''''),
       (''command'', arrayOf (prim ''string'' ''''))]
      [''command''])
    []"

definition schema_k8sio_api_core_v1_PodList ::
  "ReferenceCallback \<Rightarrow> OpenAPIDefinition" where
  "schema_k8sio_api_core_v1_PodList ref = openapiDefinition
    (objectOf
      [(''kind'', prim ''string'' ''''),
       (''apiVersion'', prim ''string'' ''''),
       (''metadata'', refTo (ref (MetaV1 ''ListMeta''))),
       (''items'', arrayOf (refTo (ref (CoreV1 ''Pod''))))]
      [''items''])
    [CoreV1 ''Pod'', MetaV1 ''ListMeta'']"

text \<open>Every one of them is well formed and declares exactly what it refers to.\<close>

lemma wf_core_c:
  "list_all wfDefinition
    [schema_k8sio_api_core_v1_NodeConfigSource Some,
     schema_k8sio_api_core_v1_NodeConfigStatus Some,
     schema_k8sio_api_core_v1_NodeDaemonEndpoints Some, schema_k8sio_api_core_v1_NodeList Some,
     schema_k8sio_api_core_v1_NodeProxyOptions Some, schema_k8sio_api_core_v1_NodeResources Some,
     schema_k8sio_api_core_v1_NodeSelector Some,
     schema_k8sio_api_core_v1_NodeSelectorRequirement Some,
     schema_k8sio_api_core_v1_NodeSelectorTerm Some, schema_k8sio_api_core_v1_NodeSpec Some,
     schema_k8sio_api_core_v1_NodeStatus Some, schema_k8sio_api_core_v1_NodeSystemInfo Some,
     schema_k8sio_api_core_v1_ObjectFieldSelector Some,
     schema_k8sio_api_core_v1_ObjectReference Some,
     schema_k8sio_api_core_v1_PersistentVolume Some,
     schema_k8sio_api_core_v1_PersistentVolumeClaim Some,
     schema_k8sio_api_core_v1_PersistentVolumeClaimCondition Some,
     schema_k8sio_api_core_v1_PersistentVolumeClaimList Some,
     schema_k8sio_api_core_v1_PersistentVolumeClaimSpec Some,
     schema_k8sio_api_core_v1_PersistentVolumeClaimStatus Some,
     schema_k8sio_api_core_v1_PersistentVolumeClaimVolumeSource Some,
     schema_k8sio_api_core_v1_PersistentVolumeList Some,
     schema_k8sio_api_core_v1_PersistentVolumeSource Some,
     schema_k8sio_api_core_v1_PersistentVolumeSpec Some,
     schema_k8sio_api_core_v1_PersistentVolumeStatus Some,
     schema_k8sio_api_core_v1_PhotonPersistentDiskVolumeSource Some,
     schema_k8sio_api_core_v1_Pod Some, schema_k8sio_api_core_v1_PodAffinity Some,
     schema_k8sio_api_core_v1_PodAffinityTerm Some,
     schema_k8sio_api_core_v1_PodAntiAffinity Some,
     schema_k8sio_api_core_v1_PodAttachOptions Some, schema_k8sio_api_core_v1_PodCondition Some,
     schema_k8sio_api_core_v1_PodDNSConfig Some,
     schema_k8sio_api_core_v1_PodDNSConfigOption Some,
     schema_k8sio_api_core_v1_PodExecOptions Some, schema_k8sio_api_core_v1_PodList Some]"
  by code_simp

end
