(* ===== verification/OpenAPI_Core_D.thy ===== *)
theory OpenAPI_Core_D
  imports OpenAPI_Schema
begin

text \<open>
  The schemas of the Kubernetes core/v1 types from PodLogOptions to
  Secret, one definition per generated
  function of pkg/apis/jupyter/v1/openapi_generated.go, with its properties in the
  order of the file, the required ones and the declared dependencies.
\<close>

definition schema_k8sio_api_core_v1_PodLogOptions ::
  "ReferenceCallback \<Rightarrow> OpenAPIDefinition" where
  "schema_k8sio_api_core_v1_PodLogOptions ref = openapiDefinition
    (objectOf
      [(''kind'', prim ''string'' ''''),
       (''apiVersion'', prim ''string'' ''''),
       (''container'', prim ''string'' ''''),
       (''follow'', prim ''boolean'' ''''),
       (''previous'', prim ''boolean'' ''''),
       (''sinceSeconds'', prim ''integer'' ''int64''),
       (''sinceTime'', refTo (ref (MetaV1 ''Time''))),
       (''timestamps'', prim ''boolean'' ''''),
       (''tailLines'', prim ''integer'' ''int64''),
       (''limitBytes'', prim ''integer'' ''int64'')]
      [])
    [MetaV1 ''Time'']"

definition schema_k8sio_api_core_v1_PodPortForwardOptions ::
  "ReferenceCallback \<Rightarrow> OpenAPIDefinition" where
  "schema_k8sio_api_core_v1_PodPortForwardOptions ref = openapiDefinition
    (objectOf
      [(''kind'', prim ''string'' ''''),
       (''apiVersion'', prim ''string'' ''''),
       (''ports'', arrayOf (prim ''integer'' ''int32''))]
      [])
    []"

definition schema_k8sio_api_core_v1_PodProxyOptions ::
  "ReferenceCallback \<Rightarrow> OpenAPIDefinition" where
  "schema_k8sio_api_core_v1_PodProxyOptions ref = openapiDefinition
    (objectOf
      [(''kind'', prim ''string'' ''''),
       (''apiVersion'', prim ''string'' ''''),
       (''path'', prim ''string'' '''')]
      [])
    []"

definition schema_k8sio_api_core_v1_PodReadinessGate ::
  "ReferenceCallback \<Rightarrow> OpenAPIDefinition" where
  "schema_k8sio_api_core_v1_PodReadinessGate ref = openapiDefinition
    (objectOf
      [(''conditionType'', prim ''string'' '''')]
      [''conditionType''])
    []"

definition schema_k8sio_api_core_v1_PodSecurityContext ::
  "ReferenceCallback \<Rightarrow> OpenAPIDefinition" where
  "schema_k8sio_api_core_v1_PodSecurityContext ref = openapiDefinition
    (objectOf
      [(''seLinuxOptions'', refTo (ref (CoreV1 ''SELinuxOptions''))),
       (''runAsUser'', prim ''integer'' ''int64''),
       (''runAsGroup'', prim ''integer'' ''int64''),
       (''runAsNonRoot'', prim ''boolean'' ''''),
       (''supplementalGroups'', arrayOf (prim ''integer'' ''int64'')),
       (''fsGroup'', prim ''integer'' ''int64''),
       (''sysctls'', arrayOf (refTo (ref (CoreV1 ''Sysctl''))))]
      [])
    [CoreV1 ''SELinuxOptions'', CoreV1 ''Sysctl'']"

definition schema_k8sio_api_core_v1_PodSignature ::
  "ReferenceCallback \<Rightarrow> OpenAPIDefinition" where
  "schema_k8sio_api_core_v1_PodSignature ref = openapiDefinition
    (objectOf
      [(''podController'', refTo (ref (MetaV1 ''OwnerReference'')))]
      [])
    [MetaV1 ''OwnerReference'']"

text \<open>The properties of the schema from hostIPC on.\<close>

definition morePodSpecProperties :: "ReferenceCallback \<Rightarrow> (string \<times> Schema) list" where
  "morePodSpecProperties ref =
      [(''hostIPC'', prim ''boolean'' ''''),
       (''shareProcessNamespace'', prim ''boolean'' ''''),
       (''securityContext'', refTo (ref (CoreV1 ''PodSecurityContext''))),
       (''imagePullSecrets'', extended [(''x-kubernetes-patch-merge-key'', ''name''), (''x-kubernetes-patch-strategy'', ''merge'')] (arrayOf (refTo (ref (CoreV1 ''LocalObjectReference''))))),
       (''hostname'', prim ''string'' ''''),
       (''subdomain'', prim ''string'' ''''),
       (''affinity'', refTo (ref (CoreV1 ''Affinity''))),
       (''schedulerName'', prim ''string'' ''''),
       (''tolerations'', arrayOf (refTo (ref (CoreV1 ''Toleration'')))),
       (''hostAliases'', extended [(''x-kubernetes-patch-merge-key'', ''ip''), (''x-kubernetes-patch-strategy'', ''merge'')] (arrayOf (refTo (ref (CoreV1 ''HostAlias''))))),
       (''priorityClassName'', prim ''string'' ''''),
       (''priority'', prim ''integer'' ''int32''),
       (''dnsConfig'', refTo (ref (CoreV1 ''PodDNSConfig''))),
       (''readinessGates'', arrayOf (refTo (ref (CoreV1 ''PodReadinessGate'')))),
       (''runtimeClassName'', prim ''string'' '''')]"

definition schema_k8sio_api_core_v1_PodSpec ::
  "ReferenceCallback \<Rightarrow> OpenAPIDefinition" where
  "schema_k8sio_api_core_v1_PodSpec ref = openapiDefinition
    (objectOf
      ([(''volumes'', extended [(''x-kubernetes-patch-merge-key'', ''name''), (''x-kubernetes-patch-strategy'', ''merge,retainKeys'')] (arrayOf (refTo (ref (CoreV1 ''Volume''))))),
       (''initContainers'', extended [(''x-kubernetes-patch-merge-key'', ''name''), (''x-kubernetes-patch-strategy'', ''merge'')] (arrayOf (refTo (ref (CoreV1 ''Container''))))),
       (''containers'', extended [(''x-kubernetes-patch-merge-key'', ''name''), (''x-kubernetes-patch-strategy'', ''merge'')] (arrayOf (refTo (ref (CoreV1 ''Container''))))),
       (''restartPolicy'', prim ''string'' ''''),
       (''terminationGracePeriodSeconds'', prim ''integer'' ''int64''),
       (''activeDeadlineSeconds'', prim ''integer'' ''int64''),
       (''dnsPolicy'', prim ''string'' ''''),
       (''nodeSelector'', mapOf (prim ''string'' '''')),
       (''serviceAccountName'', prim ''string'' ''''),
       (''serviceAccount'', prim ''string'' ''''),
       (''automountServiceAccountToken'', prim ''boolean'' ''''),
       (''nodeName'', prim ''string'' ''''),
       (''hostNetwork'', prim ''boolean'' ''''),
       (''hostPID'', prim ''boolean'' '''')]
       @ morePodSpecProperties ref)
      [''containers''])
    [CoreV1 ''Affinity'', CoreV1 ''Container'', CoreV1 ''HostAlias'',
     CoreV1 ''LocalObjectReference'', CoreV1 ''PodDNSConfig'', CoreV1 ''PodReadinessGate'',
     CoreV1 ''PodSecurityContext'', CoreV1 ''Toleration'', CoreV1 ''Volume'']"

definition schema_k8sio_api_core_v1_PodStatus ::
  "ReferenceCallback \<Rightarrow> OpenAPIDefinition" where
  "schema_k8sio_api_core_v1_PodStatus ref = openapiDefinition
    (objectOf
      [(''phase'', prim ''string'' ''''),
       (''conditions'', extended [(''x-kubernetes-patch-merge-key'', ''type''), (''x-kubernetes-patch-strategy'', ''merge'')] (arrayOf (refTo (ref (CoreV1 ''PodCondition''))))),
       (''message'', prim ''string'' ''''),
       (''reason'', prim ''string'' ''''),
       (''nominatedNodeName'', prim ''string'' ''''),
       (''hostIP'', prim ''string'' ''''),
       (''podIP'', prim ''string'' ''''),
       (''startTime'', refTo (ref (MetaV1 ''Time''))),
       (''initContainerStatuses'', arrayOf (refTo (ref (CoreV1 ''ContainerStatus'')))),
       (''containerStatuses'', arrayOf (refTo (ref (CoreV1 ''ContainerStatus'')))),
       (''qosClass'', prim ''string'' '''')]
      [])
    [CoreV1 ''ContainerStatus'', CoreV1 ''PodCondition'', MetaV1 ''Time'']"

definition schema_k8sio_api_core_v1_PodStatusResult ::
  "ReferenceCallback \<Rightarrow> OpenAPIDefinition" where
  "schema_k8sio_api_core_v1_PodStatusResult ref = openapiDefinition
    (objectOf
      [(''kind'', prim ''string'' ''''),
       (''apiVersion'', prim ''string'' ''''),
       (''metadata'', refTo (ref (MetaV1 ''ObjectMeta''))),
       (''status'', refTo (ref (CoreV1 ''PodStatus'')))]
      [])
    [CoreV1 ''PodStatus'', MetaV1 ''ObjectMeta'']"

definition schema_k8sio_api_core_v1_PodTemplate ::
  "ReferenceCallback \<Rightarrow> OpenAPIDefinition" where
  "schema_k8sio_api_core_v1_PodTemplate ref = openapiDefinition
    (objectOf
      [(''kind'', prim ''string'' ''''),
       (''apiVersion'', prim ''string'' ''''),
       (''metadata'', refTo (ref (MetaV1 ''ObjectMeta''))),
       (''template'', refTo (ref (CoreV1 ''PodTemplateSpec'')))]
      [])
    [CoreV1 ''PodTemplateSpec'', MetaV1 ''ObjectMeta'']"

definition schema_k8sio_api_core_v1_PodTemplateList ::
  "ReferenceCallback \<Rightarrow> OpenAPIDefinition" where
  "schema_k8sio_api_core_v1_PodTemplateList ref = openapiDefinition
    (objectOf
      [(''kind'', prim ''string'' ''''),
       (''apiVersion'', prim ''string'' ''''),
       (''metadata'', refTo (ref (MetaV1 ''ListMeta''))),
       (''items'', arrayOf (refTo (ref (CoreV1 ''PodTemplate''))))]
      [''items''])
    [CoreV1 ''PodTemplate'', MetaV1 ''ListMeta'']"

definition schema_k8sio_api_core_v1_PodTemplateSpec ::
  "ReferenceCallback \<Rightarrow> OpenAPIDefinition" where
  "schema_k8sio_api_core_v1_PodTemplateSpec ref = openapiDefinition
    (objectOf
      [(''metadata'', refTo (ref (MetaV1 ''ObjectMeta''))),
       (''spec'', refTo (ref (CoreV1 ''PodSpec'')))]
      [])
    [CoreV1 ''PodSpec'', MetaV1 ''ObjectMeta'']"

definition schema_k8sio_api_core_v1_PortworxVolumeSource ::
  "ReferenceCallback \<Rightarrow> OpenAPIDefinition" where
  "schema_k8sio_api_core_v1_PortworxVolumeSource ref = openapiDefinition
    (objectOf
      [(''volumeID'', prim ''string'' ''''),
       (''fsType'', prim ''string'' ''''),
       (''readOnly'', prim ''boolean'' '''')]
      [''volumeID''])
    []"

definition schema_k8sio_api_core_v1_PreferAvoidPodsEntry ::
  "ReferenceCallback \<Rightarrow> OpenAPIDefinition" where
  "schema_k8sio_api_core_v1_PreferAvoidPodsEntry ref = openapiDefinition
    (objectOf
      [(''podSignature'', refTo (ref (CoreV1 ''PodSignature''))),
       (''evictionTime'', refTo (ref (MetaV1 ''Time''))),
       (''reason'', prim ''string'' ''''),
       (''message'', prim ''string'' '''')]
      [''podSignature''])
    [CoreV1 ''PodSignature'', MetaV1 ''Time'']"

definition schema_k8sio_api_core_v1_PreferredSchedulingTerm ::
  "ReferenceCallback \<Rightarrow> OpenAPIDefinition" where
  "schema_k8sio_api_core_v1_PreferredSchedulingTerm ref = openapiDefinition
    (objectOf
      [(''weight'', prim ''integer'' ''int32''),
       (''preference'', refTo (ref (CoreV1 ''NodeSelectorTerm'')))]
      [''weight'', ''preference''])
    [CoreV1 ''NodeSelectorTerm'']"

definition schema_k8sio_api_core_v1_Probe ::
  "ReferenceCallback \<Rightarrow> OpenAPIDefinition" where
  "schema_k8sio_api_core_v1_Probe ref = openapiDefinition
    (objectOf
      [(''exec'', refTo (ref (CoreV1 ''ExecAction''))),
       (''httpGet'', refTo (ref (CoreV1 ''HTTPGetAction''))),
       (''tcpSocket'', refTo (ref (CoreV1 ''TCPSocketAction''))),
       (''initialDelaySeconds'', prim ''integer'' ''int32''),
       (''timeoutSeconds'', prim ''integer'' ''int32''),
       (''periodSeconds'', prim ''integer'' ''int32''),
       (''successThreshold'', prim ''integer'' ''int32''),
       (''failureThreshold'', prim ''integer'' ''int32'')]
      [])
    [CoreV1 ''ExecAction'', CoreV1 ''HTTPGetAction'', CoreV1 ''TCPSocketAction'']"

definition schema_k8sio_api_core_v1_ProjectedVolumeSource ::
  "ReferenceCallback \<Rightarrow> OpenAPIDefinition" where
  "schema_k8sio_api_core_v1_ProjectedVolumeSource ref = openapiDefinition
    (objectOf
      [(''sources'', arrayOf (refTo (ref (CoreV1 ''VolumeProjection'')))),
       (''defaultMode'', prim ''integer'' ''int32'')]
      [''sources''])
    [CoreV1 ''VolumeProjection'']"

definition schema_k8sio_api_core_v1_QuobyteVolumeSource ::
  "ReferenceCallback \<Rightarrow> OpenAPIDefinition" where
  "schema_k8sio_api_core_v1_QuobyteVolumeSource ref = openapiDefinition
    (objectOf
      [(''registry'', prim ''string'' ''''),
       (''volume'', prim ''string'' ''''),
       (''readOnly'', prim ''boolean'' ''''),
       (''user'', prim ''string'' ''''),
       (''group'', prim ''string'' '''')]
      [''registry'', ''volume''])
    []"

definition schema_k8sio_api_core_v1_RBDPersistentVolumeSource ::
  "ReferenceCallback \<Rightarrow> OpenAPIDefinition" where
  "schema_k8sio_api_core_v1_RBDPersistentVolumeSource ref = openapiDefinition
    (objectOf
      [(''monitors'', arrayOf (prim ''string'' '''')),
       (''image'', prim ''string'' ''''),
       (''fsType'', prim ''string'' ''''),
       (''pool'', prim ''string'' ''''),
       (''user'', prim ''string'' ''''),
       (''keyring'', prim ''string'' ''''),
       (''secretRef'', refTo (ref (CoreV1 ''SecretReference''))),
       (''readOnly'', prim ''boolean'' '''')]
      [''monitors'', ''image''])
    [CoreV1 ''SecretReference'']"

definition schema_k8sio_api_core_v1_RBDVolumeSource ::
  "ReferenceCallback \<Rightarrow> OpenAPIDefinition" where
  "schema_k8sio_api_core_v1_RBDVolumeSource ref = openapiDefinition
    (objectOf
      [(''monitors'', arrayOf (prim ''string'' '''')),
       (''image'', prim ''string'' ''''),
       (''fsType'', prim ''string'' ''''),
       (''pool'', prim ''string'' ''''),
       (''user'', prim ''string'' ''''),
       (''keyring'', prim ''string'' ''''),
       (''secretRef'', refTo (ref (CoreV1 ''LocalObjectReference''))),
       (''readOnly'', prim ''boolean'' '''')]
      [''monitors'', ''image''])
    [CoreV1 ''LocalObjectReference'']"

definition schema_k8sio_api_core_v1_RangeAllocation ::
  "ReferenceCallback \<Rightarrow> OpenAPIDefinition" where
  "schema_k8sio_api_core_v1_RangeAllocation ref = openapiDefinition
    (objectOf
      [(''kind'', prim ''string'' ''''),
       (''apiVersion'', prim ''string'' ''''),
       (''metadata'', refTo (ref (MetaV1 ''ObjectMeta''))),
       (''range'', prim ''string'' ''''),
       (''data'', prim ''string'' ''byte'')]
      [''range'', ''data''])
    [MetaV1 ''ObjectMeta'']"

definition schema_k8sio_api_core_v1_ReplicationController ::
  "ReferenceCallback \<Rightarrow> OpenAPIDefinition" where
  "schema_k8sio_api_core_v1_ReplicationController ref = openapiDefinition
    (objectOf
      [(''kind'', prim ''string'' ''''),
       (''apiVersion'', prim ''string'' ''''),
       (''metadata'', refTo (ref (MetaV1 ''ObjectMeta''))),
       (''spec'', refTo (ref (CoreV1 ''ReplicationControllerSpec''))),
       (''status'', refTo (ref (CoreV1 ''ReplicationControllerStatus'')))]
      [])
    [CoreV1 ''ReplicationControllerSpec'', CoreV1 ''ReplicationControllerStatus'',
     MetaV1 ''ObjectMeta'']"

definition schema_k8sio_api_core_v1_ReplicationControllerCondition ::
  "ReferenceCallback \<Rightarrow> OpenAPIDefinition" where
  "schema_k8sio_api_core_v1_ReplicationControllerCondition ref = openapiDefinition
    (objectOf
      [(''type'', prim ''string'' ''''),
       (''status'', prim ''string'' ''''),
       (''lastTransitionTime'', refTo (ref (MetaV1 ''Time''))),
       (''reason'', prim ''string'' ''''),
       (''message'', prim ''string'' '''')]
      [''type'', ''status''])
    [MetaV1 ''Time'']"

definition schema_k8sio_api_core_v1_ReplicationControllerList ::
  "ReferenceCallback \<Rightarrow> OpenAPIDefinition" where
  "schema_k8sio_api_core_v1_ReplicationControllerList ref = openapiDefinition
    (objectOf
      [(''kind'', prim ''string'' ''''),
       (''apiVersion'', prim ''string'' ''''),
       (''metadata'', refTo (ref (MetaV1 ''ListMeta''))),
       (''items'', arrayOf (refTo (ref (CoreV1 ''ReplicationController''))))]
      [''items''])
    [CoreV1 ''ReplicationController'', MetaV1 ''ListMeta'']"

definition schema_k8sio_api_core_v1_ReplicationControllerSpec ::
  "ReferenceCallback \<Rightarrow> OpenAPIDefinition" where
  "schema_k8sio_api_core_v1_ReplicationControllerSpec ref = openapiDefinition
    (objectOf
      [(''replicas'', prim ''integer'' ''int32''),
       (''minReadySeconds'', prim ''integer'' ''int32''),
       (''selector'', mapOf (prim ''string'' '''')),
       (''template'', refTo (ref (CoreV1 ''PodTemplateSpec'')))]
      [])
    [CoreV1 ''PodTemplateSpec'']"

definition schema_k8sio_api_core_v1_ReplicationControllerStatus ::
  "ReferenceCallback \<Rightarrow> OpenAPIDefinition" where
  "schema_k8sio_api_core_v1_ReplicationControllerStatus ref = openapiDefinition
    (objectOf
      [(''replicas'', prim ''integer'' ''int32''),
       (''fullyLabeledReplicas'', prim ''integer'' ''int32''),
       (''readyReplicas'', prim ''integer'' ''int32''),
       (''availableReplicas'', prim ''integer'' ''int32''),
       (''observedGeneration'', prim ''integer'' ''int64''),
       (''conditions'', extended [(''x-kubernetes-patch-merge-key'', ''type''), (''x-kubernetes-patch-strategy'', ''merge'')] (arrayOf (refTo (ref (CoreV1 ''ReplicationControllerCondition'')))))]
      [''replicas''])
    [CoreV1 ''ReplicationControllerCondition'']"

definition schema_k8sio_api_core_v1_ResourceFieldSelector ::
  "ReferenceCallback \<Rightarrow> OpenAPIDefinition" where
  "schema_k8sio_api_core_v1_ResourceFieldSelector ref = openapiDefinition
    (objectOf
      [(''containerName'', prim ''string'' ''''),
       (''resource'', prim ''string'' ''''),
       (''divisor'', refTo (ref (ApiResource ''Quantity'')))]
      [''resource''])
    [ApiResource ''Quantity'']"

definition schema_k8sio_api_core_v1_ResourceQuota ::
  "ReferenceCallback \<Rightarrow> OpenAPIDefinition" where
  "schema_k8sio_api_core_v1_ResourceQuota ref = openapiDefinition
    (objectOf
      [(''kind'', prim ''string'' ''''),
       (''apiVersion'', prim ''string'' ''''),
       (''metadata'', refTo (ref (MetaV1 ''ObjectMeta''))),
       (''spec'', refTo (ref (CoreV1 ''ResourceQuotaSpec''))),
       (''status'', refTo (ref (CoreV1 ''ResourceQuotaStatus'')))]
      [])
    [CoreV1 ''ResourceQuotaSpec'', CoreV1 ''ResourceQuotaStatus'', MetaV1 ''ObjectMeta'']"

definition schema_k8sio_api_core_v1_ResourceQuotaList ::
  "ReferenceCallback \<Rightarrow> OpenAPIDefinition" where
  "schema_k8sio_api_core_v1_ResourceQuotaList ref = openapiDefinition
    (objectOf
      [(''kind'', prim ''string'' ''''),
       (''apiVersion'', prim ''string'' ''''),
       (''metadata'', refTo (ref (MetaV1 ''ListMeta''))),
       (''items'', arrayOf (refTo (ref (CoreV1 ''ResourceQuota''))))]
      [''items''])
    [CoreV1 ''ResourceQuota'', MetaV1 ''ListMeta'']"

definition schema_k8sio_api_core_v1_ResourceQuotaSpec ::
  "ReferenceCallback \<Rightarrow> OpenAPIDefinition" where
  "schema_k8sio_api_core_v1_ResourceQuotaSpec ref = openapiDefinition
    (objectOf
      [(''hard'', mapOf (refTo (ref (ApiResource ''Quantity'')))),
       (''scopes'', arrayOf (prim ''string'' '''')),
       (''scopeSelector'', refTo (ref (CoreV1 ''ScopeSelector'')))]
      [])
    [CoreV1 ''ScopeSelector'', ApiResource ''Quantity'']"

definition schema_k8sio_api_core_v1_ResourceQuotaStatus ::
  "ReferenceCallback \<Rightarrow> OpenAPIDefinition" where
  "schema_k8sio_api_core_v1_ResourceQuotaStatus ref = openapiDefinition
    (objectOf
      [(''hard'', mapOf (refTo (ref (ApiResource ''Quantity'')))),
       (''used'', mapOf (refTo (ref (ApiResource ''Quantity''))))]
      [])
    [ApiResource ''Quantity'']"

definition schema_k8sio_api_core_v1_ResourceRequirements ::
  "ReferenceCallback \<Rightarrow> OpenAPIDefinition" where
  "schema_k8sio_api_core_v1_ResourceRequirements ref = openapiDefinition
    (objectOf
      [(''limits'', mapOf (refTo (ref (ApiResource ''Quantity'')))),
       (''requests'', mapOf (refTo (ref (ApiResource ''Quantity''))))]
      [])
    [ApiResource ''Quantity'']"

definition schema_k8sio_api_core_v1_SELinuxOptions ::
  "ReferenceCallback \<Rightarrow> OpenAPIDefinition" where
  "schema_k8sio_api_core_v1_SELinuxOptions ref = openapiDefinition
    (objectOf
      [(''user'', prim ''string'' ''''),
       (''role'', prim ''string'' ''''),
       (''type'', prim ''string'' ''''),
       (''level'', prim ''string'' '''')]
      [])
    []"

definition schema_k8sio_api_core_v1_ScaleIOPersistentVolumeSource ::
  "ReferenceCallback \<Rightarrow> OpenAPIDefinition" where
  "schema_k8sio_api_core_v1_ScaleIOPersistentVolumeSource ref = openapiDefinition
    (objectOf
      [(''gateway'', prim ''string'' ''''),
       (''system'', prim ''string'' ''''),
       (''secretRef'', refTo (ref (CoreV1 ''SecretReference''))),
       (''sslEnabled'', prim ''boolean'' ''''),
       (''protectionDomain'', prim ''string'' ''''),
       (''storagePool'', prim ''string'' ''''),
       (''storageMode'', prim ''string'' ''''),
       (''volumeName'', prim ''string'' ''''),
       (''fsType'', prim ''string'' ''''),
       (''readOnly'', prim ''boolean'' '''')]
      [''gateway'', ''system'', ''secretRef''])
    [CoreV1 ''SecretReference'']"

definition schema_k8sio_api_core_v1_ScaleIOVolumeSource ::
  "ReferenceCallback \<Rightarrow> OpenAPIDefinition" where
  "schema_k8sio_api_core_v1_ScaleIOVolumeSource ref = openapiDefinition
    (objectOf
      [(''gateway'', prim ''string'' ''''),
       (''system'', prim ''string'' ''''),
       (''secretRef'', refTo (ref (CoreV1 ''LocalObjectReference''))),
       (''sslEnabled'', prim ''boolean'' ''''),
       (''protectionDomain'', prim ''string'' ''''),
       (''storagePool'', prim ''string'' ''''),
       (''storageMode'', prim ''string'' ''''),
       (''volumeName'', prim ''string'' ''''),
       (''fsType'', prim ''string'' ''''),
       (''readOnly'', prim ''boolean'' '''')]
      [''gateway'', ''system'', ''secretRef''])
    [CoreV1 ''LocalObjectReference'']"

definition schema_k8sio_api_core_v1_ScopeSelector ::
  "ReferenceCallback \<Rightarrow> OpenAPIDefinition" where
  "schema_k8sio_api_core_v1_ScopeSelector ref = openapiDefinition
    (objectOf
      [(''matchExpressions'', arrayOf (refTo (ref (CoreV1 ''ScopedResourceSelectorRequirement''))))]
      [])
    [CoreV1 ''ScopedResourceSelectorRequirement'']"

definition schema_k8sio_api_core_v1_ScopedResourceSelectorRequirement ::
  "ReferenceCallback \<Rightarrow> OpenAPIDefinition" where
  "schema_k8sio_api_core_v1_ScopedResourceSelectorRequirement ref = openapiDefinition
    (objectOf
      [(''scopeName'', prim ''string'' ''''),
       (''operator'', prim ''string'' ''''),
       (''values'', arrayOf (prim ''string'' ''''))]
      [''scopeName'', ''operator''])
    []"

definition schema_k8sio_api_core_v1_Secret ::
  "ReferenceCallback \<Rightarrow> OpenAPIDefinition" where
  "schema_k8sio_api_core_v1_Secret ref = openapiDefinition
    (objectOf
      [(''kind'', prim ''string'' ''''),
       (''apiVersion'', prim ''string'' ''''),
       (''metadata'', refTo (ref (MetaV1 ''ObjectMeta''))),
       (''data'', mapOf (prim ''string'' ''byte'')),
       (''stringData'', mapOf (prim ''string'' '''')),
       (''type'', prim ''string'' '''')]
      [])
    [MetaV1 ''ObjectMeta'']"

text \<open>Every one of them is well formed and declares exactly what it refers to.\<close>

lemma wf_core_d:
  "list_all wfDefinition
    [schema_k8sio_api_core_v1_PodLogOptions Some,
     schema_k8sio_api_core_v1_PodPortForwardOptions Some,
     schema_k8sio_api_core_v1_PodProxyOptions Some,
     schema_k8sio_api_core_v1_PodReadinessGate Some,
     schema_k8sio_api_core_v1_PodSecurityContext Some,
     schema_k8sio_api_core_v1_PodSignature Some, schema_k8sio_api_core_v1_PodSpec Some,
     schema_k8sio_api_core_v1_PodStatus Some, schema_k8sio_api_core_v1_PodStatusResult Some,
     schema_k8sio_api_core_v1_PodTemplate Some, schema_k8sio_api_core_v1_PodTemplateList Some,
     schema_k8sio_api_core_v1_PodTemplateSpec Some,
     schema_k8sio_api_core_v1_PortworxVolumeSource Some,
     schema_k8sio_api_core_v1_PreferAvoidPodsEntry Some,
     schema_k8sio_api_core_v1_PreferredSchedulingTerm Some, schema_k8sio_api_core_v1_Probe Some,
     schema_k8sio_api_core_v1_ProjectedVolumeSource Some,
     schema_k8sio_api_core_v1_QuobyteVolumeSource Some,
     schema_k8sio_api_core_v1_RBDPersistentVolumeSource Some,
     schema_k8sio_api_core_v1_RBDVolumeSource Some,
     schema_k8sio_api_core_v1_RangeAllocation Some,
     schema_k8sio_api_core_v1_ReplicationController Some,
     schema_k8sio_api_core_v1_ReplicationControllerCondition Some,
     schema_k8sio_api_core_v1_ReplicationControllerList Some,
     schema_k8sio_api_core_v1_ReplicationControllerSpec Some,
     schema_k8sio_api_core_v1_ReplicationControllerStatus Some,
     schema_k8sio_api_core_v1_ResourceFieldSelector Some,
     schema_k8sio_api_core_v1_ResourceQuota Some,
     schema_k8sio_api_core_v1_ResourceQuotaList Some,
     schema_k8sio_api_core_v1_ResourceQuotaSpec Some,
     schema_k8sio_api_core_v1_ResourceQuotaStatus Some,
     schema_k8sio_api_core_v1_ResourceRequirements Some,
     schema_k8sio_api_core_v1_SELinuxOptions Some,
     schema_k8sio_api_core_v1_ScaleIOPersistentVolumeSource Some,
     schema_k8sio_api_core_v1_ScaleIOVolumeSource Some,
     schema_k8sio_api_core_v1_ScopeSelector Some,
     schema_k8sio_api_core_v1_ScopedResourceSelectorRequirement Some,
     schema_k8sio_api_core_v1_Secret Some]"
  by code_simp

end
