(* ===== verification/OpenAPI_Core_E.thy ===== *)
theory OpenAPI_Core_E
  imports OpenAPI_Schema
begin

text \<open>
  The schemas of the Kubernetes core/v1 types from SecretEnvSource to
  WeightedPodAffinityTerm, one definition per generated
  function of pkg/apis/jupyter/v1/openapi_generated.go, with its properties in the
  order of the file, the required ones and the declared dependencies.
\<close>

definition schema_k8sio_api_core_v1_SecretEnvSource ::
  "ReferenceCallback \<Rightarrow> OpenAPIDefinition" where
  "schema_k8sio_api_core_v1_SecretEnvSource ref = openapiDefinition
    (objectOf
      [(''name'', prim ''string'' ''''),
       (''optional'', prim ''boolean'' '''')]
      [])
    []"

definition schema_k8sio_api_core_v1_SecretKeySelector ::
  "ReferenceCallback \<Rightarrow> OpenAPIDefinition" where
  "schema_k8sio_api_core_v1_SecretKeySelector ref = openapiDefinition
    (objectOf
      [(''name'', prim ''string'' ''''),
       (''key'', prim ''string'' ''''),
       (''optional'', prim ''boolean'' '''')]
      [''key''])
    []"

definition schema_k8sio_api_core_v1_SecretList ::
  "ReferenceCallback \<Rightarrow> OpenAPIDefinition" where
  "schema_k8sio_api_core_v1_SecretList ref = openapiDefinition
    (objectOf
      [(''kind'', prim ''string'' ''''),
       (''apiVersion'', prim ''string'' ''''),
       (''metadata'', refTo (ref (MetaV1 ''ListMeta''))),
       (''items'', arrayOf (refTo (ref (CoreV1 ''Secret''))))]
      [''items''])
    [CoreV1 ''Secret'', MetaV1 ''ListMeta'']"

definition schema_k8sio_api_core_v1_SecretProjection ::
  "ReferenceCallback \<Rightarrow> OpenAPIDefinition" where
  "schema_k8sio_api_core_v1_SecretProjection ref = openapiDefinition
    (objectOf
      [(''name'', prim ''string'' ''''),
       (''items'', arrayOf (refTo (ref (CoreV1 ''KeyToPath'')))),
       (''optional'', prim ''boolean'' '''')]
      [])
    [CoreV1 ''KeyToPath'']"

definition schema_k8sio_api_core_v1_SecretReference ::
  "ReferenceCallback \<Rightarrow> OpenAPIDefinition" where
  "schema_k8sio_api_core_v1_SecretReference ref = openapiDefinition
    (objectOf
      [(''name'', prim ''string'' ''''),
       (''namespace'', prim ''string'' '''')]
      [])
    []"

definition schema_k8sio_api_core_v1_SecretVolumeSource ::
  "ReferenceCallback \<Rightarrow> OpenAPIDefinition" where
  "schema_k8sio_api_core_v1_SecretVolumeSource ref = openapiDefinition
    (objectOf
      [(''secretName'', prim ''string'' ''''),
       (''items'', arrayOf (refTo (ref (CoreV1 ''KeyToPath'')))),
       (''defaultMode'', prim ''integer'' ''int32''),
       (''optional'', prim ''boolean'' '''')]
      [])
    [CoreV1 ''KeyToPath'']"

definition schema_k8sio_api_core_v1_SecurityContext ::
  "ReferenceCallback \<Rightarrow> OpenAPIDefinition" where
  "schema_k8sio_api_core_v1_SecurityContext ref = openapiDefinition
    (objectOf
      [(''capabilities'', refTo (ref (CoreV1 ''Capabilities''))),
       (''privileged'', prim ''boolean'' ''''),
       (''seLinuxOptions'', refTo (ref (CoreV1 ''SELinuxOptions''))),
       (''runAsUser'', prim ''integer'' ''int64''),
       (''runAsGroup'', prim ''integer'' ''int64''),
       (''runAsNonRoot'', prim ''boolean'' ''''),
       (''readOnlyRootFilesystem'', prim ''boolean'' ''''),
       (''allowPrivilegeEscalation'', prim ''boolean'' ''''),
       (''procMount'', prim ''string'' '''')]
      [])
    [CoreV1 ''Capabilities'', CoreV1 ''SELinuxOptions'']"

definition schema_k8sio_api_core_v1_SerializedReference ::
  "ReferenceCallback \<Rightarrow> OpenAPIDefinition" where
  "schema_k8sio_api_core_v1_SerializedReference ref = openapiDefinition
    (objectOf
      [(''kind'', prim ''string'' ''''),
       (''apiVersion'', prim ''string'' ''''),
       (''reference'', refTo (ref (CoreV1 ''ObjectReference'')))]
      [])
    [CoreV1 ''ObjectReference'']"

definition schema_k8sio_api_core_v1_Service ::
  "ReferenceCallback \<Rightarrow> OpenAPIDefinition" where
  "schema_k8sio_api_core_v1_Service ref = openapiDefinition
    (objectOf
      [(''kind'', prim ''string'' ''''),
       (''apiVersion'', prim ''string'' ''''),
       (''metadata'', refTo (ref (MetaV1 ''ObjectMeta''))),
       (''spec'', refTo (ref (CoreV1 ''ServiceSpec''))),
       (''status'', refTo (ref (CoreV1 ''ServiceStatus'')))]
      [])
    [CoreV1 ''ServiceSpec'', CoreV1 ''ServiceStatus'', MetaV1 ''ObjectMeta'']"

definition schema_k8sio_api_core_v1_ServiceAccount ::
  "ReferenceCallback \<Rightarrow> OpenAPIDefinition" where
  "schema_k8sio_api_core_v1_ServiceAccount ref = openapiDefinition
    (objectOf
      [(''kind'', prim ''string'' ''''),
       (''apiVersion'', prim ''string'' ''''),
       (''metadata'', refTo (ref (MetaV1 ''ObjectMeta''))),
       (''secrets'', extended [(''x-kubernetes-patch-merge-key'', ''name''), (''x-kubernetes-patch-strategy'', ''merge'')] (arrayOf (refTo (ref (CoreV1 ''ObjectReference''))))),
       (''imagePullSecrets'', arrayOf (refTo (ref (CoreV1 ''LocalObjectReference'')))),
       (''automountServiceAccountToken'', prim ''boolean'' '''')]
      [])
    [CoreV1 ''LocalObjectReference'', CoreV1 ''ObjectReference'', MetaV1 ''ObjectMeta'']"

definition schema_k8sio_api_core_v1_ServiceAccountList ::
  "ReferenceCallback \<Rightarrow> OpenAPIDefinition" where
  "schema_k8sio_api_core_v1_ServiceAccountList ref = openapiDefinition
    (objectOf
      [(''kind'', prim ''string'' ''''),
       (''apiVersion'', prim ''string'' ''''),
       (''metadata'', refTo (ref (MetaV1 ''ListMeta''))),
       (''items'', arrayOf (refTo (ref (CoreV1 ''ServiceAccount''))))]
      [''items''])
    [CoreV1 ''ServiceAccount'', MetaV1 ''ListMeta'']"

definition schema_k8sio_api_core_v1_ServiceAccountTokenProjection ::
  "ReferenceCallback \<Rightarrow> OpenAPIDefinition" where
  "schema_k8sio_api_core_v1_ServiceAccountTokenProjection ref = openapiDefinition
    (objectOf
      [(''audience'', prim ''string'' ''''),
       (''expirationSeconds'', prim ''integer'' ''int64''),
       (''path'', prim ''string'' '''')]
      [''path''])
    []"

definition schema_k8sio_api_core_v1_ServiceList ::
  "ReferenceCallback \<Rightarrow> OpenAPIDefinition" where
  "schema_k8sio_api_core_v1_ServiceList ref = openapiDefinition
    (objectOf
      [(''kind'', prim ''string'' ''''),
       (''apiVersion'', prim ''string'' ''''),
       (''metadata'', refTo (ref (MetaV1 ''ListMeta''))),
       (''items'', arrayOf (refTo (ref (CoreV1 ''Service''))))]
      [''items''])
    [CoreV1 ''Service'', MetaV1 ''ListMeta'']"

definition schema_k8sio_api_core_v1_ServicePort ::
  "ReferenceCallback \<Rightarrow> OpenAPIDefinition" where
  "schema_k8sio_api_core_v1_ServicePort ref = openapiDefinition
    (objectOf
      [(''name'', prim ''string'' ''''),
       (''protocol'', prim ''string'' ''''),
       (''port'', prim ''integer'' ''int32''),
       (''targetPort'', refTo (ref (UtilIntstr ''IntOrString''))),
       (''nodePort'', prim ''integer'' ''int32'')]
      [''port''])
    [UtilIntstr ''IntOrString'']"

definition schema_k8sio_api_core_v1_ServiceProxyOptions ::
  "ReferenceCallback \<Rightarrow> OpenAPIDefinition" where
  "schema_k8sio_api_core_v1_ServiceProxyOptions ref = openapiDefinition
    (objectOf
      [(''kind'', prim ''string'' ''''),
       (''apiVersion'', prim ''string'' ''''),
       (''path'', prim ''string'' '''')]
      [])
    []"

definition schema_k8sio_api_core_v1_ServiceSpec ::
  "ReferenceCallback \<Rightarrow> OpenAPIDefinition" where
  "schema_k8sio_api_core_v1_ServiceSpec ref = openapiDefinition
    (objectOf
      [(''ports'', extended [(''x-kubernetes-patch-merge-key'', ''port''), (''x-kubernetes-patch-strategy'', ''merge'')] (arrayOf (refTo (ref (CoreV1 ''ServicePort''))))),
       (''selector'', mapOf (prim ''string'' '''')),
       (''clusterIP'', prim ''string'' ''''),
       (''type'', prim ''string'' ''''),
       (''externalIPs'', arrayOf (prim ''string'' '''')),
       (''sessionAffinity'', prim ''string'' ''''),
       (''loadBalancerIP'', prim ''string'' ''''),
       (''loadBalancerSourceRanges'', arrayOf (prim ''string'' '''')),
       (''externalName'', prim ''string'' ''''),
       (''externalTrafficPolicy'', prim ''string'' ''''),
       (''healthCheckNodePort'', prim ''integer'' ''int32''),
       (''publishNotReadyAddresses'', prim ''boolean'' ''''),
       (''sessionAffinityConfig'', refTo (ref (CoreV1 ''SessionAffinityConfig'')))]
      [])
    [CoreV1 ''ServicePort'', CoreV1 ''SessionAffinityConfig'']"

definition schema_k8sio_api_core_v1_ServiceStatus ::
  "ReferenceCallback \<Rightarrow> OpenAPIDefinition" where
  "schema_k8sio_api_core_v1_ServiceStatus ref = openapiDefinition
    (objectOf
      [(''loadBalancer'', refTo (ref (CoreV1 ''LoadBalancerStatus'')))]
      [])
    [CoreV1 ''LoadBalancerStatus'']"

definition schema_k8sio_api_core_v1_SessionAffinityConfig ::
  "ReferenceCallback \<Rightarrow> OpenAPIDefinition" where
  "schema_k8sio_api_core_v1_SessionAffinityConfig ref = openapiDefinition
    (objectOf
      [(''clientIP'', refTo (ref (CoreV1 ''ClientIPConfig'')))]
      [])
    [CoreV1 ''ClientIPConfig'']"

definition schema_k8sio_api_core_v1_StorageOSPersistentVolumeSource ::
  "ReferenceCallback \<Rightarrow> OpenAPIDefinition" where
  "schema_k8sio_api_core_v1_StorageOSPersistentVolumeSource ref = openapiDefinition
    (objectOf
      [(''volumeName'', prim ''string'' ''''),
       (''volumeNamespace'', prim ''string'' ''''),
       (''fsType'', prim ''string'' ''''),
       (''readOnly'', prim ''boolean'' ''''),
       (''secretRef'', refTo (ref (CoreV1 ''ObjectReference'')))]
      [])
    [CoreV1 ''ObjectReference'']"

definition schema_k8sio_api_core_v1_StorageOSVolumeSource ::
  "ReferenceCallback \<Rightarrow> OpenAPIDefinition" where
  "schema_k8sio_api_core_v1_StorageOSVolumeSource ref = openapiDefinition
    (objectOf
      [(''volumeName'', prim ''string'' ''''),
       (''volumeNamespace'', prim ''string'' ''''),
       (''fsType'', prim ''string'' ''''),
       (''readOnly'', prim ''boolean'' ''''),
       (''secretRef'', refTo (ref (CoreV1 ''LocalObjectReference'')))]
      [])
    [CoreV1 ''LocalObjectReference'']"

definition schema_k8sio_api_core_v1_Sysctl ::
  "ReferenceCallback \<Rightarrow> OpenAPIDefinition" where
  "schema_k8sio_api_core_v1_Sysctl ref = openapiDefinition
    (objectOf
      [(''name'', prim ''string'' ''''),
       (''value'', prim ''string'' '''')]
      [''name'', ''value''])
    []"

definition schema_k8sio_api_core_v1_TCPSocketAction ::
  "ReferenceCallback \<Rightarrow> OpenAPIDefinition" where
  "schema_k8sio_api_core_v1_TCPSocketAction ref = openapiDefinition
    (objectOf
      [(''port'', refTo (ref (UtilIntstr ''IntOrString''))),
       (''host'', prim ''string'' '''')]
      [''port''])
    [UtilIntstr ''IntOrString'']"

definition schema_k8sio_api_core_v1_Taint ::
  "ReferenceCallback \<Rightarrow> OpenAPIDefinition" where
  "schema_k8sio_api_core_v1_Taint ref = openapiDefinition
    (objectOf
      [(''key'', prim ''string'' ''''),
       (''value'', prim ''string'' ''''),
       (''effect'', prim ''string'' ''''),
       (''timeAdded'', refTo (ref (MetaV1 ''Time'')))]
      [''key'', ''effect''])
    [MetaV1 ''Time'']"

definition schema_k8sio_api_core_v1_Toleration ::
  "ReferenceCallback \<Rightarrow> OpenAPIDefinition" where
  "schema_k8sio_api_core_v1_Toleration ref = openapiDefinition
    (objectOf
      [(''key'', prim ''string'' ''''),
       (''operator'', prim ''string'' ''''),
       (''value'', prim ''string'' ''''),
       (''effect'', prim ''string'' ''''),
       (''tolerationSeconds'', prim ''integer'' ''int64'')]
      [])
    []"

definition schema_k8sio_api_core_v1_TopologySelectorLabelRequirement ::
  "ReferenceCallback \<Rightarrow> OpenAPIDefinition" where
  "schema_k8sio_api_core_v1_TopologySelectorLabelRequirement ref = openapiDefinition
    (objectOf
      [(''key'', prim ''string'' ''''),
       (''values'', arrayOf (prim ''string'' ''''))]
      [''key'', ''values''])
    []"

definition schema_k8sio_api_core_v1_TopologySelectorTerm ::
  "ReferenceCallback \<Rightarrow> OpenAPIDefinition" where
  "schema_k8sio_api_core_v1_TopologySelectorTerm ref = openapiDefinition
    (objectOf
      [(''matchLabelExpressions'', arrayOf (refTo (ref (CoreV1 ''TopologySelectorLabelRequirement''))))]
      [])
    [CoreV1 ''TopologySelectorLabelRequirement'']"

definition schema_k8sio_api_core_v1_TypedLocalObjectReference ::
  "ReferenceCallback \<Rightarrow> OpenAPIDefinition" where
  "schema_k8sio_api_core_v1_TypedLocalObjectReference ref = openapiDefinition
    (objectOf
      [(''apiGroup'', prim ''string'' ''''),
       (''kind'', prim ''string'' ''''),
       (''name'', prim ''string'' '''')]
      [''kind'', ''name''])
    []"

text \<open>The properties of the schema from photonPersistentDisk on.\<close>

definition moreVolumeProperties :: "ReferenceCallback \<Rightarrow> (string \<times> Schema) list" where
  "moreVolumeProperties ref =
      [(''photonPersistentDisk'', refTo (ref (CoreV1 ''PhotonPersistentDiskVolumeSource''))),
       (''projected'', refTo (ref (CoreV1 ''ProjectedVolumeSource''))),
       (''portworxVolume'', refTo (ref (CoreV1 ''PortworxVolumeSource''))),
       (''scaleIO'', refTo (ref (CoreV1 ''ScaleIOVolumeSource''))),
       (''storageos'', refTo (ref (CoreV1 ''StorageOSVolumeSource'')))]"

definition schema_k8sio_api_core_v1_Volume ::
  "ReferenceCallback \<Rightarrow> OpenAPIDefinition" where
  "schema_k8sio_api_core_v1_Volume ref = openapiDefinition
    (objectOf
      ([(''name'', prim ''string'' ''''),
       (''hostPath'', refTo (ref (CoreV1 ''HostPathVolumeSource''))),
       (''emptyDir'', refTo (ref (CoreV1 ''EmptyDirVolumeSource''))),
       (''gcePersistentDisk'', refTo (ref (CoreV1 ''GCEPersistentDiskVolumeSource''))),
       (''awsElasticBlockStore'', refTo (ref (CoreV1 ''AWSElasticBlockStoreVolumeSource''))),
       (''gitRepo'', refTo (ref (CoreV1 ''GitRepoVolumeSource''))),
       (''secret'', refTo (ref (CoreV1 ''SecretVolumeSource''))),
       (''nfs'', refTo (ref (CoreV1 ''NFSVolumeSource''))),
       (''iscsi'', refTo (ref (CoreV1 ''ISCSIVolumeSource''))),
       (''glusterfs'', refTo (ref (CoreV1 ''GlusterfsVolumeSource''))),
       (''persistentVolumeClaim'', refTo (ref (CoreV1 ''PersistentVolumeClaimVolumeSource''))),
       (''rbd'', refTo (ref (CoreV1 ''RBDVolumeSource''))),
       (''flexVolume'', refTo (ref (CoreV1 ''FlexVolumeSource''))),
       (''cinder'', refTo (ref (CoreV1 ''CinderVolumeSource''))),
       (''cephfs'', refTo (ref (CoreV1 ''CephFSVolumeSource''))),
       (''flocker'', refTo (ref (CoreV1 ''FlockerVolumeSource''))),
       (''downwardAPI'', refTo (ref (CoreV1 ''DownwardAPIVolumeSource''))),
       (''fc'', refTo (ref (CoreV1 ''FCVolumeSource''))),
       (''azureFile'', refTo (ref (CoreV1 ''AzureFileVolumeSource''))),
       (''configMap'', refTo (ref (CoreV1 ''ConfigMapVolumeSource''))),
       (''vsphereVolume'', refTo (ref (CoreV1 ''VsphereVirtualDiskVolumeSource''))),
       (''quobyte'', refTo (ref (CoreV1 ''QuobyteVolumeSource''))),
       (''azureDisk'', refTo (ref (CoreV1 ''AzureDiskVolumeSource'')))]
       @ moreVolumeProperties ref)
      [''name''])
    [CoreV1 ''AWSElasticBlockStoreVolumeSource'', CoreV1 ''AzureDiskVolumeSource'',
     CoreV1 ''AzureFileVolumeSource'', CoreV1 ''CephFSVolumeSource'',
     CoreV1 ''CinderVolumeSource'', CoreV1 ''ConfigMapVolumeSource'',
     CoreV1 ''DownwardAPIVolumeSource'', CoreV1 ''EmptyDirVolumeSource'',
     CoreV1 ''FCVolumeSource'', CoreV1 ''FlexVolumeSource'', CoreV1 ''FlockerVolumeSource'',
     CoreV1 ''GCEPersistentDiskVolumeSource'', CoreV1 ''GitRepoVolumeSource'',
     CoreV1 ''GlusterfsVolumeSource'', CoreV1 ''HostPathVolumeSource'',
     CoreV1 ''ISCSIVolumeSource'', CoreV1 ''NFSVolumeSource'',
     CoreV1 ''PersistentVolumeClaimVolumeSource'', CoreV1 ''PhotonPersistentDiskVolumeSource'',
     CoreV1 ''PortworxVolumeSource'', CoreV1 ''ProjectedVolumeSource'',
     CoreV1 ''QuobyteVolumeSource'', CoreV1 ''RBDVolumeSource'', CoreV1 ''ScaleIOVolumeSource'',
     CoreV1 ''SecretVolumeSource'', CoreV1 ''StorageOSVolumeSource'',
     CoreV1 ''VsphereVirtualDiskVolumeSource'']"

definition schema_k8sio_api_core_v1_VolumeDevice ::
  "ReferenceCallback \<Rightarrow> OpenAPIDefinition" where
  "schema_k8sio_api_core_v1_VolumeDevice ref = openapiDefinition
    (objectOf
      [(''name'', prim ''string'' ''''),
       (''devicePath'', prim ''string'' '''')]
      [''name'', ''devicePath''])
    []"

definition schema_k8sio_api_core_v1_VolumeMount ::
  "ReferenceCallback \<Rightarrow> OpenAPIDefinition" where
  "schema_k8sio_api_core_v1_VolumeMount ref = openapiDefinition
    (objectOf
      [(''name'', prim ''string'' ''''),
       (''readOnly'', prim ''boolean'' ''''),
       (''mountPath'', prim ''string'' ''''),
       (''subPath'', prim ''string'' ''''),
       (''mountPropagation'', prim ''string'' '''')]
      [''name'', ''mountPath''])
    []"

definition schema_k8sio_api_core_v1_VolumeNodeAffinity ::
  "ReferenceCallback \<Rightarrow> OpenAPIDefinition" where
  "schema_k8sio_api_core_v1_VolumeNodeAffinity ref = openapiDefinition
    (objectOf
      [(''required'', refTo (ref (CoreV1 ''NodeSelector'')))]
      [])
    [CoreV1 ''NodeSelector'']"

definition schema_k8sio_api_core_v1_VolumeProjection ::
  "ReferenceCallback \<Rightarrow> OpenAPIDefinition" where
  "schema_k8sio_api_core_v1_VolumeProjection ref = openapiDefinition
    (objectOf
      [(''secret'', refTo (ref (CoreV1 ''SecretProjection''))),
       (''downwardAPI'', refTo (ref (CoreV1 ''DownwardAPIProjection''))),
       (''configMap'', refTo (ref (CoreV1 ''ConfigMapProjection''))),
       (''serviceAccountToken'', refTo (ref (CoreV1 ''ServiceAccountTokenProjection'')))]
      [])
    [CoreV1 ''ConfigMapProjection'', CoreV1 ''DownwardAPIProjection'',
     CoreV1 ''SecretProjection'', CoreV1 ''ServiceAccountTokenProjection'']"

text \<open>The properties of the schema from projected on.\<close>

definition moreVolumeSourceProperties :: "ReferenceCallback \<Rightarrow> (string \<times> Schema) list" where
  "moreVolumeSourceProperties ref =
      [(''projected'', refTo (ref (CoreV1 ''ProjectedVolumeSource''))),
       (''portworxVolume'', refTo (ref (CoreV1 ''PortworxVolumeSource''))),
       (''scaleIO'', refTo (ref (CoreV1 ''ScaleIOVolumeSource''))),
       (''storageos'', refTo (ref (CoreV1 ''StorageOSVolumeSource'')))]"

definition schema_k8sio_api_core_v1_VolumeSource ::
  "ReferenceCallback \<Rightarrow> OpenAPIDefinition" where
  "schema_k8sio_api_core_v1_VolumeSource ref = openapiDefinition
    (objectOf
      ([(''hostPath'', refTo (ref (CoreV1 ''HostPathVolumeSource''))),
       (''emptyDir'', refTo (ref (CoreV1 ''EmptyDirVolumeSource''))),
       (''gcePersistentDisk'', refTo (ref (CoreV1 ''GCEPersistentDiskVolumeSource''))),
       (''awsElasticBlockStore'', refTo (ref (CoreV1 ''AWSElasticBlockStoreVolumeSource''))),
       (''gitRepo'', refTo (ref (CoreV1 ''GitRepoVolumeSource''))),
       (''secret'', refTo (ref (CoreV1 ''SecretVolumeSource''))),
       (''nfs'', refTo (ref (CoreV1 ''NFSVolumeSource''))),
       (''iscsi'', refTo (ref (CoreV1 ''ISCSIVolumeSource''))),
       (''glusterfs'', refTo (ref (CoreV1 ''GlusterfsVolumeSource''))),
       (''persistentVolumeClaim'', refTo (ref (CoreV1 ''PersistentVolumeClaimVolumeSource''))),
       (''rbd'', refTo (ref (CoreV1 ''RBDVolumeSource''))),
       (''flexVolume'', refTo (ref (CoreV1 ''FlexVolumeSource''))),
       (''cinder'', refTo (ref (CoreV1 ''CinderVolumeSource''))),
       (''cephfs'', refTo (ref (CoreV1 ''CephFSVolumeSource''))),
       (''flocker'', refTo (ref (CoreV1 ''FlockerVolumeSource''))),
       (''downwardAPI'', refTo (ref (CoreV1 ''DownwardAPIVolumeSource''))),
       (''fc'', refTo (ref (CoreV1 ''FCVolumeSource''))),
       (''azureFile'', refTo (ref (CoreV1 ''AzureFileVolumeSource''))),
       (''configMap'', refTo (ref (CoreV1 ''ConfigMapVolumeSource''))),
       (''vsphereVolume'', refTo (ref (CoreV1 ''VsphereVirtualDiskVolumeSource''))),
       (''quobyte'', refTo (ref (CoreV1 ''QuobyteVolumeSource''))),
       (''azureDisk'', refTo (ref (CoreV1 ''AzureDiskVolumeSource''))),
       (''photonPersistentDisk'', refTo (ref (CoreV1 ''PhotonPersistentDiskVolumeSource'')))]
       @ moreVolumeSourceProperties ref)
      [])
    [CoreV1 ''AWSElasticBlockStoreVolumeSource'', CoreV1 ''AzureDiskVolumeSource'',
     CoreV1 ''AzureFileVolumeSource'', CoreV1 ''CephFSVolumeSource'',
     CoreV1 ''CinderVolumeSource'', CoreV1 ''ConfigMapVolumeSource'',
     CoreV1 ''DownwardAPIVolumeSource'', CoreV1 ''EmptyDirVolumeSource'',
     CoreV1 ''FCVolumeSource'', CoreV1 ''FlexVolumeSource'', CoreV1 ''FlockerVolumeSource'',
     CoreV1 ''GCEPersistentDiskVolumeSource'', CoreV1 ''GitRepoVolumeSource'',
     CoreV1 ''GlusterfsVolumeSource'', CoreV1 ''HostPathVolumeSource'',
     CoreV1 ''ISCSIVolumeSource'', CoreV1 ''NFSVolumeSource'',
     CoreV1 ''PersistentVolumeClaimVolumeSource'', CoreV1 ''PhotonPersistentDiskVolumeSource'',
     CoreV1 ''PortworxVolumeSource'', CoreV1 ''ProjectedVolumeSource'',
     CoreV1 ''QuobyteVolumeSource'', CoreV1 ''RBDVolumeSource'', CoreV1 ''ScaleIOVolumeSource'',
     CoreV1 ''SecretVolumeSource'', CoreV1 ''StorageOSVolumeSource'',
     CoreV1 ''VsphereVirtualDiskVolumeSource'']"

definition schema_k8sio_api_core_v1_VsphereVirtualDiskVolumeSource ::
  "ReferenceCallback \<Rightarrow> OpenAPIDefinition" where
  "schema_k8sio_api_core_v1_VsphereVirtualDiskVolumeSource ref = openapiDefinition
    (objectOf
      [(''volumePath'', prim ''string'' ''''),
       (''fsType'', prim ''string'' ''''),
       (''storagePolicyName'', prim ''string'' ''''),
       (''storagePolicyID'', prim ''string'' '''')]
      [''volumePath''])
    []"

definition schema_k8sio_api_core_v1_WeightedPodAffinityTerm ::
  "ReferenceCallback \<Rightarrow> OpenAPIDefinition" where
  "schema_k8sio_api_core_v1_WeightedPodAffinityTerm ref = openapiDefinition
    (objectOf
      [(''weight'', prim ''integer'' ''int32''),
       (''podAffinityTerm'', refTo (ref (CoreV1 ''PodAffinityTerm'')))]
      [''weight'', ''podAffinityTerm''])
    [CoreV1 ''PodAffinityTerm'']"

text \<open>Every one of them is well formed and declares exactly what it refers to.\<close>

lemma wf_core_e:
  "list_all wfDefinition
    [schema_k8sio_api_core_v1_SecretEnvSource Some,
     schema_k8sio_api_core_v1_SecretKeySelector Some, schema_k8sio_api_core_v1_SecretList Some,
     schema_k8sio_api_core_v1_SecretProjection Some,
     schema_k8sio_api_core_v1_SecretReference Some,
     schema_k8sio_api_core_v1_SecretVolumeSource Some,
     schema_k8sio_api_core_v1_SecurityContext Some,
     schema_k8sio_api_core_v1_SerializedReference Some, schema_k8sio_api_core_v1_Service Some,
     schema_k8sio_api_core_v1_ServiceAccount Some,
     schema_k8sio_api_core_v1_ServiceAccountList Some,
     schema_k8sio_api_core_v1_ServiceAccountTokenProjection Some,
     schema_k8sio_api_core_v1_ServiceList Some, schema_k8sio_api_core_v1_ServicePort Some,
     schema_k8sio_api_core_v1_ServiceProxyOptions Some,
     schema_k8sio_api_core_v1_ServiceSpec Some, schema_k8sio_api_core_v1_ServiceStatus Some,
     schema_k8sio_api_core_v1_SessionAffinityConfig Some,
     schema_k8sio_api_core_v1_StorageOSPersistentVolumeSource Some,
     schema_k8sio_api_core_v1_StorageOSVolumeSource Some, schema_k8sio_api_core_v1_Sysctl Some,
     schema_k8sio_api_core_v1_TCPSocketAction Some, schema_k8sio_api_core_v1_Taint Some,
     schema_k8sio_api_core_v1_Toleration Some,
     schema_k8sio_api_core_v1_TopologySelectorLabelRequirement Some,
     schema_k8sio_api_core_v1_TopologySelectorTerm Some,
     schema_k8sio_api_core_v1_TypedLocalObjectReference Some,
     schema_k8sio_api_core_v1_Volume Some, schema_k8sio_api_core_v1_VolumeDevice Some,
     schema_k8sio_api_core_v1_VolumeMount Some, schema_k8sio_api_core_v1_VolumeNodeAffinity Some,
     schema_k8sio_api_core_v1_VolumeProjection Some, schema_k8sio_api_core_v1_VolumeSource Some,
     schema_k8sio_api_core_v1_VsphereVirtualDiskVolumeSource Some,
     schema_k8sio_api_core_v1_WeightedPodAffinityTerm Some]"
  by code_simp

end
