(* ===== verification/OpenAPI_Meta.thy ===== *)
theory OpenAPI_Meta
  imports OpenAPI_Schema
begin

text \<open>
  The schemas of the Kubernetes meta/v1 types, one definition per generated function of
  pkg/apis/jupyter/v1/openapi_generated.go.
\<close>

definition schema_pkg_apis_meta_v1_APIGroup ::
  "ReferenceCallback \<Rightarrow> OpenAPIDefinition" where
  "schema_pkg_apis_meta_v1_APIGroup ref = openapiDefinition
    (objectOf
      [(''kind'', prim ''string'' ''''),
       (''apiVersion'', prim ''string'' ''''),
       (''name'', prim ''string'' ''''),
       (''versions'', arrayOf (refTo (ref (MetaV1 ''GroupVersionForDiscovery'')))),
       (''preferredVersion'', refTo (ref (MetaV1 ''GroupVersionForDiscovery''))),
       (''serverAddressByClientCIDRs'', arrayOf (refTo (ref (MetaV1 ''ServerAddressByClientCIDR''))))]
      [''name'', ''versions''])
    [MetaV1 ''GroupVersionForDiscovery'', MetaV1 ''ServerAddressByClientCIDR'']"

definition schema_pkg_apis_meta_v1_APIGroupList ::
  "ReferenceCallback \<Rightarrow> OpenAPIDefinition" where
  "schema_pkg_apis_meta_v1_APIGroupList ref = openapiDefinition
    (objectOf
      [(''kind'', prim ''string'' ''''),
       (''apiVersion'', prim ''string'' ''''),
       (''groups'', arrayOf (refTo (ref (MetaV1 ''APIGroup''))))]
      [''groups''])
    [MetaV1 ''APIGroup'']"

definition schema_pkg_apis_meta_v1_APIResource ::
  "ReferenceCallback \<Rightarrow> OpenAPIDefinition" where
  "schema_pkg_apis_meta_v1_APIResource ref = openapiDefinition
    (objectOf
      [(''name'', prim ''string'' ''''),
       (''singularName'', prim ''string'' ''''),
       (''namespaced'', prim ''boolean'' ''''),
       (''group'', prim ''string'' ''''),
       (''version'', prim ''string'' ''''),
       (''kind'', prim ''string'' ''''),
       (''verbs'', arrayOf (prim ''string'' '''')),
       (''shortNames'', arrayOf (prim ''string'' '''')),
       (''categories'', arrayOf (prim ''string'' ''''))]
      [''name'', ''singularName'', ''namespaced'', ''kind'', ''verbs''])
    []"

definition schema_pkg_apis_meta_v1_APIResourceList ::
  "ReferenceCallback \<Rightarrow> OpenAPIDefinition" where
  "schema_pkg_apis_meta_v1_APIResourceList ref = openapiDefinition
    (objectOf
      [(''kind'', prim ''string'' ''''),
       (''apiVersion'', prim ''string'' ''''),
       (''groupVersion'', prim ''string'' ''''),
       (''resources'', arrayOf (refTo (ref (MetaV1 ''APIResource''))))]
      [''groupVersion'', ''resources''])
    [MetaV1 ''APIResource'']"

definition schema_pkg_apis_meta_v1_APIVersions ::
  "ReferenceCallback \<Rightarrow> OpenAPIDefinition" where
  "schema_pkg_apis_meta_v1_APIVersions ref = openapiDefinition
    (objectOf
      [(''kind'', prim ''string'' ''''),
       (''apiVersion'', prim ''string'' ''''),
       (''versions'', arrayOf (prim ''string'' '''')),
       (''serverAddressByClientCIDRs'', arrayOf (refTo (ref (MetaV1 ''ServerAddressByClientCIDR''))))]
      [''versions'', ''serverAddressByClientCIDRs''])
    [MetaV1 ''ServerAddressByClientCIDR'']"

definition schema_pkg_apis_meta_v1_CreateOptions ::
  "ReferenceCallback \<Rightarrow> OpenAPIDefinition" where
  "schema_pkg_apis_meta_v1_CreateOptions ref = openapiDefinition
    (objectOf
      [(''kind'', prim ''string'' ''''),
       (''apiVersion'', prim ''string'' ''''),
       (''dryRun'', arrayOf (prim ''string'' '''')),
       (''includeUninitialized'', prim ''boolean'' '''')]
      [])
    []"

definition schema_pkg_apis_meta_v1_DeleteOptions ::
  "ReferenceCallback \<Rightarrow> OpenAPIDefinition" where
  "schema_pkg_apis_meta_v1_DeleteOptions ref = openapiDefinition
    (objectOf
      [(''kind'', prim ''string'' ''''),
       (''apiVersion'', prim ''string'' ''''),
       (''gracePeriodSeconds'', prim ''integer'' ''int64''),
       (''preconditions'', refTo (ref (MetaV1 ''Preconditions''))),
       (''orphanDependents'', prim ''boolean'' ''''),
       (''propagationPolicy'', prim ''string'' ''''),
       (''dryRun'', arrayOf (prim ''string'' ''''))]
      [])
    [MetaV1 ''Preconditions'']"

definition schema_pkg_apis_meta_v1_Duration ::
  "ReferenceCallback \<Rightarrow> OpenAPIDefinition" where
  "schema_pkg_apis_meta_v1_Duration ref = openapiDefinition
    (objectOf
      [(''Duration'', prim ''integer'' ''int64'')]
      [''Duration''])
    []"

definition schema_pkg_apis_meta_v1_ExportOptions ::
  "ReferenceCallback \<Rightarrow> OpenAPIDefinition" where
  "schema_pkg_apis_meta_v1_ExportOptions ref = openapiDefinition
    (objectOf
      [(''kind'', prim ''string'' ''''),
       (''apiVersion'', prim ''string'' ''''),
       (''export'', prim ''boolean'' ''''),
       (''exact'', prim ''boolean'' '''')]
      [''export'', ''exact''])
    []"

definition schema_pkg_apis_meta_v1_GetOptions ::
  "ReferenceCallback \<Rightarrow> OpenAPIDefinition" where
  "schema_pkg_apis_meta_v1_GetOptions ref = openapiDefinition
    (objectOf
      [(''kind'', prim ''string'' ''''),
       (''apiVersion'', prim ''string'' ''''),
       (''resourceVersion'', prim ''string'' ''''),
       (''includeUninitialized'', prim ''boolean'' '''')]
      [])
    []"

definition schema_pkg_apis_meta_v1_GroupKind ::
  "ReferenceCallback \<Rightarrow> OpenAPIDefinition" where
  "schema_pkg_apis_meta_v1_GroupKind ref = openapiDefinition
    (objectOf
      [(''group'', prim ''string'' ''''),
       (''kind'', prim ''string'' '''')]
      [''group'', ''kind''])
    []"

definition schema_pkg_apis_meta_v1_GroupResource ::
  "ReferenceCallback \<Rightarrow> OpenAPIDefinition" where
  "schema_pkg_apis_meta_v1_GroupResource ref = openapiDefinition
    (objectOf
      [(''group'', prim ''string'' ''''),
       (''resource'', prim ''string'' '''')]
      [''group'', ''resource''])
    []"

definition schema_pkg_apis_meta_v1_GroupVersion ::
  "ReferenceCallback \<Rightarrow> OpenAPIDefinition" where
  "schema_pkg_apis_meta_v1_GroupVersion ref = openapiDefinition
    (objectOf
      [(''group'', prim ''string'' ''''),
       (''version'', prim ''string'' '''')]
      [''group'', ''version''])
    []"

definition schema_pkg_apis_meta_v1_GroupVersionForDiscovery ::
  "ReferenceCallback \<Rightarrow> OpenAPIDefinition" where
  "schema_pkg_apis_meta_v1_GroupVersionForDiscovery ref = openapiDefinition
    (objectOf
      [(''groupVersion'', prim ''string'' ''''),
       (''version'', prim ''string'' '''')]
      [''groupVersion'', ''version''])
    []"

definition schema_pkg_apis_meta_v1_GroupVersionKind ::
  "ReferenceCallback \<Rightarrow> OpenAPIDefinition" where
  "schema_pkg_apis_meta_v1_GroupVersionKind ref = openapiDefinition
    (objectOf
      [(''group'', prim ''string'' ''''),
       (''version'', prim ''string'' ''''),
       (''kind'', prim ''string'' '''')]
      [''group'', ''version'', ''kind''])
    []"

definition schema_pkg_apis_meta_v1_GroupVersionResource ::
  "ReferenceCallback \<Rightarrow> OpenAPIDefinition" where
  "schema_pkg_apis_meta_v1_GroupVersionResource ref = openapiDefinition
    (objectOf
      [(''group'', prim ''string'' ''''),
       (''version'', prim ''string'' ''''),
       (''resource'', prim ''string'' '''')]
      [''group'', ''version'', ''resource''])
    []"

definition schema_pkg_apis_meta_v1_Initializer ::
  "ReferenceCallback \<Rightarrow> OpenAPIDefinition" where
  "schema_pkg_apis_meta_v1_Initializer ref = openapiDefinition
    (objectOf
      [(''name'', prim ''string'' '''')]
      [''name''])
    []"

definition schema_pkg_apis_meta_v1_Initializers ::
  "ReferenceCallback \<Rightarrow> OpenAPIDefinition" where
  "schema_pkg_apis_meta_v1_Initializers ref = openapiDefinition
    (objectOf
      [(''pending'', extended [(''x-kubernetes-patch-merge-key'', ''name''), (''x-kubernetes-patch-strategy'', ''merge'')] (arrayOf (refTo (ref (MetaV1 ''Initializer''))))),
       (''result'', refTo (ref (MetaV1 ''Status'')))]
      [''pending''])
    [MetaV1 ''Initializer'', MetaV1 ''Status'']"

definition schema_pkg_apis_meta_v1_InternalEvent ::
  "ReferenceCallback \<Rightarrow> OpenAPIDefinition" where
  "schema_pkg_apis_meta_v1_InternalEvent ref = openapiDefinition
    (objectOf
      [(''Type'', prim ''string'' ''''),
       (''Object'', refTo (ref (ApiRuntime ''Object'')))]
      [''Type'', ''Object''])
    [ApiRuntime ''Object'']"

definition schema_pkg_apis_meta_v1_LabelSelector ::
  "ReferenceCallback \<Rightarrow> OpenAPIDefinition" where
  "schema_pkg_apis_meta_v1_LabelSelector ref = openapiDefinition
    (objectOf
      [(''matchLabels'', mapOf (prim ''string'' '''')),
       (''matchExpressions'', arrayOf (refTo (ref (MetaV1 ''LabelSelectorRequirement''))))]
      [])
    [MetaV1 ''LabelSelectorRequirement'']"

definition schema_pkg_apis_meta_v1_LabelSelectorRequirement ::
  "ReferenceCallback \<Rightarrow> OpenAPIDefinition" where
  "schema_pkg_apis_meta_v1_LabelSelectorRequirement ref = openapiDefinition
    (objectOf
      [(''key'', extended [(''x-kubernetes-patch-merge-key'', ''key''), (''x-kubernetes-patch-strategy'', ''merge'')] (prim ''string'' '''')),
       (''operator'', prim ''string'' ''''),
       (''values'', arrayOf (prim ''string'' ''''))]
      [''key'', ''operator''])
    []"

definition schema_pkg_apis_meta_v1_List ::
  "ReferenceCallback \<Rightarrow> OpenAPIDefinition" where
  "schema_pkg_apis_meta_v1_List ref = openapiDefinition
    (objectOf
      [(''kind'', prim ''string'' ''''),
       (''apiVersion'', prim ''string'' ''''),
       (''metadata'', refTo (ref (MetaV1 ''ListMeta''))),
       (''items'', arrayOf (refTo (ref (ApiRuntime ''RawExtension''))))]
      [''items''])
    [MetaV1 ''ListMeta'', ApiRuntime ''RawExtension'']"

definition schema_pkg_apis_meta_v1_ListMeta ::
  "ReferenceCallback \<Rightarrow> OpenAPIDefinition" where
  "schema_pkg_apis_meta_v1_ListMeta ref = openapiDefinition
    (objectOf
      [(''selfLink'', prim ''string'' ''''),
       (''resourceVersion'', prim ''string'' ''''),
       (''continue'', prim ''string'' '''')]
      [])
    []"

definition schema_pkg_apis_meta_v1_ListOptions ::
  "ReferenceCallback \<Rightarrow> OpenAPIDefinition" where
  "schema_pkg_apis_meta_v1_ListOptions ref = openapiDefinition
    (objectOf
      [(''kind'', prim ''string'' ''''),
       (''apiVersion'', prim ''string'' ''''),
       (''labelSelector'', prim ''string'' ''''),
       (''fieldSelector'', prim ''string'' ''''),
       (''includeUninitialized'', prim ''boolean'' ''''),
       (''watch'', prim ''boolean'' ''''),
       (''resourceVersion'', prim ''string'' ''''),
       (''timeoutSeconds'', prim ''integer'' ''int64''),
       (''limit'', prim ''integer'' ''int64''),
       (''continue'', prim ''string'' '''')]
      [])
    []"

definition schema_pkg_apis_meta_v1_MicroTime ::
  "ReferenceCallback \<Rightarrow> OpenAPIDefinition" where
  "schema_pkg_apis_meta_v1_MicroTime ref = openapiDefinition
    (Schema None MicroTime_OpenAPISchemaType MicroTime_OpenAPISchemaFormat None [] None [] [] [])
    []"

definition schema_pkg_apis_meta_v1_ObjectMeta ::
  "ReferenceCallback \<Rightarrow> OpenAPIDefinition" where
  "schema_pkg_apis_meta_v1_ObjectMeta ref = openapiDefinition
    (objectOf
      [(''name'', prim ''string'' ''''),
       (''generateName'', prim ''string'' ''''),
       (''namespace'', prim ''string'' ''''),
       (''selfLink'', prim ''string'' ''''),
       (''uid'', prim ''string'' ''''),
       (''resourceVersion'', prim ''string'' ''''),
       (''generation'', prim ''integer'' ''int64''),
       (''creationTimestamp'', refTo (ref (MetaV1 ''Time''))),
       (''deletionTimestamp'', refTo (ref (MetaV1 ''Time''))),
       (''deletionGracePeriodSeconds'', prim ''integer'' ''int64''),
       (''labels'', mapOf (prim ''string'' '''')),
       (''annotations'', mapOf (prim ''string'' '''')),
       (''ownerReferences'', extended [(''x-kubernetes-patch-merge-key'', ''uid''), (''x-kubernetes-patch-strategy'', ''merge'')] (arrayOf (refTo (ref (MetaV1 ''OwnerReference''))))),
       (''initializers'', refTo (ref (MetaV1 ''Initializers''))),
       (''finalizers'', extended [(''x-kubernetes-patch-strategy'', ''merge'')] (arrayOf (prim ''string'' ''''))),
       (''clusterName'', prim ''string'' '''')]
      [])
    [MetaV1 ''Initializers'', MetaV1 ''OwnerReference'', MetaV1 ''Time'']"

definition schema_pkg_apis_meta_v1_OwnerReference ::
  "ReferenceCallback \<Rightarrow> OpenAPIDefinition" where
  "schema_pkg_apis_meta_v1_OwnerReference ref = openapiDefinition
    (objectOf
      [(''apiVersion'', prim ''string'' ''''),
       (''kind'', prim ''string'' ''''),
       (''name'', prim ''string'' ''''),
       (''uid'', prim ''string'' ''''),
       (''controller'', prim ''boolean'' ''''),
       (''blockOwnerDeletion'', prim ''boolean'' '''')]
      [''apiVersion'', ''kind'', ''name'', ''uid''])
    []"

definition schema_pkg_apis_meta_v1_Patch ::
  "ReferenceCallback \<Rightarrow> OpenAPIDefinition" where
  "schema_pkg_apis_meta_v1_Patch ref = openapiDefinition
    (objectOf [] [])
    []"

definition schema_pkg_apis_meta_v1_Preconditions ::
  "ReferenceCallback \<Rightarrow> OpenAPIDefinition" where
  "schema_pkg_apis_meta_v1_Preconditions ref = openapiDefinition
    (objectOf
      [(''uid'', prim ''string'' '''')]
      [])
    []"

definition schema_pkg_apis_meta_v1_RootPaths ::
  "ReferenceCallback \<Rightarrow> OpenAPIDefinition" where
  "schema_pkg_apis_meta_v1_RootPaths ref = openapiDefinition
    (objectOf
      [(''paths'', arrayOf (prim ''string'' ''''))]
      [''paths''])
    []"

definition schema_pkg_apis_meta_v1_ServerAddressByClientCIDR ::
  "ReferenceCallback \<Rightarrow> OpenAPIDefinition" where
  "schema_pkg_apis_meta_v1_ServerAddressByClientCIDR ref = openapiDefinition
    (objectOf
      [(''clientCIDR'', prim ''string'' ''''),
       (''serverAddress'', prim ''string'' '''')]
      [''clientCIDR'', ''serverAddress''])
    []"

definition schema_pkg_apis_meta_v1_Status ::
  "ReferenceCallback \<Rightarrow> OpenAPIDefinition" where
  "schema_pkg_apis_meta_v1_Status ref = openapiDefinition
    (objectOf
      [(''kind'', prim ''string'' ''''),
       (''apiVersion'', prim ''string'' ''''),
       (''metadata'', refTo (ref (MetaV1 ''ListMeta''))),
       (''status'', prim ''string'' ''''),
       (''message'', prim ''string'' ''''),
       (''reason'', prim ''string'' ''''),
       (''details'', refTo (ref (MetaV1 ''StatusDetails''))),
       (''code'', prim ''integer'' ''int32'')]
      [])
    [MetaV1 ''ListMeta'', MetaV1 ''StatusDetails'']"

definition schema_pkg_apis_meta_v1_StatusCause ::
  "ReferenceCallback \<Rightarrow> OpenAPIDefinition" where
  "schema_pkg_apis_meta_v1_StatusCause ref = openapiDefinition
    (objectOf
      [(''reason'', prim ''string'' ''''),
       (''message'', prim ''string'' ''''),
       (''field'', prim ''string'' '''')]
      [])
    []"

definition schema_pkg_apis_meta_v1_StatusDetails ::
  "ReferenceCallback \<Rightarrow> OpenAPIDefinition" where
  "schema_pkg_apis_meta_v1_StatusDetails ref = openapiDefinition
    (objectOf
      [(''name'', prim ''string'' ''''),
       (''group'', prim ''string'' ''''),
       (''kind'', prim ''string'' ''''),
       (''uid'', prim ''string'' ''''),
       (''causes'', arrayOf (refTo (ref (MetaV1 ''StatusCause'')))),
       (''retryAfterSeconds'', prim ''integer'' ''int32'')]
      [])
    [MetaV1 ''StatusCause'']"

definition schema_pkg_apis_meta_v1_Time ::
  "ReferenceCallback \<Rightarrow> OpenAPIDefinition" where
  "schema_pkg_apis_meta_v1_Time ref = openapiDefinition
    (Schema None Time_OpenAPISchemaType Time_OpenAPISchemaFormat None [] None [] [] [])
    []"

definition schema_pkg_apis_meta_v1_Timestamp ::
  "ReferenceCallback \<Rightarrow> OpenAPIDefinition" where
  "schema_pkg_apis_meta_v1_Timestamp ref = openapiDefinition
    (objectOf
      [(''seconds'', prim ''integer'' ''int64''),
       (''nanos'', prim ''integer'' ''int32'')]
      [''seconds'', ''nanos''])
    []"

definition schema_pkg_apis_meta_v1_TypeMeta ::
  "ReferenceCallback \<Rightarrow> OpenAPIDefinition" where
  "schema_pkg_apis_meta_v1_TypeMeta ref = openapiDefinition
    (objectOf
      [(''kind'', prim ''string'' ''''),
       (''apiVersion'', prim ''string'' '''')]
      [])
    []"

definition schema_pkg_apis_meta_v1_UpdateOptions ::
  "ReferenceCallback \<Rightarrow> OpenAPIDefinition" where
  "schema_pkg_apis_meta_v1_UpdateOptions ref = openapiDefinition
    (objectOf
      [(''kind'', prim ''string'' ''''),
       (''apiVersion'', prim ''string'' ''''),
       (''dryRun'', arrayOf (prim ''string'' ''''))]
      [])
    []"

definition schema_pkg_apis_meta_v1_WatchEvent ::
  "ReferenceCallback \<Rightarrow> OpenAPIDefinition" where
  "schema_pkg_apis_meta_v1_WatchEvent ref = openapiDefinition
    (objectOf
      [(''type'', prim ''string'' ''''),
       (''object'', refTo (ref (ApiRuntime ''RawExtension'')))]
      [''type'', ''object''])
    [ApiRuntime ''RawExtension'']"

text \<open>Every one of them is well formed and declares exactly what it refers to.\<close>

lemma wf_meta:
  "list_all wfDefinition
    [schema_pkg_apis_meta_v1_APIGroup Some, schema_pkg_apis_meta_v1_APIGroupList Some,
     schema_pkg_apis_meta_v1_APIResource Some, schema_pkg_apis_meta_v1_APIResourceList Some,
     schema_pkg_apis_meta_v1_APIVersions Some, schema_pkg_apis_meta_v1_CreateOptions Some,
     schema_pkg_apis_meta_v1_DeleteOptions Some, schema_pkg_apis_meta_v1_Duration Some,
     schema_pkg_apis_meta_v1_ExportOptions Some, schema_pkg_apis_meta_v1_GetOptions Some,
     schema_pkg_apis_meta_v1_GroupKind Some, schema_pkg_apis_meta_v1_GroupResource Some,
     schema_pkg_apis_meta_v1_GroupVersion Some,
     schema_pkg_apis_meta_v1_GroupVersionForDiscovery Some,
     schema_pkg_apis_meta_v1_GroupVersionKind Some,
     schema_pkg_apis_meta_v1_GroupVersionResource Some, schema_pkg_apis_meta_v1_Initializer Some,
     schema_pkg_apis_meta_v1_Initializers Some, schema_pkg_apis_meta_v1_InternalEvent Some,
     schema_pkg_apis_meta_v1_LabelSelector Some,
     schema_pkg_apis_meta_v1_LabelSelectorRequirement Some, schema_pkg_apis_meta_v1_List Some,
     schema_pkg_apis_meta_v1_ListMeta Some, schema_pkg_apis_meta_v1_ListOptions Some,
     schema_pkg_apis_meta_v1_MicroTime Some, schema_pkg_apis_meta_v1_ObjectMeta Some,
     schema_pkg_apis_meta_v1_OwnerReference Some, schema_pkg_apis_meta_v1_Patch Some,
     schema_pkg_apis_meta_v1_Preconditions Some, schema_pkg_apis_meta_v1_RootPaths Some,
     schema_pkg_apis_meta_v1_ServerAddressByClientCIDR Some, schema_pkg_apis_meta_v1_Status Some,
     schema_pkg_apis_meta_v1_StatusCause Some, schema_pkg_apis_meta_v1_StatusDetails Some,
     schema_pkg_apis_meta_v1_Time Some, schema_pkg_apis_meta_v1_Timestamp Some,
     schema_pkg_apis_meta_v1_TypeMeta Some, schema_pkg_apis_meta_v1_UpdateOptions Some,
     schema_pkg_apis_meta_v1_WatchEvent Some]"
  by code_simp

end
