(* ===== verification/OpenAPI_Notebook.thy ===== *)
theory OpenAPI_Notebook
  imports OpenAPI_Schema
begin

text \<open>
  The schemas of the notebook types themselves, from
  pkg/apis/jupyter/v1/openapi_generated.go.
\<close>

definition schema_pkg_apis_jupyter_v1_Notebook ::
  "ReferenceCallback \<Rightarrow> OpenAPIDefinition" where
  "schema_pkg_apis_jupyter_v1_Notebook ref = openapiDefinition
    (objectOf
      [(''kind'', prim ''string'' ''''),
       (''apiVersion'', prim ''string'' ''''),
       (''spec'', refTo (ref (JupyterV1 ''NotebookSpec''))),
       (''status'', refTo (ref (JupyterV1 ''NotebookStatus'')))]
      [''spec''])
    [JupyterV1 ''NotebookSpec'', JupyterV1 ''NotebookStatus'']"

definition schema_pkg_apis_jupyter_v1_NotebookSpec ::
  "ReferenceCallback \<Rightarrow> OpenAPIDefinition" where
  "schema_pkg_apis_jupyter_v1_NotebookSpec ref = openapiDefinition
    (objectOf
      [(''flavor'', prim ''string'' ''''),
       (''gpu'', prim ''boolean'' ''''),
       (''host'', prim ''string'' ''''),
       (''ingress'', refTo (ref (ExtensionsV1beta1 ''IngressBackend''))),
       (''packages'', arrayOf (prim ''string'' '''')),
       (''password'', prim ''string'' ''''),
       (''serviceAccountName'', prim ''string'' ''''),
       (''tls'', prim ''string'' '''')]
      [''gpu''])
    [ExtensionsV1beta1 ''IngressBackend'']"

definition schema_pkg_apis_jupyter_v1_NotebookStatus ::
  "ReferenceCallback \<Rightarrow> OpenAPIDefinition" where
  "schema_pkg_apis_jupyter_v1_NotebookStatus ref = openapiDefinition
    (objectOf
      [(''observedGeneration'', prim ''integer'' ''int64''),
       (''phase'', prim ''string'' '''')]
      [''phase''])
    []"

text \<open>Every one of them is well formed and declares exactly what it refers to.\<close>

lemma wf_notebook:
  "list_all wfDefinition
    [schema_pkg_apis_jupyter_v1_Notebook Some, schema_pkg_apis_jupyter_v1_NotebookSpec Some,
     schema_pkg_apis_jupyter_v1_NotebookStatus Some]"
  by code_simp

end
