(* ===== verification/OpenAPI_Table.thy ===== *)
theory OpenAPI_Table
  imports OpenAPI_Core_A OpenAPI_Core_B OpenAPI_Core_C OpenAPI_Core_D OpenAPI_Core_E
    OpenAPI_Meta OpenAPI_Notebook
begin

text \<open>
  GetOpenAPIDefinitions of pkg/apis/jupyter/v1/openapi_generated.go, the table of all
  definitions, and what makes the table well formed: its names are distinct, every definition
  declares exactly the names its schema refers to, requires only properties it has, and every
  schema has a type or a reference.
\<close>

text \<open>The table from ReplicationController on.\<close>

definition moreDefinitions :: "ReferenceCallback \<Rightarrow> openapi_spec" where
  "moreDefinitions ref = [
     (CoreV1 ''ReplicationController'', schema_k8sio_api_core_v1_ReplicationController ref),
     (CoreV1 ''ReplicationControllerCondition'', schema_k8sio_api_core_v1_ReplicationControllerCondition ref),
     (CoreV1 ''ReplicationControllerList'', schema_k8sio_api_core_v1_ReplicationControllerList ref),
     (CoreV1 ''ReplicationControllerSpec'', schema_k8sio_api_core_v1_ReplicationControllerSpec ref),
     (CoreV1 ''ReplicationControllerStatus'', schema_k8sio_api_core_v1_ReplicationControllerStatus ref),
     (CoreV1 ''ResourceFieldSelector'', schema_k8sio_api_core_v1_ResourceFieldSelector ref),
     (CoreV1 ''ResourceQuota'', schema_k8sio_api_core_v1_ResourceQuota ref),
     (CoreV1 ''ResourceQuotaList'', schema_k8sio_api_core_v1_ResourceQuotaList ref),
     (CoreV1 ''ResourceQuotaSpec'', schema_k8sio_api_core_v1_ResourceQuotaSpec ref),
     (CoreV1 ''ResourceQuotaStatus'', schema_k8sio_api_core_v1_ResourceQuotaStatus ref),
     (CoreV1 ''ResourceRequirements'', schema_k8sio_api_core_v1_ResourceRequirements ref),
     (CoreV1 ''SELinuxOptions'', schema_k8sio_api_core_v1_SELinuxOptions ref),
     (CoreV1 ''ScaleIOPersistentVolumeSource'', schema_k8sio_api_core_v1_ScaleIOPersistentVolumeSource ref),
     (CoreV1 ''ScaleIOVolumeSource'', schema_k8sio_api_core_v1_ScaleIOVolumeSource ref),
     (CoreV1 ''ScopeSelector'', schema_k8sio_api_core_v1_ScopeSelector ref),
     (CoreV1 ''ScopedResourceSelectorRequirement'', schema_k8sio_api_core_v1_ScopedResourceSelectorRequirement ref),
     (CoreV1 ''Secret'', schema_k8sio_api_core_v1_Secret ref),
     (CoreV1 ''SecretEnvSource'', schema_k8sio_api_core_v1_SecretEnvSource ref),
     (CoreV1 ''SecretKeySelector'', schema_k8sio_api_core_v1_SecretKeySelector ref),
     (CoreV1 ''SecretList'', schema_k8sio_api_core_v1_SecretList ref),
     (CoreV1 ''SecretProjection'', schema_k8sio_api_core_v1_SecretProjection ref),
     (CoreV1 ''SecretReference'', schema_k8sio_api_core_v1_SecretReference ref),
     (CoreV1 ''SecretVolumeSource'', schema_k8sio_api_core_v1_SecretVolumeSource ref),
     (CoreV1 ''SecurityContext'', schema_k8sio_api_core_v1_SecurityContext ref),
     (CoreV1 ''SerializedReference'', schema_k8sio_api_core_v1_SerializedReference ref),
     (CoreV1 ''Service'', schema_k8sio_api_core_v1_Service ref),
     (CoreV1 ''ServiceAccount'', schema_k8sio_api_core_v1_ServiceAccount ref),
     (CoreV1 ''ServiceAccountList'', schema_k8sio_api_core_v1_ServiceAccountList ref),
     (CoreV1 ''ServiceAccountTokenProjection'', schema_k8sio_api_core_v1_ServiceAccountTokenProjection ref),
     (CoreV1 ''ServiceList'', schema_k8sio_api_core_v1_ServiceList ref),
     (CoreV1 ''ServicePort'', schema_k8sio_api_core_v1_ServicePort ref),
     (CoreV1 ''ServiceProxyOptions'', schema_k8sio_api_core_v1_ServiceProxyOptions ref),
     (CoreV1 ''ServiceSpec'', schema_k8sio_api_core_v1_ServiceSpec ref),
     (CoreV1 ''ServiceStatus'', schema_k8sio_api_core_v1_ServiceStatus ref),
     (CoreV1 ''SessionAffinityConfig'', schema_k8sio_api_core_v1_SessionAffinityConfig ref),
     (CoreV1 ''StorageOSPersistentVolumeSource'', schema_k8sio_api_core_v1_StorageOSPersistentVolumeSource ref),
     (CoreV1 ''StorageOSVolumeSource'', schema_k8sio_api_core_v1_StorageOSVolumeSource ref),
     (CoreV1 ''Sysctl'', schema_k8sio_api_core_v1_Sysctl ref),
     (CoreV1 ''TCPSocketAction'', schema_k8sio_api_core_v1_TCPSocketAction ref),
     (CoreV1 ''Taint'', schema_k8sio_api_core_v1_Taint ref),
     (CoreV1 ''Toleration'', schema_k8sio_api_core_v1_Toleration ref),
     (CoreV1 ''TopologySelectorLabelRequirement'', schema_k8sio_api_core_v1_TopologySelectorLabelRequirement ref),
     (CoreV1 ''TopologySelectorTerm'', schema_k8sio_api_core_v1_TopologySelectorTerm ref),
     (CoreV1 ''TypedLocalObjectReference'', schema_k8sio_api_core_v1_TypedLocalObjectReference ref),
     (CoreV1 ''Volume'', schema_k8sio_api_core_v1_Volume ref),
     (CoreV1 ''VolumeDevice'', schema_k8sio_api_core_v1_VolumeDevice ref),
     (CoreV1 ''VolumeMount'', schema_k8sio_api_core_v1_VolumeMount ref),
     (CoreV1 ''VolumeNodeAffinity'', schema_k8sio_api_core_v1_VolumeNodeAffinity ref),
     (CoreV1 ''VolumeProjection'', schema_k8sio_api_core_v1_VolumeProjection ref),
     (CoreV1 ''VolumeSource'', schema_k8sio_api_core_v1_VolumeSource ref),
     (CoreV1 ''VsphereVirtualDiskVolumeSource'', schema_k8sio_api_core_v1_VsphereVirtualDiskVolumeSource ref),
     (CoreV1 ''WeightedPodAffinityTerm'', schema_k8sio_api_core_v1_WeightedPodAffinityTerm ref),
     (MetaV1 ''APIGroup'', schema_pkg_apis_meta_v1_APIGroup ref),
     (MetaV1 ''APIGroupList'', schema_pkg_apis_meta_v1_APIGroupList ref),
     (MetaV1 ''APIResource'', schema_pkg_apis_meta_v1_APIResource ref),
     (MetaV1 ''APIResourceList'', schema_pkg_apis_meta_v1_APIResourceList ref),
     (MetaV1 ''APIVersions'', schema_pkg_apis_meta_v1_APIVersions ref),
     (MetaV1 ''CreateOptions'', schema_pkg_apis_meta_v1_CreateOptions ref),
     (MetaV1 ''DeleteOptions'', schema_pkg_apis_meta_v1_DeleteOptions ref),
     (MetaV1 ''Duration'', schema_pkg_apis_meta_v1_Duration ref),
     (MetaV1 ''ExportOptions'', schema_pkg_apis_meta_v1_ExportOptions ref),
     (MetaV1 ''GetOptions'', schema_pkg_apis_meta_v1_GetOptions ref),
     (MetaV1 ''GroupKind'', schema_pkg_apis_meta_v1_GroupKind ref),
     (MetaV1 ''GroupResource'', schema_pkg_apis_meta_v1_GroupResource ref),
     (MetaV1 ''GroupVersion'', schema_pkg_apis_meta_v1_GroupVersion ref),
     (MetaV1 ''GroupVersionForDiscovery'', schema_pkg_apis_meta_v1_GroupVersionForDiscovery ref),
     (MetaV1 ''GroupVersionKind'', schema_pkg_apis_meta_v1_GroupVersionKind ref),
     (MetaV1 ''GroupVersionResource'', schema_pkg_apis_meta_v1_GroupVersionResource ref),
     (MetaV1 ''Initializer'', schema_pkg_apis_meta_v1_Initializer ref),
     (MetaV1 ''Initializers'', schema_pkg_apis_meta_v1_Initializers ref),
     (MetaV1 ''InternalEvent'', schema_pkg_apis_meta_v1_InternalEvent ref),
     (MetaV1 ''LabelSelector'', schema_pkg_apis_meta_v1_LabelSelector ref),
     (MetaV1 ''LabelSelectorRequirement'', schema_pkg_apis_meta_v1_LabelSelectorRequirement ref),
     (MetaV1 ''List'', schema_pkg_apis_meta_v1_List ref),
     (MetaV1 ''ListMeta'', schema_pkg_apis_meta_v1_ListMeta ref),
     (MetaV1 ''ListOptions'', schema_pkg_apis_meta_v1_ListOptions ref),
     (MetaV1 ''MicroTime'', schema_pkg_apis_meta_v1_MicroTime ref),
     (MetaV1 ''ObjectMeta'', schema_pkg_apis_meta_v1_ObjectMeta ref),
     (MetaV1 ''OwnerReference'', schema_pkg_apis_meta_v1_OwnerReference ref),
     (MetaV1 ''Patch'', schema_pkg_apis_meta_v1_Patch ref),
     (MetaV1 ''Preconditions'', schema_pkg_apis_meta_v1_Preconditions ref),
     (MetaV1 ''RootPaths'', schema_pkg_apis_meta_v1_RootPaths ref),
     (MetaV1 ''ServerAddressByClientCIDR'', schema_pkg_apis_meta_v1_ServerAddressByClientCIDR ref),
     (MetaV1 ''Status'', schema_pkg_apis_meta_v1_Status ref),
     (MetaV1 ''StatusCause'', schema_pkg_apis_meta_v1_StatusCause ref),
     (MetaV1 ''StatusDetails'', schema_pkg_apis_meta_v1_StatusDetails ref),
     (MetaV1 ''Time'', schema_pkg_apis_meta_v1_Time ref),
     (MetaV1 ''Timestamp'', schema_pkg_apis_meta_v1_Timestamp ref),
     (MetaV1 ''TypeMeta'', schema_pkg_apis_meta_v1_TypeMeta ref),
     (MetaV1 ''UpdateOptions'', schema_pkg_apis_meta_v1_UpdateOptions ref),
     (MetaV1 ''WatchEvent'', schema_pkg_apis_meta_v1_WatchEvent ref)]"

definition GetOpenAPIDefinitions :: "ReferenceCallback \<Rightarrow> openapi_spec" where
  "GetOpenAPIDefinitions ref = [
     (JupyterV1 ''Notebook'', schema_pkg_apis_jupyter_v1_Notebook ref),
     (JupyterV1 ''NotebookSpec'', schema_pkg_apis_jupyter_v1_NotebookSpec ref),
     (JupyterV1 ''NotebookStatus'', schema_pkg_apis_jupyter_v1_NotebookStatus ref),
     (CoreV1 ''AWSElasticBlockStoreVolumeSource'', schema_k8sio_api_core_v1_AWSElasticBlockStoreVolumeSource ref),
     (CoreV1 ''Affinity'', schema_k8sio_api_core_v1_Affinity ref),
     (CoreV1 ''AttachedVolume'', schema_k8sio_api_core_v1_AttachedVolume ref),
     (CoreV1 ''AvoidPods'', schema_k8sio_api_core_v1_AvoidPods ref),
     (CoreV1 ''AzureDiskVolumeSource'', schema_k8sio_api_core_v1_AzureDiskVolumeSource ref),
     (CoreV1 ''AzureFilePersistentVolumeSource'', schema_k8sio_api_core_v1_AzureFilePersistentVolumeSource ref),
     (CoreV1 ''AzureFileVolumeSource'', schema_k8sio_api_core_v1_AzureFileVolumeSource ref),
     (CoreV1 ''Binding'', schema_k8sio_api_core_v1_Binding ref),
     (CoreV1 ''CSIPersistentVolumeSource'', schema_k8sio_api_core_v1_CSIPersistentVolumeSource ref),
     (CoreV1 ''Capabilities'', schema_k8sio_api_core_v1_Capabilities ref),
     (CoreV1 ''CephFSPersistentVolumeSource'', schema_k8sio_api_core_v1_CephFSPersistentVolumeSource ref),
     (CoreV1 ''CephFSVolumeSource'', schema_k8sio_api_core_v1_CephFSVolumeSource ref),
     (CoreV1 ''CinderPersistentVolumeSource'', schema_k8sio_api_core_v1_CinderPersistentVolumeSource ref),
     (CoreV1 ''CinderVolumeSource'', schema_k8sio_api_core_v1_CinderVolumeSource ref),
     (CoreV1 ''ClientIPConfig'', schema_k8sio_api_core_v1_ClientIPConfig ref),
     (CoreV1 ''ComponentCondition'', schema_k8sio_api_core_v1_ComponentCondition ref),
     (CoreV1 ''ComponentStatus'', schema_k8sio_api_core_v1_ComponentStatus ref),
     (CoreV1 ''ComponentStatusList'', schema_k8sio_api_core_v1_ComponentStatusList ref),
     (CoreV1 ''ConfigMap'', schema_k8sio_api_core_v1_ConfigMap ref),
     (CoreV1 ''ConfigMapEnvSource'', schema_k8sio_api_core_v1_ConfigMapEnvSource ref),
     (CoreV1 ''ConfigMapKeySelector'', schema_k8sio_api_core_v1_ConfigMapKeySelector ref),
     (CoreV1 ''ConfigMapList'', schema_k8sio_api_core_v1_ConfigMapList ref),
     (CoreV1 ''ConfigMapNodeConfigSource'', schema_k8sio_api_core_v1_ConfigMapNodeConfigSource ref),
     (CoreV1 ''ConfigMapProjection'', schema_k8sio_api_core_v1_ConfigMapProjection ref),
     (CoreV1 ''ConfigMapVolumeSource'', schema_k8sio_api_core_v1_ConfigMapVolumeSource ref),
     (CoreV1 ''Container'', schema_k8sio_api_core_v1_Container ref),
     (CoreV1 ''ContainerImage'', schema_k8sio_api_core_v1_ContainerImage ref),
     (CoreV1 ''ContainerPort'', schema_k8sio_api_core_v1_ContainerPort ref),
     (CoreV1 ''ContainerState'', schema_k8sio_api_core_v1_ContainerState ref),
     (CoreV1 ''ContainerStateRunning'', schema_k8sio_api_core_v1_ContainerStateRunning ref),
     (CoreV1 ''ContainerStateTerminated'', schema_k8sio_api_core_v1_ContainerStateTerminated ref),
     (CoreV1 ''ContainerStateWaiting'', schema_k8sio_api_core_v1_ContainerStateWaiting ref),
     (CoreV1 ''ContainerStatus'', schema_k8sio_api_core_v1_ContainerStatus ref),
     (CoreV1 ''DaemonEndpoint'', schema_k8sio_api_core_v1_DaemonEndpoint ref),
     (CoreV1 ''DownwardAPIProjection'', schema_k8sio_api_core_v1_DownwardAPIProjection ref),
     (CoreV1 ''DownwardAPIVolumeFile'', schema_k8sio_api_core_v1_DownwardAPIVolumeFile ref),
     (CoreV1 ''DownwardAPIVolumeSource'', schema_k8sio_api_core_v1_DownwardAPIVolumeSource ref),
     (CoreV1 ''EmptyDirVolumeSource'', schema_k8sio_api_core_v1_EmptyDirVolumeSource ref),
     (CoreV1 ''EndpointAddress'', schema_k8sio_api_core_v1_EndpointAddress ref),
     (CoreV1 ''EndpointPort'', schema_k8sio_api_core_v1_EndpointPort ref),
     (CoreV1 ''EndpointSubset'', schema_k8sio_api_core_v1_EndpointSubset ref),
     (CoreV1 ''Endpoints'', schema_k8sio_api_core_v1_Endpoints ref),
     (CoreV1 ''EndpointsList'', schema_k8sio_api_core_v1_EndpointsList ref),
     (CoreV1 ''EnvFromSource'', schema_k8sio_api_core_v1_EnvFromSource ref),
     (CoreV1 ''EnvVar'', schema_k8sio_api_core_v1_EnvVar ref),
     (CoreV1 ''EnvVarSource'', schema_k8sio_api_core_v1_EnvVarSource ref),
     (CoreV1 ''Event'', schema_k8sio_api_core_v1_Event ref),
     (CoreV1 ''EventList'', schema_k8sio_api_core_v1_EventList ref),
     (CoreV1 ''EventSeries'', schema_k8sio_api_core_v1_EventSeries ref),
     (CoreV1 ''EventSource'', schema_k8sio_api_core_v1_EventSource ref),
     (CoreV1 ''ExecAction'', schema_k8sio_api_core_v1_ExecAction ref),
     (CoreV1 ''FCVolumeSource'', schema_k8sio_api_core_v1_FCVolumeSource ref),
     (CoreV1 ''FlexPersistentVolumeSource'', schema_k8sio_api_core_v1_FlexPersistentVolumeSource ref),
     (CoreV1 ''FlexVolumeSource'', schema_k8sio_api_core_v1_FlexVolumeSource ref),
     (CoreV1 ''FlockerVolumeSource'', schema_k8sio_api_core_v1_FlockerVolumeSource ref),
     (CoreV1 ''GCEPersistentDiskVolumeSource'', schema_k8sio_api_core_v1_GCEPersistentDiskVolumeSource ref),
     (CoreV1 ''GitRepoVolumeSource'', schema_k8sio_api_core_v1_GitRepoVolumeSource ref),
     (CoreV1 ''GlusterfsVolumeSource'', schema_k8sio_api_core_v1_GlusterfsVolumeSource ref),
     (CoreV1 ''HTTPGetAction'', schema_k8sio_api_core_v1_HTTPGetAction ref),
     (CoreV1 ''HTTPHeader'', schema_k8sio_api_core_v1_HTTPHeader ref),
     (CoreV1 ''Handler'', schema_k8sio_api_core_v1_Handler ref),
     (CoreV1 ''HostAlias'', schema_k8sio_api_core_v1_HostAlias ref),
     (CoreV1 ''HostPathVolumeSource'', schema_k8sio_api_core_v1_HostPathVolumeSource ref),
     (CoreV1 ''ISCSIPersistentVolumeSource'', schema_k8sio_api_core_v1_ISCSIPersistentVolumeSource ref),
     (CoreV1 ''ISCSIVolumeSource'', schema_k8sio_api_core_v1_ISCSIVolumeSource ref),
     (CoreV1 ''KeyToPath'', schema_k8sio_api_core_v1_KeyToPath ref),
     (CoreV1 ''Lifecycle'', schema_k8sio_api_core_v1_Lifecycle ref),
     (CoreV1 ''LimitRange'', schema_k8sio_api_core_v1_LimitRange ref),
     (CoreV1 ''LimitRangeItem'', schema_k8sio_api_core_v1_LimitRangeItem ref),
     (CoreV1 ''LimitRangeList'', schema_k8sio_api_core_v1_LimitRangeList ref),
     (CoreV1 ''LimitRangeSpec'', schema_k8sio_api_core_v1_LimitRangeSpec ref),
     (CoreV1 ''List'', schema_k8sio_api_core_v1_List ref),
     (CoreV1 ''LoadBalancerIngress'', schema_k8sio_api_core_v1_LoadBalancerIngress ref),
     (CoreV1 ''LoadBalancerStatus'', schema_k8sio_api_core_v1_LoadBalancerStatus ref),
     (CoreV1 ''LocalObjectReference'', schema_k8sio_api_core_v1_LocalObjectReference ref),
     (CoreV1 ''LocalVolumeSource'', schema_k8sio_api_core_v1_LocalVolumeSource ref),
     (CoreV1 ''NFSVolumeSource'', schema_k8sio_api_core_v1_NFSVolumeSource ref),
     (CoreV1 ''Namespace'', schema_k8sio_api_core_v1_Namespace ref),
     (CoreV1 ''NamespaceList'', schema_k8sio_api_core_v1_NamespaceList ref),
     (CoreV1 ''NamespaceSpec'', schema_k8sio_api_core_v1_NamespaceSpec ref),
     (CoreV1 ''NamespaceStatus'', schema_k8sio_api_core_v1_NamespaceStatus ref),
     (CoreV1 ''Node'', schema_k8sio_api_core_v1_Node ref),
     (CoreV1 ''NodeAddress'', schema_k8sio_api_core_v1_NodeAddress ref),
     (CoreV1 ''NodeAffinity'', schema_k8sio_api_core_v1_NodeAffinity ref),
     (CoreV1 ''NodeCondition'', schema_k8sio_api_core_v1_NodeCondition ref),
     (CoreV1 ''NodeConfigSource'', schema_k8sio_api_core_v1_NodeConfigSource ref),
     (CoreV1 ''NodeConfigStatus'', schema_k8sio_api_core_v1_NodeConfigStatus ref),
     (CoreV1 ''NodeDaemonEndpoints'', schema_k8sio_api_core_v1_NodeDaemonEndpoints ref),
     (CoreV1 ''NodeList'', schema_k8sio_api_core_v1_NodeList ref),
     (CoreV1 ''NodeProxyOptions'', schema_k8sio_api_core_v1_NodeProxyOptions ref),
     (CoreV1 ''NodeResources'', schema_k8sio_api_core_v1_NodeResources ref),
     (CoreV1 ''NodeSelector'', schema_k8sio_api_core_v1_NodeSelector ref),
     (CoreV1 ''NodeSelectorRequirement'', schema_k8sio_api_core_v1_NodeSelectorRequirement ref),
     (CoreV1 ''NodeSelectorTerm'', schema_k8sio_api_core_v1_NodeSelectorTerm ref),
     (CoreV1 ''NodeSpec'', schema_k8sio_api_core_v1_NodeSpec ref),
     (CoreV1 ''NodeStatus'', schema_k8sio_api_core_v1_NodeStatus ref),
     (CoreV1 ''NodeSystemInfo'', schema_k8sio_api_core_v1_NodeSystemInfo ref),
     (CoreV1 ''ObjectFieldSelector'', schema_k8sio_api_core_v1_ObjectFieldSelector ref),
     (CoreV1 ''ObjectReference'', schema_k8sio_api_core_v1_ObjectReference ref),
     (CoreV1 ''PersistentVolume'', schema_k8sio_api_core_v1_PersistentVolume ref),
     (CoreV1 ''PersistentVolumeClaim'', schema_k8sio_api_core_v1_PersistentVolumeClaim ref),
     (CoreV1 ''PersistentVolumeClaimCondition'', schema_k8sio_api_core_v1_PersistentVolumeClaimCondition ref),
     (CoreV1 ''PersistentVolumeClaimList'', schema_k8sio_api_core_v1_PersistentVolumeClaimList ref),
     (CoreV1 ''PersistentVolumeClaimSpec'', schema_k8sio_api_core_v1_PersistentVolumeClaimSpec ref),
     (CoreV1 ''PersistentVolumeClaimStatus'', schema_k8sio_api_core_v1_PersistentVolumeClaimStatus ref),
     (CoreV1 ''PersistentVolumeClaimVolumeSource'', schema_k8sio_api_core_v1_PersistentVolumeClaimVolumeSource ref),
     (CoreV1 ''PersistentVolumeList'', schema_k8sio_api_core_v1_PersistentVolumeList ref),
     (CoreV1 ''PersistentVolumeSource'', schema_k8sio_api_core_v1_PersistentVolumeSource ref),
     (CoreV1 ''PersistentVolumeSpec'', schema_k8sio_api_core_v1_PersistentVolumeSpec ref),
     (CoreV1 ''PersistentVolumeStatus'', schema_k8sio_api_core_v1_PersistentVolumeStatus ref),
     (CoreV1 ''PhotonPersistentDiskVolumeSource'', schema_k8sio_api_core_v1_PhotonPersistentDiskVolumeSource ref),
     (CoreV1 ''Pod'', schema_k8sio_api_core_v1_Pod ref),
     (CoreV1 ''PodAffinity'', schema_k8sio_api_core_v1_PodAffinity ref),
     (CoreV1 ''PodAffinityTerm'', schema_k8sio_api_core_v1_PodAffinityTerm ref),
     (CoreV1 ''PodAntiAffinity'', schema_k8sio_api_core_v1_PodAntiAffinity ref),
     (CoreV1 ''PodAttachOptions'', schema_k8sio_api_core_v1_PodAttachOptions ref),
     (CoreV1 ''PodCondition'', schema_k8sio_api_core_v1_PodCondition ref),
     (CoreV1 ''PodDNSConfig'', schema_k8sio_api_core_v1_PodDNSConfig ref),
     (CoreV1 ''PodDNSConfigOption'', schema_k8sio_api_core_v1_PodDNSConfigOption ref),
     (CoreV1 ''PodExecOptions'', schema_k8sio_api_core_v1_PodExecOptions ref),
     (CoreV1 ''PodList'', schema_k8sio_api_core_v1_PodList ref),
     (CoreV1 ''PodLogOptions'', schema_k8sio_api_core_v1_PodLogOptions ref),
     (CoreV1 ''PodPortForwardOptions'', schema_k8sio_api_core_v1_PodPortForwardOptions ref),
     (CoreV1 ''PodProxyOptions'', schema_k8sio_api_core_v1_PodProxyOptions ref),
     (CoreV1 ''PodReadinessGate'', schema_k8sio_api_core_v1_PodReadinessGate ref),
     (CoreV1 ''PodSecurityContext'', schema_k8sio_api_core_v1_PodSecurityContext ref),
     (CoreV1 ''PodSignature'', schema_k8sio_api_core_v1_PodSignature ref),
     (CoreV1 ''PodSpec'', schema_k8sio_api_core_v1_PodSpec ref),
     (CoreV1 ''PodStatus'', schema_k8sio_api_core_v1_PodStatus ref),
     (CoreV1 ''PodStatusResult'', schema_k8sio_api_core_v1_PodStatusResult ref),
     (CoreV1 ''PodTemplate'', schema_k8sio_api_core_v1_PodTemplate ref),
     (CoreV1 ''PodTemplateList'', schema_k8sio_api_core_v1_PodTemplateList ref),
     (CoreV1 ''PodTemplateSpec'', schema_k8sio_api_core_v1_PodTemplateSpec ref),
     (CoreV1 ''PortworxVolumeSource'', schema_k8sio_api_core_v1_PortworxVolumeSource ref),
     (CoreV1 ''PreferAvoidPodsEntry'', schema_k8sio_api_core_v1_PreferAvoidPodsEntry ref),
     (CoreV1 ''PreferredSchedulingTerm'', schema_k8sio_api_core_v1_PreferredSchedulingTerm ref),
     (CoreV1 ''Probe'', schema_k8sio_api_core_v1_Probe ref),
     (CoreV1 ''ProjectedVolumeSource'', schema_k8sio_api_core_v1_ProjectedVolumeSource ref),
     (CoreV1 ''QuobyteVolumeSource'', schema_k8sio_api_core_v1_QuobyteVolumeSource ref),
     (CoreV1 ''RBDPersistentVolumeSource'', schema_k8sio_api_core_v1_RBDPersistentVolumeSource ref),
     (CoreV1 ''RBDVolumeSource'', schema_k8sio_api_core_v1_RBDVolumeSource ref),
     (CoreV1 ''RangeAllocation'', schema_k8sio_api_core_v1_RangeAllocation ref)] @ moreDefinitions ref"

lemmas definitions_listed = GetOpenAPIDefinitions_def [unfolded moreDefinitions_def append.simps]

definition definedTypes :: "type_name list" where
  "definedTypes =
    [JupyterV1 ''Notebook'', JupyterV1 ''NotebookSpec'', JupyterV1 ''NotebookStatus'',
     CoreV1 ''AWSElasticBlockStoreVolumeSource'', CoreV1 ''Affinity'', CoreV1 ''AttachedVolume'',
     CoreV1 ''AvoidPods'', CoreV1 ''AzureDiskVolumeSource'',
     CoreV1 ''AzureFilePersistentVolumeSource'', CoreV1 ''AzureFileVolumeSource'',
     CoreV1 ''Binding'', CoreV1 ''CSIPersistentVolumeSource'', CoreV1 ''Capabilities'',
     CoreV1 ''CephFSPersistentVolumeSource'', CoreV1 ''CephFSVolumeSource'',
     CoreV1 ''CinderPersistentVolumeSource'', CoreV1 ''CinderVolumeSource'',
     CoreV1 ''ClientIPConfig'', CoreV1 ''ComponentCondition'', CoreV1 ''ComponentStatus'',
     CoreV1 ''ComponentStatusList'', CoreV1 ''ConfigMap'', CoreV1 ''ConfigMapEnvSource'',
     CoreV1 ''ConfigMapKeySelector'', CoreV1 ''ConfigMapList'',
     CoreV1 ''ConfigMapNodeConfigSource'', CoreV1 ''ConfigMapProjection'',
     CoreV1 ''ConfigMapVolumeSource'', CoreV1 ''Container'', CoreV1 ''ContainerImage'',
     CoreV1 ''ContainerPort'', CoreV1 ''ContainerState'', CoreV1 ''ContainerStateRunning'',
     CoreV1 ''ContainerStateTerminated'', CoreV1 ''ContainerStateWaiting'',
     CoreV1 ''ContainerStatus'', CoreV1 ''DaemonEndpoint'', CoreV1 ''DownwardAPIProjection'',
     CoreV1 ''DownwardAPIVolumeFile'', CoreV1 ''DownwardAPIVolumeSource'',
     CoreV1 ''EmptyDirVolumeSource'', CoreV1 ''EndpointAddress'', CoreV1 ''EndpointPort'',
     CoreV1 ''EndpointSubset'', CoreV1 ''Endpoints'', CoreV1 ''EndpointsList'',
     CoreV1 ''EnvFromSource'', CoreV1 ''EnvVar'', CoreV1 ''EnvVarSource'', CoreV1 ''Event'',
     CoreV1 ''EventList'', CoreV1 ''EventSeries'', CoreV1 ''EventSource'', CoreV1 ''ExecAction'',
     CoreV1 ''FCVolumeSource'', CoreV1 ''FlexPersistentVolumeSource'',
     CoreV1 ''FlexVolumeSource'', CoreV1 ''FlockerVolumeSource'',
     CoreV1 ''GCEPersistentDiskVolumeSource'', CoreV1 ''GitRepoVolumeSource'',
     CoreV1 ''GlusterfsVolumeSource'', CoreV1 ''HTTPGetAction'', CoreV1 ''HTTPHeader'',
     CoreV1 ''Handler'', CoreV1 ''HostAlias'', CoreV1 ''HostPathVolumeSource'',
     CoreV1 ''ISCSIPersistentVolumeSource'', CoreV1 ''ISCSIVolumeSource'', CoreV1 ''KeyToPath'',
     CoreV1 ''Lifecycle'', CoreV1 ''LimitRange'', CoreV1 ''LimitRangeItem'',
     CoreV1 ''LimitRangeList'', CoreV1 ''LimitRangeSpec'', CoreV1 ''List'',
     CoreV1 ''LoadBalancerIngress'', CoreV1 ''LoadBalancerStatus'',
     CoreV1 ''LocalObjectReference'', CoreV1 ''LocalVolumeSource'', CoreV1 ''NFSVolumeSource'',
     CoreV1 ''Namespace'', CoreV1 ''NamespaceList'', CoreV1 ''NamespaceSpec'',
     CoreV1 ''NamespaceStatus'', CoreV1 ''Node'', CoreV1 ''NodeAddress'',
     CoreV1 ''NodeAffinity'', CoreV1 ''NodeCondition'', CoreV1 ''NodeConfigSource'',
     CoreV1 ''NodeConfigStatus'', CoreV1 ''NodeDaemonEndpoints'', CoreV1 ''NodeList'',
     CoreV1 ''NodeProxyOptions'', CoreV1 ''NodeResources'', CoreV1 ''NodeSelector'',
     CoreV1 ''NodeSelectorRequirement'', CoreV1 ''NodeSelectorTerm'', CoreV1 ''NodeSpec'',
     CoreV1 ''NodeStatus'', CoreV1 ''NodeSystemInfo'', CoreV1 ''ObjectFieldSelector'',
     CoreV1 ''ObjectReference'', CoreV1 ''PersistentVolume'', CoreV1 ''PersistentVolumeClaim'',
     CoreV1 ''PersistentVolumeClaimCondition'', CoreV1 ''PersistentVolumeClaimList'',
     CoreV1 ''PersistentVolumeClaimSpec'', CoreV1 ''PersistentVolumeClaimStatus'',
     CoreV1 ''PersistentVolumeClaimVolumeSource'', CoreV1 ''PersistentVolumeList'',
     CoreV1 ''PersistentVolumeSource'', CoreV1 ''PersistentVolumeSpec'',
     CoreV1 ''PersistentVolumeStatus'', CoreV1 ''PhotonPersistentDiskVolumeSource'',
     CoreV1 ''Pod'', CoreV1 ''PodAffinity'', CoreV1 ''PodAffinityTerm'',
     CoreV1 ''PodAntiAffinity'', CoreV1 ''PodAttachOptions'', CoreV1 ''PodCondition'',
     CoreV1 ''PodDNSConfig'', CoreV1 ''PodDNSConfigOption'', CoreV1 ''PodExecOptions'',
     CoreV1 ''PodList'', CoreV1 ''PodLogOptions'', CoreV1 ''PodPortForwardOptions'',
     CoreV1 ''PodProxyOptions'', CoreV1 ''PodReadinessGate'', CoreV1 ''PodSecurityContext'',
     CoreV1 ''PodSignature'', CoreV1 ''PodSpec'', CoreV1 ''PodStatus'',
     CoreV1 ''PodStatusResult'', CoreV1 ''PodTemplate'', CoreV1 ''PodTemplateList'',
     CoreV1 ''PodTemplateSpec'', CoreV1 ''PortworxVolumeSource'',
     CoreV1 ''PreferAvoidPodsEntry'', CoreV1 ''PreferredSchedulingTerm'', CoreV1 ''Probe'',
     CoreV1 ''ProjectedVolumeSource'', CoreV1 ''QuobyteVolumeSource'',
     CoreV1 ''RBDPersistentVolumeSource'', CoreV1 ''RBDVolumeSource'',
     CoreV1 ''RangeAllocation'', CoreV1 ''ReplicationController'',
     CoreV1 ''ReplicationControllerCondition'', CoreV1 ''ReplicationControllerList'',
     CoreV1 ''ReplicationControllerSpec'', CoreV1 ''ReplicationControllerStatus'',
     CoreV1 ''ResourceFieldSelector'', CoreV1 ''ResourceQuota'', CoreV1 ''ResourceQuotaList'',
     CoreV1 ''ResourceQuotaSpec'', CoreV1 ''ResourceQuotaStatus'',
     CoreV1 ''ResourceRequirements'', CoreV1 ''SELinuxOptions'',
     CoreV1 ''ScaleIOPersistentVolumeSource'', CoreV1 ''ScaleIOVolumeSource'',
     CoreV1 ''ScopeSelector'', CoreV1 ''ScopedResourceSelectorRequirement'', CoreV1 ''Secret'',
     CoreV1 ''SecretEnvSource'', CoreV1 ''SecretKeySelector'', CoreV1 ''SecretList'',
     CoreV1 ''SecretProjection'', CoreV1 ''SecretReference'', CoreV1 ''SecretVolumeSource'',
     CoreV1 ''SecurityContext'', CoreV1 ''SerializedReference'', CoreV1 ''Service'',
     CoreV1 ''ServiceAccount'', CoreV1 ''ServiceAccountList'',
     CoreV1 ''ServiceAccountTokenProjection'', CoreV1 ''ServiceList'', CoreV1 ''ServicePort'',
     CoreV1 ''ServiceProxyOptions'', CoreV1 ''ServiceSpec'', CoreV1 ''ServiceStatus'',
     CoreV1 ''SessionAffinityConfig'', CoreV1 ''StorageOSPersistentVolumeSource'',
     CoreV1 ''StorageOSVolumeSource'', CoreV1 ''Sysctl'', CoreV1 ''TCPSocketAction'',
     CoreV1 ''Taint'', CoreV1 ''Toleration'', CoreV1 ''TopologySelectorLabelRequirement'',
     CoreV1 ''TopologySelectorTerm'', CoreV1 ''TypedLocalObjectReference'', CoreV1 ''Volume'',
     CoreV1 ''VolumeDevice'', CoreV1 ''VolumeMount'', CoreV1 ''VolumeNodeAffinity'',
     CoreV1 ''VolumeProjection'', CoreV1 ''VolumeSource'',
     CoreV1 ''VsphereVirtualDiskVolumeSource'', CoreV1 ''WeightedPodAffinityTerm'',
     MetaV1 ''APIGroup'', MetaV1 ''APIGroupList'', MetaV1 ''APIResource'',
     MetaV1 ''APIResourceList'', MetaV1 ''APIVersions'', MetaV1 ''CreateOptions'',
     MetaV1 ''DeleteOptions'', MetaV1 ''Duration'', MetaV1 ''ExportOptions'',
     MetaV1 ''GetOptions'', MetaV1 ''GroupKind'', MetaV1 ''GroupResource'',
     MetaV1 ''GroupVersion'', MetaV1 ''GroupVersionForDiscovery'', MetaV1 ''GroupVersionKind'',
     MetaV1 ''GroupVersionResource'', MetaV1 ''Initializer'', MetaV1 ''Initializers'',
     MetaV1 ''InternalEvent'', MetaV1 ''LabelSelector'', MetaV1 ''LabelSelectorRequirement'',
     MetaV1 ''List'', MetaV1 ''ListMeta'', MetaV1 ''ListOptions'', MetaV1 ''MicroTime'',
     MetaV1 ''ObjectMeta'', MetaV1 ''OwnerReference'', MetaV1 ''Patch'',
     MetaV1 ''Preconditions'', MetaV1 ''RootPaths'', MetaV1 ''ServerAddressByClientCIDR'',
     MetaV1 ''Status'', MetaV1 ''StatusCause'', MetaV1 ''StatusDetails'', MetaV1 ''Time'',
     MetaV1 ''Timestamp'', MetaV1 ''TypeMeta'', MetaV1 ''UpdateOptions'', MetaV1 ''WatchEvent'']"

lemma map_fst_definitions: "map fst (GetOpenAPIDefinitions ref) = definedTypes"
  by (simp only: definitions_listed definedTypes_def list.map fst_conv)

text \<open>
  The file lists the types in strictly ascending order, by package and then by name, so none
  occurs twice.
\<close>

fun name_before :: "string \<Rightarrow> string \<Rightarrow> bool" where
  "name_before [] ys \<longleftrightarrow> ys \<noteq> []"
| "name_before (x # xs) [] \<longleftrightarrow> False"
| "name_before (x # xs) (y # ys) \<longleftrightarrow>
     (of_char x :: nat) < of_char y \<or> x = y \<and> name_before xs ys"

fun type_before :: "type_name \<Rightarrow> type_name \<Rightarrow> bool" where
  "type_before (JupyterV1 s) (JupyterV1 t) \<longleftrightarrow> name_before s t"
| "type_before (JupyterV1 s) (CoreV1 t) \<longleftrightarrow> True"
| "type_before (JupyterV1 s) (MetaV1 t) \<longleftrightarrow> True"
| "type_before (CoreV1 s) (CoreV1 t) \<longleftrightarrow> name_before s t"
| "type_before (CoreV1 s) (MetaV1 t) \<longleftrightarrow> True"
| "type_before (MetaV1 s) (MetaV1 t) \<longleftrightarrow> name_before s t"
| "type_before _ _ \<longleftrightarrow> False"

lemma name_before_irrefl: "\<not> name_before s s"
  by (induction s) auto

lemma name_before_trans: "name_before s t \<Longrightarrow> name_before t u \<Longrightarrow> name_before s u"
proof (induction s t arbitrary: u rule: name_before.induct)
  case (1 ys) then show ?case by (cases ys; cases u) auto
next
  case (3 x xs y ys) then show ?case by (cases u) auto
qed simp

lemma type_before_irrefl: "\<not> type_before m m"
  by (cases m) (auto simp: name_before_irrefl)

lemma type_before_trans: "type_before l m \<Longrightarrow> type_before m n \<Longrightarrow> type_before l n"
  by (cases l; cases m; cases n) (auto intro: name_before_trans)

lemma types_ascend: "successively type_before definedTypes"
  by code_simp

lemma ascending_distinct: "sorted_wrt type_before ns \<Longrightarrow> distinct ns"
  by (induction ns) (auto simp: type_before_irrefl)

lemma distinct_types: "distinct definedTypes"
  using types_ascend type_before_trans
  by (intro ascending_distinct, subst (asm) successively_conv_sorted_wrt) (auto simp: transp_def)

lemma definitions_wf: "list_all wfDefinition (map snd (GetOpenAPIDefinitions Some))"
  using wf_core_a wf_core_b wf_core_c wf_core_d wf_core_e wf_meta wf_notebook
  by (simp only: definitions_listed list.map snd_conv list.pred_inject simp_thms)

lemma lookup_defined:
  assumes "(n, d) \<in> set (GetOpenAPIDefinitions ref)"
  shows "map_of (GetOpenAPIDefinitions ref) n = Some d"
  using assms distinct_types by (simp add: map_of_is_SomeI map_fst_definitions)

end
