(* ===== verification/Crd.thy ===== *)
theory Crd
  imports OpenAPI_Table "HOL-Library.AList"
begin

text \<open>
  The vendored package crd-validation (vendor/github.com/ant31/crd-validation/pkg), which turns
  the OpenAPI table into the CustomResourceDefinition the controller registers, and createCRD's
  own configuration of it (pkg/controller/controller.go).

  SchemaPropsToJSONProps follows every reference it meets when it is called nested, and nothing
  in it bounds that: on a table with a cycle it would not return. Its model has fuel for the
  references it follows, one each, and is total on everything else.
\<close>

datatype JSONSchemaProps = JSONSchemaProps
  (PropRef: Ref)
  (PropType: string)
  (PropFormat: string)
  (PropRequired: "string list")
  (PropItems: "JSONSchemaProps option")
  (PropAnyOf: "JSONSchemaProps list")
  (PropProperties: "(string \<times> JSONSchemaProps) list")

definition StringOrArrayToString :: "string list \<Rightarrow> string" where
  "StringOrArrayToString strOrArray = (case strOrArray of [] \<Rightarrow> '''' | s # _ \<Rightarrow> s)"

text \<open>Indexing a Go map with a name it does not have gives the zero definition.\<close>

definition schemaAt :: "openapi_spec \<Rightarrow> type_name \<Rightarrow> Schema" where
  "schemaAt spec n = (case map_of spec n of Some d \<Rightarrow> DefSchema d | None \<Rightarrow> zeroSchema)"

function (sequential) SchemaPropsToJSONProps ::
    "openapi_spec \<Rightarrow> bool \<Rightarrow> nat \<Rightarrow> Schema \<Rightarrow> JSONSchemaProps option"
  and SchemaOrArrayToJSONItems ::
    "openapi_spec \<Rightarrow> bool \<Rightarrow> nat \<Rightarrow> Schema option \<Rightarrow> JSONSchemaProps option option"
  and SchemaPropsToJSONPropsArray ::
    "openapi_spec \<Rightarrow> bool \<Rightarrow> nat \<Rightarrow> Schema list \<Rightarrow> JSONSchemaProps list option"
  and SchemPropsMapToJSONMap ::
    "openapi_spec \<Rightarrow> bool \<Rightarrow> nat \<Rightarrow> (string \<times> Schema) list \<Rightarrow>
     (string \<times> JSONSchemaProps) list option" where
  "SchemaPropsToJSONProps spec nested fuel (Schema (Some r) t f i p a y q x) =
     (if nested
      then (case fuel of
              0 \<Rightarrow> None
            | Suc fuel' \<Rightarrow> SchemaPropsToJSONProps spec nested fuel' (schemaAt spec r))
      else Option.bind (SchemaOrArrayToJSONItems spec nested fuel i) (\<lambda>items.
           Option.bind (SchemaPropsToJSONPropsArray spec nested fuel y) (\<lambda>anyOf.
           Option.bind (SchemPropsMapToJSONMap spec nested fuel p) (\<lambda>props.
             Some (JSONSchemaProps (Some r) (StringOrArrayToString t) f q items anyOf props)))))"
| "SchemaPropsToJSONProps spec nested fuel (Schema None t f i p a y q x) =
     Option.bind (SchemaOrArrayToJSONItems spec nested fuel i) (\<lambda>items.
     Option.bind (SchemaPropsToJSONPropsArray spec nested fuel y) (\<lambda>anyOf.
     Option.bind (SchemPropsMapToJSONMap spec nested fuel p) (\<lambda>props.
       Some (JSONSchemaProps None (StringOrArrayToString t) f q items anyOf props))))"
| "SchemaOrArrayToJSONItems spec nested fuel None = Some None"
| "SchemaOrArrayToJSONItems spec nested fuel (Some s) =
     map_option Some (SchemaPropsToJSONProps spec nested fuel s)"
| "SchemaPropsToJSONPropsArray spec nested fuel [] = Some []"
| "SchemaPropsToJSONPropsArray spec nested fuel (s # ss) =
     Option.bind (SchemaPropsToJSONProps spec nested fuel s) (\<lambda>j.
     Option.bind (SchemaPropsToJSONPropsArray spec nested fuel ss) (\<lambda>js.
       Some (j # js)))"
| "SchemPropsMapToJSONMap spec nested fuel [] = Some []"
| "SchemPropsMapToJSONMap spec nested fuel ((k, s) # ps) =
     Option.bind (SchemaPropsToJSONProps spec nested fuel s) (\<lambda>j.
     Option.bind (SchemPropsMapToJSONMap spec nested fuel ps) (\<lambda>m.
       Some ((k, j) # m)))"
  by pat_completeness auto
termination
  by (relation "measures
      [case_sum (case_sum (\<lambda>(_, _, n, _). n) (\<lambda>(_, _, n, _). n))
                (case_sum (\<lambda>(_, _, n, _). n) (\<lambda>(_, _, n, _). n)),
       case_sum (case_sum (\<lambda>(_, _, _, s). size s) (\<lambda>(_, _, _, s). size_option size s))
                (case_sum (\<lambda>(_, _, _, s). size_list size s)
                          (\<lambda>(_, _, _, s). size_list (size_prod (\<lambda>_. 0) size) s))]") auto

definition OpenAPIRefCallBack :: ReferenceCallback where
  "OpenAPIRefCallBack name = Some name"

definition intOrString :: OpenAPIDefinition where
  "intOrString = openapiDefinition
     (Schema None [] '''' None [] None
        [Schema None [''string''] '''' None [] None [] [] [],
         Schema None [''integer''] '''' None [] None [] [] []] [] []) []"

definition fixKnownTypes :: "openapi_spec \<Rightarrow> openapi_spec" where
  "fixKnownTypes spec = AList.update (UtilIntstr ''IntOrString'') intOrString spec"

definition GetCustomResourceValidation ::
  "nat \<Rightarrow> type_name \<Rightarrow> (ReferenceCallback \<Rightarrow> openapi_spec) \<Rightarrow> JSONSchemaProps option" where
  "GetCustomResourceValidation fuel name fn =
     (let openapiSpec = fixKnownTypes (fn OpenAPIRefCallBack)
      in map_option
           (\<lambda>crv. case crv of JSONSchemaProps r t f q i a p \<Rightarrow> JSONSchemaProps r t f [] i a p)
           (SchemaPropsToJSONProps openapiSpec True fuel (schemaAt openapiSpec name)))"

text \<open>
  The configuration and the definition made from it. A nil subresource or validation is
  \<^const>\<open>None\<close>, and so is an empty SpecDefinitionName.
\<close>

record CrdConfig =
  SpecDefinitionName :: "type_name option"
  EnableValidation :: bool
  cfgLabels :: "(string \<times> string) list"
  cfgAnnotations :: "(string \<times> string) list"
  ResourceScope :: string
  cfgGroup :: string
  cfgKind :: string
  cfgVersion :: string
  cfgPlural :: string
  SpecReplicasPath :: string
  StatusReplicasPath :: string
  LabelSelectorPath :: string
  cfgCategories :: "string list"
  cfgShortNames :: "string list"
  cfgGetOpenAPIDefinitions :: "ReferenceCallback \<Rightarrow> openapi_spec"

record ScaleSubresource =
  scaleSpecReplicasPath :: string
  scaleStatusReplicasPath :: string
  scaleLabelSelectorPath :: "string option"

record CustomResourceDefinition =
  crdName :: string
  crdLabels :: "(string \<times> string) list"
  crdAnnotations :: "(string \<times> string) list"
  crdTypeKind :: string
  crdAPIVersion :: string
  crdGroup :: string
  crdVersion :: string
  crdScope :: string
  crdPlural :: string
  crdKind :: string
  crdCategories :: "string list"
  crdShortNames :: "string list"
  crdStatusSubresource :: bool
  crdScaleSubresource :: "ScaleSubresource option"
  crdValidation :: "JSONSchemaProps option"

definition NewCustomResourceDefinition ::
  "nat \<Rightarrow> CrdConfig \<Rightarrow> CustomResourceDefinition option" where
  "NewCustomResourceDefinition fuel config =
     (let crd = \<lparr>crdName = cfgPlural config @ ''.'' @ cfgGroup config,
                 crdLabels = cfgLabels config, crdAnnotations = cfgAnnotations config,
                 crdTypeKind = ''CustomResourceDefinition'',
                 crdAPIVersion = ''apiextensions.k8s.io/v1beta1'',
                 crdGroup = cfgGroup config, crdVersion = cfgVersion config,
                 crdScope = ResourceScope config, crdPlural = cfgPlural config,
                 crdKind = cfgKind config, crdCategories = cfgCategories config,
                 crdShortNames = cfgShortNames config, crdStatusSubresource = True,
                 crdScaleSubresource = Some
                   \<lparr>scaleSpecReplicasPath = SpecReplicasPath config,
                    scaleStatusReplicasPath = StatusReplicasPath config,
                    scaleLabelSelectorPath = Some (LabelSelectorPath config)\<rparr>,
                 crdValidation = None\<rparr>
      in case SpecDefinitionName config of
           None \<Rightarrow> Some crd
         | Some name \<Rightarrow>
             if EnableValidation config
             then map_option (\<lambda>v. crd\<lparr>crdValidation := Some v\<rparr>)
                    (GetCustomResourceValidation fuel name (cfgGetOpenAPIDefinitions config))
             else Some crd)"

section \<open>Resolution\<close>

text \<open>More fuel does not change a result.\<close>

lemmas toJSON_induct =
  SchemaPropsToJSONProps_SchemaOrArrayToJSONItems_SchemaPropsToJSONPropsArray_SchemPropsMapToJSONMap.induct

lemma toJSON_Suc:
  "SchemaPropsToJSONProps spec nested n s = Some j \<Longrightarrow>
     SchemaPropsToJSONProps spec nested (Suc n) s = Some j"
  "SchemaOrArrayToJSONItems spec nested n i = Some ji \<Longrightarrow>
     SchemaOrArrayToJSONItems spec nested (Suc n) i = Some ji"
  "SchemaPropsToJSONPropsArray spec nested n a = Some ja \<Longrightarrow>
     SchemaPropsToJSONPropsArray spec nested (Suc n) a = Some ja"
  "SchemPropsMapToJSONMap spec nested n p = Some jp \<Longrightarrow>
     SchemPropsMapToJSONMap spec nested (Suc n) p = Some jp"
proof (induction spec nested n s and spec nested n i and spec nested n a and spec nested n p
    arbitrary: j and ji and ja and jp rule: toJSON_induct)
  case (1 spec nested fuel r t f i p a y q x)
  then show ?case by (cases nested; cases fuel) (auto simp: bind_eq_Some_conv)
qed (auto simp: bind_eq_Some_conv)

lemma toJSON_fuel:
  assumes "SchemaPropsToJSONProps spec nested n s = Some j" "n \<le> m"
  shows "SchemaPropsToJSONProps spec nested m s = Some j"
  using assms(2) by (induction rule: dec_induct) (auto intro: toJSON_Suc assms(1))

text \<open>A nested conversion resolves every reference: none is left in its result.\<close>

fun refFree :: "JSONSchemaProps \<Rightarrow> bool" where
  "refFree (JSONSchemaProps r t f q i a p) \<longleftrightarrow>
     r = None \<and> (case i of None \<Rightarrow> True | Some j \<Rightarrow> refFree j) \<and>
     (\<forall>j \<in> set a. refFree j) \<and> (\<forall>(k, j) \<in> set p. refFree j)"

lemma toJSON_refFree:
  "SchemaPropsToJSONProps spec nested n s = Some j \<Longrightarrow> nested \<Longrightarrow> refFree j"
  "SchemaOrArrayToJSONItems spec nested n i = Some ji \<Longrightarrow> nested \<Longrightarrow>
     case ji of None \<Rightarrow> True | Some k \<Rightarrow> refFree k"
  "SchemaPropsToJSONPropsArray spec nested n a = Some ja \<Longrightarrow> nested \<Longrightarrow> \<forall>k \<in> set ja. refFree k"
  "SchemPropsMapToJSONMap spec nested n p = Some jp \<Longrightarrow> nested \<Longrightarrow> \<forall>(l, k) \<in> set jp. refFree k"
proof (induction spec nested n s and spec nested n i and spec nested n a and spec nested n p
    arbitrary: j and ji and ja and jp rule: toJSON_induct)
  case (2 spec nested fuel t f i p a y q x)
  then show ?case by (fastforce simp: bind_eq_Some_conv)
next
  case (8 spec nested fuel k s ps)
  from 8 obtain j m where "SchemaPropsToJSONProps spec nested fuel s = Some j"
    "SchemPropsMapToJSONMap spec nested fuel ps = Some m" "jp = (k, j) # m"
    by (auto simp: bind_eq_Some_conv)
  with 8 show ?case by auto
qed (auto simp: bind_eq_Some_conv split: nat.splits)

end
