(* ===== verification/OpenAPI_Resolve.thy ===== *)
theory OpenAPI_Resolve
  imports Crd
begin

text \<open>
  Every definition of the table converts: following its references ends after at most eleven of
  them, so the recursion of SchemaPropsToJSONProps, which nothing bounds, returns on this table.
  The definitions are taken by the length of their longest chain of references.
\<close>

definition openapiSpec :: openapi_spec where
  "openapiSpec = fixKnownTypes (GetOpenAPIDefinitions OpenAPIRefCallBack)"

definition resolves :: "nat \<Rightarrow> Schema \<Rightarrow> bool" where
  "resolves n s \<longleftrightarrow> (\<exists>j. SchemaPropsToJSONProps openapiSpec True n s = Some j)"

lemma OpenAPIRefCallBack_Some: "OpenAPIRefCallBack = Some"
  by (rule ext) (simp add: OpenAPIRefCallBack_def)

section \<open>Looking names up\<close>

lemma map_of_openapiSpec:
  "map_of openapiSpec n =
     (if n = UtilIntstr ''IntOrString'' then Some intOrString
      else map_of (GetOpenAPIDefinitions Some) n)"
  by (simp add: openapiSpec_def fixKnownTypes_def update_conv OpenAPIRefCallBack_Some)

lemma lookup_undefined:
  assumes "n \<notin> set definedTypes"
  shows "map_of (GetOpenAPIDefinitions ref) n = None"
  using assms map_fst_definitions [of ref] by (simp add: map_of_eq_None_iff flip: set_map)

lemma lookup_openapiSpec:
  assumes "(n, d) \<in> set (GetOpenAPIDefinitions Some)"
  shows "schemaAt openapiSpec n = DefSchema d"
proof -
  have "map_of (GetOpenAPIDefinitions Some) n = Some d" using assms by (rule lookup_defined)
  moreover have "n \<noteq> UtilIntstr ''IntOrString''"
    using lookup_undefined [of "UtilIntstr ''IntOrString''" Some] calculation
    by (auto simp: definedTypes_def)
  ultimately show ?thesis by (simp add: schemaAt_def map_of_openapiSpec)
qed

lemma lookups:
  "list_all (\<lambda>e. schemaAt openapiSpec (fst e) = DefSchema (snd e)) (GetOpenAPIDefinitions Some)"
  using lookup_openapiSpec by (auto simp: list_all_iff)

lemmas lookup_each =
  lookups [unfolded definitions_listed list.pred_inject fst_conv snd_conv]

lemma lookup_foreign:
  "schemaAt openapiSpec (ExtensionsV1beta1 t) = zeroSchema"
  "schemaAt openapiSpec (ApiResource t) = zeroSchema"
  "schemaAt openapiSpec (ApiRuntime t) = zeroSchema"
  "schemaAt openapiSpec (UtilIntstr ''IntOrString'') = DefSchema intOrString"
  by (simp_all add: schemaAt_def map_of_openapiSpec lookup_undefined definedTypes_def)

section \<open>Converting the literals\<close>

lemma map_converts:
  "(\<exists>jp. SchemPropsMapToJSONMap openapiSpec True n p = Some jp) \<longleftrightarrow>
     (\<forall>(k, s) \<in> set p. resolves n s)"
  by (induction p) (auto simp: resolves_def bind_eq_Some_conv)

lemma resolving:
  "resolves n (prim t f)" "resolves n (mapOf s)" "resolves n zeroSchema"
  "resolves n (DefSchema intOrString)"
  "resolves n (arrayOf s) \<longleftrightarrow> resolves n s"
  "resolves n (objectOf props req) \<longleftrightarrow> (\<forall>(k, s) \<in> set props. resolves n s)"
  "resolves n (Schema None ts f None [] None [] [] [])"
  "resolves (Suc n) (refTo (Some m)) \<longleftrightarrow> resolves n (schemaAt openapiSpec m)"
  "DefSchema (openapiDefinition s d) = s"
  using map_converts [of n props]
  by (auto simp: resolves_def prim_def mapOf_def zeroSchema_def intOrString_def openapiDefinition_def
      arrayOf_def objectOf_def refTo_def bind_eq_Some_conv)

lemma resolves_extended [simp]: "resolves n (extended x s) \<longleftrightarrow> resolves n s"
  by (cases s; cases "SchemaRef s") (auto simp: resolves_def extended_def)

lemmas resolving_known = resolving lookup_each lookup_foreign

section \<open>The definitions, by the length of their chains\<close>

lemma resolves_0:
  "list_all (\<lambda>d. resolves n (DefSchema d))
    [schema_pkg_apis_jupyter_v1_NotebookStatus Some,
     schema_k8sio_api_core_v1_AWSElasticBlockStoreVolumeSource Some,
     schema_k8sio_api_core_v1_AttachedVolume Some,
     schema_k8sio_api_core_v1_AzureDiskVolumeSource Some,
     schema_k8sio_api_core_v1_AzureFilePersistentVolumeSource Some,
     schema_k8sio_api_core_v1_AzureFileVolumeSource Some,
     schema_k8sio_api_core_v1_Capabilities Some, schema_k8sio_api_core_v1_ClientIPConfig Some,
     schema_k8sio_api_core_v1_ComponentCondition Some,
     schema_k8sio_api_core_v1_ConfigMapEnvSource Some,
     schema_k8sio_api_core_v1_ConfigMapKeySelector Some,
     schema_k8sio_api_core_v1_ConfigMapNodeConfigSource Some,
     schema_k8sio_api_core_v1_ContainerImage Some, schema_k8sio_api_core_v1_ContainerPort Some,
     schema_k8sio_api_core_v1_ContainerStateWaiting Some,
     schema_k8sio_api_core_v1_DaemonEndpoint Some, schema_k8sio_api_core_v1_EndpointPort Some,
     schema_k8sio_api_core_v1_EventSource Some, schema_k8sio_api_core_v1_ExecAction Some,
     schema_k8sio_api_core_v1_FCVolumeSource Some,
     schema_k8sio_api_core_v1_FlockerVolumeSource Some,
     schema_k8sio_api_core_v1_GCEPersistentDiskVolumeSource Some,
     schema_k8sio_api_core_v1_GitRepoVolumeSource Some,
     schema_k8sio_api_core_v1_GlusterfsVolumeSource Some,
     schema_k8sio_api_core_v1_HTTPHeader Some, schema_k8sio_api_core_v1_HostAlias Some,
     schema_k8sio_api_core_v1_HostPathVolumeSource Some, schema_k8sio_api_core_v1_KeyToPath Some,
     schema_k8sio_api_core_v1_LoadBalancerIngress Some,
     schema_k8sio_api_core_v1_LocalObjectReference Some,
     schema_k8sio_api_core_v1_LocalVolumeSource Some,
     schema_k8sio_api_core_v1_NFSVolumeSource Some, schema_k8sio_api_core_v1_NamespaceSpec Some,
     schema_k8sio_api_core_v1_NamespaceStatus Some, schema_k8sio_api_core_v1_NodeAddress Some,
     schema_k8sio_api_core_v1_NodeProxyOptions Some,
     schema_k8sio_api_core_v1_NodeSelectorRequirement Some,
     schema_k8sio_api_core_v1_NodeSystemInfo Some,
     schema_k8sio_api_core_v1_ObjectFieldSelector Some,
     schema_k8sio_api_core_v1_ObjectReference Some,
     schema_k8sio_api_core_v1_PersistentVolumeClaimVolumeSource Some,
     schema_k8sio_api_core_v1_PersistentVolumeStatus Some,
     schema_k8sio_api_core_v1_PhotonPersistentDiskVolumeSource Some,
     schema_k8sio_api_core_v1_PodAttachOptions Some,
     schema_k8sio_api_core_v1_PodDNSConfigOption Some,
     schema_k8sio_api_core_v1_PodExecOptions Some,
     schema_k8sio_api_core_v1_PodPortForwardOptions Some,
     schema_k8sio_api_core_v1_PodProxyOptions Some,
     schema_k8sio_api_core_v1_PodReadinessGate Some,
     schema_k8sio_api_core_v1_PortworxVolumeSource Some,
     schema_k8sio_api_core_v1_QuobyteVolumeSource Some,
     schema_k8sio_api_core_v1_SELinuxOptions Some,
     schema_k8sio_api_core_v1_ScopedResourceSelectorRequirement Some,
     schema_k8sio_api_core_v1_SecretEnvSource Some,
     schema_k8sio_api_core_v1_SecretKeySelector Some,
     schema_k8sio_api_core_v1_SecretReference Some,
     schema_k8sio_api_core_v1_ServiceAccountTokenProjection Some,
     schema_k8sio_api_core_v1_ServiceProxyOptions Some, schema_k8sio_api_core_v1_Sysctl Some,
     schema_k8sio_api_core_v1_Toleration Some,
     schema_k8sio_api_core_v1_TopologySelectorLabelRequirement Some,
     schema_k8sio_api_core_v1_TypedLocalObjectReference Some,
     schema_k8sio_api_core_v1_VolumeDevice Some, schema_k8sio_api_core_v1_VolumeMount Some,
     schema_k8sio_api_core_v1_VsphereVirtualDiskVolumeSource Some,
     schema_pkg_apis_meta_v1_APIResource Some, schema_pkg_apis_meta_v1_CreateOptions Some,
     schema_pkg_apis_meta_v1_Duration Some, schema_pkg_apis_meta_v1_ExportOptions Some,
     schema_pkg_apis_meta_v1_GetOptions Some, schema_pkg_apis_meta_v1_GroupKind Some,
     schema_pkg_apis_meta_v1_GroupResource Some, schema_pkg_apis_meta_v1_GroupVersion Some,
     schema_pkg_apis_meta_v1_GroupVersionForDiscovery Some,
     schema_pkg_apis_meta_v1_GroupVersionKind Some,
     schema_pkg_apis_meta_v1_GroupVersionResource Some, schema_pkg_apis_meta_v1_Initializer Some,
     schema_pkg_apis_meta_v1_LabelSelectorRequirement Some,
     schema_pkg_apis_meta_v1_ListMeta Some, schema_pkg_apis_meta_v1_ListOptions Some,
     schema_pkg_apis_meta_v1_MicroTime Some, schema_pkg_apis_meta_v1_OwnerReference Some,
     schema_pkg_apis_meta_v1_Patch Some, schema_pkg_apis_meta_v1_Preconditions Some,
     schema_pkg_apis_meta_v1_RootPaths Some,
     schema_pkg_apis_meta_v1_ServerAddressByClientCIDR Some,
     schema_pkg_apis_meta_v1_StatusCause Some, schema_pkg_apis_meta_v1_Time Some,
     schema_pkg_apis_meta_v1_Timestamp Some, schema_pkg_apis_meta_v1_TypeMeta Some,
     schema_pkg_apis_meta_v1_UpdateOptions Some]"
  by (simp add: resolving
    schema_pkg_apis_jupyter_v1_NotebookStatus_def
     schema_k8sio_api_core_v1_AWSElasticBlockStoreVolumeSource_def
     schema_k8sio_api_core_v1_AttachedVolume_def
     schema_k8sio_api_core_v1_AzureDiskVolumeSource_def
     schema_k8sio_api_core_v1_AzureFilePersistentVolumeSource_def
     schema_k8sio_api_core_v1_AzureFileVolumeSource_def schema_k8sio_api_core_v1_Capabilities_def
     schema_k8sio_api_core_v1_ClientIPConfig_def schema_k8sio_api_core_v1_ComponentCondition_def
     schema_k8sio_api_core_v1_ConfigMapEnvSource_def
     schema_k8sio_api_core_v1_ConfigMapKeySelector_def
     schema_k8sio_api_core_v1_ConfigMapNodeConfigSource_def
     schema_k8sio_api_core_v1_ContainerImage_def schema_k8sio_api_core_v1_ContainerPort_def
     schema_k8sio_api_core_v1_ContainerStateWaiting_def
     schema_k8sio_api_core_v1_DaemonEndpoint_def schema_k8sio_api_core_v1_EndpointPort_def
     schema_k8sio_api_core_v1_EventSource_def schema_k8sio_api_core_v1_ExecAction_def
     schema_k8sio_api_core_v1_FCVolumeSource_def schema_k8sio_api_core_v1_FlockerVolumeSource_def
     schema_k8sio_api_core_v1_GCEPersistentDiskVolumeSource_def
     schema_k8sio_api_core_v1_GitRepoVolumeSource_def
     schema_k8sio_api_core_v1_GlusterfsVolumeSource_def schema_k8sio_api_core_v1_HTTPHeader_def
     schema_k8sio_api_core_v1_HostAlias_def schema_k8sio_api_core_v1_HostPathVolumeSource_def
     schema_k8sio_api_core_v1_KeyToPath_def schema_k8sio_api_core_v1_LoadBalancerIngress_def
     schema_k8sio_api_core_v1_LocalObjectReference_def
     schema_k8sio_api_core_v1_LocalVolumeSource_def schema_k8sio_api_core_v1_NFSVolumeSource_def
     schema_k8sio_api_core_v1_NamespaceSpec_def schema_k8sio_api_core_v1_NamespaceStatus_def
     schema_k8sio_api_core_v1_NodeAddress_def schema_k8sio_api_core_v1_NodeProxyOptions_def
     schema_k8sio_api_core_v1_NodeSelectorRequirement_def
     schema_k8sio_api_core_v1_NodeSystemInfo_def schema_k8sio_api_core_v1_ObjectFieldSelector_def
     schema_k8sio_api_core_v1_ObjectReference_def
     schema_k8sio_api_core_v1_PersistentVolumeClaimVolumeSource_def
     schema_k8sio_api_core_v1_PersistentVolumeStatus_def
     schema_k8sio_api_core_v1_PhotonPersistentDiskVolumeSource_def
     schema_k8sio_api_core_v1_PodAttachOptions_def
     schema_k8sio_api_core_v1_PodDNSConfigOption_def schema_k8sio_api_core_v1_PodExecOptions_def
     schema_k8sio_api_core_v1_PodPortForwardOptions_def
     schema_k8sio_api_core_v1_PodProxyOptions_def schema_k8sio_api_core_v1_PodReadinessGate_def
     schema_k8sio_api_core_v1_PortworxVolumeSource_def
     schema_k8sio_api_core_v1_QuobyteVolumeSource_def schema_k8sio_api_core_v1_SELinuxOptions_def
     schema_k8sio_api_core_v1_ScopedResourceSelectorRequirement_def
     schema_k8sio_api_core_v1_SecretEnvSource_def schema_k8sio_api_core_v1_SecretKeySelector_def
     schema_k8sio_api_core_v1_SecretReference_def
     schema_k8sio_api_core_v1_ServiceAccountTokenProjection_def
     schema_k8sio_api_core_v1_ServiceProxyOptions_def schema_k8sio_api_core_v1_Sysctl_def
     schema_k8sio_api_core_v1_Toleration_def
     schema_k8sio_api_core_v1_TopologySelectorLabelRequirement_def
     schema_k8sio_api_core_v1_TypedLocalObjectReference_def
     schema_k8sio_api_core_v1_VolumeDevice_def schema_k8sio_api_core_v1_VolumeMount_def
     schema_k8sio_api_core_v1_VsphereVirtualDiskVolumeSource_def
     schema_pkg_apis_meta_v1_APIResource_def schema_pkg_apis_meta_v1_CreateOptions_def
     schema_pkg_apis_meta_v1_Duration_def schema_pkg_apis_meta_v1_ExportOptions_def
     schema_pkg_apis_meta_v1_GetOptions_def schema_pkg_apis_meta_v1_GroupKind_def
     schema_pkg_apis_meta_v1_GroupResource_def schema_pkg_apis_meta_v1_GroupVersion_def
     schema_pkg_apis_meta_v1_GroupVersionForDiscovery_def
     schema_pkg_apis_meta_v1_GroupVersionKind_def
     schema_pkg_apis_meta_v1_GroupVersionResource_def schema_pkg_apis_meta_v1_Initializer_def
     schema_pkg_apis_meta_v1_LabelSelectorRequirement_def schema_pkg_apis_meta_v1_ListMeta_def
     schema_pkg_apis_meta_v1_ListOptions_def schema_pkg_apis_meta_v1_MicroTime_def
     schema_pkg_apis_meta_v1_OwnerReference_def schema_pkg_apis_meta_v1_Patch_def
     schema_pkg_apis_meta_v1_Preconditions_def schema_pkg_apis_meta_v1_RootPaths_def
     schema_pkg_apis_meta_v1_ServerAddressByClientCIDR_def
     schema_pkg_apis_meta_v1_StatusCause_def schema_pkg_apis_meta_v1_Time_def
     schema_pkg_apis_meta_v1_Timestamp_def schema_pkg_apis_meta_v1_TypeMeta_def
     schema_pkg_apis_meta_v1_UpdateOptions_def)

lemmas each_resolves_0 = resolves_0 [unfolded list.pred_inject]

lemma resolves_1:
  assumes "1 \<le> n"
  shows "list_all (\<lambda>d. resolves n (DefSchema d))
    [schema_pkg_apis_jupyter_v1_NotebookSpec Some,
     schema_k8sio_api_core_v1_CSIPersistentVolumeSource Some,
     schema_k8sio_api_core_v1_CephFSPersistentVolumeSource Some,
     schema_k8sio_api_core_v1_CephFSVolumeSource Some,
     schema_k8sio_api_core_v1_CinderPersistentVolumeSource Some,
     schema_k8sio_api_core_v1_CinderVolumeSource Some,
     schema_k8sio_api_core_v1_ConfigMapProjection Some,
     schema_k8sio_api_core_v1_ConfigMapVolumeSource Some,
     schema_k8sio_api_core_v1_ContainerStateRunning Some,
     schema_k8sio_api_core_v1_ContainerStateTerminated Some,
     schema_k8sio_api_core_v1_EmptyDirVolumeSource Some,
     schema_k8sio_api_core_v1_EndpointAddress Some, schema_k8sio_api_core_v1_EnvFromSource Some,
     schema_k8sio_api_core_v1_EventSeries Some,
     schema_k8sio_api_core_v1_FlexPersistentVolumeSource Some,
     schema_k8sio_api_core_v1_FlexVolumeSource Some, schema_k8sio_api_core_v1_HTTPGetAction Some,
     schema_k8sio_api_core_v1_ISCSIPersistentVolumeSource Some,
     schema_k8sio_api_core_v1_ISCSIVolumeSource Some,
     schema_k8sio_api_core_v1_LimitRangeItem Some, schema_k8sio_api_core_v1_List Some,
     schema_k8sio_api_core_v1_LoadBalancerStatus Some,
     schema_k8sio_api_core_v1_NodeCondition Some, schema_k8sio_api_core_v1_NodeConfigSource Some,
     schema_k8sio_api_core_v1_NodeDaemonEndpoints Some,
     schema_k8sio_api_core_v1_NodeResources Some, schema_k8sio_api_core_v1_NodeSelectorTerm Some,
     schema_k8sio_api_core_v1_PersistentVolumeClaimCondition Some,
     schema_k8sio_api_core_v1_PodCondition Some, schema_k8sio_api_core_v1_PodDNSConfig Some,
     schema_k8sio_api_core_v1_PodLogOptions Some,
     schema_k8sio_api_core_v1_PodSecurityContext Some,
     schema_k8sio_api_core_v1_PodSignature Some,
     schema_k8sio_api_core_v1_RBDPersistentVolumeSource Some,
     schema_k8sio_api_core_v1_RBDVolumeSource Some,
     schema_k8sio_api_core_v1_ReplicationControllerCondition Some,
     schema_k8sio_api_core_v1_ResourceFieldSelector Some,
     schema_k8sio_api_core_v1_ResourceQuotaStatus Some,
     schema_k8sio_api_core_v1_ResourceRequirements Some,
     schema_k8sio_api_core_v1_ScaleIOPersistentVolumeSource Some,
     schema_k8sio_api_core_v1_ScaleIOVolumeSource Some,
     schema_k8sio_api_core_v1_ScopeSelector Some, schema_k8sio_api_core_v1_SecretProjection Some,
     schema_k8sio_api_core_v1_SecretVolumeSource Some,
     schema_k8sio_api_core_v1_SecurityContext Some,
     schema_k8sio_api_core_v1_SerializedReference Some,
     schema_k8sio_api_core_v1_ServicePort Some,
     schema_k8sio_api_core_v1_SessionAffinityConfig Some,
     schema_k8sio_api_core_v1_StorageOSPersistentVolumeSource Some,
     schema_k8sio_api_core_v1_StorageOSVolumeSource Some,
     schema_k8sio_api_core_v1_TCPSocketAction Some, schema_k8sio_api_core_v1_Taint Some,
     schema_k8sio_api_core_v1_TopologySelectorTerm Some, schema_pkg_apis_meta_v1_APIGroup Some,
     schema_pkg_apis_meta_v1_APIResourceList Some, schema_pkg_apis_meta_v1_APIVersions Some,
     schema_pkg_apis_meta_v1_DeleteOptions Some, schema_pkg_apis_meta_v1_InternalEvent Some,
     schema_pkg_apis_meta_v1_LabelSelector Some, schema_pkg_apis_meta_v1_List Some,
     schema_pkg_apis_meta_v1_StatusDetails Some, schema_pkg_apis_meta_v1_WatchEvent Some]"
  using assms by (cases n) (simp_all add: resolving_known each_resolves_0
    schema_pkg_apis_jupyter_v1_NotebookSpec_def
     schema_k8sio_api_core_v1_CSIPersistentVolumeSource_def
     schema_k8sio_api_core_v1_CephFSPersistentVolumeSource_def
     schema_k8sio_api_core_v1_CephFSVolumeSource_def
     schema_k8sio_api_core_v1_CinderPersistentVolumeSource_def
     schema_k8sio_api_core_v1_CinderVolumeSource_def
     schema_k8sio_api_core_v1_ConfigMapProjection_def
     schema_k8sio_api_core_v1_ConfigMapVolumeSource_def
     schema_k8sio_api_core_v1_ContainerStateRunning_def
     schema_k8sio_api_core_v1_ContainerStateTerminated_def
     schema_k8sio_api_core_v1_EmptyDirVolumeSource_def
     schema_k8sio_api_core_v1_EndpointAddress_def schema_k8sio_api_core_v1_EnvFromSource_def
     schema_k8sio_api_core_v1_EventSeries_def
     schema_k8sio_api_core_v1_FlexPersistentVolumeSource_def
     schema_k8sio_api_core_v1_FlexVolumeSource_def schema_k8sio_api_core_v1_HTTPGetAction_def
     schema_k8sio_api_core_v1_ISCSIPersistentVolumeSource_def
     schema_k8sio_api_core_v1_ISCSIVolumeSource_def schema_k8sio_api_core_v1_LimitRangeItem_def
     schema_k8sio_api_core_v1_List_def schema_k8sio_api_core_v1_LoadBalancerStatus_def
     schema_k8sio_api_core_v1_NodeCondition_def schema_k8sio_api_core_v1_NodeConfigSource_def
     schema_k8sio_api_core_v1_NodeDaemonEndpoints_def schema_k8sio_api_core_v1_NodeResources_def
     schema_k8sio_api_core_v1_NodeSelectorTerm_def
     schema_k8sio_api_core_v1_PersistentVolumeClaimCondition_def
     schema_k8sio_api_core_v1_PodCondition_def schema_k8sio_api_core_v1_PodDNSConfig_def
     schema_k8sio_api_core_v1_PodLogOptions_def schema_k8sio_api_core_v1_PodSecurityContext_def
     schema_k8sio_api_core_v1_PodSignature_def
     schema_k8sio_api_core_v1_RBDPersistentVolumeSource_def
     schema_k8sio_api_core_v1_RBDVolumeSource_def
     schema_k8sio_api_core_v1_ReplicationControllerCondition_def
     schema_k8sio_api_core_v1_ResourceFieldSelector_def
     schema_k8sio_api_core_v1_ResourceQuotaStatus_def
     schema_k8sio_api_core_v1_ResourceRequirements_def
     schema_k8sio_api_core_v1_ScaleIOPersistentVolumeSource_def
     schema_k8sio_api_core_v1_ScaleIOVolumeSource_def schema_k8sio_api_core_v1_ScopeSelector_def
     schema_k8sio_api_core_v1_SecretProjection_def
     schema_k8sio_api_core_v1_SecretVolumeSource_def schema_k8sio_api_core_v1_SecurityContext_def
     schema_k8sio_api_core_v1_SerializedReference_def schema_k8sio_api_core_v1_ServicePort_def
     schema_k8sio_api_core_v1_SessionAffinityConfig_def
     schema_k8sio_api_core_v1_StorageOSPersistentVolumeSource_def
     schema_k8sio_api_core_v1_StorageOSVolumeSource_def
     schema_k8sio_api_core_v1_TCPSocketAction_def schema_k8sio_api_core_v1_Taint_def
     schema_k8sio_api_core_v1_TopologySelectorTerm_def schema_pkg_apis_meta_v1_APIGroup_def
     schema_pkg_apis_meta_v1_APIResourceList_def schema_pkg_apis_meta_v1_APIVersions_def
     schema_pkg_apis_meta_v1_DeleteOptions_def schema_pkg_apis_meta_v1_InternalEvent_def
     schema_pkg_apis_meta_v1_LabelSelector_def schema_pkg_apis_meta_v1_List_def
     schema_pkg_apis_meta_v1_StatusDetails_def schema_pkg_apis_meta_v1_WatchEvent_def)

lemmas each_resolves_1 = resolves_1 [unfolded list.pred_inject]

lemma resolves_2:
  assumes "2 \<le> n"
  shows "list_all (\<lambda>d. resolves n (DefSchema d))
    [schema_pkg_apis_jupyter_v1_Notebook Some, schema_k8sio_api_core_v1_ContainerState Some,
     schema_k8sio_api_core_v1_DownwardAPIVolumeFile Some,
     schema_k8sio_api_core_v1_EndpointSubset Some, schema_k8sio_api_core_v1_EnvVarSource Some,
     schema_k8sio_api_core_v1_Handler Some, schema_k8sio_api_core_v1_LimitRangeSpec Some,
     schema_k8sio_api_core_v1_NodeConfigStatus Some, schema_k8sio_api_core_v1_NodeSelector Some,
     schema_k8sio_api_core_v1_NodeSpec Some,
     schema_k8sio_api_core_v1_PersistentVolumeClaimSpec Some,
     schema_k8sio_api_core_v1_PersistentVolumeClaimStatus Some,
     schema_k8sio_api_core_v1_PersistentVolumeSource Some,
     schema_k8sio_api_core_v1_PodAffinityTerm Some,
     schema_k8sio_api_core_v1_PreferAvoidPodsEntry Some,
     schema_k8sio_api_core_v1_PreferredSchedulingTerm Some, schema_k8sio_api_core_v1_Probe Some,
     schema_k8sio_api_core_v1_ReplicationControllerStatus Some,
     schema_k8sio_api_core_v1_ResourceQuotaSpec Some, schema_k8sio_api_core_v1_ServiceSpec Some,
     schema_k8sio_api_core_v1_ServiceStatus Some, schema_pkg_apis_meta_v1_APIGroupList Some,
     schema_pkg_apis_meta_v1_Status Some]"
  using assms by (cases n) (simp_all add: resolving_known each_resolves_0 each_resolves_1
    schema_pkg_apis_jupyter_v1_Notebook_def schema_k8sio_api_core_v1_ContainerState_def
     schema_k8sio_api_core_v1_DownwardAPIVolumeFile_def
     schema_k8sio_api_core_v1_EndpointSubset_def schema_k8sio_api_core_v1_EnvVarSource_def
     schema_k8sio_api_core_v1_Handler_def schema_k8sio_api_core_v1_LimitRangeSpec_def
     schema_k8sio_api_core_v1_NodeConfigStatus_def schema_k8sio_api_core_v1_NodeSelector_def
     schema_k8sio_api_core_v1_NodeSpec_def schema_k8sio_api_core_v1_PersistentVolumeClaimSpec_def
     schema_k8sio_api_core_v1_PersistentVolumeClaimStatus_def
     schema_k8sio_api_core_v1_PersistentVolumeSource_def
     schema_k8sio_api_core_v1_PodAffinityTerm_def
     schema_k8sio_api_core_v1_PreferAvoidPodsEntry_def
     schema_k8sio_api_core_v1_PreferredSchedulingTerm_def schema_k8sio_api_core_v1_Probe_def
     schema_k8sio_api_core_v1_ReplicationControllerStatus_def
     schema_k8sio_api_core_v1_ResourceQuotaSpec_def schema_k8sio_api_core_v1_ServiceSpec_def
     schema_k8sio_api_core_v1_ServiceStatus_def schema_pkg_apis_meta_v1_APIGroupList_def
     schema_pkg_apis_meta_v1_Status_def)

lemmas each_resolves_2 = resolves_2 [unfolded list.pred_inject]

lemma resolves_3:
  assumes "3 \<le> n"
  shows "list_all (\<lambda>d. resolves n (DefSchema d))
    [schema_k8sio_api_core_v1_AvoidPods Some, schema_k8sio_api_core_v1_ContainerStatus Some,
     schema_k8sio_api_core_v1_DownwardAPIProjection Some,
     schema_k8sio_api_core_v1_DownwardAPIVolumeSource Some, schema_k8sio_api_core_v1_EnvVar Some,
     schema_k8sio_api_core_v1_Lifecycle Some, schema_k8sio_api_core_v1_NodeAffinity Some,
     schema_k8sio_api_core_v1_NodeStatus Some, schema_k8sio_api_core_v1_VolumeNodeAffinity Some,
     schema_k8sio_api_core_v1_WeightedPodAffinityTerm Some,
     schema_pkg_apis_meta_v1_Initializers Some]"
  using assms by (cases n) (simp_all add: resolving_known each_resolves_0 each_resolves_1 each_resolves_2
    schema_k8sio_api_core_v1_AvoidPods_def schema_k8sio_api_core_v1_ContainerStatus_def
     schema_k8sio_api_core_v1_DownwardAPIProjection_def
     schema_k8sio_api_core_v1_DownwardAPIVolumeSource_def schema_k8sio_api_core_v1_EnvVar_def
     schema_k8sio_api_core_v1_Lifecycle_def schema_k8sio_api_core_v1_NodeAffinity_def
     schema_k8sio_api_core_v1_NodeStatus_def schema_k8sio_api_core_v1_VolumeNodeAffinity_def
     schema_k8sio_api_core_v1_WeightedPodAffinityTerm_def
     schema_pkg_apis_meta_v1_Initializers_def)

lemmas each_resolves_3 = resolves_3 [unfolded list.pred_inject]

lemma resolves_4:
  assumes "4 \<le> n"
  shows "list_all (\<lambda>d. resolves n (DefSchema d))
    [schema_k8sio_api_core_v1_Container Some, schema_k8sio_api_core_v1_PersistentVolumeSpec Some,
     schema_k8sio_api_core_v1_PodAffinity Some, schema_k8sio_api_core_v1_PodAntiAffinity Some,
     schema_k8sio_api_core_v1_PodStatus Some, schema_k8sio_api_core_v1_VolumeProjection Some,
     schema_pkg_apis_meta_v1_ObjectMeta Some]"
  using assms by (cases n) (simp_all add: resolving_known each_resolves_0 each_resolves_1 each_resolves_2 each_resolves_3
    schema_k8sio_api_core_v1_Container_def moreContainerProperties_def schema_k8sio_api_core_v1_PersistentVolumeSpec_def morePersistentVolumeSpecProperties_def
     schema_k8sio_api_core_v1_PodAffinity_def schema_k8sio_api_core_v1_PodAntiAffinity_def
     schema_k8sio_api_core_v1_PodStatus_def schema_k8sio_api_core_v1_VolumeProjection_def
     schema_pkg_apis_meta_v1_ObjectMeta_def)

lemmas each_resolves_4 = resolves_4 [unfolded list.pred_inject]

lemma resolves_5:
  assumes "5 \<le> n"
  shows "list_all (\<lambda>d. resolves n (DefSchema d))
    [schema_k8sio_api_core_v1_Affinity Some, schema_k8sio_api_core_v1_Binding Some,
     schema_k8sio_api_core_v1_ComponentStatus Some, schema_k8sio_api_core_v1_ConfigMap Some,
     schema_k8sio_api_core_v1_Endpoints Some, schema_k8sio_api_core_v1_Event Some,
     schema_k8sio_api_core_v1_LimitRange Some, schema_k8sio_api_core_v1_Namespace Some,
     schema_k8sio_api_core_v1_Node Some, schema_k8sio_api_core_v1_PersistentVolume Some,
     schema_k8sio_api_core_v1_PersistentVolumeClaim Some,
     schema_k8sio_api_core_v1_PodStatusResult Some,
     schema_k8sio_api_core_v1_ProjectedVolumeSource Some,
     schema_k8sio_api_core_v1_RangeAllocation Some, schema_k8sio_api_core_v1_ResourceQuota Some,
     schema_k8sio_api_core_v1_Secret Some, schema_k8sio_api_core_v1_Service Some,
     schema_k8sio_api_core_v1_ServiceAccount Some]"
  using assms by (cases n) (simp_all add: resolving_known each_resolves_0 each_resolves_1 each_resolves_2 each_resolves_3 each_resolves_4
    schema_k8sio_api_core_v1_Affinity_def schema_k8sio_api_core_v1_Binding_def
     schema_k8sio_api_core_v1_ComponentStatus_def schema_k8sio_api_core_v1_ConfigMap_def
     schema_k8sio_api_core_v1_Endpoints_def schema_k8sio_api_core_v1_Event_def
     schema_k8sio_api_core_v1_LimitRange_def schema_k8sio_api_core_v1_Namespace_def
     schema_k8sio_api_core_v1_Node_def schema_k8sio_api_core_v1_PersistentVolume_def
     schema_k8sio_api_core_v1_PersistentVolumeClaim_def
     schema_k8sio_api_core_v1_PodStatusResult_def
     schema_k8sio_api_core_v1_ProjectedVolumeSource_def
     schema_k8sio_api_core_v1_RangeAllocation_def schema_k8sio_api_core_v1_ResourceQuota_def
     schema_k8sio_api_core_v1_Secret_def schema_k8sio_api_core_v1_Service_def
     schema_k8sio_api_core_v1_ServiceAccount_def)

lemmas each_resolves_5 = resolves_5 [unfolded list.pred_inject]

lemma resolves_6:
  assumes "6 \<le> n"
  shows "list_all (\<lambda>d. resolves n (DefSchema d))
    [schema_k8sio_api_core_v1_ComponentStatusList Some,
     schema_k8sio_api_core_v1_ConfigMapList Some, schema_k8sio_api_core_v1_EndpointsList Some,
     schema_k8sio_api_core_v1_EventList Some, schema_k8sio_api_core_v1_LimitRangeList Some,
     schema_k8sio_api_core_v1_NamespaceList Some, schema_k8sio_api_core_v1_NodeList Some,
     schema_k8sio_api_core_v1_PersistentVolumeClaimList Some,
     schema_k8sio_api_core_v1_PersistentVolumeList Some,
     schema_k8sio_api_core_v1_ResourceQuotaList Some, schema_k8sio_api_core_v1_SecretList Some,
     schema_k8sio_api_core_v1_ServiceAccountList Some, schema_k8sio_api_core_v1_ServiceList Some,
     schema_k8sio_api_core_v1_Volume Some, schema_k8sio_api_core_v1_VolumeSource Some]"
  using assms by (cases n) (simp_all add: resolving_known each_resolves_0 each_resolves_1 each_resolves_2 each_resolves_3 each_resolves_4 each_resolves_5
    schema_k8sio_api_core_v1_ComponentStatusList_def schema_k8sio_api_core_v1_ConfigMapList_def
     schema_k8sio_api_core_v1_EndpointsList_def schema_k8sio_api_core_v1_EventList_def
     schema_k8sio_api_core_v1_LimitRangeList_def schema_k8sio_api_core_v1_NamespaceList_def
     schema_k8sio_api_core_v1_NodeList_def schema_k8sio_api_core_v1_PersistentVolumeClaimList_def
     schema_k8sio_api_core_v1_PersistentVolumeList_def
     schema_k8sio_api_core_v1_ResourceQuotaList_def schema_k8sio_api_core_v1_SecretList_def
     schema_k8sio_api_core_v1_ServiceAccountList_def schema_k8sio_api_core_v1_ServiceList_def
     schema_k8sio_api_core_v1_Volume_def moreVolumeProperties_def schema_k8sio_api_core_v1_VolumeSource_def moreVolumeSourceProperties_def)

lemmas each_resolves_6 = resolves_6 [unfolded list.pred_inject]

lemma resolves_7:
  assumes "7 \<le> n"
  shows "list_all (\<lambda>d. resolves n (DefSchema d))
    [schema_k8sio_api_core_v1_PodSpec Some]"
  using assms by (cases n) (simp_all add: resolving_known each_resolves_0 each_resolves_1 each_resolves_2 each_resolves_3 each_resolves_4 each_resolves_5 each_resolves_6
    schema_k8sio_api_core_v1_PodSpec_def morePodSpecProperties_def)

lemmas each_resolves_7 = resolves_7 [unfolded list.pred_inject]

lemma resolves_8:
  assumes "8 \<le> n"
  shows "list_all (\<lambda>d. resolves n (DefSchema d))
    [schema_k8sio_api_core_v1_Pod Some, schema_k8sio_api_core_v1_PodTemplateSpec Some]"
  using assms by (cases n) (simp_all add: resolving_known each_resolves_0 each_resolves_1 each_resolves_2 each_resolves_3 each_resolves_4 each_resolves_5 each_resolves_6 each_resolves_7
    schema_k8sio_api_core_v1_Pod_def schema_k8sio_api_core_v1_PodTemplateSpec_def)

lemmas each_resolves_8 = resolves_8 [unfolded list.pred_inject]

lemma resolves_9:
  assumes "9 \<le> n"
  shows "list_all (\<lambda>d. resolves n (DefSchema d))
    [schema_k8sio_api_core_v1_PodList Some, schema_k8sio_api_core_v1_PodTemplate Some,
     schema_k8sio_api_core_v1_ReplicationControllerSpec Some]"
  using assms by (cases n) (simp_all add: resolving_known each_resolves_0 each_resolves_1 each_resolves_2 each_resolves_3 each_resolves_4 each_resolves_5 each_resolves_6 each_resolves_7 each_resolves_8
    schema_k8sio_api_core_v1_PodList_def schema_k8sio_api_core_v1_PodTemplate_def
     schema_k8sio_api_core_v1_ReplicationControllerSpec_def)

lemmas each_resolves_9 = resolves_9 [unfolded list.pred_inject]

lemma resolves_10:
  assumes "10 \<le> n"
  shows "list_all (\<lambda>d. resolves n (DefSchema d))
    [schema_k8sio_api_core_v1_PodTemplateList Some,
     schema_k8sio_api_core_v1_ReplicationController Some]"
  using assms by (cases n) (simp_all add: resolving_known each_resolves_0 each_resolves_1 each_resolves_2 each_resolves_3 each_resolves_4 each_resolves_5 each_resolves_6 each_resolves_7 each_resolves_8 each_resolves_9
    schema_k8sio_api_core_v1_PodTemplateList_def
     schema_k8sio_api_core_v1_ReplicationController_def)

lemmas each_resolves_10 = resolves_10 [unfolded list.pred_inject]

lemma resolves_11:
  assumes "11 \<le> n"
  shows "list_all (\<lambda>d. resolves n (DefSchema d))
    [schema_k8sio_api_core_v1_ReplicationControllerList Some]"
  using assms by (cases n) (simp_all add: resolving_known each_resolves_0 each_resolves_1 each_resolves_2 each_resolves_3 each_resolves_4 each_resolves_5 each_resolves_6 each_resolves_7 each_resolves_8 each_resolves_9 each_resolves_10
    schema_k8sio_api_core_v1_ReplicationControllerList_def)

lemmas each_resolves_11 = resolves_11 [unfolded list.pred_inject]

section \<open>All of them\<close>

lemma all_resolve: "list_all (\<lambda>d. resolves 11 (DefSchema d)) (map snd (GetOpenAPIDefinitions Some))"
  by (simp only: definitions_listed list.map snd_conv list.pred_inject simp_thms
      each_resolves_0, simp add: each_resolves_1 each_resolves_2 each_resolves_3 each_resolves_4
      each_resolves_5 each_resolves_6 each_resolves_7 each_resolves_8 each_resolves_9
      each_resolves_10 each_resolves_11)

text \<open>C30: Every definition of the generated table converts to a custom resource schema: following
  its references ends, after at most eleven of them, and leaves none in the result.\<close>

theorem definitions_convert:
  "list_all
     (\<lambda>(name, d). \<exists>j. SchemaPropsToJSONProps
          (fixKnownTypes (GetOpenAPIDefinitions OpenAPIRefCallBack)) True 11 (DefSchema d) = Some j
        \<and> refFree j)
     (GetOpenAPIDefinitions OpenAPIRefCallBack)"
  using all_resolve toJSON_refFree(1)
  by (fastforce simp: list_all_iff resolves_def openapiSpec_def OpenAPIRefCallBack_Some)

text \<open>C31: The generated table is well formed: no name occurs twice, every schema is a reference or
  has one JSON type with the parts of that type, an object requires only properties it has, and
  a definition declares exactly the names its schema refers to as its dependencies.\<close>

theorem definitions_well_formed:
  "distinct (map fst (GetOpenAPIDefinitions OpenAPIRefCallBack))
   \<and> list_all (\<lambda>(name, d). wfSchema (DefSchema d)
        \<and> set (DefDependencies d) = set (schemaRefs (DefSchema d)))
       (GetOpenAPIDefinitions OpenAPIRefCallBack)"
  using definitions_wf distinct_types
  by (auto simp: list_all_iff wfDefinition_def OpenAPIRefCallBack_Some map_fst_definitions)

end
