(* ===== verification/Startup.thy ===== *)
theory Startup
  imports OpenAPI_Resolve Handlers Worker
begin

text \<open>
  Starting the operator (pkg/controller/controller.go): the custom resource definition it
  registers, the two polls that wait until the API server has taken and established it, the
  informers and the wait for their caches, the handlers and the workers. The API server of
  custom resource definitions is a parameter that answers from a state of its own. A poll is
  driven by what it receives from its ticker's channel, true for a tick and false once the
  channel is closed.
\<close>

section \<open>Polling\<close>

definition ErrWaitTimeout :: go_error where
  "ErrWaitTimeout = PlainError ''timed out waiting for the condition''"

text \<open>
  A condition may not return, and then neither does its poll; a poll also stays without a result
  when nothing more is received.
\<close>

type_synonym 'w ConditionFunc = "'w \<Rightarrow> ((go_error + bool) \<times> 'w) option"

primrec WaitFor ::
  "bool list \<Rightarrow> 'w ConditionFunc \<Rightarrow> 'w \<Rightarrow> (go_error option \<times> 'w) option" where
  "WaitFor [] fn w = None"
| "WaitFor (open # c) fn w =
     (case fn w of
        None \<Rightarrow> None
      | Some (Inl err, w') \<Rightarrow> Some (Some err, w')
      | Some (Inr ok, w') \<Rightarrow>
          if ok then Some (None, w')
          else if \<not> open then Some (Some ErrWaitTimeout, w')
          else WaitFor c fn w')"

text \<open>
  What poller sends: a tick per interval until done is closed, less those that came while the
  reader was busy, then the closing of the channel.
\<close>

definition poller :: "nat \<Rightarrow> nat \<Rightarrow> nat \<Rightarrow> bool list" where
  "poller interval doneAt missed = replicate (doneAt div interval - missed) True @ [False]"

definition PollUntil ::
  "nat \<Rightarrow> 'w ConditionFunc \<Rightarrow> nat \<Rightarrow> nat \<Rightarrow> 'w \<Rightarrow> (go_error option \<times> 'w) option" where
  "PollUntil interval fn stopAt missed w = WaitFor (poller interval stopAt missed) fn w"

text \<open>When the channel of stopableTimer closes: at its time, or when stop closes before that.\<close>

definition stopableTimer :: "nat \<Rightarrow> nat option \<Rightarrow> nat" where
  "stopableTimer d stop = (case stop of None \<Rightarrow> d | Some t \<Rightarrow> min d t)"

definition Millisecond :: nat where
  "Millisecond = 1000000"

section \<open>The custom resource definition\<close>

definition crdFuel :: nat where
  "crdFuel = 11"

definition notebookCrdConfig :: CrdConfig where
  "notebookCrdConfig =
     \<lparr>SpecDefinitionName = Some (JupyterV1 ''Notebook''), EnableValidation = True,
      cfgLabels = [], cfgAnnotations = [], ResourceScope = ''Namespaced'',
      cfgGroup = GroupName, cfgKind = NotebookKind, cfgVersion = gv_Version SchemeGroupVersion,
      cfgPlural = NotebookPlural, SpecReplicasPath = '''', StatusReplicasPath = '''',
      LabelSelectorPath = '''', cfgCategories = [], cfgShortNames = NotebookShortNames,
      cfgGetOpenAPIDefinitions = GetOpenAPIDefinitions\<rparr>"

definition notebookCRD :: "CustomResourceDefinition option" where
  "notebookCRD = map_option (\<lambda>crd. crd\<lparr>crdScaleSubresource := None\<rparr>)
     (NewCustomResourceDefinition crdFuel notebookCrdConfig)"

record CRDCondition =
  cond_Type :: string
  cond_Status :: string
  cond_Reason :: string

record 'w crd_api =
  CreateCRD :: "CustomResourceDefinition \<Rightarrow> 'w \<Rightarrow> go_error option \<times> 'w"
  GetCRD :: "string \<Rightarrow> 'w \<Rightarrow> (go_error + CRDCondition list) \<times> 'w"

definition createCRD :: "'w crd_api \<Rightarrow> 'w \<Rightarrow> (go_error option \<times> 'w) option" where
  "createCRD api w =
     map_option
       (\<lambda>crd. case CreateCRD api crd w of
          (None, w') \<Rightarrow> (None, w')
        | (Some err, w') \<Rightarrow>
            if IsAlreadyExists (Some err) then (None, w')
            else (Some (wrapErr ''failed to create CRD'' err), w'))
       notebookCRD"

definition crdCreated :: "'w crd_api \<Rightarrow> 'w ConditionFunc" where
  "crdCreated api w =
     map_option (\<lambda>(err, w'). if err \<noteq> None then (Inr False, w') else (Inr True, w'))
       (createCRD api w)"

text \<open>The loop over the conditions; NamesAccepted being false is only logged.\<close>

primrec established :: "CRDCondition list \<Rightarrow> bool" where
  "established [] = False"
| "established (cond # conds) =
     (if cond_Type cond = ''Established'' \<and> cond_Status cond = ''True'' then True
      else established conds)"

definition crdEstablished :: "'w crd_api \<Rightarrow> 'w ConditionFunc" where
  "crdEstablished api w =
     (case GetCRD api NotebookName w of
        (Inl err, w') \<Rightarrow> Some (Inr False, w')
      | (Inr conds, w') \<Rightarrow> Some (Inr (established conds), w'))"

text \<open>
  When stop closes, counted from the start of each poll, and how many ticks the poll misses.
\<close>

record clock =
  stopCreate :: "nat option"
  missCreate :: nat
  stopEstablish :: "nat option"
  missEstablish :: nat

definition initCRD :: "'w crd_api \<Rightarrow> clock \<Rightarrow> 'w \<Rightarrow> (go_error option \<times> 'w) option" where
  "initCRD api clk w =
     (case PollUntil (500 * Millisecond) (crdCreated api)
             (stopableTimer (60 * Second) (stopCreate clk)) (missCreate clk) w of
        None \<Rightarrow> None
      | Some (Some err, w1) \<Rightarrow> Some (Some (wrapErr ''failed creating CRD'' err), w1)
      | Some (None, w1) \<Rightarrow>
          (case PollUntil (500 * Millisecond) (crdEstablished api)
                  (stopableTimer (60 * Second) (stopEstablish clk)) (missEstablish clk) w1 of
             None \<Rightarrow> None
           | Some (Some err, w2) \<Rightarrow>
               Some (Some (wrapErr ''failed waiting for CRD to be created'' err), w2)
           | Some (None, w2) \<Rightarrow> Some (None, w2)))"

section \<open>The controller\<close>

record informer_desc =
  inf_Kind :: kind
  inf_Namespace :: string
  inf_Resync :: nat
  inf_Indexers :: "string list"

text \<open>A lister reads the store of an informer, so it is given by the informer it was made from.\<close>

record 'k Controller =
  ctl_Config :: "'k Config"
  ctl_queue :: rlq
  ctl_informers :: "(kind \<times> informer_desc) list"
  ctl_notebookLister :: informer_desc
  ctl_ingressLister :: informer_desc
  ctl_statefulSetLister :: informer_desc
  ctl_secretLister :: informer_desc
  ctl_serviceLister :: informer_desc

definition newInformer :: "kind \<Rightarrow> string \<Rightarrow> informer_desc" where
  "newInformer k namespace =
     \<lparr>inf_Kind = k, inf_Namespace = namespace, inf_Resync = resyncPeriod,
      inf_Indexers = [''namespace'']\<rparr>"

definition NewController :: "'k Config \<Rightarrow> 'k Controller" where
  "NewController cfg =
     (let notebook = newInformer KNotebook (cfg_Namespace cfg);
          statefulSet = newInformer KStatefulSet (cfg_Namespace cfg);
          secret = newInformer KSecret (cfg_Namespace cfg);
          service = newInformer KService (cfg_Namespace cfg);
          ingress = newInformer KIngress (cfg_Namespace cfg)
      in \<lparr>ctl_Config = cfg,
          ctl_queue = NewNamedRateLimitingQueue DefaultControllerRateLimiter,
          ctl_informers = [(KNotebook, notebook), (KStatefulSet, statefulSet), (KSecret, secret),
                           (KService, service), (KIngress, ingress)],
          ctl_notebookLister = notebook, ctl_ingressLister = ingress,
          ctl_statefulSetLister = statefulSet, ctl_secretLister = secret,
          ctl_serviceLister = service\<rparr>)"

text \<open>
  What Run does, in order. Go iterates over a map in an order of its own each time, so the three
  loops over the informers take theirs as arguments; a cache syncs, or stop closes first.
\<close>

datatype run_event =
    StartInformer kind
  | CacheSync kind bool
  | AddHandlers kind
  | StartWorker
  | AwaitStop
  | ShutDownEvent

record run_env =
  order_start :: "kind list"
  order_wait :: "kind list"
  order_handlers :: "kind list"
  cacheSynced :: "kind \<Rightarrow> bool"

primrec waitCaches :: "(kind \<Rightarrow> bool) \<Rightarrow> kind list \<Rightarrow> bool \<Rightarrow> run_event list \<times> bool" where
  "waitCaches synced [] ok = ([], ok)"
| "waitCaches synced (it # its) ok =
     (let (evs, ok') = waitCaches synced its (if synced it then ok else False)
      in (CacheSync it (synced it) # evs, ok'))"

definition wait :: "(kind \<Rightarrow> bool) \<Rightarrow> kind list \<Rightarrow> run_event list \<times> go_error option" where
  "wait synced its =
     (let (evs, ok) = waitCaches synced its True
      in (evs, if \<not> ok then Some (PlainError ''failed to sync caches'') else None))"

definition Run ::
  "'w crd_api \<Rightarrow> clock \<Rightarrow> run_env \<Rightarrow> nat \<Rightarrow> 'w \<Rightarrow> (run_event list \<times> go_error option \<times> 'w) option" where
  "Run api clk env n w =
     (case initCRD api clk w of
        None \<Rightarrow> None
      | Some (Some err, w') \<Rightarrow>
          Some ([ShutDownEvent], Some (wrapErr ''failed to initialize CRD'' err), w')
      | Some (None, w') \<Rightarrow>
          (let started = map StartInformer (order_start env);
               (waited, err) = wait (cacheSynced env) (order_wait env)
           in case err of
                Some e \<Rightarrow>
                  Some (started @ waited @ [ShutDownEvent],
                        Some (wrapErr ''failed to start controller'' e), w')
              | None \<Rightarrow>
                  Some (started @ waited @ map AddHandlers (order_handlers env)
                          @ replicate n StartWorker @ [AwaitStop, ShutDownEvent], None, w')))"

section \<open>What a poll's result means\<close>

lemma WaitFor_ok:
  "WaitFor c fn w = Some (None, w') \<Longrightarrow> \<exists>w0. fn w0 = Some (Inr True, w')"
  by (induction c arbitrary: w)
    (auto split: option.splits sum.splits if_splits)

lemma WaitFor_err:
  "WaitFor c fn w = Some (Some err, w') \<Longrightarrow>
     err = ErrWaitTimeout \<or> (\<exists>w0. fn w0 = Some (Inl err, w'))"
  by (induction c arbitrary: w)
    (auto split: option.splits sum.splits if_splits)

text \<open>
  A poll whose condition always returns does so itself, and it calls the condition once more than
  it receives ticks, at most; \<open>keeps\<close> is what the condition keeps besides counting.
\<close>

lemma WaitFor_returns:
  assumes "\<And>w. keeps w \<Longrightarrow> \<exists>r w'. fn w = Some (r, w') \<and> keeps w' \<and> calls w' = Suc (calls w)"
    and "keeps w"
  shows "\<exists>e w'. WaitFor (replicate k True @ [False]) fn w = Some (e, w') \<and> keeps w'
     \<and> calls w < calls w' \<and> calls w' \<le> calls w + Suc k"
  using assms(2)
proof (induction k arbitrary: w)
  case 0
  from assms(1) [OF 0] obtain r w' where "fn w = Some (r, w')" "keeps w'" "calls w' = Suc (calls w)"
    by blast
  then show ?case by (cases r) auto
next
  case (Suc k)
  from assms(1) [OF Suc.prems] obtain r w' where w': "fn w = Some (r, w')" "keeps w'"
    "calls w' = Suc (calls w)" by blast
  show ?case
  proof (cases "r = Inr False")
    case True
    from Suc.IH [OF w'(2)] w' True show ?thesis by fastforce
  next
    case False
    with w' show ?thesis by (cases r) auto
  qed
qed

section \<open>The definition that is registered\<close>

lemma notebookSchema_lookup:
  "schemaAt openapiSpec (JupyterV1 ''Notebook'') =
     DefSchema (schema_pkg_apis_jupyter_v1_Notebook Some)"
  "schemaAt openapiSpec (JupyterV1 ''NotebookSpec'') =
     DefSchema (schema_pkg_apis_jupyter_v1_NotebookSpec Some)"
  "schemaAt openapiSpec (JupyterV1 ''NotebookStatus'') =
     DefSchema (schema_pkg_apis_jupyter_v1_NotebookStatus Some)"
  by (simp_all add: lookup_each)

definition jsonPrim :: "string \<Rightarrow> string \<Rightarrow> JSONSchemaProps" where
  "jsonPrim t f = JSONSchemaProps None t f [] None [] []"

text \<open>createCRD registers the definition named as initCRD later asks for it, with the group,
  version and names of the Go API, a status subresource and no scale subresource, validated by
  the schema of Notebook with its references resolved: no field of the notebook itself is
  required, and the ingress backend, whose type has no definition in the table, is not
  constrained at all.\<close>

theorem notebook_crd:
  "notebookCRD = Some
     \<lparr>crdName = NotebookName, crdLabels = [], crdAnnotations = [],
      crdTypeKind = ''CustomResourceDefinition'', crdAPIVersion = ''apiextensions.k8s.io/v1beta1'',
      crdGroup = ''jupyter.squat.ai'', crdVersion = ''v1'', crdScope = ''Namespaced'',
      crdPlural = ''notebooks'', crdKind = ''Notebook'', crdCategories = [],
      crdShortNames = [''nb'', ''notebook''], crdStatusSubresource = True,
      crdScaleSubresource = None,
      crdValidation = Some (JSONSchemaProps None ''object'' '''' [] None []
        [(''kind'', jsonPrim ''string'' ''''), (''apiVersion'', jsonPrim ''string'' ''''),
         (''spec'', JSONSchemaProps None ''object'' '''' [''gpu''] None []
            [(''flavor'', jsonPrim ''string'' ''''), (''gpu'', jsonPrim ''boolean'' ''''),
             (''host'', jsonPrim ''string'' ''''), (''ingress'', jsonPrim '''' ''''),
             (''packages'',
                JSONSchemaProps None ''array'' '''' [] (Some (jsonPrim ''string'' '''')) [] []),
             (''password'', jsonPrim ''string'' ''''),
             (''serviceAccountName'', jsonPrim ''string'' ''''),
             (''tls'', jsonPrim ''string'' '''')]),
         (''status'', JSONSchemaProps None ''object'' '''' [''phase''] None []
            [(''observedGeneration'', jsonPrim ''integer'' ''int64''),
             (''phase'', jsonPrim ''string'' '''')])])\<rparr>"
proof -
  have spec: "fixKnownTypes (GetOpenAPIDefinitions OpenAPIRefCallBack) = openapiSpec"
    by (simp add: openapiSpec_def)
  have fuel: "crdFuel = Suc (Suc (Suc 8))" by (simp add: crdFuel_def)
  show ?thesis
    by (simp add: notebookCRD_def NewCustomResourceDefinition_def notebookCrdConfig_def Let_def
        GetCustomResourceValidation_def spec fuel notebookSchema_lookup
        schema_pkg_apis_jupyter_v1_Notebook_def schema_pkg_apis_jupyter_v1_NotebookSpec_def
        schema_pkg_apis_jupyter_v1_NotebookStatus_def schema_builders lookup_foreign zeroSchema_def
        StringOrArrayToString_def jsonPrim_def NotebookName_def NotebookPlural_def GroupName_def
        NotebookKind_def NotebookShortNames_def SchemeGroupVersion_def)
qed

lemma notebookCRD_Some: "\<exists>crd. notebookCRD = Some crd \<and> crdName crd = NotebookName"
  using notebook_crd by auto

section \<open>Registering it\<close>

text \<open>The same API server, with a count of the requests it has had.\<close>

definition counted :: "'w crd_api \<Rightarrow> ('w \<times> nat \<times> nat) crd_api" where
  "counted api =
     \<lparr>CreateCRD = \<lambda>crd (w, m, n). (case CreateCRD api crd w of (e, w') \<Rightarrow> (e, (w', Suc m, n))),
      GetCRD = \<lambda>name (w, m, n). (case GetCRD api name w of (r, w') \<Rightarrow> (r, (w', m, Suc n)))\<rparr>"

lemma crdCreated_eq:
  assumes "notebookCRD = Some crd" "CreateCRD api crd w = (e, w')"
  shows "crdCreated api w = Some (Inr (e = None \<or> IsAlreadyExists e), w')"
  unfolding crdCreated_def createCRD_def by (subst assms(1), cases e) (simp_all add: assms(2))

lemma crdEstablished_eq:
  assumes "GetCRD api NotebookName w = (r, w')"
  shows "crdEstablished api w =
     Some (Inr (case r of Inl err \<Rightarrow> False | Inr conds \<Rightarrow> established conds), w')"
  using assms by (cases r) (simp_all add: crdEstablished_def)

lemma crdCreated_counted:
  "\<exists>r w'. crdCreated (counted api) (w, m, n) = Some (Inr r, (w', Suc m, n))"
proof -
  obtain crd where crd: "notebookCRD = Some crd" using notebookCRD_Some by blast
  obtain e w' where "CreateCRD api crd w = (e, w')" by (cases "CreateCRD api crd w")
  then have "CreateCRD (counted api) crd (w, m, n) = (e, (w', Suc m, n))" by (simp add: counted_def)
  from crdCreated_eq [OF crd this] show ?thesis by blast
qed

lemma crdEstablished_counted:
  "\<exists>r w'. crdEstablished (counted api) (w, m, n) = Some (Inr r, (w', m, Suc n))"
proof -
  obtain r w' where "GetCRD api NotebookName w = (r, w')" by (cases "GetCRD api NotebookName w")
  then have "GetCRD (counted api) NotebookName (w, m, n) = (r, (w', m, Suc n))"
    by (simp add: counted_def)
  from crdEstablished_eq [OF this] show ?thesis by blast
qed

lemma stopableTimer_le: "stopableTimer d stop \<le> d"
  by (simp add: stopableTimer_def split: option.splits)

lemma ticks_le: "stopableTimer (60 * Second) stop div (500 * Millisecond) - missed \<le> 120"
proof -
  have "stopableTimer (60 * Second) stop div (500 * Millisecond) \<le> 60 * Second div (500 * Millisecond)"
    using stopableTimer_le by (rule div_le_mono)
  then show ?thesis by (simp add: Second_def Millisecond_def)
qed

lemma create_poll:
  "\<exists>e w' m'. PollUntil (500 * Millisecond) (crdCreated (counted api))
      (stopableTimer (60 * Second) stop) missed (w, m, n) = Some (e, (w', m', n))
     \<and> m < m' \<and> m' \<le> m + 121"
proof -
  have "\<exists>r w'. crdCreated (counted api) s = Some (r, w') \<and> snd (snd w') = n
      \<and> fst (snd w') = Suc (fst (snd s))" if "snd (snd s) = n" for s
    using crdCreated_counted [of api "fst s" "fst (snd s)" n] that by (cases s) auto
  from WaitFor_returns [where keeps = "\<lambda>s. snd (snd s) = n" and calls = "\<lambda>s. fst (snd s)", OF this]
    ticks_le [of stop missed]
  show ?thesis by (fastforce simp: PollUntil_def poller_def)
qed

lemma establish_poll:
  "\<exists>e w' n'. PollUntil (500 * Millisecond) (crdEstablished (counted api))
      (stopableTimer (60 * Second) stop) missed (w, m, n) = Some (e, (w', m, n'))
     \<and> n < n' \<and> n' \<le> n + 121"
proof -
  have "\<exists>r w'. crdEstablished (counted api) s = Some (r, w') \<and> fst (snd w') = m
      \<and> snd (snd w') = Suc (snd (snd s))" if "fst (snd s) = m" for s
    using crdEstablished_counted [of api "fst s" m "snd (snd s)"] that by (cases s) auto
  from WaitFor_returns [where keeps = "\<lambda>s. fst (snd s) = m" and calls = "\<lambda>s. snd (snd s)", OF this]
    ticks_le [of stop missed]
  show ?thesis by (fastforce simp: PollUntil_def poller_def)
qed

text \<open>C28: Whatever the API server answers and whenever stop closes, initCRD returns: after at most
  121 requests to create the definition and, when one succeeded, at most 121 to read it.\<close>

theorem initCRD_bounded:
  "\<exists>e w' m n. initCRD (counted api) clk (w, 0, 0) = Some (e, (w', m, n))
     \<and> 0 < m \<and> m \<le> 121 \<and> n \<le> 121"
proof -
  obtain e1 w1 m where c: "PollUntil (500 * Millisecond) (crdCreated (counted api))
      (stopableTimer (60 * Second) (stopCreate clk)) (missCreate clk) (w, 0, 0) = Some (e1, (w1, m, 0))"
    "0 < m" "m \<le> 121"
    using create_poll [of api "stopCreate clk" "missCreate clk" w 0 0] by auto
  obtain e2 w2 n where r: "PollUntil (500 * Millisecond) (crdEstablished (counted api))
      (stopableTimer (60 * Second) (stopEstablish clk)) (missEstablish clk) (w1, m, 0)
        = Some (e2, (w2, m, n))" "n \<le> 121"
    using establish_poll [of api "stopEstablish clk" "missEstablish clk" w1 m 0] by auto
  from c r show ?thesis by (cases e1; cases e2) (auto simp: initCRD_def)
qed

text \<open>C27: When initCRD succeeds, the API server took the definition or already had one of its name,
  and later answered a read of that name with conditions among which Established is True.\<close>

theorem initCRD_established:
  assumes "initCRD api clk w = Some (None, w')"
  shows "(\<exists>w1 crd. notebookCRD = Some crd \<and>
            (fst (CreateCRD api crd w1) = None \<or> IsAlreadyExists (fst (CreateCRD api crd w1))))
     \<and> (\<exists>w2 conds. GetCRD api NotebookName w2 = (Inr conds, w')
            \<and> (\<exists>cond \<in> set conds. cond_Type cond = ''Established'' \<and> cond_Status cond = ''True''))"
proof -
  have established: "established conds \<longleftrightarrow>
      (\<exists>cond \<in> set conds. cond_Type cond = ''Established'' \<and> cond_Status cond = ''True'')" for conds
    by (induction conds) auto
  from assms obtain v where "PollUntil (500 * Millisecond) (crdCreated api)
      (stopableTimer (60 * Second) (stopCreate clk)) (missCreate clk) w = Some (None, v)"
    "PollUntil (500 * Millisecond) (crdEstablished api)
      (stopableTimer (60 * Second) (stopEstablish clk)) (missEstablish clk) v = Some (None, w')"
    by (auto simp: initCRD_def split: option.splits)
  then obtain w1 w2 where *: "crdCreated api w1 = Some (Inr True, v)"
    "crdEstablished api w2 = Some (Inr True, w')"
    using WaitFor_ok unfolding PollUntil_def by metis
  obtain crd where crd: "notebookCRD = Some crd" using notebookCRD_Some by blast
  obtain e v' where "CreateCRD api crd w1 = (e, v')" by (cases "CreateCRD api crd w1")
  with * crdCreated_eq [OF crd this] have "e = None \<or> IsAlreadyExists e"
    "fst (CreateCRD api crd w1) = e" by auto
  moreover obtain r u where get: "GetCRD api NotebookName w2 = (r, u)"
    by (cases "GetCRD api NotebookName w2")
  from * crdEstablished_eq [OF get] obtain conds where "r = Inr conds" "established conds" "u = w'"
    by (cases r) auto
  ultimately show ?thesis using crd get established by blast
qed

section \<open>Running\<close>

lemma waitCaches_result:
  "waitCaches synced its ok =
     (map (\<lambda>it. CacheSync it (synced it)) its, ok \<and> list_all synced its)"
  by (induction its arbitrary: ok) auto

lemma wait_result:
  "wait synced its = (map (\<lambda>it. CacheSync it (synced it)) its,
     if list_all synced its then None else Some (PlainError ''failed to sync caches''))"
  by (simp add: wait_def waitCaches_result)

lemma PollUntil_total:
  assumes "\<And>w. \<exists>r. fn w = Some r"
  shows "\<exists>r. PollUntil d fn t missed w = Some r"
proof -
  have "\<exists>r. WaitFor (replicate k True @ [False]) fn w = Some r" for k
  proof (induction k arbitrary: w)
    case 0
    obtain r w' where "fn w = Some (r, w')" using assms [of w] by auto
    then show ?case by (cases r) auto
  next
    case (Suc k)
    obtain r w' where "fn w = Some (r, w')" using assms [of w] by auto
    with Suc.IH [of w'] show ?case by (cases r) auto
  qed
  then show ?thesis by (simp add: PollUntil_def poller_def)
qed

lemma initCRD_total: "\<exists>e w'. initCRD api clk w = Some (e, w')"
proof -
  obtain crd where crd: "notebookCRD = Some crd" using notebookCRD_Some by blast
  obtain e1 w1 where c: "PollUntil (500 * Millisecond) (crdCreated api)
      (stopableTimer (60 * Second) (stopCreate clk)) (missCreate clk) w = Some (e1, w1)"
    using PollUntil_total [of "crdCreated api"] crdCreated_eq [OF crd, of api]
    by (metis surj_pair)
  have "\<exists>r. crdEstablished api v = Some r" for v
    using crdEstablished_eq [of api v] by (cases "GetCRD api NotebookName v") blast
  with PollUntil_total [of "crdEstablished api"] obtain e2 w2 where
    "PollUntil (500 * Millisecond) (crdEstablished api)
      (stopableTimer (60 * Second) (stopEstablish clk)) (missEstablish clk) w1 = Some (e2, w2)"
    by fastforce
  with c show ?thesis by (cases e1; cases e2) (auto simp: initCRD_def)
qed

lemma count_list_replicate: "count_list (replicate n x) y = (if x = y then n else 0)"
  by (induction n) auto

text \<open>What Run has done before its workers, and that it all comes before the first of them.\<close>

definition upToCaches :: "run_env \<Rightarrow> run_event list" where
  "upToCaches env = map StartInformer (order_start env)
     @ map (\<lambda>it. CacheSync it (cacheSynced env it)) (order_wait env)"

definition upToHandlers :: "run_env \<Rightarrow> run_event list" where
  "upToHandlers env = upToCaches env @ map AddHandlers (order_handlers env)"

lemma before_workers:
  "count_list (upToHandlers env) StartWorker = 0" "count_list (upToHandlers env) ShutDownEvent = 0"
  "count_list (upToCaches env) StartWorker = 0" "count_list (upToCaches env) ShutDownEvent = 0"
  by (auto simp: upToHandlers_def upToCaches_def count_list_0_iff)

lemma set_before_workers:
  "set (upToHandlers env) \<subseteq> set (takeWhile (\<lambda>ev. ev \<noteq> StartWorker) (upToHandlers env @ evs))"
proof -
  have "takeWhile (\<lambda>ev. ev \<noteq> StartWorker) (upToHandlers env @ evs)
      = upToHandlers env @ takeWhile (\<lambda>ev. ev \<noteq> StartWorker) evs"
    by (rule takeWhile_append2) (auto simp: upToHandlers_def upToCaches_def)
  then show ?thesis by simp
qed

lemma Run_cases:
  obtains (no_crd) err v where "initCRD api clk w = Some (Some err, v)"
      "Run api clk env n w = Some ([ShutDownEvent], Some (wrapErr ''failed to initialize CRD'' err), v)"
  | (no_cache) err v where "initCRD api clk w = Some (None, v)" "\<not> list_all (cacheSynced env) (order_wait env)"
      "Run api clk env n w = Some (upToCaches env @ [ShutDownEvent], Some err, v)"
  | (running) v where "initCRD api clk w = Some (None, v)" "list_all (cacheSynced env) (order_wait env)"
      "Run api clk env n w = Some (upToHandlers env @ replicate n StartWorker @ [AwaitStop, ShutDownEvent], None, v)"
proof -
  obtain e v where init: "initCRD api clk w = Some (e, v)"
    using initCRD_total [of api clk w] by auto
  show thesis
  proof (cases e)
    case (Some err)
    with init no_crd show thesis by (simp add: Run_def)
  next
    case None
    with init no_cache running show thesis
      by (cases "list_all (cacheSynced env) (order_wait env)")
        (simp_all add: Run_def wait_result upToCaches_def upToHandlers_def)
  qed
qed


end
