(* ===== verification/Startup_Samples.thy ===== *)
theory Startup_Samples
  imports Startup
begin

text \<open>
  An API server on which the operator comes up: the definition exists already, its first read
  fails and the next one finds it established. Its state counts the requests.
\<close>

definition sampleCrdApi :: "nat crd_api" where
  "sampleCrdApi =
     \<lparr>CreateCRD = \<lambda>crd n. (Some (StatusError StatusReasonAlreadyExists ''''), Suc n),
      GetCRD = \<lambda>name n.
        (if n = 1 then Inl (StatusError StatusReasonNotFound '''')
         else Inr [\<lparr>cond_Type = ''NamesAccepted'', cond_Status = ''True'', cond_Reason = ''''\<rparr>,
                   \<lparr>cond_Type = ''Established'', cond_Status = ''True'', cond_Reason = ''''\<rparr>], Suc n)\<rparr>"

definition sampleClock :: clock where
  "sampleClock = \<lparr>stopCreate = None, missCreate = 119, stopEstablish = None, missEstablish = 119\<rparr>"

lemma sample_poller: "poller (500 * Millisecond) (stopableTimer (60 * Second) None) 119 = [True, False]"
proof -
  have "stopableTimer (60 * Second) None div (500 * Millisecond) - 119 = Suc 0"
    by (simp add: stopableTimer_def Millisecond_def Second_def)
  then show ?thesis by (simp add: poller_def)
qed

lemma sample_initCRD: "initCRD sampleCrdApi sampleClock 0 = Some (None, 3)"
proof -
  obtain crd where crd: "notebookCRD = Some crd" using notebookCRD_Some by blast
  have c: "crdCreated sampleCrdApi 0 = Some (Inr True, 1)"
    using crdCreated_eq [OF crd, of sampleCrdApi 0] by (simp add: sampleCrdApi_def)
  have "crdEstablished sampleCrdApi 1 = Some (Inr False, 2)"
    "crdEstablished sampleCrdApi 2 = Some (Inr True, 3)"
    by (simp_all add: crdEstablished_def sampleCrdApi_def)
  with c show ?thesis by (simp add: initCRD_def PollUntil_def sampleClock_def sample_poller)
qed

theorem initCRD_established_witness:
  "(\<exists>w1 crd. notebookCRD = Some crd \<and>
      (fst (CreateCRD sampleCrdApi crd w1) = None \<or> IsAlreadyExists (fst (CreateCRD sampleCrdApi crd w1))))
   \<and> (\<exists>w2 conds. GetCRD sampleCrdApi NotebookName w2 = (Inr conds, 3)
      \<and> (\<exists>cond \<in> set conds. cond_Type cond = ''Established'' \<and> cond_Status cond = ''True''))"
  by (rule initCRD_established [OF sample_initCRD])

definition sampleEnv :: run_env where
  "sampleEnv =
     \<lparr>order_start = [KNotebook, KStatefulSet, KSecret, KService, KIngress],
      order_wait = [KIngress, KSecret, KService, KStatefulSet, KNotebook],
      order_handlers = [KSecret, KNotebook, KIngress, KService, KStatefulSet],
      cacheSynced = \<lambda>_. True\<rparr>"


end
