(* ===== verification/Deep_Copy.thy ===== *)
theory Deep_Copy
  imports Notebook_Types "HOL-Library.State_Monad"
begin

text \<open>
  The generated deep copies (pkg/apis/jupyter/v1/zz\_generated.deepcopy.go, with ObjectMeta's and
  OwnerReference's from the vendored apimachinery) and SetDefaults as they act on memory. Sync
  takes its notebook from the informer's cache, copies it and lets SetDefaults write into the
  copy; everywhere else a notebook is a value, and this theory is why it may be.

  Memory is a store of cells and the next free address. A notebook in it holds the addresses of
  what the Go structure points to: strings, the backend, the arrays and maps behind slices and
  maps, the flags of an owner reference. nil is \<^const>\<open>None\<close>. The generated code makes an array
  and then fills it; here it is allocated filled.
\<close>

section \<open>Memory\<close>

type_synonym addr = nat

record HOwnerReference =
  hor_APIVersion :: string
  hor_Kind :: string
  hor_Name :: string
  hor_UID :: string
  hor_Controller :: "addr option"
  hor_BlockOwnerDeletion :: "addr option"

record HObjectMeta =
  hom_Name :: string
  hom_Namespace :: string
  hom_SelfLink :: string
  hom_UID :: string
  hom_ResourceVersion :: string
  hom_DeletionTimestamp :: "addr option"
  hom_Labels :: "addr option"
  hom_Annotations :: "addr option"
  hom_OwnerReferences :: "addr option"

record HNotebookSpec =
  hspec_Flavor :: "addr option"
  hspec_GPU :: bool
  hspec_Host :: "addr option"
  hspec_Ingress :: "addr option"
  hspec_Packages :: "addr option"
  hspec_Password :: "addr option"
  hspec_ServiceAccountName :: "addr option"
  hspec_TLS :: "addr option"

record HNotebook =
  hnb_TypeMeta :: TypeMeta
  hnb_Meta :: HObjectMeta
  hnb_Spec :: HNotebookSpec
  hnb_Status :: NotebookStatus

record HNotebookList =
  hnl_TypeMeta :: TypeMeta
  hnl_SelfLink :: string
  hnl_ResourceVersion :: string
  hnl_Continue :: string
  hnl_Items :: "addr option"

datatype cell =
    CString string
  | CBool bool
  | CTime nat
  | CBackend IngressBackend
  | CStrings "string list"
  | CMap "(string \<times> string) list"
  | COwners "HOwnerReference list"
  | CNotebook HNotebook
  | CNotebooks "HNotebook list"
  | CSpec HNotebookSpec
  | CStatus NotebookStatus
  | CNotebookList HNotebookList

record heap =
  cells :: "addr \<Rightarrow> cell"
  fresh :: addr

definition alloc :: "cell \<Rightarrow> (heap, addr) state" where
  "alloc c = State (\<lambda>h. (fresh h, \<lparr>cells = (cells h)(fresh h := c), fresh = Suc (fresh h)\<rparr>))"

definition load :: "addr \<Rightarrow> (heap, cell) state" where
  "load a = State (\<lambda>h. (cells h a, h))"

definition store :: "addr \<Rightarrow> cell \<Rightarrow> (heap, unit) state" where
  "store a c = State (\<lambda>h. ((), h\<lparr>cells := (cells h)(a := c)\<rparr>))"

text \<open>The generated block for a pointer: a new cell with the contents of the old one, unless nil.\<close>

definition new_copy :: "addr option \<Rightarrow> (heap, addr option) state" where
  "new_copy p =
     (case p of
        None \<Rightarrow> State_Monad.return None
      | Some a \<Rightarrow> do { c \<leftarrow> load a; b \<leftarrow> alloc c; State_Monad.return (Some b) })"

section \<open>The copies\<close>

definition OwnerReference_DeepCopyInto :: "HOwnerReference \<Rightarrow> (heap, HOwnerReference) state" where
  "OwnerReference_DeepCopyInto r = do {
     c \<leftarrow> new_copy (hor_Controller r);
     b \<leftarrow> new_copy (hor_BlockOwnerDeletion r);
     State_Monad.return (r\<lparr>hor_Controller := c, hor_BlockOwnerDeletion := b\<rparr>)
   }"

primrec copyOwners :: "HOwnerReference list \<Rightarrow> (heap, HOwnerReference list) state" where
  "copyOwners [] = State_Monad.return []"
| "copyOwners (r # rs) = do {
     r' \<leftarrow> OwnerReference_DeepCopyInto r;
     rs' \<leftarrow> copyOwners rs;
     State_Monad.return (r' # rs')
   }"

definition ownersIn :: "cell \<Rightarrow> HOwnerReference list" where
  "ownersIn c = (case c of COwners rs \<Rightarrow> rs | _ \<Rightarrow> [])"

definition copyOwnerSlice :: "addr option \<Rightarrow> (heap, addr option) state" where
  "copyOwnerSlice p =
     (case p of
        None \<Rightarrow> State_Monad.return None
      | Some a \<Rightarrow> do {
          c \<leftarrow> load a;
          rs \<leftarrow> copyOwners (ownersIn c);
          b \<leftarrow> alloc (COwners rs);
          State_Monad.return (Some b)
        })"

definition ObjectMeta_DeepCopyInto :: "HObjectMeta \<Rightarrow> (heap, HObjectMeta) state" where
  "ObjectMeta_DeepCopyInto m = do {
     d \<leftarrow> new_copy (hom_DeletionTimestamp m);
     l \<leftarrow> new_copy (hom_Labels m);
     a \<leftarrow> new_copy (hom_Annotations m);
     r \<leftarrow> copyOwnerSlice (hom_OwnerReferences m);
     State_Monad.return (m\<lparr>hom_DeletionTimestamp := d, hom_Labels := l, hom_Annotations := a,
       hom_OwnerReferences := r\<rparr>)
   }"

definition NotebookSpec_DeepCopyInto :: "HNotebookSpec \<Rightarrow> (heap, HNotebookSpec) state" where
  "NotebookSpec_DeepCopyInto s = do {
     flavor \<leftarrow> new_copy (hspec_Flavor s);
     host \<leftarrow> new_copy (hspec_Host s);
     ingress \<leftarrow> new_copy (hspec_Ingress s);
     packages \<leftarrow> new_copy (hspec_Packages s);
     password \<leftarrow> new_copy (hspec_Password s);
     account \<leftarrow> new_copy (hspec_ServiceAccountName s);
     tls \<leftarrow> new_copy (hspec_TLS s);
     State_Monad.return (s\<lparr>hspec_Flavor := flavor, hspec_Host := host, hspec_Ingress := ingress,
       hspec_Packages := packages, hspec_Password := password,
       hspec_ServiceAccountName := account, hspec_TLS := tls\<rparr>)
   }"

definition Notebook_DeepCopyInto :: "HNotebook \<Rightarrow> (heap, HNotebook) state" where
  "Notebook_DeepCopyInto n = do {
     meta \<leftarrow> ObjectMeta_DeepCopyInto (hnb_Meta n);
     spec \<leftarrow> NotebookSpec_DeepCopyInto (hnb_Spec n);
     State_Monad.return (n\<lparr>hnb_Meta := meta, hnb_Spec := spec\<rparr>)
   }"

definition notebookIn :: "cell \<Rightarrow> HNotebook option" where
  "notebookIn c = (case c of CNotebook n \<Rightarrow> Some n | _ \<Rightarrow> None)"

text \<open>DeepCopy of a pointer; a cell that holds no notebook is not a \<open>*Notebook\<close>.\<close>

definition Notebook_DeepCopy :: "addr option \<Rightarrow> (heap, addr option) state" where
  "Notebook_DeepCopy p =
     (case p of
        None \<Rightarrow> State_Monad.return None
      | Some a \<Rightarrow> do {
          c \<leftarrow> load a;
          (case notebookIn c of
             None \<Rightarrow> State_Monad.return None
           | Some n \<Rightarrow> do {
               n' \<leftarrow> Notebook_DeepCopyInto n;
               b \<leftarrow> alloc (CNotebook n');
               State_Monad.return (Some b)
             })
        })"

definition Notebook_DeepCopyObject :: "addr option \<Rightarrow> (heap, addr option) state" where
  "Notebook_DeepCopyObject p = do {
     c \<leftarrow> Notebook_DeepCopy p;
     (case c of Some b \<Rightarrow> State_Monad.return (Some b) | None \<Rightarrow> State_Monad.return None)
   }"

text \<open>A list's ListMeta holds no pointers; its items are an array of notebooks.\<close>

primrec copyNotebooks :: "HNotebook list \<Rightarrow> (heap, HNotebook list) state" where
  "copyNotebooks [] = State_Monad.return []"
| "copyNotebooks (n # ns) = do {
     n' \<leftarrow> Notebook_DeepCopyInto n;
     ns' \<leftarrow> copyNotebooks ns;
     State_Monad.return (n' # ns')
   }"

definition notebooksIn :: "cell \<Rightarrow> HNotebook list" where
  "notebooksIn c = (case c of CNotebooks ns \<Rightarrow> ns | _ \<Rightarrow> [])"

definition NotebookList_DeepCopyInto :: "HNotebookList \<Rightarrow> (heap, HNotebookList) state" where
  "NotebookList_DeepCopyInto l =
     (case hnl_Items l of
        None \<Rightarrow> State_Monad.return l
      | Some a \<Rightarrow> do {
          c \<leftarrow> load a;
          ns \<leftarrow> copyNotebooks (notebooksIn c);
          b \<leftarrow> alloc (CNotebooks ns);
          State_Monad.return (l\<lparr>hnl_Items := Some b\<rparr>)
        })"

definition specIn :: "cell \<Rightarrow> HNotebookSpec option" where
  "specIn c = (case c of CSpec s \<Rightarrow> Some s | _ \<Rightarrow> None)"

definition statusIn :: "cell \<Rightarrow> NotebookStatus option" where
  "statusIn c = (case c of CStatus s \<Rightarrow> Some s | _ \<Rightarrow> None)"

definition notebookListIn :: "cell \<Rightarrow> HNotebookList option" where
  "notebookListIn c = (case c of CNotebookList l \<Rightarrow> Some l | _ \<Rightarrow> None)"

text \<open>DeepCopy of a pointer to anything else: nil, or a new cell that DeepCopyInto fills.\<close>

definition deepCopyWith ::
  "(cell \<Rightarrow> 'x option) \<Rightarrow> ('x \<Rightarrow> (heap, 'x) state) \<Rightarrow> ('x \<Rightarrow> cell) \<Rightarrow> addr option \<Rightarrow> (heap, addr option) state" where
  "deepCopyWith typed deepCopyInto cellOf p =
     (case p of
        None \<Rightarrow> State_Monad.return None
      | Some a \<Rightarrow> do {
          c \<leftarrow> load a;
          (case typed c of
             None \<Rightarrow> State_Monad.return None
           | Some x \<Rightarrow> do {
               x' \<leftarrow> deepCopyInto x;
               b \<leftarrow> alloc (cellOf x');
               State_Monad.return (Some b)
             })
        })"

definition NotebookList_DeepCopy :: "addr option \<Rightarrow> (heap, addr option) state" where
  "NotebookList_DeepCopy = deepCopyWith notebookListIn NotebookList_DeepCopyInto CNotebookList"

definition NotebookList_DeepCopyObject :: "addr option \<Rightarrow> (heap, addr option) state" where
  "NotebookList_DeepCopyObject p = do {
     c \<leftarrow> NotebookList_DeepCopy p;
     (case c of Some b \<Rightarrow> State_Monad.return (Some b) | None \<Rightarrow> State_Monad.return None)
   }"

definition NotebookSpec_DeepCopy :: "addr option \<Rightarrow> (heap, addr option) state" where
  "NotebookSpec_DeepCopy = deepCopyWith specIn NotebookSpec_DeepCopyInto CSpec"

definition NotebookStatus_DeepCopyInto :: "NotebookStatus \<Rightarrow> (heap, NotebookStatus) state" where
  "NotebookStatus_DeepCopyInto s = State_Monad.return s"

definition NotebookStatus_DeepCopy :: "addr option \<Rightarrow> (heap, addr option) state" where
  "NotebookStatus_DeepCopy = deepCopyWith statusIn NotebookStatus_DeepCopyInto CStatus"

section \<open>SetDefaults in memory\<close>

text \<open>
  The three string variables of SetDefaults are allocated, because their addresses are taken; the
  empty one is shared by every field that it is the default of.
\<close>

definition hdefault_spec :: "addr \<Rightarrow> addr \<Rightarrow> addr \<Rightarrow> HNotebookSpec \<Rightarrow> bool \<times> HNotebookSpec" where
  "hdefault_spec defaultFlavor defaultTLS emptyString s0 =
     (let c0 = False;
          (c1, s1) = (if hspec_Flavor s0 = None
            then (True, s0\<lparr>hspec_Flavor := Some defaultFlavor\<rparr>) else (c0, s0));
          (c2, s2) = (if hspec_Host s1 = None
            then (True, s1\<lparr>hspec_Host := Some emptyString\<rparr>) else (c1, s1));
          (c3, s3) = (if hspec_Password s2 = None
            then (True, s2\<lparr>hspec_Password := Some emptyString\<rparr>) else (c2, s2));
          (c4, s4) = (if hspec_ServiceAccountName s3 = None
            then (True, s3\<lparr>hspec_ServiceAccountName := Some emptyString\<rparr>) else (c3, s3));
          (c5, s5) = (if hspec_TLS s4 = None
            then (True, s4\<lparr>hspec_TLS := Some defaultTLS\<rparr>) else (c4, s4))
      in (c5, s5))"

definition hSetDefaults :: "addr \<Rightarrow> (heap, bool) state" where
  "hSetDefaults a = do {
     defaultFlavor \<leftarrow> alloc (CString NotebookFlavorMinimal);
     defaultTLS \<leftarrow> alloc (CString NotebookTLSSelfSigned);
     emptyString \<leftarrow> alloc (CString []);
     c \<leftarrow> load a;
     (case notebookIn c of
        None \<Rightarrow> State_Monad.return False
      | Some n \<Rightarrow>
          let (changed, s) = hdefault_spec defaultFlavor defaultTLS emptyString (hnb_Spec n)
          in do {
            store a (CNotebook (n\<lparr>hnb_Spec := s\<rparr>));
            State_Monad.return changed
          })
   }"

section \<open>Reading a notebook out of memory\<close>

definition stringIn :: "cell \<Rightarrow> string" where
  "stringIn c = (case c of CString s \<Rightarrow> s | _ \<Rightarrow> [])"

definition boolIn :: "cell \<Rightarrow> bool" where
  "boolIn c = (case c of CBool b \<Rightarrow> b | _ \<Rightarrow> False)"

definition timeIn :: "cell \<Rightarrow> nat" where
  "timeIn c = (case c of CTime t \<Rightarrow> t | _ \<Rightarrow> 0)"

definition backendIn :: "cell \<Rightarrow> IngressBackend" where
  "backendIn c = (case c of CBackend b \<Rightarrow> b
     | _ \<Rightarrow> \<lparr>ib_ServiceName = [], ib_ServicePort = FromInt 0\<rparr>)"

definition stringsIn :: "cell \<Rightarrow> string list" where
  "stringsIn c = (case c of CStrings ss \<Rightarrow> ss | _ \<Rightarrow> [])"

definition mapIn :: "cell \<Rightarrow> (string \<times> string) list" where
  "mapIn c = (case c of CMap m \<Rightarrow> m | _ \<Rightarrow> [])"

text \<open>The cell a pointer points to.\<close>

definition view :: "heap \<Rightarrow> addr option \<Rightarrow> cell option" where
  "view h p = map_option (cells h) p"

definition readOwner :: "heap \<Rightarrow> HOwnerReference \<Rightarrow> OwnerReference" where
  "readOwner h r =
     \<lparr>or_APIVersion = hor_APIVersion r, or_Kind = hor_Kind r, or_Name = hor_Name r,
      or_UID = hor_UID r, or_Controller = map_option boolIn (view h (hor_Controller r)),
      or_BlockOwnerDeletion = map_option boolIn (view h (hor_BlockOwnerDeletion r))\<rparr>"

definition ownersAt :: "heap \<Rightarrow> addr option \<Rightarrow> HOwnerReference list" where
  "ownersAt h p = (case view h p of None \<Rightarrow> [] | Some c \<Rightarrow> ownersIn c)"

definition readMeta :: "heap \<Rightarrow> HObjectMeta \<Rightarrow> ObjectMeta" where
  "readMeta h m =
     \<lparr>om_Name = hom_Name m, om_Namespace = hom_Namespace m, om_SelfLink = hom_SelfLink m,
      om_UID = hom_UID m, om_ResourceVersion = hom_ResourceVersion m,
      om_DeletionTimestamp = map_option timeIn (view h (hom_DeletionTimestamp m)),
      om_Labels = map_option mapIn (view h (hom_Labels m)),
      om_Annotations = map_option mapIn (view h (hom_Annotations m)),
      om_OwnerReferences = map (readOwner h) (ownersAt h (hom_OwnerReferences m))\<rparr>"

definition readSpec :: "heap \<Rightarrow> HNotebookSpec \<Rightarrow> NotebookSpec" where
  "readSpec h s =
     \<lparr>spec_Flavor = map_option stringIn (view h (hspec_Flavor s)), spec_GPU = hspec_GPU s,
      spec_Host = map_option stringIn (view h (hspec_Host s)),
      spec_Ingress = map_option backendIn (view h (hspec_Ingress s)),
      spec_Packages = map_option stringsIn (view h (hspec_Packages s)),
      spec_Password = map_option stringIn (view h (hspec_Password s)),
      spec_ServiceAccountName = map_option stringIn (view h (hspec_ServiceAccountName s)),
      spec_TLS = map_option stringIn (view h (hspec_TLS s))\<rparr>"

definition readNotebook :: "heap \<Rightarrow> HNotebook \<Rightarrow> Notebook" where
  "readNotebook h n =
     \<lparr>nb_TypeMeta = hnb_TypeMeta n, nb_Meta = readMeta h (hnb_Meta n),
      nb_Spec = readSpec h (hnb_Spec n), nb_Status = hnb_Status n\<rparr>"

definition notebookAt :: "heap \<Rightarrow> addr \<Rightarrow> Notebook option" where
  "notebookAt h a = map_option (readNotebook h) (notebookIn (cells h a))"

section \<open>Fresh copies\<close>

definition ptr :: "addr option \<Rightarrow> addr set" where
  "ptr p = set_option p"

definition ownerPtrs :: "HOwnerReference \<Rightarrow> addr set" where
  "ownerPtrs r = ptr (hor_Controller r) \<union> ptr (hor_BlockOwnerDeletion r)"

definition metaPtrs :: "heap \<Rightarrow> HObjectMeta \<Rightarrow> addr set" where
  "metaPtrs h m = ptr (hom_DeletionTimestamp m) \<union> ptr (hom_Labels m) \<union> ptr (hom_Annotations m)
     \<union> ptr (hom_OwnerReferences m)
     \<union> (\<Union>r \<in> set (ownersAt h (hom_OwnerReferences m)). ownerPtrs r)"

definition specPtrs :: "HNotebookSpec \<Rightarrow> addr set" where
  "specPtrs s = ptr (hspec_Flavor s) \<union> ptr (hspec_Host s) \<union> ptr (hspec_Ingress s)
     \<union> ptr (hspec_Packages s) \<union> ptr (hspec_Password s) \<union> ptr (hspec_ServiceAccountName s)
     \<union> ptr (hspec_TLS s)"

definition notebookPtrs :: "heap \<Rightarrow> HNotebook \<Rightarrow> addr set" where
  "notebookPtrs h n = metaPtrs h (hnb_Meta n) \<union> specPtrs (hnb_Spec n)"

text \<open>Every address in use lies below the next free one.\<close>

definition reachable :: "heap \<Rightarrow> addr \<Rightarrow> addr set" where
  "reachable h a = insert a (case notebookIn (cells h a) of None \<Rightarrow> {} | Some n \<Rightarrow> notebookPtrs h n)"

text \<open>\<open>extends h h'\<close>: everything allocated in \<open>h\<close> is still there, unchanged.\<close>

definition extends :: "heap \<Rightarrow> heap \<Rightarrow> bool" where
  "extends h h' \<longleftrightarrow> fresh h \<le> fresh h' \<and> (\<forall>a < fresh h. cells h' a = cells h a)"

lemma extends_refl [simp]: "extends h h"
  by (simp add: extends_def)

lemma extends_trans [trans]: "extends h h' \<Longrightarrow> extends h' h'' \<Longrightarrow> extends h h''"
  by (force simp: extends_def)

lemma extends_fresh: "extends h h' \<Longrightarrow> fresh h \<le> fresh h'"
  by (simp add: extends_def)

lemma extends_view: "extends h h' \<Longrightarrow> ptr p \<subseteq> {..<fresh h} \<Longrightarrow> view h' p = view h p"
  by (cases p) (auto simp: extends_def view_def ptr_def)

lemma run_bind_iff:
  "run_state (State_Monad.bind m f) h = (r, h'') \<longleftrightarrow>
     (\<exists>x h'. run_state m h = (x, h') \<and> run_state (f x) h' = (r, h''))"
  by (auto simp: State_Monad.bind_def split: prod.splits)

lemma run_alloc:
  "run_state (alloc c) h = (a, h') \<longleftrightarrow>
     a = fresh h \<and> h' = \<lparr>cells = (cells h)(fresh h := c), fresh = Suc (fresh h)\<rparr>"
  by (auto simp: alloc_def)

lemma run_load: "run_state (load a) h = (c, h') \<longleftrightarrow> c = cells h a \<and> h' = h"
  by (auto simp: load_def)

lemma run_store: "run_state (store a c) h = (u, h') \<longleftrightarrow> h' = h\<lparr>cells := (cells h)(a := c)\<rparr>"
  by (auto simp: store_def)

lemma run_return: "run_state (State_Monad.return x) h = (y, h') \<longleftrightarrow> y = x \<and> h' = h"
  by auto

declare run_state_bind [simp del]

lemmas run_steps = run_bind_iff run_alloc run_load run_store run_return

lemma extends_alloc: "extends h \<lparr>cells = (cells h)(fresh h := c), fresh = Suc (fresh h)\<rparr>"
  by (simp add: extends_def)

text \<open>\<open>copied h0 p h p'\<close>: in \<open>h\<close>, \<open>p'\<close> is a copy made after \<open>h0\<close> of what \<open>p\<close> pointed to in \<open>h0\<close>.\<close>

definition copied :: "heap \<Rightarrow> addr option \<Rightarrow> heap \<Rightarrow> addr option \<Rightarrow> bool" where
  "copied h0 p h p' \<longleftrightarrow> ptr p' \<subseteq> {fresh h0..<fresh h} \<and> view h p' = view h0 p"

lemma copied_extends:
  assumes "copied h0 p h p'" "extends h h'"
  shows "copied h0 p h' p'"
proof -
  have "ptr p' \<subseteq> {..<fresh h}" using assms(1) by (auto simp: copied_def)
  with assms extends_view [OF assms(2) this] extends_fresh [OF assms(2)] show ?thesis
    by (force simp: copied_def)
qed

lemma new_copy_copied:
  assumes "run_state (new_copy p) h = (p', h')" "extends h0 h" "ptr p \<subseteq> {..<fresh h0}"
  shows "extends h h'" "copied h0 p h' p'"
proof -
  have "view h p = view h0 p" using assms(2,3) by (rule extends_view)
  with assms(1) extends_fresh [OF assms(2)] show "extends h h'" "copied h0 p h' p'"
    by (auto simp: new_copy_def run_steps copied_def ptr_def view_def extends_alloc split: option.splits)
qed

lemma OwnerReference_copied:
  assumes "run_state (OwnerReference_DeepCopyInto r) h = (r', h')" "extends h0 h"
    and "ownerPtrs r \<subseteq> {..<fresh h0}"
  shows "extends h h'" "ownerPtrs r' \<subseteq> {fresh h0..<fresh h'}" "readOwner h' r' = readOwner h0 r"
proof -
  from assms(3) have ptrs: "ptr (hor_Controller r) \<subseteq> {..<fresh h0}"
    "ptr (hor_BlockOwnerDeletion r) \<subseteq> {..<fresh h0}" by (auto simp: ownerPtrs_def)
  from assms(1) obtain c h1 b where
    c: "run_state (new_copy (hor_Controller r)) h = (c, h1)" and
    b: "run_state (new_copy (hor_BlockOwnerDeletion r)) h1 = (b, h')" and
    r': "r' = r\<lparr>hor_Controller := c, hor_BlockOwnerDeletion := b\<rparr>"
    by (auto simp: OwnerReference_DeepCopyInto_def run_steps)
  note c' = new_copy_copied [OF c assms(2) ptrs(1)]
  note b' = new_copy_copied [OF b extends_trans [OF assms(2) c'(1)] ptrs(2)]
  show "extends h h'" using c'(1) b'(1) by (rule extends_trans)
  from copied_extends [OF c'(2) b'(1)] b'(2) r'
  show "ownerPtrs r' \<subseteq> {fresh h0..<fresh h'}" "readOwner h' r' = readOwner h0 r"
    by (auto simp: copied_def ownerPtrs_def readOwner_def)
qed

lemma readOwner_extends:
  assumes "extends h h'" "ownerPtrs r \<subseteq> {..<fresh h}"
  shows "readOwner h' r = readOwner h r"
  using assms extends_view [OF assms(1)] by (simp add: readOwner_def ownerPtrs_def)

lemma copyOwners_copied:
  assumes "run_state (copyOwners rs) h = (rs', h')" "extends h0 h"
    and "(\<Union>r \<in> set rs. ownerPtrs r) \<subseteq> {..<fresh h0}"
  shows "extends h h'" "(\<Union>r \<in> set rs'. ownerPtrs r) \<subseteq> {fresh h0..<fresh h'}"
    "map (readOwner h') rs' = map (readOwner h0) rs"
  using assms
proof (induction rs arbitrary: h rs')
  case (Cons r rs)
  { case 1
    then obtain r' h1 rs'' where *: "run_state (OwnerReference_DeepCopyInto r) h = (r', h1)"
      "run_state (copyOwners rs) h1 = (rs'', h')" by (auto simp: run_steps)
    with 1 OwnerReference_copied(1) [OF *(1)] Cons.IH(1) [OF *(2)] show ?case
      by (auto intro: extends_trans)
  next
    case 2
    then obtain r' h1 rs'' where *: "run_state (OwnerReference_DeepCopyInto r) h = (r', h1)"
      "run_state (copyOwners rs) h1 = (rs'', h')" "rs' = r' # rs''" by (auto simp: run_steps)
    then have e: "extends h h1" "extends h1 h'"
      using 2 OwnerReference_copied(1) [OF *(1)] Cons.IH(1) [OF *(2)] by (auto intro: extends_trans)
    have "ownerPtrs r' \<subseteq> {fresh h0..<fresh h1}"
      using OwnerReference_copied(2) [OF *(1)] 2 by auto
    moreover have "(\<Union>r \<in> set rs''. ownerPtrs r) \<subseteq> {fresh h0..<fresh h'}"
      using Cons.IH(2) [OF *(2)] 2 e by (auto intro: extends_trans)
    ultimately show ?case using *(3) extends_fresh [OF e(2)] by fastforce
  next
    case 3
    then obtain r' h1 rs'' where *: "run_state (OwnerReference_DeepCopyInto r) h = (r', h1)"
      "run_state (copyOwners rs) h1 = (rs'', h')" "rs' = r' # rs''" by (auto simp: run_steps)
    then have e: "extends h h1" "extends h1 h'"
      using 3 OwnerReference_copied(1) [OF *(1)] Cons.IH(1) [OF *(2)] by (auto intro: extends_trans)
    from 3 have r: "extends h0 h" "ownerPtrs r \<subseteq> {..<fresh h0}" by auto
    have "ownerPtrs r' \<subseteq> {..<fresh h1}" "readOwner h1 r' = readOwner h0 r"
      using OwnerReference_copied(2,3) [OF *(1) r] by auto
    moreover have "map (readOwner h') rs'' = map (readOwner h0) rs"
      using Cons.IH(3) [OF *(2)] 3 e by (auto intro: extends_trans)
    ultimately show ?case using *(3) readOwner_extends [OF e(2)] by simp
  }
qed (auto simp: run_steps)

lemma ownersAt_extends:
  "extends h h' \<Longrightarrow> ptr p \<subseteq> {..<fresh h} \<Longrightarrow> ownersAt h' p = ownersAt h p"
  using extends_view by (simp add: ownersAt_def)

lemma copyOwnerSlice_copied:
  assumes "run_state (copyOwnerSlice p) h = (p', h')" "extends h0 h" "ptr p \<subseteq> {..<fresh h0}"
    and "(\<Union>r \<in> set (ownersAt h0 p). ownerPtrs r) \<subseteq> {..<fresh h0}"
  shows "extends h h'" "ptr p' \<subseteq> {fresh h0..<fresh h'}"
    "(\<Union>r \<in> set (ownersAt h' p'). ownerPtrs r) \<subseteq> {fresh h0..<fresh h'}"
    "map (readOwner h') (ownersAt h' p') = map (readOwner h0) (ownersAt h0 p)"
proof -
  have "extends h h' \<and> ptr p' \<subseteq> {fresh h0..<fresh h'}
    \<and> (\<Union>r \<in> set (ownersAt h' p'). ownerPtrs r) \<subseteq> {fresh h0..<fresh h'}
    \<and> map (readOwner h') (ownersAt h' p') = map (readOwner h0) (ownersAt h0 p)"
  proof (cases p)
    case None
    with assms(1) show ?thesis
      by (auto simp: copyOwnerSlice_def run_steps ptr_def ownersAt_def view_def)
  next
    case (Some a)
    with assms(1) obtain rs h1 where rs: "run_state (copyOwners (ownersIn (cells h a))) h = (rs, h1)"
      and h': "p' = Some (fresh h1)"
        "h' = \<lparr>cells = (cells h1)(fresh h1 := COwners rs), fresh = Suc (fresh h1)\<rparr>"
      by (auto simp: copyOwnerSlice_def run_steps)
    have same: "ownersIn (cells h a) = ownersAt h0 p"
      using Some assms(2,3) by (simp add: ownersAt_def view_def extends_def ptr_def)
    note rs' = copyOwners_copied [OF rs assms(2), unfolded same, OF assms(4)]
    have ext: "extends h1 h'" using h' extends_alloc by simp
    have at: "ownersAt h' p' = rs" using h' by (simp add: ownersAt_def view_def ownersIn_def)
    have "map (readOwner h') rs = map (readOwner h1) rs"
      using readOwner_extends [OF ext] rs'(2) by fastforce
    moreover have "extends h h'" using rs'(1) ext by (rule extends_trans)
    moreover have "ptr p' \<subseteq> {fresh h0..<fresh h'}"
      using h' extends_fresh [OF rs'(1)] extends_fresh [OF assms(2)] by (simp add: ptr_def)
    moreover have "(\<Union>r \<in> set rs. ownerPtrs r) \<subseteq> {fresh h0..<fresh h'}"
      using rs'(2) h'(2) by fastforce
    ultimately show ?thesis using rs'(3) at by simp
  qed
  then show "extends h h'" "ptr p' \<subseteq> {fresh h0..<fresh h'}"
    "(\<Union>r \<in> set (ownersAt h' p'). ownerPtrs r) \<subseteq> {fresh h0..<fresh h'}"
    "map (readOwner h') (ownersAt h' p') = map (readOwner h0) (ownersAt h0 p)" by blast+
qed

lemma ObjectMeta_copied:
  assumes "run_state (ObjectMeta_DeepCopyInto m) h = (m', h')" "metaPtrs h m \<subseteq> {..<fresh h}"
  shows "extends h h'" "metaPtrs h' m' \<subseteq> {fresh h..<fresh h'}" "readMeta h' m' = readMeta h m"
proof -
  from assms(2) have ptrs: "ptr (hom_DeletionTimestamp m) \<subseteq> {..<fresh h}"
    "ptr (hom_Labels m) \<subseteq> {..<fresh h}" "ptr (hom_Annotations m) \<subseteq> {..<fresh h}"
    "ptr (hom_OwnerReferences m) \<subseteq> {..<fresh h}"
    "(\<Union>r \<in> set (ownersAt h (hom_OwnerReferences m)). ownerPtrs r) \<subseteq> {..<fresh h}"
    by (auto simp: metaPtrs_def)
  from assms(1) obtain d h1 l h2 a h3 r where
    d: "run_state (new_copy (hom_DeletionTimestamp m)) h = (d, h1)" and
    l: "run_state (new_copy (hom_Labels m)) h1 = (l, h2)" and
    a: "run_state (new_copy (hom_Annotations m)) h2 = (a, h3)" and
    r: "run_state (copyOwnerSlice (hom_OwnerReferences m)) h3 = (r, h')" and
    m': "m' = m\<lparr>hom_DeletionTimestamp := d, hom_Labels := l, hom_Annotations := a,
       hom_OwnerReferences := r\<rparr>"
    by (auto simp: ObjectMeta_DeepCopyInto_def run_steps)
  note d' = new_copy_copied [OF d extends_refl ptrs(1)]
  note l' = new_copy_copied [OF l d'(1) ptrs(2)]
  note e2 = extends_trans [OF d'(1) l'(1)]
  note a' = new_copy_copied [OF a e2 ptrs(3)]
  note e3 = extends_trans [OF e2 a'(1)]
  note r' = copyOwnerSlice_copied [OF r e3 ptrs(4,5)]
  show "extends h h'" using e3 r'(1) by (rule extends_trans)
  note d'' = copied_extends [OF d'(2) extends_trans [OF extends_trans [OF l'(1) a'(1)] r'(1)]]
  note l'' = copied_extends [OF l'(2) extends_trans [OF a'(1) r'(1)]]
  note a'' = copied_extends [OF a'(2) r'(1)]
  show "metaPtrs h' m' \<subseteq> {fresh h..<fresh h'}"
    using d'' l'' a'' r'(2,3) m' by (simp add: metaPtrs_def copied_def)
  show "readMeta h' m' = readMeta h m"
    using d'' l'' a'' r'(4) m' by (simp add: readMeta_def copied_def)
qed

lemma NotebookSpec_copied:
  assumes "run_state (NotebookSpec_DeepCopyInto s) h = (s', h')" "specPtrs s \<subseteq> {..<fresh h}"
  shows "extends h h'" "specPtrs s' \<subseteq> {fresh h..<fresh h'}" "readSpec h' s' = readSpec h s"
proof -
  from assms(2) have ptrs: "ptr (hspec_Flavor s) \<subseteq> {..<fresh h}" "ptr (hspec_Host s) \<subseteq> {..<fresh h}"
    "ptr (hspec_Ingress s) \<subseteq> {..<fresh h}" "ptr (hspec_Packages s) \<subseteq> {..<fresh h}"
    "ptr (hspec_Password s) \<subseteq> {..<fresh h}" "ptr (hspec_ServiceAccountName s) \<subseteq> {..<fresh h}"
    "ptr (hspec_TLS s) \<subseteq> {..<fresh h}" by (auto simp: specPtrs_def)
  from assms(1) obtain p1 h1 p2 h2 p3 h3 p4 h4 p5 h5 p6 h6 p7 where
    1: "run_state (new_copy (hspec_Flavor s)) h = (p1, h1)" and
    2: "run_state (new_copy (hspec_Host s)) h1 = (p2, h2)" and
    3: "run_state (new_copy (hspec_Ingress s)) h2 = (p3, h3)" and
    4: "run_state (new_copy (hspec_Packages s)) h3 = (p4, h4)" and
    5: "run_state (new_copy (hspec_Password s)) h4 = (p5, h5)" and
    6: "run_state (new_copy (hspec_ServiceAccountName s)) h5 = (p6, h6)" and
    7: "run_state (new_copy (hspec_TLS s)) h6 = (p7, h')" and
    s': "s' = s\<lparr>hspec_Flavor := p1, hspec_Host := p2, hspec_Ingress := p3, hspec_Packages := p4,
       hspec_Password := p5, hspec_ServiceAccountName := p6, hspec_TLS := p7\<rparr>"
    by (auto simp: NotebookSpec_DeepCopyInto_def run_steps)
  note c1 = new_copy_copied [OF 1 extends_refl ptrs(1)] note e1 = c1(1)
  note c2 = new_copy_copied [OF 2 e1 ptrs(2)] note e2 = extends_trans [OF e1 c2(1)]
  note c3 = new_copy_copied [OF 3 e2 ptrs(3)] note e3 = extends_trans [OF e2 c3(1)]
  note c4 = new_copy_copied [OF 4 e3 ptrs(4)] note e4 = extends_trans [OF e3 c4(1)]
  note c5 = new_copy_copied [OF 5 e4 ptrs(5)] note e5 = extends_trans [OF e4 c5(1)]
  note c6 = new_copy_copied [OF 6 e5 ptrs(6)] note e6 = extends_trans [OF e5 c6(1)]
  note c7 = new_copy_copied [OF 7 e6 ptrs(7)]
  show "extends h h'" using e6 c7(1) by (rule extends_trans)
  note t6 = c7(1) note t5 = extends_trans [OF c6(1) t6] note t4 = extends_trans [OF c5(1) t5]
  note t3 = extends_trans [OF c4(1) t4] note t2 = extends_trans [OF c3(1) t3]
  note t1 = extends_trans [OF c2(1) t2]
  note all = copied_extends [OF c1(2) t1] copied_extends [OF c2(2) t2] copied_extends [OF c3(2) t3]
    copied_extends [OF c4(2) t4] copied_extends [OF c5(2) t5] copied_extends [OF c6(2) t6] c7(2)
  show "specPtrs s' \<subseteq> {fresh h..<fresh h'}"
    using all s' by (simp add: specPtrs_def copied_def)
  show "readSpec h' s' = readSpec h s"
    using all s' by (simp add: readSpec_def copied_def)
qed

lemma readMeta_extends:
  assumes "extends h h'" "metaPtrs h m \<subseteq> {..<fresh h}"
  shows "readMeta h' m = readMeta h m" "metaPtrs h' m = metaPtrs h m"
proof -
  from assms(2) have ptrs: "ptr (hom_DeletionTimestamp m) \<subseteq> {..<fresh h}"
    "ptr (hom_Labels m) \<subseteq> {..<fresh h}" "ptr (hom_Annotations m) \<subseteq> {..<fresh h}"
    "ptr (hom_OwnerReferences m) \<subseteq> {..<fresh h}"
    "\<And>r. r \<in> set (ownersAt h (hom_OwnerReferences m)) \<Longrightarrow> ownerPtrs r \<subseteq> {..<fresh h}"
    by (auto simp: metaPtrs_def)
  with assms(1) show "readMeta h' m = readMeta h m" "metaPtrs h' m = metaPtrs h m"
    by (simp_all add: readMeta_def metaPtrs_def extends_view ownersAt_extends readOwner_extends)
qed

lemma readSpec_extends:
  "extends h h' \<Longrightarrow> specPtrs s \<subseteq> {..<fresh h} \<Longrightarrow> readSpec h' s = readSpec h s"
  by (simp add: readSpec_def specPtrs_def extends_view)

lemma readNotebook_extends:
  assumes "extends h h'" "notebookPtrs h n \<subseteq> {..<fresh h}"
  shows "readNotebook h' n = readNotebook h n" "notebookPtrs h' n = notebookPtrs h n"
  using assms readMeta_extends [OF assms(1), of "hnb_Meta n"] readSpec_extends [OF assms(1)]
  by (simp_all add: readNotebook_def notebookPtrs_def)

lemma Notebook_copied:
  assumes "run_state (Notebook_DeepCopyInto n) h = (n', h')" "notebookPtrs h n \<subseteq> {..<fresh h}"
  shows "extends h h'" "notebookPtrs h' n' \<subseteq> {fresh h..<fresh h'}"
    "readNotebook h' n' = readNotebook h n"
proof -
  from assms(1) obtain m h1 s where
    m: "run_state (ObjectMeta_DeepCopyInto (hnb_Meta n)) h = (m, h1)" and
    s: "run_state (NotebookSpec_DeepCopyInto (hnb_Spec n)) h1 = (s, h')" and
    n': "n' = n\<lparr>hnb_Meta := m, hnb_Spec := s\<rparr>"
    by (auto simp: Notebook_DeepCopyInto_def run_steps)
  from assms(2) have ptrs: "metaPtrs h (hnb_Meta n) \<subseteq> {..<fresh h}" "specPtrs (hnb_Spec n) \<subseteq> {..<fresh h}"
    by (auto simp: notebookPtrs_def)
  note m' = ObjectMeta_copied [OF m ptrs(1)]
  have "specPtrs (hnb_Spec n) \<subseteq> {..<fresh h1}" using ptrs(2) extends_fresh [OF m'(1)] by auto
  note s' = NotebookSpec_copied [OF s this]
  have "metaPtrs h1 m \<subseteq> {..<fresh h1}" using m'(2) by auto
  note stays = readMeta_extends [OF s'(1) this]
  show "extends h h'" using m'(1) s'(1) by (rule extends_trans)
  have spec: "readSpec h1 (hnb_Spec n) = readSpec h (hnb_Spec n)"
    using m'(1) ptrs(2) by (rule readSpec_extends)
  show "notebookPtrs h' n' \<subseteq> {fresh h..<fresh h'}"
    using m'(2) s'(2) stays(2) n' extends_fresh [OF m'(1)] extends_fresh [OF s'(1)]
    by (fastforce simp: notebookPtrs_def)
  show "readNotebook h' n' = readNotebook h n"
    using m'(3) s'(3) stays(1) n' spec by (simp add: readNotebook_def)
qed

lemma copyNotebooks_copied:
  assumes "run_state (copyNotebooks ns) h = (ns', h')" "extends h0 h"
    and "(\<Union>n \<in> set ns. notebookPtrs h0 n) \<subseteq> {..<fresh h0}"
  shows "extends h h' \<and> (\<Union>n \<in> set ns'. notebookPtrs h' n) \<subseteq> {fresh h0..<fresh h'}
     \<and> map (readNotebook h') ns' = map (readNotebook h0) ns"
  using assms
proof (induction ns arbitrary: h ns')
  case (Cons n ns)
  from Cons.prems(1) obtain n' h1 ns'' where *: "run_state (Notebook_DeepCopyInto n) h = (n', h1)"
    "run_state (copyNotebooks ns) h1 = (ns'', h')" "ns' = n' # ns''" by (auto simp: run_steps)
  have old: "notebookPtrs h0 n \<subseteq> {..<fresh h0}" using Cons.prems(3) by simp
  note same = readNotebook_extends [OF Cons.prems(2) old]
  have "notebookPtrs h n \<subseteq> {..<fresh h}"
    unfolding same(2) using old extends_fresh [OF Cons.prems(2)] by auto
  note c = Notebook_copied [OF *(1) this]
  have "(\<Union>n \<in> set ns. notebookPtrs h0 n) \<subseteq> {..<fresh h0}" using Cons.prems(3) by simp
  note IH = Cons.IH [OF *(2) extends_trans [OF Cons.prems(2) c(1)] this]
  then have e: "extends h1 h'" by blast
  have "notebookPtrs h1 n' \<subseteq> {..<fresh h1}" using c(2) by auto
  note stays = readNotebook_extends [OF e this]
  have "notebookPtrs h' n' \<subseteq> {fresh h0..<fresh h'}"
    unfolding stays(2) using c(2) extends_fresh [OF e] extends_fresh [OF Cons.prems(2)] by fastforce
  moreover have "readNotebook h' n' = readNotebook h0 n" using stays(1) c(3) same(1) by metis
  ultimately show ?case using IH *(3) extends_trans [OF c(1) e] by simp
qed (auto simp: run_steps)

text \<open>A copied list has copies of the items, in new cells.\<close>

lemma NotebookList_copied:
  assumes "run_state (NotebookList_DeepCopyInto l) h = (l', h')" "hnl_Items l = Some a"
    and "(\<Union>n \<in> set (notebooksIn (cells h a)). notebookPtrs h n) \<subseteq> {..<fresh h}"
  obtains b where "hnl_Items l' = Some b" "fresh h \<le> b" "extends h h'"
    "map (readNotebook h') (notebooksIn (cells h' b)) = map (readNotebook h) (notebooksIn (cells h a))"
    "(\<Union>n \<in> set (notebooksIn (cells h' b)). notebookPtrs h' n) \<subseteq> {fresh h..<fresh h'}"
proof -
  from assms(1,2) obtain ns h1 where ns: "run_state (copyNotebooks (notebooksIn (cells h a))) h = (ns, h1)"
    and h': "h' = \<lparr>cells = (cells h1)(fresh h1 := CNotebooks ns), fresh = Suc (fresh h1)\<rparr>"
    and l': "l' = l\<lparr>hnl_Items := Some (fresh h1)\<rparr>"
    by (auto simp: NotebookList_DeepCopyInto_def run_steps)
  note c = copyNotebooks_copied [OF ns extends_refl assms(3)]
  have e: "extends h1 h'" using h' extends_alloc by simp
  have stays: "readNotebook h' n = readNotebook h1 n" "notebookPtrs h' n = notebookPtrs h1 n"
    if "n \<in> set ns" for n
    using readNotebook_extends [OF e, of n] c that by fastforce+
  have items: "notebooksIn (cells h' (fresh h1)) = ns" using h' by (simp add: notebooksIn_def)
  show ?thesis
  proof
    show "hnl_Items l' = Some (fresh h1)" using l' by simp
    show "fresh h \<le> fresh h1" using c by (simp add: extends_def)
    show "extends h h'" using c e extends_trans by blast
    show "map (readNotebook h') (notebooksIn (cells h' (fresh h1)))
        = map (readNotebook h) (notebooksIn (cells h a))"
      using c stays(1) unfolding items by (metis map_eq_conv)
    show "(\<Union>n \<in> set (notebooksIn (cells h' (fresh h1))). notebookPtrs h' n) \<subseteq> {fresh h..<fresh h'}"
      using c stays(2) extends_fresh [OF e] unfolding items by fastforce
  qed
qed

section \<open>The copy is independent\<close>

lemma read_cells: "readNotebook \<lparr>cells = cells h, fresh = k\<rparr> n = readNotebook h n"
  by (simp add: readNotebook_def readMeta_def readSpec_def readOwner_def[abs_def] view_def ownersAt_def)

lemma notebookAt_below:
  assumes "reachable h a \<subseteq> {..<fresh h}" "\<forall>c < fresh h. cells h' c = cells h c"
  shows "notebookAt h' a = notebookAt h a"
proof -
  let ?h = "\<lparr>cells = cells h', fresh = fresh h\<rparr>"
  have "extends h ?h" using assms(2) by (simp add: extends_def)
  then have "readNotebook h' n = readNotebook h n" if "notebookIn (cells h a) = Some n" for n
    using readNotebook_extends(1) [of h ?h n] assms(1) that
    by (simp add: read_cells reachable_def)
  moreover have "cells h' a = cells h a" using assms by (simp add: reachable_def)
  ultimately show ?thesis by (cases "notebookIn (cells h a)") (auto simp: notebookAt_def)
qed

lemma Notebook_DeepCopy_run:
  assumes "run_state (Notebook_DeepCopy (Some a)) h = (Some b, h')"
  obtains n n' h1 where "notebookIn (cells h a) = Some n"
    "run_state (Notebook_DeepCopyInto n) h = (n', h1)" "b = fresh h1"
    "h' = \<lparr>cells = (cells h1)(fresh h1 := CNotebook n'), fresh = Suc (fresh h1)\<rparr>"
  using assms by (auto simp: Notebook_DeepCopy_def run_steps split: option.splits)


section \<open>Defaults in the copy\<close>

definition orPtr :: "addr option \<Rightarrow> addr \<Rightarrow> addr option" where
  "orPtr p a = (case p of None \<Rightarrow> Some a | Some b \<Rightarrow> Some b)"

lemma hdefault_spec_eq:
  "hdefault_spec f t e s =
     (hspec_Flavor s = None \<or> hspec_Host s = None \<or> hspec_Password s = None
        \<or> hspec_ServiceAccountName s = None \<or> hspec_TLS s = None,
      s\<lparr>hspec_Flavor := orPtr (hspec_Flavor s) f, hspec_Host := orPtr (hspec_Host s) e,
        hspec_Password := orPtr (hspec_Password s) e,
        hspec_ServiceAccountName := orPtr (hspec_ServiceAccountName s) e,
        hspec_TLS := orPtr (hspec_TLS s) t\<rparr>)"
  by (cases "hspec_Flavor s"; cases "hspec_Host s"; cases "hspec_Password s";
      cases "hspec_ServiceAccountName s"; cases "hspec_TLS s";
      simp add: hdefault_spec_def orPtr_def)

lemma view_cong: "\<forall>b \<in> ptr p. cells h' b = cells h b \<Longrightarrow> view h' p = view h p"
  by (cases p) (auto simp: view_def ptr_def)

lemma readMeta_cong:
  assumes "\<forall>b \<in> metaPtrs h m. cells h' b = cells h b"
  shows "readMeta h' m = readMeta h m"
proof -
  have owners: "ownersAt h' (hom_OwnerReferences m) = ownersAt h (hom_OwnerReferences m)"
    using assms view_cong [of "hom_OwnerReferences m" h' h] by (simp add: metaPtrs_def ownersAt_def)
  have "readOwner h' r = readOwner h r" if "r \<in> set (ownersAt h (hom_OwnerReferences m))" for r
  proof -
    have "\<forall>b \<in> ownerPtrs r. cells h' b = cells h b" using assms that by (auto simp: metaPtrs_def)
    then show ?thesis
      using view_cong [of "hor_Controller r" h' h] view_cong [of "hor_BlockOwnerDeletion r" h' h]
      by (simp add: readOwner_def ownerPtrs_def)
  qed
  with owners assms view_cong [of "hom_DeletionTimestamp m" h' h] view_cong [of "hom_Labels m" h' h]
    view_cong [of "hom_Annotations m" h' h]
  show ?thesis by (simp add: readMeta_def metaPtrs_def)
qed

lemma view_orPtr:
  assumes "cells h' k = c" "ptr p \<subseteq> A" "\<forall>b \<in> A. cells h' b = cells h b"
  shows "view h' (orPtr p k) = orElse (view h p) c"
  using assms by (cases p) (auto simp: view_def orPtr_def orElse_def ptr_def)

lemma map_orElse: "map_option f (orElse p c) = orElse (map_option f p) (f c)"
  by (cases p) (simp_all add: orElse_def)

lemma hSetDefaults_run:
  assumes "run_state (hSetDefaults a) h = (changed, h')" "a < fresh h"
    and "notebookIn (cells h a) = Some n" "notebookPtrs h n \<subseteq> {..<fresh h} - {a}"
  shows "(changed, notebookAt h' a) = map_prod id Some (SetDefaults (readNotebook h n))"
    "\<forall>c < fresh h. c \<noteq> a \<longrightarrow> cells h' c = cells h c"
proof -
  let ?k = "fresh h"
  let ?r = "hdefault_spec ?k (?k + 1) (?k + 2) (hnb_Spec n)"
  have cells: "cells h' = (cells h)(?k := CString NotebookFlavorMinimal,
      ?k + 1 := CString NotebookTLSSelfSigned, ?k + 2 := CString [],
      a := CNotebook (n\<lparr>hnb_Spec := snd ?r\<rparr>))" and changed: "changed = fst ?r"
    using assms(1-3) by (auto simp: hSetDefaults_def run_steps split: prod.splits)
  then show same: "\<forall>c < fresh h. c \<noteq> a \<longrightarrow> cells h' c = cells h c" by simp
  let ?old = "{..<fresh h} - {a}"
  have old: "\<forall>b \<in> ?old. cells h' b = cells h b" using same by simp
  have new: "cells h' ?k = CString NotebookFlavorMinimal" "cells h' (?k + 1) = CString NotebookTLSSelfSigned"
    "cells h' (?k + 2) = CString []" using cells assms(2) by simp_all
  have ptrs: "ptr (hspec_Flavor (hnb_Spec n)) \<subseteq> ?old" "ptr (hspec_Host (hnb_Spec n)) \<subseteq> ?old"
    "ptr (hspec_Ingress (hnb_Spec n)) \<subseteq> ?old" "ptr (hspec_Packages (hnb_Spec n)) \<subseteq> ?old"
    "ptr (hspec_Password (hnb_Spec n)) \<subseteq> ?old" "ptr (hspec_ServiceAccountName (hnb_Spec n)) \<subseteq> ?old"
    "ptr (hspec_TLS (hnb_Spec n)) \<subseteq> ?old"
    using assms(4) by (auto simp: notebookPtrs_def specPtrs_def)
  have view_old: "view h' p = view h p" if "ptr p \<subseteq> ?old" for p
    using that old by (cases p) (auto simp: view_def ptr_def)
  have spec: "readSpec h' (snd ?r) = snd (default_spec (readSpec h (hnb_Spec n)))"
    using view_orPtr [OF new(1) ptrs(1) old] view_orPtr [OF new(3) ptrs(2) old]
      view_orPtr [OF new(3) ptrs(5) old] view_orPtr [OF new(3) ptrs(6) old]
      view_orPtr [OF new(2) ptrs(7) old] view_old [OF ptrs(3)] view_old [OF ptrs(4)]
    by (simp add: hdefault_spec_eq default_spec_eq readSpec_def map_orElse stringIn_def)
  have meta: "readMeta h' (hnb_Meta n) = readMeta h (hnb_Meta n)"
    using assms(4) old by (intro readMeta_cong) (auto simp: notebookPtrs_def)
  have "fst ?r = fst (default_spec (readSpec h (hnb_Spec n)))"
    by (simp add: hdefault_spec_eq default_spec_eq readSpec_def defaulted_def view_def)
  moreover have "notebookIn (cells h' a) = Some (n\<lparr>hnb_Spec := snd ?r\<rparr>)"
    using cells by (simp add: notebookIn_def)
  ultimately show "(changed, notebookAt h' a) = map_prod id Some (SetDefaults (readNotebook h n))"
    using changed spec meta
    by (simp add: notebookAt_def readNotebook_def SetDefaults_def split: prod.splits)
qed

text \<open>What sync does with the notebook it has from the cache.\<close>

definition copyAndDefault :: "addr \<Rightarrow> (heap, (addr \<times> bool) option) state" where
  "copyAndDefault a = do {
     p \<leftarrow> Notebook_DeepCopy (Some a);
     (case p of
        None \<Rightarrow> State_Monad.return None
      | Some b \<Rightarrow> do { changed \<leftarrow> hSetDefaults b; State_Monad.return (Some (b, changed)) })
   }"

text \<open>C35: Copying a cached notebook and setting defaults in the copy leaves the cached one as it was
  and makes of the copy what SetDefaults makes of the notebook as a value, with the same answer
  whether something changed: sync may be read as working on values.\<close>

theorem defaults_leave_cache:
  assumes "notebookAt h a = Some n" "reachable h a \<subseteq> {..<fresh h}"
  shows "\<exists>b h'. run_state (copyAndDefault a) h = (Some (b, fst (SetDefaults n)), h')
     \<and> notebookAt h' a = Some n \<and> notebookAt h' b = Some (snd (SetDefaults n))"
proof -
  from assms(1) obtain hn where hn: "notebookIn (cells h a) = Some hn" "readNotebook h hn = n"
    by (auto simp: notebookAt_def)
  obtain n' h1 where copy: "run_state (Notebook_DeepCopyInto hn) h = (n', h1)" by fastforce
  let ?b = "fresh h1" and ?h2 = "\<lparr>cells = (cells h1)(fresh h1 := CNotebook n'), fresh = Suc (fresh h1)\<rparr>"
  have run: "run_state (Notebook_DeepCopy (Some a)) h = (Some ?b, ?h2)"
    using hn(1) copy by (simp add: Notebook_DeepCopy_def run_steps)
  have ptrs: "notebookPtrs h hn \<subseteq> {..<fresh h}" using assms(2) hn(1) by (simp add: reachable_def)
  note c = Notebook_copied [OF copy ptrs]
  have below: "notebookPtrs h1 n' \<subseteq> {..<fresh h1}" using c(2) by auto
  note stays = readNotebook_extends [OF extends_alloc below, of "CNotebook n'"]
  obtain changed h' where d: "run_state (hSetDefaults ?b) ?h2 = (changed, h')" by fastforce
  have at: "notebookIn (cells ?h2 ?b) = Some n'" by (simp add: notebookIn_def)
  have lt: "?b < fresh ?h2" by simp
  have old: "notebookPtrs ?h2 n' \<subseteq> {..<fresh ?h2} - {?b}" unfolding stays(2) using below by auto
  have "readNotebook ?h2 n' = n" unfolding stays(1) c(3) by (rule hn(2))
  note r = hSetDefaults_run [OF d lt at old, unfolded this]
  have "fresh h \<le> fresh h1" "\<forall>x < fresh h. cells h1 x = cells h x"
    using c(1) by (simp_all add: extends_def)
  then have "\<forall>x < fresh h. cells h' x = cells h x" using r(2) by simp
  then have "notebookAt h' a = Some n"
    using notebookAt_below [OF assms(2), of h'] assms(1) by metis
  moreover have "run_state (copyAndDefault a) h = (Some (?b, changed), h')"
    using run d by (simp add: copyAndDefault_def run_state_bind)
  ultimately show ?thesis using r(1) by (cases "SetDefaults n") auto
qed

section \<open>A notebook in memory\<close>

definition sampleCells :: "addr \<Rightarrow> cell" where
  "sampleCells = (\<lambda>_. CBool False)
     (0 := CString ''scipy'', 1 := CStrings [''numpy''], 2 := CMap [(''team'', ''a'')], 3 := CBool True,
      4 := COwners [\<lparr>hor_APIVersion = ''v1'', hor_Kind = ''Team'', hor_Name = ''a'', hor_UID = ''u'',
                     hor_Controller = Some 3, hor_BlockOwnerDeletion = None\<rparr>],
      5 := CNotebook
        \<lparr>hnb_TypeMeta = \<lparr>tm_Kind = NotebookKind, tm_APIVersion = ''v1''\<rparr>,
         hnb_Meta = \<lparr>hom_Name = ''n'', hom_Namespace = ''ns'', hom_SelfLink = [], hom_UID = ''u1'',
           hom_ResourceVersion = ''7'', hom_DeletionTimestamp = None, hom_Labels = Some 2,
           hom_Annotations = None, hom_OwnerReferences = Some 4\<rparr>,
         hnb_Spec = \<lparr>hspec_Flavor = Some 0, hspec_GPU = False, hspec_Host = None,
           hspec_Ingress = None, hspec_Packages = Some 1, hspec_Password = None,
           hspec_ServiceAccountName = None, hspec_TLS = None\<rparr>,
         hnb_Status = \<lparr>st_ObservedGeneration = 0, st_Phase = []\<rparr>\<rparr>)"

definition sampleHeap :: heap where
  "sampleHeap = \<lparr>cells = sampleCells, fresh = 6\<rparr>"

lemma sample_reachable: "reachable sampleHeap 5 \<subseteq> {..<fresh sampleHeap}"
  by (simp add: reachable_def sampleHeap_def sampleCells_def notebookIn_def notebookPtrs_def
      metaPtrs_def specPtrs_def ptr_def ownersAt_def view_def ownersIn_def ownerPtrs_def)

lemma sample_notebook: "\<exists>n. notebookAt sampleHeap 5 = Some n \<and> spec_TLS (nb_Spec n) = None"
  by (simp add: notebookAt_def sampleHeap_def sampleCells_def notebookIn_def readNotebook_def
      readSpec_def view_def)


theorem defaults_leave_cache_witness:
  "\<exists>n b h'. run_state (copyAndDefault 5) sampleHeap = (Some (b, True), h')
     \<and> notebookAt h' 5 = Some n \<and> notebookAt h' b = Some (snd (SetDefaults n))"
proof -
  obtain n where n: "notebookAt sampleHeap 5 = Some n" "spec_TLS (nb_Spec n) = None"
    using sample_notebook by blast
  then have "fst (SetDefaults n)" by (simp add: SetDefaults_changed defaulted_def)
  with defaults_leave_cache [OF n(1) sample_reachable] show ?thesis by auto
qed

end
