(* ===== verification/Client_Scheme.thy ===== *)
theory Client_Scheme
  imports Notebook_Types Core_Types
begin

text \<open>
  Schemes: which Go type stands for which kind of which API group and version
  (the vendored runtime.Scheme), what the notebook API registers in one
  (pkg/apis/jupyter/v1/register.go), and the two schemes of the generated clientset
  (pkg/clientset/versioned/scheme and pkg/clientset/versioned/fake). A Go type is its qualified
  name. Conversions and defaulting functions are not part of a scheme here.
\<close>

record GroupResource =
  gr_Group :: string
  gr_Resource :: string

record GroupVersionResource =
  gvr_Group :: string
  gvr_Version :: string
  gvr_Resource :: string

record GroupVersionKind =
  gvk_Group :: string
  gvk_Version :: string
  gvk_Kind :: string

definition WithResource :: "GroupVersion \<Rightarrow> string \<Rightarrow> GroupVersionResource" where
  "WithResource gv resource =
     \<lparr>gvr_Group = gv_Group gv, gvr_Version = gv_Version gv, gvr_Resource = resource\<rparr>"

definition WithKind :: "GroupVersion \<Rightarrow> string \<Rightarrow> GroupVersionKind" where
  "WithKind gv kind = \<lparr>gvk_Group = gv_Group gv, gvk_Version = gv_Version gv, gvk_Kind = kind\<rparr>"

definition gvr_GroupResource :: "GroupVersionResource \<Rightarrow> GroupResource" where
  "gvr_GroupResource gvr = \<lparr>gr_Group = gvr_Group gvr, gr_Resource = gvr_Resource gvr\<rparr>"

definition Resource :: "string \<Rightarrow> GroupResource" where
  "Resource resource = gvr_GroupResource (WithResource SchemeGroupVersion resource)"

record Scheme =
  gvkToType :: "(GroupVersionKind \<times> string) list"
  unversionedKinds :: "(string \<times> string) list"

definition NewScheme :: Scheme where
  "NewScheme = \<lparr>gvkToType = [], unversionedKinds = []\<rparr>"

definition AddKnownTypeWithName ::
  "GroupVersionKind \<Rightarrow> string \<Rightarrow> Scheme \<Rightarrow> Scheme outcome" where
  "AddKnownTypeWithName gvk t s =
     (if length (gvk_Version gvk) = 0 then Panics ''version is required on all types''
      else case map_of (gvkToType s) gvk of
             Some old \<Rightarrow>
               if old \<noteq> t then Panics ''Double registration of different types'' else Returns s
           | None \<Rightarrow> Returns (s\<lparr>gvkToType := gvkToType s @ [(gvk, t)]\<rparr>))"

text \<open>A type is given with the name Go reports for it, which becomes its kind.\<close>

primrec AddKnownTypes ::
  "GroupVersion \<Rightarrow> (string \<times> string) list \<Rightarrow> Scheme \<Rightarrow> Scheme outcome" where
  "AddKnownTypes gv [] s = Returns s"
| "AddKnownTypes gv (ty # types) s =
     (case AddKnownTypeWithName (WithKind gv (fst ty)) (snd ty) s of
        Panics m \<Rightarrow> Panics m
      | Returns s' \<Rightarrow> AddKnownTypes gv types s')"

primrec addUnversioned :: "(string \<times> string) list \<Rightarrow> Scheme \<Rightarrow> Scheme outcome" where
  "addUnversioned [] s = Returns s"
| "addUnversioned (ty # types) s =
     (case map_of (unversionedKinds s) (fst ty) of
        Some old \<Rightarrow>
          if old \<noteq> snd ty then Panics ''has already been registered as unversioned kind''
          else addUnversioned types s
      | None \<Rightarrow> addUnversioned types (s\<lparr>unversionedKinds := unversionedKinds s @ [ty]\<rparr>))"

definition AddUnversionedTypes ::
  "GroupVersion \<Rightarrow> (string \<times> string) list \<Rightarrow> Scheme \<Rightarrow> Scheme outcome" where
  "AddUnversionedTypes gv types s =
     (case AddKnownTypes gv types s of
        Panics m \<Rightarrow> Panics m
      | Returns s' \<Rightarrow> addUnversioned types s')"

definition Unversioned :: GroupVersion where
  "Unversioned = \<lparr>gv_Group = [], gv_Version = ''v1''\<rparr>"

definition optionsTypes :: "(string \<times> string) list" where
  "optionsTypes =
     [(''ListOptions'', ''metav1.ListOptions''), (''ExportOptions'', ''metav1.ExportOptions''),
      (''GetOptions'', ''metav1.GetOptions''), (''DeleteOptions'', ''metav1.DeleteOptions''),
      (''CreateOptions'', ''metav1.CreateOptions''), (''UpdateOptions'', ''metav1.UpdateOptions'')]"

definition unversionedTypes :: "(string \<times> string) list" where
  "unversionedTypes =
     [(''Status'', ''metav1.Status''), (''APIVersions'', ''metav1.APIVersions''),
      (''APIGroupList'', ''metav1.APIGroupList''), (''APIGroup'', ''metav1.APIGroup''),
      (''APIResourceList'', ''metav1.APIResourceList'')]"

definition AddToGroupVersion :: "GroupVersion \<Rightarrow> Scheme \<Rightarrow> Scheme outcome" where
  "AddToGroupVersion gv s =
     (case AddKnownTypeWithName (WithKind gv ''WatchEvent'') ''metav1.WatchEvent'' s of
        Panics m \<Rightarrow> Panics m
      | Returns s1 \<Rightarrow>
     (case AddKnownTypeWithName
             (WithKind \<lparr>gv_Group = gv_Group gv, gv_Version = ''__internal''\<rparr> ''WatchEvent'')
             ''metav1.InternalEvent'' s1 of
        Panics m \<Rightarrow> Panics m
      | Returns s2 \<Rightarrow>
     (case AddKnownTypes gv optionsTypes s2 of
        Panics m \<Rightarrow> Panics m
      | Returns s3 \<Rightarrow> AddUnversionedTypes Unversioned unversionedTypes s3)))"

definition addKnownTypes :: "Scheme \<Rightarrow> Scheme outcome" where
  "addKnownTypes s =
     (case AddKnownTypes SchemeGroupVersion
             [(''Notebook'', ''jupyterv1.Notebook''), (''NotebookList'', ''jupyterv1.NotebookList'')] s of
        Panics m \<Rightarrow> Panics m
      | Returns s' \<Rightarrow> AddToGroupVersion SchemeGroupVersion s')"

text \<open>init of the clientset's scheme package, and of the fake clientset's, which is the same.\<close>

definition clientScheme :: "Scheme outcome" where
  "clientScheme =
     (case AddToGroupVersion \<lparr>gv_Group = [], gv_Version = ''v1''\<rparr> NewScheme of
        Panics m \<Rightarrow> Panics m
      | Returns s \<Rightarrow> addKnownTypes s)"

definition fakeScheme :: "Scheme outcome" where
  "fakeScheme =
     (case AddToGroupVersion \<lparr>gv_Group = [], gv_Version = ''v1''\<rparr> NewScheme of
        Panics m \<Rightarrow> Panics m
      | Returns s \<Rightarrow> addKnownTypes s)"

text \<open>The kinds a Go type is registered for, and the type of a kind (runtime.Scheme).\<close>

definition ObjectKinds :: "Scheme \<Rightarrow> string \<Rightarrow> go_error + GroupVersionKind list" where
  "ObjectKinds s t =
     (let gvks = map fst (filter (\<lambda>e. snd e = t) (gvkToType s))
      in if gvks = [] then Inl (PlainError (''no kind is registered for the type '' @ t))
         else Inr gvks)"

definition SchemeNew :: "Scheme \<Rightarrow> GroupVersionKind \<Rightarrow> go_error + string" where
  "SchemeNew s kind =
     (case map_of (gvkToType s) kind of
        Some t \<Rightarrow> Inr t
      | None \<Rightarrow>
          (case map_of (unversionedKinds s) (gvk_Kind kind) of
             Some t \<Rightarrow> Inr t
           | None \<Rightarrow> Inl (PlainError (''no kind '' @ Quote (gvk_Kind kind) @ '' is registered''))))"

section \<open>What is registered\<close>

definition fakeSchemeValue :: Scheme where
  "fakeSchemeValue = (case fakeScheme of Returns s \<Rightarrow> s | Panics m \<Rightarrow> NewScheme)"

lemma fakeScheme_returns: "fakeScheme = Returns fakeSchemeValue"
  by code_simp

lemma clientScheme_returns: "clientScheme = Returns fakeSchemeValue"
  using fakeScheme_returns by (simp add: clientScheme_def fakeScheme_def)

text \<open>Adding the notebook API to a scheme that has it changes nothing and does not panic.\<close>

lemma addKnownTypes_again: "addKnownTypes fakeSchemeValue = Returns fakeSchemeValue"
  by code_simp

lemma notebook_kinds:
  "ObjectKinds fakeSchemeValue ''jupyterv1.Notebook'' = Inr [WithKind SchemeGroupVersion ''Notebook'']"
  by code_simp

lemma notebook_type:
  "SchemeNew fakeSchemeValue (WithKind SchemeGroupVersion ''Notebook'') = Inr ''jupyterv1.Notebook''"
  "SchemeNew fakeSchemeValue (WithKind SchemeGroupVersion ''NotebookList'') = Inr ''jupyterv1.NotebookList''"
  by code_simp+

end
