(* ===== verification/Watch_Events.thy ===== *)
theory Watch_Events
  imports K8s_Names
begin

text \<open>
  Watch events and the watcher of the fake clientset (the vendored apimachinery, pkg/watch): a
  channel that holds a hundred events and panics on one more.
\<close>

section \<open>Events\<close>

text \<open>The objects of watch events; anything but an API object is a Status, with its reason and message.\<close>

datatype EventType = WatchAddedType | WatchModifiedType | WatchDeletedType | WatchErrorType | OtherType string

datatype watch_object =
    WatchObject object
  | WatchStatus StatusReason string

record watch_event =
  we_Type :: EventType
  we_Object :: watch_object

fun FromObject :: "watch_object \<Rightarrow> go_error" where
  "FromObject (WatchStatus reason msg) = StatusError reason msg"
| "FromObject (WatchObject obj) = PlainError ''unexpected object''"

section \<open>RaceFreeFakeWatcher\<close>

definition DefaultChanSize :: nat where
  "DefaultChanSize = 100"

text \<open>The channel, with what is sent and not received; a stopped watcher has closed it.\<close>

record watcher =
  fw_result :: "watch_event list"
  fw_Stopped :: bool

definition NewRaceFreeFake :: watcher where
  "NewRaceFreeFake = \<lparr>fw_result = [], fw_Stopped = False\<rparr>"

definition fw_Action :: "EventType \<Rightarrow> object \<Rightarrow> watcher \<Rightarrow> watcher outcome" where
  "fw_Action action obj f =
     (if fw_Stopped f then Returns f
      else if length (fw_result f) < DefaultChanSize
      then Returns (f\<lparr>fw_result := fw_result f @ [\<lparr>we_Type = action, we_Object = WatchObject obj\<rparr>]\<rparr>)
      else Panics ''channel full'')"

definition fw_Stop :: "watcher \<Rightarrow> watcher" where
  "fw_Stop f = f\<lparr>fw_Stopped := True\<rparr>"

definition fw_Reset :: "watcher \<Rightarrow> watcher" where
  "fw_Reset f = f\<lparr>fw_result := [], fw_Stopped := False\<rparr>"

text \<open>A receive on the result channel; \<^const>\<open>None\<close> blocks, or finds the channel closed.\<close>

definition fw_receive :: "watcher \<Rightarrow> (watch_event \<times> watcher) option" where
  "fw_receive f =
     (case fw_result f of [] \<Rightarrow> None | e # es \<Rightarrow> Some (e, f\<lparr>fw_result := es\<rparr>))"

end
