(* ===== verification/Fake_Client.thy ===== *)
theory Fake_Client
  imports Client_Scheme Watch_Events
begin

text \<open>
  The generated fake clientset (pkg/clientset/versioned/fake and
  pkg/clientset/versioned/typed/jupyter/v1/fake) over the object tracker of the vendored
  client-go/testing: a map from resources to the objects stored for them. NewSimpleClientset
  files its objects under the group of the scheme, while the fake notebook client asks for the
  group "jupyter" that it is generated with.
\<close>

section \<open>The object tracker\<close>

text \<open>
  The objects of a resource, in the order they were added, and its watchers per namespace (the empty
  one for all of them), by their addresses: indices of the list of watchers made.
\<close>

record tracker =
  tr_objects :: "GroupVersionResource \<Rightarrow> object list"
  tr_watchers :: "GroupVersionResource \<Rightarrow> string \<Rightarrow> nat list"
  tr_made :: "watcher list"

definition NewObjectTracker :: tracker where
  "NewObjectTracker = \<lparr>tr_objects = (\<lambda>_. []), tr_watchers = (\<lambda>_ _. []), tr_made = []\<rparr>"

text \<open>A new watch: its address, and the tracker with it.\<close>

definition tracker_Watch :: "GroupVersionResource \<Rightarrow> string \<Rightarrow> tracker \<Rightarrow> nat \<times> tracker" where
  "tracker_Watch gvr ns t =
     (let p = length (tr_made t)
      in (p, t\<lparr>tr_made := tr_made t @ [NewRaceFreeFake],
               tr_watchers := (tr_watchers t)(gvr := (tr_watchers t gvr)(ns := tr_watchers t gvr ns @ [p]))\<rparr>))"

definition getWatches :: "GroupVersionResource \<Rightarrow> string \<Rightarrow> tracker \<Rightarrow> nat list" where
  "getWatches gvr ns t = tr_watchers t gvr ns @ tr_watchers t gvr []"

text \<open>An event to the watchers at some addresses, one after the other.\<close>

primrec sendAll :: "EventType \<Rightarrow> object \<Rightarrow> nat list \<Rightarrow> watcher list \<Rightarrow> watcher list outcome" where
  "sendAll ty obj [] ws = Returns ws"
| "sendAll ty obj (p # ps) ws =
     obind (fw_Action ty obj (ws ! p)) (\<lambda>w. sendAll ty obj ps (ws[p := w]))"

definition notifyWatches ::
  "EventType \<Rightarrow> object \<Rightarrow> GroupVersionResource \<Rightarrow> string \<Rightarrow> tracker \<Rightarrow> tracker outcome" where
  "notifyWatches ty obj gvr ns t =
     obind (sendAll ty obj (getWatches gvr ns t) (tr_made t)) (\<lambda>ws. Returns (t\<lparr>tr_made := ws\<rparr>))"

definition setObjects :: "GroupVersionResource \<Rightarrow> object list \<Rightarrow> tracker \<Rightarrow> tracker" where
  "setObjects gvr objs t = t\<lparr>tr_objects := (tr_objects t)(gvr := objs)\<rparr>"

definition gr_String :: "GroupResource \<Rightarrow> string" where
  "gr_String gr = (if gr_Group gr = [] then gr_Resource gr else gr_Resource gr @ ''.'' @ gr_Group gr)"

definition notFound :: "GroupVersionResource \<Rightarrow> string \<Rightarrow> go_error" where
  "notFound gvr name = StatusError StatusReasonNotFound
     (gr_String (gvr_GroupResource gvr) @ '' '' @ Quote name @ '' not found'')"

definition alreadyExists :: "GroupVersionResource \<Rightarrow> string \<Rightarrow> go_error" where
  "alreadyExists gvr name = StatusError StatusReasonAlreadyExists
     (gr_String (gvr_GroupResource gvr) @ '' '' @ Quote name @ '' already exists'')"

text \<open>Empty namespaces and names match everything.\<close>

definition filterByNamespaceAndName :: "object list \<Rightarrow> string \<Rightarrow> string \<Rightarrow> object list" where
  "filterByNamespaceAndName objs ns name =
     filter (\<lambda>obj. \<not> (ns \<noteq> [] \<and> om_Namespace (meta_of obj) \<noteq> ns) \<and>
                    \<not> (name \<noteq> [] \<and> om_Name (meta_of obj) \<noteq> name)) objs"

definition tracker_Get ::
  "GroupVersionResource \<Rightarrow> string \<Rightarrow> string \<Rightarrow> tracker \<Rightarrow> go_error + object" where
  "tracker_Get gvr ns name t =
     (case filterByNamespaceAndName (tr_objects t gvr) ns name of
        [] \<Rightarrow> Inl (notFound gvr name)
      | [obj] \<Rightarrow> Inr obj
      | _ \<Rightarrow> Inl (PlainError ''more than one object matched''))"

primrec set_meta :: "(ObjectMeta \<Rightarrow> ObjectMeta) \<Rightarrow> object \<Rightarrow> object" where
  "set_meta f (OService x) = OService (x\<lparr>svc_Meta := f (svc_Meta x)\<rparr>)"
| "set_meta f (OSecret x) = OSecret (x\<lparr>sec_Meta := f (sec_Meta x)\<rparr>)"
| "set_meta f (OStatefulSet x) = OStatefulSet (x\<lparr>sts_Meta := f (sts_Meta x)\<rparr>)"
| "set_meta f (OIngress x) = OIngress (x\<lparr>ing_Meta := f (ing_Meta x)\<rparr>)"
| "set_meta f (ONotebook x) = ONotebook (x\<lparr>nb_Meta := f (nb_Meta x)\<rparr>)"

definition sameObject :: "object \<Rightarrow> object \<Rightarrow> bool" where
  "sameObject a b \<longleftrightarrow> om_Namespace (meta_of a) = om_Namespace (meta_of b) \<and>
     om_Name (meta_of a) = om_Name (meta_of b)"

text \<open>The loop over the stored objects: the first of the same namespace and name is replaced.\<close>

primrec replaceFirst :: "object \<Rightarrow> object list \<Rightarrow> object list" where
  "replaceFirst obj [] = []"
| "replaceFirst obj (old # objs) =
     (if sameObject old obj then obj # objs else old # replaceFirst obj objs)"

text \<open>An update is told to the watchers before it is stored, an addition after.\<close>

definition tracker_add ::
  "GroupVersionResource \<Rightarrow> object \<Rightarrow> string \<Rightarrow> bool \<Rightarrow> tracker \<Rightarrow> (go_error option \<times> tracker) outcome" where
  "tracker_add gvr obj0 ns replaceExisting t =
     (let obj = (if length (om_Namespace (meta_of obj0)) = 0
                 then set_meta (\<lambda>m. m\<lparr>om_Namespace := ns\<rparr>) obj0 else obj0)
      in if ns \<noteq> om_Namespace (meta_of obj)
         then Returns (Some (StatusError StatusReasonBadRequest
                 ''request namespace does not match object namespace''), t)
         else if list_ex (\<lambda>old. sameObject old obj) (tr_objects t gvr)
         then if replaceExisting
              then obind (notifyWatches WatchModifiedType obj gvr ns t) (\<lambda>t'.
                     Returns (None, setObjects gvr (replaceFirst obj (tr_objects t' gvr)) t'))
              else Returns (Some (alreadyExists gvr (om_Name (meta_of obj))), t)
         else if replaceExisting then Returns (Some (notFound gvr (om_Name (meta_of obj))), t)
         else obind (notifyWatches WatchAddedType obj gvr ns (setObjects gvr (tr_objects t gvr @ [obj]) t))
                (\<lambda>t'. Returns (None, t')))"

text \<open>The first object of that namespace and name, and the others.\<close>

primrec removeFirst :: "string \<Rightarrow> string \<Rightarrow> object list \<Rightarrow> (object \<times> object list) option" where
  "removeFirst ns name [] = None"
| "removeFirst ns name (obj # objs) =
     (if om_Namespace (meta_of obj) = ns \<and> om_Name (meta_of obj) = name then Some (obj, objs)
      else map_option (\<lambda>(x, xs). (x, obj # xs)) (removeFirst ns name objs))"

definition tracker_Delete ::
  "GroupVersionResource \<Rightarrow> string \<Rightarrow> string \<Rightarrow> tracker \<Rightarrow> (go_error option \<times> tracker) outcome" where
  "tracker_Delete gvr ns name t =
     (case removeFirst ns name (tr_objects t gvr) of
        Some (obj, objs) \<Rightarrow>
          obind (notifyWatches WatchDeletedType obj gvr ns (setObjects gvr objs t)) (\<lambda>t'. Returns (None, t'))
      | None \<Rightarrow> Returns (Some (notFound gvr name), t))"

definition tracker_List ::
  "Scheme \<Rightarrow> GroupVersionResource \<Rightarrow> GroupVersionKind \<Rightarrow> string \<Rightarrow> tracker \<Rightarrow> go_error + object list" where
  "tracker_List scheme gvr gvk ns t =
     (let listGVK = gvk\<lparr>gvk_Kind := gvk_Kind gvk @ ''List''\<rparr>;
          listGVK1 = (if gvk_Version listGVK = [] then listGVK\<lparr>gvk_Version := ''__internal''\<rparr> else listGVK)
      in case SchemeNew scheme listGVK1 of
           Inl err \<Rightarrow> Inl err
         | Inr list \<Rightarrow> Inr (filterByNamespaceAndName (tr_objects t gvr) ns []))"

section \<open>Guessing resources from kinds\<close>

definition UnsafeGuessKindToResource :: "GroupVersionKind \<Rightarrow> GroupVersionResource" where
  "UnsafeGuessKindToResource k =
     (let gv = \<lparr>gv_Group = gvk_Group k, gv_Version = gvk_Version k\<rparr>;
          singularName = ToLower (gvk_Kind k)
      in if length (gvk_Kind k) = 0 then \<lparr>gvr_Group = [], gvr_Version = [], gvr_Resource = []\<rparr>
         else if drop (length singularName - length ''endpoints'') singularName = ''endpoints''
         then WithResource gv singularName
         else if last singularName = CHR ''s'' then WithResource gv (singularName @ ''es'')
         else if last singularName = CHR ''y'' then WithResource gv (butlast singularName @ ''ies'')
         else WithResource gv (singularName @ ''s''))"

definition goType :: "object \<Rightarrow> string" where
  "goType obj = (case obj of
     OService x \<Rightarrow> ''corev1.Service'' | OSecret x \<Rightarrow> ''corev1.Secret''
   | OStatefulSet x \<Rightarrow> ''appsv1.StatefulSet'' | OIngress x \<Rightarrow> ''extensionsv1beta1.Ingress''
   | ONotebook x \<Rightarrow> ''jupyterv1.Notebook'')"

primrec addKinds ::
  "GroupVersionKind list \<Rightarrow> object \<Rightarrow> tracker \<Rightarrow> (go_error option \<times> tracker) outcome" where
  "addKinds [] obj t = Returns (None, t)"
| "addKinds (gvk # gvks) obj t =
     (let gvr0 = UnsafeGuessKindToResource gvk;
          gvr = (if gvr_Version gvr0 = ''__internal'' then gvr0\<lparr>gvr_Version := []\<rparr> else gvr0)
      in obind (tracker_add gvr obj (om_Namespace (meta_of obj)) False t) (\<lambda>(err, t').
           if err \<noteq> None then Returns (err, t') else addKinds gvks obj t'))"

definition tracker_Add :: "Scheme \<Rightarrow> object \<Rightarrow> tracker \<Rightarrow> (go_error option \<times> tracker) outcome" where
  "tracker_Add scheme obj t =
     (case ObjectKinds scheme (goType obj) of
        Inl err \<Rightarrow> Returns (Some err, t)
      | Inr gvks \<Rightarrow> addKinds gvks obj t)"

section \<open>The fake clientset\<close>

text \<open>NewSimpleClientset panics on an object its tracker refuses.\<close>

primrec addObjects :: "object list \<Rightarrow> tracker \<Rightarrow> tracker outcome" where
  "addObjects [] t = Returns t"
| "addObjects (obj # objs) t =
     obind (tracker_Add fakeSchemeValue obj t) (\<lambda>(err, t').
       case err of Some err \<Rightarrow> Panics (Error err) | None \<Rightarrow> addObjects objs t')"

definition NewSimpleClientset :: "object list \<Rightarrow> tracker outcome" where
  "NewSimpleClientset objects = addObjects objects NewObjectTracker"

definition notebooksResource :: GroupVersionResource where
  "notebooksResource = \<lparr>gvr_Group = ''jupyter'', gvr_Version = ''v1'', gvr_Resource = ''notebooks''\<rparr>"

definition notebooksKind :: GroupVersionKind where
  "notebooksKind = \<lparr>gvk_Group = ''jupyter'', gvk_Version = ''v1'', gvk_Kind = ''Notebook''\<rparr>"

datatype fake_action =
    GetAction string string
  | ListAction string
  | CreateAction string object
  | UpdateAction string string object
  | DeleteAction string string
  | DeleteCollectionAction string
  | PatchAction string string

datatype reaction =
    Nothing
  | Single object
  | Many "object list"

text \<open>
  Whether the action was handled, the object returned and the error; strategic merge patching is
  a parameter. After Create and Update the tracker is read again.
\<close>

definition readBack ::
  "string \<Rightarrow> object \<Rightarrow> go_error option \<times> tracker \<Rightarrow> (bool \<times> reaction \<times> go_error option) \<times> tracker" where
  "readBack ns obj res =
     (case res of
        (Some err, t') \<Rightarrow> ((True, Nothing, Some err), t')
      | (None, t') \<Rightarrow>
          (case tracker_Get notebooksResource ns (om_Name (meta_of obj)) t' of
             Inl err \<Rightarrow> ((True, Nothing, Some err), t') | Inr o' \<Rightarrow> ((True, Single o', None), t')))"

definition ObjectReaction ::
  "(object \<Rightarrow> go_error + object) \<Rightarrow> fake_action \<Rightarrow> tracker \<Rightarrow>
     ((bool \<times> reaction \<times> go_error option) \<times> tracker) outcome" where
  "ObjectReaction merge action t =
     (case action of
        ListAction ns \<Rightarrow>
          (case tracker_List fakeSchemeValue notebooksResource notebooksKind ns t of
             Inl err \<Rightarrow> Returns ((True, Nothing, Some err), t) | Inr objs \<Rightarrow> Returns ((True, Many objs, None), t))
      | GetAction ns name \<Rightarrow>
          (case tracker_Get notebooksResource ns name t of
             Inl err \<Rightarrow> Returns ((True, Nothing, Some err), t) | Inr obj \<Rightarrow> Returns ((True, Single obj, None), t))
      | CreateAction ns obj \<Rightarrow>
          obind (tracker_add notebooksResource obj ns False t) (\<lambda>res. Returns (readBack ns obj res))
      | UpdateAction ns subresource obj \<Rightarrow>
          obind (tracker_add notebooksResource obj ns True t) (\<lambda>res. Returns (readBack ns obj res))
      | DeleteAction ns name \<Rightarrow>
          obind (tracker_Delete notebooksResource ns name t) (\<lambda>(err, t'). Returns ((True, Nothing, err), t'))
      | PatchAction ns name \<Rightarrow>
          (case tracker_Get notebooksResource ns name t of
             Inl err \<Rightarrow> Returns ((False, Nothing, Some err), t)
           | Inr obj \<Rightarrow>
               (case merge obj of
                  Inl err \<Rightarrow> Returns ((True, Nothing, Some err), t)
                | Inr obj' \<Rightarrow>
                    obind (tracker_add notebooksResource obj' ns True t) (\<lambda>(err, t').
                      Returns (if err \<noteq> None then ((True, Nothing, err), t') else ((True, Single obj', None), t')))))
      | DeleteCollectionAction ns \<Rightarrow>
          Returns ((False, Nothing, Some (PlainError ''no reaction implemented'')), t))"

text \<open>
  The clientset has one reactor, for everything; what it does not handle succeeds as it is. Its one
  watch reactor asks the tracker, which never refuses.
\<close>

definition Invokes ::
  "(object \<Rightarrow> go_error + object) \<Rightarrow> fake_action \<Rightarrow> reaction \<Rightarrow> tracker \<Rightarrow>
     ((reaction \<times> go_error option) \<times> tracker) outcome" where
  "Invokes merge action defaultReturn t =
     obind (ObjectReaction merge action t) (\<lambda>((handled, ret, err), t').
       Returns (if \<not> handled then ((defaultReturn, None), t') else ((ret, err), t')))"

definition watchReaction :: "GroupVersionResource \<Rightarrow> string \<Rightarrow> tracker \<Rightarrow> (bool \<times> nat) \<times> tracker" where
  "watchReaction gvr ns t = (case tracker_Watch gvr ns t of (watch, t') \<Rightarrow> ((True, watch), t'))"

definition InvokesWatch :: "GroupVersionResource \<Rightarrow> string \<Rightarrow> tracker \<Rightarrow> (go_error + nat) \<times> tracker" where
  "InvokesWatch gvr ns t =
     (case watchReaction gvr ns t of ((handled, ret), t') \<Rightarrow>
        if \<not> handled then (Inl (PlainError ''unhandled watch''), t') else (Inr ret, t'))"

definition asNotebook :: "reaction \<Rightarrow> Notebook option" where
  "asNotebook r = (case r of Single (ONotebook n) \<Rightarrow> Some n | _ \<Rightarrow> None)"

definition fakeInvoke ::
  "(object \<Rightarrow> go_error + object) \<Rightarrow> fake_action \<Rightarrow> tracker \<Rightarrow>
     ((Notebook option \<times> go_error option) \<times> tracker) outcome" where
  "fakeInvoke merge action t =
     obind (Invokes merge action (Single (ONotebook newNotebook)) t) (\<lambda>((obj, err), t').
       Returns ((asNotebook obj, err), t'))"

text \<open>Only a patch merges; everywhere else \<^const>\<open>Inr\<close> stands for the merge nobody calls.\<close>

definition FakeNotebooks_Get ::
  "string \<Rightarrow> string \<Rightarrow> tracker \<Rightarrow> ((Notebook option \<times> go_error option) \<times> tracker) outcome" where
  "FakeNotebooks_Get ns name = fakeInvoke Inr (GetAction ns name)"

definition FakeNotebooks_Create ::
  "string \<Rightarrow> Notebook \<Rightarrow> tracker \<Rightarrow> ((Notebook option \<times> go_error option) \<times> tracker) outcome" where
  "FakeNotebooks_Create ns n = fakeInvoke Inr (CreateAction ns (ONotebook n))"

definition FakeNotebooks_Update ::
  "string \<Rightarrow> Notebook \<Rightarrow> tracker \<Rightarrow> ((Notebook option \<times> go_error option) \<times> tracker) outcome" where
  "FakeNotebooks_Update ns n = fakeInvoke Inr (UpdateAction ns [] (ONotebook n))"

definition FakeNotebooks_UpdateStatus ::
  "string \<Rightarrow> Notebook \<Rightarrow> tracker \<Rightarrow> ((Notebook option \<times> go_error option) \<times> tracker) outcome" where
  "FakeNotebooks_UpdateStatus ns n = fakeInvoke Inr (UpdateAction ns ''status'' (ONotebook n))"

definition FakeNotebooks_Patch ::
  "(object \<Rightarrow> go_error + object) \<Rightarrow> string \<Rightarrow> string \<Rightarrow> tracker \<Rightarrow>
     ((Notebook option \<times> go_error option) \<times> tracker) outcome" where
  "FakeNotebooks_Patch merge ns name = fakeInvoke merge (PatchAction ns name)"

definition FakeNotebooks_Delete :: "string \<Rightarrow> string \<Rightarrow> tracker \<Rightarrow> (go_error option \<times> tracker) outcome" where
  "FakeNotebooks_Delete ns name t =
     obind (Invokes Inr (DeleteAction ns name) (Single (ONotebook newNotebook)) t) (\<lambda>((obj, err), t').
       Returns (err, t'))"

definition FakeNotebooks_DeleteCollection :: "string \<Rightarrow> tracker \<Rightarrow> (go_error option \<times> tracker) outcome" where
  "FakeNotebooks_DeleteCollection ns t =
     obind (Invokes Inr (DeleteCollectionAction ns) (Many []) t) (\<lambda>((obj, err), t'). Returns (err, t'))"

primrec keepMatching :: "(string gomap \<Rightarrow> bool) \<Rightarrow> object list \<Rightarrow> Notebook list" where
  "keepMatching label [] = []"
| "keepMatching label (item # items) =
     (case item of
        ONotebook n \<Rightarrow>
          if label (om_Labels (nb_Meta n)) then n # keepMatching label items
          else keepMatching label items
      | _ \<Rightarrow> keepMatching label items)"

definition FakeNotebooks_List ::
  "(string gomap \<Rightarrow> bool) \<Rightarrow> string \<Rightarrow> tracker \<Rightarrow>
     ((Notebook list option \<times> go_error option) \<times> tracker) outcome" where
  "FakeNotebooks_List label ns t =
     obind (Invokes Inr (ListAction ns) (Many []) t) (\<lambda>((obj, err), t').
       Returns ((case obj of Many items \<Rightarrow> Some (keepMatching label items) | _ \<Rightarrow> None, err), t'))"

definition FakeNotebooks_Watch :: "string \<Rightarrow> tracker \<Rightarrow> (go_error + nat) \<times> tracker" where
  "FakeNotebooks_Watch ns t = InvokesWatch notebooksResource ns t"

section \<open>What the tracker keeps\<close>

text \<open>No two objects of a resource share namespace and name.\<close>

definition objectKey :: "object \<Rightarrow> string \<times> string" where
  "objectKey obj = (om_Namespace (meta_of obj), om_Name (meta_of obj))"

definition tracker_inv :: "tracker \<Rightarrow> bool" where
  "tracker_inv t \<longleftrightarrow> (\<forall>gvr. distinct (map objectKey (tr_objects t gvr)))
     \<and> (\<forall>gvr ns. \<forall>p \<in> set (tr_watchers t gvr ns). p < length (tr_made t))"

lemma sameObject_key: "sameObject a b \<longleftrightarrow> objectKey a = objectKey b"
  by (auto simp: sameObject_def objectKey_def)

lemma replaceFirst_keys: "map objectKey (replaceFirst obj objs) = map objectKey objs"
  by (induction objs) (auto simp: sameObject_key)

lemma removeFirst_distinct:
  "removeFirst ns name objs = Some (x, objs') \<Longrightarrow> distinct (map objectKey objs) \<Longrightarrow>
     distinct (map objectKey objs') \<and> set objs' \<subseteq> set objs"
  by (induction objs arbitrary: objs') (fastforce split: if_splits)+

lemma setObjects_simps [simp]:
  "tr_objects (setObjects gvr objs t) = (tr_objects t)(gvr := objs)"
  "tr_watchers (setObjects gvr objs t) = tr_watchers t" "tr_made (setObjects gvr objs t) = tr_made t"
  "getWatches gvr' ns (setObjects gvr objs t) = getWatches gvr' ns t"
  by (simp_all add: setObjects_def getWatches_def)

text \<open>What the watchers at some addresses have been sent.\<close>

lemma sendAll_sent:
  assumes "sendAll ty obj ps ws = Returns ws'" "\<forall>p \<in> set ps. p < length ws"
  shows "length ws' = length ws \<and> (\<forall>p < length ws. fw_Stopped (ws' ! p) = fw_Stopped (ws ! p)
     \<and> fw_result (ws' ! p) = fw_result (ws ! p) @ replicate (if fw_Stopped (ws ! p) then 0 else count_list ps p)
         \<lparr>we_Type = ty, we_Object = WatchObject obj\<rparr>)"
  using assms
proof (induction ps arbitrary: ws)
  case (Cons q ps)
  then obtain w where w: "fw_Action ty obj (ws ! q) = Returns w" "sendAll ty obj ps (ws[q := w]) = Returns ws'"
    by (auto simp: obind_Returns_iff)
  have q: "q < length ws" using Cons.prems(2) by simp
  have "fw_Stopped w = fw_Stopped (ws ! q)" "fw_result w = fw_result (ws ! q)
      @ (if fw_Stopped (ws ! q) then [] else [\<lparr>we_Type = ty, we_Object = WatchObject obj\<rparr>])"
    using w(1) by (auto simp: fw_Action_def split: if_splits)
  with Cons.IH [OF w(2)] Cons.prems(2) q show ?case by (auto simp: nth_list_update)
qed simp

lemma notifyWatches_sent:
  assumes "notifyWatches ty obj gvr ns t = Returns t'" "tracker_inv t"
  shows "tr_objects t' = tr_objects t" "tr_watchers t' = tr_watchers t" "length (tr_made t') = length (tr_made t)"
    and "p < length (tr_made t) \<Longrightarrow> fw_Stopped (tr_made t' ! p) = fw_Stopped (tr_made t ! p)
     \<and> fw_result (tr_made t' ! p) = fw_result (tr_made t ! p)
        @ replicate (if fw_Stopped (tr_made t ! p) then 0 else count_list (getWatches gvr ns t) p)
            \<lparr>we_Type = ty, we_Object = WatchObject obj\<rparr>"
proof -
  obtain ws where ws: "sendAll ty obj (getWatches gvr ns t) (tr_made t) = Returns ws" "t' = t\<lparr>tr_made := ws\<rparr>"
    using assms(1) by (auto simp: notifyWatches_def obind_Returns_iff)
  have "\<forall>p \<in> set (getWatches gvr ns t). p < length (tr_made t)"
    using assms(2) by (auto simp: tracker_inv_def getWatches_def)
  note sent = sendAll_sent [OF ws(1) this]
  from ws(2) sent show "tr_objects t' = tr_objects t" "tr_watchers t' = tr_watchers t"
    "length (tr_made t') = length (tr_made t)" by simp_all
  show "fw_Stopped (tr_made t' ! p) = fw_Stopped (tr_made t ! p)
     \<and> fw_result (tr_made t' ! p) = fw_result (tr_made t ! p)
        @ replicate (if fw_Stopped (tr_made t ! p) then 0 else count_list (getWatches gvr ns t) p)
            \<lparr>we_Type = ty, we_Object = WatchObject obj\<rparr>" if "p < length (tr_made t)"
    using ws(2) sent that by simp
qed

lemma meta_of_set_meta [simp]: "meta_of (set_meta f obj) = f (meta_of obj)"
  by (cases obj) simp_all

lemma filter_key:
  "distinct (map f xs) \<Longrightarrow> x \<in> set xs \<Longrightarrow> f x = k \<Longrightarrow> filter (\<lambda>y. f y = k) xs = [x]"
proof (induction xs)
  case (Cons y ys)
  show ?case
  proof (cases "y = x")
    case True
    with Cons.prems have "\<forall>z \<in> set ys. f z \<noteq> k" by (auto simp: image_iff)
    with True Cons.prems(3) show ?thesis by (simp add: filter_empty_conv)
  next
    case False
    with Cons.prems have "x \<in> set ys" "f y \<noteq> k" by (auto simp: image_iff)
    with Cons show ?thesis by simp
  qed
qed simp

text \<open>What is stored under a namespace and name is what Get finds there.\<close>

lemma tracker_Get_stored:
  assumes "tracker_inv t" "obj \<in> set (tr_objects t gvr)" "ns \<noteq> []" "name \<noteq> []" "objectKey obj = (ns, name)"
  shows "tracker_Get gvr ns name t = Inr obj"
proof -
  have "filterByNamespaceAndName (tr_objects t gvr) ns name = filter (\<lambda>x. objectKey x = (ns, name)) (tr_objects t gvr)"
    using assms(3,4) by (auto simp: filterByNamespaceAndName_def objectKey_def intro!: filter_cong)
  then show ?thesis
    using filter_key [of objectKey "tr_objects t gvr" obj] assms by (simp add: tracker_Get_def tracker_inv_def)
qed

text \<open>
  What a successful change of the tracker does: its objects, and the one event it sends to the
  watchers of the object's namespace and to those of all namespaces.
\<close>

definition changed ::
  "EventType \<Rightarrow> object \<Rightarrow> GroupVersionResource \<Rightarrow> object list \<Rightarrow> tracker \<Rightarrow> tracker \<Rightarrow> bool" where
  "changed ty obj gvr objs t t' \<longleftrightarrow>
     tr_objects t' = (tr_objects t)(gvr := objs) \<and> tr_watchers t' = tr_watchers t
     \<and> length (tr_made t') = length (tr_made t)
     \<and> (\<forall>p < length (tr_made t). fw_Stopped (tr_made t' ! p) = fw_Stopped (tr_made t ! p)
         \<and> fw_result (tr_made t' ! p) = fw_result (tr_made t ! p)
           @ replicate (if fw_Stopped (tr_made t ! p) then 0
                        else count_list (getWatches gvr (om_Namespace (meta_of obj)) t) p)
               \<lparr>we_Type = ty, we_Object = WatchObject obj\<rparr>)"

lemma tracker_inv_set:
  "tracker_inv t \<Longrightarrow> distinct (map objectKey objs) \<Longrightarrow> tracker_inv (setObjects gvr objs t)"
  by (simp add: tracker_inv_def)

lemma changed_inv: "changed ty obj gvr objs t t' \<Longrightarrow> tracker_inv t \<Longrightarrow> distinct (map objectKey objs) \<Longrightarrow> tracker_inv t'"
  by (simp add: changed_def tracker_inv_def)

lemma tracker_add_cases:
  assumes "tracker_add gvr obj ns b t = Returns (err, t')" "tracker_inv t"
  defines "obj' \<equiv> (if om_Namespace (meta_of obj) = [] then set_meta (\<lambda>m. m\<lparr>om_Namespace := ns\<rparr>) obj else obj)"
  obtains (refused) "err \<noteq> None" "t' = t"
  | (added) "err = None" "\<not> b" "om_Namespace (meta_of obj') = ns" "objectKey obj' \<notin> objectKey ` set (tr_objects t gvr)"
      "changed WatchAddedType obj' gvr (tr_objects t gvr @ [obj']) t t'" "tracker_inv t'"
  | (updated) "err = None" "b" "om_Namespace (meta_of obj') = ns" "objectKey obj' \<in> objectKey ` set (tr_objects t gvr)"
      "changed WatchModifiedType obj' gvr (replaceFirst obj' (tr_objects t gvr)) t t'" "tracker_inv t'"
proof -
  have ex: "list_ex (\<lambda>old. sameObject old obj') (tr_objects t gvr) \<longleftrightarrow> objectKey obj' \<in> objectKey ` set (tr_objects t gvr)"
    by (auto simp: list_ex_iff sameObject_key image_iff eq_commute [of "objectKey obj'"])
  have def: "obj' = (if length (om_Namespace (meta_of obj)) = 0
      then set_meta (\<lambda>m. m\<lparr>om_Namespace := ns\<rparr>) obj else obj)" by (simp add: obj'_def)
  note add = assms(1) [unfolded tracker_add_def Let_def, folded def]
  have keys: "distinct (map objectKey (tr_objects t gvr))" using assms(2) by (simp add: tracker_inv_def)
  consider (1) "err \<noteq> None" "t' = t"
    | (2) t1 where "err = None" "b" "om_Namespace (meta_of obj') = ns" "objectKey obj' \<in> objectKey ` set (tr_objects t gvr)"
        "notifyWatches WatchModifiedType obj' gvr ns t = Returns t1"
        "t' = setObjects gvr (replaceFirst obj' (tr_objects t1 gvr)) t1"
    | (3) "err = None" "\<not> b" "om_Namespace (meta_of obj') = ns" "objectKey obj' \<notin> objectKey ` set (tr_objects t gvr)"
        "notifyWatches WatchAddedType obj' gvr ns (setObjects gvr (tr_objects t gvr @ [obj']) t) = Returns t'"
    using add by (auto simp: ex obind_Returns_iff split: if_splits)
  then show thesis
  proof cases
    case 1
    then show ?thesis by (rule refused)
  next
    case 2
    note sent = notifyWatches_sent [OF 2(5) assms(2)]
    have "changed WatchModifiedType obj' gvr (replaceFirst obj' (tr_objects t gvr)) t t'"
      using sent 2(3,6) by (simp add: changed_def)
    with changed_inv [OF this assms(2)] keys show ?thesis
      using updated 2(1-4) by (simp add: replaceFirst_keys)
  next
    case 3
    have d: "distinct (map objectKey (tr_objects t gvr @ [obj']))" using keys 3(4) by auto
    note sent = notifyWatches_sent [OF 3(5) tracker_inv_set [OF assms(2) d]]
    have "changed WatchAddedType obj' gvr (tr_objects t gvr @ [obj']) t t'"
      using sent 3(3) by (simp add: changed_def)
    with changed_inv [OF this assms(2) d] show ?thesis using added 3(1-4) by simp
  qed
qed

lemma removeFirst_key:
  "removeFirst ns name objs = Some (x, objs') \<Longrightarrow> objectKey x = (ns, name)"
  by (induction objs arbitrary: objs') (auto simp: objectKey_def split: if_splits)

lemma tracker_Delete_cases:
  assumes "tracker_Delete gvr ns name t = Returns (err, t')" "tracker_inv t"
  obtains (refused) "err \<noteq> None" "t' = t"
  | (deleted) obj objs where "err = None" "objectKey obj = (ns, name)"
      "removeFirst ns name (tr_objects t gvr) = Some (obj, objs)"
      "changed WatchDeletedType obj gvr objs t t'" "tracker_inv t'"
proof (cases "removeFirst ns name (tr_objects t gvr)")
  case None
  with assms(1) show ?thesis by (intro refused) (auto simp: tracker_Delete_def)
next
  case (Some x)
  then obtain obj objs where x: "removeFirst ns name (tr_objects t gvr) = Some (obj, objs)" by (cases x) auto
  have key: "objectKey obj = (ns, name)" by (rule removeFirst_key [OF x])
  have d: "distinct (map objectKey objs)"
    using removeFirst_distinct [OF x] assms(2) by (simp add: tracker_inv_def)
  have "err = None" "notifyWatches WatchDeletedType obj gvr ns (setObjects gvr objs t) = Returns t'"
    using assms(1) x by (auto simp: tracker_Delete_def obind_Returns_iff)
  moreover from notifyWatches_sent [OF this(2) tracker_inv_set [OF assms(2) d]]
  have "changed WatchDeletedType obj gvr objs t t'"
    using key by (simp add: changed_def objectKey_def)
  ultimately show ?thesis using deleted [OF _ key x] changed_inv [OF _ assms(2) d] by blast
qed

section \<open>What the fake clientset does\<close>

lemma goType_kinds:
  "ObjectKinds fakeSchemeValue (goType obj) =
     (case obj of ONotebook n \<Rightarrow> Inr [WithKind SchemeGroupVersion ''Notebook'']
      | _ \<Rightarrow> Inl (PlainError (''no kind is registered for the type '' @ goType obj)))"
proof -
  have "ObjectKinds fakeSchemeValue t = Inl (PlainError (''no kind is registered for the type '' @ t))"
    if "t \<in> {''corev1.Service'', ''corev1.Secret'', ''appsv1.StatefulSet'', ''extensionsv1beta1.Ingress''}" for t
  proof -
    have "list_all (\<lambda>t. filter (\<lambda>e. snd e = t) (gvkToType fakeSchemeValue) = [])
        [''corev1.Service'', ''corev1.Secret'', ''appsv1.StatefulSet'', ''extensionsv1beta1.Ingress'']"
      by code_simp
    with that show ?thesis by (auto simp: ObjectKinds_def)
  qed
  then show ?thesis by (cases obj) (simp_all add: goType_def notebook_kinds)
qed

lemma notebook_resource:
  "UnsafeGuessKindToResource (WithKind SchemeGroupVersion ''Notebook'') =
     WithResource SchemeGroupVersion ''notebooks''"
  by code_simp

lemma notebook_version: "gvr_Version (WithResource SchemeGroupVersion r) = ''v1''"
  by (simp add: WithResource_def SchemeGroupVersion_def)

lemma notebooksResource_foreign: "WithResource SchemeGroupVersion ''notebooks'' \<noteq> notebooksResource"
  by code_simp

lemma NewSimpleClientset_empty:
  assumes "addObjects objs t = Returns t'" "tracker_inv t"
  shows "tr_objects t' notebooksResource = tr_objects t notebooksResource \<and> tracker_inv t'"
  using assms
proof (induction objs arbitrary: t)
  case (Cons obj objs)
  then obtain t1 where add: "tracker_Add fakeSchemeValue obj t = Returns (None, t1)" "addObjects objs t1 = Returns t'"
    by (auto simp: obind_Returns_iff split: option.splits)
  from add(1) obtain n where "obj = ONotebook n"
    by (cases obj) (auto simp: tracker_Add_def goType_kinds)
  with add(1) have "addKinds [WithKind SchemeGroupVersion ''Notebook''] obj t = Returns (None, t1)"
    by (simp add: tracker_Add_def goType_kinds)
  then have "tracker_add (WithResource SchemeGroupVersion ''notebooks'') obj
      (om_Namespace (meta_of obj)) False t = Returns (None, t1)"
    by (auto simp: notebook_resource notebook_version Let_def obind_Returns_iff split: if_splits)
  then have "tr_objects t1 notebooksResource = tr_objects t notebooksResource" "tracker_inv t1"
    using notebooksResource_foreign Cons.prems(2)
    by (auto elim!: tracker_add_cases simp: changed_def)
  with Cons.IH [OF add(2)] show ?case by simp
qed simp

lemma tracker_inv_new: "tracker_inv NewObjectTracker"
  by (simp add: tracker_inv_def NewObjectTracker_def)

lemma notebookList_unknown: "\<exists>err. tracker_List fakeSchemeValue notebooksResource notebooksKind ns t = Inl err"
proof -
  have "isl (SchemeNew fakeSchemeValue (notebooksKind\<lparr>gvk_Kind := ''NotebookList''\<rparr>))"
    by code_simp
  then show ?thesis by (auto simp: tracker_List_def notebooksKind_def isl_def)
qed

text \<open>The fake clientset does not find what it is given: it files the notebooks of
  NewSimpleClientset under the API group and asks for them under the group "jupyter", so Get
  answers NotFound for every one of them, Update refuses them, List fails whatever is stored,
  and DeleteCollection reports success and deletes nothing.\<close>

theorem fake_clientset_blind:
  assumes "NewSimpleClientset objs = Returns t"
  shows "FakeNotebooks_Get ns name t = Returns ((None, Some (notFound notebooksResource name)), t)
     \<and> (\<exists>err. FakeNotebooks_Update ns n t = Returns ((None, Some err), t))
     \<and> (\<exists>err. FakeNotebooks_List label ns t' = Returns ((None, Some err), t'))
     \<and> FakeNotebooks_DeleteCollection ns t' = Returns (None, t')"
proof -
  have empty: "tr_objects t notebooksResource = []"
    using NewSimpleClientset_empty [of objs NewObjectTracker t] assms tracker_inv_new
    by (simp add: NewSimpleClientset_def NewObjectTracker_def)
  have "\<exists>err. FakeNotebooks_List label ns t' = Returns ((None, Some err), t')"
    using notebookList_unknown [of ns t']
    by (auto simp: FakeNotebooks_List_def Invokes_def ObjectReaction_def)
  moreover have "\<exists>err. tracker_add notebooksResource (ONotebook n) ns True t = Returns (Some err, t)"
    using empty by (simp add: tracker_add_def Let_def)
  ultimately show ?thesis
    using empty
    by (auto simp: FakeNotebooks_Get_def FakeNotebooks_Update_def FakeNotebooks_DeleteCollection_def
        fakeInvoke_def Invokes_def ObjectReaction_def tracker_Get_def filterByNamespaceAndName_def
        asNotebook_def readBack_def)
qed

text \<open>What a fake client has created it gets back: after a successful Create in a namespace, a
  Get of that namespace and name answers the notebook with its namespace filled in, and so did
  Create itself.\<close>

theorem fake_create_get:
  assumes "FakeNotebooks_Create ns n t = Returns ((r, None), t')" "tracker_inv t"
    and "ns \<noteq> []" "nb_Name n \<noteq> []"
  defines "m \<equiv> n\<lparr>nb_Meta := (nb_Meta n)\<lparr>om_Namespace := ns\<rparr>\<rparr>"
  shows "r = Some m \<and> FakeNotebooks_Get ns (nb_Name n) t' = Returns ((Some m, None), t') \<and> tracker_inv t'"
proof -
  obtain err where add: "tracker_add notebooksResource (ONotebook n) ns False t = Returns (err, t')"
    and read: "readBack ns (ONotebook n) (err, t') = ((True, Single (ONotebook m), None), t') \<longrightarrow> r = Some m"
    and ok: "err = None"
    using assms(1)
    by (auto simp: FakeNotebooks_Create_def fakeInvoke_def Invokes_def ObjectReaction_def obind_Returns_iff
        readBack_def asNotebook_def split: prod.splits option.splits sum.splits if_splits)
  let ?obj = "if om_Namespace (meta_of (ONotebook n)) = [] then set_meta (\<lambda>m. m\<lparr>om_Namespace := ns\<rparr>) (ONotebook n) else ONotebook n"
  from add assms(2) ok have stored: "om_Namespace (meta_of ?obj) = ns"
    "tr_objects t' notebooksResource = tr_objects t notebooksResource @ [?obj]" "tracker_inv t'"
    by (auto elim!: tracker_add_cases simp: changed_def)
  from stored(1) have "?obj = ONotebook m"
    by (cases "nb_Namespace n = []") (auto simp: m_def)
  with stored assms(3,4) have "tracker_Get notebooksResource ns (nb_Name n) t' = Inr (ONotebook m)"
    by (intro tracker_Get_stored) (auto simp: objectKey_def m_def)
  then show ?thesis
    using read ok stored(3)
    by (simp add: FakeNotebooks_Get_def fakeInvoke_def Invokes_def ObjectReaction_def asNotebook_def readBack_def)
qed

end
