(* ===== verification/Clientset.thy ===== *)
theory Clientset
  imports Client_Scheme
begin

text \<open>
  The generated clientset (pkg/clientset/versioned) and pkg/client: how a client is configured,
  and which REST request each operation on notebooks makes. The request builder is the vendored
  client-go/rest/request.go: every method leaves a request that has an error as it is. A path is
  the list of its segments, on which path.Join drops the empty ones; the segments are checked to
  hold no slash and not to be "." or "..", which is all that Join would otherwise act on. Bodies
  and options are of arbitrary types: \<open>List_Options\<close> has the list options and their encoding into
  query parameters. Sending a request is not modelled.
\<close>

section \<open>Requests\<close>

datatype verb = GET | POST | PUT | DELETE | PATCH

record ('o, 'b) Request =
  rq_verb :: verb
  rq_pathPrefix :: "string list"
  rq_namespaceSet :: bool
  rq_namespace :: string
  rq_resource :: string
  rq_resourceName :: string
  rq_subresource :: "string list"
  rq_params :: "'o option"
  rq_body :: "'b option"
  rq_err :: "go_error option"

definition pathJoin :: "string list \<Rightarrow> string list" where
  "pathJoin segs = filter (\<lambda>s. s \<noteq> []) segs"

definition NewRequest :: "verb \<Rightarrow> string list \<Rightarrow> ('o, 'b) Request" where
  "NewRequest v versionedAPIPath =
     \<lparr>rq_verb = v, rq_pathPrefix = pathJoin versionedAPIPath, rq_namespaceSet = False,
      rq_namespace = [], rq_resource = [], rq_resourceName = [], rq_subresource = [],
      rq_params = None, rq_body = None, rq_err = None\<rparr>"

definition quoted :: "string \<Rightarrow> string" where
  "quoted s = [CHR 0x27] @ s @ [CHR 0x27]"

definition IsValidPathSegmentName :: "string \<Rightarrow> string list" where
  "IsValidPathSegmentName name =
     (if name = ''.'' then [''may not be '' @ quoted ''.'']
      else if name = ''..'' then [''may not be '' @ quoted ''..'']
      else (if CHR ''/'' \<in> set name then [''may not contain '' @ quoted ''/''] else []) @
           (if CHR ''%'' \<in> set name then [''may not contain '' @ quoted ''%''] else []))"

definition rq_Namespace :: "string \<Rightarrow> ('o, 'b) Request \<Rightarrow> ('o, 'b) Request" where
  "rq_Namespace namespace r =
     (if rq_err r \<noteq> None then r
      else if rq_namespaceSet r then r\<lparr>rq_err := Some (PlainError ''namespace already set'')\<rparr>
      else if IsValidPathSegmentName namespace \<noteq> []
      then r\<lparr>rq_err := Some (PlainError ''invalid namespace'')\<rparr>
      else r\<lparr>rq_namespaceSet := True, rq_namespace := namespace\<rparr>)"

definition rq_Resource :: "string \<Rightarrow> ('o, 'b) Request \<Rightarrow> ('o, 'b) Request" where
  "rq_Resource resource r =
     (if rq_err r \<noteq> None then r
      else if length (rq_resource r) \<noteq> 0 then r\<lparr>rq_err := Some (PlainError ''resource already set'')\<rparr>
      else if IsValidPathSegmentName resource \<noteq> []
      then r\<lparr>rq_err := Some (PlainError ''invalid resource'')\<rparr>
      else r\<lparr>rq_resource := resource\<rparr>)"

definition rq_Name :: "string \<Rightarrow> ('o, 'b) Request \<Rightarrow> ('o, 'b) Request" where
  "rq_Name resourceName r =
     (if rq_err r \<noteq> None then r
      else if length resourceName = 0
      then r\<lparr>rq_err := Some (PlainError ''resource name may not be empty'')\<rparr>
      else if length (rq_resourceName r) \<noteq> 0
      then r\<lparr>rq_err := Some (PlainError ''resource name already set'')\<rparr>
      else if IsValidPathSegmentName resourceName \<noteq> []
      then r\<lparr>rq_err := Some (PlainError ''invalid resource name'')\<rparr>
      else r\<lparr>rq_resourceName := resourceName\<rparr>)"

definition rq_SubResource :: "string list \<Rightarrow> ('o, 'b) Request \<Rightarrow> ('o, 'b) Request" where
  "rq_SubResource subresources r =
     (if rq_err r \<noteq> None then r
      else if length (rq_subresource r) \<noteq> 0
      then r\<lparr>rq_err := Some (PlainError ''subresource already set'')\<rparr>
      else if list_ex (\<lambda>s. IsValidPathSegmentName s \<noteq> []) subresources
      then r\<lparr>rq_err := Some (PlainError ''invalid subresource'')\<rparr>
      else r\<lparr>rq_subresource := pathJoin subresources\<rparr>)"

definition rq_VersionedParams :: "'o \<Rightarrow> ('o, 'b) Request \<Rightarrow> ('o, 'b) Request" where
  "rq_VersionedParams opts r = (if rq_err r \<noteq> None then r else r\<lparr>rq_params := Some opts\<rparr>)"

text \<open>A nil object leaves a request without a body.\<close>

definition rq_Body :: "'b option \<Rightarrow> ('o, 'b) Request \<Rightarrow> ('o, 'b) Request" where
  "rq_Body obj r =
     (if rq_err r \<noteq> None then r
      else case obj of None \<Rightarrow> r | Some b \<Rightarrow> r\<lparr>rq_body := Some b\<rparr>)"

definition rq_URL :: "('o, 'b) Request \<Rightarrow> string list" where
  "rq_URL r =
     (let p = rq_pathPrefix r;
          p1 = (if rq_namespaceSet r \<and> length (rq_namespace r) > 0
                then pathJoin (p @ [''namespaces'', rq_namespace r]) else p);
          p2 = (if length (rq_resource r) \<noteq> 0 then pathJoin (p1 @ [rq_resource r]) else p1)
      in if length (rq_resourceName r) \<noteq> 0 \<or> length (rq_subresource r) \<noteq> 0
         then pathJoin (p2 @ [rq_resourceName r] @ rq_subresource r) else p2)"

section \<open>The notebook client\<close>

text \<open>Options of the request ('o) and its body: a notebook, delete options or patch data.\<close>

datatype ('n, 'd, 'p) body = NotebookBody 'n | OptionsBody 'd | PatchBody 'p

record rest_client =
  apiPath :: "string list"

definition jupyterRESTClient :: rest_client where
  "jupyterRESTClient =
     \<lparr>apiPath = [''apis'', gv_Group SchemeGroupVersion, gv_Version SchemeGroupVersion]\<rparr>"

record notebooks =
  nbs_client :: rest_client
  nbs_ns :: string

definition newNotebooks :: "rest_client \<Rightarrow> string \<Rightarrow> notebooks" where
  "newNotebooks c namespace = \<lparr>nbs_client = c, nbs_ns = namespace\<rparr>"

definition JupyterV1_Notebooks :: "rest_client \<Rightarrow> string \<Rightarrow> notebooks" where
  "JupyterV1_Notebooks c namespace = newNotebooks c namespace"

definition notebooks_Get :: "notebooks \<Rightarrow> string \<Rightarrow> 'o \<Rightarrow> ('o, 'b) Request" where
  "notebooks_Get c name options =
     rq_VersionedParams options (rq_Name name (rq_Resource ''notebooks''
       (rq_Namespace (nbs_ns c) (NewRequest GET (apiPath (nbs_client c))))))"

definition notebooks_List :: "notebooks \<Rightarrow> 'o \<Rightarrow> ('o, 'b) Request" where
  "notebooks_List c opts =
     rq_VersionedParams opts (rq_Resource ''notebooks''
       (rq_Namespace (nbs_ns c) (NewRequest GET (apiPath (nbs_client c)))))"

text \<open>Watch sets the Watch flag of its options; \<open>setWatch\<close> is that assignment.\<close>

definition notebooks_Watch :: "('o \<Rightarrow> 'o) \<Rightarrow> notebooks \<Rightarrow> 'o \<Rightarrow> ('o, 'b) Request" where
  "notebooks_Watch setWatch c opts =
     rq_VersionedParams (setWatch opts) (rq_Resource ''notebooks''
       (rq_Namespace (nbs_ns c) (NewRequest GET (apiPath (nbs_client c)))))"

definition notebooks_Create :: "notebooks \<Rightarrow> Notebook \<Rightarrow> ('o, (Notebook, 'd, 'p) body) Request" where
  "notebooks_Create c notebook =
     rq_Body (Some (NotebookBody notebook)) (rq_Resource ''notebooks''
       (rq_Namespace (nbs_ns c) (NewRequest POST (apiPath (nbs_client c)))))"

definition notebooks_Update :: "notebooks \<Rightarrow> Notebook \<Rightarrow> ('o, (Notebook, 'd, 'p) body) Request" where
  "notebooks_Update c notebook =
     rq_Body (Some (NotebookBody notebook)) (rq_Name (nb_Name notebook) (rq_Resource ''notebooks''
       (rq_Namespace (nbs_ns c) (NewRequest PUT (apiPath (nbs_client c))))))"

definition notebooks_UpdateStatus :: "notebooks \<Rightarrow> Notebook \<Rightarrow> ('o, (Notebook, 'd, 'p) body) Request" where
  "notebooks_UpdateStatus c notebook =
     rq_Body (Some (NotebookBody notebook)) (rq_SubResource [''status''] (rq_Name (nb_Name notebook)
       (rq_Resource ''notebooks''
         (rq_Namespace (nbs_ns c) (NewRequest PUT (apiPath (nbs_client c)))))))"

definition notebooks_Delete :: "notebooks \<Rightarrow> string \<Rightarrow> 'd option \<Rightarrow> ('o, ('n, 'd, 'p) body) Request" where
  "notebooks_Delete c name options =
     rq_Body (map_option OptionsBody options) (rq_Name name (rq_Resource ''notebooks''
       (rq_Namespace (nbs_ns c) (NewRequest DELETE (apiPath (nbs_client c))))))"

definition notebooks_DeleteCollection ::
  "notebooks \<Rightarrow> 'd option \<Rightarrow> 'o \<Rightarrow> ('o, ('n, 'd, 'p) body) Request" where
  "notebooks_DeleteCollection c options listOptions =
     rq_Body (map_option OptionsBody options) (rq_VersionedParams listOptions (rq_Resource ''notebooks''
       (rq_Namespace (nbs_ns c) (NewRequest DELETE (apiPath (nbs_client c))))))"

definition notebooks_Patch ::
  "notebooks \<Rightarrow> string \<Rightarrow> 'p \<Rightarrow> string list \<Rightarrow> ('o, ('n, 'd, 'p) body) Request" where
  "notebooks_Patch c name data subresources =
     rq_Body (Some (PatchBody data)) (rq_Name name (rq_SubResource subresources (rq_Resource ''notebooks''
       (rq_Namespace (nbs_ns c) (NewRequest PATCH (apiPath (nbs_client c)))))))"

section \<open>Configuring the clients\<close>

text \<open>
  Of rest.Config, what the clients read and set. What makes a REST or discovery client of it, and
  what makes a rate limiter, are parameters.
\<close>

record 'l RestConfig =
  rc_GroupVersion :: "GroupVersion option"
  rc_APIPath :: string
  rc_ContentType :: string
  rc_Serializer :: "Scheme option"
  rc_UserAgent :: string
  rc_QPS :: int
  rc_Burst :: int
  rc_RateLimiter :: "'l option"

definition setConfigDefaults :: "string \<Rightarrow> 'l RestConfig \<Rightarrow> 'l RestConfig" where
  "setConfigDefaults defaultUserAgent config =
     (let config1 = config\<lparr>rc_GroupVersion := Some SchemeGroupVersion, rc_APIPath := ''/apis'',
                           rc_Serializer := Some fakeSchemeValue\<rparr>
      in if rc_UserAgent config1 = [] then config1\<lparr>rc_UserAgent := defaultUserAgent\<rparr> else config1)"

definition JupyterV1_NewForConfig ::
  "('l RestConfig \<Rightarrow> go_error + 'r) \<Rightarrow> string \<Rightarrow> 'l RestConfig \<Rightarrow> go_error + 'r" where
  "JupyterV1_NewForConfig RESTClientFor userAgent c = RESTClientFor (setConfigDefaults userAgent c)"

definition JupyterV1_NewForConfigOrDie ::
  "('l RestConfig \<Rightarrow> go_error + 'r) \<Rightarrow> string \<Rightarrow> 'l RestConfig \<Rightarrow> 'r outcome" where
  "JupyterV1_NewForConfigOrDie RESTClientFor userAgent c =
     (case JupyterV1_NewForConfig RESTClientFor userAgent c of
        Inl err \<Rightarrow> Panics (Error err) | Inr client \<Rightarrow> Returns client)"

definition JupyterV1_New :: "'r \<Rightarrow> 'r" where
  "JupyterV1_New c = c"

text \<open>RESTClient and Discovery answer nil on a nil receiver, the other accessors panic.\<close>

definition JupyterV1_RESTClient :: "'r option \<Rightarrow> 'r option" where
  "JupyterV1_RESTClient c = (case c of None \<Rightarrow> None | Some client \<Rightarrow> Some client)"

record ('r, 'e) Clientset =
  cs_DiscoveryClient :: 'e
  cs_jupyterV1 :: 'r

definition Clientset_JupyterV1 :: "('r, 'e) Clientset option \<Rightarrow> 'r outcome" where
  "Clientset_JupyterV1 c = obind (deref c) (\<lambda>cs. Returns (cs_jupyterV1 cs))"

definition Clientset_Jupyter :: "('r, 'e) Clientset option \<Rightarrow> 'r outcome" where
  "Clientset_Jupyter c = obind (deref c) (\<lambda>cs. Returns (cs_jupyterV1 cs))"

definition Clientset_Discovery :: "('r, 'e) Clientset option \<Rightarrow> 'e option" where
  "Clientset_Discovery c = (case c of None \<Rightarrow> None | Some cs \<Rightarrow> Some (cs_DiscoveryClient cs))"

definition Clientset_New :: "('r \<Rightarrow> 'e) \<Rightarrow> 'r \<Rightarrow> ('r, 'e) Clientset" where
  "Clientset_New NewDiscoveryClient c =
     \<lparr>cs_DiscoveryClient = NewDiscoveryClient c, cs_jupyterV1 = JupyterV1_New c\<rparr>"

definition Clientset_NewForConfig ::
  "('l RestConfig \<Rightarrow> go_error + 'r) \<Rightarrow> ('l RestConfig \<Rightarrow> go_error + 'e) \<Rightarrow> (int \<Rightarrow> int \<Rightarrow> 'l) \<Rightarrow> string \<Rightarrow>
     'l RestConfig \<Rightarrow> go_error + ('r, 'e) Clientset" where
  "Clientset_NewForConfig RESTClientFor NewDiscovery NewLimiter userAgent c =
     (let copy = (if rc_RateLimiter c = None \<and> rc_QPS c > 0
                  then c\<lparr>rc_RateLimiter := Some (NewLimiter (rc_QPS c) (rc_Burst c))\<rparr> else c)
      in case JupyterV1_NewForConfig RESTClientFor userAgent copy of
           Inl err \<Rightarrow> Inl err
         | Inr jupyterV1 \<Rightarrow>
             (case NewDiscovery copy of
                Inl err \<Rightarrow> Inl err
              | Inr discovery \<Rightarrow> Inr \<lparr>cs_DiscoveryClient = discovery, cs_jupyterV1 = jupyterV1\<rparr>))"

definition Clientset_NewForConfigOrDie ::
  "('l RestConfig \<Rightarrow> go_error + 'r) \<Rightarrow> ('l RestConfig \<Rightarrow> go_error + 'e) \<Rightarrow> string \<Rightarrow>
     'l RestConfig \<Rightarrow> ('r, 'e) Clientset outcome" where
  "Clientset_NewForConfigOrDie RESTClientFor NewDiscovery userAgent c =
     (case JupyterV1_NewForConfigOrDie RESTClientFor userAgent c of
        Panics m \<Rightarrow> Panics m
      | Returns jupyterV1 \<Rightarrow>
          (case NewDiscovery c of
             Inl err \<Rightarrow> Panics (Error err)
           | Inr discovery \<Rightarrow> Returns \<lparr>cs_DiscoveryClient = discovery, cs_jupyterV1 = jupyterV1\<rparr>))"

text \<open>
  New of pkg/client: the configuration every client of the operator is made from. A failure to
  read it, or to register the notebook API, ends the process.
\<close>

definition clientConfig :: "(string \<Rightarrow> go_error + 'l RestConfig) \<Rightarrow> string \<Rightarrow> 'l RestConfig outcome" where
  "clientConfig BuildConfigFromFlags path =
     (case BuildConfigFromFlags path of
        Inl err \<Rightarrow> Panics (Error err)
      | Inr config \<Rightarrow>
          (case addKnownTypes NewScheme of
             Panics m \<Rightarrow> Panics m
           | Returns scheme \<Rightarrow>
               Returns (config\<lparr>rc_GroupVersion := Some SchemeGroupVersion, rc_APIPath := ''/apis'',
                 rc_ContentType := ''application/json'', rc_Serializer := Some scheme\<rparr>)))"

text \<open>
  New of pkg/client and its accessors. The clients of Kubernetes ('k) and of custom resource
  definitions ('x) are made by functions that panic on an error, as the versioned clientset is;
  the plain REST client ends the process instead. The configuration is read only.
\<close>

record ('l, 'k, 'x, 'r, 'e) client =
  cl_config :: "'l RestConfig"
  cl_kubernetes :: 'k
  cl_extensions :: 'x
  cl_rest :: 'r
  cl_versioned :: "('r, 'e) Clientset"

definition newRESTClientForConfigOrDie ::
  "('l RestConfig \<Rightarrow> go_error + 'r) \<Rightarrow> 'l RestConfig \<Rightarrow> 'r outcome" where
  "newRESTClientForConfigOrDie RESTClientFor config =
     (case RESTClientFor config of Inl err \<Rightarrow> Panics (Error err) | Inr client \<Rightarrow> Returns client)"

definition NewClient ::
  "(string \<Rightarrow> go_error + 'l RestConfig) \<Rightarrow> ('l RestConfig \<Rightarrow> 'k outcome) \<Rightarrow> ('l RestConfig \<Rightarrow> 'x outcome) \<Rightarrow>
     ('l RestConfig \<Rightarrow> go_error + 'r) \<Rightarrow> ('l RestConfig \<Rightarrow> go_error + 'e) \<Rightarrow> string \<Rightarrow> string \<Rightarrow>
     ('l, 'k, 'x, 'r, 'e) client outcome" where
  "NewClient BuildConfigFromFlags NewKubernetes NewExtensions RESTClientFor NewDiscovery userAgent path =
     obind (clientConfig BuildConfigFromFlags path) (\<lambda>config.
     obind (NewKubernetes config) (\<lambda>kubernetes.
     obind (NewExtensions config) (\<lambda>extensions.
     obind (newRESTClientForConfigOrDie RESTClientFor config) (\<lambda>rest.
     obind (Clientset_NewForConfigOrDie RESTClientFor NewDiscovery userAgent config) (\<lambda>versioned.
       Returns \<lparr>cl_config = config, cl_kubernetes = kubernetes, cl_extensions = extensions,
                cl_rest = rest, cl_versioned = versioned\<rparr>)))))"

definition APIExtensionsInterface :: "('l, 'k, 'x, 'r, 'e) client \<Rightarrow> 'x" where
  "APIExtensionsInterface c = cl_extensions c"

definition RESTClientInterface :: "('l, 'k, 'x, 'r, 'e) client \<Rightarrow> 'r" where
  "RESTClientInterface c = cl_rest c"

definition VersionedInterface :: "('l, 'k, 'x, 'r, 'e) client \<Rightarrow> ('r, 'e) Clientset" where
  "VersionedInterface c = cl_versioned c"

section \<open>Where requests go\<close>

text \<open>The operations of the client in one type; Watch addresses what List addresses.\<close>

datatype 'p operation =
    OpGet string
  | OpList
  | OpCreate Notebook
  | OpUpdate Notebook
  | OpUpdateStatus Notebook
  | OpDelete string
  | OpDeleteCollection
  | OpPatch string 'p "string list"

fun requestOf :: "string \<Rightarrow> 'd option \<Rightarrow> 'o \<Rightarrow> 'p operation \<Rightarrow> ('o, (Notebook, 'd, 'p) body) Request" where
  "requestOf ns d opts (OpGet name) = notebooks_Get (newNotebooks jupyterRESTClient ns) name opts"
| "requestOf ns d opts OpList = notebooks_List (newNotebooks jupyterRESTClient ns) opts"
| "requestOf ns d opts (OpCreate n) = notebooks_Create (newNotebooks jupyterRESTClient ns) n"
| "requestOf ns d opts (OpUpdate n) = notebooks_Update (newNotebooks jupyterRESTClient ns) n"
| "requestOf ns d opts (OpUpdateStatus n) =
     notebooks_UpdateStatus (newNotebooks jupyterRESTClient ns) n"
| "requestOf ns d opts (OpDelete name) = notebooks_Delete (newNotebooks jupyterRESTClient ns) name d"
| "requestOf ns d opts OpDeleteCollection =
     notebooks_DeleteCollection (newNotebooks jupyterRESTClient ns) d opts"
| "requestOf ns d opts (OpPatch name p subs) =
     notebooks_Patch (newNotebooks jupyterRESTClient ns) name p subs"

fun nameOf :: "'p operation \<Rightarrow> string option" where
  "nameOf (OpGet name) = Some name"
| "nameOf (OpUpdate n) = Some (nb_Name n)"
| "nameOf (OpUpdateStatus n) = Some (nb_Name n)"
| "nameOf (OpDelete name) = Some name"
| "nameOf (OpPatch name p subs) = Some name"
| "nameOf _ = None"

fun subsOf :: "'p operation \<Rightarrow> string list" where
  "subsOf (OpUpdateStatus n) = [''status'']"
| "subsOf (OpPatch name p subs) = subs"
| "subsOf _ = []"

fun verbOf :: "'p operation \<Rightarrow> verb" where
  "verbOf (OpGet name) = GET"
| "verbOf OpList = GET"
| "verbOf (OpCreate n) = POST"
| "verbOf (OpUpdate n) = PUT"
| "verbOf (OpUpdateStatus n) = PUT"
| "verbOf (OpDelete name) = DELETE"
| "verbOf OpDeleteCollection = DELETE"
| "verbOf (OpPatch name p subs) = PATCH"

definition segment :: "string \<Rightarrow> bool" where
  "segment s \<longleftrightarrow> s \<noteq> ''.'' \<and> s \<noteq> ''..'' \<and> CHR ''/'' \<notin> set s \<and> CHR ''%'' \<notin> set s"

lemma valid_segment [simp]: "IsValidPathSegmentName s = [] \<longleftrightarrow> segment s"
  by (auto simp: IsValidPathSegmentName_def segment_def quoted_def)

lemma segment_consts [simp]: "segment ''notebooks''" "segment ''status''"
  by (simp_all add: segment_def)

definition addressed :: "string \<Rightarrow> 'p operation \<Rightarrow> bool" where
  "addressed ns op \<longleftrightarrow> segment ns \<and> list_all segment (subsOf op)
     \<and> (case nameOf op of None \<Rightarrow> True | Some name \<Rightarrow> name \<noteq> [] \<and> segment name)"

definition urlOf :: "string \<Rightarrow> 'p operation \<Rightarrow> string list" where
  "urlOf ns op = [''apis'', GroupName, ''v1''] @ (if ns = [] then [] else [''namespaces'', ns])
     @ [''notebooks''] @ (case nameOf op of None \<Rightarrow> [] | Some name \<Rightarrow> name # pathJoin (subsOf op))"

lemma no_name: "nameOf op = None \<Longrightarrow> subsOf op = []"
  by (cases op) auto

lemmas request_defs = notebooks_Get_def notebooks_List_def notebooks_Create_def notebooks_Update_def
  notebooks_UpdateStatus_def notebooks_Delete_def notebooks_DeleteCollection_def notebooks_Patch_def
  newNotebooks_def jupyterRESTClient_def NewRequest_def rq_Namespace_def rq_Resource_def rq_Name_def
  rq_SubResource_def rq_VersionedParams_def rq_Body_def

lemma GroupName_ne [simp]: "GroupName \<noteq> []"
  by (simp add: GroupName_def)

lemma pathJoin_simps [simp]:
  "pathJoin [] = []" "pathJoin (s # ss) = (if s = [] then pathJoin ss else s # pathJoin ss)"
  "pathJoin (ss @ ts) = pathJoin ss @ pathJoin ts"
  "pathJoin (pathJoin ss) = pathJoin ss"
  by (simp_all add: pathJoin_def)

definition target :: "string option \<Rightarrow> string list \<Rightarrow> string list" where
  "target name subs = (case name of None \<Rightarrow> [] | Some n \<Rightarrow> n # pathJoin subs)"

lemma request_sent:
  "rq_err (requestOf ns d opts op) = None \<longleftrightarrow> addressed ns op"
  "addressed ns op \<Longrightarrow> rq_URL (requestOf ns d opts op) = urlOf ns op \<and> rq_verb (requestOf ns d opts op) = verbOf op"
proof -
  have subs: "list_ex (\<lambda>s. \<not> segment s) subs \<longleftrightarrow> \<not> list_all segment subs" for subs
    by (auto simp: list_ex_iff list_all_iff)
  have "(rq_err (requestOf ns d opts op) = None \<longleftrightarrow> addressed ns op)
   \<and> (addressed ns op \<longrightarrow> rq_URL (requestOf ns d opts op) = urlOf ns op
        \<and> rq_verb (requestOf ns d opts op) = verbOf op)"
    by (cases op; cases "segment ns"; cases d)
      (auto simp: request_defs addressed_def urlOf_def rq_URL_def SchemeGroupVersion_def subs Let_def
        split: if_splits)
  then show "rq_err (requestOf ns d opts op) = None \<longleftrightarrow> addressed ns op"
    "addressed ns op \<Longrightarrow> rq_URL (requestOf ns d opts op) = urlOf ns op \<and> rq_verb (requestOf ns d opts op) = verbOf op"
    by blast+
qed


text \<open>Requests are unambiguous: two that are sent with the same verb to the same address operate
  on the same namespace, the same notebook (or both on the collection) and the same subresource.\<close>

theorem request_unambiguous:
  assumes "rq_err (requestOf ns d opts op) = None" "rq_err (requestOf ns' d' opts' op') = None"
    and "rq_verb (requestOf ns d opts op) = rq_verb (requestOf ns' d' opts' op')"
    and "rq_URL (requestOf ns d opts op) = rq_URL (requestOf ns' d' opts' op')"
  shows "ns = ns' \<and> nameOf op = nameOf op' \<and> pathJoin (subsOf op) = pathJoin (subsOf op')"
proof -
  have "addressed ns op" "addressed ns' op'" using assms(1,2) by (simp_all add: request_sent(1))
  with assms(4) have "urlOf ns op = urlOf ns' op'" by (simp add: request_sent(2))
  then have "(if ns = [] then [] else [''namespaces'', ns]) @ ''notebooks'' # target (nameOf op) (subsOf op)
      = (if ns' = [] then [] else [''namespaces'', ns']) @ ''notebooks'' # target (nameOf op') (subsOf op')"
    by (simp add: urlOf_def target_def)
  then have "ns = ns' \<and> target (nameOf op) (subsOf op) = target (nameOf op') (subsOf op')"
    by (simp split: if_splits)
  then show ?thesis
    using no_name [of op] no_name [of op'] by (simp add: target_def split: option.splits)
qed

end
