(* ===== verification/Thread_Safe_Store.thy ===== *)
theory Thread_Safe_Store
  imports Handlers
begin

text \<open>
  The store of an informer: the thread safe map of the vendored client-go (tools/cache) with its
  indices, the cache that computes its keys, and the generated notebook lister over it
  (pkg/listers/jupyter/v1). Go maps are association lists, whose order stands for the order in
  which Go happens to visit them.
\<close>

section \<open>Indices\<close>

text \<open>An index function sees the metadata of the value it is given, where there is any.\<close>

type_synonym IndexFunc = "ObjectMeta option \<Rightarrow> go_error + string list"
type_synonym Index = "(string \<times> string list) list"

definition MetaNamespaceIndexFunc :: IndexFunc where
  "MetaNamespaceIndexFunc meta =
     (case meta of
        None \<Rightarrow> Inl (PlainError ''object has no meta: object does not implement the Object interfaces'')
      | Some m \<Rightarrow> Inr [om_Namespace m])"

definition NamespaceIndex :: string where
  "NamespaceIndex = ''namespace''"

record threadSafeMap =
  tsm_items :: "(string \<times> iface) list"
  tsm_indexers :: "(string \<times> IndexFunc) list"
  tsm_indices :: "(string \<times> Index) list"

definition indexSet :: "Index \<Rightarrow> string \<Rightarrow> string list" where
  "indexSet index value = (case map_of index value of None \<Rightarrow> [] | Some keys \<Rightarrow> keys)"

definition indexOf :: "(string \<times> Index) list \<Rightarrow> string \<Rightarrow> Index" where
  "indexOf indices name = (case map_of indices name of None \<Rightarrow> [] | Some index \<Rightarrow> index)"

primrec insertKey :: "string \<Rightarrow> string list \<Rightarrow> Index \<Rightarrow> Index" where
  "insertKey key [] index = index"
| "insertKey key (value # vals) index =
     insertKey key vals (mput value (List.insert key (indexSet index value)) index)"

primrec removeKey :: "string \<Rightarrow> string list \<Rightarrow> Index \<Rightarrow> Index" where
  "removeKey key [] index = index"
| "removeKey key (value # vals) index =
     removeKey key vals
       (case map_of index value of
          None \<Rightarrow> index
        | Some keys \<Rightarrow> mput value (removeAll key keys) index)"

definition indexPanic :: "string \<Rightarrow> string \<Rightarrow> go_error \<Rightarrow> string" where
  "indexPanic key name err =
     ''unable to calculate an index entry for key '' @ Quote key @ '' on index '' @ Quote name
       @ '': '' @ Error err"

fun deleteFromIndices ::
  "(string \<times> IndexFunc) list \<Rightarrow> iface \<Rightarrow> string \<Rightarrow> (string \<times> Index) list \<Rightarrow>
     (string \<times> Index) list outcome" where
  "deleteFromIndices [] obj key indices = Returns indices"
| "deleteFromIndices ((name, indexFunc) # indexers) obj key indices =
     (case indexFunc (asMetaObject obj) of
        Inl err \<Rightarrow> Panics (indexPanic key name err)
      | Inr vals \<Rightarrow>
          deleteFromIndices indexers obj key
            (case map_of indices name of
               None \<Rightarrow> indices
             | Some index \<Rightarrow> mput name (removeKey key vals index) indices))"

fun insertIntoIndices ::
  "(string \<times> IndexFunc) list \<Rightarrow> iface \<Rightarrow> string \<Rightarrow> (string \<times> Index) list \<Rightarrow>
     (string \<times> Index) list outcome" where
  "insertIntoIndices [] obj key indices = Returns indices"
| "insertIntoIndices ((name, indexFunc) # indexers) obj key indices =
     (case indexFunc (asMetaObject obj) of
        Inl err \<Rightarrow> Panics (indexPanic key name err)
      | Inr vals \<Rightarrow>
          insertIntoIndices indexers obj key
            (mput name (insertKey key vals (indexOf indices name)) indices))"

definition updateIndices ::
  "iface option \<Rightarrow> iface \<Rightarrow> string \<Rightarrow> threadSafeMap \<Rightarrow> (string \<times> Index) list outcome" where
  "updateIndices oldObj newObj key c =
     obind (case oldObj of
              None \<Rightarrow> Returns (tsm_indices c)
            | Some old \<Rightarrow> deleteFromIndices (tsm_indexers c) old key (tsm_indices c))
       (insertIntoIndices (tsm_indexers c) newObj key)"

section \<open>The thread safe map\<close>

definition NewThreadSafeStore :: "(string \<times> IndexFunc) list \<Rightarrow> threadSafeMap" where
  "NewThreadSafeStore indexers = \<lparr>tsm_items = [], tsm_indexers = indexers, tsm_indices = []\<rparr>"

definition tsm_Add :: "string \<Rightarrow> iface \<Rightarrow> threadSafeMap \<Rightarrow> threadSafeMap outcome" where
  "tsm_Add key obj c =
     obind (updateIndices (map_of (tsm_items c) key) obj key c)
       (\<lambda>indices. Returns (c\<lparr>tsm_items := mput key obj (tsm_items c), tsm_indices := indices\<rparr>))"

definition tsm_Update :: "string \<Rightarrow> iface \<Rightarrow> threadSafeMap \<Rightarrow> threadSafeMap outcome" where
  "tsm_Update key obj c =
     obind (updateIndices (map_of (tsm_items c) key) obj key c)
       (\<lambda>indices. Returns (c\<lparr>tsm_items := mput key obj (tsm_items c), tsm_indices := indices\<rparr>))"

definition tsm_Delete :: "string \<Rightarrow> threadSafeMap \<Rightarrow> threadSafeMap outcome" where
  "tsm_Delete key c =
     (case map_of (tsm_items c) key of
        None \<Rightarrow> Returns c
      | Some obj \<Rightarrow>
          obind (deleteFromIndices (tsm_indexers c) obj key (tsm_indices c))
            (\<lambda>indices. Returns
               (c\<lparr>tsm_items := AList.delete key (tsm_items c), tsm_indices := indices\<rparr>)))"

definition tsm_Get :: "string \<Rightarrow> threadSafeMap \<Rightarrow> iface option" where
  "tsm_Get key c = map_of (tsm_items c) key"

definition tsm_List :: "threadSafeMap \<Rightarrow> iface list" where
  "tsm_List c = map snd (tsm_items c)"

definition tsm_ListKeys :: "threadSafeMap \<Rightarrow> string list" where
  "tsm_ListKeys c = map fst (tsm_items c)"

fun rebuild :: "(string \<times> iface) list \<Rightarrow> threadSafeMap \<Rightarrow> threadSafeMap outcome" where
  "rebuild [] c = Returns c"
| "rebuild ((key, item) # items) c =
     obind (updateIndices None item key c) (\<lambda>indices. rebuild items (c\<lparr>tsm_indices := indices\<rparr>))"

definition tsm_Replace :: "(string \<times> iface) list \<Rightarrow> threadSafeMap \<Rightarrow> threadSafeMap outcome" where
  "tsm_Replace items c = rebuild items (c\<lparr>tsm_items := items, tsm_indices := []\<rparr>)"

text \<open>A key of the index without an item reads the nil interface.\<close>

definition itemAt :: "threadSafeMap \<Rightarrow> string \<Rightarrow> iface" where
  "itemAt c key = (case map_of (tsm_items c) key of None \<Rightarrow> IOther ''nil'' | Some item \<Rightarrow> item)"

definition tsm_Index :: "string \<Rightarrow> ObjectMeta option \<Rightarrow> threadSafeMap \<Rightarrow> go_error + iface list" where
  "tsm_Index indexName meta c =
     (case map_of (tsm_indexers c) indexName of
        None \<Rightarrow> Inl (PlainError (''Index with name '' @ indexName @ '' does not exist''))
      | Some indexFunc \<Rightarrow>
          (case indexFunc meta of
             Inl err \<Rightarrow> Inl err
           | Inr indexKeys \<Rightarrow>
               Inr (map (itemAt c)
                 (remdups (concat (map (indexSet (indexOf (tsm_indices c) indexName)) indexKeys))))))"

section \<open>The cache\<close>

text \<open>
  NewIndexer with the key function of the shared informers. A failing key function is an error,
  whose message leaves out the object it is about; no other operation of the cache has one.
\<close>

definition KeyError :: "go_error \<Rightarrow> go_error" where
  "KeyError err = wrapErr (''couldn'' @ [CHR 0x27] @ ''t create key for object'') err"

definition cache_Add :: "iface \<Rightarrow> threadSafeMap \<Rightarrow> (go_error + threadSafeMap) outcome" where
  "cache_Add obj c =
     (case DeletionHandlingMetaNamespaceKeyFunc obj of
        Inl err \<Rightarrow> Returns (Inl (KeyError err))
      | Inr key \<Rightarrow> obind (tsm_Add key obj c) (\<lambda>c'. Returns (Inr c')))"

definition cache_Update :: "iface \<Rightarrow> threadSafeMap \<Rightarrow> (go_error + threadSafeMap) outcome" where
  "cache_Update obj c =
     (case DeletionHandlingMetaNamespaceKeyFunc obj of
        Inl err \<Rightarrow> Returns (Inl (KeyError err))
      | Inr key \<Rightarrow> obind (tsm_Update key obj c) (\<lambda>c'. Returns (Inr c')))"

definition cache_Delete :: "iface \<Rightarrow> threadSafeMap \<Rightarrow> (go_error + threadSafeMap) outcome" where
  "cache_Delete obj c =
     (case DeletionHandlingMetaNamespaceKeyFunc obj of
        Inl err \<Rightarrow> Returns (Inl (KeyError err))
      | Inr key \<Rightarrow> obind (tsm_Delete key c) (\<lambda>c'. Returns (Inr c')))"

definition cache_Get :: "iface \<Rightarrow> threadSafeMap \<Rightarrow> go_error + iface option" where
  "cache_Get obj c =
     (case DeletionHandlingMetaNamespaceKeyFunc obj of
        Inl err \<Rightarrow> Inl (KeyError err)
      | Inr key \<Rightarrow> Inr (tsm_Get key c))"

section \<open>Listers\<close>

text \<open>
  ListAll and its loop: the accessor's error ends it, and what the selector takes is appended as a
  notebook, which panics on anything else.
\<close>

primrec appendMatching ::
  "(string gomap \<Rightarrow> bool) \<Rightarrow> iface list \<Rightarrow> Notebook list \<Rightarrow> (Notebook list \<times> go_error option) outcome" where
  "appendMatching selector [] ret = Returns (ret, None)"
| "appendMatching selector (m # ms) ret =
     (case asMetaObject m of
        None \<Rightarrow> Returns (ret, Some (PlainError ''object does not implement the Object interfaces''))
      | Some metadata \<Rightarrow>
          if selector (om_Labels metadata)
          then (case asNotebookPtr m of
                  None \<Rightarrow> Panics ''interface conversion''
                | Some n \<Rightarrow> appendMatching selector ms (ret @ [n]))
          else appendMatching selector ms ret)"

definition notebookLister_List ::
  "(string gomap \<Rightarrow> bool) \<Rightarrow> threadSafeMap \<Rightarrow> (Notebook list \<times> go_error option) outcome" where
  "notebookLister_List selector c = appendMatching selector (tsm_List c) []"

primrec appendMatchingIn ::
  "string \<Rightarrow> (string gomap \<Rightarrow> bool) \<Rightarrow> iface list \<Rightarrow> Notebook list \<Rightarrow>
     (Notebook list \<times> go_error option) outcome" where
  "appendMatchingIn namespace selector [] ret = Returns (ret, None)"
| "appendMatchingIn namespace selector (m # ms) ret =
     (case asMetaObject m of
        None \<Rightarrow> Returns (ret, Some (PlainError ''object does not implement the Object interfaces''))
      | Some metadata \<Rightarrow>
          if om_Namespace metadata = namespace \<and> selector (om_Labels metadata)
          then (case asNotebookPtr m of
                  None \<Rightarrow> Panics ''interface conversion''
                | Some n \<Rightarrow> appendMatchingIn namespace selector ms (ret @ [n]))
          else appendMatchingIn namespace selector ms ret)"

text \<open>ListAllByNamespace, which searches without the index when there is none.\<close>

definition notebookNamespaceLister_List ::
  "string \<Rightarrow> (string gomap \<Rightarrow> bool) \<Rightarrow> threadSafeMap \<Rightarrow> (Notebook list \<times> go_error option) outcome" where
  "notebookNamespaceLister_List namespace selector c =
     (if namespace = [] then appendMatching selector (tsm_List c) []
      else case tsm_Index NamespaceIndex (Some (emptyMeta\<lparr>om_Namespace := namespace\<rparr>)) c of
             Inl err \<Rightarrow> appendMatchingIn namespace selector (tsm_List c) []
           | Inr items \<Rightarrow> appendMatching selector items [])"

definition notebookNamespaceLister_Get ::
  "string \<Rightarrow> string \<Rightarrow> threadSafeMap \<Rightarrow> (go_error + Notebook) outcome" where
  "notebookNamespaceLister_Get namespace name c =
     (case tsm_Get (listerKey namespace name) c of
        None \<Rightarrow> Returns (Inl (NewNotFound KNotebook name))
      | Some obj \<Rightarrow>
          (case asNotebookPtr obj of
             None \<Rightarrow> Panics ''interface conversion''
           | Some n \<Rightarrow> Returns (Inr n)))"

section \<open>What the store keeps\<close>

text \<open>
  The keys the namespace index holds for a namespace, and the invariant: values are stored under
  their own keys, and the index lists for every namespace exactly the keys of its objects.
\<close>

definition keysIn :: "string \<Rightarrow> threadSafeMap \<Rightarrow> string list" where
  "keysIn ns c = indexSet (indexOf (tsm_indices c) NamespaceIndex) ns"

definition objectAt :: "threadSafeMap \<Rightarrow> string \<Rightarrow> object option" where
  "objectAt c key = (case tsm_Get key c of Some (IObject ob) \<Rightarrow> Some ob | _ \<Rightarrow> None)"

definition store_inv :: "(object \<Rightarrow> bool) \<Rightarrow> threadSafeMap \<Rightarrow> bool" where
  "store_inv P c \<longleftrightarrow>
     tsm_indexers c = [(NamespaceIndex, MetaNamespaceIndexFunc)] \<and>
     distinct (map fst (tsm_items c)) \<and>
     (\<forall>key x. map_of (tsm_items c) key = Some x \<longrightarrow>
        (\<exists>ob. x = IObject ob \<and> MetaNamespaceKey (meta_of ob) = key \<and> P ob)) \<and>
     (\<forall>ns. distinct (keysIn ns c) \<and>
        set (keysIn ns c) = {key. \<exists>ob. objectAt c key = Some ob \<and> om_Namespace (meta_of ob) = ns})"

lemma indexSet_mput: "indexSet (mput v ks ix) w = (if w = v then ks else indexSet ix w)"
  by (simp add: indexSet_def)

lemma indexOf_mput: "indexOf (mput n ix ixs) m = (if m = n then ix else indexOf ixs m)"
  by (simp add: indexOf_def)

lemma indexSet_removeKey:
  "indexSet (removeKey key [v] ix) w = (if w = v then removeAll key (indexSet ix v) else indexSet ix w)"
  by (simp add: indexSet_def split: option.split)

text \<open>The two loops over the indexers, for the one indexer of these stores.\<close>

lemma deleteFromIndices_ns:
  "\<exists>ixs. deleteFromIndices [(NamespaceIndex, MetaNamespaceIndexFunc)] (IObject ob) key indices = Returns ixs \<and>
     (\<forall>ns. indexSet (indexOf ixs NamespaceIndex) ns =
        (if ns = om_Namespace (meta_of ob) then removeAll key (indexSet (indexOf indices NamespaceIndex) ns)
         else indexSet (indexOf indices NamespaceIndex) ns))"
proof (cases "map_of indices NamespaceIndex")
  case None
  then show ?thesis by (simp add: MetaNamespaceIndexFunc_def indexOf_def indexSet_def)
next
  case (Some ix)
  then have "indexOf indices NamespaceIndex = ix" by (simp add: indexOf_def)
  with Some show ?thesis
    by (simp add: MetaNamespaceIndexFunc_def indexOf_mput indexSet_removeKey del: removeKey.simps)
qed

lemma insertIntoIndices_ns:
  "\<exists>ixs. insertIntoIndices [(NamespaceIndex, MetaNamespaceIndexFunc)] (IObject ob) key indices = Returns ixs \<and>
     (\<forall>ns. indexSet (indexOf ixs NamespaceIndex) ns =
        (if ns = om_Namespace (meta_of ob) then List.insert key (indexSet (indexOf indices NamespaceIndex) ns)
         else indexSet (indexOf indices NamespaceIndex) ns))"
  by (simp add: MetaNamespaceIndexFunc_def indexOf_mput indexSet_mput)

lemma store_invD:
  assumes "store_inv P c"
  shows "tsm_indexers c = [(NamespaceIndex, MetaNamespaceIndexFunc)]"
    and "distinct (map fst (tsm_items c))"
    and "map_of (tsm_items c) key = Some x \<Longrightarrow>
      \<exists>ob. x = IObject ob \<and> MetaNamespaceKey (meta_of ob) = key \<and> P ob"
    and "distinct (keysIn ns c)"
    and "set (keysIn ns c) = {key. \<exists>ob. objectAt c key = Some ob \<and> om_Namespace (meta_of ob) = ns}"
  using assms by (simp_all add: store_inv_def)

lemma store_inv_at:
  assumes "store_inv P c"
  shows "tsm_Get key c = map_option IObject (objectAt c key)"
    and "objectAt c key = Some ob \<Longrightarrow> MetaNamespaceKey (meta_of ob) = key \<and> P ob"
  using store_invD(3) [OF assms, of key]
  by (fastforce simp: objectAt_def tsm_Get_def split: option.splits iface.splits)+

lemma store_inv_mono: "store_inv P c \<Longrightarrow> (\<And>ob. P ob \<Longrightarrow> Q ob) \<Longrightarrow> store_inv Q c"
  unfolding store_inv_def by meson

lemma objectAt_new: "objectAt (NewThreadSafeStore indexers) = (\<lambda>_. None)"
  by (rule ext) (simp add: objectAt_def tsm_Get_def NewThreadSafeStore_def)

lemma objectAt_mput:
  "objectAt (c\<lparr>tsm_items := mput key (IObject ob) (tsm_items c), tsm_indices := ixs\<rparr>)
     = (objectAt c)(key \<mapsto> ob)"
  by (rule ext) (simp add: objectAt_def tsm_Get_def)

lemma objectAt_delete:
  "objectAt (c\<lparr>tsm_items := AList.delete key (tsm_items c), tsm_indices := ixs\<rparr>)
     = (objectAt c)(key := None)"
  by (rule ext) (simp add: objectAt_def tsm_Get_def delete_conv')

lemma store_inv_empty: "store_inv P (NewThreadSafeStore [(NamespaceIndex, MetaNamespaceIndexFunc)])"
  by (simp add: store_inv_def NewThreadSafeStore_def keysIn_def indexOf_def indexSet_def objectAt_def
      tsm_Get_def)

lemma store_put:
  assumes inv: "store_inv P c" and P: "P ob"
  defines "key \<equiv> MetaNamespaceKey (meta_of ob)"
  shows "\<exists>c'. tsm_Add key (IObject ob) c = Returns c' \<and> store_inv P c' \<and> objectAt c' = (objectAt c)(key \<mapsto> ob)"
proof -
  have ind: "tsm_indexers c = [(NamespaceIndex, MetaNamespaceIndexFunc)]"
    using store_invD(1) [OF inv] .
  obtain ixs1 where old: "(case map_of (tsm_items c) key of None \<Rightarrow> Returns (tsm_indices c)
      | Some old \<Rightarrow> deleteFromIndices (tsm_indexers c) old key (tsm_indices c)) = Returns ixs1"
    and ixs1: "\<forall>ns. distinct (indexSet (indexOf ixs1 NamespaceIndex) ns) \<and>
      set (indexSet (indexOf ixs1 NamespaceIndex) ns)
        = {k. \<exists>ob. objectAt c k = Some ob \<and> om_Namespace (meta_of ob) = ns} - {key}"
  proof (cases "objectAt c key")
    case None
    then have "map_of (tsm_items c) key = None"
      using store_inv_at(1) [OF inv, of key] by (simp add: tsm_Get_def)
    with None show ?thesis
      using that [of "tsm_indices c"] store_invD(4,5) [OF inv] by (auto simp: keysIn_def)
  next
    case (Some ob0)
    then have "map_of (tsm_items c) key = Some (IObject ob0)"
      using store_inv_at(1) [OF inv, of key] by (simp add: tsm_Get_def)
    with Some show ?thesis
      using that deleteFromIndices_ns [of ob0 key "tsm_indices c"] ind store_invD(4,5) [OF inv]
      by (fastforce simp: keysIn_def distinct_removeAll)
  qed
  obtain ixs where new: "insertIntoIndices (tsm_indexers c) (IObject ob) key ixs1 = Returns ixs"
    and ixs: "\<forall>ns. indexSet (indexOf ixs NamespaceIndex) ns =
        (if ns = om_Namespace (meta_of ob) then List.insert key (indexSet (indexOf ixs1 NamespaceIndex) ns)
         else indexSet (indexOf ixs1 NamespaceIndex) ns)"
    using insertIntoIndices_ns [of ob key ixs1] ind by auto
  let ?c = "c\<lparr>tsm_items := mput key (IObject ob) (tsm_items c), tsm_indices := ixs\<rparr>"
  have "tsm_Add key (IObject ob) c = Returns ?c"
    using old new by (simp add: tsm_Add_def updateIndices_def)
  moreover have "store_inv P ?c"
    unfolding store_inv_def objectAt_mput
    using ind ixs ixs1 P store_invD(2,3) [OF inv] by (auto simp: keysIn_def key_def)
  ultimately show ?thesis using objectAt_mput by blast
qed

lemma store_remove:
  assumes inv: "store_inv P c"
  shows "\<exists>c'. tsm_Delete key c = Returns c' \<and> store_inv P c' \<and> objectAt c' = (objectAt c)(key := None)"
proof (cases "objectAt c key")
  case None
  then have "map_of (tsm_items c) key = None"
    using store_inv_at(1) [OF inv, of key] by (simp add: tsm_Get_def)
  with None inv show ?thesis by (auto simp: tsm_Delete_def fun_eq_iff)
next
  case (Some ob0)
  then have at: "map_of (tsm_items c) key = Some (IObject ob0)"
    using store_inv_at(1) [OF inv, of key] by (simp add: tsm_Get_def)
  have ind: "tsm_indexers c = [(NamespaceIndex, MetaNamespaceIndexFunc)]"
    using store_invD(1) [OF inv] .
  obtain ixs where del: "deleteFromIndices (tsm_indexers c) (IObject ob0) key (tsm_indices c) = Returns ixs"
    and ixs: "\<forall>ns. indexSet (indexOf ixs NamespaceIndex) ns =
        (if ns = om_Namespace (meta_of ob0) then removeAll key (keysIn ns c) else keysIn ns c)"
    using deleteFromIndices_ns [of ob0 key "tsm_indices c"] ind by (auto simp: keysIn_def)
  let ?c = "c\<lparr>tsm_items := AList.delete key (tsm_items c), tsm_indices := ixs\<rparr>"
  have "tsm_Delete key c = Returns ?c" using at del by (simp add: tsm_Delete_def)
  moreover have "store_inv P ?c"
    unfolding store_inv_def objectAt_delete
    using ind ixs Some store_invD(2-5) [OF inv]
    by (auto simp: keysIn_def delete_conv' distinct_delete distinct_removeAll split: if_splits)
  ultimately show ?thesis using objectAt_delete by blast
qed

section \<open>What the listers find\<close>

abbreviation isNotebook :: "object \<Rightarrow> bool" where
  "isNotebook ob \<equiv> kind_of ob = KNotebook"

lemma isNotebook_iff: "isNotebook ob \<longleftrightarrow> (\<exists>n. ob = ONotebook n)"
  by (cases ob) simp_all

lemma as_Notebook_ONotebook [simp]: "as_Notebook (ONotebook n) = Some n"
  by (simp add: as_Notebook_def)

text \<open>Over a list of notebooks both loops filter, in order.\<close>

lemma appendMatching_filter:
  "appendMatching sel (map (\<lambda>n. IObject (ONotebook n)) ns) ret
     = Returns (ret @ filter (\<lambda>n. sel (om_Labels (nb_Meta n))) ns, None)"
  by (induction ns arbitrary: ret) simp_all

text \<open>The stored notebooks, listed through the keys of the map or through those of the index.\<close>

lemma notebooks_of_keys:
  assumes inv: "store_inv isNotebook c" and keys: "distinct keys" "\<forall>k \<in> set keys. objectAt c k \<noteq> None"
  obtains ns where "map (itemAt c) keys = map (\<lambda>n. IObject (ONotebook n)) ns" "distinct ns"
    "set ns = {n. \<exists>k \<in> set keys. objectAt c k = Some (ONotebook n)}"
proof -
  have "\<forall>k \<in> set keys. \<exists>n. objectAt c k = Some (ONotebook n) \<and> itemAt c k = IObject (ONotebook n)
      \<and> MetaNamespaceKey (nb_Meta n) = k"
  proof
    fix k assume k: "k \<in> set keys"
    obtain ob where ob: "objectAt c k = Some ob" using keys(2) k by auto
    with store_inv_at(2) [OF inv] obtain n where "ob = ONotebook n" "MetaNamespaceKey (nb_Meta n) = k"
      by (fastforce simp: isNotebook_iff)
    with ob store_inv_at(1) [OF inv, of k]
    show "\<exists>n. objectAt c k = Some (ONotebook n) \<and> itemAt c k = IObject (ONotebook n)
      \<and> MetaNamespaceKey (nb_Meta n) = k" by (simp add: itemAt_def tsm_Get_def)
  qed
  then obtain f where at: "\<forall>k \<in> set keys. objectAt c k = Some (ONotebook (f k))
      \<and> itemAt c k = IObject (ONotebook (f k)) \<and> MetaNamespaceKey (nb_Meta (f k)) = k"
    by (rule exE [OF bchoice])
  then have "inj_on f (set keys)" by (metis inj_onI)
  then have "distinct (map f keys)" using keys(1) by (simp add: distinct_map)
  moreover have "map (itemAt c) keys = map (\<lambda>n. IObject (ONotebook n)) (map f keys)" using at by simp
  moreover have "set (map f keys) = {n. \<exists>k \<in> set keys. objectAt c k = Some (ONotebook n)}"
    using at by auto
  ultimately show thesis using that by blast
qed

lemma tsm_List_keys:
  assumes "store_inv P c"
  shows "tsm_List c = map (itemAt c) (map fst (tsm_items c))"
  using store_invD(2) [OF assms] by (auto simp: tsm_List_def itemAt_def)

lemma store_keys:
  assumes "store_inv P c"
  shows "k \<in> set (map fst (tsm_items c)) \<longleftrightarrow> objectAt c k \<noteq> None"
  using store_inv_at(1) [OF assms, of k] map_of_eq_None_iff [of "tsm_items c" k]
  by (cases "objectAt c k") (simp_all add: tsm_Get_def)

lemma notebookLister_List_stored:
  assumes inv: "store_inv isNotebook c"
  shows "\<exists>ns. notebookLister_List sel c = Returns (ns, None) \<and> distinct ns \<and>
    set ns = {n. \<exists>k. objectAt c k = Some (ONotebook n) \<and> sel (om_Labels (nb_Meta n))}"
proof -
  obtain ns where ns: "map (itemAt c) (map fst (tsm_items c)) = map (\<lambda>n. IObject (ONotebook n)) ns"
    "distinct ns" "set ns = {n. \<exists>k \<in> set (map fst (tsm_items c)). objectAt c k = Some (ONotebook n)}"
    using notebooks_of_keys [OF inv store_invD(2) [OF inv]] store_keys [OF inv] by blast
  have "notebookLister_List sel c = Returns (filter (\<lambda>n. sel (om_Labels (nb_Meta n))) ns, None)"
    unfolding notebookLister_List_def tsm_List_keys [OF inv] ns(1) by (simp add: appendMatching_filter)
  moreover have "set ns = {n. \<exists>k. objectAt c k = Some (ONotebook n)}"
    using ns(3) store_keys [OF inv] by fastforce
  ultimately show ?thesis using ns(2) by auto
qed

lemma namespaceLister_List_stored:
  assumes inv: "store_inv isNotebook c" and "namespace \<noteq> []"
  shows "\<exists>ns. notebookNamespaceLister_List namespace sel c = Returns (ns, None) \<and> distinct ns \<and>
    set ns = {n. \<exists>k. objectAt c k = Some (ONotebook n) \<and> nb_Namespace n = namespace
                   \<and> sel (om_Labels (nb_Meta n))}"
proof -
  obtain ns where ns: "map (itemAt c) (keysIn namespace c) = map (\<lambda>n. IObject (ONotebook n)) ns"
    "distinct ns" "set ns = {n. \<exists>k \<in> set (keysIn namespace c). objectAt c k = Some (ONotebook n)}"
    using notebooks_of_keys [OF inv store_invD(4) [OF inv, of namespace]]
      store_invD(5) [OF inv, of namespace] by blast
  have "tsm_Index NamespaceIndex (Some (emptyMeta\<lparr>om_Namespace := namespace\<rparr>)) c
      = Inr (map (itemAt c) (keysIn namespace c))"
    using store_invD(1,4) [OF inv]
    by (simp add: tsm_Index_def MetaNamespaceIndexFunc_def keysIn_def distinct_remdups_id)
  then have "notebookNamespaceLister_List namespace sel c
      = Returns (filter (\<lambda>n. sel (om_Labels (nb_Meta n))) ns, None)"
    using assms(2) ns(1) by (simp add: notebookNamespaceLister_List_def appendMatching_filter)
  moreover have "set ns = {n. \<exists>k. objectAt c k = Some (ONotebook n) \<and> nb_Namespace n = namespace}"
    using ns(3) store_invD(5) [OF inv, of namespace] by fastforce
  ultimately show ?thesis using ns(2) by auto
qed

text \<open>
  Get reads the key that a namespaced object is stored under; what lies under it has that namespace
  and name, as API names hold no slash.
\<close>

definition plainNames :: "object \<Rightarrow> bool" where
  "plainNames ob \<longleftrightarrow> CHR ''/'' \<notin> set (om_Namespace (meta_of ob)) \<and> CHR ''/'' \<notin> set (om_Name (meta_of ob))"

lemma namespaceLister_Get_stored:
  assumes inv: "store_inv (\<lambda>ob. isNotebook ob \<and> plainNames ob) c"
    and "CHR ''/'' \<notin> set namespace" "CHR ''/'' \<notin> set name" "namespace \<noteq> []"
  shows "notebookNamespaceLister_Get namespace name c =
    Returns (case objectAt c (listerKey namespace name) of
               Some (ONotebook n) \<Rightarrow> Inr n | _ \<Rightarrow> Inl (NewNotFound KNotebook name))"
    and "objectAt c (listerKey namespace name) = Some (ONotebook n) \<longleftrightarrow>
      (\<exists>k. objectAt c k = Some (ONotebook n) \<and> nb_Namespace n = namespace \<and> nb_Name n = name)"
proof -
  let ?k = "listerKey namespace name"
  show "notebookNamespaceLister_Get namespace name c =
    Returns (case objectAt c ?k of
               Some (ONotebook n) \<Rightarrow> Inr n | _ \<Rightarrow> Inl (NewNotFound KNotebook name))"
    using store_inv_at [OF inv, of ?k]
    by (cases "objectAt c ?k")
       (auto simp: notebookNamespaceLister_Get_def isNotebook_iff)
  have key: "MetaNamespaceKey (nb_Meta n) = listerKey (nb_Namespace n) (nb_Name n)"
    if "nb_Namespace n \<noteq> []" for n
    using that by (simp add: MetaNamespaceKey_def listerKey_def)
  have "nb_Namespace n = namespace \<and> nb_Name n = name" if "objectAt c ?k = Some (ONotebook n)"
  proof -
    have n: "MetaNamespaceKey (nb_Meta n) = ?k" "plainNames (ONotebook n)"
      using store_inv_at(2) [OF inv that] by simp_all
    then have "nb_Namespace n \<noteq> []"
      by (auto simp: MetaNamespaceKey_def listerKey_def plainNames_def split: if_splits)
    with n assms(2,3) key [of n] show ?thesis
      using listerKey_inject [of "nb_Namespace n" "nb_Name n" namespace name] by (simp add: plainNames_def)
  qed
  moreover have "k = ?k" if "objectAt c k = Some (ONotebook n)" "nb_Namespace n = namespace" "nb_Name n = name" for k
    using store_inv_at(2) [OF inv that(1)] key [of n] that(2,3) assms(4) by simp
  ultimately show "objectAt c ?k = Some (ONotebook n) \<longleftrightarrow>
      (\<exists>k. objectAt c k = Some (ONotebook n) \<and> nb_Namespace n = namespace \<and> nb_Name n = name)"
    by blast
qed

end
