(* ===== verification/Delta_Fifo.thy ===== *)
theory Delta_Fifo
  imports Thread_Safe_Store
begin

text \<open>
  The queue between an informer's reflector and its store (the vendored client-go, tools/cache:
  delta_fifo.go, and HandleDeltas of shared_informer.go): per object, the changes the reflector has
  seen and the informer has not handled yet. Handling them brings the store up to date and tells
  the event handlers. The store is any indexer that keeps the laws of a locale, which the
  thread safe map does.
\<close>

section \<open>Deltas\<close>

datatype DeltaType = DeltaAdded | DeltaUpdated | DeltaDeleted | DeltaSync

record Delta =
  d_Type :: DeltaType
  d_Object :: iface

text \<open>The calls the queue and the informer make of an indexer.\<close>

record 's Indexer =
  ix_Add :: "iface \<Rightarrow> 's \<Rightarrow> (go_error + 's) outcome"
  ix_Update :: "iface \<Rightarrow> 's \<Rightarrow> (go_error + 's) outcome"
  ix_Delete :: "iface \<Rightarrow> 's \<Rightarrow> (go_error + 's) outcome"
  ix_Get :: "iface \<Rightarrow> 's \<Rightarrow> go_error + iface option"
  ix_GetByKey :: "string \<Rightarrow> 's \<Rightarrow> iface option"
  ix_ListKeys :: "'s \<Rightarrow> string list"

record DeltaFIFO =
  df_items :: "string \<Rightarrow> Delta list option"
  df_queue :: "string list"
  df_populated :: bool
  df_initialPopulationCount :: int

definition NewDeltaFIFO :: DeltaFIFO where
  "NewDeltaFIFO = \<lparr>df_items = (\<lambda>_. None), df_queue = [], df_populated = False,
     df_initialPopulationCount = 0\<rparr>"

text \<open>KeyOf of a single object: a tombstone's own key, or the key function of the informers.\<close>

fun KeyOf :: "iface \<Rightarrow> go_error + string" where
  "KeyOf (ITombstone key x) = Inr key"
| "KeyOf (IObject x) = Inr (MetaNamespaceKey (meta_of x))"
| "KeyOf (IOther what) = Inl (PlainError (''object has no meta: '' @ what))"

definition isDup :: "Delta \<Rightarrow> Delta \<Rightarrow> Delta option" where
  "isDup a b =
     (if d_Type b \<noteq> DeltaDeleted \<or> d_Type a \<noteq> DeltaDeleted then None
      else case d_Object b of ITombstone key x \<Rightarrow> Some a | _ \<Rightarrow> Some b)"

definition dedupDeltas :: "Delta list \<Rightarrow> Delta list" where
  "dedupDeltas deltas =
     (let n = length deltas
      in if n < 2 then deltas
         else case isDup (deltas ! (n - 1)) (deltas ! (n - 2)) of
                Some out \<Rightarrow> take (n - 2) deltas @ [out]
              | None \<Rightarrow> deltas)"

definition deltasAt :: "string \<Rightarrow> DeltaFIFO \<Rightarrow> Delta list" where
  "deltasAt key f = (case df_items f key of None \<Rightarrow> [] | Some deltas \<Rightarrow> deltas)"

definition willObjectBeDeleted :: "string \<Rightarrow> DeltaFIFO \<Rightarrow> bool" where
  "willObjectBeDeleted key f =
     (let deltas = deltasAt key f
      in length deltas > 0 \<and> d_Type (deltas ! (length deltas - 1)) = DeltaDeleted)"

definition queueAction :: "DeltaType \<Rightarrow> iface \<Rightarrow> DeltaFIFO \<Rightarrow> go_error option \<times> DeltaFIFO" where
  "queueAction actionType obj f =
     (case KeyOf obj of
        Inl err \<Rightarrow> (Some (KeyError err), f)
      | Inr key \<Rightarrow>
          if actionType = DeltaSync \<and> willObjectBeDeleted key f then (None, f)
          else
            (let newDeltas = dedupDeltas (deltasAt key f @ [\<lparr>d_Type = actionType, d_Object = obj\<rparr>])
             in if length newDeltas > 0
                then (None, f\<lparr>df_queue := (if df_items f key = None then df_queue f @ [key] else df_queue f),
                              df_items := (df_items f)(key := Some newDeltas)\<rparr>)
                else (None, f\<lparr>df_items := (df_items f)(key := None)\<rparr>)))"

section \<open>The producer's side\<close>

definition fifo_Add :: "iface \<Rightarrow> DeltaFIFO \<Rightarrow> go_error option \<times> DeltaFIFO" where
  "fifo_Add obj f = queueAction DeltaAdded obj (f\<lparr>df_populated := True\<rparr>)"

definition fifo_Update :: "iface \<Rightarrow> DeltaFIFO \<Rightarrow> go_error option \<times> DeltaFIFO" where
  "fifo_Update obj f = queueAction DeltaUpdated obj (f\<lparr>df_populated := True\<rparr>)"

definition fifo_Delete ::
  "'s Indexer \<Rightarrow> 's \<Rightarrow> iface \<Rightarrow> DeltaFIFO \<Rightarrow> go_error option \<times> DeltaFIFO" where
  "fifo_Delete ix s obj f =
     (case KeyOf obj of
        Inl err \<Rightarrow> (Some (KeyError err), f)
      | Inr key \<Rightarrow>
          (let f' = f\<lparr>df_populated := True\<rparr>
           in if ix_GetByKey ix key s = None \<and> df_items f' key = None then (None, f')
              else queueAction DeltaDeleted obj f'))"

text \<open>The first loop of Replace, which also collects the keys.\<close>

primrec syncItems :: "iface list \<Rightarrow> string list \<Rightarrow> DeltaFIFO \<Rightarrow> (go_error + string list) \<times> DeltaFIFO" where
  "syncItems [] keys f = (Inr keys, f)"
| "syncItems (item # items) keys f =
     (case KeyOf item of
        Inl err \<Rightarrow> (Inl (KeyError err), f)
      | Inr key \<Rightarrow>
          (case queueAction DeltaSync item f of
             (Some err, f') \<Rightarrow> (Inl (wrapErr (''couldn'' @ [CHR 0x27] @ ''t enqueue object'') err), f')
           | (None, f') \<Rightarrow> syncItems items (List.insert key keys) f'))"

text \<open>
  Its second loop, over the keys the indexer knows: what the list does not hold is gone. The
  counter is queuedDeletions. A key that the indexer cannot find any more gives a tombstone
  without an object.
\<close>

primrec deleteMissing ::
  "'s Indexer \<Rightarrow> 's \<Rightarrow> string list \<Rightarrow> string list \<Rightarrow> nat \<Rightarrow> DeltaFIFO \<Rightarrow>
     (go_error option \<times> nat) \<times> DeltaFIFO" where
  "deleteMissing ix s keys [] cnt f = ((None, cnt), f)"
| "deleteMissing ix s keys (k # ks) cnt f =
     (if k \<in> set keys then deleteMissing ix s keys ks cnt f
      else
        (let deletedObj = (case ix_GetByKey ix k s of Some (IObject obj) \<Rightarrow> Some obj | _ \<Rightarrow> None)
         in case queueAction DeltaDeleted (ITombstone k deletedObj) f of
              (Some err, f') \<Rightarrow> ((Some err, Suc cnt), f')
            | (None, f') \<Rightarrow> deleteMissing ix s keys ks (Suc cnt) f'))"

definition fifo_Replace ::
  "'s Indexer \<Rightarrow> 's \<Rightarrow> iface list \<Rightarrow> DeltaFIFO \<Rightarrow> go_error option \<times> DeltaFIFO" where
  "fifo_Replace ix s items f =
     (case syncItems items [] f of
        (Inl err, f1) \<Rightarrow> (Some err, f1)
      | (Inr keys, f1) \<Rightarrow>
          (case deleteMissing ix s keys (ix_ListKeys ix s) 0 f1 of
             ((Some err, cnt), f2) \<Rightarrow> (Some err, f2)
           | ((None, cnt), f2) \<Rightarrow>
               (None,
                if \<not> df_populated f2
                then f2\<lparr>df_populated := True, df_initialPopulationCount := int (length items + cnt)\<rparr>
                else f2)))"

definition syncKey ::
  "'s Indexer \<Rightarrow> 's \<Rightarrow> string \<Rightarrow> DeltaFIFO \<Rightarrow> go_error option \<times> DeltaFIFO" where
  "syncKey ix s key f =
     (case ix_GetByKey ix key s of
        None \<Rightarrow> (None, f)
      | Some obj \<Rightarrow>
          (case KeyOf obj of
             Inl err \<Rightarrow> (Some (KeyError err), f)
           | Inr key' \<Rightarrow>
               if length (deltasAt key' f) > 0 then (None, f)
               else (case queueAction DeltaSync obj f of
                       (Some err, f') \<Rightarrow>
                         (Some (wrapErr (''couldn'' @ [CHR 0x27] @ ''t queue object'') err), f')
                     | (None, f') \<Rightarrow> (None, f'))))"

primrec syncKeys ::
  "'s Indexer \<Rightarrow> 's \<Rightarrow> string list \<Rightarrow> DeltaFIFO \<Rightarrow> go_error option \<times> DeltaFIFO" where
  "syncKeys ix s [] f = (None, f)"
| "syncKeys ix s (k # ks) f =
     (case syncKey ix s k f of
        (Some err, f') \<Rightarrow> (Some err, f')
      | (None, f') \<Rightarrow> syncKeys ix s ks f')"

definition fifo_Resync :: "'s Indexer \<Rightarrow> 's \<Rightarrow> DeltaFIFO \<Rightarrow> go_error option \<times> DeltaFIFO" where
  "fifo_Resync ix s f = syncKeys ix s (ix_ListKeys ix s) f"

definition fifo_HasSynced :: "DeltaFIFO \<Rightarrow> bool" where
  "fifo_HasSynced f \<longleftrightarrow> df_populated f \<and> df_initialPopulationCount f = 0"

section \<open>The consumer's side\<close>

text \<open>
  Pop up to the call of the process function: the changes of the first key that still has any,
  which the queue forgets. With nothing to take it blocks, which is \<^const>\<open>None\<close>. The process
  function here, HandleDeltas, never asks for the item to be queued again.
\<close>

definition popKey :: "DeltaFIFO \<Rightarrow> DeltaFIFO" where
  "popKey f = f\<lparr>df_queue := tl (df_queue f),
     df_initialPopulationCount :=
       (if df_initialPopulationCount f > 0 then df_initialPopulationCount f - 1
        else df_initialPopulationCount f)\<rparr>"

function fifo_Pop :: "DeltaFIFO \<Rightarrow> (Delta list \<times> DeltaFIFO) option" where
  "fifo_Pop f =
     (case df_queue f of
        [] \<Rightarrow> None
      | key # queue \<Rightarrow>
          (case df_items f key of
             None \<Rightarrow> fifo_Pop (popKey f)
           | Some item \<Rightarrow>
               Some (item, (popKey f)\<lparr>df_items := (df_items f)(key := None)\<rparr>)))"
  by auto
termination by (relation "measure (\<lambda>f. length (df_queue f))") (auto simp: popKey_def)

declare fifo_Pop.simps [simp del]

text \<open>
  HandleDeltas; what it sends goes to every listener, or, when flagged, to those that are due for
  a resync.
\<close>

type_synonym 's handled = "go_error option \<times> 's \<times> (notification \<times> bool) list"

definition distribute :: "notification \<Rightarrow> bool \<Rightarrow> 's handled outcome \<Rightarrow> 's handled outcome" where
  "distribute note isSync rest =
     obind rest (\<lambda>(err, s, notes). Returns (err, s, (note, isSync) # notes))"

primrec HandleDeltas :: "'s Indexer \<Rightarrow> Delta list \<Rightarrow> 's \<Rightarrow> 's handled outcome" where
  "HandleDeltas ix [] s = Returns (None, s, [])"
| "HandleDeltas ix (d # deltas) s =
     (let isSync = (d_Type d = DeltaSync);
          continue = (\<lambda>note b changed.
            obind changed (\<lambda>res. case res of
              Inl err \<Rightarrow> Returns (Some err, s, [])
            | Inr s' \<Rightarrow> distribute note b (HandleDeltas ix deltas s')))
      in if d_Type d = DeltaDeleted
         then continue (Deleted (d_Object d)) False (ix_Delete ix (d_Object d) s)
         else (case ix_Get ix (d_Object d) s of
                 Inr (Some old) \<Rightarrow>
                   continue (Updated old (d_Object d)) isSync (ix_Update ix (d_Object d) s)
               | _ \<Rightarrow> continue (Added (d_Object d)) isSync (ix_Add ix (d_Object d) s)))"

end
