(* ===== verification/Informer.thy ===== *)
theory Informer
  imports Delta_Fifo
begin

text \<open>
  An informer as a machine: its reflector lists and watches the API server and fills the delta
  queue, the controller loop pops the queue into the store and the event handlers (the vendored
  client-go, tools/cache: reflector.go, controller.go, shared_informer.go). Its contract is that,
  once the queue is empty, the store holds what the reflector was last told.
\<close>

record 's informer =
  inf_fifo :: DeltaFIFO
  inf_store :: 's
  inf_sent :: "(notification \<times> bool) list"

definition newInformerOn :: "'s \<Rightarrow> 's informer" where
  "newInformerOn s = \<lparr>inf_fifo = NewDeltaFIFO, inf_store = s, inf_sent = []\<rparr>"

text \<open>
  What can happen: the reflector lists (syncWith), it gets a watch event (watchHandler, which skips
  objects of another type), the resync timer fires, or the controller loop pops an item. Errors of
  the queue are logged or start a new list; they come as the next event.
\<close>

datatype inf_event =
    Listed "object list"
  | WatchAdded object
  | WatchModified object
  | WatchDeleted object
  | Resynced
  | Popped

fun inf_step :: "'s Indexer \<Rightarrow> kind \<Rightarrow> inf_event \<Rightarrow> 's informer \<Rightarrow> 's informer outcome" where
  "inf_step ix k (Listed objs) i =
     Returns (i\<lparr>inf_fifo := snd (fifo_Replace ix (inf_store i) (map IObject objs) (inf_fifo i))\<rparr>)"
| "inf_step ix k (WatchAdded obj) i =
     Returns (if kind_of obj \<noteq> k then i
              else i\<lparr>inf_fifo := snd (fifo_Add (IObject obj) (inf_fifo i))\<rparr>)"
| "inf_step ix k (WatchModified obj) i =
     Returns (if kind_of obj \<noteq> k then i
              else i\<lparr>inf_fifo := snd (fifo_Update (IObject obj) (inf_fifo i))\<rparr>)"
| "inf_step ix k (WatchDeleted obj) i =
     Returns (if kind_of obj \<noteq> k then i
              else i\<lparr>inf_fifo := snd (fifo_Delete ix (inf_store i) (IObject obj) (inf_fifo i))\<rparr>)"
| "inf_step ix k Resynced i =
     Returns (i\<lparr>inf_fifo := snd (fifo_Resync ix (inf_store i) (inf_fifo i))\<rparr>)"
| "inf_step ix k Popped i =
     (case fifo_Pop (inf_fifo i) of
        None \<Rightarrow> Returns i
      | Some (item, f) \<Rightarrow>
          obind (HandleDeltas ix item (inf_store i)) (\<lambda>(err, s, ns).
            Returns (i\<lparr>inf_fifo := f, inf_store := s, inf_sent := inf_sent i @ ns\<rparr>)))"

primrec inf_run :: "'s Indexer \<Rightarrow> kind \<Rightarrow> inf_event list \<Rightarrow> 's informer \<Rightarrow> 's informer outcome" where
  "inf_run ix k [] i = Returns i"
| "inf_run ix k (e # es) i = obind (inf_step ix k e i) (inf_run ix k es)"

lemma inf_run_append: "inf_run ix k (es @ es') i = obind (inf_run ix k es i) (inf_run ix k es')"
proof (induction es arbitrary: i)
  case (Cons e es)
  then show ?case by (cases "inf_step ix k e i") simp_all
qed simp

section \<open>What the informer was told\<close>

abbreviation keyOf :: "object \<Rightarrow> string" where
  "keyOf ob \<equiv> MetaNamespaceKey (meta_of ob)"

type_synonym view = "string \<Rightarrow> object option"

primrec listed :: "object list \<Rightarrow> view \<Rightarrow> view" where
  "listed [] v = v"
| "listed (ob # obs) v = listed obs (v(keyOf ob \<mapsto> ob))"

fun told :: "kind \<Rightarrow> inf_event \<Rightarrow> view \<Rightarrow> view" where
  "told k (Listed obs) v = listed obs (\<lambda>_. None)"
| "told k (WatchAdded ob) v = (if kind_of ob \<noteq> k then v else v(keyOf ob \<mapsto> ob))"
| "told k (WatchModified ob) v = (if kind_of ob \<noteq> k then v else v(keyOf ob \<mapsto> ob))"
| "told k (WatchDeleted ob) v = (if kind_of ob \<noteq> k then v else v(keyOf ob := None))"
| "told k Resynced v = v"
| "told k Popped v = v"

lemma listed_at: "listed obs v k = (if k \<in> keyOf ` set obs then listed obs (\<lambda>_. None) k else v k)"
proof (induction obs arbitrary: v)
  case (Cons ob obs)
  show ?case
    using Cons.IH [of "v(keyOf ob \<mapsto> ob)"] Cons.IH [of "(\<lambda>_. None)(keyOf ob \<mapsto> ob)"]
    by (simp add: fun_upd_def)
qed simp

text \<open>What a change makes of its object, and what the store will hold for a key in the end.\<close>

definition effect :: "Delta \<Rightarrow> object option" where
  "effect d = (if d_Type d = DeltaDeleted then None
               else case d_Object d of IObject ob \<Rightarrow> Some ob | _ \<Rightarrow> None)"

definition settled :: "(string \<Rightarrow> object option) \<Rightarrow> DeltaFIFO \<Rightarrow> string \<Rightarrow> object option" where
  "settled at f key =
     (case df_items f key of None \<Rightarrow> at key | Some deltas \<Rightarrow> effect (last deltas))"

text \<open>
  A list is safe when it misses no pending creation and names no object whose deletion is still
  pending: Replace drops a Sync on top of a pending deletion, and it looks for deleted objects in
  the store only. A list that finds the queue empty is safe.
\<close>

definition list_safe :: "object list \<Rightarrow> (string \<Rightarrow> object option) \<Rightarrow> DeltaFIFO \<Rightarrow> bool" where
  "list_safe obs at f \<longleftrightarrow>
     (\<forall>ob \<in> set obs. \<not> willObjectBeDeleted (keyOf ob) f) \<and>
     (\<forall>key \<in> set (df_queue f). key \<in> keyOf ` set obs \<or> at key \<noteq> None \<or> settled at f key = None)"

section \<open>The queue keeps what it is told\<close>

text \<open>Every queued key has changes, each of them about an object of that key.\<close>

definition delta_ok :: "(object \<Rightarrow> bool) \<Rightarrow> string \<Rightarrow> Delta \<Rightarrow> bool" where
  "delta_ok P key d \<longleftrightarrow> KeyOf (d_Object d) = Inr key \<and>
     (d_Type d \<noteq> DeltaDeleted \<longrightarrow> (\<exists>ob. d_Object d = IObject ob \<and> P ob))"

definition fifo_inv :: "(object \<Rightarrow> bool) \<Rightarrow> DeltaFIFO \<Rightarrow> bool" where
  "fifo_inv P f \<longleftrightarrow> distinct (df_queue f) \<and> set (df_queue f) = dom (df_items f) \<and>
     (\<forall>key ds. df_items f key = Some ds \<longrightarrow> ds \<noteq> [] \<and> list_all (delta_ok P key) ds)"

lemma fifo_inv_new: "fifo_inv P NewDeltaFIFO"
  by (simp add: fifo_inv_def NewDeltaFIFO_def)

lemma settled_new: "settled at NewDeltaFIFO = at"
  by (rule ext) (simp add: settled_def NewDeltaFIFO_def)

lemma KeyOf_DeletionHandling: "KeyOf obj = DeletionHandlingMetaNamespaceKeyFunc obj"
  by (cases obj) simp_all

text \<open>Merging two deletions changes neither what the changes are about nor what they come to.\<close>

lemma dedupDeltas_snoc:
  "dedupDeltas (ds @ [d]) \<noteq> [] \<and> effect (last (dedupDeltas (ds @ [d]))) = effect d \<and>
   set (dedupDeltas (ds @ [d])) \<subseteq> insert d (set ds) \<and>
   (d_Type (last (dedupDeltas (ds @ [d]))) = DeltaDeleted \<longleftrightarrow> d_Type d = DeltaDeleted)"
proof (cases ds rule: rev_cases)
  case (snoc ds' b)
  then show ?thesis
    by (auto simp: dedupDeltas_def Let_def nth_append isDup_def effect_def split: iface.splits)
qed (simp add: dedupDeltas_def)

lemma deltasAt_ok:
  assumes "fifo_inv P f"
  shows "list_all (delta_ok P key) (deltasAt key f)"
  using assms by (simp add: fifo_inv_def deltasAt_def split: option.split)

lemma willObjectBeDeleted_iff:
  "willObjectBeDeleted key f \<longleftrightarrow> deltasAt key f \<noteq> [] \<and> d_Type (last (deltasAt key f)) = DeltaDeleted"
  by (auto simp: willObjectBeDeleted_def Let_def last_conv_nth)

lemma queueAction_inv:
  assumes inv: "fifo_inv P f" and d: "delta_ok P key \<lparr>d_Type = ty, d_Object = obj\<rparr>"
    and drop: "ty = DeltaSync \<Longrightarrow> \<not> willObjectBeDeleted key f"
  shows "\<exists>f'. queueAction ty obj f = (None, f') \<and> fifo_inv P f'
     \<and> settled at f' = (settled at f)(key := effect \<lparr>d_Type = ty, d_Object = obj\<rparr>)
     \<and> set (df_queue f') = insert key (set (df_queue f))
     \<and> (\<forall>k. willObjectBeDeleted k f' \<longleftrightarrow> (if k = key then ty = DeltaDeleted else willObjectBeDeleted k f))"
proof -
  let ?d = "\<lparr>d_Type = ty, d_Object = obj\<rparr>"
  let ?ds = "dedupDeltas (deltasAt key f @ [?d])"
  let ?f = "f\<lparr>df_queue := (if df_items f key = None then df_queue f @ [key] else df_queue f),
              df_items := (df_items f)(key := Some ?ds)\<rparr>"
  note dd = dedupDeltas_snoc [of "deltasAt key f" ?d]
  have key: "KeyOf obj = Inr key" using d by (simp add: delta_ok_def)
  have at: "deltasAt k ?f = (if k = key then ?ds else deltasAt k f)" for k
    by (simp add: deltasAt_def)
  have "queueAction ty obj f = (None, ?f)"
    using drop dd by (auto simp: queueAction_def key Let_def)
  moreover have "fifo_inv P ?f"
    using inv dd d deltasAt_ok [OF inv, of key]
    by (fastforce simp: fifo_inv_def list_all_iff dom_def)
  moreover have "settled at ?f = (settled at f)(key := effect ?d)"
    using dd by (auto simp: settled_def fun_eq_iff)
  moreover have "set (df_queue ?f) = insert key (set (df_queue f))"
    using inv by (auto simp: fifo_inv_def)
  moreover have "willObjectBeDeleted k ?f \<longleftrightarrow> (if k = key then ty = DeltaDeleted else willObjectBeDeleted k f)" for k
    using dd unfolding willObjectBeDeleted_iff at by simp
  ultimately show ?thesis by auto
qed

text \<open>What the queue is relied on for: the store's side of each of its calls.\<close>

locale indexer =
  fixes ix :: "'s Indexer"
    and good :: "'s \<Rightarrow> bool"
    and at :: "'s \<Rightarrow> string \<Rightarrow> object option"
    and ok :: "object \<Rightarrow> bool"
  assumes add: "good s \<Longrightarrow> ok ob \<Longrightarrow>
      \<exists>s'. ix_Add ix (IObject ob) s = Returns (Inr s') \<and> good s' \<and> at s' = (at s)(keyOf ob \<mapsto> ob)"
    and update: "good s \<Longrightarrow> ok ob \<Longrightarrow>
      \<exists>s'. ix_Update ix (IObject ob) s = Returns (Inr s') \<and> good s' \<and> at s' = (at s)(keyOf ob \<mapsto> ob)"
    and delete: "good s \<Longrightarrow> KeyOf obj = Inr key \<Longrightarrow>
      \<exists>s'. ix_Delete ix obj s = Returns (Inr s') \<and> good s' \<and> at s' = (at s)(key := None)"
    and get: "good s \<Longrightarrow> ix_Get ix (IObject ob) s = Inr (map_option IObject (at s (keyOf ob)))"
    and getByKey: "good s \<Longrightarrow> ix_GetByKey ix key s = map_option IObject (at s key)"
    and keys: "good s \<Longrightarrow> set (ix_ListKeys ix s) = dom (at s)"
    and stored: "good s \<Longrightarrow> at s key = Some ob \<Longrightarrow> keyOf ob = key \<and> ok ob"
begin

lemma syncItems_inv:
  assumes "fifo_inv ok f" "\<forall>ob \<in> set obs. ok ob \<and> \<not> willObjectBeDeleted (keyOf ob) f"
  shows "\<exists>f' ks'. syncItems (map IObject obs) ks f = (Inr ks', f') \<and> fifo_inv ok f'
    \<and> settled m f' = listed obs (settled m f)
    \<and> set (df_queue f') = keyOf ` set obs \<union> set (df_queue f)
    \<and> set ks' = keyOf ` set obs \<union> set ks"
  using assms
proof (induction obs arbitrary: f ks)
  case (Cons ob obs)
  let ?d = "\<lparr>d_Type = DeltaSync, d_Object = IObject ob\<rparr>"
  have "delta_ok ok (keyOf ob) ?d" using Cons.prems by (simp add: delta_ok_def)
  from queueAction_inv [OF Cons.prems(1) this, of m] Cons.prems(2)
  obtain f1 where f1: "queueAction DeltaSync (IObject ob) f = (None, f1)" "fifo_inv ok f1"
      "settled m f1 = (settled m f)(keyOf ob \<mapsto> ob)"
      "set (df_queue f1) = insert (keyOf ob) (set (df_queue f))"
    and del: "\<forall>k. willObjectBeDeleted k f1 \<longrightarrow> willObjectBeDeleted k f"
    by (auto simp: effect_def)
  have "\<forall>ob \<in> set obs. ok ob \<and> \<not> willObjectBeDeleted (keyOf ob) f1"
    using Cons.prems(2) del by auto
  from Cons.IH [OF f1(2) this, of "List.insert (keyOf ob) ks", unfolded f1(3,4)]
  show ?case by (auto simp: f1(1) fun_upd_def)
qed simp

lemma deleteMissing_inv:
  assumes "fifo_inv ok f" "good s" "set ks \<subseteq> dom (at s)"
  shows "\<exists>f' c'. deleteMissing ix s keep ks c f = ((None, c'), f') \<and> fifo_inv ok f'
    \<and> settled m f' = (\<lambda>k. if k \<in> set ks \<and> k \<notin> set keep then None else settled m f k)
    \<and> set (df_queue f') \<subseteq> set ks \<union> set (df_queue f)"
  using assms
proof (induction ks arbitrary: f c)
  case (Cons k ks)
  show ?case
  proof (cases "k \<in> set keep")
    case True
    with Cons.IH [of f c] Cons.prems show ?thesis by (auto simp: fun_eq_iff)
  next
    case False
    obtain ob where ob: "at s k = Some ob" using Cons.prems(3) by auto
    let ?d = "\<lparr>d_Type = DeltaDeleted, d_Object = ITombstone k (Some ob)\<rparr>"
    have "delta_ok ok k ?d" by (simp add: delta_ok_def)
    from queueAction_inv [OF Cons.prems(1) this, of m]
    obtain f1 where f1: "queueAction DeltaDeleted (ITombstone k (Some ob)) f = (None, f1)" "fifo_inv ok f1"
        "settled m f1 = (settled m f)(k := None)" "set (df_queue f1) = insert k (set (df_queue f))"
      by (auto simp: effect_def)
    from Cons.IH [OF f1(2) Cons.prems(2), of "Suc c"] Cons.prems(3) f1 False
    show ?thesis by (auto simp: getByKey [OF Cons.prems(2)] ob fun_eq_iff)
  qed
qed simp

text \<open>A safe Replace makes the queue settle to the list.\<close>

lemma Replace_inv:
  assumes "fifo_inv ok f" "good s" "\<forall>ob \<in> set obs. ok ob" "list_safe obs (at s) f"
  shows "\<exists>f'. fifo_Replace ix s (map IObject obs) f = (None, f') \<and> fifo_inv ok f'
    \<and> settled (at s) f' = listed obs (\<lambda>_. None)"
proof -
  have "\<forall>ob \<in> set obs. ok ob \<and> \<not> willObjectBeDeleted (keyOf ob) f"
    using assms(3,4) by (simp add: list_safe_def)
  from syncItems_inv [OF assms(1) this, of "[]" "at s"]
  obtain f1 ks where f1: "syncItems (map IObject obs) [] f = (Inr ks, f1)" "fifo_inv ok f1"
      "settled (at s) f1 = listed obs (settled (at s) f)" "set ks = keyOf ` set obs"
    by auto
  from deleteMissing_inv [OF f1(2) assms(2), of "ix_ListKeys ix s" ks 0 "at s"] keys [OF assms(2)]
  obtain f2 c where f2: "deleteMissing ix s ks (ix_ListKeys ix s) 0 f1 = ((None, c), f2)" "fifo_inv ok f2"
      "settled (at s) f2 = (\<lambda>k. if k \<in> dom (at s) \<and> k \<notin> set ks then None else settled (at s) f1 k)"
    by auto
  have rest: "settled (at s) f k = None" if "k \<notin> dom (at s)" "k \<notin> keyOf ` set obs" for k
  proof (cases "k \<in> set (df_queue f)")
    case True
    with assms(4) that show ?thesis by (auto simp: list_safe_def)
  next
    case False
    with assms(1) that show ?thesis by (auto simp: fifo_inv_def settled_def dom_def)
  qed
  have "settled (at s) f2 = listed obs (\<lambda>_. None)"
  proof
    fix k
    show "settled (at s) f2 k = listed obs (\<lambda>_. None) k"
      using rest [of k] listed_at [of obs "settled (at s) f" k] listed_at [of obs "\<lambda>_. None" k]
      unfolding f2(3) f1(3,4) by (auto split: if_splits)
  qed
  moreover have "fifo_inv ok (f2\<lparr>df_populated := b, df_initialPopulationCount := n\<rparr>)"
    "settled (at s) (f2\<lparr>df_populated := b, df_initialPopulationCount := n\<rparr>) = settled (at s) f2" for b n
    using f2(2) by (simp_all add: fifo_inv_def settled_def fun_eq_iff)
  ultimately show ?thesis
    using f2(2) by (simp add: fifo_Replace_def f1(1) f2(1))
qed

text \<open>The other producers; a resync repeats what the store holds.\<close>

lemma Delete_inv:
  assumes "fifo_inv ok f" "good s"
  shows "\<exists>f'. fifo_Delete ix s (IObject ob) f = (None, f') \<and> fifo_inv ok f'
    \<and> settled (at s) f' = (settled (at s) f)(keyOf ob := None)"
proof (cases "at s (keyOf ob) = None \<and> df_items f (keyOf ob) = None")
  case True
  with assms show ?thesis
    by (auto simp: fifo_Delete_def Let_def getByKey fifo_inv_def settled_def fun_eq_iff)
next
  case False
  let ?d = "\<lparr>d_Type = DeltaDeleted, d_Object = IObject ob\<rparr>" and ?f = "f\<lparr>df_populated := True\<rparr>"
  have "fifo_inv ok ?f" "delta_ok ok (keyOf ob) ?d" "settled (at s) ?f = settled (at s) f"
    using assms(1) by (simp_all add: fifo_inv_def delta_ok_def settled_def fun_eq_iff)
  with queueAction_inv [OF this(1,2), of "at s"] False show ?thesis
    by (auto simp: fifo_Delete_def getByKey [OF assms(2)] effect_def)
qed

lemma Add_Update_inv:
  assumes "fifo_inv ok f" "ok ob"
  shows "\<exists>f'. fifo_Add (IObject ob) f = (None, f') \<and> fifo_inv ok f'
      \<and> settled m f' = (settled m f)(keyOf ob \<mapsto> ob)"
    and "\<exists>f'. fifo_Update (IObject ob) f = (None, f') \<and> fifo_inv ok f'
      \<and> settled m f' = (settled m f)(keyOf ob \<mapsto> ob)"
proof -
  let ?f = "f\<lparr>df_populated := True\<rparr>"
  have f: "fifo_inv ok ?f" "settled m ?f = settled m f"
    using assms(1) by (simp_all add: fifo_inv_def settled_def fun_eq_iff)
  have ok: "delta_ok ok (keyOf ob) \<lparr>d_Type = ty, d_Object = IObject ob\<rparr>" for ty
    using assms(2) by (simp add: delta_ok_def)
  show "\<exists>f'. fifo_Add (IObject ob) f = (None, f') \<and> fifo_inv ok f'
      \<and> settled m f' = (settled m f)(keyOf ob \<mapsto> ob)"
    using queueAction_inv [OF f(1) ok [of DeltaAdded], of m] f(2) by (auto simp: fifo_Add_def effect_def)
  show "\<exists>f'. fifo_Update (IObject ob) f = (None, f') \<and> fifo_inv ok f'
      \<and> settled m f' = (settled m f)(keyOf ob \<mapsto> ob)"
    using queueAction_inv [OF f(1) ok [of DeltaUpdated], of m] f(2) by (auto simp: fifo_Update_def effect_def)
qed

lemma syncKeys_inv:
  assumes "fifo_inv ok f" "good s"
  shows "\<exists>f'. syncKeys ix s ks f = (None, f') \<and> fifo_inv ok f' \<and> settled (at s) f' = settled (at s) f"
  using assms
proof (induction ks arbitrary: f)
  case (Cons k ks)
  have "\<exists>f1. syncKey ix s k f = (None, f1) \<and> fifo_inv ok f1 \<and> settled (at s) f1 = settled (at s) f"
  proof (cases "at s k")
    case None
    with Cons.prems show ?thesis by (simp add: syncKey_def getByKey)
  next
    case (Some ob)
    then have ob: "keyOf ob = k" "ok ob" using stored [OF Cons.prems(2)] by blast+
    show ?thesis
    proof (cases "deltasAt k f = []")
      case True
      then have now: "settled (at s) f k = Some ob"
        using Cons.prems(1) Some by (auto simp: deltasAt_def settled_def fifo_inv_def split: option.splits)
      have "delta_ok ok k \<lparr>d_Type = DeltaSync, d_Object = IObject ob\<rparr>"
        using ob by (simp add: delta_ok_def)
      moreover have "\<not> willObjectBeDeleted k f" using True by (simp add: willObjectBeDeleted_iff)
      ultimately obtain f1 where "queueAction DeltaSync (IObject ob) f = (None, f1)" "fifo_inv ok f1"
          "settled (at s) f1 = (settled (at s) f)(k \<mapsto> ob)"
        using queueAction_inv [OF Cons.prems(1), of k DeltaSync "IObject ob" "at s"]
        by (auto simp: effect_def)
      with now True ob Some show ?thesis
        by (auto simp: syncKey_def getByKey [OF Cons.prems(2)] fun_upd_idem_iff)
    next
      case False
      with ob Some Cons.prems show ?thesis by (simp add: syncKey_def getByKey)
    qed
  qed
  then obtain f1 where f1: "syncKey ix s k f = (None, f1)" "fifo_inv ok f1"
    "settled (at s) f1 = settled (at s) f" by blast
  from Cons.IH [OF f1(2) Cons.prems(2)] f1 show ?case by simp
qed simp

end

section \<open>Handling what is popped\<close>

text \<open>
  What the event handlers know from the notifications they got: an object is added when they did
  not know of one, updated from the one they knew.
\<close>

fun hear :: "notification \<Rightarrow> view \<Rightarrow> view option" where
  "hear (Added (IObject ob)) v = (if v (keyOf ob) = None then Some (v(keyOf ob \<mapsto> ob)) else None)"
| "hear (Updated (IObject old) (IObject ob)) v =
     (if v (keyOf ob) = Some old then Some (v(keyOf ob \<mapsto> ob)) else None)"
| "hear (Deleted obj) v = (case KeyOf obj of Inr key \<Rightarrow> Some (v(key := None)) | Inl err \<Rightarrow> None)"
| "hear _ v = None"

primrec hearAll :: "(notification \<times> bool) list \<Rightarrow> view \<Rightarrow> view option" where
  "hearAll [] v = Some v"
| "hearAll (n # ns) v = Option.bind (hear (fst n) v) (hearAll ns)"

lemma hearAll_append: "hearAll (ns @ ns') v = Option.bind (hearAll ns v) (hearAll ns')"
  by (induction ns arbitrary: v) (simp_all split: Option.bind_split)

lemma fifo_Pop_inv:
  assumes "fifo_inv P f" "df_queue f = key # queue"
  obtains ds f' where "fifo_Pop f = Some (ds, f')" "df_items f key = Some ds" "ds \<noteq> []"
    "\<forall>d \<in> set ds. delta_ok P key d" "fifo_inv P f'" "df_queue f' = queue"
    "df_items f' = (df_items f)(key := None)"
proof -
  let ?f = "\<lambda>ds. (popKey f)\<lparr>df_items := (df_items f)(key := None)\<rparr>"
  have "key \<in> dom (df_items f)" using assms by (auto simp: fifo_inv_def)
  then obtain ds where ds: "df_items f key = Some ds" by blast
  then have "fifo_Pop f = Some (ds, ?f ds)" using assms(2) by (simp add: fifo_Pop.simps)
  moreover have "fifo_inv P (?f ds)" using assms by (auto simp: fifo_inv_def popKey_def)
  moreover have "ds \<noteq> []" "\<forall>d \<in> set ds. delta_ok P key d"
    using assms(1) ds by (auto simp: fifo_inv_def list_all_iff)
  ultimately show thesis using that ds assms(2) by (simp add: popKey_def)
qed

lemma fifo_Pop_empty: "df_queue f = [] \<Longrightarrow> fifo_Pop f = None"
  by (simp add: fifo_Pop.simps)

context indexer
begin

lemma HandleDeltas_inv:
  assumes "good s" "\<forall>d \<in> set ds. delta_ok ok key d"
  shows "\<exists>s' ns. HandleDeltas ix ds s = Returns (None, s', ns) \<and> good s'
    \<and> at s' = (if ds = [] then at s else (at s)(key := effect (last ds)))
    \<and> hearAll ns (at s) = Some (at s')"
  using assms
proof (induction ds arbitrary: s)
  case (Cons d ds)
  have "\<exists>s1 n b. HandleDeltas ix (d # ds) s = distribute n b (HandleDeltas ix ds s1) \<and> good s1 \<and> at s1 = (at s)(key := effect d) \<and> hear n (at s) = Some (at s1)"
  proof (cases "d_Type d = DeltaDeleted")
    case True
    then have "KeyOf (d_Object d) = Inr key" using Cons.prems(2) by (simp add: delta_ok_def)
    moreover from delete [OF Cons.prems(1) this] obtain s' where
      "ix_Delete ix (d_Object d) s = Returns (Inr s')" "good s'" "at s' = (at s)(key := None)" by blast
    ultimately show ?thesis
      using True
      by (intro exI [of _ s'] exI [of _ "Deleted (d_Object d)"] exI [of _ False]) (simp add: effect_def)
  next
    case False
    then obtain ob where ob: "d_Object d = IObject ob" "ok ob" "keyOf ob = key"
      using Cons.prems(2) by (auto simp: delta_ok_def)
    show ?thesis
    proof (cases "at s key")
      case None
      obtain s' where "ix_Add ix (IObject ob) s = Returns (Inr s')" "good s'"
        "at s' = (at s)(keyOf ob \<mapsto> ob)" using add [OF Cons.prems(1) ob(2)] by blast
      with None False ob get [OF Cons.prems(1), of ob] show ?thesis
        by (intro exI [of _ s'] exI [of _ "Added (IObject ob)"] exI [of _ "d_Type d = DeltaSync"])
           (simp add: effect_def)
    next
      case (Some old)
      obtain s' where "ix_Update ix (IObject ob) s = Returns (Inr s')" "good s'"
        "at s' = (at s)(keyOf ob \<mapsto> ob)" using update [OF Cons.prems(1) ob(2)] by blast
      with Some False ob get [OF Cons.prems(1), of ob] show ?thesis
        by (intro exI [of _ s'] exI [of _ "Updated (IObject old) (IObject ob)"]
              exI [of _ "d_Type d = DeltaSync"]) (simp add: effect_def)
    qed
  qed
  then obtain s1 n b where s1:
    "HandleDeltas ix (d # ds) s = distribute n b (HandleDeltas ix ds s1)"
    "good s1" "at s1 = (at s)(key := effect d)" "hear n (at s) = Some (at s1)" by blast
  have "\<forall>d \<in> set ds. delta_ok ok key d" using Cons.prems(2) by simp
  from Cons.IH [OF s1(2) this] s1 show ?case
    by (auto simp: distribute_def simp del: HandleDeltas.simps(2) fun_upd_apply)
qed simp

text \<open>One step of the informer, under its invariant.\<close>

definition inf_inv :: "view \<Rightarrow> 's informer \<Rightarrow> bool" where
  "inf_inv v i \<longleftrightarrow> good (inf_store i) \<and> fifo_inv ok (inf_fifo i)
     \<and> settled (at (inf_store i)) (inf_fifo i) = v
     \<and> hearAll (inf_sent i) (\<lambda>_. None) = Some (at (inf_store i))"

lemma Popped_inv:
  assumes inv: "inf_inv v i"
  shows "\<exists>i'. inf_step ix k Popped i = Returns i' \<and> inf_inv v i'
    \<and> df_queue (inf_fifo i') = tl (df_queue (inf_fifo i))"
proof (cases "df_queue (inf_fifo i)")
  case Nil
  with inv show ?thesis by (simp add: fifo_Pop_empty)
next
  case (Cons key queue)
  have f: "fifo_inv ok (inf_fifo i)" and s: "good (inf_store i)" using inv by (simp_all add: inf_inv_def)
  obtain ds f' where pop: "fifo_Pop (inf_fifo i) = Some (ds, f')" "df_items (inf_fifo i) key = Some ds"
    "ds \<noteq> []" "\<forall>d \<in> set ds. delta_ok ok key d" "fifo_inv ok f'" "df_queue f' = queue"
    "df_items f' = (df_items (inf_fifo i))(key := None)"
    using f Cons by (rule fifo_Pop_inv)
  obtain s' ns where s': "HandleDeltas ix ds (inf_store i) = Returns (None, s', ns)" "good s'"
    "at s' = (at (inf_store i))(key := effect (last ds))"
    "hearAll ns (at (inf_store i)) = Some (at s')"
    using HandleDeltas_inv [OF s pop(4)] pop(3) by auto
  have "settled (at s') f' = settled (at (inf_store i)) (inf_fifo i)"
    using pop(2,7) s'(3) by (auto simp: settled_def fun_eq_iff split: option.split)
  with inv pop s' Cons show ?thesis by (simp add: inf_inv_def hearAll_append)
qed

definition event_ok :: "kind \<Rightarrow> inf_event \<Rightarrow> 's informer \<Rightarrow> bool" where
  "event_ok k e i \<longleftrightarrow>
     (case e of
        Listed obs \<Rightarrow> (\<forall>ob \<in> set obs. ok ob) \<and> list_safe obs (at (inf_store i)) (inf_fifo i)
      | WatchAdded ob \<Rightarrow> kind_of ob = k \<longrightarrow> ok ob
      | WatchModified ob \<Rightarrow> kind_of ob = k \<longrightarrow> ok ob
      | _ \<Rightarrow> True)"

lemma inf_step_inv:
  assumes "inf_inv v i" "event_ok k e i"
  shows "\<exists>i'. inf_step ix k e i = Returns i' \<and> inf_inv (told k e v) i'"
proof -
  have f: "fifo_inv ok (inf_fifo i)" and s: "good (inf_store i)"
    and v: "settled (at (inf_store i)) (inf_fifo i) = v"
    and told: "hearAll (inf_sent i) (\<lambda>_. None) = Some (at (inf_store i))"
    using assms(1) by (simp_all add: inf_inv_def)
  show ?thesis
  proof (cases e)
    case (Listed obs)
    with Replace_inv [OF f s, of obs] assms(2) s told show ?thesis
      by (auto simp: event_ok_def inf_inv_def)
  next
    case (WatchAdded ob)
    with Add_Update_inv(1) [OF f, of ob "at (inf_store i)"] assms(1,2) s told v show ?thesis
      by (auto simp: event_ok_def inf_inv_def)
  next
    case (WatchModified ob)
    with Add_Update_inv(2) [OF f, of ob "at (inf_store i)"] assms(1,2) s told v show ?thesis
      by (auto simp: event_ok_def inf_inv_def)
  next
    case (WatchDeleted ob)
    with Delete_inv [OF f s, of ob] assms(1) s told v show ?thesis by (auto simp: inf_inv_def)
  next
    case Resynced
    with syncKeys_inv [OF f s, of "ix_ListKeys ix (inf_store i)"] s told v show ?thesis
      by (auto simp: inf_inv_def fifo_Resync_def)
  next
    case Popped
    with Popped_inv [OF assms(1)] show ?thesis by auto
  qed
qed

lemma pops_inv:
  assumes "inf_inv v i" "n = length (df_queue (inf_fifo i))"
  shows "\<exists>i'. inf_run ix k (replicate n Popped) i = Returns i' \<and> inf_inv v i' \<and> at (inf_store i') = v"
  using assms
proof (induction n arbitrary: i)
  case 0
  then have "df_items (inf_fifo i) = (\<lambda>_. None)"
    by (auto simp: inf_inv_def fifo_inv_def dom_def fun_eq_iff)
  with 0 show ?case by (auto simp: inf_inv_def settled_def fun_eq_iff)
next
  case (Suc n)
  from Popped_inv [OF Suc.prems(1)] obtain i1 where "inf_step ix k Popped i = Returns i1" "inf_inv v i1"
    "df_queue (inf_fifo i1) = tl (df_queue (inf_fifo i))" by blast
  moreover from this Suc.prems(2) have "n = length (df_queue (inf_fifo i1))" by simp
  ultimately show ?case using Suc.IH [of i1] by (simp del: inf_step.simps)
qed

end

section \<open>The notebook informer\<close>

definition storeIndexer :: "threadSafeMap Indexer" where
  "storeIndexer =
     \<lparr>ix_Add = cache_Add, ix_Update = cache_Update, ix_Delete = cache_Delete, ix_Get = cache_Get,
      ix_GetByKey = tsm_Get, ix_ListKeys = tsm_ListKeys\<rparr>"

lemma tsm_Update_Add: "tsm_Update = tsm_Add"
  by (simp add: fun_eq_iff tsm_Update_def tsm_Add_def)

interpretation store: indexer storeIndexer "store_inv P" objectAt P for P
proof
  fix s ob obj key
  assume inv: "store_inv P s"
  show "\<exists>s'. ix_Add storeIndexer (IObject ob) s = Returns (Inr s') \<and> store_inv P s'
      \<and> objectAt s' = (objectAt s)(keyOf ob \<mapsto> ob)" if "P ob"
    using store_put [OF inv that] by (auto simp: storeIndexer_def cache_Add_def)
  show "\<exists>s'. ix_Update storeIndexer (IObject ob) s = Returns (Inr s') \<and> store_inv P s'
      \<and> objectAt s' = (objectAt s)(keyOf ob \<mapsto> ob)" if "P ob"
    using store_put [OF inv that] by (auto simp: storeIndexer_def cache_Update_def tsm_Update_Add)
  show "\<exists>s'. ix_Delete storeIndexer obj s = Returns (Inr s') \<and> store_inv P s'
      \<and> objectAt s' = (objectAt s)(key := None)" if "KeyOf obj = Inr key"
    using store_remove [OF inv, of key] that
    by (auto simp: storeIndexer_def cache_Delete_def KeyOf_DeletionHandling)
  show "ix_Get storeIndexer (IObject ob) s = Inr (map_option IObject (objectAt s (keyOf ob)))"
    using store_inv_at(1) [OF inv, of "keyOf ob"] by (simp add: storeIndexer_def cache_Get_def)
  show "ix_GetByKey storeIndexer key s = map_option IObject (objectAt s key)"
    using store_inv_at(1) [OF inv, of key] by (simp add: storeIndexer_def)
  show "set (ix_ListKeys storeIndexer s) = dom (objectAt s)"
    using store_keys [OF inv] by (auto simp: storeIndexer_def tsm_ListKeys_def)
  show "keyOf ob = key \<and> P ob" if "objectAt s key = Some ob"
    using store_inv_at(2) [OF inv that] .
qed

text \<open>
  NewNotebookInformer's machine, with the namespace index the operator gives it, and its runs over
  what an API server may send: notebooks whose names hold no slash, in lists that are safe.
\<close>

definition newNotebookInformer :: "threadSafeMap informer" where
  "newNotebookInformer = newInformerOn (NewThreadSafeStore [(NamespaceIndex, MetaNamespaceIndexFunc)])"

definition apiNotebook :: "object \<Rightarrow> bool" where
  "apiNotebook ob \<longleftrightarrow> isNotebook ob \<and> plainNames ob"

fun notebook_event :: "inf_event \<Rightarrow> threadSafeMap informer \<Rightarrow> bool" where
  "notebook_event (Listed obs) i \<longleftrightarrow>
     list_all apiNotebook obs \<and> list_safe obs (objectAt (inf_store i)) (inf_fifo i)"
| "notebook_event (WatchAdded ob) i \<longleftrightarrow> plainNames ob"
| "notebook_event (WatchModified ob) i \<longleftrightarrow> plainNames ob"
| "notebook_event _ i \<longleftrightarrow> True"

inductive informer_reach :: "threadSafeMap informer \<Rightarrow> view \<Rightarrow> bool" where
  start: "informer_reach newNotebookInformer (\<lambda>_. None)"
| step: "informer_reach i v \<Longrightarrow> notebook_event e i \<Longrightarrow> inf_step storeIndexer KNotebook e i = Returns i' \<Longrightarrow>
     informer_reach i' (told KNotebook e v)"

abbreviation informer_inv :: "view \<Rightarrow> threadSafeMap informer \<Rightarrow> bool" where
  "informer_inv \<equiv> store.inf_inv apiNotebook"

lemma informer_step:
  assumes "informer_inv v i" "notebook_event e i"
  shows "\<exists>i'. inf_step storeIndexer KNotebook e i = Returns i' \<and> informer_inv (told KNotebook e v) i'"
proof (rule store.inf_step_inv [OF assms(1)])
  show "store.event_ok apiNotebook KNotebook e i"
    using assms(2) by (cases e) (auto simp: store.event_ok_def apiNotebook_def list_all_iff)
qed

lemma informer_reach_inv: "informer_reach i v \<Longrightarrow> informer_inv v i"
proof (induction rule: informer_reach.induct)
  case start
  show ?case
    by (simp add: store.inf_inv_def newNotebookInformer_def newInformerOn_def store_inv_empty fifo_inv_new
        objectAt_new settled_new)
next
  case (step i v e i')
  from informer_step [OF step.IH step.hyps(2)] step.hyps(3) show ?case by auto
qed

text \<open>C7: Whatever the API server lists and however its watch events, resyncs and the informer's own
  work interleave, as long as no list overtakes the changes still queued: no step panics, the event
  handlers have been told exactly what the store holds (an addition only of what they did not know,
  an update only from what they knew), and once as many items have been popped as there are queued
  keys the store holds exactly the notebooks the reflector was last told of.\<close>

theorem informer_refines:
  assumes "informer_reach i v"
  shows "(\<forall>e. notebook_event e i \<longrightarrow> (\<exists>i'. inf_step storeIndexer KNotebook e i = Returns i'))
     \<and> hearAll (inf_sent i) (\<lambda>_. None) = Some (objectAt (inf_store i))
     \<and> (\<exists>i'. inf_run storeIndexer KNotebook (replicate (length (df_queue (inf_fifo i))) Popped) i = Returns i'
           \<and> objectAt (inf_store i') = v)"
proof -
  have inv: "informer_inv v i" using assms by (rule informer_reach_inv)
  with store.pops_inv [OF inv refl, of KNotebook] informer_step [OF inv] show ?thesis
    by (auto simp: store.inf_inv_def)
qed

text \<open>C32: In a reachable notebook informer the lister lists exactly the stored notebooks the selector
  takes, once each; the lister of a namespace, which goes through the index, exactly those of them
  in the namespace; and its Get finds the notebook of that namespace and name, or answers NotFound
  when there is none.\<close>

theorem listers_exact:
  assumes "informer_reach i v" "ns \<noteq> []" "CHR ''/'' \<notin> set ns" "CHR ''/'' \<notin> set name"
  defines "stored \<equiv> {n. \<exists>key. objectAt (inf_store i) key = Some (ONotebook n)}"
  shows "(\<exists>l. notebookLister_List sel (inf_store i) = Returns (l, None) \<and> distinct l
          \<and> set l = {n \<in> stored. sel (om_Labels (nb_Meta n))})
     \<and> (\<exists>l. notebookNamespaceLister_List ns sel (inf_store i) = Returns (l, None) \<and> distinct l
          \<and> set l = {n \<in> stored. nb_Namespace n = ns \<and> sel (om_Labels (nb_Meta n))})
     \<and> (\<exists>r. notebookNamespaceLister_Get ns name (inf_store i) = Returns r
          \<and> (\<forall>n. r = Inr n \<longleftrightarrow> n \<in> stored \<and> nb_Namespace n = ns \<and> nb_Name n = name)
          \<and> (\<forall>err. r = Inl err \<longrightarrow> err = NewNotFound KNotebook name))"
proof -
  have inv: "store_inv apiNotebook (inf_store i)"
    using informer_reach_inv [OF assms(1)] by (simp add: store.inf_inv_def)
  then have inv1: "store_inv isNotebook (inf_store i)"
    and inv2: "store_inv (\<lambda>ob. isNotebook ob \<and> plainNames ob) (inf_store i)"
    by (auto elim!: store_inv_mono simp: apiNotebook_def)
  note get = namespaceLister_Get_stored [OF inv2 assms(3,4,2)]
  have at: "objectAt (inf_store i) (listerKey ns name) = Some (ONotebook n)
      \<longleftrightarrow> n \<in> stored \<and> nb_Namespace n = ns \<and> nb_Name n = name" for n
    using get(2) [of n] by (auto simp: stored_def)
  have "\<exists>r. notebookNamespaceLister_Get ns name (inf_store i) = Returns r
      \<and> (\<forall>n. r = Inr n \<longleftrightarrow> n \<in> stored \<and> nb_Namespace n = ns \<and> nb_Name n = name)
      \<and> (\<forall>err. r = Inl err \<longrightarrow> err = NewNotFound KNotebook name)"
    unfolding get(1) at [symmetric] by (auto split: option.splits object.splits)
  moreover have "\<exists>l. notebookLister_List sel (inf_store i) = Returns (l, None) \<and> distinct l
      \<and> set l = {n \<in> stored. sel (om_Labels (nb_Meta n))}"
    using notebookLister_List_stored [OF inv1, of sel] by (auto simp: stored_def)
  moreover have "\<exists>l. notebookNamespaceLister_List ns sel (inf_store i) = Returns (l, None) \<and> distinct l
      \<and> set l = {n \<in> stored. nb_Namespace n = ns \<and> sel (om_Labels (nb_Meta n))}"
    using namespaceLister_List_stored [OF inv1 assms(2), of sel] by (auto simp: stored_def)
  ultimately show ?thesis by blast
qed

section \<open>A list that overtakes the queue\<close>

definition recreated :: "string \<Rightarrow> Notebook \<Rightarrow> Notebook" where
  "recreated uid n = n\<lparr>nb_Meta := (nb_Meta n)\<lparr>om_UID := uid\<rparr>\<rparr>"

lemma keyOf_recreated: "keyOf (ONotebook (recreated uid n)) = keyOf (ONotebook n)"
  by (simp add: recreated_def MetaNamespaceKey_def)

lemmas fifo_defs = fifo_Replace_def fifo_Delete_def fifo_Resync_def queueAction_def deltasAt_def
  dedupDeltas_def willObjectBeDeleted_def NewDeltaFIFO_def popKey_def

lemmas store_defs = storeIndexer_def cache_Add_def cache_Delete_def cache_Get_def tsm_Add_def
  tsm_Delete_def tsm_Get_def tsm_ListKeys_def updateIndices_def MetaNamespaceIndexFunc_def indexOf_def
  NewThreadSafeStore_def

text \<open>The informer after a first list of one object.\<close>

lemma first_list:
  "\<exists>s f. inf_run storeIndexer KNotebook [Listed [ob], Popped] newNotebookInformer =
      Returns \<lparr>inf_fifo = f, inf_store = s, inf_sent = [(Added (IObject ob), True)]\<rparr>
    \<and> df_items f = (\<lambda>_. None) \<and> df_queue f = [] \<and> df_populated f
    \<and> tsm_items s = [(keyOf ob, IObject ob)] \<and> store_inv (\<lambda>_. True) s"
proof -
  obtain s where s: "tsm_Add (keyOf ob) (IObject ob) (NewThreadSafeStore [(NamespaceIndex, MetaNamespaceIndexFunc)])
      = Returns s" "store_inv (\<lambda>_. True) s"
    using store_put [OF store_inv_empty [of "\<lambda>_. True"], of ob] by auto
  moreover have "tsm_items s = [(keyOf ob, IObject ob)]"
    using s(1) by (auto simp: tsm_Add_def obind_Returns_iff NewThreadSafeStore_def)
  ultimately show ?thesis
    by (simp add: newNotebookInformer_def newInformerOn_def fifo_defs fifo_Pop.simps Let_def distribute_def
        storeIndexer_def cache_Add_def cache_Get_def tsm_Get_def tsm_ListKeys_def NewThreadSafeStore_def)
qed

text \<open>C33: A notebook that is deleted and created again can be lost: when the watch breaks after the
  deletion and the new list arrives before the deletion is handled, Replace drops the list's entry
  on top of the pending deletion; the store then ends without the notebook the list named, the
  queue is empty, and no later resync brings it back.\<close>

theorem list_loses_recreated:
  defines "events \<equiv> \<lambda>n uid. [Listed [ONotebook n], Popped, WatchDeleted (ONotebook n),
      Listed [ONotebook (recreated uid n)], Popped]"
  shows "fold (told KNotebook) (events n uid) (\<lambda>_. None)
       = [MetaNamespaceKey (nb_Meta n) \<mapsto> ONotebook (recreated uid n)]
     \<and> (\<exists>i. inf_run storeIndexer KNotebook (events n uid) newNotebookInformer = Returns i
          \<and> tsm_List (inf_store i) = [] \<and> df_queue (inf_fifo i) = []
          \<and> inf_step storeIndexer KNotebook Resynced i = Returns i)"
proof -
  let ?n' = "ONotebook (recreated uid n)" and ?k = "keyOf (ONotebook n)"
  have keys: "keyOf ?n' = ?k" by (rule keyOf_recreated)
  obtain s f where first: "inf_run storeIndexer KNotebook [Listed [ONotebook n], Popped] newNotebookInformer =
      Returns \<lparr>inf_fifo = f, inf_store = s, inf_sent = [(Added (IObject (ONotebook n)), True)]\<rparr>"
    and f: "df_items f = (\<lambda>_. None)" "df_queue f = []" "df_populated f"
    and s: "tsm_items s = [(?k, IObject (ONotebook n))]" "store_inv (\<lambda>_. True) s"
    using first_list [of "ONotebook n"] by blast
  let ?i = "\<lparr>inf_fifo = f, inf_store = s, inf_sent = [(Added (IObject (ONotebook n)), True)]\<rparr>"
  obtain s' where s': "tsm_Delete ?k s = Returns s'"
    using store_remove [OF s(2), of ?k] by auto
  then have empty: "tsm_items s' = []"
    using s(1) by (auto simp: tsm_Delete_def obind_Returns_iff)
  have "inf_run storeIndexer KNotebook (events n uid) newNotebookInformer =
      inf_run storeIndexer KNotebook [WatchDeleted (ONotebook n), Listed [?n'], Popped] ?i"
    using inf_run_append [of storeIndexer KNotebook "[Listed [ONotebook n], Popped]"
        "[WatchDeleted (ONotebook n), Listed [?n'], Popped]" newNotebookInformer]
    unfolding first events_def by simp
  moreover have "\<exists>i. inf_run storeIndexer KNotebook [WatchDeleted (ONotebook n), Listed [?n'], Popped] ?i = Returns i
      \<and> tsm_List (inf_store i) = [] \<and> df_queue (inf_fifo i) = []
      \<and> inf_step storeIndexer KNotebook Resynced i = Returns i"
    using f s(1) s' empty keys
    by (simp add: fifo_defs fifo_Pop.simps Let_def distribute_def storeIndexer_def cache_Delete_def
        tsm_Get_def tsm_ListKeys_def tsm_List_def)
  moreover have "fold (told KNotebook) (events n uid) (\<lambda>_. None) = [?k \<mapsto> ?n']"
    using keys by (simp add: events_def)
  ultimately show ?thesis by simp
qed

end
