(* ===== verification/Generic_Lister.thy ===== *)
theory Generic_Lister
  imports Thread_Safe_Store "HOL-Library.Char_ord" "HOL-Library.List_Lexorder"
begin

text \<open>
  The rest of an informer's store (the vendored client-go, tools/cache: thread_safe_store.go,
  store.go): reading an index by its values, adding indexers; and the generic lister over it
  (listers.go), which ForResource of the factory hands out.
\<close>

section \<open>Reading the indices\<close>

definition noIndex :: "string \<Rightarrow> go_error" where
  "noIndex indexName = PlainError (''Index with name '' @ indexName @ '' does not exist'')"

text \<open>
  sets.String.List sorts the strings as Go compares them: by their bytes, a proper prefix first,
  which is the order of the library's lists of characters.
\<close>

definition tsm_ByIndex :: "string \<Rightarrow> string \<Rightarrow> threadSafeMap \<Rightarrow> go_error + iface list" where
  "tsm_ByIndex indexName indexKey c =
     (case map_of (tsm_indexers c) indexName of
        None \<Rightarrow> Inl (noIndex indexName)
      | Some indexFunc \<Rightarrow> Inr (map (itemAt c) (sort (indexSet (indexOf (tsm_indices c) indexName) indexKey))))"

definition tsm_IndexKeys :: "string \<Rightarrow> string \<Rightarrow> threadSafeMap \<Rightarrow> go_error + string list" where
  "tsm_IndexKeys indexName indexKey c =
     (case map_of (tsm_indexers c) indexName of
        None \<Rightarrow> Inl (noIndex indexName)
      | Some indexFunc \<Rightarrow> Inr (sort (indexSet (indexOf (tsm_indices c) indexName) indexKey)))"

definition tsm_ListIndexFuncValues :: "string \<Rightarrow> threadSafeMap \<Rightarrow> string list" where
  "tsm_ListIndexFuncValues indexName c = map fst (indexOf (tsm_indices c) indexName)"

text \<open>Indexers can be added only while the store is empty, and never replaced.\<close>

definition tsm_AddIndexers :: "(string \<times> IndexFunc) list \<Rightarrow> threadSafeMap \<Rightarrow> go_error option \<times> threadSafeMap" where
  "tsm_AddIndexers newIndexers c =
     (if length (tsm_items c) > 0 then (Some (PlainError ''cannot add indexers to running index''), c)
      else if list_ex (\<lambda>name. name \<in> set (map fst (tsm_indexers c))) (map fst newIndexers)
      then (Some (PlainError ''indexer conflict''), c)
      else (None, c\<lparr>tsm_indexers := fold (\<lambda>(k, v). mput k v) newIndexers (tsm_indexers c)\<rparr>))"

definition cache_GetByKey :: "string \<Rightarrow> threadSafeMap \<Rightarrow> iface option" where
  "cache_GetByKey key c = tsm_Get key c"

primrec keyedItems :: "iface list \<Rightarrow> (string \<times> iface) list \<Rightarrow> go_error + (string \<times> iface) list" where
  "keyedItems [] items = Inr items"
| "keyedItems (item # list) items =
     (case DeletionHandlingMetaNamespaceKeyFunc item of
        Inl err \<Rightarrow> Inl (KeyError err)
      | Inr key \<Rightarrow> keyedItems list (mput key item items))"

definition cache_Replace :: "iface list \<Rightarrow> threadSafeMap \<Rightarrow> (go_error option \<times> threadSafeMap) outcome" where
  "cache_Replace list c =
     (case keyedItems list [] of
        Inl err \<Rightarrow> Returns (Some err, c)
      | Inr items \<Rightarrow> obind (tsm_Replace items c) (\<lambda>c'. Returns (None, c')))"

section \<open>The generic lister\<close>

text \<open>
  A lister over objects of any kind. \<open>resource\<close> is only named in errors; a value that is no object
  fails the type assertion.
\<close>

definition as_object :: "iface \<Rightarrow> object outcome" where
  "as_object x = (case x of IObject ob \<Rightarrow> Returns ob | _ \<Rightarrow> Panics ''interface conversion'')"

primrec appendObjects ::
  "(ObjectMeta \<Rightarrow> bool) \<Rightarrow> iface list \<Rightarrow> object list \<Rightarrow> (object list \<times> go_error option) outcome" where
  "appendObjects selects [] ret = Returns (ret, None)"
| "appendObjects selects (m # ms) ret =
     (case asMetaObject m of
        None \<Rightarrow> Returns (ret, Some (PlainError ''object does not implement the Object interfaces''))
      | Some metadata \<Rightarrow>
          if selects metadata then obind (as_object m) (\<lambda>ob. appendObjects selects ms (ret @ [ob]))
          else appendObjects selects ms ret)"

definition genericLister_List ::
  "(string gomap \<Rightarrow> bool) \<Rightarrow> threadSafeMap \<Rightarrow> (object list \<times> go_error option) outcome" where
  "genericLister_List selector c = appendObjects (\<lambda>m. selector (om_Labels m)) (tsm_List c) []"

definition genericNamespaceLister_List ::
  "string \<Rightarrow> (string gomap \<Rightarrow> bool) \<Rightarrow> threadSafeMap \<Rightarrow> (object list \<times> go_error option) outcome" where
  "genericNamespaceLister_List namespace selector c =
     (if namespace = [] then appendObjects (\<lambda>m. selector (om_Labels m)) (tsm_List c) []
      else case tsm_Index NamespaceIndex (Some (emptyMeta\<lparr>om_Namespace := namespace\<rparr>)) c of
             Inl err \<Rightarrow>
               appendObjects (\<lambda>m. om_Namespace m = namespace \<and> selector (om_Labels m)) (tsm_List c) []
           | Inr items \<Rightarrow> appendObjects (\<lambda>m. selector (om_Labels m)) items [])"

definition genericGet :: "string \<Rightarrow> string \<Rightarrow> string \<Rightarrow> threadSafeMap \<Rightarrow> (go_error + object) outcome" where
  "genericGet resource key name c =
     (case cache_GetByKey key c of
        None \<Rightarrow> Returns (Inl (StatusError StatusReasonNotFound
                  (resource @ '' '' @ Quote name @ '' not found'')))
      | Some obj \<Rightarrow> obind (as_object obj) (\<lambda>ob. Returns (Inr ob)))"

definition genericLister_Get :: "string \<Rightarrow> string \<Rightarrow> threadSafeMap \<Rightarrow> (go_error + object) outcome" where
  "genericLister_Get resource name c = genericGet resource name name c"

definition genericNamespaceLister_Get ::
  "string \<Rightarrow> string \<Rightarrow> string \<Rightarrow> threadSafeMap \<Rightarrow> (go_error + object) outcome" where
  "genericNamespaceLister_Get resource namespace name c = genericGet resource (listerKey namespace name) name c"

section \<open>The two listers agree\<close>

lemma appendObjects_filter:
  "appendObjects (\<lambda>m. sel (om_Labels m)) (map (\<lambda>n. IObject (ONotebook n)) ns) ret
     = Returns (ret @ map ONotebook (filter (\<lambda>n. sel (om_Labels (nb_Meta n))) ns), None)"
  by (induction ns arbitrary: ret) (simp_all add: as_object_def)

text \<open>In a store of notebooks the generic lister lists what the notebook lister lists.\<close>

theorem generic_lists_notebooks:
  assumes "store_inv isNotebook c"
  shows "genericLister_List sel c =
    (case notebookLister_List sel c of Returns (ns, err) \<Rightarrow> Returns (map ONotebook ns, err) | Panics m \<Rightarrow> Panics m)"
proof -
  obtain ns where "map (itemAt c) (map fst (tsm_items c)) = map (\<lambda>n. IObject (ONotebook n)) ns"
    "distinct ns" "set ns = {n. \<exists>k \<in> set (map fst (tsm_items c)). objectAt c k = Some (ONotebook n)}"
    using notebooks_of_keys [OF assms store_invD(2) [OF assms]] store_keys [OF assms] by blast
  from this(1) have "tsm_List c = map (\<lambda>n. IObject (ONotebook n)) ns" by (simp only: tsm_List_keys [OF assms])
  then show ?thesis
    by (simp add: genericLister_List_def notebookLister_List_def appendObjects_filter appendMatching_filter)
qed

text \<open>The index of namespaces, read by a namespace, gives the stored objects of the namespace.\<close>

lemma ByIndex_namespace:
  assumes inv: "store_inv P c"
  shows "\<exists>xs. tsm_ByIndex NamespaceIndex ns c = Inr xs \<and> distinct xs
    \<and> set xs = {IObject ob | ob. \<exists>k. objectAt c k = Some ob \<and> om_Namespace (meta_of ob) = ns}"
proof -
  let ?ks = "sort (keysIn ns c)"
  have ks: "distinct ?ks" "set ?ks = {k. \<exists>ob. objectAt c k = Some ob \<and> om_Namespace (meta_of ob) = ns}"
    using store_invD(4,5) [OF inv] by simp_all
  have at: "\<exists>ob. objectAt c k = Some ob \<and> itemAt c k = IObject ob \<and> MetaNamespaceKey (meta_of ob) = k
      \<and> om_Namespace (meta_of ob) = ns" if "k \<in> set ?ks" for k
    using that ks(2) store_inv_at [OF inv, of k] by (auto simp: itemAt_def tsm_Get_def)
  have "inj_on (itemAt c) (set ?ks)"
  proof (rule inj_onI)
    fix j k assume "j \<in> set ?ks" "k \<in> set ?ks" "itemAt c j = itemAt c k"
    with at [of j] at [of k] show "j = k" by auto
  qed
  then have "distinct (map (itemAt c) ?ks)" using ks(1) by (simp add: distinct_map)
  moreover have "set (map (itemAt c) ?ks)
      = {IObject ob | ob. \<exists>k. objectAt c k = Some ob \<and> om_Namespace (meta_of ob) = ns}" (is "_ = ?R")
  proof (intro set_eqI iffI)
    fix x assume "x \<in> set (map (itemAt c) ?ks)"
    with at show "x \<in> ?R" by fastforce
  next
    fix x assume "x \<in> ?R"
    then obtain ob k where x: "x = IObject ob" "objectAt c k = Some ob" "om_Namespace (meta_of ob) = ns" by blast
    then have "k \<in> set ?ks" using ks(2) by blast
    with at [of k] x show "x \<in> set (map (itemAt c) ?ks)" by force
  qed
  ultimately show ?thesis
    using store_invD(1) [OF inv] by (simp add: tsm_ByIndex_def keysIn_def)
qed

text \<open>Adding indexers keeps those that are there.\<close>

lemma fold_mput_keeps:
  "k \<notin> set (map fst kvs) \<Longrightarrow> map_of (fold (\<lambda>(k, v). mput k v) kvs m) k = map_of m k"
  by (induction kvs arbitrary: m) auto

theorem AddIndexers_keeps:
  assumes "tsm_AddIndexers new c = (err, c')" "map_of (tsm_indexers c) name = Some f"
  shows "map_of (tsm_indexers c') name = Some f \<and> tsm_items c' = tsm_items c"
proof (cases "err = None")
  case True
  with assms(1) have "\<forall>n \<in> set (map fst new). n \<notin> set (map fst (tsm_indexers c))"
    "c' = c\<lparr>tsm_indexers := fold (\<lambda>(k, v). mput k v) new (tsm_indexers c)\<rparr>"
    by (auto simp: tsm_AddIndexers_def list_ex_iff split: if_splits)
  moreover from this have "name \<notin> set (map fst new)" using map_of_SomeD [OF assms(2)] by force
  ultimately show ?thesis using fold_mput_keeps [of name new "tsm_indexers c"] assms(2) by simp
next
  case False
  with assms show ?thesis by (auto simp: tsm_AddIndexers_def split: if_splits)
qed

end
