(* ===== verification/Informer_Factory.thy ===== *)
theory Informer_Factory
  imports Clientset Generic_Lister
begin

text \<open>
  The generated informer factory (pkg/informers/externalversions) and the notebook informer it
  makes (pkg/informers/externalversions/jupyter/v1). An informer is shared through its address:
  the factory's state is its maps, the informers made so far, of which an address is an index, and
  the addresses that Run has been called on. A Go type is its qualified name. 'o is the type of
  list options.
\<close>

section \<open>The notebook informer\<close>

text \<open>What cache.NewSharedIndexInformer is given.\<close>

record 'o informer_spec =
  spec_client :: rest_client
  spec_namespace :: string
  spec_tweak :: "('o \<Rightarrow> 'o) option"
  spec_objectType :: string
  spec_resync :: int
  spec_indexers :: "string list"

definition NewFilteredNotebookInformer ::
  "rest_client \<Rightarrow> string \<Rightarrow> int \<Rightarrow> string list \<Rightarrow> ('o \<Rightarrow> 'o) option \<Rightarrow> 'o informer_spec" where
  "NewFilteredNotebookInformer client namespace resyncPeriod indexers tweakListOptions =
     \<lparr>spec_client = client, spec_namespace = namespace, spec_tweak = tweakListOptions,
      spec_objectType = ''jupyterv1.Notebook'', spec_resync = resyncPeriod, spec_indexers = indexers\<rparr>"

definition NewNotebookInformer :: "rest_client \<Rightarrow> string \<Rightarrow> int \<Rightarrow> string list \<Rightarrow> 'o informer_spec" where
  "NewNotebookInformer client namespace resyncPeriod indexers =
     NewFilteredNotebookInformer client namespace resyncPeriod indexers None"

definition tweaked :: "('o \<Rightarrow> 'o) option \<Rightarrow> 'o \<Rightarrow> 'o" where
  "tweaked tweakListOptions options =
     (case tweakListOptions of None \<Rightarrow> options | Some tweak \<Rightarrow> tweak options)"

definition ListFunc :: "'o informer_spec \<Rightarrow> 'o \<Rightarrow> ('o, 'b) Request" where
  "ListFunc i options =
     notebooks_List (newNotebooks (spec_client i) (spec_namespace i)) (tweaked (spec_tweak i) options)"

definition WatchFunc :: "('o \<Rightarrow> 'o) \<Rightarrow> 'o informer_spec \<Rightarrow> 'o \<Rightarrow> ('o, 'b) Request" where
  "WatchFunc setWatch i options =
     notebooks_Watch setWatch (newNotebooks (spec_client i) (spec_namespace i))
       (tweaked (spec_tweak i) options)"

section \<open>The factory\<close>

record 'o sharedInformerFactory =
  sif_client :: rest_client
  sif_namespace :: string
  sif_tweakListOptions :: "('o \<Rightarrow> 'o) option"
  sif_defaultResync :: int
  sif_customResync :: "(string \<times> int) list"
  sif_informers :: "(string \<times> nat) list"
  sif_startedInformers :: "(string \<times> bool) list"

record 'o factory_state =
  fs_factory :: "'o sharedInformerFactory"
  fs_made :: "'o informer_spec list"
  fs_run :: "nat list"

type_synonym 'o SharedInformerOption = "'o sharedInformerFactory \<Rightarrow> 'o sharedInformerFactory"

text \<open>The keys of resyncConfig are objects, of which only the type matters.\<close>

definition WithCustomResyncConfig :: "(string \<times> int) list \<Rightarrow> 'o SharedInformerOption" where
  "WithCustomResyncConfig resyncConfig f =
     f\<lparr>sif_customResync := fold (\<lambda>(k, v). mput k v) resyncConfig (sif_customResync f)\<rparr>"

definition WithTweakListOptions :: "('o \<Rightarrow> 'o) option \<Rightarrow> 'o SharedInformerOption" where
  "WithTweakListOptions tweakListOptions f = f\<lparr>sif_tweakListOptions := tweakListOptions\<rparr>"

definition WithNamespace :: "string \<Rightarrow> 'o SharedInformerOption" where
  "WithNamespace namespace f = f\<lparr>sif_namespace := namespace\<rparr>"

definition NewSharedInformerFactoryWithOptions ::
  "rest_client \<Rightarrow> int \<Rightarrow> 'o SharedInformerOption list \<Rightarrow> 'o factory_state" where
  "NewSharedInformerFactoryWithOptions client defaultResync options =
     (let factory = \<lparr>sif_client = client, sif_namespace = [], sif_tweakListOptions = None,
                     sif_defaultResync = defaultResync, sif_customResync = [],
                     sif_informers = [], sif_startedInformers = []\<rparr>
      in \<lparr>fs_factory = fold (\<lambda>opt f. opt f) options factory, fs_made = [], fs_run = []\<rparr>)"

definition NewSharedInformerFactory :: "rest_client \<Rightarrow> int \<Rightarrow> 'o factory_state" where
  "NewSharedInformerFactory client defaultResync =
     NewSharedInformerFactoryWithOptions client defaultResync []"

definition NewFilteredSharedInformerFactory ::
  "rest_client \<Rightarrow> int \<Rightarrow> string \<Rightarrow> ('o \<Rightarrow> 'o) option \<Rightarrow> 'o factory_state" where
  "NewFilteredSharedInformerFactory client defaultResync namespace tweakListOptions =
     NewSharedInformerFactoryWithOptions client defaultResync
       [WithNamespace namespace, WithTweakListOptions tweakListOptions]"

type_synonym 'o NewInformerFunc = "rest_client \<Rightarrow> int \<Rightarrow> 'o informer_spec"

definition InformerFor ::
  "string \<Rightarrow> 'o NewInformerFunc \<Rightarrow> 'o factory_state \<Rightarrow> nat \<times> 'o factory_state" where
  "InformerFor informerType newFunc st =
     (let f = fs_factory st
      in case map_of (sif_informers f) informerType of
           Some informer \<Rightarrow> (informer, st)
         | None \<Rightarrow>
             (let resyncPeriod = (case map_of (sif_customResync f) informerType of
                                    Some d \<Rightarrow> d | None \<Rightarrow> sif_defaultResync f);
                  informer = length (fs_made st)
              in (informer,
                  st\<lparr>fs_made := fs_made st @ [newFunc (sif_client f) resyncPeriod],
                     fs_factory := f\<lparr>sif_informers := mput informerType informer (sif_informers f)\<rparr>\<rparr>)))"

text \<open>The loop of Start over the map of informers; a missing entry of startedInformers is false.\<close>

definition started :: "'o sharedInformerFactory \<Rightarrow> string \<Rightarrow> bool" where
  "started f informerType = (map_of (sif_startedInformers f) informerType = Some True)"

primrec startAll :: "(string \<times> nat) list \<Rightarrow> 'o factory_state \<Rightarrow> 'o factory_state" where
  "startAll [] st = st"
| "startAll (entry # entries) st =
     (let f = fs_factory st
      in startAll entries
           (if \<not> started f (fst entry)
            then st\<lparr>fs_run := fs_run st @ [snd entry],
                    fs_factory := f\<lparr>sif_startedInformers :=
                      mput (fst entry) True (sif_startedInformers f)\<rparr>\<rparr>
            else st))"

definition Start :: "'o factory_state \<Rightarrow> 'o factory_state" where
  "Start st = startAll (sif_informers (fs_factory st)) st"

text \<open>Whether a cache has synced when its wait ends is given by its address.\<close>

definition WaitForCacheSync :: "(nat \<Rightarrow> bool) \<Rightarrow> 'o factory_state \<Rightarrow> (string \<times> bool) list" where
  "WaitForCacheSync synced st =
     (let f = fs_factory st;
          informers = filter (\<lambda>(informerType, informer). started f informerType) (sif_informers f)
      in map (\<lambda>(informerType, informer). (informerType, synced informer)) informers)"

section \<open>Access to the informers\<close>

text \<open>
  Jupyter().V1().Notebooks() carries the factory's namespace and tweak through the group and the
  version to the notebook informer. The factory they point to is the state they are used in.
\<close>

record 'o group =
  grp_namespace :: string
  grp_tweakListOptions :: "('o \<Rightarrow> 'o) option"

record 'o version =
  ver_namespace :: string
  ver_tweakListOptions :: "('o \<Rightarrow> 'o) option"

record 'o notebookInformer =
  ni_namespace :: string
  ni_tweakListOptions :: "('o \<Rightarrow> 'o) option"

definition jupyter_New :: "string \<Rightarrow> ('o \<Rightarrow> 'o) option \<Rightarrow> 'o group" where
  "jupyter_New namespace tweakListOptions =
     \<lparr>grp_namespace = namespace, grp_tweakListOptions = tweakListOptions\<rparr>"

definition v1_New :: "string \<Rightarrow> ('o \<Rightarrow> 'o) option \<Rightarrow> 'o version" where
  "v1_New namespace tweakListOptions =
     \<lparr>ver_namespace = namespace, ver_tweakListOptions = tweakListOptions\<rparr>"

definition Jupyter :: "'o factory_state \<Rightarrow> 'o group" where
  "Jupyter st = jupyter_New (sif_namespace (fs_factory st)) (sif_tweakListOptions (fs_factory st))"

definition V1 :: "'o group \<Rightarrow> 'o version" where
  "V1 g = v1_New (grp_namespace g) (grp_tweakListOptions g)"

definition Notebooks :: "'o version \<Rightarrow> 'o notebookInformer" where
  "Notebooks v = \<lparr>ni_namespace = ver_namespace v, ni_tweakListOptions = ver_tweakListOptions v\<rparr>"

definition Jupyter_V1_Notebooks :: "'o factory_state \<Rightarrow> 'o notebookInformer" where
  "Jupyter_V1_Notebooks st = Notebooks (V1 (Jupyter st))"

lemma Jupyter_V1_Notebooks_eq:
  "Jupyter_V1_Notebooks st =
     \<lparr>ni_namespace = sif_namespace (fs_factory st),
      ni_tweakListOptions = sif_tweakListOptions (fs_factory st)\<rparr>"
  by (simp add: Jupyter_V1_Notebooks_def Notebooks_def V1_def v1_New_def Jupyter_def jupyter_New_def)

definition defaultInformer :: "'o notebookInformer \<Rightarrow> 'o NewInformerFunc" where
  "defaultInformer f client resyncPeriod =
     NewFilteredNotebookInformer client (ni_namespace f) resyncPeriod [''namespace'']
       (ni_tweakListOptions f)"

definition notebookInformer_Informer ::
  "'o notebookInformer \<Rightarrow> 'o factory_state \<Rightarrow> nat \<times> 'o factory_state" where
  "notebookInformer_Informer f = InformerFor ''jupyterv1.Notebook'' (defaultInformer f)"

text \<open>
  A lister holds the indexer it reads, here the address of the informer it belongs to; what List
  and Get answer is in \<open>Thread_Safe_Store\<close>.
\<close>

record notebookLister =
  nl_indexer :: nat

record notebookNamespaceLister =
  nnl_indexer :: nat
  nnl_namespace :: string

definition NewNotebookLister :: "nat \<Rightarrow> notebookLister" where
  "NewNotebookLister indexer = \<lparr>nl_indexer = indexer\<rparr>"

definition notebookLister_Notebooks :: "string \<Rightarrow> notebookLister \<Rightarrow> notebookNamespaceLister" where
  "notebookLister_Notebooks namespace s = \<lparr>nnl_indexer = nl_indexer s, nnl_namespace = namespace\<rparr>"

definition notebookInformer_Lister ::
  "'o notebookInformer \<Rightarrow> 'o factory_state \<Rightarrow> notebookLister \<times> 'o factory_state" where
  "notebookInformer_Lister f st =
     (case notebookInformer_Informer f st of (informer, st') \<Rightarrow> (NewNotebookLister informer, st'))"

record genericInformer =
  gi_informer :: nat
  gi_resource :: GroupResource

definition genericInformer_Informer :: "genericInformer \<Rightarrow> nat" where
  "genericInformer_Informer f = gi_informer f"

text \<open>A generic lister reads the store of its informer, see \<open>Generic_Lister\<close>.\<close>

record genericLister =
  gl_indexer :: nat
  gl_resource :: GroupResource

definition NewGenericLister :: "nat \<Rightarrow> GroupResource \<Rightarrow> genericLister" where
  "NewGenericLister indexer resource = \<lparr>gl_indexer = indexer, gl_resource = resource\<rparr>"

definition genericInformer_Lister :: "genericInformer \<Rightarrow> genericLister" where
  "genericInformer_Lister f = NewGenericLister (genericInformer_Informer f) (gi_resource f)"

record genericNamespaceLister =
  gnl_indexer :: nat
  gnl_namespace :: string
  gnl_resource :: GroupResource

definition genericLister_ByNamespace :: "string \<Rightarrow> genericLister \<Rightarrow> genericNamespaceLister" where
  "genericLister_ByNamespace namespace s =
     \<lparr>gnl_indexer = gl_indexer s, gnl_namespace = namespace, gnl_resource = gl_resource s\<rparr>"

definition ForResource ::
  "GroupVersionResource \<Rightarrow> 'o factory_state \<Rightarrow> (go_error + genericInformer) \<times> 'o factory_state" where
  "ForResource resource st =
     (if resource = WithResource SchemeGroupVersion ''notebooks''
      then (case notebookInformer_Informer (Jupyter_V1_Notebooks st) st of
              (informer, st') \<Rightarrow>
                (Inr \<lparr>gi_informer = informer, gi_resource = gvr_GroupResource resource\<rparr>, st'))
      else (Inl (PlainError (''no informer found for '' @ gvr_Group resource @ ''/''
              @ gvr_Version resource @ '', Resource='' @ gvr_Resource resource)), st))"

section \<open>Sharing\<close>

text \<open>The calls that change a factory.\<close>

datatype 'o factory_call =
    CallInformerFor string "'o NewInformerFunc"
  | CallNotebooks
  | CallForResource GroupVersionResource
  | CallStart

fun factory_step :: "'o factory_call \<Rightarrow> 'o factory_state \<Rightarrow> 'o factory_state" where
  "factory_step (CallInformerFor t newFunc) st = snd (InformerFor t newFunc st)"
| "factory_step CallNotebooks st = snd (notebookInformer_Informer (Jupyter_V1_Notebooks st) st)"
| "factory_step (CallForResource resource) st = snd (ForResource resource st)"
| "factory_step CallStart st = Start st"

text \<open>One informer per type, each at an address of its own; what runs is what has been started.\<close>

abbreviation informerOf :: "'o factory_state \<Rightarrow> string \<Rightarrow> nat option" where
  "informerOf st \<equiv> map_of (sif_informers (fs_factory st))"

definition factory_inv :: "'o factory_state \<Rightarrow> bool" where
  "factory_inv st \<longleftrightarrow>
     distinct (map fst (sif_informers (fs_factory st))) \<and>
     (\<forall>t p. informerOf st t = Some p \<longrightarrow> p < length (fs_made st)) \<and>
     (\<forall>t t' p. informerOf st t = Some p \<longrightarrow> informerOf st t' = Some p \<longrightarrow> t = t') \<and>
     distinct (fs_run st) \<and>
     set (fs_run st) = {p. \<exists>t. informerOf st t = Some p \<and> started (fs_factory st) t} \<and>
     (\<forall>t. started (fs_factory st) t \<longrightarrow> informerOf st t \<noteq> None)"

text \<open>What a factory already has, no call takes away or replaces.\<close>

definition keeps :: "'o factory_state \<Rightarrow> 'o factory_state \<Rightarrow> bool" where
  "keeps st st' \<longleftrightarrow>
     (\<forall>t p. informerOf st t = Some p \<longrightarrow> informerOf st' t = Some p) \<and>
     (\<exists>more. fs_made st' = fs_made st @ more)"

lemma keeps_refl: "keeps st st"
  by (simp add: keeps_def)

lemma keeps_trans: "keeps a b \<Longrightarrow> keeps b c \<Longrightarrow> keeps a c"
  by (auto simp: keeps_def)

lemma started_simps [simp]:
  "started (f\<lparr>sif_informers := x\<rparr>) t = started f t"
  "started (f\<lparr>sif_startedInformers := mput t' True (sif_startedInformers f)\<rparr>) t
     \<longleftrightarrow> t = t' \<or> started f t"
  by (simp_all add: started_def)

lemma factory_inv_new:
  "factory_inv (NewSharedInformerFactoryWithOptions c d
     [WithCustomResyncConfig cfg, WithNamespace ns, WithTweakListOptions tw])"
  by (simp add: factory_inv_def NewSharedInformerFactoryWithOptions_def WithCustomResyncConfig_def
      WithNamespace_def WithTweakListOptions_def started_def)

lemma InformerFor_inv:
  assumes inv: "factory_inv st"
  shows "factory_inv (snd (InformerFor t newFunc st)) \<and> keeps st (snd (InformerFor t newFunc st))
     \<and> informerOf (snd (InformerFor t newFunc st)) t = Some (fst (InformerFor t newFunc st))"
proof (cases "informerOf st t")
  case None
  let ?st = "snd (InformerFor t newFunc st)" and ?p = "length (fs_made st)"
  have new: "informerOf ?st = (informerOf st)(t \<mapsto> ?p)" "fs_run ?st = fs_run st"
    "\<And>t'. started (fs_factory ?st) t' = started (fs_factory st) t'"
    "\<exists>i. fs_made ?st = fs_made st @ [i]" "fst (InformerFor t newFunc st) = ?p"
    "distinct (map fst (sif_informers (fs_factory ?st)))"
    using None inv by (simp_all add: InformerFor_def Let_def fun_eq_iff factory_inv_def)
  have "informerOf st t' \<noteq> Some ?p" for t'
    using inv unfolding factory_inv_def by (metis less_irrefl)
  moreover have "\<not> started (fs_factory st) t" using inv None by (auto simp: factory_inv_def)
  ultimately show ?thesis
    using inv new None unfolding factory_inv_def keeps_def
    by (auto simp: less_Suc_eq simp del: map_of_eq_Some_iff) metis
next
  case (Some p)
  with inv show ?thesis by (simp add: InformerFor_def Let_def keeps_refl)
qed

lemma startAll_inv:
  assumes "factory_inv st" "\<forall>e \<in> set entries. informerOf st (fst e) = Some (snd e)"
  shows "factory_inv (startAll entries st) \<and> informerOf (startAll entries st) = informerOf st
    \<and> sif_informers (fs_factory (startAll entries st)) = sif_informers (fs_factory st)
    \<and> fs_made (startAll entries st) = fs_made st
    \<and> (\<forall>t. started (fs_factory (startAll entries st)) t
         \<longleftrightarrow> started (fs_factory st) t \<or> t \<in> fst ` set entries)"
  using assms
proof (induction entries arbitrary: st)
  case (Cons e entries)
  show ?case
  proof (cases "started (fs_factory st) (fst e)")
    case True
    with Cons show ?thesis by auto
  next
    case False
    let ?st = "st\<lparr>fs_run := fs_run st @ [snd e],
      fs_factory := (fs_factory st)\<lparr>sif_startedInformers :=
        mput (fst e) True (sif_startedInformers (fs_factory st))\<rparr>\<rparr>"
    have e: "informerOf st (fst e) = Some (snd e)" using Cons.prems(2) by simp
    have "snd e \<notin> set (fs_run st)"
      using Cons.prems(1) e False unfolding factory_inv_def by blast
    then have "factory_inv ?st"
      using Cons.prems(1) e by (auto simp: factory_inv_def simp del: map_of_eq_Some_iff)
    from Cons.IH [OF this] Cons.prems(2) False show ?thesis by (auto simp: Let_def)
  qed
qed simp

lemma Start_inv:
  assumes "factory_inv st"
  shows "factory_inv (Start st)" "keeps st (Start st)"
    "started (fs_factory (Start st)) t \<longleftrightarrow> informerOf st t \<noteq> None"
    "informerOf (Start st) = informerOf st"
proof -
  have "\<forall>e \<in> set (sif_informers (fs_factory st)). informerOf st (fst e) = Some (snd e)"
    using assms by (simp add: factory_inv_def)
  note all = startAll_inv [OF assms this]
  show "factory_inv (Start st)" "informerOf (Start st) = informerOf st" "keeps st (Start st)"
    using all by (simp_all add: Start_def keeps_def)
  show "started (fs_factory (Start st)) t \<longleftrightarrow> informerOf st t \<noteq> None"
    using all assms by (auto simp: Start_def factory_inv_def map_of_eq_None_iff)
qed

lemma factory_step_inv:
  assumes "factory_inv st"
  shows "factory_inv (factory_step call st) \<and> keeps st (factory_step call st)"
  using InformerFor_inv [OF assms] Start_inv [OF assms] assms
  by (cases call) (simp_all add: notebookInformer_Informer_def ForResource_def keeps_refl case_prod_beta)

lemma factory_run_inv:
  "factory_inv st \<Longrightarrow> factory_inv (fold factory_step calls st) \<and> keeps st (fold factory_step calls st)"
proof (induction calls arbitrary: st)
  case (Cons call calls)
  from factory_step_inv [OF Cons.prems, of call] Cons.IH [of "factory_step call st"] show ?case
    by (auto intro: keeps_trans)
qed (simp add: keeps_refl)

text \<open>C37: Over any calls a factory runs each informer at most once; Start runs every informer it has
  made, those asked for after an earlier Start included, and the caches it then waits for are
  those of all informers; the informer of a type is made once, every later call of InformerFor
  for it answers the same, and ForResource and Jupyter().V1().Notebooks() share the notebook
  informer.\<close>

theorem informers_shared:
  fixes calls calls' :: "'o factory_call list" and tw :: "('o \<Rightarrow> 'o) option"
    and c :: rest_client and d :: int and cfg :: "(string \<times> int) list" and ns :: string
  defines "st \<equiv> fold factory_step calls (NewSharedInformerFactoryWithOptions c d
      [WithCustomResyncConfig cfg, WithNamespace ns, WithTweakListOptions tw])"
  shows "distinct (fs_run st)
     \<and> set (fs_run (Start st)) = snd ` set (sif_informers (fs_factory st))
     \<and> map fst (WaitForCacheSync synced (Start st)) = map fst (sif_informers (fs_factory (Start st)))
     \<and> fst (InformerFor t f' (fold factory_step calls' (snd (InformerFor t f st)))) = fst (InformerFor t f st)
     \<and> map_sum id gi_informer (fst (ForResource (WithResource SchemeGroupVersion ''notebooks'') st))
         = Inr (fst (notebookInformer_Informer (Jupyter_V1_Notebooks st) st))"
proof -
  have inv: "factory_inv st" unfolding st_def using factory_run_inv [OF factory_inv_new] by blast
  let ?s1 = "snd (InformerFor t f st)"
  note for_t = InformerFor_inv [OF inv, of t f]
  have inv1: "factory_inv ?s1" using for_t by blast
  have "keeps ?s1 (fold factory_step calls' ?s1)" using factory_run_inv [OF inv1] by blast
  with for_t have "informerOf (fold factory_step calls' ?s1) t = Some (fst (InformerFor t f st))"
    by (auto simp: keeps_def)
  then have "fst (InformerFor t f' (fold factory_step calls' ?s1)) = fst (InformerFor t f st)"
    by (simp add: InformerFor_def Let_def)
  moreover have "set (fs_run (Start st)) = snd ` set (sif_informers (fs_factory st))"
  proof -
    have "set (fs_run (Start st)) = {p. \<exists>t. informerOf st t = Some p}"
      using Start_inv [OF inv] by (auto simp: factory_inv_def)
    moreover have "distinct (map fst (sif_informers (fs_factory st)))"
      using inv by (simp add: factory_inv_def)
    ultimately show ?thesis by (auto simp: image_iff Bex_def)
  qed
  moreover have "filter (\<lambda>(t, p). started (fs_factory (Start st)) t) (sif_informers (fs_factory (Start st)))
      = sif_informers (fs_factory (Start st))"
  proof (rule filter_True, clarify)
    fix t' p assume "(t', p) \<in> set (sif_informers (fs_factory (Start st)))"
    then have "informerOf (Start st) t' \<noteq> None" by (simp add: map_of_eq_None_iff) force
    then show "started (fs_factory (Start st)) t'"
      using Start_inv(3,4) [OF inv] by simp
  qed
  ultimately show ?thesis
    using inv by (simp add: factory_inv_def WaitForCacheSync_def Let_def ForResource_def case_prod_beta
        comp_def)
qed

end
