(* ===== verification/Passes.thy ===== *)
theory Passes
  imports Worker
begin

text \<open>
  What the passes of a run of the workers have read. A pass is what a worker does between taking a
  key and finishing with it; level triggering means that a change is not lost when it comes during
  a pass, because another pass follows. The lemmas here say it of one key: unless it is queued, the
  last pass over it, or the one under way, has read the notebook as it is stored.
\<close>

section \<open>The passes of a run\<close>

text \<open>The events of a worker since it took its key, and of the last successful pass over a key.\<close>

definition passOf :: "nat \<Rightarrow> label list \<Rightarrow> event list" where
  "passOf w ls =
     foldl (\<lambda>es l. case l of
         Took v k \<Rightarrow> if v = w then [] else es
       | Acted v a r \<Rightarrow> if v = w then es @ [(a, r)] else es
       | _ \<Rightarrow> es) [] ls"

primrec lastPassRev :: "string \<Rightarrow> label list \<Rightarrow> event list option" where
  "lastPassRev k [] = None"
| "lastPassRev k (l # ls) =
     (case l of
        Succeeded w i \<Rightarrow> if i = k then Some (passOf w (rev ls)) else lastPassRev k ls
      | _ \<Rightarrow> lastPassRev k ls)"

definition lastPass :: "string \<Rightarrow> label list \<Rightarrow> event list option" where
  "lastPass k ls = lastPassRev k (rev ls)"

lemma passOf_snoc [simp]:
  "passOf w (ls @ [l]) =
     (case l of
        Took v k \<Rightarrow> if v = w then [] else passOf w ls
      | Acted v a r \<Rightarrow> if v = w then passOf w ls @ [(a, r)] else passOf w ls
      | _ \<Rightarrow> passOf w ls)"
  by (simp add: passOf_def split: label.split)

lemma lastPass_snoc [simp]:
  "lastPass k (ls @ [l]) =
     (case l of Succeeded w i \<Rightarrow> if i = k then Some (passOf w ls) else lastPass k ls | _ \<Rightarrow> lastPass k ls)"
  by (simp add: lastPass_def split: label.split)

lemma lastPass_Nil [simp]: "lastPass k [] = None" "passOf w [] = []"
  by (simp_all add: lastPass_def passOf_def)

text \<open>A worker that holds a key is as far in its pass as its events say.\<close>

definition passes_ok :: "'k crypto \<Rightarrow> 'k Config \<Rightarrow> label list \<Rightarrow> ctl \<Rightarrow> bool" where
  "passes_ok cr cfg ls s \<longleftrightarrow>
     (\<forall>w k p. w < length (workers s) \<longrightarrow> workers s ! w = Syncing k p \<longrightarrow>
        (\<exists>d. feed (sync cr d cfg k) (passOf w ls) = Some p))"

lemma passes_okD:
  "passes_ok cr cfg ls s \<Longrightarrow> w < length (workers s) \<Longrightarrow> workers s ! w = Syncing k p \<Longrightarrow>
     \<exists>d. feed (sync cr d cfg k) (passOf w ls) = Some p"
  by (simp add: passes_ok_def)

lemma passes_ok_step:
  assumes "work_step cr cfg s l s'" "passes_ok cr cfg ls s"
  shows "passes_ok cr cfg (ls @ [l]) s'"
  using assms(1)
proof cases
  case (take w k q d)
  with assms(2) show ?thesis by (auto simp: passes_ok_def nth_list_update)
next
  case (act w k a f r)
  then obtain d where "feed (sync cr d cfg k) (passOf w ls) = Some (Act a f)"
    using passes_okD [OF assms(2), of w k] by blast
  with act have "feed (sync cr d cfg k) (passOf w ls @ [(a, r)]) = Some (f r)"
    by (simp add: feed_append)
  with assms(2) act show ?thesis
    by (auto simp: passes_ok_def nth_list_update)
qed (use assms(2) in \<open>auto simp: passes_ok_def nth_list_update split: if_splits\<close>)

lemma passes_ok_run: "work_steps cr cfg (startWorkers n t) ls s \<Longrightarrow> passes_ok cr cfg ls s"
proof (induction ls arbitrary: s rule: rev_induct)
  case (snoc l ls)
  then show ?case by (auto simp: work_steps_append intro: passes_ok_step)
qed (simp add: passes_ok_def startWorkers_def)

section \<open>What a pass has read\<close>

text \<open>A pass over a well formed key begins with the lookup of its notebook.\<close>

definition notebookKey :: "string \<Rightarrow> bool" where
  "notebookKey k \<longleftrightarrow> (\<exists>ns nm. k = listerKey ns nm \<and> ns \<noteq> [] \<and> slashFree (ns, nm))"

lemma sync_looks_up:
  assumes "notebookKey k"
  shows "\<exists>f. sync cr d cfg k = Act (ALookup KNotebook k) f"
proof -
  obtain ns nm where k: "k = listerKey ns nm" "ns \<noteq> []" "slashFree (ns, nm)"
    using assms by (auto simp: notebookKey_def)
  then have "SplitMetaNamespaceKey k = Inr (ns, nm)"
    using meta_codec.dec_enc [OF k(3)] by (simp add: metaKey_def MetaNamespaceKey_def listerKey_def)
  then show ?thesis
    by (simp add: sync_def k(1) [symmetric] NotebookLister_Get_def lister_Get_def lookup_def)
qed

text \<open>Nothing yet, or the notebook as it is stored now.\<close>

definition reads :: "string \<Rightarrow> object option \<Rightarrow> event list \<Rightarrow> bool" where
  "reads k cur es \<longleftrightarrow> (es \<noteq> [] \<longrightarrow> hd es = (ALookup KNotebook k, Found cur))"

lemma reads_first:
  assumes "feed (sync cr d cfg k) es = Some (Act a f)" "notebookKey k" "reads k cur es"
    and "\<And>r'. a = ALookup KNotebook k \<Longrightarrow> r = Found cur"
  shows "reads k cur (es @ [(a, r)])"
proof (cases es)
  case Nil
  with assms(1) sync_looks_up [OF assms(2), of cr d cfg] have "a = ALookup KNotebook k" by auto
  with assms(4) Nil show ?thesis by (simp add: reads_def)
qed (use assms(3) in \<open>simp add: reads_def\<close>)

lemma reads_whole:
  assumes "feed (sync cr d cfg k) es = Some (Done res)" "notebookKey k" "reads k cur es"
  shows "\<exists>es'. es = (ALookup KNotebook k, Found cur) # es'"
proof (cases es)
  case Nil
  with assms(1) sync_looks_up [OF assms(2), of cr d cfg] show ?thesis by auto
qed (use assms(3) in \<open>simp add: reads_def\<close>)

section \<open>A key that is taken care of\<close>

text \<open>
  The last successful pass over the key was a whole run of sync that found \<open>cur\<close>; while a worker is
  at the key, it has found \<open>cur\<close> or not looked yet.
\<close>

definition synced :: "'k crypto \<Rightarrow> 'k Config \<Rightarrow> string \<Rightarrow> object option \<Rightarrow> label list \<Rightarrow> bool" where
  "synced cr cfg k cur ls \<longleftrightarrow>
     (\<exists>d es. lastPass k ls = Some ((ALookup KNotebook k, Found cur) # es)
        \<and> feed (sync cr d cfg k) ((ALookup KNotebook k, Found cur) # es) = Some (Done None))"

definition syncers :: "wstate list \<Rightarrow> string \<Rightarrow> nat set" where
  "syncers ws k = {w. w < length ws \<and> (\<exists>p. ws ! w = Syncing k p)}"

definition fresh :: "'k crypto \<Rightarrow> 'k Config \<Rightarrow> string \<Rightarrow> object option \<Rightarrow> label list \<Rightarrow> ctl \<Rightarrow> bool" where
  "fresh cr cfg k cur ls s \<longleftrightarrow>
     (\<forall>w \<in> syncers (workers s) k. reads k cur (passOf w ls)) \<and>
     (syncers (workers s) k = {} \<longrightarrow> synced cr cfg k cur ls)"

lemma syncers_update:
  "w < length ws \<Longrightarrow> syncers (ws[w := x]) k =
     (if \<exists>p. x = Syncing k p then insert w (syncers ws k) else syncers ws k - {w})"
  by (auto simp: syncers_def nth_list_update split: if_splits)

definition covered :: "'k crypto \<Rightarrow> 'k Config \<Rightarrow> string \<Rightarrow> object option \<Rightarrow> label list \<Rightarrow> ctl \<Rightarrow> bool" where
  "covered cr cfg k cur ls s \<longleftrightarrow>
     crashed s \<or> shutting (queue s) \<or> (\<exists>t. dueBy t k (queue s)) \<or> fresh cr cfg k cur ls s"

lemma one_syncing:
  assumes "ctl_inv s" "v \<in> syncers (workers s) k" "w \<in> syncers (workers s) k"
  shows "v = w"
proof -
  have "busy (workers s) v = busy (workers s) w" "v \<in> dom (busy (workers s))" "w \<in> dom (busy (workers s))"
    using assms(2,3) by (auto simp: busy_def syncers_def)
  moreover have "inj_on (busy (workers s)) (dom (busy (workers s)))"
    using assms(1) by (simp add: ctl_inv_def pool_ok_def)
  ultimately show ?thesis by (rule inj_onD [rotated 1])
qed

lemma fresh_taken:
  assumes "work_step cr cfg s (Took w k) s'" "ctl_inv s"
  shows "fresh cr cfg k cur (ls @ [Took w k]) s'"
proof -
  have "w \<in> syncers (workers s') k"
    using assms(1) by cases (simp add: syncers_def)
  moreover from this one_syncing [OF work_step_inv [OF assms]] have "syncers (workers s') k \<subseteq> {w}" by blast
  ultimately show ?thesis by (auto simp: fresh_def reads_def)
qed

text \<open>A step of a worker that is at another key, and the two that matter of one at this key.\<close>

lemma fresh_elsewhere:
  assumes "fresh cr cfg k cur ls s" "w < length (workers s)" "workers s' = (workers s)[w := x]"
    and "\<And>p. workers s ! w \<noteq> Syncing k p" "\<And>p. x \<noteq> Syncing k p"
    and "\<And>v. v \<noteq> w \<Longrightarrow> passOf v ls' = passOf v ls" "lastPass k ls' = lastPass k ls"
  shows "fresh cr cfg k cur ls' s'"
proof -
  have "w \<notin> syncers (workers s) k" using assms(4) by (simp add: syncers_def)
  moreover from this have "syncers (workers s') k = syncers (workers s) k"
    using assms(2,3,5) by (simp add: syncers_update)
  moreover have "passOf v ls' = passOf v ls" if "v \<in> syncers (workers s) k" for v
    using assms(6) [of v] that \<open>w \<notin> syncers (workers s) k\<close> by auto
  ultimately show ?thesis using assms(1,7) by (simp add: fresh_def synced_def)
qed

lemma syncersI: "w < length ws \<Longrightarrow> ws ! w = Syncing k p \<Longrightarrow> w \<in> syncers ws k"
  by (auto simp: syncers_def)

lemma fresh_acted:
  assumes "passes_ok cr cfg ls s" "notebookKey k" "fresh cr cfg k cur ls s"
    and "w < length (workers s)" "workers s ! w = Syncing k (Act a f)"
    and "workers s' = (workers s)[w := Syncing k (f r)]" "a = ALookup KNotebook k \<Longrightarrow> r = Found cur"
  shows "fresh cr cfg k cur (ls @ [Acted w a r]) s'"
proof -
  obtain d where d: "feed (sync cr d cfg k) (passOf w ls) = Some (Act a f)"
    using passes_okD [OF assms(1,4,5)] by blast
  have "reads k cur (passOf w ls)" using assms(3) syncersI [OF assms(4,5)] by (simp add: fresh_def)
  from reads_first [OF d assms(2) this assms(7)] have "reads k cur (passOf w ls @ [(a, r)])" .
  with assms(3,4,6) show ?thesis by (auto simp: fresh_def syncers_update)
qed

lemma fresh_succeeded:
  assumes "ctl_inv s" "passes_ok cr cfg ls s" "notebookKey k" "fresh cr cfg k cur ls s"
    and "w < length (workers s)" "workers s ! w = Syncing k (Done None)"
    and "workers s' = (workers s)[w := Finishing k]"
  shows "fresh cr cfg k cur (ls @ [Succeeded w k]) s'"
proof -
  obtain d where d: "feed (sync cr d cfg k) (passOf w ls) = Some (Done None)"
    using passes_okD [OF assms(2,5,6)] by blast
  note w = syncersI [OF assms(5,6)]
  with assms(4) have "reads k cur (passOf w ls)" by (simp add: fresh_def)
  from reads_whole [OF d assms(3) this] d have "synced cr cfg k cur (ls @ [Succeeded w k])"
    by (auto simp: synced_def)
  moreover have "syncers (workers s') k = {}"
    using one_syncing [OF assms(1) _ w] assms(5,7) by (auto simp: syncers_update)
  ultimately show ?thesis by (simp add: fresh_def)
qed

lemma fresh_step:
  assumes "work_step cr cfg s l s'" "ctl_inv s" "passes_ok cr cfg ls s" "notebookKey k"
    and "fresh cr cfg k cur ls s" "\<And>w r. l = Acted w (ALookup KNotebook k) r \<Longrightarrow> r = Found cur"
  shows "covered cr cfg k cur (ls @ [l]) s'"
  using assms(1)
proof cases
  case (take w i q d)
  with fresh_taken [of cr cfg s w k s' cur ls] assms(1,2) fresh_elsewhere [OF assms(5), of w s'] show ?thesis
    by (cases "i = k") (simp_all add: covered_def)
next
  case (act w i a f r)
  with fresh_acted [OF assms(3-5), of w a f s' r] assms(6) fresh_elsewhere [OF assms(5), of w s'] show ?thesis
    by (cases "i = k") (simp_all add: covered_def)
next
  case (succeed w i)
  with fresh_succeeded [OF assms(2-5), of w s'] fresh_elsewhere [OF assms(5), of w s'] show ?thesis
    by (cases "i = k") (simp_all add: covered_def)
next
  case (fail w i e b q)
  have "isControllerLimiter (limiter (queue s))" using assms(2) by (simp add: ctl_inv_def rlq_inv_def)
  with fail AddRateLimited_some(4,7) [OF fail(6)] fresh_elsewhere [OF assms(5), of w s'] show ?thesis
    by (cases "i = k") (auto simp: covered_def shutting_def)
next
  case (quit w q)
  with fresh_elsewhere [OF assms(5), of w s'] show ?thesis by (simp add: covered_def)
next
  case (finish w i)
  with fresh_elsewhere [OF assms(5), of w s'] show ?thesis by (simp add: covered_def)
qed (use assms(5) in \<open>auto simp: covered_def fresh_def synced_def\<close>)

lemma covered_step:
  assumes "work_step cr cfg s l s'" "ctl_inv s" "passes_ok cr cfg ls s" "notebookKey k"
    and "covered cr cfg k cur ls s" "\<And>w r. l = Acted w (ALookup KNotebook k) r \<Longrightarrow> r = Found cur"
  shows "covered cr cfg k cur (ls @ [l]) s'"
proof -
  have "\<not> crashed s" using assms(1) by cases simp_all
  with assms(5) consider "shutting (queue s)" | t where "dueBy t k (queue s)" | "fresh cr cfg k cur ls s"
    by (auto simp: covered_def)
  then show ?thesis
  proof cases
    case 1
    with work_step_limiter(3) [OF assms(1,2)] show ?thesis by (simp add: covered_def)
  next
    case 2
    show ?thesis
    proof (cases "\<exists>w. l = Took w k")
      case True
      then obtain w where l: "l = Took w k" by blast
      from fresh_taken [OF assms(1) [unfolded l] assms(2)] l show ?thesis by (simp add: covered_def)
    next
      case False
      with work_step_due [OF assms(1,2) 2] show ?thesis by (auto simp: covered_def)
    qed
  next
    case 3
    show ?thesis using assms(1-4) 3 assms(6) by (rule fresh_step)
  qed
qed

end
