(* ===== verification/Shared_Informer.thy ===== *)
theory Shared_Informer
  imports Delta_Fifo
begin

text \<open>
  How an informer reaches its event handlers (the vendored client-go, tools/cache:
  shared_informer.go): the listeners with what waits for their handlers, which of them hear of
  resyncs, and the handler that is added while the informer runs, as the operator's are. Times and
  periods are nanoseconds. A listener's address is its index.
\<close>

section \<open>Listeners\<close>

record processorListener =
  pl_pendingNotifications :: "notification list"
  pl_requestedResyncPeriod :: int
  pl_resyncPeriod :: int
  pl_nextResync :: int

definition determineNextResync :: "int \<Rightarrow> processorListener \<Rightarrow> processorListener" where
  "determineNextResync now p = p\<lparr>pl_nextResync := now + pl_resyncPeriod p\<rparr>"

definition newProcessListener :: "int \<Rightarrow> int \<Rightarrow> int \<Rightarrow> processorListener" where
  "newProcessListener requestedResyncPeriod resyncPeriod now =
     determineNextResync now
       \<lparr>pl_pendingNotifications = [], pl_requestedResyncPeriod = requestedResyncPeriod,
        pl_resyncPeriod = resyncPeriod, pl_nextResync = 0\<rparr>"

definition pl_add :: "notification \<Rightarrow> processorListener \<Rightarrow> processorListener" where
  "pl_add note p = p\<lparr>pl_pendingNotifications := pl_pendingNotifications p @ [note]\<rparr>"

text \<open>What pop hands to run, which calls the handler with it.\<close>

definition pl_pop :: "processorListener \<Rightarrow> (notification \<times> processorListener) option" where
  "pl_pop p =
     (case pl_pendingNotifications p of
        [] \<Rightarrow> None
      | note # notes \<Rightarrow> Some (note, p\<lparr>pl_pendingNotifications := notes\<rparr>))"

definition pl_shouldResync :: "int \<Rightarrow> processorListener \<Rightarrow> bool" where
  "pl_shouldResync now p =
     (if pl_resyncPeriod p = 0 then False else pl_nextResync p < now \<or> now = pl_nextResync p)"

definition setResyncPeriod :: "int \<Rightarrow> processorListener \<Rightarrow> processorListener" where
  "setResyncPeriod resyncPeriod p = p\<lparr>pl_resyncPeriod := resyncPeriod\<rparr>"

definition determineResyncPeriod :: "int \<Rightarrow> int \<Rightarrow> int" where
  "determineResyncPeriod desired check =
     (if desired = 0 then desired
      else if check = 0 then 0
      else if desired < check then check
      else desired)"

section \<open>The processor\<close>

record sharedProcessor =
  sp_listeners :: "processorListener list"
  sp_syncingListeners :: "nat list"

definition addListener :: "processorListener \<Rightarrow> sharedProcessor \<Rightarrow> sharedProcessor" where
  "addListener listener p =
     p\<lparr>sp_listeners := sp_listeners p @ [listener],
       sp_syncingListeners := sp_syncingListeners p @ [length (sp_listeners p)]\<rparr>"

definition sendTo :: "notification \<Rightarrow> nat \<Rightarrow> processorListener list \<Rightarrow> processorListener list" where
  "sendTo note i ls = (if i < length ls then ls[i := pl_add note (ls ! i)] else ls)"

definition sp_distribute :: "notification \<Rightarrow> bool \<Rightarrow> sharedProcessor \<Rightarrow> sharedProcessor" where
  "sp_distribute note isSync p =
     (if isSync
      then p\<lparr>sp_listeners := fold (sendTo note) (sp_syncingListeners p) (sp_listeners p)\<rparr>
      else p\<lparr>sp_listeners := map (pl_add note) (sp_listeners p)\<rparr>)"

primrec distributeAll :: "(notification \<times> bool) list \<Rightarrow> sharedProcessor \<Rightarrow> sharedProcessor" where
  "distributeAll [] p = p"
| "distributeAll (n # ns) p = distributeAll ns (sp_distribute (fst n) (snd n) p)"

text \<open>The loop over the listeners; \<open>i\<close> is the index of the first of the rest.\<close>

primrec resyncLoop ::
  "int \<Rightarrow> nat \<Rightarrow> processorListener list \<Rightarrow> processorListener list \<times> nat list" where
  "resyncLoop now i [] = ([], [])"
| "resyncLoop now i (l # ls) =
     (let (ls', syncing) = resyncLoop now (Suc i) ls
      in if pl_shouldResync now l then (determineNextResync now l # ls', i # syncing)
         else (l # ls', syncing))"

definition shouldResync :: "int \<Rightarrow> sharedProcessor \<Rightarrow> bool \<times> sharedProcessor" where
  "shouldResync now p =
     (let (ls, syncing) = resyncLoop now 0 (sp_listeners p)
      in (syncing \<noteq> [], p\<lparr>sp_listeners := ls, sp_syncingListeners := syncing\<rparr>))"

definition resyncCheckPeriodChanged :: "int \<Rightarrow> sharedProcessor \<Rightarrow> sharedProcessor" where
  "resyncCheckPeriodChanged resyncCheckPeriod p =
     p\<lparr>sp_listeners := map (\<lambda>l. setResyncPeriod
         (determineResyncPeriod (pl_requestedResyncPeriod l) resyncCheckPeriod) l) (sp_listeners p)\<rparr>"

section \<open>Adding a handler\<close>

record sharedIndexInformer =
  si_processor :: sharedProcessor
  si_resyncCheckPeriod :: int
  si_defaultEventHandlerResyncPeriod :: int
  si_started :: bool
  si_stopped :: bool

definition NewSharedIndexInformer :: "int \<Rightarrow> sharedIndexInformer" where
  "NewSharedIndexInformer defaultEventHandlerResyncPeriod =
     \<lparr>si_processor = \<lparr>sp_listeners = [], sp_syncingListeners = []\<rparr>,
      si_resyncCheckPeriod = defaultEventHandlerResyncPeriod,
      si_defaultEventHandlerResyncPeriod = defaultEventHandlerResyncPeriod,
      si_started = False, si_stopped = False\<rparr>"

definition minimumResyncPeriod :: int where
  "minimumResyncPeriod = 1000000000"

text \<open>The period the handler is given, after the informer has taken note of it.\<close>

definition agreePeriod :: "int \<Rightarrow> sharedIndexInformer \<Rightarrow> int \<times> sharedIndexInformer" where
  "agreePeriod resyncPeriod s =
     (if resyncPeriod > 0
      then let period = (if resyncPeriod < minimumResyncPeriod then minimumResyncPeriod else resyncPeriod)
           in if period < si_resyncCheckPeriod s
              then if si_started s then (si_resyncCheckPeriod s, s)
                   else (period, s\<lparr>si_resyncCheckPeriod := period,
                           si_processor := resyncCheckPeriodChanged period (si_processor s)\<rparr>)
              else (period, s)
      else (resyncPeriod, s))"

text \<open>\<open>items\<close> is what the indexer lists; a handler that comes late is told it as additions.\<close>

definition AddEventHandlerWithResyncPeriod ::
  "iface list \<Rightarrow> int \<Rightarrow> int \<Rightarrow> sharedIndexInformer \<Rightarrow> sharedIndexInformer" where
  "AddEventHandlerWithResyncPeriod items now resyncPeriod s =
     (if si_stopped s then s
      else
        let (period, s1) = agreePeriod resyncPeriod s;
            listener = newProcessListener period (determineResyncPeriod period (si_resyncCheckPeriod s1)) now
        in if \<not> si_started s1 then s1\<lparr>si_processor := addListener listener (si_processor s1)\<rparr>
           else s1\<lparr>si_processor :=
                  addListener (fold (\<lambda>item. pl_add (Added item)) items listener) (si_processor s1)\<rparr>)"

definition AddEventHandler :: "iface list \<Rightarrow> int \<Rightarrow> sharedIndexInformer \<Rightarrow> sharedIndexInformer" where
  "AddEventHandler items now s =
     AddEventHandlerWithResyncPeriod items now (si_defaultEventHandlerResyncPeriod s) s"

section \<open>An informer with one handler\<close>

text \<open>
  The operator gives each informer one handler. \<open>hears\<close>: whether a notification (flagged as part of
  a resync or not) reaches it.
\<close>

definition lone :: "sharedProcessor \<Rightarrow> bool" where
  "lone p \<longleftrightarrow> (sp_listeners p = [] \<and> sp_syncingListeners p = [])
     \<or> (length (sp_listeners p) = 1 \<and> sp_syncingListeners p \<in> {[], [0]})"

definition hears :: "sharedProcessor \<Rightarrow> bool \<Rightarrow> bool" where
  "hears p isSync \<longleftrightarrow> sp_listeners p \<noteq> [] \<and> (isSync \<longrightarrow> sp_syncingListeners p \<noteq> [])"

text \<open>What waits for the handler.\<close>

definition inbox_of :: "sharedProcessor \<Rightarrow> notification list" where
  "inbox_of p = concat (map pl_pendingNotifications (sp_listeners p))"

lemma lone_cases:
  assumes "lone p"
  obtains "sp_listeners p = []" "sp_syncingListeners p = []"
  | l where "sp_listeners p = [l]" "sp_syncingListeners p = [] \<or> sp_syncingListeners p = [0]"
  using assms by (auto simp: lone_def length_Suc_conv)

lemma distribute_lone:
  assumes "lone p"
  shows "lone (sp_distribute note b p)" "sp_syncingListeners (sp_distribute note b p) = sp_syncingListeners p"
    and "inbox_of (sp_distribute note b p) = inbox_of p @ (if hears p b then [note] else [])"
    and "sp_listeners (sp_distribute note b p) = [] \<longleftrightarrow> sp_listeners p = []"
  by (rule lone_cases [OF assms];
      auto simp: sp_distribute_def lone_def hears_def inbox_of_def sendTo_def pl_add_def)+

lemma shouldResync_lone:
  assumes "lone p"
  shows "lone (snd (shouldResync now p))" "inbox_of (snd (shouldResync now p)) = inbox_of p"
    and "sp_listeners (snd (shouldResync now p)) = [] \<longleftrightarrow> sp_listeners p = []"
    and "fst (shouldResync now p) \<longleftrightarrow> sp_syncingListeners (snd (shouldResync now p)) \<noteq> []"
  by (rule lone_cases [OF assms]; auto simp: shouldResync_def lone_def inbox_of_def determineNextResync_def)+

lemma fold_pl_add:
  "pl_pendingNotifications (fold (\<lambda>item. pl_add (Added item)) items l)
     = pl_pendingNotifications l @ map Added items
   \<and> pl_nextResync (fold (\<lambda>item. pl_add (Added item)) items l) = pl_nextResync l
   \<and> pl_resyncPeriod (fold (\<lambda>item. pl_add (Added item)) items l) = pl_resyncPeriod l"
  by (induction items arbitrary: l) (simp_all add: pl_add_def)

text \<open>
  The operator's handlers join an informer that runs: the handler is told everything stored, hears
  of the resyncs and is due a period later.
\<close>

lemma AddEventHandler_late:
  assumes "si_started s" "\<not> si_stopped s" "sp_listeners (si_processor s) = []"
    and "sp_syncingListeners (si_processor s) = []"
    and "si_resyncCheckPeriod s = period" "si_defaultEventHandlerResyncPeriod s = period"
    and "minimumResyncPeriod \<le> period"
  shows "\<exists>l. AddEventHandler items now s = s\<lparr>si_processor := \<lparr>sp_listeners = [l], sp_syncingListeners = [0]\<rparr>\<rparr>
     \<and> pl_pendingNotifications l = map Added items
     \<and> pl_nextResync l = now + period \<and> pl_resyncPeriod l = period"
proof -
  have "agreePeriod period s = (period, s)" "determineResyncPeriod period period = period"
    using assms(5,7) by (auto simp: agreePeriod_def determineResyncPeriod_def minimumResyncPeriod_def)
  with assms show ?thesis
    by (cases "si_processor s")
       (auto simp: AddEventHandler_def AddEventHandlerWithResyncPeriod_def addListener_def fold_pl_add
          newProcessListener_def determineNextResync_def)
qed

section \<open>When the handler hears of resyncs\<close>

text \<open>
  The timer of the reflector starts anew after every tick and whenever the reflector lists again,
  so ticks are at least a period apart; the reflector started it before the handler joined.
\<close>

definition spaced :: "int \<Rightarrow> int list \<Rightarrow> bool" where
  "spaced period ts \<longleftrightarrow> sorted_wrt (\<lambda>t t'. t + period \<le> t') ts"

definition tickAll :: "int list \<Rightarrow> sharedProcessor \<Rightarrow> sharedProcessor" where
  "tickAll ts p = fold (\<lambda>t p. snd (shouldResync t p)) ts p"

lemma tick_one:
  assumes "sp_listeners p = [l]" "pl_resyncPeriod l = period" "period > 0"
  shows "\<exists>l'. snd (shouldResync t p) = p\<lparr>sp_listeners := [l'], sp_syncingListeners := (if pl_nextResync l \<le> t then [0] else [])\<rparr>
     \<and> pl_resyncPeriod l' = period
     \<and> pl_nextResync l' = (if pl_nextResync l \<le> t then t + period else pl_nextResync l)"
  using assms by (auto simp: shouldResync_def pl_shouldResync_def determineNextResync_def)

lemma tickAll_due:
  assumes "spaced period (ts @ [t])" "sp_listeners p = [l]" "pl_resyncPeriod l = period" "period > 0"
    and "pl_nextResync l \<le> hd (ts @ [t])"
  shows "sp_syncingListeners (tickAll (ts @ [t]) p) = [0]"
  using assms
proof (induction ts arbitrary: p l)
  case Nil
  with tick_one [of p l period t] show ?case by (auto simp: tickAll_def)
next
  case (Cons u ts)
  obtain l' where l': "snd (shouldResync u p) = p\<lparr>sp_listeners := [l'], sp_syncingListeners := [0]\<rparr>"
    "pl_resyncPeriod l' = period" "pl_nextResync l' = u + period"
    using tick_one [OF Cons.prems(2-4), of u] Cons.prems(5) by auto
  have "spaced period (ts @ [t])" using Cons.prems(1) by (simp add: spaced_def)
  moreover have "u + period \<le> hd (ts @ [t])"
    using Cons.prems(1) by (cases ts) (simp_all add: spaced_def)
  ultimately have "sp_syncingListeners (tickAll (ts @ [t]) (snd (shouldResync u p))) = [0]"
    using Cons.IH [of "snd (shouldResync u p)" l'] l' Cons.prems(4) by simp
  then show ?case by (simp add: tickAll_def)
qed

text \<open>
  From the second tick after it joined on, the handler hears of every resync; at the first it may
  be left out, and then it hears nothing of resyncs until the second.
\<close>

theorem handler_hears_resyncs:
  assumes "spaced period (t1 # ts @ [t])" "joined \<le> t1" "period > 0"
    and "sp_listeners p = [l]" "pl_resyncPeriod l = period" "pl_nextResync l = joined + period"
  shows "sp_syncingListeners (tickAll (t1 # ts @ [t]) p) = [0]
     \<and> sp_syncingListeners (tickAll [t1] p) = (if joined + period \<le> t1 then [0] else [])"
proof -
  obtain l' where l': "snd (shouldResync t1 p) = p\<lparr>sp_listeners := [l'],
      sp_syncingListeners := (if joined + period \<le> t1 then [0] else [])\<rparr>"
    "pl_resyncPeriod l' = period" "pl_nextResync l' \<le> t1 + period"
    using tick_one [OF assms(4,5,3), of t1] assms(2,6) by (auto split: if_splits)
  have "spaced period (ts @ [t])" "t1 + period \<le> hd (ts @ [t])"
    using assms(1) by (cases ts; simp add: spaced_def)+
  with tickAll_due [of period ts t "snd (shouldResync t1 p)" l'] l' assms(3) show ?thesis
    by (simp add: tickAll_def)
qed

end
