(* ===== verification/Operator_Loop.thy ===== *)
theory Operator_Loop
  imports Passes Shared_Informer Informer
begin

text \<open>
  The running operator as one machine: an informer per kind of object with its delta queue, store
  and listener, the event handlers, the work queue and the workers, from the start of the informers
  (Run of pkg/controller/controller.go). The steps of its parts interleave as their locks allow;
  what a lister answers is what the informer's store holds at that moment. The machine is free to
  take any step, so its runs are those of every scheduler.
\<close>

section \<open>The machine\<close>

text \<open>The kinds New makes informers for.\<close>

definition watched :: "kind list" where
  "watched = [KNotebook, KStatefulSet, KSecret, KService, KIngress]"

text \<open>
  \<open>op_handling\<close> is the rest of the item HandleDeltas is at, during which Pop keeps the queue's
  lock; \<open>op_due\<close> is set between the reflector's shouldResync and its Resync.
\<close>

record operator =
  op_inf :: "kind \<Rightarrow> threadSafeMap informer"
  op_handling :: "kind \<Rightarrow> Delta list"
  op_due :: "kind \<Rightarrow> bool"
  op_shared :: "kind \<Rightarrow> sharedIndexInformer"
  op_handler :: "kind \<Rightarrow> unit proc"
  op_ctl :: ctl

definition op_start :: "nat \<Rightarrow> int \<Rightarrow> operator" where
  "op_start n t =
     \<lparr>op_inf = (\<lambda>_. newInformerOn (NewThreadSafeStore [(NamespaceIndex, MetaNamespaceIndexFunc)])),
      op_handling = (\<lambda>_. []), op_due = (\<lambda>_. False),
      op_shared = (\<lambda>_. (NewSharedIndexInformer (int resyncPeriod))\<lparr>si_started := True\<rparr>),
      op_handler = (\<lambda>_. Done ()), op_ctl = startWorkers n t\<rparr>"

abbreviation processorAt :: "operator \<Rightarrow> kind \<Rightarrow> sharedProcessor" where
  "processorAt s kd \<equiv> si_processor (op_shared s kd)"

abbreviation storedAt :: "operator \<Rightarrow> kind \<Rightarrow> string \<Rightarrow> object option" where
  "storedAt s kd \<equiv> objectAt (inf_store (op_inf s kd))"

definition setProcessor :: "kind \<Rightarrow> sharedProcessor \<Rightarrow> operator \<Rightarrow> operator" where
  "setProcessor kd p s = s\<lparr>op_shared := (op_shared s)(kd := (op_shared s kd)\<lparr>si_processor := p\<rparr>)\<rparr>"

text \<open>The world's answers: listers read the stores.\<close>

definition answers :: "operator \<Rightarrow> action \<Rightarrow> answer \<Rightarrow> bool" where
  "answers s a r \<longleftrightarrow> fits a r \<and>
     (case a of ALookup kd key \<Rightarrow> r = Found (storedAt s kd key) | _ \<Rightarrow> True)"

definition allJoined :: "operator \<Rightarrow> bool" where
  "allJoined s \<longleftrightarrow> (\<forall>kd \<in> set watched. sp_listeners (processorAt s kd) \<noteq> [])"

datatype op_label =
    Told kind inf_event
  | Taken kind
  | Handled kind "(notification \<times> bool) list"
  | Ticked kind int
  | Resyncs kind
  | Joined kind int
  | Notified kind
  | Answers kind action answer
  | Enqueues kind string
  | Works label

text \<open>
  In order: the reflector hears from the API server; the controller loop pops an item, handles a
  change of it; the reflector's timer fires, the reflector resyncs; addHandlers adds the handler
  of a kind, once wait has seen all informers synced; a listener calls its handler; a handler
  acts, enqueues a key; a worker takes a step, once Run has added all handlers. Lists of the
  notebook informer are safe, see \<open>Informer\<close>.
\<close>

inductive op_step :: "'k crypto \<Rightarrow> 'k Config \<Rightarrow> operator \<Rightarrow> op_label \<Rightarrow> operator \<Rightarrow> bool"
  for cr :: "'k crypto" and cfg :: "'k Config" where
  told: "\<lbrakk> \<not> crashed (op_ctl s); op_handling s kd = []; e \<noteq> Popped; e \<noteq> Resynced;
      kd = KNotebook \<longrightarrow> notebook_event e (op_inf s kd);
      inf_step storeIndexer kd e (op_inf s kd) = Returns i \<rbrakk>
    \<Longrightarrow> op_step cr cfg s (Told kd e) (s\<lparr>op_inf := (op_inf s)(kd := i)\<rparr>)"
| taken: "\<lbrakk> \<not> crashed (op_ctl s); op_handling s kd = [];
      fifo_Pop (inf_fifo (op_inf s kd)) = Some (item, f) \<rbrakk>
    \<Longrightarrow> op_step cr cfg s (Taken kd)
          (s\<lparr>op_inf := (op_inf s)(kd := (op_inf s kd)\<lparr>inf_fifo := f\<rparr>),
             op_handling := (op_handling s)(kd := item)\<rparr>)"
| handled: "\<lbrakk> \<not> crashed (op_ctl s); op_handling s kd = d # ds;
      HandleDeltas storeIndexer [d] (inf_store (op_inf s kd)) = Returns (err, st, sent) \<rbrakk>
    \<Longrightarrow> op_step cr cfg s (Handled kd sent)
          (setProcessor kd (distributeAll sent (processorAt s kd))
            (s\<lparr>op_inf := (op_inf s)(kd := (op_inf s kd)\<lparr>inf_store := st,
                 inf_sent := inf_sent (op_inf s kd) @ sent\<rparr>),
               op_handling := (op_handling s)(kd := (if err = None then ds else []))\<rparr>))"
| ticked: "\<lbrakk> \<not> crashed (op_ctl s); \<not> op_due s kd; shouldResync t (processorAt s kd) = (due, p) \<rbrakk>
    \<Longrightarrow> op_step cr cfg s (Ticked kd t) (setProcessor kd p (s\<lparr>op_due := (op_due s)(kd := due)\<rparr>))"
| resyncs: "\<lbrakk> \<not> crashed (op_ctl s); op_due s kd; op_handling s kd = [];
      inf_step storeIndexer kd Resynced (op_inf s kd) = Returns i \<rbrakk>
    \<Longrightarrow> op_step cr cfg s (Resyncs kd)
          (s\<lparr>op_inf := (op_inf s)(kd := i), op_due := (op_due s)(kd := False)\<rparr>)"
| joined: "\<lbrakk> \<not> crashed (op_ctl s); kd \<in> set watched; op_handling s kd = [];
      sp_listeners (processorAt s kd) = []; \<forall>kd' \<in> set watched. fifo_HasSynced (inf_fifo (op_inf s kd')) \<rbrakk>
    \<Longrightarrow> op_step cr cfg s (Joined kd t)
          (s\<lparr>op_shared := (op_shared s)(kd :=
               AddEventHandler (tsm_List (inf_store (op_inf s kd))) t (op_shared s kd))\<rparr>)"
| notified: "\<lbrakk> \<not> crashed (op_ctl s); op_handler s kd = Done (); sp_listeners (processorAt s kd) = [l];
      pl_pop l = Some (x, l') \<rbrakk>
    \<Longrightarrow> op_step cr cfg s (Notified kd)
          (setProcessor kd ((processorAt s kd)\<lparr>sp_listeners := [l']\<rparr>)
            (s\<lparr>op_handler := (op_handler s)(kd := notify kd x)\<rparr>))"
| answers: "\<lbrakk> \<not> crashed (op_ctl s); op_handler s kd = Act a f; \<forall>k. a \<noteq> AEnqueue k; answers s a r \<rbrakk>
    \<Longrightarrow> op_step cr cfg s (Answers kd a r) (s\<lparr>op_handler := (op_handler s)(kd := f r)\<rparr>)"
| enqueues: "\<lbrakk> op_handler s kd = Act (AEnqueue k) f; work_step cr cfg (op_ctl s) (Enqueued k) c \<rbrakk>
    \<Longrightarrow> op_step cr cfg s (Enqueues kd k)
          (s\<lparr>op_handler := (op_handler s)(kd := f Ack), op_ctl := c\<rparr>)"
| works: "\<lbrakk> allJoined s; work_step cr cfg (op_ctl s) l c; \<forall>k. l \<noteq> Enqueued k;
      \<forall>w a r. l = Acted w a r \<longrightarrow> answers s a r \<rbrakk>
    \<Longrightarrow> op_step cr cfg s (Works l) (s\<lparr>op_ctl := c\<rparr>)"

section \<open>What a run determines\<close>

text \<open>
  What the API server last told the notebook informer, the steps of the workers, and the keys whose
  last change the handlers could not act on: it did not reach the listener, or it came as a
  tombstone. Before the handler joins that is every key.
\<close>

definition op_told :: "op_label \<Rightarrow> view \<Rightarrow> view" where
  "op_told l v = (case l of Told kd e \<Rightarrow> if kd = KNotebook then told kd e v else v | _ \<Rightarrow> v)"

definition op_work :: "op_label \<Rightarrow> label list" where
  "op_work l = (case l of Works l' \<Rightarrow> [l'] | Enqueues kd k \<Rightarrow> [Enqueued k] | _ \<Rightarrow> [])"

fun noteKey :: "notification \<Rightarrow> string option" where
  "noteKey (Added obj) = (case KeyOf obj of Inl err \<Rightarrow> None | Inr key \<Rightarrow> Some key)"
| "noteKey (Updated old obj) = (case KeyOf obj of Inl err \<Rightarrow> None | Inr key \<Rightarrow> Some key)"
| "noteKey (Deleted obj) = (case KeyOf obj of Inl err \<Rightarrow> None | Inr key \<Rightarrow> Some key)"

text \<open>The key a notification of the notebook informer makes its handler enqueue.\<close>

fun woken :: "notification \<Rightarrow> string option" where
  "woken (Added obj) = map_option (\<lambda>n. MetaNamespaceKey (nb_Meta n)) (asNotebookPtr obj)"
| "woken (Updated old obj) =
     (if asNotebookPtr old = None then None
      else map_option (\<lambda>n. MetaNamespaceKey (nb_Meta n)) (asNotebookPtr obj))"
| "woken (Deleted obj) = map_option (\<lambda>n. MetaNamespaceKey (nb_Meta n)) (asNotebookPtr obj)"

primrec untold :: "sharedProcessor \<Rightarrow> (notification \<times> bool) list \<Rightarrow> string set \<Rightarrow> string set" where
  "untold p [] M = M"
| "untold p (nb # nbs) M =
     untold p nbs
       (case noteKey (fst nb) of
          None \<Rightarrow> M
        | Some k \<Rightarrow> if hears p (snd nb) \<and> woken (fst nb) \<noteq> None then M - {k} else insert k M)"

definition op_missed :: "operator \<Rightarrow> op_label \<Rightarrow> string set \<Rightarrow> string set" where
  "op_missed s l M =
     (case l of
        Handled kd notes \<Rightarrow> if kd = KNotebook then untold (processorAt s kd) notes M else M
      | Joined kd t \<Rightarrow> if kd = KNotebook then M - dom (storedAt s kd) else M
      | _ \<Rightarrow> M)"

definition workLog :: "op_label list \<Rightarrow> label list" where
  "workLog tr = concat (map op_work tr)"

inductive op_reach ::
  "'k crypto \<Rightarrow> 'k Config \<Rightarrow> nat \<Rightarrow> int \<Rightarrow> operator \<Rightarrow> view \<Rightarrow> string set \<Rightarrow> op_label list \<Rightarrow> bool"
  for cr :: "'k crypto" and cfg :: "'k Config" and n :: nat and t :: int where
  start: "op_reach cr cfg n t (op_start n t) (\<lambda>_. None) UNIV []"
| step: "op_reach cr cfg n t s v M tr \<Longrightarrow> op_step cr cfg s l s' \<Longrightarrow>
     op_reach cr cfg n t s' (op_told l v) (op_missed s l M) (tr @ [l])"

lemma notify_woken:
  "notify KNotebook x = (case woken x of None \<Rightarrow> Done () | Some k \<Rightarrow> enqueueKey k)"
  by (cases x)
     (auto simp: addHandlers_def onAddNotebook_def onUpdateNotebook_def onDeleteNotebook_def enqueue_eq
        split: option.split)

lemma woken_noteKey: "woken x = Some k \<Longrightarrow> noteKey x = Some k"
proof -
  have *: "asNotebookPtr obj = Some n \<Longrightarrow> KeyOf obj = Inr (MetaNamespaceKey (nb_Meta n))" for obj n
    by (cases obj) (auto simp: as_Notebook_def split: object.splits)
  assume "woken x = Some k"
  then show ?thesis by (cases x) (auto simp: * split: if_splits)
qed

section \<open>The changes of an item one by one\<close>

text \<open>The notification of a change, given what the store held.\<close>

definition changeNote :: "Delta \<Rightarrow> object option \<Rightarrow> notification" where
  "changeNote d old =
     (if d_Type d = DeltaDeleted then Deleted (d_Object d)
      else case old of None \<Rightarrow> Added (d_Object d) | Some ob \<Rightarrow> Updated (IObject ob) (d_Object d))"

context indexer
begin

text \<open>
  The informer's invariant while the changes \<open>ds\<close> of an item are still to be handled: the store
  comes to what the reflector was told once they are.
\<close>

definition mid_inv :: "view \<Rightarrow> 's informer \<Rightarrow> Delta list \<Rightarrow> bool" where
  "mid_inv v i ds \<longleftrightarrow> good (inf_store i) \<and> fifo_inv ok (inf_fifo i)
     \<and> hearAll (inf_sent i) (\<lambda>_. None) = Some (at (inf_store i))
     \<and> (if ds = [] then v = settled (at (inf_store i)) (inf_fifo i)
        else \<exists>key. (\<forall>d \<in> set ds. delta_ok ok key d) \<and> df_items (inf_fifo i) key = None
           \<and> v = (settled (at (inf_store i)) (inf_fifo i))(key := effect (last ds)))"

lemma mid_inv_Nil: "mid_inv v i [] \<longleftrightarrow> inf_inv v i"
  by (auto simp: mid_inv_def inf_inv_def)

lemma mid_inv_pop:
  assumes "mid_inv v i []" "fifo_Pop (inf_fifo i) = Some (item, f)"
  shows "mid_inv v (i\<lparr>inf_fifo := f\<rparr>) item"
proof -
  have fifo: "fifo_inv ok (inf_fifo i)" using assms(1) by (simp add: mid_inv_def)
  obtain key queue where q: "df_queue (inf_fifo i) = key # queue"
    using assms(2) by (cases "df_queue (inf_fifo i)") (auto simp: fifo_Pop_empty)
  from fifo_Pop_inv [OF fifo q] assms(2) have pop: "df_items (inf_fifo i) key = Some item" "item \<noteq> []"
    "\<forall>d \<in> set item. delta_ok ok key d" "fifo_inv ok f" "df_items f = (df_items (inf_fifo i))(key := None)"
    by auto
  have "settled (at (inf_store i)) (inf_fifo i) = (settled (at (inf_store i)) f)(key := effect (last item))"
    using pop by (auto simp: settled_def fun_eq_iff)
  with assms(1) pop show ?thesis by (auto simp: mid_inv_def)
qed

lemma mid_inv_handle:
  assumes "mid_inv v i (d # ds)"
  shows "\<exists>key st. delta_ok ok key d
    \<and> HandleDeltas ix [d] (inf_store i) =
        Returns (None, st, [(changeNote d (at (inf_store i) key), d_Type d = DeltaSync)])
    \<and> at st = (at (inf_store i))(key := effect d)
    \<and> mid_inv v (i\<lparr>inf_store := st,
         inf_sent := inf_sent i @ [(changeNote d (at (inf_store i) key), d_Type d = DeltaSync)]\<rparr>) ds"
proof -
  let ?s = "inf_store i"
  have good: "good ?s" and fifo: "fifo_inv ok (inf_fifo i)"
    and heard: "hearAll (inf_sent i) (\<lambda>_. None) = Some (at ?s)"
    using assms by (simp_all add: mid_inv_def)
  obtain key where key: "delta_ok ok key d" "\<forall>d \<in> set ds. delta_ok ok key d" "df_items (inf_fifo i) key = None"
    and v: "v = (settled (at ?s) (inf_fifo i))(key := effect (last (d # ds)))"
    using assms by (auto simp: mid_inv_def)
  let ?n = "(changeNote d (at ?s key), d_Type d = DeltaSync)"
  obtain st ns where st: "HandleDeltas ix [d] ?s = Returns (None, st, ns)" "good st"
    "at st = (at ?s)(key := effect d)" "hearAll ns (at ?s) = Some (at st)"
    using HandleDeltas_inv [OF good, of "[d]" key] key(1) by auto
  have "ns = [?n]"
  proof (cases "d_Type d = DeltaDeleted")
    case True
    then have "KeyOf (d_Object d) = Inr key" using key(1) by (simp add: delta_ok_def)
    from delete [OF good this] st(1) True show ?thesis
      by (auto simp: distribute_def changeNote_def)
  next
    case False
    then obtain ob where ob: "d_Object d = IObject ob" "ok ob" "keyOf ob = key"
      using key(1) by (auto simp: delta_ok_def)
    with add [OF good ob(2)] update [OF good ob(2)] get [OF good, of ob] st(1) False show ?thesis
      by (cases "at ?s key") (auto simp: distribute_def changeNote_def)
  qed
  moreover have "settled (at st) (inf_fifo i) = (settled (at ?s) (inf_fifo i))(key := effect d)"
    using key(3) st(3) by (auto simp: settled_def fun_eq_iff split: option.split)
  ultimately have "mid_inv v (i\<lparr>inf_store := st, inf_sent := inf_sent i @ [?n]\<rparr>) ds"
    using st fifo heard key v by (auto simp: mid_inv_def hearAll_append simp del: hearAll.simps)
  with key(1) st \<open>ns = [?n]\<close> show ?thesis by blast
qed

end

section \<open>The invariant of the machine\<close>

text \<open>The key is on its way to the work queue.\<close>

definition underway :: "operator \<Rightarrow> string \<Rightarrow> bool" where
  "underway s k \<longleftrightarrow> op_handler s KNotebook = enqueueKey k
     \<or> Some k \<in> woken ` set (inbox_of (processorAt s KNotebook))"

definition shared_ok :: "sharedIndexInformer \<Rightarrow> bool" where
  "shared_ok si \<longleftrightarrow> lone (si_processor si) \<and> si_started si \<and> \<not> si_stopped si
     \<and> si_resyncCheckPeriod si = int resyncPeriod \<and> si_defaultEventHandlerResyncPeriod si = int resyncPeriod"

text \<open>
  Of a key whose last change the handlers could act on: it is on its way to the queue, or queued,
  or the passes are up to date with the store.
\<close>

definition keys_ok :: "'k crypto \<Rightarrow> 'k Config \<Rightarrow> operator \<Rightarrow> string set \<Rightarrow> label list \<Rightarrow> bool" where
  "keys_ok cr cfg s M ls \<longleftrightarrow>
     (\<forall>k. notebookKey k \<longrightarrow> k \<notin> M \<longrightarrow> underway s k \<or> covered cr cfg k (storedAt s KNotebook k) ls (op_ctl s))"

definition loop_inv ::
  "'k crypto \<Rightarrow> 'k Config \<Rightarrow> nat \<Rightarrow> int \<Rightarrow> operator \<Rightarrow> view \<Rightarrow> string set \<Rightarrow> label list \<Rightarrow> bool" where
  "loop_inv cr cfg n t s v M ls \<longleftrightarrow>
     work_steps cr cfg (startWorkers n t) ls (op_ctl s)
     \<and> store.mid_inv apiNotebook v (op_inf s KNotebook) (op_handling s KNotebook)
     \<and> shared_ok (op_shared s KNotebook)
     \<and> (op_handler s KNotebook = Done () \<or> (\<exists>k. op_handler s KNotebook = enqueueKey k))
     \<and> keys_ok cr cfg s M ls"

lemma processor_simps [simp]:
  "processorAt (setProcessor kd p s) kd' = (if kd' = kd then p else processorAt s kd')"
  "op_inf (setProcessor kd p s) = op_inf s" "op_handling (setProcessor kd p s) = op_handling s"
  "op_handler (setProcessor kd p s) = op_handler s" "op_ctl (setProcessor kd p s) = op_ctl s"
  "op_due (setProcessor kd p s) = op_due s"
  "shared_ok (op_shared (setProcessor kd p s) kd') \<longleftrightarrow>
     shared_ok (if kd' = kd then (op_shared s kd)\<lparr>si_processor := p\<rparr> else op_shared s kd')"
  by (simp_all add: setProcessor_def)

lemma shared_ok_processor:
  "shared_ok si \<Longrightarrow> lone p \<Longrightarrow> shared_ok (si\<lparr>si_processor := p\<rparr>)"
  by (simp add: shared_ok_def)

text \<open>A change of the store: its notification reaches the listener, or the key has missed it.\<close>

lemma changeNote_key:
  assumes "delta_ok P key d"
  shows "noteKey (changeNote d old) = Some key"
  using assms by (auto simp: delta_ok_def changeNote_def split: option.splits)

lemma handled_inv:
  assumes inv: "loop_inv cr cfg n t s v M ls" and kd: "op_handling s KNotebook = d # ds"
    and st: "HandleDeltas storeIndexer [d] (inf_store (op_inf s KNotebook)) = Returns (err, st, notes)"
  defines "s' \<equiv> setProcessor KNotebook (distributeAll notes (processorAt s KNotebook))
            (s\<lparr>op_inf := (op_inf s)(KNotebook := (op_inf s KNotebook)\<lparr>inf_store := st,
                 inf_sent := inf_sent (op_inf s KNotebook) @ notes\<rparr>),
               op_handling := (op_handling s)(KNotebook := (if err = None then ds else []))\<rparr>)"
  shows "loop_inv cr cfg n t s' v (untold (processorAt s KNotebook) notes M) ls"
proof -
  let ?i = "op_inf s KNotebook" and ?p = "processorAt s KNotebook"
  have "store.mid_inv apiNotebook v ?i (d # ds)" using inv kd by (simp add: loop_inv_def)
  from store.mid_inv_handle [OF this] obtain key where key: "delta_ok apiNotebook key d"
    "err = None" "notes = [(changeNote d (objectAt (inf_store ?i) key), d_Type d = DeltaSync)]"
    "objectAt st = (objectAt (inf_store ?i))(key := effect d)"
    "store.mid_inv apiNotebook v (?i\<lparr>inf_store := st, inf_sent := inf_sent ?i @ notes\<rparr>) ds"
    using st by auto
  let ?x = "changeNote d (objectAt (inf_store ?i) key)" and ?b = "d_Type d = DeltaSync"
  have lone: "lone ?p" using inv by (simp add: loop_inv_def shared_ok_def)
  note dist = distribute_lone [OF lone, of ?x ?b]
  have M: "untold ?p notes M = (if hears ?p ?b \<and> woken ?x \<noteq> None then M - {key} else insert key M)"
    using changeNote_key [OF key(1)] by (simp add: key(3))
  have "keys_ok cr cfg s' (untold ?p notes M) ls"
    unfolding keys_ok_def
  proof (intro allI impI)
    fix k
    assume k: "notebookKey k" "k \<notin> untold ?p notes M"
    show "underway s' k \<or> covered cr cfg k (storedAt s' KNotebook k) ls (op_ctl s')"
    proof (cases "k = key")
      case True
      with k(2) M have "hears ?p ?b" "woken ?x = Some key"
        using woken_noteKey [of ?x] changeNote_key [OF key(1)] by (auto split: if_splits)
      with True dist(3) show ?thesis by (simp add: underway_def s'_def key(3))
    next
      case False
      with k M inv have "underway s k \<or> covered cr cfg k (storedAt s KNotebook k) ls (op_ctl s)"
        by (auto simp: loop_inv_def keys_ok_def split: if_splits)
      with False dist(3) key(4) show ?thesis by (auto simp: underway_def s'_def key(3))
    qed
  qed
  with inv key(2,3,5) dist(1) show ?thesis
    by (simp add: loop_inv_def s'_def shared_ok_processor)
qed

text \<open>The handler joins: it will be told everything stored.\<close>

lemma joined_inv:
  assumes inv: "loop_inv cr cfg n t s v M ls" and none: "sp_listeners (processorAt s KNotebook) = []"
    and si: "si = AddEventHandler (tsm_List (inf_store (op_inf s KNotebook))) u (op_shared s KNotebook)"
  shows "loop_inv cr cfg n t (s\<lparr>op_shared := (op_shared s)(KNotebook := si)\<rparr>) v
    (M - dom (storedAt s KNotebook)) ls"
proof -
  let ?st = "inf_store (op_inf s KNotebook)" and ?p = "processorAt s KNotebook"
  have ok: "shared_ok (op_shared s KNotebook)" and good: "store_inv apiNotebook ?st"
    using inv by (simp_all add: loop_inv_def store.mid_inv_def)
  then have none': "sp_syncingListeners ?p = []" using none by (auto simp: shared_ok_def lone_def)
  have min: "minimumResyncPeriod \<le> int resyncPeriod"
    by (simp add: minimumResyncPeriod_def resyncPeriod_def Minute_def Second_def)
  from AddEventHandler_late [OF _ _ none none' _ _ min, where items = "tsm_List ?st" and now = u] ok
  obtain l where l: "si = (op_shared s KNotebook)\<lparr>si_processor := \<lparr>sp_listeners = [l], sp_syncingListeners = [0]\<rparr>\<rparr>"
    "pl_pendingNotifications l = map Added (tsm_List ?st)"
    by (auto simp: shared_ok_def si)
  have told: "Some k \<in> woken ` set (pl_pendingNotifications l)" if k: "storedAt s KNotebook k = Some ob" for k ob
  proof -
    obtain nb where nb: "ob = ONotebook nb" "MetaNamespaceKey (nb_Meta nb) = k"
      using store_inv_at(2) [OF good k] by (auto simp: apiNotebook_def isNotebook_iff)
    from k nb have "IObject ob \<in> set (tsm_List ?st)"
      by (force simp: objectAt_def tsm_Get_def tsm_List_def dest: map_of_SomeD split: option.splits iface.splits)
    then have "Added (IObject ob) \<in> set (pl_pendingNotifications l)" by (simp add: l(2))
    moreover have "woken (Added (IObject ob)) = Some k" using nb by simp
    ultimately show ?thesis by force
  qed
  let ?s = "s\<lparr>op_shared := (op_shared s)(KNotebook := si)\<rparr>"
  have "keys_ok cr cfg ?s (M - dom (storedAt s KNotebook)) ls"
    unfolding keys_ok_def
  proof (intro allI impI)
    fix k
    assume k: "notebookKey k" "k \<notin> M - dom (storedAt s KNotebook)"
    show "underway ?s k \<or> covered cr cfg k (storedAt ?s KNotebook k) ls (op_ctl ?s)"
    proof (cases "storedAt s KNotebook k")
      case (Some ob)
      from told [OF this] show ?thesis by (simp add: underway_def l(1) inbox_of_def)
    next
      case None
      with k inv none show ?thesis
        by (auto simp: loop_inv_def keys_ok_def underway_def inbox_of_def)
    qed
  qed
  with inv ok show ?thesis by (simp add: loop_inv_def l(1) shared_ok_def lone_def)
qed

text \<open>The workers: every pass reads the store.\<close>

lemma work_inv:
  assumes inv: "loop_inv cr cfg n t s v M ls" and step: "work_step cr cfg (op_ctl s) l c"
    and ans: "\<forall>w a r. l = Acted w a r \<longrightarrow> answers s a r"
  shows "work_steps cr cfg (startWorkers n t) (ls @ [l]) c"
    and "notebookKey k \<Longrightarrow> covered cr cfg k (storedAt s KNotebook k) ls (op_ctl s) \<Longrightarrow>
      covered cr cfg k (storedAt s KNotebook k) (ls @ [l]) c"
proof -
  have run: "work_steps cr cfg (startWorkers n t) ls (op_ctl s)" using inv by (simp add: loop_inv_def)
  with step show "work_steps cr cfg (startWorkers n t) (ls @ [l]) c" by (auto simp: work_steps_append)
  assume k: "notebookKey k" "covered cr cfg k (storedAt s KNotebook k) ls (op_ctl s)"
  have "r = Found (storedAt s KNotebook k)" if "l = Acted w (ALookup KNotebook k) r" for w r
    using ans that by (auto simp: answers_def)
  with covered_step [OF step work_steps_inv [OF run ctl_inv_init] passes_ok_run [OF run] k]
  show "covered cr cfg k (storedAt s KNotebook k) (ls @ [l]) c" by blast
qed

lemma enqueued_covered:
  assumes "work_step cr cfg s (Enqueued k) c"
  shows "covered cr cfg k cur ls c"
  using assms by cases (auto simp: covered_def dueBy_def shutting_def AddNow_def Add_def Let_def)

text \<open>A step that concerns another kind, or nothing the invariant is about.\<close>

lemma loop_inv_frame:
  assumes "loop_inv cr cfg n t s v M ls" "op_ctl s' = op_ctl s"
    and "op_inf s' KNotebook = op_inf s KNotebook" "op_handling s' KNotebook = op_handling s KNotebook"
    and "op_shared s' KNotebook = op_shared s KNotebook" "op_handler s' KNotebook = op_handler s KNotebook"
  shows "loop_inv cr cfg n t s' v M ls"
  using assms by (simp add: loop_inv_def keys_ok_def underway_def)

lemma told_inv:
  assumes "loop_inv cr cfg n t s v M ls" "op_handling s KNotebook = []"
    and "inf_step storeIndexer KNotebook e (op_inf s KNotebook) = Returns i"
    and "notebook_event e (op_inf s KNotebook)" "e \<noteq> Popped"
  shows "loop_inv cr cfg n t (s\<lparr>op_inf := (op_inf s)(KNotebook := i)\<rparr>) (told KNotebook e v) M ls"
proof -
  have "informer_inv v (op_inf s KNotebook)"
    using assms(1,2) by (simp add: loop_inv_def store.mid_inv_Nil)
  from informer_step [OF this assms(4)] assms(3) have "informer_inv (told KNotebook e v) i" by simp
  moreover have "inf_store i = inf_store (op_inf s KNotebook)"
    using assms(3,5) by (cases e) (auto split: if_splits)
  ultimately show ?thesis
    using assms(1,2) by (simp add: loop_inv_def store.mid_inv_Nil keys_ok_def underway_def)
qed

lemma keys_ok_work:
  assumes "loop_inv cr cfg n t s v M ls" "work_step cr cfg (op_ctl s) l c"
    and "\<forall>w a r. l = Acted w a r \<longrightarrow> answers s a r"
    and "\<And>k. underway s k \<Longrightarrow> underway s' k \<or> l = Enqueued k"
    and "op_inf s' = op_inf s" "op_ctl s' = c"
  shows "keys_ok cr cfg s' M (ls @ [l])"
  unfolding keys_ok_def
proof (intro allI impI)
  fix k
  assume k: "notebookKey k" "k \<notin> M"
  with assms(1) consider "underway s' k" | "l = Enqueued k"
    | "covered cr cfg k (storedAt s KNotebook k) ls (op_ctl s)"
    using assms(4) [of k] by (auto simp: loop_inv_def keys_ok_def)
  then show "underway s' k \<or> covered cr cfg k (storedAt s' KNotebook k) (ls @ [l]) (op_ctl s')"
  proof cases
    case 2
    from enqueued_covered [OF assms(2) [unfolded 2]] 2 show ?thesis by (simp add: assms(6))
  next
    case 3
    from work_inv(2) [OF assms(1-3) k(1) this] show ?thesis by (simp add: assms(5,6))
  qed simp
qed

lemma taken_inv:
  assumes "loop_inv cr cfg n t s v M ls" "op_handling s KNotebook = []"
    and "fifo_Pop (inf_fifo (op_inf s KNotebook)) = Some (item, f)"
  shows "loop_inv cr cfg n t
    (s\<lparr>op_inf := (op_inf s)(KNotebook := (op_inf s KNotebook)\<lparr>inf_fifo := f\<rparr>),
       op_handling := (op_handling s)(KNotebook := item)\<rparr>) v M ls"
  using assms store.mid_inv_pop [of apiNotebook v "op_inf s KNotebook" item f]
  by (simp add: loop_inv_def keys_ok_def underway_def)

text \<open>What a tick and the handler leave as it is: the store, and what waits for the handler.\<close>

lemma processor_inv:
  assumes "loop_inv cr cfg n t s v M ls" "lone p" "\<And>k. underway s k \<Longrightarrow> underway s' k"
    and "op_handler s' KNotebook = Done () \<or> (\<exists>k. op_handler s' KNotebook = enqueueKey k)"
    and "op_ctl s' = op_ctl s" "op_inf s' = op_inf s" "op_handling s' = op_handling s"
    and "op_shared s' KNotebook = (op_shared s KNotebook)\<lparr>si_processor := p\<rparr>"
  shows "loop_inv cr cfg n t s' v M ls"
  using assms by (auto simp: loop_inv_def keys_ok_def shared_ok_processor)

lemma ticked_inv:
  assumes "loop_inv cr cfg n t s v M ls" "shouldResync u (processorAt s KNotebook) = (due, p)"
  shows "loop_inv cr cfg n t (setProcessor KNotebook p (s\<lparr>op_due := d\<rparr>)) v M ls"
proof (rule processor_inv [OF assms(1)])
  have "lone (processorAt s KNotebook)" using assms(1) by (simp add: loop_inv_def shared_ok_def)
  note p = shouldResync_lone [OF this, of u]
  show "lone p" using p assms(2) by simp
  show "underway (setProcessor KNotebook p (s\<lparr>op_due := d\<rparr>)) k" if "underway s k" for k
    using that p(2) assms(2) by (simp add: underway_def)
qed (use assms(1) in \<open>simp_all add: loop_inv_def setProcessor_def\<close>)

lemma notified_inv:
  assumes "loop_inv cr cfg n t s v M ls" "op_handler s KNotebook = Done ()"
    and "sp_listeners (processorAt s KNotebook) = [l]" "pl_pop l = Some (x, l')"
  shows "loop_inv cr cfg n t
    (setProcessor KNotebook ((processorAt s KNotebook)\<lparr>sp_listeners := [l']\<rparr>)
      (s\<lparr>op_handler := (op_handler s)(KNotebook := notify KNotebook x)\<rparr>)) v M ls" (is "loop_inv _ _ _ _ ?s _ _ _")
proof (rule processor_inv [OF assms(1)])
  have "lone (processorAt s KNotebook)" using assms(1) by (simp add: loop_inv_def shared_ok_def)
  then show "lone ((processorAt s KNotebook)\<lparr>sp_listeners := [l']\<rparr>)" using assms(3) by (simp add: lone_def)
  show "underway ?s k" if "underway s k" for k
    using that assms(2-4)
    by (auto simp: underway_def inbox_of_def pl_pop_def notify_woken enqueueKey_def split: list.splits option.splits)
  show "op_handler ?s KNotebook = Done () \<or> (\<exists>k. op_handler ?s KNotebook = enqueueKey k)"
    by (auto simp: notify_woken split: option.split)
qed (simp_all add: setProcessor_def)

lemma enqueues_inv:
  assumes "loop_inv cr cfg n t s v M ls" "op_handler s kd = Act (AEnqueue k) f"
    and "work_step cr cfg (op_ctl s) (Enqueued k) c"
  shows "loop_inv cr cfg n t (s\<lparr>op_handler := (op_handler s)(kd := f Ack), op_ctl := c\<rparr>) v M (ls @ [Enqueued k])"
    (is "loop_inv _ _ _ _ ?s _ _ _")
proof -
  have *: "kd = KNotebook \<Longrightarrow> op_handler s KNotebook = enqueueKey k \<and> f Ack = Done ()"
    using assms(1,2) by (auto simp: loop_inv_def enqueueKey_def)
  have "underway ?s j \<or> Enqueued k = Enqueued j" if "underway s j" for j
    using that * by (auto simp: underway_def enqueueKey_def)
  then have "keys_ok cr cfg ?s M (ls @ [Enqueued k])"
    by (intro keys_ok_work [OF assms(1,3)]) simp_all
  with assms(1) * work_inv(1) [OF assms(1,3)] show ?thesis by (auto simp: loop_inv_def)
qed

lemma works_inv:
  assumes "loop_inv cr cfg n t s v M ls" "work_step cr cfg (op_ctl s) l c"
    and "\<forall>w a r. l = Acted w a r \<longrightarrow> answers s a r"
  shows "loop_inv cr cfg n t (s\<lparr>op_ctl := c\<rparr>) v M (ls @ [l])"
proof -
  have "keys_ok cr cfg (s\<lparr>op_ctl := c\<rparr>) M (ls @ [l])"
    by (rule keys_ok_work [OF assms]) (simp_all add: underway_def)
  with assms(1) work_inv(1) [OF assms] show ?thesis by (simp add: loop_inv_def)
qed

lemmas observed = op_told_def op_work_def op_missed_def

lemma loop_inv_step:
  assumes inv: "loop_inv cr cfg n t s v M ls" and step: "op_step cr cfg s l s'"
  shows "loop_inv cr cfg n t s' (op_told l v) (op_missed s l M) (ls @ op_work l)"
  using step
proof cases
  case (told kd e i)
  with told_inv [OF inv, of e i] loop_inv_frame [OF inv, of s'] show ?thesis
    by (cases "kd = KNotebook") (simp_all add: observed)
next
  case (taken kd item f)
  with taken_inv [OF inv, of item f] loop_inv_frame [OF inv, of s'] show ?thesis
    by (cases "kd = KNotebook") (simp_all add: observed)
next
  case (handled kd d ds err st ns)
  with handled_inv [OF inv, of d ds err st ns] loop_inv_frame [OF inv, of s'] show ?thesis
    by (cases "kd = KNotebook") (simp_all add: observed setProcessor_def)
next
  case (ticked kd u due p)
  with ticked_inv [OF inv, of u due p] loop_inv_frame [OF inv, of s'] show ?thesis
    by (cases "kd = KNotebook") (simp_all add: observed setProcessor_def)
next
  case (resyncs kd i)
  with told_inv [OF inv, of Resynced i] loop_inv_frame [OF inv, of s']
    loop_inv_frame [of cr cfg n t "s\<lparr>op_inf := (op_inf s)(KNotebook := i)\<rparr>" v M ls s'] show ?thesis
    by (cases "kd = KNotebook") (simp_all add: observed)
next
  case (joined kd u)
  with joined_inv [OF inv _ refl, of u] loop_inv_frame [OF inv, of s'] show ?thesis
    by (cases "kd = KNotebook") (simp_all add: observed)
next
  case (notified kd nl x nl')
  with notified_inv [OF inv, of nl x nl'] loop_inv_frame [OF inv, of s'] show ?thesis
    by (cases "kd = KNotebook") (simp_all add: observed setProcessor_def del: notify.simps)
next
  case (answers kd a f r)
  have "kd \<noteq> KNotebook" using inv answers by (auto simp: loop_inv_def enqueueKey_def)
  with answers loop_inv_frame [OF inv, of s'] show ?thesis by (simp add: observed)
next
  case (enqueues kd k f c)
  with enqueues_inv [OF inv, of kd k f c] show ?thesis by (simp add: observed)
next
  case (works wl c)
  with works_inv [OF inv, of wl c] show ?thesis by (simp add: observed)
qed

lemma loop_inv_start: "loop_inv cr cfg n t (op_start n t) (\<lambda>_. None) UNIV []"
proof -
  have "informer_inv (\<lambda>_. None) (newInformerOn (NewThreadSafeStore [(NamespaceIndex, MetaNamespaceIndexFunc)]))"
    using informer_reach_inv [OF informer_reach.start] by (simp add: newNotebookInformer_def)
  then show ?thesis
    by (simp add: loop_inv_def op_start_def store.mid_inv_Nil shared_ok_def lone_def keys_ok_def
        NewSharedIndexInformer_def)
qed

lemma op_reach_inv: "op_reach cr cfg n t s v M tr \<Longrightarrow> loop_inv cr cfg n t s v M (workLog tr)"
proof (induction rule: op_reach.induct)
  case start
  show ?case using loop_inv_start by (simp add: workLog_def)
next
  case (step s v M tr l s')
  from loop_inv_step [OF step.IH step.hyps(2)] show ?case by (simp add: workLog_def)
qed

end
