(* ===== verification/Operator_Main.thy ===== *)
theory Operator_Main
  imports Startup Clientset Operator_Loop
begin

text \<open>
  The operator's process (cmd/jupyter-operator/main.go): its flags as pflag has parsed them, the
  log level, the CA it makes for itself, the client and controller it builds, and Run with four
  workers. The signal handler only closes the stop channel that Run waits for. logrus.Fatalf and
  log.Fatal end the process with exit code 1.
\<close>

record main_flags =
  fl_kubeconfig :: string
  fl_logLevel :: string
  fl_namespace :: string
  fl_version :: bool

definition defaultFlags :: main_flags where
  "defaultFlags = \<lparr>fl_kubeconfig = [], fl_logLevel = ''info'', fl_namespace = [], fl_version = False\<rparr>"

definition Version :: string where
  "Version = ''was not built properly''"

datatype Level = PanicLevel | FatalLevel | ErrorLevel | WarnLevel | InfoLevel | DebugLevel

definition ParseLevel :: "string \<Rightarrow> go_error + Level" where
  "ParseLevel lvl =
     (let l = ToLower lvl
      in if l = ''panic'' then Inr PanicLevel
         else if l = ''fatal'' then Inr FatalLevel
         else if l = ''error'' then Inr ErrorLevel
         else if l = ''warn'' \<or> l = ''warning'' then Inr WarnLevel
         else if l = ''info'' then Inr InfoLevel
         else if l = ''debug'' then Inr DebugLevel
         else Inl (PlainError (''not a valid logrus Level: '' @ Quote lvl)))"

datatype main_end =
    Printed string
  | Fatal string
  | Exit nat

text \<open>
  How the process ends and what its controller did; \<^const>\<open>None\<close> where Run does not return.
  \<open>mkClient\<close> is New of pkg/client (\<^const>\<open>NewClient\<close> of the clients it is made of), which the
  controller's New calls with the path of the configuration; its failures end the process.
\<close>

definition main ::
  "string list \<Rightarrow> main_flags \<Rightarrow> 'k crypto \<Rightarrow> draw \<Rightarrow> (string \<Rightarrow> 'c outcome) \<Rightarrow>
     'w crd_api \<Rightarrow> clock \<Rightarrow> run_env \<Rightarrow> 'w \<Rightarrow> (main_end \<times> run_event list \<times> 'w) option" where
  "main args flags cr d mkClient api clk env w =
     (if length args > 1 \<and> (fl_version flags \<or> args ! 1 = ''version'')
      then Some (Printed Version, [], w)
      else case ParseLevel (fl_logLevel flags) of
        Inl err \<Rightarrow> Some (Fatal (Quote (fl_logLevel flags) @ '' is not a valid log level''), [], w)
      | Inr level \<Rightarrow>
     (case NewCACert cr d of
        Inl err \<Rightarrow> Some (Fatal (''failed to generate CA certificate: '' @ Error err), [], w)
      | Inr (caCert, key) \<Rightarrow>
     (let cfg = \<lparr>cfg_CACert = caCert, cfg_Key = key, cfg_Kubeconfig = fl_kubeconfig flags,
                cfg_Namespace = fl_namespace flags\<rparr>
      in case mkClient (cfg_Kubeconfig cfg) of
           Panics msg \<Rightarrow> Some (Fatal msg, [], w)
         | Returns client \<Rightarrow>
             (let controller = NewController cfg
              in case Run api clk env 4 w of
                   None \<Rightarrow> None
                 | Some (evs, err, w') \<Rightarrow> Some (Exit 0, evs, w')))))"

text \<open>
  The error of Run is dropped: a controller that never started its workers, because its
  definition was not established or a cache did not sync, ends the process with success.
\<close>

theorem main_exits_zero:
  assumes "main args flags cr d mkClient api clk env w = Some (Exit code, evs, w')"
  shows "code = 0 \<and> (\<exists>err. Run api clk env 4 w = Some (evs, err, w'))"
  using assms
  by (auto simp: main_def Let_def split: if_splits sum.splits option.splits outcome.splits prod.splits)

text \<open>The machine of \<open>Operator_Loop\<close> has the informers New makes.\<close>

lemma watched_informers:
  "map fst (ctl_informers (NewController cfg)) = watched"
  "\<forall>(kd, i) \<in> set (ctl_informers (NewController cfg)). inf_Kind i = kd \<and> inf_Resync i = resyncPeriod"
  by (simp_all add: NewController_def watched_def newInformer_def Let_def)

end
