(* ===== verification/Operator_Resync.thy ===== *)
theory Operator_Resync
  imports Operator_Loop
begin

text \<open>
  What the running operator comes to. A resync of the notebook informer makes up for every change
  its handler has missed; once nothing is left to do, the passes have seen what the API server told.
\<close>

section \<open>A resync\<close>

text \<open>No producer takes a key out of the delta queue.\<close>

abbreviation queuedKeys :: "DeltaFIFO \<Rightarrow> string set" where
  "queuedKeys f \<equiv> dom (df_items f)"

lemma queueAction_keeps: "queuedKeys f \<subseteq> queuedKeys (snd (queueAction ty obj f))"
  using dedupDeltas_snoc [of "deltasAt k f" d for k d]
  by (auto simp: queueAction_def Let_def split: sum.split)

lemma syncItems_keeps: "queuedKeys f \<subseteq> queuedKeys (snd (syncItems items keys f))"
proof (induction items arbitrary: keys f)
  case (Cons item items)
  obtain err f1 where "queueAction DeltaSync item f = (err, f1)" by (cases "queueAction DeltaSync item f")
  with queueAction_keeps [of f DeltaSync item] Cons.IH [of f1] show ?case
    by (simp split: sum.split option.split) (meson subset_trans)
qed simp

lemma deleteMissing_keeps: "queuedKeys f \<subseteq> queuedKeys (snd (deleteMissing ix s keys ks c f))"
proof (induction ks arbitrary: c f)
  case (Cons k ks)
  let ?x = "ITombstone k (case ix_GetByKey ix k s of Some (IObject obj) \<Rightarrow> Some obj | _ \<Rightarrow> None)"
  obtain err f1 where "queueAction DeltaDeleted ?x f = (err, f1)" by (cases "queueAction DeltaDeleted ?x f")
  with queueAction_keeps [of f DeltaDeleted ?x] Cons.IH [where f = f1] Cons.IH [where f = f] show ?case
    by (simp add: Let_def split: option.split) (meson subset_trans)
qed simp

lemma syncKey_keeps: "queuedKeys f \<subseteq> queuedKeys (snd (syncKey ix s k f))"
proof (cases "ix_GetByKey ix k s")
  case (Some obj)
  obtain err f1 where "queueAction DeltaSync obj f = (err, f1)" by (cases "queueAction DeltaSync obj f")
  with Some queueAction_keeps [of f DeltaSync obj] show ?thesis
    by (simp add: syncKey_def split: sum.split option.split)
qed (simp add: syncKey_def)

lemma syncKeys_keeps: "queuedKeys f \<subseteq> queuedKeys (snd (syncKeys ix s ks f))"
proof (induction ks arbitrary: f)
  case (Cons k ks)
  obtain err f1 where "syncKey ix s k f = (err, f1)" by (cases "syncKey ix s k f")
  with syncKey_keeps [of f ix s k] Cons.IH [of f1] show ?case
    by (simp split: option.split) (meson subset_trans)
qed simp

lemma Replace_keeps: "queuedKeys f \<subseteq> queuedKeys (snd (fifo_Replace ix s items f))"
proof (cases "syncItems items [] f")
  case (Pair r f1)
  obtain r2 f2 where "deleteMissing ix s (projr r) (ix_ListKeys ix s) 0 f1 = (r2, f2)"
    by (cases "deleteMissing ix s (projr r) (ix_ListKeys ix s) 0 f1")
  with Pair syncItems_keeps [of f items "[]"] deleteMissing_keeps [of f1 ix s "projr r" "ix_ListKeys ix s" 0]
  show ?thesis by (cases r) (auto simp: fifo_Replace_def split: prod.split option.split)
qed

lemma told_keeps:
  assumes "inf_step ix kd e i = Returns i'" "e \<noteq> Popped"
  shows "queuedKeys (inf_fifo i) \<subseteq> queuedKeys (inf_fifo i')" "inf_store i' = inf_store i"
proof -
  have pop: "queuedKeys (f\<lparr>df_populated := True\<rparr>) = queuedKeys f" for f by simp
  show "inf_store i' = inf_store i" using assms by (cases e) (auto split: if_splits)
  show "queuedKeys (inf_fifo i) \<subseteq> queuedKeys (inf_fifo i')"
  proof (cases e)
    case (Listed obs)
    with assms(1) Replace_keeps [of "inf_fifo i" ix "inf_store i" "map IObject obs"] show ?thesis by auto
  next
    case (WatchAdded ob)
    with assms(1) queueAction_keeps [of "(inf_fifo i)\<lparr>df_populated := True\<rparr>" DeltaAdded "IObject ob"]
    show ?thesis by (auto simp: fifo_Add_def split: if_splits)
  next
    case (WatchModified ob)
    with assms(1) queueAction_keeps [of "(inf_fifo i)\<lparr>df_populated := True\<rparr>" DeltaUpdated "IObject ob"]
    show ?thesis by (auto simp: fifo_Update_def split: if_splits)
  next
    case (WatchDeleted ob)
    with assms(1) queueAction_keeps [of "(inf_fifo i)\<lparr>df_populated := True\<rparr>" DeltaDeleted "IObject ob"]
    show ?thesis by (auto simp: fifo_Delete_def Let_def split: if_splits)
  next
    case Resynced
    with assms(1) syncKeys_keeps [of "inf_fifo i" ix "inf_store i" "ix_ListKeys ix (inf_store i)"]
    show ?thesis by (auto simp: fifo_Resync_def)
  qed (use assms in simp)
qed

context indexer
begin

text \<open>A resync queues everything stored.\<close>

lemma syncKey_queues:
  assumes "good s" "at s k = Some ob"
  shows "\<exists>f'. syncKey ix s k f = (None, f') \<and> k \<in> queuedKeys f'"
proof -
  have ob: "keyOf ob = k" using stored [OF assms] by simp
  show ?thesis
  proof (cases "deltasAt k f = []")
    case True
    then have "\<not> willObjectBeDeleted k f" by (simp add: willObjectBeDeleted_iff)
    then obtain f' where "queueAction DeltaSync (IObject ob) f = (None, f')" "k \<in> queuedKeys f'"
      using dedupDeltas_snoc [of "deltasAt k f"] by (auto simp: queueAction_def Let_def ob)
    with True ob assms show ?thesis by (simp add: syncKey_def getByKey)
  next
    case False
    then have "k \<in> queuedKeys f" by (auto simp: deltasAt_def split: option.splits)
    with False ob assms show ?thesis by (auto simp: syncKey_def getByKey)
  qed
qed

lemma syncKeys_queues:
  assumes "good s" "k \<in> set ks" "at s k = Some ob" "set ks \<subseteq> dom (at s)"
  shows "k \<in> queuedKeys (snd (syncKeys ix s ks f))"
  using assms
proof (induction ks arbitrary: f)
  case (Cons j ks)
  then obtain ob' where "at s j = Some ob'" by auto
  from syncKey_queues [OF Cons.prems(1) this] obtain f1 where
    f1: "syncKey ix s j f = (None, f1)" "j \<in> queuedKeys f1" by blast
  show ?case
  proof (cases "k \<in> set ks")
    case True
    with Cons f1 show ?thesis by simp
  next
    case False
    with Cons.prems(2) have "k = j" by simp
    with f1 syncKeys_keeps [of f1 ix s ks] show ?thesis by auto
  qed
qed simp

lemma Resynced_queues:
  assumes "good (inf_store i)" "inf_step ix kd Resynced i = Returns i'" "at (inf_store i) k = Some ob"
  shows "k \<in> queuedKeys (inf_fifo i')"
proof -
  have "k \<in> set (ix_ListKeys ix (inf_store i))" using keys [OF assms(1)] assms(3) by auto
  then have "k \<in> queuedKeys (snd (syncKeys ix (inf_store i) (ix_ListKeys ix (inf_store i)) (inf_fifo i)))"
    using syncKeys_queues [OF assms(1) _ assms(3)] keys [OF assms(1)] by simp
  moreover have "inf_fifo i' = snd (syncKeys ix (inf_store i) (ix_ListKeys ix (inf_store i)) (inf_fifo i))"
    using assms(2) by (auto simp: fifo_Resync_def)
  ultimately show ?thesis by simp
qed

end

text \<open>
  While the handler hears of resyncs, a stored notebook whose change it has missed is in the delta
  queue, or being handled.
\<close>

definition pendingKey :: "operator \<Rightarrow> string \<Rightarrow> bool" where
  "pendingKey s k \<longleftrightarrow> k \<in> queuedKeys (inf_fifo (op_inf s KNotebook))
     \<or> (\<exists>d \<in> set (op_handling s KNotebook). KeyOf (d_Object d) = Inr k)"

definition repairing :: "operator \<Rightarrow> string set \<Rightarrow> bool" where
  "repairing s M \<longleftrightarrow> hears (processorAt s KNotebook) True \<and>
     (\<forall>k \<in> M. storedAt s KNotebook k \<noteq> None \<longrightarrow> pendingKey s k)"

lemma repairing_frame:
  assumes "repairing s M" "hears (processorAt s' KNotebook) True"
    and "storedAt s' KNotebook = storedAt s KNotebook" "\<And>k. pendingKey s k \<Longrightarrow> pendingKey s' k"
  shows "repairing s' M"
  using assms by (auto simp: repairing_def)

lemma hears_distribute:
  "lone p \<Longrightarrow> hears (sp_distribute x b p) b' = hears p b'"
  by (simp add: hears_def distribute_lone)

lemma woken_change:
  assumes "delta_ok apiNotebook key d" "d_Type d \<noteq> DeltaDeleted"
    and "\<And>ob. old = Some ob \<Longrightarrow> isNotebook ob"
  shows "woken (changeNote d old) \<noteq> None"
  using assms
  by (auto simp: delta_ok_def changeNote_def apiNotebook_def isNotebook_iff split: option.split)

lemma repairing_handled:
  assumes inv: "loop_inv cr cfg n t s v M' ls" and kd: "op_handling s KNotebook = d # ds"
    and st: "HandleDeltas storeIndexer [d] (inf_store (op_inf s KNotebook)) = Returns (err, st, ns)"
    and rep: "repairing s M"
  defines "s' \<equiv> setProcessor KNotebook (distributeAll ns (processorAt s KNotebook))
            (s\<lparr>op_inf := (op_inf s)(KNotebook := (op_inf s KNotebook)\<lparr>inf_store := st,
                 inf_sent := inf_sent (op_inf s KNotebook) @ ns\<rparr>),
               op_handling := (op_handling s)(KNotebook := (if err = None then ds else []))\<rparr>)"
  shows "repairing s' (untold (processorAt s KNotebook) ns M)"
proof -
  let ?i = "op_inf s KNotebook" and ?p = "processorAt s KNotebook"
  have mid: "store.mid_inv apiNotebook v ?i (d # ds)" using inv kd by (simp add: loop_inv_def)
  then have good: "store_inv apiNotebook (inf_store ?i)" by (simp add: store.mid_inv_def)
  from store.mid_inv_handle [OF mid] obtain key where key: "delta_ok apiNotebook key d" "err = None"
    "ns = [(changeNote d (objectAt (inf_store ?i) key), d_Type d = DeltaSync)]"
    "objectAt st = (objectAt (inf_store ?i))(key := effect d)"
    using st by auto
  have lone: "lone ?p" using inv by (simp add: loop_inv_def shared_ok_def)
  have hears: "hears ?p b" for b using rep by (auto simp: repairing_def hears_def)
  have "woken (changeNote d (objectAt (inf_store ?i) key)) \<noteq> None" if "d_Type d \<noteq> DeltaDeleted"
    using woken_change [OF key(1) that] store_inv_at(2) [OF good] by (auto simp: apiNotebook_def)
  then have M: "untold ?p ns M \<subseteq> insert key M" "key \<in> untold ?p ns M \<Longrightarrow> effect d = None"
    using changeNote_key [OF key(1)] hears by (auto simp: key(3) effect_def split: if_splits)
  have "pendingKey s' k" if "k \<in> untold ?p ns M" "storedAt s' KNotebook k \<noteq> None" for k
  proof -
    have "k \<noteq> key" using that M(2) key(4) by (auto simp: s'_def)
    moreover from this have "k \<in> M" "storedAt s KNotebook k \<noteq> None"
      using that M(1) key(4) by (auto simp: s'_def)
    with rep have "pendingKey s k" by (simp add: repairing_def)
    ultimately show ?thesis
      using key(1,2) kd by (auto simp: pendingKey_def s'_def delta_ok_def)
  qed
  moreover have "hears (processorAt s' KNotebook) True"
    using hears hears_distribute [OF lone] by (simp add: s'_def key(3))
  ultimately show ?thesis by (auto simp: repairing_def)
qed

lemma repairing_told:
  assumes "repairing s M" "inf_step storeIndexer kd e (op_inf s kd) = Returns i" "e \<noteq> Popped"
    and "op_inf s' = (op_inf s)(kd := i)" "op_handling s' = op_handling s" "op_shared s' = op_shared s"
  shows "repairing s' M"
  using assms(1)
proof (rule repairing_frame)
  show "hears (processorAt s' KNotebook) True" using assms(1,6) by (simp add: repairing_def)
  show "storedAt s' KNotebook = storedAt s KNotebook" using told_keeps(2) [OF assms(2,3)] assms(4) by simp
  show "pendingKey s' k" if "pendingKey s k" for k
    using that told_keeps(1) [OF assms(2,3)] assms(4,5) by (auto simp: pendingKey_def)
qed

lemma repairing_taken:
  assumes "repairing s M" "loop_inv cr cfg n t s v M' ls" "op_handling s KNotebook = []"
    and "fifo_Pop (inf_fifo (op_inf s KNotebook)) = Some (item, f)"
    and "op_inf s' = (op_inf s)(KNotebook := (op_inf s KNotebook)\<lparr>inf_fifo := f\<rparr>)"
    and "op_handling s' = (op_handling s)(KNotebook := item)" "op_shared s' = op_shared s"
  shows "repairing s' M"
  using assms(1)
proof (rule repairing_frame)
  have fifo: "fifo_inv apiNotebook (inf_fifo (op_inf s KNotebook))"
    using assms(2) by (simp add: loop_inv_def store.mid_inv_def)
  obtain key queue where "df_queue (inf_fifo (op_inf s KNotebook)) = key # queue"
    using assms(4) by (cases "df_queue (inf_fifo (op_inf s KNotebook))") (auto simp: fifo_Pop_empty)
  from fifo_Pop_inv [OF fifo this] assms(4) obtain item: "item \<noteq> []"
    "\<forall>d \<in> set item. delta_ok apiNotebook key d"
    and f: "df_items f = (df_items (inf_fifo (op_inf s KNotebook)))(key := None)" by auto
  then have "\<exists>d \<in> set item. KeyOf (d_Object d) = Inr key" by (cases item) (auto simp: delta_ok_def)
  then show "pendingKey s' k" if "pendingKey s k" for k
    using that f assms(3,5,6) by (cases "k = key") (auto simp: pendingKey_def)
qed (use assms in \<open>simp_all add: repairing_def\<close>)

lemma repairing_step:
  assumes inv: "loop_inv cr cfg n t s v M' ls" and step: "op_step cr cfg s l s'"
    and rep: "repairing s M" and no_tick: "\<And>u. l \<noteq> Ticked KNotebook u"
  shows "repairing s' (op_missed s l M)"
  using step
proof cases
  case (told kd e i)
  with repairing_told [OF rep, of kd e i s'] show ?thesis by (simp add: op_missed_def)
next
  case (taken kd item f)
  with repairing_taken [OF rep inv, of item f s'] rep show ?thesis
    by (cases "kd = KNotebook") (simp_all add: op_missed_def repairing_def pendingKey_def)
next
  case (handled kd d ds err st ns)
  with repairing_handled [OF inv _ _ rep, of d ds err st ns] rep show ?thesis
    by (cases "kd = KNotebook") (simp_all add: op_missed_def repairing_def pendingKey_def)
next
  case (ticked kd u due p)
  with no_tick [of u] rep show ?thesis by (auto simp: op_missed_def repairing_def pendingKey_def)
next
  case (resyncs kd i)
  with repairing_told [OF rep, of kd Resynced i s'] show ?thesis by (simp add: op_missed_def)
next
  case (joined kd u)
  then have "kd \<noteq> KNotebook" using rep by (auto simp: repairing_def hears_def)
  with joined rep show ?thesis by (simp add: op_missed_def repairing_def pendingKey_def)
next
  case (notified kd nl x nl')
  with rep show ?thesis by (auto simp: op_missed_def repairing_def pendingKey_def hears_def)
qed (use rep in \<open>simp_all add: op_missed_def repairing_def pendingKey_def\<close>)

text \<open>When the reflector resyncs, the handler hears of it.\<close>

lemma due_hears:
  assumes "op_reach cr cfg n t s v M tr"
  shows "op_due s KNotebook \<longrightarrow> hears (processorAt s KNotebook) True"
  using assms
proof (induction rule: op_reach.induct)
  case start
  show ?case by (simp add: op_start_def)
next
  case (step s v M tr l s')
  have lone: "lone (processorAt s KNotebook)"
    using op_reach_inv [OF step.hyps(1)] by (simp add: loop_inv_def shared_ok_def)
  from step.hyps(2) show ?case
  proof cases
    case (ticked kd u due p)
    with step.IH shouldResync_lone [OF lone, of u] show ?thesis
      by (auto simp: hears_def lone_def)
  next
    case (handled kd d ds err st ns)
    have "hears (distributeAll ns p) True = hears p True" if "lone p" for ns p
      using that by (induction ns arbitrary: p) (simp_all add: hears_distribute distribute_lone)
    with handled step.IH lone show ?thesis by auto
  next
    case (joined kd u)
    with step.IH show ?thesis by (auto simp: hears_def)
  next
    case (notified kd nl x nl')
    with step.IH show ?thesis by (auto simp: hears_def)
  qed (use step.IH in auto)
qed

lemma repairing_after_resync:
  assumes "op_reach cr cfg n t s v M (tr @ Resyncs KNotebook # tr')" "\<And>u. Ticked KNotebook u \<notin> set tr'"
  shows "repairing s M"
  using assms
proof (induction tr' arbitrary: s v M rule: rev_induct)
  case Nil
  then obtain s0 v0 M0 where run: "op_reach cr cfg n t s0 v0 M0 tr"
    and step: "op_step cr cfg s0 (Resyncs KNotebook) s" and M: "M = op_missed s0 (Resyncs KNotebook) M0"
    by (cases rule: op_reach.cases) auto
  have good: "store_inv apiNotebook (inf_store (op_inf s0 KNotebook))"
    using op_reach_inv [OF run] by (simp add: loop_inv_def store.mid_inv_def)
  from step show ?case
  proof cases
    case (resyncs i)
    with due_hears [OF run] have "hears (processorAt s KNotebook) True" by simp
    moreover have "pendingKey s k" if "storedAt s KNotebook k = Some ob" for k ob
      using store.Resynced_queues [OF good resyncs(5)] that resyncs told_keeps(2) [OF resyncs(5)]
      by (simp add: pendingKey_def)
    ultimately show ?thesis by (auto simp: repairing_def)
  qed
next
  case (snoc l tr')
  from snoc.prems(1) obtain s0 v0 M0 where run: "op_reach cr cfg n t s0 v0 M0 (tr @ Resyncs KNotebook # tr')"
    and step: "op_step cr cfg s0 l s" and M: "M = op_missed s0 l M0"
    by (cases rule: op_reach.cases) auto
  from snoc.IH [OF run] snoc.prems(2) have "repairing s0 M0" by auto
  from repairing_step [OF op_reach_inv [OF run] step this] snoc.prems(2) show ?case
    unfolding M by auto
qed

section \<open>Properties\<close>

text \<open>Nothing is left to do: no change to handle, no notification, no key queued or waiting, no pass.\<close>

definition at_rest :: "operator \<Rightarrow> bool" where
  "at_rest s \<longleftrightarrow> \<not> crashed (op_ctl s) \<and> \<not> shutting (queue (op_ctl s))
     \<and> df_queue (inf_fifo (op_inf s KNotebook)) = [] \<and> op_handling s KNotebook = []
     \<and> inbox_of (processorAt s KNotebook) = [] \<and> op_handler s KNotebook = Done ()
     \<and> wq_dirty (base (queue (op_ctl s))) = {} \<and> inbox (queue (op_ctl s)) = [] \<and> waiting (queue (op_ctl s)) = []
     \<and> (\<forall>w < length (workers (op_ctl s)). workers (op_ctl s) ! w = Idle)"

lemma at_rest_store:
  assumes "loop_inv cr cfg n t s v M ls" "df_queue (inf_fifo (op_inf s KNotebook)) = []"
    and "op_handling s KNotebook = []"
  shows "storedAt s KNotebook = v" "queuedKeys (inf_fifo (op_inf s KNotebook)) = {}"
proof -
  have inv: "informer_inv v (op_inf s KNotebook)" using assms by (simp add: loop_inv_def store.mid_inv_Nil)
  then show "queuedKeys (inf_fifo (op_inf s KNotebook)) = {}"
    using assms(2) by (auto simp: store.inf_inv_def fifo_inv_def)
  from store.pops_inv [OF inv refl, of KNotebook] assms(2) show "storedAt s KNotebook = v" by simp
qed

lemma at_rest_synced:
  assumes "loop_inv cr cfg n t s v M ls" "at_rest s" "notebookKey k" "k \<notin> M"
  shows "synced cr cfg k (v k) ls"
proof -
  have "storedAt s KNotebook = v"
    using at_rest_store(1) [OF assms(1)] assms(2) by (simp add: at_rest_def)
  moreover have "\<not> underway s k" using assms(2) by (simp add: underway_def at_rest_def enqueueKey_def)
  moreover have "syncers (workers (op_ctl s)) k = {}" using assms(2) by (auto simp: at_rest_def syncers_def)
  ultimately show ?thesis
    using assms by (auto simp: loop_inv_def keys_ok_def covered_def at_rest_def dueBy_def fresh_def)
qed

text \<open>What the last pass over a notebook has done when it reported no error.\<close>

lemma pass_delivers:
  assumes "ns \<noteq> []" "slashFree (ns, nm)"
    and "feed (sync cr d cfg (listerKey ns nm)) ((a, Found (Some (ONotebook nb))) # es) = Some (Done None)"
  shows "Validate nb = None"
    and "live nb \<Longrightarrow> defaulted (nb_Spec nb) \<Longrightarrow>
      \<exists>n1. nb_Meta n1 = nb_Meta nb \<and> nb_Spec n1 = nb_Spec nb \<and> reconciled cr d cfg n1 es"
proof -
  have key: "listerKey ns nm = metaKey (ns, nm)"
    using assms(1) by (simp add: listerKey_def metaKey_def MetaNamespaceKey_def)
  note success = sync_success [OF assms(2) assms(3) [unfolded key]]
  show "Validate nb = None" by (rule success(1))
  assume "live nb" "defaulted (nb_Spec nb)"
  with success(2) obtain n1 es1 es2 es3 where n1: "es = es1 @ es2 @ es3" "nb_Meta n1 = nb_Meta nb"
    "nb_Spec n1 = nb_Spec nb" "feed (reconcileNotebookResources cr d cfg n1) es2 = Some (Done None)" by blast
  have "live n1" using \<open>live nb\<close> n1(2) by (simp add: live_def)
  moreover have "subseq (acts es2) (acts es)" unfolding n1(1) acts_simps
    by (rule list_emb_append2, rule list_emb_prefix) simp
  ultimately show "\<exists>n1. nb_Meta n1 = nb_Meta nb \<and> nb_Spec n1 = nb_Spec nb \<and> reconciled cr d cfg n1 es"
    using reconciled_mono [OF reconcile_writes [OF _ n1(4)]] n1(2,3) by blast
qed

text \<open>Whatever the API server does and however the informer, the handlers, the queue and the workers
  interleave, whenever the notebook informer has resynced, the handler hearing of resyncs since,
  and everything has come to rest, every notebook the API server told of is valid and the last
  successful pass over it was a whole run of sync that found it exactly as last told; if it has its
  defaults and is not being deleted, that pass has written its resources and seen them ready.\<close>

theorem operator_converges:
  assumes "op_reach cr cfg n t s v M (tr @ Resyncs KNotebook # tr')" "\<And>u. Ticked KNotebook u \<notin> set tr'"
    and "at_rest s" "v (listerKey ns nm) = Some ob" "ns \<noteq> []" "slashFree (ns, nm)"
  shows "\<exists>nb d es. ob = ONotebook nb
     \<and> lastPass (listerKey ns nm) (workLog (tr @ Resyncs KNotebook # tr')) =
        Some ((ALookup KNotebook (listerKey ns nm), Found (Some ob)) # es)
     \<and> feed (sync cr d cfg (listerKey ns nm)) ((ALookup KNotebook (listerKey ns nm), Found (Some ob)) # es)
        = Some (Done None)
     \<and> Validate nb = None
     \<and> (live nb \<and> defaulted (nb_Spec nb) \<longrightarrow>
          (\<exists>n1. nb_Meta n1 = nb_Meta nb \<and> nb_Spec n1 = nb_Spec nb \<and> reconciled cr d cfg n1 es))"
proof -
  note inv = op_reach_inv [OF assms(1)]
  have key: "notebookKey (listerKey ns nm)" using assms(5,6) by (auto simp: notebookKey_def)
  note rest = at_rest_store [OF inv]
  have "listerKey ns nm \<notin> M"
    using repairing_after_resync [OF assms(1,2)] rest assms(3,4)
    by (auto simp: repairing_def pendingKey_def at_rest_def)
  from at_rest_synced [OF inv assms(3) key this] obtain d es where pass:
    "lastPass (listerKey ns nm) (workLog (tr @ Resyncs KNotebook # tr')) =
        Some ((ALookup KNotebook (listerKey ns nm), Found (Some ob)) # es)"
    "feed (sync cr d cfg (listerKey ns nm)) ((ALookup KNotebook (listerKey ns nm), Found (Some ob)) # es)
        = Some (Done None)"
    using assms(4) by (auto simp: synced_def)
  have "store_inv apiNotebook (inf_store (op_inf s KNotebook))" "storedAt s KNotebook = v"
    using inv rest assms(3) by (simp_all add: loop_inv_def store.mid_inv_def at_rest_def)
  from store_inv_at(2) [OF this(1), of "listerKey ns nm" ob] this(2) assms(4) obtain nb where nb: "ob = ONotebook nb"
    by (auto simp: apiNotebook_def isNotebook_iff)
  with pass pass_delivers [OF assms(5,6) pass(2) [unfolded nb]] show ?thesis by blast
qed

text \<open>C8: Between resyncs the operator is event driven: once it is at rest, the last successful pass over
  a notebook found what the API server last told, its absence included, unless the last change of
  the notebook did not reach the handler (a list that is handled while the handler does not hear of
  resyncs) or reached it as a tombstone.\<close>

theorem events_suffice:
  assumes "op_reach cr cfg n t s v M tr" "at_rest s" "ns \<noteq> []" "slashFree (ns, nm)" "listerKey ns nm \<notin> M"
  shows "\<exists>d es. lastPass (listerKey ns nm) (workLog tr) =
        Some ((ALookup KNotebook (listerKey ns nm), Found (v (listerKey ns nm))) # es)
     \<and> feed (sync cr d cfg (listerKey ns nm))
          ((ALookup KNotebook (listerKey ns nm), Found (v (listerKey ns nm))) # es) = Some (Done None)"
proof -
  have "notebookKey (listerKey ns nm)" using assms(3,4) by (auto simp: notebookKey_def)
  from at_rest_synced [OF op_reach_inv [OF assms(1)] assms(2) this assms(5)] show ?thesis
    by (simp add: synced_def)
qed

end
