(* ===== verification/Reflector.thy ===== *)
theory Reflector
  imports Informer Watch_Events
begin

text \<open>
  The reflector of an informer (the vendored client-go, tools/cache: reflector.go): it lists the API
  server, watches from the version of the list on, takes up a watch that ends where it ended, and
  lists again when it cannot. What it tells the informer is, version for version, what the API
  server holds. Times are nanoseconds.
\<close>

section \<open>The reflector\<close>

text \<open>
  Where ListAndWatch is: about to be called, at the top of its loop, or in watchHandler since a
  time and with a count of events. \<open>rf_resourceVersion\<close> is its local variable.
\<close>

datatype rf_place = AtList | AtWatch | AtEvents int nat | AtStop

record reflector =
  rf_place :: rf_place
  rf_resourceVersion :: string
  rf_lastSyncResourceVersion :: string

definition newReflector :: reflector where
  "newReflector = \<lparr>rf_place = AtList, rf_resourceVersion = [], rf_lastSyncResourceVersion = []\<rparr>"

definition syncWith ::
  "'s Indexer \<Rightarrow> object list \<Rightarrow> 's informer \<Rightarrow> go_error option \<times> DeltaFIFO" where
  "syncWith ix items i = fifo_Replace ix (inf_store i) (map IObject items) (inf_fifo i)"

text \<open>
  The list, up to the loop of ListAndWatch. Any error returns, and Run calls ListAndWatch again. In
  each operation the call the reflector makes of the informer's queue is an event of \<open>Informer\<close>.
\<close>

definition rf_list ::
  "'s Indexer \<Rightarrow> 's informer \<Rightarrow> go_error + object list \<times> string \<Rightarrow> reflector \<Rightarrow> reflector \<times> inf_event option" where
  "rf_list ix i answer r =
     (case answer of
        Inl err \<Rightarrow> (r, None)
      | Inr (items, resourceVersion) \<Rightarrow>
          (case syncWith ix items i of
             (Some err, f) \<Rightarrow> (r, Some (Listed items))
           | (None, f) \<Rightarrow>
               (r\<lparr>rf_place := AtWatch, rf_resourceVersion := resourceVersion,
                  rf_lastSyncResourceVersion := resourceVersion\<rparr>, Some (Listed items))))"

text \<open>A refused connection is tried again; after any other failure ListAndWatch returns.\<close>

datatype watch_result = WatchOpened | WatchRefused | WatchFailed

definition rf_watch :: "watch_result \<Rightarrow> int \<Rightarrow> reflector \<Rightarrow> reflector" where
  "rf_watch answer now r =
     (case answer of
        WatchOpened \<Rightarrow> r\<lparr>rf_place := AtEvents now 0\<rparr>
      | WatchRefused \<Rightarrow> r
      | WatchFailed \<Rightarrow> r\<lparr>rf_place := AtList\<rparr>)"

text \<open>
  One turn of the loop of watchHandler. Errors of the store are only logged, and the version
  advances after an event of an unknown type, too.
\<close>

definition storeCall :: "EventType \<Rightarrow> object \<Rightarrow> inf_event option" where
  "storeCall ty obj =
     (case ty of
        WatchAddedType \<Rightarrow> Some (WatchAdded obj)
      | WatchModifiedType \<Rightarrow> Some (WatchModified obj)
      | WatchDeletedType \<Rightarrow> Some (WatchDeleted obj)
      | _ \<Rightarrow> None)"

definition rf_event :: "kind \<Rightarrow> int \<Rightarrow> nat \<Rightarrow> watch_event \<Rightarrow> reflector \<Rightarrow> reflector \<times> inf_event option" where
  "rf_event k start eventCount event r =
     (if we_Type event = WatchErrorType then (r\<lparr>rf_place := AtList\<rparr>, None)
      else case we_Object event of
             WatchStatus reason msg \<Rightarrow> (r, None)
           | WatchObject obj \<Rightarrow>
               if kind_of obj \<noteq> k then (r, None)
               else let newResourceVersion = om_ResourceVersion (meta_of obj)
                    in (r\<lparr>rf_place := AtEvents start (Suc eventCount),
                          rf_resourceVersion := newResourceVersion,
                          rf_lastSyncResourceVersion := newResourceVersion\<rparr>,
                        storeCall (we_Type event) obj))"

text \<open>The end of the watch: after less than a second without an event it counts as an error.\<close>

definition rf_closed :: "int \<Rightarrow> nat \<Rightarrow> int \<Rightarrow> reflector \<Rightarrow> reflector" where
  "rf_closed start eventCount now r =
     (if now - start < 1000000000 \<and> eventCount = 0 then r\<lparr>rf_place := AtList\<rparr> else r\<lparr>rf_place := AtWatch\<rparr>)"

text \<open>
  What can happen to the reflector: its list or watch is answered, a watch event comes, the watch
  ends, a resync failed, the stop channel closes. Of the two requests only the version matters.
\<close>

datatype rf_label =
    ListAnswer "go_error + object list \<times> string"
  | WatchAnswer string watch_result int
  | WatchEvent watch_event
  | WatchClosed int
  | ResyncFailed
  | StopClosed

fun rf_step ::
  "'s Indexer \<Rightarrow> kind \<Rightarrow> 's informer \<Rightarrow> rf_label \<Rightarrow> reflector \<Rightarrow> (reflector \<times> inf_event option) option" where
  "rf_step ix k i (ListAnswer answer) r =
     (if rf_place r = AtList then Some (rf_list ix i answer r) else None)"
| "rf_step ix k i (WatchAnswer version answer now) r =
     (if rf_place r = AtWatch \<and> version = rf_resourceVersion r
      then Some (rf_watch answer now r, None) else None)"
| "rf_step ix k i (WatchEvent event) r =
     (case rf_place r of AtEvents start cnt \<Rightarrow> Some (rf_event k start cnt event r) | _ \<Rightarrow> None)"
| "rf_step ix k i (WatchClosed now) r =
     (case rf_place r of AtEvents start cnt \<Rightarrow> Some (rf_closed start cnt now r, None) | _ \<Rightarrow> None)"
| "rf_step ix k i ResyncFailed r =
     (case rf_place r of AtEvents start cnt \<Rightarrow> Some (r\<lparr>rf_place := AtList\<rparr>, None) | _ \<Rightarrow> None)"
| "rf_step ix k i StopClosed r = Some (r\<lparr>rf_place := AtStop\<rparr>, None)"

section \<open>The API server\<close>

text \<open>
  What the API server documents. A resource has a history: changes of single objects at increasing
  revisions, each object carrying the version of its revision. A list is the contents at some
  revision (asked for version "0" the server may answer from a cache that lags behind), a watch
  brings the changes after the version asked for, in order and without a gap, until it ends.
\<close>

type_synonym history = "(nat \<times> watch_event) list"

definition change :: "watch_event \<Rightarrow> view \<Rightarrow> view" where
  "change e v =
     (case we_Object e of
        WatchStatus reason msg \<Rightarrow> v
      | WatchObject obj \<Rightarrow>
          v(keyOf obj := (if we_Type e = WatchDeletedType then None else Some obj)))"

definition contents :: "history \<Rightarrow> nat \<Rightarrow> view" where
  "contents h n = fold (\<lambda>(m, e). change e) (filter (\<lambda>(m, e). m \<le> n) h) (\<lambda>_. None)"

definition change_ok :: "kind \<Rightarrow> (nat \<Rightarrow> string) \<Rightarrow> nat \<Rightarrow> watch_event \<Rightarrow> bool" where
  "change_ok k rv n e \<longleftrightarrow>
     we_Type e \<in> {WatchAddedType, WatchModifiedType, WatchDeletedType} \<and>
     (case we_Object e of
        WatchStatus reason msg \<Rightarrow> False
      | WatchObject obj \<Rightarrow> kind_of obj = k \<and> om_ResourceVersion (meta_of obj) = rv n)"

definition server_ok :: "kind \<Rightarrow> (nat \<Rightarrow> string) \<Rightarrow> history \<Rightarrow> bool" where
  "server_ok k rv h \<longleftrightarrow> inj rv \<and> [] \<notin> range rv \<and> sorted_wrt (<) (map fst h) \<and>
     (\<forall>(n, e) \<in> set h. change_ok k rv n e)"

text \<open>The first change after a revision.\<close>

definition nextChange :: "history \<Rightarrow> nat \<Rightarrow> (nat \<times> watch_event) option" where
  "nextChange h n = List.find (\<lambda>(m, e). n < m) h"

text \<open>
  How the server answers while the watch is at revision \<open>c\<close>, and the revision the watch is at then.
\<close>

fun serves :: "(nat \<Rightarrow> string) \<Rightarrow> history \<Rightarrow> nat \<Rightarrow> rf_label \<Rightarrow> nat \<Rightarrow> bool" where
  "serves rv h c (ListAnswer (Inr (items, version))) c' \<longleftrightarrow>
     c' = c \<and> (\<exists>n. version = rv n \<and> listed items (\<lambda>_. None) = contents h n)"
| "serves rv h c (WatchAnswer version WatchOpened now) c' \<longleftrightarrow> version = rv c'"
| "serves rv h c (WatchEvent e) c' \<longleftrightarrow>
     (if we_Type e = WatchErrorType then c' = c else nextChange h c = Some (c', e))"
| "serves rv h c l c' \<longleftrightarrow> c' = c"

section \<open>Version for version\<close>

lemma find_sorted:
  assumes "sorted_wrt (<) (map fst h)" "nextChange h n = Some (m, e)"
  shows "filter (\<lambda>(j, e). j \<le> m) h = filter (\<lambda>(j, e). j \<le> n) h @ [(m, e)]" "n < m" "(m, e) \<in> set h"
  using assms
proof (induction h)
  case (Cons x h)
  obtain j d where x: "x = (j, d)" by (cases x)
  {
    case 1
    show ?case
    proof (cases "n < j")
      case True
      with 1 x have "j = m" "d = e" by (simp_all add: nextChange_def)
      moreover have "filter (\<lambda>(i, e). i \<le> j) h = []" "filter (\<lambda>(i, e). i \<le> n) h = []"
        using 1 x True by (auto simp: filter_empty_conv)
      ultimately show ?thesis using x True by simp
    next
      case False
      with 1 x have "nextChange h n = Some (m, e)" by (simp add: nextChange_def)
      with Cons.IH 1 x False show ?thesis by simp
    qed
  next
    case 2
    with Cons.IH x show ?case by (auto simp: nextChange_def split: if_splits)
  next
    case 3
    with Cons.IH x show ?case by (auto simp: nextChange_def split: if_splits)
  }
qed (simp_all add: nextChange_def)

lemma contents_next:
  assumes "sorted_wrt (<) (map fst h)" "nextChange h n = Some (m, e)"
  shows "contents h m = change e (contents h n)"
  by (simp add: contents_def find_sorted(1) [OF assms])

text \<open>A change of the history, handed to the informer, is what the reflector tells it.\<close>

lemma told_change:
  assumes "change_ok k rv n e" "we_Object e = WatchObject obj" "storeCall (we_Type e) obj = Some c"
  shows "told k c v = change e v"
  using assms by (auto simp: change_ok_def storeCall_def change_def fun_upd_def)

text \<open>
  The invariant: the view the informer was told is what the server held at the version the
  reflector last synced; the watch stands at that version.
\<close>

definition reflects :: "(nat \<Rightarrow> string) \<Rightarrow> history \<Rightarrow> view \<Rightarrow> nat \<Rightarrow> reflector \<Rightarrow> bool" where
  "reflects rv h v c r \<longleftrightarrow>
     (rf_lastSyncResourceVersion r = [] \<and> v = (\<lambda>_. None) \<and> rf_place r \<in> {AtList, AtStop})
     \<or> (\<exists>n. rf_lastSyncResourceVersion r = rv n \<and> v = contents h n
          \<and> (rf_place r \<notin> {AtList, AtStop} \<longrightarrow> rf_resourceVersion r = rv n)
          \<and> (\<forall>start cnt. rf_place r = AtEvents start cnt \<longrightarrow> c = n))"

lemma reflects_new: "reflects rv h (\<lambda>_. None) c newReflector"
  by (simp add: reflects_def newReflector_def)

lemma reflects_event:
  assumes ok: "server_ok k rv h" and inv: "reflects rv h v c r"
    and step: "rf_step ix k i (WatchEvent event) r = Some (r', e)" and served: "serves rv h c (WatchEvent event) c'"
  shows "reflects rv h (case e of None \<Rightarrow> v | Some e \<Rightarrow> told k e v) c' r'"
proof -
  obtain start cnt where place: "rf_place r = AtEvents start cnt"
    and ev: "rf_event k start cnt event r = (r', e)"
    using step by (auto split: rf_place.splits)
  have v: "v = contents h c" "rf_lastSyncResourceVersion r = rv c" "rf_resourceVersion r = rv c"
    using inv place by (auto simp: reflects_def)
  show ?thesis
  proof (cases "we_Type event = WatchErrorType")
    case True
    with ev v served show ?thesis by (auto simp: rf_event_def reflects_def)
  next
    case False
    with served have nxt: "nextChange h c = Some (c', event)" by simp
    have sorted: "sorted_wrt (<) (map fst h)" using ok by (simp add: server_ok_def)
    have good: "change_ok k rv c' event"
      using ok find_sorted(3) [OF sorted nxt] by (auto simp: server_ok_def)
    then obtain obj where obj: "we_Object event = WatchObject obj" "kind_of obj = k"
      "om_ResourceVersion (meta_of obj) = rv c'"
      by (auto simp: change_ok_def split: watch_object.splits)
    obtain cl where cl: "storeCall (we_Type event) obj = Some cl"
      using good by (auto simp: change_ok_def storeCall_def)
    have "told k cl v = contents h c'"
      using told_change [OF good obj(1) cl] contents_next [OF sorted nxt] v(1) by simp
    moreover have "e = Some cl" "r' = r\<lparr>rf_place := AtEvents start (Suc cnt),
        rf_resourceVersion := rv c', rf_lastSyncResourceVersion := rv c'\<rparr>"
      using ev False obj cl by (auto simp: rf_event_def Let_def)
    ultimately show ?thesis by (auto simp: reflects_def)
  qed
qed

lemma reflects_step:
  assumes ok: "server_ok k rv h" and inv: "reflects rv h v c r"
    and step: "rf_step ix k i l r = Some (r', e)" and served: "serves rv h c l c'"
    and sync: "\<And>items f err. syncWith ix items i \<noteq> (Some err, f)"
  shows "reflects rv h (case e of None \<Rightarrow> v | Some e \<Rightarrow> told k e v) c' r'"
proof (cases l)
  case (ListAnswer answer)
  show ?thesis
  proof (cases answer)
    case (Inl err)
    with ListAnswer step inv served show ?thesis
      by (auto simp: rf_list_def reflects_def split: if_splits)
  next
    case (Inr x)
    obtain items version where x: "x = (items, version)" by (cases x)
    obtain n where n: "version = rv n" "listed items (\<lambda>_. None) = contents h n"
      using served by (auto simp: ListAnswer Inr x)
    obtain f where "syncWith ix items i = (None, f)"
      using sync [of items] by (cases "syncWith ix items i") (metis option.exhaust)
    with ListAnswer Inr x step n show ?thesis
      by (auto simp: rf_list_def reflects_def split: if_splits)
  qed
next
  case (WatchAnswer version answer now)
  have inj: "rv a = rv b \<longleftrightarrow> a = b" for a b using ok by (auto simp: server_ok_def inj_def)
  from WatchAnswer step inv served show ?thesis
    by (cases answer) (auto simp: rf_watch_def reflects_def inj split: if_splits)
next
  case (WatchEvent event)
  with reflects_event [OF ok inv, of ix i event r' e c'] step served show ?thesis by simp
next
  case (WatchClosed now)
  with step inv served show ?thesis
    by (auto simp: rf_closed_def reflects_def split: rf_place.splits if_splits)
next
  case ResyncFailed
  with step inv served show ?thesis by (auto simp: reflects_def split: rf_place.splits)
next
  case StopClosed
  with step inv served show ?thesis by (auto simp: reflects_def)
qed

section \<open>The informer follows the server\<close>

text \<open>Objects have keys, so Replace does not fail.\<close>

lemma queueAction_ok: "KeyOf obj = Inr key \<Longrightarrow> fst (queueAction ty obj f) = None"
  by (simp add: queueAction_def Let_def)

lemma syncItems_ok: "\<exists>ks' f'. syncItems (map IObject obs) ks f = (Inr ks', f')"
proof (induction obs arbitrary: ks f)
  case (Cons ob obs)
  have "fst (queueAction DeltaSync (IObject ob) f) = None" by (rule queueAction_ok) simp
  with Cons show ?case by (cases "queueAction DeltaSync (IObject ob) f") simp
qed simp

lemma deleteMissing_ok: "fst (fst (deleteMissing ix s keep ks c f)) = None"
proof (induction ks arbitrary: c f)
  case (Cons k ks)
  have "queueAction DeltaDeleted (ITombstone k x) f \<noteq> (Some err, f')" for x err f'
    using queueAction_ok [of "ITombstone k x" k DeltaDeleted f] by auto
  with Cons show ?case by (auto simp: Let_def split: prod.splits option.splits)
qed simp

lemma syncWith_ok: "syncWith ix items i \<noteq> (Some err, f)"
proof -
  obtain ks f1 where "syncItems (map IObject items) [] (inf_fifo i) = (Inr ks, f1)"
    using syncItems_ok by blast
  with deleteMissing_ok [of ix "inf_store i" ks "ix_ListKeys ix (inf_store i)" 0 f1] show ?thesis
    by (auto simp: syncWith_def fifo_Replace_def split: prod.splits option.splits)
qed

text \<open>
  The notebook informer with its reflector, on an API server with history \<open>h\<close>: the informer's own
  steps, those of the reflector that tell it nothing, and those that do. Lists are safe, see
  \<open>Informer\<close>.
\<close>

inductive mirror ::
  "(nat \<Rightarrow> string) \<Rightarrow> history \<Rightarrow> threadSafeMap informer \<Rightarrow> view \<Rightarrow> reflector \<Rightarrow> nat \<Rightarrow> bool"
  for rv :: "nat \<Rightarrow> string" and h :: history where
  start: "mirror rv h newNotebookInformer (\<lambda>_. None) newReflector c"
| own: "mirror rv h i v r c \<Longrightarrow> e \<in> {Popped, Resynced} \<Longrightarrow> inf_step storeIndexer KNotebook e i = Returns i' \<Longrightarrow>
     mirror rv h i' v r c"
| quiet: "mirror rv h i v r c \<Longrightarrow> rf_step storeIndexer KNotebook i l r = Some (r', None) \<Longrightarrow> serves rv h c l c' \<Longrightarrow>
     mirror rv h i v r' c'"
| tells: "mirror rv h i v r c \<Longrightarrow> rf_step storeIndexer KNotebook i l r = Some (r', Some e) \<Longrightarrow> serves rv h c l c' \<Longrightarrow>
     notebook_event e i \<Longrightarrow> inf_step storeIndexer KNotebook e i = Returns i' \<Longrightarrow>
     mirror rv h i' (told KNotebook e v) r' c'"

lemma mirror_reflects:
  assumes "server_ok KNotebook rv h" "mirror rv h i v r c"
  shows "informer_reach i v \<and> reflects rv h v c r"
  using assms(2)
proof (induction rule: mirror.induct)
  case (own i v r c e i')
  moreover have "notebook_event e i" "told KNotebook e v = v" using own.hyps(2) by auto
  ultimately show ?case using informer_reach.step [of i v e i'] by simp
next
  case (quiet i v r c l r' c')
  with reflects_step [OF assms(1) _ quiet.hyps(2,3) syncWith_ok] show ?case by simp
next
  case (tells i v r c l r' e c' i')
  with reflects_step [OF assms(1) _ tells.hyps(2,3) syncWith_ok]
    informer_reach.step [OF _ tells.hyps(4,5)] show ?case by simp
qed (simp_all add: informer_reach.start reflects_new)


end
