(* ===== verification/Operator_Server.thy ===== *)
theory Operator_Server
  imports Operator_Resync Reflector
begin

text \<open>
  The operator against an API server: the machine of \<open>Operator_Loop\<close>, in which what the notebook
  informer is told comes from its reflector, and what the reflector hears from a server with the
  documented behaviour of \<open>Reflector\<close>. What holds of the view the informer was told then holds of
  what the server stores.
\<close>

text \<open>
  Three kinds of steps: of the operator, when the reflector tells the notebook informer nothing; of
  the reflector alone; and of both, when it does.
\<close>

inductive served ::
  "'k crypto \<Rightarrow> 'k Config \<Rightarrow> nat \<Rightarrow> int \<Rightarrow> (nat \<Rightarrow> string) \<Rightarrow> history \<Rightarrow>
     operator \<Rightarrow> view \<Rightarrow> string set \<Rightarrow> op_label list \<Rightarrow> reflector \<Rightarrow> nat \<Rightarrow> bool"
  for cr :: "'k crypto" and cfg :: "'k Config" and n :: nat and t :: int
    and rv :: "nat \<Rightarrow> string" and h :: history where
  start: "served cr cfg n t rv h (op_start n t) (\<lambda>_. None) UNIV [] newReflector c"
| own: "served cr cfg n t rv h s v M tr r c \<Longrightarrow> op_step cr cfg s l s' \<Longrightarrow> \<forall>e. l \<noteq> Told KNotebook e \<Longrightarrow>
     served cr cfg n t rv h s' (op_told l v) (op_missed s l M) (tr @ [l]) r c"
| quiet: "served cr cfg n t rv h s v M tr r c \<Longrightarrow>
     rf_step storeIndexer KNotebook (op_inf s KNotebook) l r = Some (r', None) \<Longrightarrow> serves rv h c l c' \<Longrightarrow>
     served cr cfg n t rv h s v M tr r' c'"
| tells: "served cr cfg n t rv h s v M tr r c \<Longrightarrow>
     rf_step storeIndexer KNotebook (op_inf s KNotebook) l r = Some (r', Some e) \<Longrightarrow> serves rv h c l c' \<Longrightarrow>
     op_step cr cfg s (Told KNotebook e) s' \<Longrightarrow>
     served cr cfg n t rv h s' (op_told (Told KNotebook e) v) (op_missed s (Told KNotebook e) M)
       (tr @ [Told KNotebook e]) r' c'"

lemma op_told_other: "\<forall>e. l \<noteq> Told KNotebook e \<Longrightarrow> op_told l v = v"
  by (cases l) (auto simp: op_told_def)

lemma served_reach:
  assumes "server_ok KNotebook rv h" "served cr cfg n t rv h s v M tr r c"
  shows "op_reach cr cfg n t s v M tr \<and> reflects rv h v c r"
  using assms(2)
proof (induction rule: served.induct)
  case (own s v M tr r c l s')
  with op_reach.step [OF _ own.hyps(2)] show ?case
    using op_told_other [OF own.hyps(3), of v] by metis
next
  case (quiet s v M tr r c l r' c')
  with reflects_step [OF assms(1) _ quiet.hyps(2,3) syncWith_ok] show ?case by simp
next
  case (tells s v M tr r c l r' e c' s')
  with reflects_step [OF assms(1) _ tells.hyps(2,3) syncWith_ok] op_reach.step [OF _ tells.hyps(4)]
  show ?case by (simp add: op_told_def)
qed (simp_all add: op_reach.start reflects_new)

lemma served_view:
  assumes "server_ok KNotebook rv h" "served cr cfg n t rv h s v M tr r c"
    and "rf_lastSyncResourceVersion r = rv m"
  shows "v = contents h m"
proof -
  have "rv a = rv b \<longleftrightarrow> a = b" "rv a \<noteq> []" for a b
    using assms(1) by (auto simp: server_ok_def inj_def) (metis rangeI)
  with served_reach [OF assms(1,2)] assms(3) show ?thesis by (auto simp: reflects_def)
qed

text \<open>A run in which the notebook informer is told only once, by the first list.\<close>

lemma served_once:
  assumes "op_reach cr cfg n t s v M (Told KNotebook (Listed obs) # tr)" "\<And>e. Told KNotebook e \<notin> set tr"
    and "listed obs (\<lambda>_. None) = contents h m"
  shows "\<exists>r c. served cr cfg n t rv h s v M (Told KNotebook (Listed obs) # tr) r c
     \<and> rf_lastSyncResourceVersion r = rv m"
  using assms(1,2)
proof (induction tr arbitrary: s v M rule: rev_induct)
  case Nil
  then obtain s0 v0 M0 where run: "op_reach cr cfg n t s0 v0 M0 []"
    and step: "op_step cr cfg s0 (Told KNotebook (Listed obs)) s"
    and v: "v = op_told (Told KNotebook (Listed obs)) v0" "M = op_missed s0 (Told KNotebook (Listed obs)) M0"
    by (cases rule: op_reach.cases) auto
  from run have start: "s0 = op_start n t" "v0 = (\<lambda>_. None)" "M0 = UNIV"
    by (auto elim: op_reach.cases)
  let ?r = "newReflector\<lparr>rf_place := AtWatch, rf_resourceVersion := rv m, rf_lastSyncResourceVersion := rv m\<rparr>"
  have "rf_step storeIndexer KNotebook (op_inf s0 KNotebook) (ListAnswer (Inr (obs, rv m))) newReflector
      = Some (?r, Some (Listed obs))"
    using syncWith_ok [of storeIndexer obs "op_inf s0 KNotebook"]
    by (auto simp: rf_list_def newReflector_def split: prod.splits option.splits)
  moreover have "serves rv h 0 (ListAnswer (Inr (obs, rv m))) 0" using assms(3) by auto
  ultimately have "served cr cfg n t rv h s v M ([] @ [Told KNotebook (Listed obs)]) ?r 0"
    using served.tells [OF served.start _ _ step [unfolded start]] unfolding v start by blast
  then show ?case by auto
next
  case (snoc l tr)
  then have "op_reach cr cfg n t s v M ((Told KNotebook (Listed obs) # tr) @ [l])" by simp
  then obtain s0 v0 M0 where run: "op_reach cr cfg n t s0 v0 M0 (Told KNotebook (Listed obs) # tr)"
    and step: "op_step cr cfg s0 l s" and v: "v = op_told l v0" "M = op_missed s0 l M0"
    by (cases rule: op_reach.cases) auto
  from snoc.IH [OF run] snoc.prems(2) obtain r c where
    "served cr cfg n t rv h s0 v0 M0 (Told KNotebook (Listed obs) # tr) r c" "rf_lastSyncResourceVersion r = rv m"
    by auto
  with served.own [OF this(1) step] snoc.prems(2) v show ?case by fastforce
qed

section \<open>Properties\<close>


end
