(* ===== verification/Process_Loop.thy ===== *)
theory Process_Loop
  imports Shared_Informer Generic_Lister
begin

text \<open>
  How an informer's queue is drained (the vendored client-go, tools/cache: processLoop of
  controller.go, Pop, AddIfNotPresent and Close of delta_fifo.go), for any function that processes
  what is popped. A stop closes the queue, and a closed queue is drained before the loop ends.
\<close>

section \<open>The queue that can be closed\<close>

record closableFIFO =
  cf_fifo :: DeltaFIFO
  cf_closed :: bool

definition fifo_Close :: "closableFIFO \<Rightarrow> closableFIFO" where
  "fifo_Close f = f\<lparr>cf_closed := True\<rparr>"

definition addIfNotPresent :: "string \<Rightarrow> Delta list \<Rightarrow> DeltaFIFO \<Rightarrow> DeltaFIFO" where
  "addIfNotPresent key deltas f0 =
     (let f = f0\<lparr>df_populated := True\<rparr>
      in if df_items f key \<noteq> None then f
         else f\<lparr>df_queue := df_queue f @ [key], df_items := (df_items f)(key := Some deltas)\<rparr>)"

definition Newest :: "Delta list \<Rightarrow> Delta option" where
  "Newest d = (let n = length d in if n > 0 then Some (d ! (n - 1)) else None)"

definition fifo_AddIfNotPresent :: "Delta list \<Rightarrow> DeltaFIFO \<Rightarrow> (go_error option \<times> DeltaFIFO) outcome" where
  "fifo_AddIfNotPresent deltas f =
     (case Newest deltas of
        None \<Rightarrow> Panics ''nil pointer dereference''
      | Some d \<Rightarrow>
          (case KeyOf (d_Object d) of
             Inl err \<Rightarrow> Returns (Some (KeyError err), f)
           | Inr key \<Rightarrow> Returns (None, addIfNotPresent key deltas f)))"

section \<open>Pop\<close>

text \<open>
  What the function that Pop calls returns: ErrRequeue has the item queued again, and carries the
  error Pop then returns.
\<close>

datatype processed =
    ProcessOk
  | ProcessErr go_error
  | ErrRequeue "go_error option"

type_synonym 's PopProcessFunc = "Delta list \<Rightarrow> 's \<Rightarrow> (processed \<times> 's) outcome"

datatype pop_result =
    PopWaits
  | PopClosed
  | PopReturns "Delta list" "go_error option"

text \<open>The loop of Pop over the queue, past the keys without deltas, to the first with them.\<close>

function nextItem :: "DeltaFIFO \<Rightarrow> (string \<times> Delta list) option \<times> DeltaFIFO" where
  "nextItem f =
     (case df_queue f of
        [] \<Rightarrow> (None, f)
      | key # queue \<Rightarrow>
          (case df_items f key of
             None \<Rightarrow> nextItem (popKey f)
           | Some item \<Rightarrow> (Some (key, item), (popKey f)\<lparr>df_items := (df_items f)(key := None)\<rparr>)))"
  by auto
termination by (relation "measure (\<lambda>f. length (df_queue f))") (auto simp: popKey_def)

declare nextItem.simps [simp del]

definition fifo_PopWith ::
  "'s PopProcessFunc \<Rightarrow> closableFIFO \<Rightarrow> 's \<Rightarrow> (pop_result \<times> closableFIFO \<times> 's) outcome" where
  "fifo_PopWith process q s =
     (case nextItem (cf_fifo q) of
        (None, f) \<Rightarrow> Returns (if cf_closed q then PopClosed else PopWaits, q\<lparr>cf_fifo := f\<rparr>, s)
      | (Some (key, item), f) \<Rightarrow>
          obind (process item s) (\<lambda>(err, s').
            case err of
              ErrRequeue e \<Rightarrow> Returns (PopReturns item e, q\<lparr>cf_fifo := addIfNotPresent key item f\<rparr>, s')
            | ProcessErr e \<Rightarrow> Returns (PopReturns item (Some e), q\<lparr>cf_fifo := f\<rparr>, s')
            | ProcessOk \<Rightarrow> Returns (PopReturns item None, q\<lparr>cf_fifo := f\<rparr>, s')))"

section \<open>The loop\<close>

datatype loop_result = LoopEnds | LoopWaits | LoopGoesOn

definition processTurn ::
  "bool \<Rightarrow> 's PopProcessFunc \<Rightarrow> closableFIFO \<Rightarrow> 's \<Rightarrow> (loop_result \<times> closableFIFO \<times> 's) outcome" where
  "processTurn RetryOnError process q s =
     obind (fifo_PopWith process q s) (\<lambda>(r, q', s').
       case r of
         PopWaits \<Rightarrow> Returns (LoopWaits, q', s')
       | PopClosed \<Rightarrow> Returns (LoopEnds, q', s')
       | PopReturns obj err \<Rightarrow>
           if err \<noteq> None \<and> RetryOnError
           then obind (fifo_AddIfNotPresent obj (cf_fifo q')) (\<lambda>(_, f).
                  Returns (LoopGoesOn, q'\<lparr>cf_fifo := f\<rparr>, s'))
           else Returns (LoopGoesOn, q', s'))"

text \<open>The turns, while nobody else uses the queue, until the loop ends or waits.\<close>

partial_function (option) processLoop ::
  "bool \<Rightarrow> 's PopProcessFunc \<Rightarrow> closableFIFO \<Rightarrow> 's \<Rightarrow> (loop_result \<times> closableFIFO \<times> 's) outcome option" where
  "processLoop RetryOnError process q s =
     (case processTurn RetryOnError process q s of
        Panics m \<Rightarrow> Some (Panics m)
      | Returns res \<Rightarrow>
          if fst res = LoopGoesOn then processLoop RetryOnError process (fst (snd res)) (snd (snd res))
          else Some (Returns res))"

text \<open>What an informer processes with: HandleDeltas, on its store and what it has sent.\<close>

definition processDeltas ::
  "'s Indexer \<Rightarrow> ('s \<times> (notification \<times> bool) list) PopProcessFunc" where
  "processDeltas ix item s =
     obind (HandleDeltas ix item (fst s)) (\<lambda>(err, st, notes).
       Returns (case err of None \<Rightarrow> ProcessOk | Some e \<Rightarrow> ProcessErr e, (st, snd s @ notes)))"

text \<open>Indexers reach the store through the informer only before it runs.\<close>

definition informer_AddIndexers ::
  "(string \<times> IndexFunc) list \<Rightarrow> sharedIndexInformer \<Rightarrow> threadSafeMap \<Rightarrow> go_error option \<times> threadSafeMap" where
  "informer_AddIndexers indexers s store =
     (if si_started s then (Some (PlainError ''informer has already started''), store)
      else tsm_AddIndexers indexers store)"

section \<open>Nothing newer is overwritten, and nothing queued is lost\<close>

text \<open>Pop of the informer's own machine takes the same item.\<close>

lemma nextItem_Pop: "fifo_Pop f = (case nextItem f of (None, f') \<Rightarrow> None | (Some (key, item), f') \<Rightarrow> Some (item, f'))"
  by (induction f rule: nextItem.induct)
    (subst fifo_Pop.simps, subst nextItem.simps, auto split: list.split option.split)

text \<open>What is queued again never hides a later change.\<close>

lemma requeue_keeps: "df_items f key = Some ds \<Longrightarrow> df_items (addIfNotPresent key' item f) key = Some ds"
  by (auto simp: addIfNotPresent_def Let_def)

lemma nextItem_queued:
  assumes "df_queue f = key # queue" "df_items f key = Some item"
  shows "nextItem f = (Some (key, item), (popKey f)\<lparr>df_items := (df_items f)(key := None)\<rparr>)"
  using assms by (subst nextItem.simps) simp

text \<open>
  Once the queue is closed and nobody adds to it, an informer's loop hands every queued item to its
  process function, in the order of the queue, and then ends; an open queue it drains in the same
  way before it waits. Errors the function returns do not stop it.
\<close>

theorem loop_drains:
  assumes "\<And>item s. \<exists>r. process item s = Returns (r, h item s) \<and> (\<forall>e. r \<noteq> ErrRequeue e)"
    and "distinct (df_queue (cf_fifo q))" "set (df_queue (cf_fifo q)) \<subseteq> dom (df_items (cf_fifo q))"
  shows "\<exists>q'. processLoop False process q s =
      Some (Returns (if cf_closed q then LoopEnds else LoopWaits, q',
        fold h (map (\<lambda>key. the (df_items (cf_fifo q) key)) (df_queue (cf_fifo q))) s))
    \<and> df_queue (cf_fifo q') = [] \<and> cf_closed q' = cf_closed q"
  using assms(2,3)
proof (induction "df_queue (cf_fifo q)" arbitrary: q s)
  case Nil
  then show ?case
    by (subst processLoop.simps) (simp add: processTurn_def fifo_PopWith_def nextItem.simps split: pop_result.split)
next
  case (Cons key queue)
  let ?f = "cf_fifo q"
  have "key \<in> set (df_queue ?f)" by (simp flip: Cons.hyps(2))
  with Cons.prems(2) obtain item where item: "df_items ?f key = Some item" by blast
  let ?q = "q\<lparr>cf_fifo := (popKey ?f)\<lparr>df_items := (df_items ?f)(key := None)\<rparr>\<rparr>"
  obtain r where r: "process item s = Returns (r, h item s)" "\<forall>e. r \<noteq> ErrRequeue e"
    using assms(1) by blast
  have "processTurn False process q s = Returns (LoopGoesOn, ?q, h item s)"
    using r(2)
    by (cases r) (simp_all add: processTurn_def fifo_PopWith_def r(1)
        nextItem_queued [OF Cons.hyps(2) [symmetric] item])
  then have step: "processLoop False process q s = processLoop False process ?q (h item s)"
    by (subst processLoop.simps) simp
  have q: "df_queue (cf_fifo ?q) = queue" using Cons.hyps(2) by (simp add: popKey_def flip: Cons.hyps(2))
  have "key \<notin> set queue" using Cons.prems(1) by (simp flip: Cons.hyps(2))
  then have same: "map (\<lambda>i. the (df_items (cf_fifo ?q) i)) queue = map (\<lambda>i. the (df_items ?f i)) queue" by auto
  have "fold h (map (\<lambda>i. the (df_items ?f i)) (df_queue ?f)) s
      = fold h (map (\<lambda>i. the (df_items (cf_fifo ?q) i)) queue) (h item s)"
    by (simp only: same list.map fold_Cons o_apply item option.sel flip: Cons.hyps(2))
  moreover have "distinct queue" "set queue \<subseteq> dom (df_items (cf_fifo ?q))"
    using Cons.prems \<open>key \<notin> set queue\<close> by (auto simp flip: Cons.hyps(2))
  moreover have "cf_closed ?q = cf_closed q" by simp
  ultimately show ?case
    using Cons.hyps(1) [of ?q "h item s", unfolded q] step by (simp only: simp_thms)
qed

end
