(* ===== verification/List_Options.thy ===== *)
theory List_Options
  imports Informer_Factory Reflector
begin

text \<open>
  The list options of the notebook client as query parameters (ListOptions of the vendored
  apimachinery, and its conversion/queryparams), and with them the two requests the reflector of a
  notebook informer makes: ListAndWatch hands its options to the informer's ListFunc and WatchFunc.
\<close>

section \<open>Query parameters\<close>

text \<open>
  A field of a struct as reflection sees it: its json tag, whether it has omitempty, and its value,
  a nil pointer being \<^const>\<open>None\<close>. The fields here are strings, booleans and 64 bit integers.
\<close>

datatype fieldValue =
    StringField string
  | BoolField bool
  | IntField int

record structField =
  sf_tag :: string
  sf_omitempty :: bool
  sf_pointer :: bool
  sf_value :: "fieldValue option"

type_synonym params = "(string \<times> string) list"

fun zeroValue :: "fieldValue \<Rightarrow> bool" where
  "zeroValue (StringField s) \<longleftrightarrow> s = []"
| "zeroValue (BoolField b) \<longleftrightarrow> \<not> b"
| "zeroValue (IntField i) \<longleftrightarrow> i = 0"

fun formatValue :: "fieldValue \<Rightarrow> string" where
  "formatValue (StringField s) = s"
| "formatValue (BoolField b) = (if b then ''true'' else ''false'')"
| "formatValue (IntField i) = Itoa i"

definition addParam :: "string \<Rightarrow> bool \<Rightarrow> fieldValue option \<Rightarrow> params \<Rightarrow> params" where
  "addParam tag omitempty val ps =
     (case val of
        None \<Rightarrow> if omitempty then ps else ps @ [(tag, [])]
      | Some v \<Rightarrow>
          if omitempty \<and> zeroValue v then ps
          else ps @ [(tag, if formatValue v = ''<nil>'' then [] else formatValue v)])"

text \<open>A pointer that is not nil is always sent; a field without a tag never is.\<close>

primrec convertStruct :: "structField list \<Rightarrow> params \<Rightarrow> params" where
  "convertStruct [] ps = ps"
| "convertStruct (f # fs) ps =
     (if length (sf_tag f) = 0 then convertStruct fs ps
      else let omitempty = (if sf_pointer f \<and> sf_value f \<noteq> None then False else sf_omitempty f)
           in convertStruct fs (addParam (sf_tag f) omitempty (sf_value f) ps))"

section \<open>List options\<close>

record ListOptions =
  lo_LabelSelector :: string
  lo_FieldSelector :: string
  lo_IncludeUninitialized :: bool
  lo_Watch :: bool
  lo_ResourceVersion :: string
  lo_TimeoutSeconds :: "int option"
  lo_Limit :: int
  lo_Continue :: string

definition emptyListOptions :: ListOptions where
  "emptyListOptions = \<lparr>lo_LabelSelector = [], lo_FieldSelector = [], lo_IncludeUninitialized = False,
     lo_Watch = False, lo_ResourceVersion = [], lo_TimeoutSeconds = None, lo_Limit = 0, lo_Continue = []\<rparr>"

definition valueField :: "string \<Rightarrow> fieldValue \<Rightarrow> structField" where
  "valueField tag v = \<lparr>sf_tag = tag, sf_omitempty = True, sf_pointer = False, sf_value = Some v\<rparr>"

definition listOptionFields :: "ListOptions \<Rightarrow> structField list" where
  "listOptionFields opts =
     [valueField ''labelSelector'' (StringField (lo_LabelSelector opts)),
      valueField ''fieldSelector'' (StringField (lo_FieldSelector opts)),
      valueField ''includeUninitialized'' (BoolField (lo_IncludeUninitialized opts)),
      valueField ''watch'' (BoolField (lo_Watch opts)),
      valueField ''resourceVersion'' (StringField (lo_ResourceVersion opts)),
      \<lparr>sf_tag = ''timeoutSeconds'', sf_omitempty = True, sf_pointer = True,
       sf_value = map_option IntField (lo_TimeoutSeconds opts)\<rparr>,
      valueField ''limit'' (IntField (lo_Limit opts)),
      valueField ''continue'' (StringField (lo_Continue opts))]"

definition encodeListOptions :: "ListOptions \<Rightarrow> params" where
  "encodeListOptions opts = convertStruct (listOptionFields opts) []"

definition setWatch :: "ListOptions \<Rightarrow> ListOptions" where
  "setWatch opts = opts\<lparr>lo_Watch := True\<rparr>"

text \<open>The parameters of a request.\<close>

definition queryOf :: "(ListOptions, 'b) Request \<Rightarrow> params" where
  "queryOf r = (case rq_params r of None \<Rightarrow> [] | Some opts \<Rightarrow> encodeListOptions opts)"

section \<open>What the reflector asks for\<close>

definition reflectorListOptions :: ListOptions where
  "reflectorListOptions = emptyListOptions\<lparr>lo_ResourceVersion := ''0''\<rparr>"

definition reflectorWatchOptions :: "reflector \<Rightarrow> int \<Rightarrow> ListOptions" where
  "reflectorWatchOptions r timeoutSeconds =
     emptyListOptions\<lparr>lo_ResourceVersion := rf_resourceVersion r, lo_TimeoutSeconds := Some timeoutSeconds\<rparr>"

section \<open>Nothing is lost on the way\<close>

lemma digit_inject: "a < 10 \<Longrightarrow> b < 10 \<Longrightarrow> digit a = digit b \<longleftrightarrow> a = b"
proof -
  assume "a < 10" "b < 10"
  then have "of_char (digit a) = 48 + a" "of_char (digit b) = 48 + b"
    by (simp_all add: digit_def of_char_of)
  then show ?thesis by (metis add_left_cancel)
qed

lemma utoa_digits: "c \<in> set (utoa n) \<Longrightarrow> (48 :: nat) \<le> of_char c \<and> of_char c < (58 :: nat)"
proof (induction n rule: less_induct)
  case (less n)
  have digits: "of_char (digit d) = 48 + d" if "d < 10" for d
    using that by (simp add: digit_def of_char_of)
  show ?case
  proof (cases "n < 10")
    case True
    with less.prems utoa.simps [of n] digits [of n] show ?thesis by simp
  next
    case False
    with less.prems utoa.simps [of n] have "c \<in> set (utoa (n div 10)) \<or> c = digit (n mod 10)" by auto
    with less.IH [of "n div 10"] False digits [of "n mod 10"] show ?thesis by auto
  qed
qed

lemma utoa_inject: "utoa a = utoa b \<Longrightarrow> a = b"
proof (induction a arbitrary: b rule: less_induct)
  case (less a)
  show ?case
  proof (cases "a < 10")
    case True
    then have "length (utoa b) = 1" using less.prems utoa.simps [of a] by (metis length_Cons list.size(3) One_nat_def)
    then have "b < 10" using utoa.simps [of b] utoa_ne [of "b div 10"] by (simp split: if_splits)
    with True less.prems utoa.simps [of a] utoa.simps [of b] show ?thesis by (simp add: digit_inject)
  next
    case False
    then have "b \<ge> 10"
      using less.prems utoa.simps [of a] utoa.simps [of b] by (cases "b < 10") auto
    with False less.prems utoa.simps [of a] utoa.simps [of b]
    have "utoa (a div 10) = utoa (b div 10)" "digit (a mod 10) = digit (b mod 10)" by simp_all
    with less.IH [of "a div 10" "b div 10"] False have "a div 10 = b div 10" "a mod 10 = b mod 10"
      by (simp_all add: digit_inject)
    then show ?thesis by (metis div_mult_mod_eq)
  qed
qed

lemma utoa_Cons: "utoa n = c # s \<Longrightarrow> (48 :: nat) \<le> of_char c \<and> of_char c < (58 :: nat)"
  using utoa_digits [of c n] by simp

lemma Itoa_inject: "Itoa i = Itoa j \<longleftrightarrow> i = j"
proof
  assume eq: "Itoa i = Itoa j"
  have minus: "utoa n \<noteq> ''-'' @ s" "''-'' @ s \<noteq> utoa n" for n s
    using utoa_Cons [of n "CHR ''-''" s] by auto
  show "i = j"
  proof (cases "i < 0 \<longleftrightarrow> j < 0")
    case True
    with eq utoa_inject [of "nat (- i)" "nat (- j)"] utoa_inject [of "nat i" "nat j"] show ?thesis
      by (auto simp: Itoa_def split: if_splits)
  next
    case False
    with eq minus show ?thesis by (cases "i < 0") (simp_all add: Itoa_def)
  qed
qed simp

lemma Itoa_not_nil: "Itoa i \<noteq> ''<nil>''"
  using utoa_Cons [of "nat i" "CHR ''<''" "''nil>''"] by (auto simp: Itoa_def)

text \<open>What a value is sent as, if it is.\<close>

definition sent :: "bool \<Rightarrow> fieldValue \<Rightarrow> string option" where
  "sent always v = (if \<not> always \<and> zeroValue v then None
     else Some (if formatValue v = ''<nil>'' then [] else formatValue v))"

definition opt :: "string \<Rightarrow> string option \<Rightarrow> params" where
  "opt tag x = (case x of None \<Rightarrow> [] | Some s \<Rightarrow> [(tag, s)])"

lemma map_of_opt: "map_of (opt tag x @ ps) k = (if k = tag \<and> x \<noteq> None then x else map_of ps k)"
  by (auto simp: opt_def split: option.split)

lemma convertStruct_valueField:
  "tag \<noteq> [] \<Longrightarrow> convertStruct (valueField tag v # fs) ps = convertStruct fs (ps @ opt tag (sent False v))"
  by (simp add: valueField_def addParam_def sent_def opt_def)

lemma convertStruct_pointerField:
  "tag \<noteq> [] \<Longrightarrow> convertStruct (\<lparr>sf_tag = tag, sf_omitempty = True, sf_pointer = True, sf_value = map_option f x\<rparr> # fs) ps
     = convertStruct fs (ps @ opt tag (case x of None \<Rightarrow> None | Some t \<Rightarrow> sent True (f t)))"
  by (cases x) (simp_all add: addParam_def sent_def opt_def)

lemma encodeListOptions_eq:
  "encodeListOptions opts =
     opt ''labelSelector'' (sent False (StringField (lo_LabelSelector opts)))
     @ opt ''fieldSelector'' (sent False (StringField (lo_FieldSelector opts)))
     @ opt ''includeUninitialized'' (sent False (BoolField (lo_IncludeUninitialized opts)))
     @ opt ''watch'' (sent False (BoolField (lo_Watch opts)))
     @ opt ''resourceVersion'' (sent False (StringField (lo_ResourceVersion opts)))
     @ opt ''timeoutSeconds'' (case lo_TimeoutSeconds opts of None \<Rightarrow> None | Some t \<Rightarrow> sent True (IntField t))
     @ opt ''limit'' (sent False (IntField (lo_Limit opts)))
     @ opt ''continue'' (sent False (StringField (lo_Continue opts))) @ []"
  unfolding encodeListOptions_def listOptionFields_def
  by (simp add: convertStruct_valueField convertStruct_pointerField del: convertStruct.simps(2))

lemma encode_at:
  "map_of (encodeListOptions opts) ''labelSelector'' = sent False (StringField (lo_LabelSelector opts))"
  "map_of (encodeListOptions opts) ''fieldSelector'' = sent False (StringField (lo_FieldSelector opts))"
  "map_of (encodeListOptions opts) ''includeUninitialized'' = sent False (BoolField (lo_IncludeUninitialized opts))"
  "map_of (encodeListOptions opts) ''watch'' = sent False (BoolField (lo_Watch opts))"
  "map_of (encodeListOptions opts) ''resourceVersion'' = sent False (StringField (lo_ResourceVersion opts))"
  "map_of (encodeListOptions opts) ''timeoutSeconds'' =
     (case lo_TimeoutSeconds opts of None \<Rightarrow> None | Some t \<Rightarrow> sent True (IntField t))"
  "map_of (encodeListOptions opts) ''limit'' = sent False (IntField (lo_Limit opts))"
  "map_of (encodeListOptions opts) ''continue'' = sent False (StringField (lo_Continue opts))"
  unfolding encodeListOptions_eq map_of_opt by simp_all

lemma sent_inject: "sent False (StringField a) = sent False (StringField b) \<Longrightarrow> a = b"
  "sent False (BoolField c) = sent False (BoolField d) \<Longrightarrow> c = d"
  "sent False (IntField i) = sent False (IntField j) \<Longrightarrow> i = j"
  "sent True (IntField i) = sent True (IntField j) \<Longrightarrow> i = j"
  by (auto simp: sent_def Itoa_inject Itoa_not_nil split: if_splits)

text \<open>No two options have the same parameters: what a client asks for, the server can tell.\<close>

theorem list_options_encoded:
  assumes "encodeListOptions a = encodeListOptions b"
  shows "a = b"
proof -
  note same = encode_at [of a, unfolded assms encode_at]
  have "lo_TimeoutSeconds a = lo_TimeoutSeconds b"
  proof (cases "lo_TimeoutSeconds a"; cases "lo_TimeoutSeconds b")
    fix t u assume "lo_TimeoutSeconds a = Some t" "lo_TimeoutSeconds b = Some u"
    with same(6) sent_inject(4) [of u t] show ?thesis by simp
  qed (use same(6) in \<open>simp_all add: sent_def\<close>)
  moreover note sent_inject(1) [OF same(1)] sent_inject(1) [OF same(2)] sent_inject(2) [OF same(3)]
    sent_inject(2) [OF same(4)] sent_inject(1) [OF same(5)] sent_inject(3) [OF same(7)]
    sent_inject(1) [OF same(8)]
  ultimately show ?thesis by (cases a; cases b) simp
qed

text \<open>C39:
  The reflector's two requests, from an informer the factory makes: a list of the factory's
  namespace from any version the server has, and a watch of it from the reflector's version.
\<close>

theorem reflector_requests:
  fixes st :: "ListOptions factory_state" and d t :: int
  assumes "rf_resourceVersion r \<noteq> []" "rf_resourceVersion r \<noteq> ''<nil>''"
    and "segment (sif_namespace (fs_factory st))" "sif_tweakListOptions (fs_factory st) = None"
  defines "i \<equiv> defaultInformer (Jupyter_V1_Notebooks st) jupyterRESTClient d"
  defines "l \<equiv> (ListFunc i reflectorListOptions :: (ListOptions, 'b) Request)"
    and "w \<equiv> (WatchFunc setWatch i (reflectorWatchOptions r t) :: (ListOptions, 'b) Request)"
    and "url \<equiv> [''apis'', ''jupyter.squat.ai'', ''v1'']
      @ (if sif_namespace (fs_factory st) = [] then [] else [''namespaces'', sif_namespace (fs_factory st)])
      @ [''notebooks'']"
  shows "rq_err l = None \<and> rq_URL l = url \<and> queryOf l = [(''resourceVersion'', ''0'')]
     \<and> rq_err w = None \<and> rq_URL w = url
     \<and> queryOf w = [(''watch'', ''true''), (''resourceVersion'', rf_resourceVersion r), (''timeoutSeconds'', Itoa t)]"
proof -
  let ?ns = "sif_namespace (fs_factory st)"
  have i: "spec_client i = jupyterRESTClient" "spec_namespace i = ?ns" "spec_tweak i = None"
    using assms(4) by (simp_all add: i_def defaultInformer_def NewFilteredNotebookInformer_def Jupyter_V1_Notebooks_eq)
  have list: "encodeListOptions reflectorListOptions = [(''resourceVersion'', ''0'')]"
    by (simp add: encodeListOptions_eq reflectorListOptions_def emptyListOptions_def sent_def opt_def)
  have watch: "encodeListOptions (setWatch (reflectorWatchOptions r t))
      = [(''watch'', ''true''), (''resourceVersion'', rf_resourceVersion r), (''timeoutSeconds'', Itoa t)]"
    using assms(1,2) Itoa_not_nil [of t]
    by (simp add: encodeListOptions_eq setWatch_def reflectorWatchOptions_def emptyListOptions_def sent_def opt_def)
  let ?req = "\<lambda>opts. (notebooks_List (newNotebooks jupyterRESTClient ?ns) opts :: (ListOptions, 'b) Request)"
  have url: "rq_err (?req opts) = None" "rq_URL (?req opts) = url" "queryOf (?req opts) = encodeListOptions opts" for opts
    using assms(3)
    by (simp_all add: request_defs rq_URL_def url_def queryOf_def SchemeGroupVersion_def GroupName_def Let_def)
  have "w = ?req (setWatch (reflectorWatchOptions r t))"
    unfolding w_def WatchFunc_def i tweaked_def notebooks_Watch_def notebooks_List_def by simp
  moreover have "l = ?req reflectorListOptions"
    unfolding l_def ListFunc_def i tweaked_def by simp
  ultimately show ?thesis using url list watch by simp
qed

end
