(* ===== verification/Fake_Watch.thy ===== *)
theory Fake_Watch
  imports Fake_Client
begin

text \<open>
  What a watch of the fake clientset hears: replayed over the notebooks that were there when it
  began, its events give the notebooks that are there.
\<close>

section \<open>Replaying events\<close>

type_synonym fake_view = "string \<times> string \<Rightarrow> object option"

definition replay :: "watch_event \<Rightarrow> fake_view \<Rightarrow> fake_view" where
  "replay e v =
     (case we_Object e of
        WatchStatus reason msg \<Rightarrow> v
      | WatchObject obj \<Rightarrow> v(objectKey obj := (if we_Type e = WatchDeletedType then None else Some obj)))"

text \<open>The objects of a list by their keys.\<close>

definition byKey :: "object list \<Rightarrow> fake_view" where
  "byKey objs k = map_of (map (\<lambda>obj. (objectKey obj, obj)) objs) k"

text \<open>The objects of a namespace, or all of them.\<close>

definition objectsIn :: "string \<Rightarrow> object list \<Rightarrow> fake_view" where
  "objectsIn ns objs k =
     (if ns = [] \<or> fst k = ns then byKey objs k else None)"

lemma replay_many: "fold replay (replicate n e) v = (if n = 0 then v else replay e v)"
proof (induction n arbitrary: v)
  case (Suc n)
  have "replay e (replay e v) = replay e v" by (auto simp: replay_def split: watch_object.split)
  with Suc [of "replay e v"] show ?case by simp
qed simp

lemma byKey_Nil [simp]: "byKey [] k = None"
  by (simp add: byKey_def)

lemma byKey_Cons [simp]: "byKey (obj # objs) k = (if k = objectKey obj then Some obj else byKey objs k)"
  by (simp add: byKey_def)

lemma byKey_absent: "k \<notin> objectKey ` set objs \<Longrightarrow> byKey objs k = None"
  by (induction objs) auto

lemma byKey_append: "byKey (objs @ [obj]) k =
    (if k = objectKey obj \<and> k \<notin> objectKey ` set objs then Some obj else byKey objs k)"
  by (induction objs) auto

lemma byKey_replaceFirst:
  "objectKey obj \<in> objectKey ` set objs \<Longrightarrow>
     byKey (replaceFirst obj objs) k = (if k = objectKey obj then Some obj else byKey objs k)"
proof (induction objs)
  case (Cons x objs)
  show ?case
  proof (cases "objectKey x = objectKey obj")
    case True
    then show ?thesis by (simp add: sameObject_key)
  next
    case False
    with Cons.prems have "objectKey obj \<in> objectKey ` set objs" by auto
    from Cons.IH [OF this] False show ?thesis by (cases "k = objectKey obj") (simp_all add: sameObject_key)
  qed
qed simp

lemma byKey_removeFirst:
  "removeFirst ns name objs = Some (obj, objs') \<Longrightarrow> distinct (map objectKey objs) \<Longrightarrow>
     byKey objs' k = (if k = objectKey obj then None else byKey objs k)"
proof (induction objs arbitrary: objs')
  case (Cons x objs)
  show ?case
  proof (cases "om_Namespace (meta_of x) = ns \<and> om_Name (meta_of x) = name")
    case True
    with Cons.prems have "obj = x" "objs' = objs" "objectKey x \<notin> objectKey ` set objs" by auto
    then show ?thesis using byKey_absent by simp
  next
    case False
    with Cons.prems obtain objs1 where r: "removeFirst ns name objs = Some (obj, objs1)" "objs' = x # objs1"
      by auto
    moreover have "objectKey x \<noteq> objectKey obj"
      using removeFirst_key [OF r(1)] False by (auto simp: objectKey_def)
    ultimately show ?thesis using Cons.IH [OF r(1)] Cons.prems(2) by (cases "k = objectKey obj") simp_all
  qed
qed simp

section \<open>One change\<close>

text \<open>The watcher at \<open>p\<close> watches the notebooks of a namespace, and nothing else.\<close>

definition watching :: "string \<Rightarrow> nat \<Rightarrow> tracker \<Rightarrow> bool" where
  "watching ns p t \<longleftrightarrow> p < length (tr_made t) \<and> \<not> fw_Stopped (tr_made t ! p)
     \<and> (\<forall>gvr ns'. p \<in> set (tr_watchers t gvr ns') \<longleftrightarrow> gvr = notebooksResource \<and> ns' = ns)"

abbreviation heard :: "nat \<Rightarrow> tracker \<Rightarrow> watch_event list" where
  "heard p t \<equiv> fw_result (tr_made t ! p)"

definition mirrors :: "string \<Rightarrow> nat \<Rightarrow> fake_view \<Rightarrow> tracker \<Rightarrow> bool" where
  "mirrors ns p v t \<longleftrightarrow> tracker_inv t \<and> watching ns p t
     \<and> fold replay (heard p t) v = objectsIn ns (tr_objects t notebooksResource)"

lemma mirrors_Watch:
  assumes "FakeNotebooks_Watch ns t = (Inr p, t')" "tracker_inv t"
  shows "mirrors ns p (objectsIn ns (tr_objects t notebooksResource)) t'"
proof -
  have p: "p = length (tr_made t)" and t': "tr_made t' = tr_made t @ [NewRaceFreeFake]" "tr_objects t' = tr_objects t"
    "tr_watchers t' = (tr_watchers t)(notebooksResource := (tr_watchers t notebooksResource)(ns :=
       tr_watchers t notebooksResource ns @ [p]))"
    using assms(1) by (auto simp: FakeNotebooks_Watch_def InvokesWatch_def watchReaction_def tracker_Watch_def Let_def)
  have "p \<notin> set (tr_watchers t gvr ns')" for gvr ns' using assms(2) p by (auto simp: tracker_inv_def)
  with assms(2) t' p show ?thesis
    by (auto simp: mirrors_def watching_def tracker_inv_def NewRaceFreeFake_def less_Suc_eq)
qed

text \<open>A change that the watch hears of exactly when it is about an object it watches.\<close>

lemma mirrors_changed:
  assumes "mirrors ns p v t" "changed ty obj notebooksResource objs t t'" "tracker_inv t'"
    and "\<And>k. byKey objs k = (if k = objectKey obj
      then (if ty = WatchDeletedType then None else Some obj) else byKey (tr_objects t notebooksResource) k)"
  shows "mirrors ns p v t'"
proof -
  let ?e = "\<lparr>we_Type = ty, we_Object = WatchObject obj\<rparr>"
  let ?n = "count_list (getWatches notebooksResource (om_Namespace (meta_of obj)) t) p"
  have w: "watching ns p t" and v: "fold replay (heard p t) v = objectsIn ns (tr_objects t notebooksResource)"
    using assms(1) by (simp_all add: mirrors_def)
  have p: "p < length (tr_made t)" "\<not> fw_Stopped (tr_made t ! p)" using w by (simp_all add: watching_def)
  have "?n \<noteq> 0 \<longleftrightarrow> ns = [] \<or> om_Namespace (meta_of obj) = ns"
    using w by (auto simp: watching_def getWatches_def count_list_0_iff)
  moreover have "heard p t' = heard p t @ replicate ?n ?e" using assms(2) p by (simp add: changed_def)
  ultimately have "fold replay (heard p t') v
      = (if ns = [] \<or> om_Namespace (meta_of obj) = ns then replay ?e (objectsIn ns (tr_objects t notebooksResource))
         else objectsIn ns (tr_objects t notebooksResource))"
    using v by (cases "?n = 0") (simp_all only: fold_append o_apply replay_many if_True if_False simp_thms)
  also have "\<dots> = objectsIn ns (tr_objects t' notebooksResource)"
    using assms(2,4) by (auto simp: changed_def objectsIn_def replay_def fun_eq_iff objectKey_def)
  finally show ?thesis
    using assms(2,3) w by (auto simp: mirrors_def watching_def changed_def)
qed

lemma mirrors_add:
  assumes "mirrors ns p v t" "tracker_add notebooksResource obj ns' b t = Returns (err, t')"
  shows "mirrors ns p v t'"
proof -
  have inv: "tracker_inv t" using assms(1) by (simp add: mirrors_def)
  from assms(2) inv show ?thesis
  proof (cases rule: tracker_add_cases)
    case refused
    with assms(1) show ?thesis by simp
  next
    case added
    show ?thesis
      by (rule mirrors_changed [OF assms(1) added(5,6)])
         (use added(4) in \<open>simp add: byKey_append byKey_absent\<close>)
  next
    case updated
    show ?thesis
      by (rule mirrors_changed [OF assms(1) updated(5,6)]) (use updated(4) in \<open>simp add: byKey_replaceFirst\<close>)
  qed
qed

lemma mirrors_Delete:
  assumes "mirrors ns p v t" "tracker_Delete notebooksResource ns' name t = Returns (err, t')"
  shows "mirrors ns p v t'"
proof -
  have inv: "tracker_inv t" using assms(1) by (simp add: mirrors_def)
  from assms(2) inv show ?thesis
  proof (cases rule: tracker_Delete_cases)
    case refused
    with assms(1) show ?thesis by simp
  next
    case (deleted obj objs)
    show ?thesis
      by (rule mirrors_changed [OF assms(1) deleted(4,5)])
         (use byKey_removeFirst [OF deleted(3)] inv in \<open>simp add: tracker_inv_def\<close>)
  qed
qed

section \<open>Any calls\<close>

datatype fake_call =
    CallGet string string
  | CallList "string gomap \<Rightarrow> bool" string
  | CallCreate string Notebook
  | CallUpdate string Notebook
  | CallUpdateStatus string Notebook
  | CallDelete string string
  | CallDeleteCollection string
  | CallPatch "object \<Rightarrow> go_error + object" string string

text \<open>The tracker after a call.\<close>

definition after :: "('r \<times> tracker) outcome \<Rightarrow> tracker outcome" where
  "after res = obind res (\<lambda>(r, t). Returns t)"

fun fake_do :: "fake_call \<Rightarrow> tracker \<Rightarrow> tracker outcome" where
  "fake_do (CallGet ns name) t = after (FakeNotebooks_Get ns name t)"
| "fake_do (CallList label ns) t = after (FakeNotebooks_List label ns t)"
| "fake_do (CallCreate ns n) t = after (FakeNotebooks_Create ns n t)"
| "fake_do (CallUpdate ns n) t = after (FakeNotebooks_Update ns n t)"
| "fake_do (CallUpdateStatus ns n) t = after (FakeNotebooks_UpdateStatus ns n t)"
| "fake_do (CallDelete ns name) t = after (FakeNotebooks_Delete ns name t)"
| "fake_do (CallDeleteCollection ns) t = after (FakeNotebooks_DeleteCollection ns t)"
| "fake_do (CallPatch merge ns name) t = after (FakeNotebooks_Patch merge ns name t)"

primrec fake_run :: "fake_call list \<Rightarrow> tracker \<Rightarrow> tracker outcome" where
  "fake_run [] t = Returns t"
| "fake_run (c # cs) t = obind (fake_do c t) (fake_run cs)"

lemma snd_readBack [simp]: "snd (readBack ns obj res) = snd res"
  by (auto simp: readBack_def split: prod.splits option.splits sum.splits)

lemma mirrors_reaction:
  assumes "mirrors ns p v t" "ObjectReaction merge action t = Returns (res, t')"
  shows "mirrors ns p v t'"
  using assms mirrors_add [OF assms(1)] mirrors_Delete [OF assms(1)]
  by (cases action)
     (auto simp: ObjectReaction_def obind_Returns_iff split: sum.splits prod.splits if_splits
        dest!: arg_cong [of "readBack _ _ _" _ snd])

lemma mirrors_invokes:
  assumes "mirrors ns p v t" "Invokes merge action d t = Returns (res, t')"
  shows "mirrors ns p v t'"
  using assms(2) mirrors_reaction [OF assms(1)]
  by (auto simp: Invokes_def obind_Returns_iff split: prod.splits if_splits)

lemma mirrors_do:
  assumes "mirrors ns p v t" "fake_do c t = Returns t'"
  shows "mirrors ns p v t'"
  using assms(2) mirrors_invokes [OF assms(1)]
  by (cases c)
     (auto simp: after_def fakeInvoke_def obind_Returns_iff FakeNotebooks_Get_def FakeNotebooks_List_def
        FakeNotebooks_Create_def FakeNotebooks_Update_def FakeNotebooks_UpdateStatus_def FakeNotebooks_Delete_def
        FakeNotebooks_DeleteCollection_def FakeNotebooks_Patch_def split: prod.splits)

text \<open>C40: A watch of the fake clientset tells the changes of what it watches: replayed over the notebooks of
  its namespace (of all of them, when that is empty) at its start, the events in its channel give
  the notebooks there after any further calls, in whatever namespaces, failing ones included. The
  calls return as long as the channel, which nobody reads here, can take the events.\<close>

theorem fake_watch_mirrors:
  assumes "FakeNotebooks_Watch ns t = (Inr p, t1)" "tracker_inv t" "fake_run calls t1 = Returns t2"
  shows "fold replay (fw_result (tr_made t2 ! p)) (objectsIn ns (tr_objects t notebooksResource))
     = objectsIn ns (tr_objects t2 notebooksResource)"
proof -
  let ?v = "objectsIn ns (tr_objects t notebooksResource)"
  have "mirrors ns p ?v t2" if "mirrors ns p ?v t1" "fake_run calls t1 = Returns t2" for t1
    using that
  proof (induction calls arbitrary: t1)
    case (Cons c calls)
    then obtain t3 where "fake_do c t1 = Returns t3" "fake_run calls t3 = Returns t2"
      by (auto simp: obind_Returns_iff)
    with Cons.IH [of t3] mirrors_do [of ns p ?v t1 c t3] Cons.prems(1) show ?case by blast
  qed simp
  from this [OF mirrors_Watch [OF assms(1,2)] assms(3)] show ?thesis by (simp add: mirrors_def)
qed

end
