(* ===== verification/Samples.thy ===== *)
theory Samples imports Sync Rollout begin

text \<open>
  Concrete inputs the properties are applied to: a crypto library over one-point keys that signs the
  certificates of a short list, a notebook with its computed resources, and worlds that answer each
  action from a list of objects. \<open>follow\<close> is the trace of a routine in such a world.
\<close>

section \<open>Following a routine\<close>

primrec follow :: "(action \<Rightarrow> answer) \<Rightarrow> 'a proc \<Rightarrow> event list \<times> 'a option" where
  "follow W (Done x) = ([], Some x)"
| "follow W (Crash m) = ([], None)"
| "follow W OutOfFuel = ([], None)"
| "follow W (Act a f) = (let (es, p) = follow W (f (W a)) in ((a, W a) # es, p))"

definition trace :: "(action \<Rightarrow> answer) \<Rightarrow> 'a proc \<Rightarrow> event list" where
  "trace W p = fst (follow W p)"

definition result :: "(action \<Rightarrow> answer) \<Rightarrow> 'a proc \<Rightarrow> 'a option" where
  "result W p = snd (follow W p)"

lemma result_basic [simp]:
  "result W (Done x) = Some x" "result W (Crash m) = None" "result W OutOfFuel = None"
  "result W (Act a f) = result W (f (W a))"
  "result W (lookup k key) = Some (found (W (ALookup k key)))"
  "result W (request req) = Some (replied (W (ARequest req)))"
  "result W (sleep d) = Some ()" "result W (ask q) = Some (answered (W (AAsk q)))"
  by (simp_all add: result_def lookup_def request_def sleep_def ask_def case_prod_beta)

lemma result_bind [simp]:
  "result W (pbind p g) = (case result W p of None \<Rightarrow> None | Some x \<Rightarrow> result W (g x))"
  by (induction p) simp_all

lemma trace_basic [simp]:
  "trace W (Done x) = []" "trace W (Act a f) = (a, W a) # trace W (f (W a))"
  "trace W (lookup k key) = [(ALookup k key, W (ALookup k key))]"
  by (simp_all add: trace_def lookup_def case_prod_beta)

text \<open>Goroutines do not disturb each other in a world without memory.\<close>

lemma result_par [simp]:
  "result W (par p q) = (case result W p of None \<Rightarrow> None | Some x \<Rightarrow>
     (case result W q of None \<Rightarrow> None | Some y \<Rightarrow> Some (x, y)))"
proof (induction p q rule: par.induct)
  case (7 a f b g)
  show ?case
  proof (cases "answered (W ASched)")
    case True
    with 7(1) [OF True, of "W a"] show ?thesis by simp
  next
    case False
    with 7(2) [OF False, of "W b"] show ?thesis by (simp split: option.split)
  qed
qed (auto split: option.splits)

lemma result_parAll_Nil [simp]: "result W (parAll []) = Some []"
  by simp

lemma result_parAll_Cons [simp]:
  "result W (parAll (p # ps)) = (case result W p of None \<Rightarrow> None | Some x \<Rightarrow>
     (case result W (parAll ps) of None \<Rightarrow> None | Some xs \<Rightarrow> Some (x # xs)))"
  by (simp split: option.splits)

lemma trace_feed:
  assumes "\<And>a. fits a (W a)" "result W p = Some x"
  shows "feed p (trace W p) = Some (Done x)"
  using assms(2)
proof (induction p)
  case (Act a f)
  have "feed (f (W a)) (trace W (f (W a))) = Some (Done x)" using Act by simp
  with assms(1) [of a] show ?case by simp
qed (simp_all add: result_def trace_def)

definition keyOfObject :: "object \<Rightarrow> string" where
  "keyOfObject x = listerKey (om_Namespace (meta_of x)) (om_Name (meta_of x))"

text \<open>A cache with these objects; requests get the error \<open>e\<close>, messages arrive, no timer fires.\<close>

primrec clusterWorld :: "go_error option \<Rightarrow> object list \<Rightarrow> action \<Rightarrow> answer" where
  "clusterWorld e xs (ALookup k key) = Found (find (\<lambda>x. kind_of x = k \<and> keyOfObject x = key) xs)"
| "clusterWorld e xs (ARequest req) = Replied e"
| "clusterWorld e xs (ASleep d) = Ack"
| "clusterWorld e xs (AEnqueue key) = Ack"
| "clusterWorld e xs (AAsk q) = Answered (q = Delivered)"
| "clusterWorld e xs ASched = Answered True"

lemma clusterWorld_fits: "fits a (clusterWorld e xs a)"
  by (cases a) (auto simp: find_Some_iff split: option.splits)

lemmas cluster_feed = trace_feed [OF clusterWorld_fits]

section \<open>A crypto library\<close>

definition sampleCATemplate :: Certificate where
  "sampleCATemplate = \<lparr> crt_Raw = [], crt_CommonName = ''kube-ca'', crt_Organization = [organization],
     crt_OrganizationalUnit = [''unit''], crt_DNSNames = [], crt_IPAddresses = [], crt_SerialNumber = 0,
     crt_NotBefore = 100, crt_NotAfter = 100 + Duration365d * 10,
     crt_KeyUsage = [KeyUsageKeyEncipherment, KeyUsageDigitalSignature, KeyUsageCertSign],
     crt_ExtKeyUsage = [], crt_BasicConstraintsValid = True, crt_IsCA = True \<rparr>"

definition sampleCertTemplate :: Certificate where
  "sampleCertTemplate = \<lparr> crt_Raw = [], crt_CommonName = ''nb'', crt_Organization = [organization],
     crt_OrganizationalUnit = [], crt_DNSNames = [''nb.example.com''], crt_IPAddresses = [], crt_SerialNumber = 7,
     crt_NotBefore = 100, crt_NotAfter = 100 + Duration365d,
     crt_KeyUsage = [KeyUsageKeyEncipherment, KeyUsageDigitalSignature],
     crt_ExtKeyUsage = [ExtKeyUsageServerAuth, ExtKeyUsageClientAuth],
     crt_BasicConstraintsValid = False, crt_IsCA = False \<rparr>"

definition sampleCA :: Certificate where "sampleCA = sampleCATemplate\<lparr>crt_Raw := ''ca''\<rparr>"

definition sampleCrypto :: "unit crypto" where
  "sampleCrypto = \<lparr>
     rsa_GenerateKey = (\<lambda>r bits. Inr ()),
     rand_Int = (\<lambda>r m. Inr 7),
     x509_CreateCertificate = (\<lambda>r tmpl parent pub signer.
       if tmpl = sampleCATemplate then Inr ''ca''
       else if tmpl = sampleCertTemplate then Inr ''crt''
       else Inl (PlainError ''unsupported template'')),
     x509_ParseCertificate = (\<lambda>der.
       if der = ''ca'' then Inr sampleCA
       else if der = ''crt'' then Inr (sampleCertTemplate\<lparr>crt_Raw := ''crt''\<rparr>)
       else Inl (PlainError ''malformed certificate'')),
     x509_MarshalPKCS1PrivateKey = (\<lambda>k. ''key''),
     x509_CheckSignatureFrom = (\<lambda>cert ca.
       if crt_Raw ca = ''ca'' then None else Some (PlainError ''unknown authority'')),
     pem_EncodeToMemory = (\<lambda>ty b. b),
     pem_Decode = Some \<rparr>"

lemma sampleCrypto_laws: "crypto_laws sampleCrypto"
  by (auto simp: crypto_laws_def sampleCrypto_def sampleCA_def split: if_splits)

lemma sampleCrypto_signs: "signs sampleCrypto sampleCA key"
  by (simp add: signs_def sampleCrypto_def sampleCA_def)

definition sampleDraw :: draw where
  "sampleDraw = \<lparr> dr_key = 0, dr_serial = 1, dr_sign = 2, dr_uuid = ''unit'', dr_now = 100 \<rparr>"

definition sampleConfig :: "unit Config" where
  "sampleConfig = \<lparr> cfg_CACert = sampleCA, cfg_Key = (), cfg_Kubeconfig = [], cfg_Namespace = ''ns'' \<rparr>"

section \<open>A notebook and its resources\<close>

definition sampleNotebook :: Notebook where
  "sampleNotebook = \<lparr>
     nb_TypeMeta = \<lparr> tm_Kind = ''Notebook'', tm_APIVersion = ''jupyter.squat.ai/v1'' \<rparr>,
     nb_Meta = emptyMeta\<lparr>om_Name := ''nb'', om_Namespace := ''ns'', om_UID := ''u1''\<rparr>,
     nb_Spec = \<lparr> spec_Flavor = Some ''minimal'', spec_GPU = False, spec_Host = Some ''nb.example.com'',
       spec_Ingress = None, spec_Packages = Some [''numpy''], spec_Password = Some ''pw'',
       spec_ServiceAccountName = Some [], spec_TLS = Some ''self-signed'' \<rparr>,
     nb_Status = \<lparr> st_ObservedGeneration = 0, st_Phase = ''Pending'' \<rparr> \<rparr>"

definition sampleSecret :: Secret where
  "sampleSecret = (case CalculateSecret sampleCrypto sampleDraw sampleNotebook sampleCA () of
     Returns s \<Rightarrow> s | Panics m \<Rightarrow> \<lparr> sec_Meta = emptyMeta, sec_Data = None \<rparr>)"

definition returned :: "'a outcome \<Rightarrow> bool" where
  "returned x = (case x of Returns y \<Rightarrow> True | Panics m \<Rightarrow> False)"

definition theResult :: "'a outcome \<Rightarrow> 'a" where
  "theResult x = (case x of Returns y \<Rightarrow> y)"

lemma returned_result: "returned x \<Longrightarrow> x = Returns (theResult x)"
  by (cases x) (simp_all add: returned_def theResult_def)

definition sampleStatefulSet :: StatefulSet where
  "sampleStatefulSet = theResult (CalculateStatefulSet sampleNotebook)"

definition sampleIngress :: Ingress where
  "sampleIngress = theResult (CalculateIngress sampleNotebook)"

lemma sampleSecret: "CalculateSecret sampleCrypto sampleDraw sampleNotebook sampleCA () = Returns sampleSecret"
proof -
  have "returned (CalculateSecret sampleCrypto sampleDraw sampleNotebook sampleCA ())" by code_simp
  then show ?thesis by (auto simp: sampleSecret_def returned_def split: outcome.splits)
qed

lemma sampleStatefulSet: "CalculateStatefulSet sampleNotebook = Returns sampleStatefulSet"
  unfolding sampleStatefulSet_def by (rule returned_result) code_simp

lemma sampleIngress: "CalculateIngress sampleNotebook = Returns sampleIngress"
  unfolding sampleIngress_def by (rule returned_result) code_simp

text \<open>A settled cluster: every resource is there, managed, and the pod is ready.\<close>

definition settledCluster :: "object list" where
  "settledCluster = [ONotebook sampleNotebook, OService (CalculateService sampleNotebook),
     OSecret sampleSecret, OStatefulSet (sampleStatefulSet\<lparr>sts_ReadyReplicas := 1\<rparr>), OIngress sampleIngress]"

lemma settled_found:
  "find (\<lambda>x. kind_of x = KService \<and> keyOfObject x = listerKey ''ns'' (resourceName ''nb'')) settledCluster
     = Some (OService (CalculateService sampleNotebook))"
  "find (\<lambda>x. kind_of x = KSecret \<and> keyOfObject x = listerKey ''ns'' (resourceName ''nb'')) settledCluster
     = Some (OSecret sampleSecret)"
  "find (\<lambda>x. kind_of x = KStatefulSet \<and> keyOfObject x = listerKey ''ns'' (resourceName ''nb'')) settledCluster
     = Some (OStatefulSet (sampleStatefulSet\<lparr>sts_ReadyReplicas := 1\<rparr>))"
  "find (\<lambda>x. kind_of x = KIngress \<and> keyOfObject x = listerKey ''ns'' (resourceName ''nb'')) settledCluster
     = Some (OIngress sampleIngress)"
  "find (\<lambda>x. kind_of x = KNotebook \<and> keyOfObject x = listerKey ''ns'' ''nb'') settledCluster
     = Some (ONotebook sampleNotebook)"
  by code_simp+

section \<open>Runs in the settled cluster\<close>

abbreviation settledWorld :: "action \<Rightarrow> answer" where
  "settledWorld \<equiv> clusterWorld None settledCluster"

lemma sampleCert:
  "NewSignedCert sampleCrypto sampleDraw sampleCA () (altNamesOf sampleNotebook) ''nb''
     = Inr (sampleCertTemplate\<lparr>crt_Raw := ''crt''\<rparr>, ())"
  by code_simp

lemma sample_names [simp]:
  "om_Name (svc_Meta (CalculateService sampleNotebook)) = resourceName ''nb''"
  "om_Namespace (svc_Meta (CalculateService sampleNotebook)) = ''ns''"
  "om_Name (sec_Meta sampleSecret) = resourceName ''nb''" "om_Namespace (sec_Meta sampleSecret) = ''ns''"
  "om_Name (sts_Meta sampleStatefulSet) = resourceName ''nb''" "om_Namespace (sts_Meta sampleStatefulSet) = ''ns''"
  "om_Name (ing_Meta sampleIngress) = resourceName ''nb''" "om_Namespace (ing_Meta sampleIngress) = ''ns''"
  "sss_Replicas (sts_Spec sampleStatefulSet) = Some 1"
  by code_simp+

lemma sample_managed [simp]:
  "isManagedByOperator (om_Labels (svc_Meta (CalculateService sampleNotebook)))"
  "isManagedByOperator (om_Labels (sec_Meta sampleSecret))"
  "isManagedByOperator (om_Labels (sts_Meta sampleStatefulSet))"
  "isManagedByOperator (om_Labels (ing_Meta sampleIngress))"
  by code_simp+

lemma sample_fields [simp]:
  "nb_Name sampleNotebook = ''nb''" "nb_Namespace sampleNotebook = ''ns''" "nb_Phase sampleNotebook = NotebookPhasePending"
  "spec_Host (nb_Spec sampleNotebook) = Some ''nb.example.com''"
  "spec_TLS (nb_Spec sampleNotebook) = Some NotebookTLSSelfSigned"
  "spec_Password (nb_Spec sampleNotebook) = Some ''pw''" "om_DeletionTimestamp (nb_Meta sampleNotebook) = None"
  by (simp_all add: sampleNotebook_def emptyMeta_def phase_defs tls_defs)

lemma sample_lookups [simp]:
  "result settledWorld (ServiceLister_Get ''ns'' (resourceName ''nb'')) = Some (Inr (CalculateService sampleNotebook))"
  "result settledWorld (SecretLister_Get ''ns'' (resourceName ''nb'')) = Some (Inr sampleSecret)"
  "result settledWorld (StatefulSetLister_Get ''ns'' (resourceName ''nb''))
     = Some (Inr (sampleStatefulSet\<lparr>sts_ReadyReplicas := 1\<rparr>))"
  "result settledWorld (IngressLister_Get ''ns'' (resourceName ''nb'')) = Some (Inr sampleIngress)"
  "result settledWorld (NotebookLister_Get ''ns'' ''nb'') = Some (Inr sampleNotebook)"
  by (simp_all add: lister_defs lister_Get_def settled_found as_Service_def as_Secret_def as_StatefulSet_def
      as_Ingress_def as_Notebook_def)

lemma sample_templateDiff [simp]:
  "templateDiff (sss_Template (sts_Spec sampleStatefulSet)) (sss_Template (sts_Spec sampleStatefulSet)) = []"
  using template_seen_edit [OF sampleStatefulSet sampleStatefulSet]
  by (simp add: templateDiff_nil templateOf_def sameRollout_def)

lemma sample_writes [simp]:
  "result settledWorld (CreateOrUpdateService c (CalculateService sampleNotebook)) = Some None"
  "result settledWorld (CreateOrUpdateSecret sampleCrypto sampleCA c sampleSecret) = Some None"
  "result settledWorld (CreateOrUpdateIngress c sampleIngress) = Some None"
  "result settledWorld (CreateOrUpdateStatefulSet c sampleStatefulSet)
     = Some (None, adoptStatefulSet sampleStatefulSet sampleStatefulSet)"
  by (simp_all add: CreateOrUpdateService_def CreateOrUpdateSecret_def CreateOrUpdateIngress_def
      CreateOrUpdateStatefulSet_def adoptStatefulSet_def Let_def)

lemma sample_wait [simp]:
  "result settledWorld (WaitForStatefulSet (adoptStatefulSet sampleStatefulSet sampleStatefulSet)) = Some None"
proof -
  have "result settledWorld (ready (adoptStatefulSet sampleStatefulSet sampleStatefulSet)) = Some None"
    by (simp add: ready_def adoptStatefulSet_def)
  then show ?thesis
    by (simp add: WaitForStatefulSet_def waitLoop_def retryFuel_def eval_nat_numeral stopped_def
        retryRound_def sendNonblockingMessage_def closeDone_def)
qed

lemma sample_Calculate [simp]:
  "CalculateSecret sampleCrypto sampleDraw sampleNotebook sampleCA () = Returns sampleSecret"
  "CalculateStatefulSet sampleNotebook = Returns sampleStatefulSet"
  "CalculateIngress sampleNotebook = Returns sampleIngress"
  "cfg_CACert sampleConfig = sampleCA"
  using sampleSecret sampleStatefulSet sampleIngress by (simp_all add: sampleConfig_def)

lemma sample_shouldExist [simp]:
  "serviceShouldExist (Some sampleNotebook)" "secretShouldExist (Some sampleNotebook)"
  "statefulSetShouldExist (Some sampleNotebook)" "ingressShouldExist (Some sampleNotebook)"
  by (simp_all add: serviceShouldExist_def secretShouldExist_def statefulSetShouldExist_def ingressShouldExist_def)

lemma sample_reconcile:
  "result settledWorld (reconcileNotebookResources sampleCrypto sampleDraw sampleConfig sampleNotebook) = Some None"
  by (simp add: reconcileNotebookResources_def reconcilers_def serviceReconciler_def secretReconciler_def
      statefulSetReconciler_def ingressReconciler_def Let_def goroutine_def tryReconcile_def tryWait_def
      unshared_def filterErr_def joinErrors_def)

end
