(* ===== verification/Witnesses.thy ===== *)
theory Witnesses imports Samples Certificates Worker Handlers begin

text \<open>
  One concrete application per property that has hypotheses: each theorem below discharges them at
  the samples of \<open>Samples\<close> and states the property's conclusion there.
\<close>

section \<open>Resources and reconciling\<close>

theorem resources_wired_witness:
  "CalculateStatefulSet sampleNotebook = Returns sampleStatefulSet
   \<and> sss_ServiceName (sts_Spec sampleStatefulSet) = om_Name (svc_Meta (CalculateService sampleNotebook))
   \<and> list_all (\<lambda>(nm, k). nm = om_Name (sec_Meta sampleSecret) \<and> dataGet (sec_Data sampleSecret) k \<noteq> None)
       (secretKeysOf (pts_Spec (sss_Template (sts_Spec sampleStatefulSet))))"
  using resources_wired [OF sampleSecret sampleStatefulSet sampleIngress] sampleStatefulSet by blast

lemma sampleDefaults: "SetDefaults sampleNotebook = (False, sampleNotebook)"
  by code_simp

theorem reconcilers_total_witness:
  "NewSignedCert sampleCrypto sampleDraw sampleCA () (altNamesOf sampleNotebook) ''nb''
     = Inr (sampleCertTemplate\<lparr>crt_Raw := ''crt''\<rparr>, ())
   \<and> (\<exists>rs. reconcilers sampleCrypto sampleDraw sampleConfig (snd (SetDefaults sampleNotebook)) = Returns rs)"
  using reconcilers_total [of sampleCrypto sampleDraw sampleConfig sampleNotebook] sampleCert
  by (simp add: sampleDefaults)

lemma sample_live: "live sampleNotebook"
  by (simp add: live_def)

abbreviation reconcileTrace :: "event list" where
  "reconcileTrace \<equiv> trace settledWorld (reconcileNotebookResources sampleCrypto sampleDraw sampleConfig sampleNotebook)"


section \<open>Sync\<close>

lemma sample_slashFree: "slashFree (''ns'', ''nb'')"
  by code_simp

text \<open>A pass over a key whose notebook is gone, with every delete answered NotFound.\<close>

abbreviation emptyWorld :: "action \<Rightarrow> answer" where
  "emptyWorld \<equiv> clusterWorld (Some (NewNotFound KService [])) []"

lemma sample_key: "SplitMetaNamespaceKey (metaKey (''ns'', ''nb'')) = Inr (''ns'', ''nb'')"
  by code_simp

abbreviation sampleSync :: "go_error option proc" where
  "sampleSync \<equiv> sync sampleCrypto sampleDraw sampleConfig (metaKey (''ns'', ''nb''))"

lemma result_Get:
  "result (clusterWorld e xs) (lister_Get k as ns nm) =
     (case find (\<lambda>x. kind_of x = k \<and> keyOfObject x = listerKey ns nm) xs of
        None \<Rightarrow> Some (Inl (NewNotFound k nm))
      | Some x \<Rightarrow> (case as x of None \<Rightarrow> None | Some v \<Rightarrow> Some (Inr v)))"
  by (simp add: lister_Get_def split: option.splits)

lemma sample_feed:
  assumes "result (clusterWorld e xs) sampleSync = Some res"
    and "find (\<lambda>x. kind_of x = KNotebook \<and> keyOfObject x = listerKey ''ns'' ''nb'') xs = x"
  shows "feed sampleSync ((ALookup KNotebook (listerKey ''ns'' ''nb''), Found x)
    # tl (trace (clusterWorld e xs) sampleSync)) = Some (Done res)"
proof -
  have "\<exists>es. trace (clusterWorld e xs) sampleSync = (ALookup KNotebook (listerKey ''ns'' ''nb''), Found x) # es"
    using assms(2) by (simp add: sync_def sample_key NotebookLister_Get_def lister_Get_def lookup_def)
  with cluster_feed [OF assms(1)] show ?thesis by auto
qed

lemma goneNotebook_not_live: "\<not> live (goneNotebook d ns nm)"
  by (simp add: live_def goneNotebook_def)

lemma gone_result: "result emptyWorld sampleSync = Some None"
  by (simp add: sync_def sample_key NotebookLister_Get_def result_Get goneNotebook_not_live
      reconcileNotebookResources_def reconcilers_def serviceReconciler_def secretReconciler_def
      statefulSetReconciler_def ingressReconciler_def Let_def goroutine_def tryReconcile_def tryWait_def
      DeleteService_def DeleteSecret_def DeleteStatefulSet_def DeleteIngress_def
      unshared_def filterErr_def joinErrors_def)

abbreviation goneTrace :: "event list" where
  "goneTrace \<equiv> tl (trace emptyWorld sampleSync)"

theorem sync_gone_witness:
  "\<exists>e1 e2 e3 e4. mset (acts goneTrace) =
      {# (ARequest (Delete KService ''ns'' (resourceName ''nb'') None), Replied e1),
         (ARequest (Delete KSecret ''ns'' (resourceName ''nb'') None), Replied e2),
         (ARequest (Delete KStatefulSet ''ns'' (resourceName ''nb'') None), Replied e3),
         (ARequest (Delete KIngress ''ns'' (resourceName ''nb'') None), Replied e4) #}
    \<and> benign e1 \<and> benign e2 \<and> benign e3 \<and> benign e4"
  using sync_gone [OF sample_slashFree sample_feed [OF gone_result]] by simp

text \<open>A notebook with a host no DNS label may have.\<close>

definition badNotebook :: Notebook where
  "badNotebook = sampleNotebook\<lparr>nb_Spec := (nb_Spec sampleNotebook)\<lparr>spec_Host := Some ''-bad''\<rparr>\<rparr>"

definition badErr :: go_error where
  "badErr = (case Validate badNotebook of Some err \<Rightarrow> err)"

lemma bad_invalid: "Validate badNotebook = Some badErr"
proof -
  have "(case Validate badNotebook of Some err \<Rightarrow> True | None \<Rightarrow> False)" by code_simp
  then show ?thesis by (simp add: badErr_def split: option.splits)
qed

lemma sample_cached:
  assumes "nb_Name n = ''nb''" "nb_Namespace n = ''ns''"
  shows "find (\<lambda>x. kind_of x = KNotebook \<and> keyOfObject x = listerKey ''ns'' ''nb'') [ONotebook n] = Some (ONotebook n)"
  using assms by (simp add: keyOfObject_def)

abbreviation soleWorld :: "Notebook \<Rightarrow> action \<Rightarrow> answer" where
  "soleWorld n \<equiv> clusterWorld None [ONotebook n]"

lemma sole_sync:
  assumes "nb_Name n = ''nb''" "nb_Namespace n = ''ns''"
  shows "result (soleWorld n) sampleSync =
    result (soleWorld n) (syncNotebook sampleCrypto sampleDraw sampleConfig (metaKey (''ns'', ''nb'')) n)"
  by (simp add: sync_def sample_key NotebookLister_Get_def result_Get sample_cached [OF assms] as_Notebook_def
      del: find.simps)

lemma bad_fields [simp]: "nb_Name badNotebook = ''nb''" "nb_Namespace badNotebook = ''ns''"
    "nb_Phase badNotebook = NotebookPhasePending"
  by (simp_all add: badNotebook_def)

lemma bad_result: "result (soleWorld badNotebook) sampleSync = Some (Some badErr)"
  by (simp add: sole_sync syncNotebook_def bad_invalid setNotebookPhase_def Let_def)

theorem sync_invalid_witness:
  "\<exists>e. tl (trace (soleWorld badNotebook) sampleSync) =
    [(ARequest (UpdateStatus ''ns'' (ONotebook (withPhase badNotebook NotebookPhaseFailed))), Replied e)]"
  using sync_invalid [OF sample_slashFree bad_invalid
      sample_feed [OF bad_result sample_cached [OF bad_fields(1,2)]]]
  by simp

text \<open>A notebook created without a TLS mode, and one without a host.\<close>

definition rawNotebook :: Notebook where
  "rawNotebook = sampleNotebook\<lparr>nb_Meta := (nb_Meta sampleNotebook)\<lparr>om_ResourceVersion := ''7''\<rparr>,
     nb_Spec := (nb_Spec sampleNotebook)\<lparr>spec_Host := None, spec_TLS := None\<rparr>\<rparr>"

lemma raw_valid: "Validate rawNotebook = None" "\<not> defaulted (nb_Spec rawNotebook)"
    "spec_Host (nb_Spec rawNotebook) = None"
  by code_simp+

lemma raw_fields [simp]: "nb_Name rawNotebook = ''nb''" "nb_Namespace rawNotebook = ''ns''"
  by (simp_all add: rawNotebook_def)

lemma raw_result: "result (soleWorld rawNotebook) sampleSync = Some None"
  by (simp add: sole_sync syncNotebook_branches raw_valid updateDefaults_def)

lemmas raw_feed = sample_feed [OF raw_result sample_cached [OF raw_fields]]

theorem sync_defaults_witness:
  "\<exists>e n'. tl (trace (soleWorld rawNotebook) sampleSync) = [(ARequest (Update ''ns'' (ONotebook n')), Replied e)]
    \<and> nb_Spec n' = snd (default_spec (nb_Spec rawNotebook)) \<and> defaulted (nb_Spec n')"
  using sync_defaults [OF sample_slashFree raw_valid(1,2) raw_feed] by auto

lemma sample_valid: "Validate sampleNotebook = None" "defaulted (nb_Spec sampleNotebook)"
  by code_simp+

lemma settled_sync: "result settledWorld sampleSync =
    result settledWorld (syncNotebook sampleCrypto sampleDraw sampleConfig (metaKey (''ns'', ''nb'')) sampleNotebook)"
  by (simp add: sync_def sample_key)

lemma setKind_sample: "setKind sampleNotebook = sampleNotebook"
  by code_simp

lemma settled_result: "result settledWorld sampleSync = Some None"
  by (simp add: settled_sync syncNotebook_branches sample_valid setKind_sample syncResources_def startPhase_def
      setNotebookPhase_def sample_reconcile finishPhase_def Let_def)

theorem sync_reconciles_witness:
  "\<exists>es1 es2 es3 n1. tl (trace settledWorld sampleSync) = es1 @ es2 @ es3
    \<and> feed (reconcileNotebookResources sampleCrypto sampleDraw sampleConfig n1) es2 = Some (Done None)"
  using sync_reconciles [OF sample_slashFree sample_valid sample_feed [OF settled_result settled_found(5)]] by blast

text \<open>What the pass over the raw notebook stored, seen by the next pass.\<close>

definition storedNotebook :: Notebook where
  "storedNotebook = setKind (snd (SetDefaults rawNotebook))"

lemma raw_trace: "tl (trace (soleWorld rawNotebook) sampleSync) =
    [(ARequest (Update ''ns'' (ONotebook storedNotebook)), Replied None)]"
  using sample_cached [OF raw_fields]
  by (simp add: sync_def sample_key NotebookLister_Get_def lister_Get_def lookup_def as_Notebook_def
      syncNotebook_branches raw_valid updateDefaults_def request_def storedNotebook_def del: find.simps)

lemma stored_fields [simp]: "nb_Name storedNotebook = ''nb''" "nb_Namespace storedNotebook = ''ns''"
    "nb_Phase storedNotebook = NotebookPhasePending"
  by code_simp+

lemma stored_invalid: "Validate storedNotebook = Some hostErr"
  by code_simp

lemma stored_result: "result (soleWorld storedNotebook) sampleSync = Some (Some hostErr)"
  by (simp add: sole_sync syncNotebook_def stored_invalid setNotebookPhase_def Let_def)

theorem hostless_never_served_witness:
  "Validate rawNotebook = None
   \<and> feed sampleSync ((ALookup KNotebook (listerKey ''ns'' ''nb''), Found (Some (ONotebook rawNotebook)))
       # [(ARequest (Update ''ns'' (ONotebook storedNotebook)), Replied None)]) = Some (Done None)
   \<and> set (tl (trace (soleWorld storedNotebook) sampleSync)) \<subseteq>
     {(ARequest (UpdateStatus ''ns'' (ONotebook (withPhase storedNotebook NotebookPhaseFailed))), Replied e) | e. True}"
  using hostless_never_served [OF sample_slashFree raw_valid(1,3) raw_feed raw_trace refl
      sample_feed [OF stored_result sample_cached [OF stored_fields(1,2)]]]
    raw_valid raw_feed raw_trace
  by simp

text \<open>A controller whose key generation fails, over the same notebook.\<close>

definition brokenCrypto :: "unit crypto" where
  "brokenCrypto = sampleCrypto\<lparr>rsa_GenerateKey := (\<lambda>r bits. Inl (PlainError ''no entropy''))\<rparr>"

abbreviation brokenEvents :: "event list" where
  "brokenEvents \<equiv> [(ALookup KNotebook (listerKey ''ns'' ''nb''), Found (Some (ONotebook sampleNotebook)))]"

lemma broken_secret: "CalculateSecret brokenCrypto sampleDraw sampleNotebook sampleCA ()
    = Panics ''failed to generate certificate''"
  by (simp add: CalculateSecret_panics NewSignedCert_def NewPrivateKey_def brokenCrypto_def ShouldHaveCerts_def)

lemma broken_fails:
  "fails (sync brokenCrypto sampleDraw sampleConfig (metaKey (''ns'', ''nb'')))
     (Some ''failed to generate certificate'') brokenEvents"
proof -
  have "reconcileNotebookResources brokenCrypto sampleDraw sampleConfig sampleNotebook
      = Crash ''failed to generate certificate''"
    by (simp add: reconcileNotebookResources_def reconcilers_def serviceReconciler_def secretReconciler_def
        Let_def broken_secret)
  then have "syncNotebook brokenCrypto sampleDraw sampleConfig key sampleNotebook
      = Crash ''failed to generate certificate''" for key
    by (simp add: syncNotebook_branches sample_valid setKind_sample syncResources_def startPhase_def setNotebookPhase_def)
  then show ?thesis
    by (simp add: sync_def sample_key NotebookLister_Get_def fails_Get_bind [OF lister_types(5)] get_result_def
        exI [of _ "Some sampleNotebook"])
qed

theorem sync_fails_only_witness:
  "failsAt brokenCrypto sampleDraw sampleConfig (Some ''failed to generate certificate'') brokenEvents"
  by (rule sync_fails_only [OF broken_fails])

section \<open>Events\<close>

lemma service_carries: "carries sampleNotebook (meta_of (OService (CalculateService sampleNotebook)))"
  using CalculateService_carries by simp

abbreviation serviceAdded :: notification where
  "serviceAdded \<equiv> Added (IObject (OService (CalculateService sampleNotebook)))"

lemma service_event:
  "feed (notify KService serviceAdded)
     ((ALookup KNotebook (listerKey ''ns'' ''nb''), Found (Some (ONotebook sampleNotebook)))
      # [(AEnqueue (metaKey (''ns'', ''nb'')), Ack)]) = Some (Done ())"
proof -
  have event: "concerns (OService (CalculateService sampleNotebook)) serviceAdded" "KService \<noteq> KNotebook"
    by (simp_all add: concerns_def)
  have ref: "GetControllerOf (svc_Meta (CalculateService sampleNotebook)) = Some (AsOwner sampleNotebook)"
    using CalculateService_carries [of sampleNotebook] by (simp add: carries_def)
  have owner: "or_Kind (AsOwner sampleNotebook) = NotebookKind" "or_Name (AsOwner sampleNotebook) = ''nb''"
    "or_UID (AsOwner sampleNotebook) = om_UID (nb_Meta sampleNotebook)" by code_simp+
  show ?thesis
    unfolding notify_concerns [OF event] meta_of.simps ref enqueueOwner_Done
    using owner by (simp add: MetaNamespaceKey_metaKey exI [of _ "Some sampleNotebook"])
qed

theorem resource_event_resyncs_owner_witness:
  "\<exists>key. [(AEnqueue (metaKey (''ns'', ''nb'')), Ack)] = [(AEnqueue key, Ack)]
    \<and> SplitMetaNamespaceKey key = Inr (''ns'', ''nb'')"
proof -
  have "nb_Kind sampleNotebook = NotebookKind" by code_simp
  moreover have "slashFree (nb_Namespace sampleNotebook, nb_Name sampleNotebook)" using sample_slashFree by simp
  moreover have "concerns (OService (CalculateService sampleNotebook)) serviceAdded" by (simp add: concerns_def)
  moreover have "KService \<noteq> KNotebook" by simp
  ultimately show ?thesis
    using resource_event_resyncs_owner [OF service_carries _ _ _ _ refl refl refl service_event] by simp
qed

theorem object_events_enqueue_owners_only_witness:
  "guarded (owner_found (set (metasOf serviceAdded))) (notify KService serviceAdded) []"
  by (rule object_events_enqueue_owners_only) simp

section \<open>Certificates\<close>

text \<open>The sample secret, found by a pass that computes it again; its certificate is kept.\<close>

abbreviation secretTrace :: "event list" where
  "secretTrace \<equiv> [(ARequest (Update ''ns'' (OSecret (mergeSecret sampleCrypto sampleCA sampleSecret sampleSecret))), Replied None)]"

lemma secret_feed:
  "feed (CreateOrUpdateSecret sampleCrypto sampleCA ''ns'' sampleSecret)
     ((ALookup KSecret (listerKey ''ns'' (resourceName ''nb'')), Found (Some (OSecret sampleSecret))) # secretTrace)
   = Some (Done None)"
  unfolding CreateOrUpdateSecret_trace merging_trace_def
  by (simp add: exI [of _ "Some sampleSecret"])

lemma sample_certs: "ShouldHaveCerts sampleNotebook"
  by code_simp


theorem ca_certificate_witness:
  "NewCACert sampleCrypto sampleDraw = Inr (sampleCA, ()) \<and> crt_IsCA sampleCA
   \<and> crt_NotAfter sampleCA = crt_NotBefore sampleCA + 10 * Duration365d"
proof -
  have "NewCACert sampleCrypto sampleDraw = Inr (sampleCA, ())" by code_simp
  with ca_certificate [OF sampleCrypto_laws _ sampleCert] show ?thesis by simp
qed

section \<open>Roll-outs\<close>

text \<open>The sample with another package in place of its own: the edit that is not rolled out.\<close>

definition editedNotebook :: Notebook where
  "editedNotebook = sampleNotebook\<lparr>nb_Spec := (nb_Spec sampleNotebook)\<lparr>spec_Packages := Some [''scipy'']\<rparr>\<rparr>"

lemma edited_sameRollout: "sameRollout sampleNotebook editedNotebook"
  by code_simp

definition editedStatefulSet :: StatefulSet where
  "editedStatefulSet = theResult (CalculateStatefulSet editedNotebook)"

lemma editedStatefulSet: "CalculateStatefulSet editedNotebook = Returns editedStatefulSet"
  unfolding editedStatefulSet_def by (rule returned_result) code_simp

abbreviation adoptTrace :: "event list" where
  "adoptTrace \<equiv> [(ARequest (Update ''ns'' (OStatefulSet (adoptStatefulSet sampleStatefulSet editedStatefulSet))), Replied None)]"

lemma edited_key: "stsKey editedStatefulSet = listerKey ''ns'' (resourceName ''nb'')"
  by code_simp

lemma edited_feed:
  "feed (CreateOrUpdateStatefulSet ''ns'' editedStatefulSet)
     ((ALookup KStatefulSet (listerKey ''ns'' (resourceName ''nb'')), Found (Some (OStatefulSet sampleStatefulSet))) # adoptTrace)
   = Some (Done (None, adoptStatefulSet sampleStatefulSet editedStatefulSet))"
proof -
  have "nb_Name sampleNotebook = nb_Name editedNotebook" by code_simp
  then have "templateDiff (templateOf editedStatefulSet) (templateOf sampleStatefulSet) = []"
    using template_seen_edit [OF sampleStatefulSet editedStatefulSet] edited_sameRollout
    by (simp add: templateDiff_nil)
  then show ?thesis
    unfolding CreateOrUpdateStatefulSet_trace edited_key
    by (simp add: templateOf_def exI [of _ "Some sampleStatefulSet"])
qed

theorem which_edits_roll_out_witness:
  "adoptTrace = [(ARequest (Update ''ns'' (OStatefulSet (adoptStatefulSet sampleStatefulSet editedStatefulSet))), Replied None)]
   \<and> templateOf (adoptStatefulSet sampleStatefulSet editedStatefulSet) = templateOf sampleStatefulSet"
proof -
  have "nb_Name sampleNotebook = nb_Name editedNotebook" by code_simp
  from which_edits_roll_out [OF sampleStatefulSet editedStatefulSet this sample_managed(3) refl edited_feed]
  show ?thesis using edited_sameRollout by simp
qed

text \<open>A GPU notebook, whose StatefulSet came back with its limit in DecimalSI; the delete fails.\<close>

definition gpuNotebook :: Notebook where
  "gpuNotebook = sampleNotebook\<lparr>nb_Spec := (nb_Spec sampleNotebook)\<lparr>spec_GPU := True\<rparr>\<rparr>"

definition gpuStatefulSet :: StatefulSet where
  "gpuStatefulSet = theResult (CalculateStatefulSet gpuNotebook)"

lemma gpuStatefulSet: "CalculateStatefulSet gpuNotebook = Returns gpuStatefulSet"
  unfolding gpuStatefulSet_def by (rule returned_result) code_simp

definition roundTripped :: StatefulSet where
  "roundTripped = (let spec = sts_Spec gpuStatefulSet; t = sss_Template spec; pod = pts_Spec t
     in gpuStatefulSet\<lparr>sts_Spec := spec\<lparr>sss_Template := t\<lparr>pts_Spec := pod\<lparr>ps_Containers :=
          map_option (map (\<lambda>c. c\<lparr>ct_Resources := \<lparr> rr_Limits = Some [(gpuResource, NewQuantity 1 DecimalSI)],
            rr_Requests = None \<rparr>\<rparr>)) (ps_Containers pod)\<rparr>\<rparr>\<rparr>\<rparr>)"

definition gpuContainer :: Container where
  "gpuContainer = (case ps_Containers (pts_Spec (templateOf roundTripped)) of Some [c] \<Rightarrow> c)"

lemma gpu_facts:
  "spec_GPU (nb_Spec gpuNotebook)" "isManagedByOperator (om_Labels (sts_Meta roundTripped))"
  "ps_Containers (pts_Spec (templateOf roundTripped)) = Some [gpuContainer]"
  "rr_Limits (ct_Resources gpuContainer) = Some [(gpuResource, NewQuantity 1 DecimalSI)]"
  "stsKey gpuStatefulSet = listerKey ''ns'' (resourceName ''nb'')"
  "om_Name (sts_Meta roundTripped) = resourceName ''nb''"
  by code_simp+

abbreviation refusedDelete :: "event list" where
  "refusedDelete \<equiv> [(ARequest (Delete KStatefulSet ''ns'' (resourceName ''nb'') (Some DeletePropagationForeground)),
     Replied (Some (PlainError ''forbidden'')))]"

lemma gpu_diff: "templateDiff (templateOf gpuStatefulSet) (templateOf roundTripped) \<noteq> []"
  by code_simp

lemma gpu_feed:
  "feed (CreateOrUpdateStatefulSet ''ns'' gpuStatefulSet)
     ((ALookup KStatefulSet (listerKey ''ns'' (resourceName ''nb'')), Found (Some (OStatefulSet roundTripped))) # refusedDelete)
   = Some (Done (Some (wrapErr ''failed to delete old StatefulSet before updating'' (PlainError ''forbidden'')), gpuStatefulSet))"
  unfolding CreateOrUpdateStatefulSet_trace gpu_facts
  using gpu_diff gpu_facts(2,6)
  by (auto simp: templateOf_def replaceStatefulSet_trace awaitAndRecreate_trace intro!: exI [of _ "Some roundTripped"])

theorem gpu_notebook_never_settles_witness:
  "\<exists>r es'. refusedDelete =
    (ARequest (Delete KStatefulSet ''ns'' (resourceName ''nb'') (Some DeletePropagationForeground)), Replied r) # es'"
  using gpu_notebook_never_settles [OF gpuStatefulSet gpu_facts(1-4) gpu_feed] by (simp add: gpu_facts(6))

theorem replacement_is_ordered_witness:
  "\<exists>r es1 es2. refusedDelete =
    (ARequest (Delete KStatefulSet ''ns'' (resourceName ''nb'') (Some DeletePropagationForeground)), Replied r) # es1 @ es2"
  using replacement_is_ordered [OF gpu_facts(2) gpu_diff gpu_feed] by (simp add: gpu_facts(6))

section \<open>Workers\<close>

text \<open>
  One worker, and a key that is no namespaced name: it is enqueued, taken, and its sync fails at once.
\<close>

definition oddKey :: string where "oddKey = ''a/b/c''"

definition oddErr :: go_error where
  "oddErr = (case SplitMetaNamespaceKey oddKey of Inl err \<Rightarrow> err)"

lemma oddKey_split: "SplitMetaNamespaceKey oddKey = Inl oddErr"
proof -
  have "(case SplitMetaNamespaceKey oddKey of Inl err \<Rightarrow> True | Inr p \<Rightarrow> False)" by code_simp
  then show ?thesis by (simp add: oddErr_def split: sum.splits)
qed

lemma oddKey_sync: "sync cr d cfg oddKey = Done (Some oddErr)"
  by (simp add: sync_def oddKey_split)

definition idlePool :: ctl where "idlePool = startWorkers 1 0"

definition queuedPool :: ctl where
  "queuedPool = idlePool\<lparr>queue := AddNow oddKey (queue idlePool)\<rparr>"

definition takenQueue :: rlq where "takenQueue = snd (the (GetNext (queue queuedPool)))"

definition busyPool :: ctl where
  "busyPool = queuedPool\<lparr>queue := takenQueue,
     workers := (workers queuedPool)[0 := Syncing oddKey (sync sampleCrypto sampleDraw sampleConfig oddKey)]\<rparr>"

definition retryQueue :: rlq where "retryQueue = the (AddRateLimited 0 0 oddKey takenQueue)"

definition failedPool :: ctl where
  "failedPool = busyPool\<lparr>queue := retryQueue, workers := (workers busyPool)[0 := Finishing oddKey]\<rparr>"

lemmas pool_defs = idlePool_def queuedPool_def busyPool_def failedPool_def startWorkers_def
  takenQueue_def retryQueue_def NewNamedRateLimitingQueue_def AddNow_def Add_def New_def GetNext_def Get_def

lemma queued_step: "work_step cr cfg idlePool (Enqueued oddKey) queuedPool"
  unfolding queuedPool_def by (rule enqueued) (simp add: idlePool_def startWorkers_def)

lemma queued_Get: "GetNext (queue queuedPool) = Some (Item oddKey, takenQueue)"
  by (simp add: pool_defs Let_def)

lemma busy_step: "work_step sampleCrypto sampleConfig queuedPool (Took 0 oddKey) busyPool"
  unfolding busyPool_def by (rule take [OF _ _ _ queued_Get]) (simp_all add: pool_defs)

lemma failed_queue: "AddRateLimited 0 0 oddKey takenQueue = Some retryQueue"
proof -
  have "AddRateLimited 0 0 oddKey takenQueue \<noteq> None"
    by (simp add: pool_defs AddRateLimited_def AddAfter_def case_prod_beta Let_def)
  then show ?thesis by (auto simp: retryQueue_def)
qed

lemma failed_step: "work_step sampleCrypto sampleConfig busyPool (Failed 0 oddKey 0) failedPool"
  unfolding failedPool_def
  by (rule fail [of _ _ _ oddErr]) (simp_all add: failed_queue busyPool_def queuedPool_def idlePool_def startWorkers_def oddKey_sync)

lemma pool_runs:
  "work_steps sampleCrypto sampleConfig (startWorkers 1 0) [Enqueued oddKey] queuedPool"
  "work_steps sampleCrypto sampleConfig (startWorkers 1 0) [Enqueued oddKey, Took 0 oddKey] busyPool"
  "work_steps sampleCrypto sampleConfig (startWorkers 1 0) [Enqueued oddKey, Took 0 oddKey, Failed 0 oddKey 0] failedPool"
  using queued_step [of sampleCrypto sampleConfig] busy_step failed_step by (auto simp: idlePool_def)

theorem one_worker_per_notebook_witness:
  "keyOf (workers busyPool ! 0) = Some oddKey \<and> (0::nat) = 0"
proof -
  have *: "0 < length (workers busyPool)" "keyOf (workers busyPool ! 0) = Some oddKey"
    by (simp_all add: busyPool_def queuedPool_def idlePool_def startWorkers_def)
  from one_worker_per_notebook [OF pool_runs(2) *(1) *(1) *(2) *(2)] *(2) show ?thesis by simp
qed


theorem failure_is_retried_witness:
  "dueBy (clockOf 0 [Enqueued oddKey, Took 0 oddKey]
     + max (backoff (failuresIn oddKey [Enqueued oddKey, Took 0 oddKey])) 0) oddKey (queue failedPool)"
proof -
  have "work_steps sampleCrypto sampleConfig (startWorkers 1 0)
      ([Enqueued oddKey, Took 0 oddKey] @ Failed 0 oddKey 0 # []) failedPool"
    using pool_runs(3) by simp
  from failure_is_retried [OF this _ refl] show ?thesis by simp
qed

theorem queue_is_fair_witness: "\<exists>w. Took w oddKey \<in> set [Took 0 oddKey]"
proof -
  have "work_steps sampleCrypto sampleConfig queuedPool [Took 0 oddKey] busyPool" using busy_step by auto
  moreover have "queued queuedPool = [] @ oddKey # []" by (simp add: queued_def pool_defs Let_def)
  ultimately show ?thesis by (rule queue_is_fair) simp
qed

theorem idle_worker_takes_witness:
  "\<exists>i s'. work_step sampleCrypto sampleConfig queuedPool (Took 0 i) s'"
  by (rule idle_worker_takes [OF pool_runs(1), of oddKey])
    (simp_all add: pool_defs Let_def pendingKeys_def)

end
