(* ===== verification/Client_Samples.thy ===== *)
theory Client_Samples
  imports Samples Informer Fake_Watch List_Options
begin

text \<open>
  The sample notebook as the notebook informer, the fake clientset and the generated client meet
  it.
\<close>

section \<open>The informer\<close>

definition listedInformer :: "threadSafeMap informer" where
  "listedInformer = newNotebookInformer\<lparr>inf_fifo :=
     snd (fifo_Replace storeIndexer (inf_store newNotebookInformer) [IObject (ONotebook sampleNotebook)]
       (inf_fifo newNotebookInformer))\<rparr>"

lemma stored_sample_key: "MetaNamespaceKey (nb_Meta sampleNotebook) = ''ns/nb''"
  by (simp add: MetaNamespaceKey_def sampleNotebook_def)

lemma sample_event: "notebook_event (Listed [ONotebook sampleNotebook]) newNotebookInformer"
  by (simp add: apiNotebook_def plainNames_def sampleNotebook_def list_safe_def newNotebookInformer_def
      newInformerOn_def NewDeltaFIFO_def willObjectBeDeleted_def deltasAt_def)

lemma listed_reach: "informer_reach listedInformer [''ns/nb'' \<mapsto> ONotebook sampleNotebook]"
  using informer_reach.step [OF informer_reach.start sample_event, of listedInformer]
  by (simp add: listedInformer_def stored_sample_key)

lemma listed_queue: "df_queue (inf_fifo listedInformer) = [''ns/nb'']"
  by (simp add: listedInformer_def newNotebookInformer_def newInformerOn_def fifo_defs Let_def
      storeIndexer_def tsm_ListKeys_def NewThreadSafeStore_def stored_sample_key)

theorem informer_refines_witness:
  "\<exists>i'. inf_run storeIndexer KNotebook [Popped] listedInformer = Returns i'
     \<and> objectAt (inf_store i') = [''ns/nb'' \<mapsto> ONotebook sampleNotebook]
     \<and> hearAll (inf_sent listedInformer) (\<lambda>_. None) = Some (objectAt (inf_store listedInformer))"
  using informer_refines [OF listed_reach] by (simp add: listed_queue)

lemma handled_reach:
  "\<exists>i. informer_reach i [''ns/nb'' \<mapsto> ONotebook sampleNotebook]
     \<and> tsm_items (inf_store i) = [(''ns/nb'', IObject (ONotebook sampleNotebook))]"
proof -
  obtain s f where first: "inf_run storeIndexer KNotebook [Listed [ONotebook sampleNotebook], Popped] newNotebookInformer
      = Returns \<lparr>inf_fifo = f, inf_store = s, inf_sent = [(Added (IObject (ONotebook sampleNotebook)), True)]\<rparr>"
    and items: "tsm_items s = [(''ns/nb'', IObject (ONotebook sampleNotebook))]"
    using first_list [of "ONotebook sampleNotebook"] by (auto simp: stored_sample_key simp del: inf_run.simps)
  let ?i = "\<lparr>inf_fifo = f, inf_store = s, inf_sent = [(Added (IObject (ONotebook sampleNotebook)), True)]\<rparr>"
  have "inf_run storeIndexer KNotebook [Popped] listedInformer = Returns ?i"
    using first by (simp add: listedInformer_def del: inf_step.simps(6))
  then have "inf_step storeIndexer KNotebook Popped listedInformer = Returns ?i"
    by (cases "inf_step storeIndexer KNotebook Popped listedInformer") (simp_all del: inf_step.simps)
  from informer_reach.step [OF listed_reach _ this] items show ?thesis by auto
qed

theorem listers_exact_witness:
  "\<exists>i. informer_reach i [''ns/nb'' \<mapsto> ONotebook sampleNotebook]
     \<and> notebookNamespaceLister_Get ''ns'' ''nb'' (inf_store i) = Returns (Inr sampleNotebook)"
proof -
  obtain i where i: "informer_reach i [''ns/nb'' \<mapsto> ONotebook sampleNotebook]"
    "tsm_items (inf_store i) = [(''ns/nb'', IObject (ONotebook sampleNotebook))]"
    using handled_reach by blast
  have "objectAt (inf_store i) ''ns/nb'' = Some (ONotebook sampleNotebook)"
    using i(2) by (simp add: objectAt_def tsm_Get_def)
  moreover have "nb_Namespace sampleNotebook = ''ns''" "nb_Name sampleNotebook = ''nb''"
    by (simp_all add: sampleNotebook_def)
  moreover obtain r where r: "notebookNamespaceLister_Get ''ns'' ''nb'' (inf_store i) = Returns r"
    "\<forall>n. r = Inr n \<longleftrightarrow> n \<in> {n. \<exists>key. objectAt (inf_store i) key = Some (ONotebook n)}
       \<and> nb_Namespace n = ''ns'' \<and> nb_Name n = ''nb''"
    using listers_exact [OF i(1), of "''ns''" "''nb''" "\<lambda>_. True"] by auto
  ultimately have "r = Inr sampleNotebook" using r(2) [THEN spec, of sampleNotebook] by blast
  with r(1) i(1) show ?thesis by blast
qed

section \<open>The fake clientset\<close>

lemmas tracker_defs = tracker_add_def notifyWatches_def getWatches_def setObjects_def NewObjectTracker_def
  tracker_Add_def Let_def

theorem fake_clientset_blind_witness:
  "\<exists>t. NewSimpleClientset [ONotebook sampleNotebook] = Returns t
     \<and> FakeNotebooks_Get ''ns'' ''nb'' t = Returns ((None, Some (notFound notebooksResource ''nb'')), t)"
proof -
  have "\<exists>t. NewSimpleClientset [ONotebook sampleNotebook] = Returns t"
    by (simp add: NewSimpleClientset_def tracker_defs goType_kinds notebook_resource notebook_version)
  then obtain t where t: "NewSimpleClientset [ONotebook sampleNotebook] = Returns t" by blast
  then show ?thesis
    using fake_clientset_blind [OF t, of "''ns''" "''nb''" sampleNotebook "\<lambda>_. True" NewObjectTracker] by blast
qed

text \<open>A watch of all namespaces, the creation of the sample notebook, and one that is refused.\<close>

lemma watched_calls:
  "case fake_run [CallCreate ''ns'' sampleNotebook, CallCreate ''ns'' sampleNotebook]
     (snd (FakeNotebooks_Watch [] NewObjectTracker)) of
     Returns t \<Rightarrow> map objectKey (tr_objects t notebooksResource) = [(''ns'', ''nb'')] | _ \<Rightarrow> False"
  by code_simp

theorem fake_watch_mirrors_witness:
  "\<exists>t. fake_run [CallCreate ''ns'' sampleNotebook, CallCreate ''ns'' sampleNotebook]
        (snd (FakeNotebooks_Watch [] NewObjectTracker)) = Returns t
     \<and> dom (fold replay (fw_result (tr_made t ! 0)) (\<lambda>_. None)) = {(''ns'', ''nb'')}"
proof -
  have w: "FakeNotebooks_Watch [] NewObjectTracker = (Inr 0, snd (FakeNotebooks_Watch [] NewObjectTracker))"
    "objectsIn [] (tr_objects NewObjectTracker notebooksResource) = (\<lambda>_. None)"
    by (auto simp: FakeNotebooks_Watch_def InvokesWatch_def watchReaction_def tracker_Watch_def Let_def
        NewObjectTracker_def objectsIn_def)
  obtain t where t: "fake_run [CallCreate ''ns'' sampleNotebook, CallCreate ''ns'' sampleNotebook]
      (snd (FakeNotebooks_Watch [] NewObjectTracker)) = Returns t"
    "map objectKey (tr_objects t notebooksResource) = [(''ns'', ''nb'')]"
    using watched_calls by (auto split: outcome.splits simp del: fake_run.simps)
  from t(2) have "dom (objectsIn [] (tr_objects t notebooksResource)) = {(''ns'', ''nb'')}"
    by (auto simp: objectsIn_def dom_def split: if_splits)
  then show ?thesis
    using fake_watch_mirrors [OF w(1) tracker_inv_new t(1)] t(1) w(2) by simp
qed

section \<open>Requests\<close>


theorem request_unambiguous_witness:
  "requestOf ''ns'' (None :: unit option) () (OpUpdate sampleNotebook :: unit operation)
     \<noteq> requestOf ''ns'' None () (OpUpdateStatus sampleNotebook)"
proof
  let ?r = "requestOf ''ns'' (None :: unit option) () (OpUpdate sampleNotebook :: unit operation)"
    and ?r' = "requestOf ''ns'' (None :: unit option) () (OpUpdateStatus sampleNotebook :: unit operation)"
  assume same: "?r = ?r'"
  have "addressed ''ns'' (OpUpdate sampleNotebook :: unit operation)"
    "addressed ''ns'' (OpUpdateStatus sampleNotebook :: unit operation)"
    by (simp_all add: addressed_def segment_def sampleNotebook_def)
  then have "rq_err ?r = None" "rq_err ?r' = None" by (simp_all only: request_sent(1))
  with request_unambiguous [OF this] show False using same by simp
qed

section \<open>Queries\<close>

theorem list_options_encoded_witness:
  "encodeListOptions emptyListOptions \<noteq> encodeListOptions (emptyListOptions\<lparr>lo_TimeoutSeconds := Some 0\<rparr>)"
proof
  assume "encodeListOptions emptyListOptions = encodeListOptions (emptyListOptions\<lparr>lo_TimeoutSeconds := Some 0\<rparr>)"
  from list_options_encoded [OF this] show False by (simp add: emptyListOptions_def)
qed

theorem reflector_requests_witness:
  "queryOf (WatchFunc setWatch
      (defaultInformer (Jupyter_V1_Notebooks (NewFilteredSharedInformerFactory jupyterRESTClient 30 ''ns'' None))
        jupyterRESTClient 30)
      (reflectorWatchOptions (newReflector\<lparr>rf_resourceVersion := ''7''\<rparr>) 300) :: (ListOptions, unit) Request)
     = [(''watch'', ''true''), (''resourceVersion'', ''7''), (''timeoutSeconds'', ''300'')]"
proof -
  let ?st = "NewFilteredSharedInformerFactory jupyterRESTClient 30 ''ns'' None :: ListOptions factory_state"
  have "segment (sif_namespace (fs_factory ?st))" "sif_tweakListOptions (fs_factory ?st) = None"
    by (simp_all add: NewFilteredSharedInformerFactory_def NewSharedInformerFactoryWithOptions_def
        WithNamespace_def WithTweakListOptions_def segment_def)
  moreover have "Itoa 300 = ''300''" by code_simp
  ultimately show ?thesis
    using reflector_requests [where 'b = unit and r = "newReflector\<lparr>rf_resourceVersion := ''7''\<rparr>" and st = ?st and d = 30 and t = 300] by simp
qed

end
