(* ===== verification/Loop_Samples.thy ===== *)
theory Loop_Samples
  imports Operator_Server Witnesses
begin

text \<open>
  A whole run of the operator: a notebook without a TLS mode is there when the operator starts, a
  resync comes before the handler has run, one worker stores the notebook's defaults.
\<close>

section \<open>The states\<close>

abbreviation period :: int where
  "period \<equiv> int resyncPeriod"

abbreviation rawKey :: string where
  "rawKey \<equiv> ''ns/nb''"

abbreviation rawObject :: object where
  "rawObject \<equiv> ONotebook rawNotebook"

definition freshInformer :: "threadSafeMap informer" where
  "freshInformer = newInformerOn (NewThreadSafeStore [(NamespaceIndex, MetaNamespaceIndexFunc)])"

definition emptyInformer :: "threadSafeMap informer" where
  "emptyInformer = freshInformer\<lparr>inf_fifo := NewDeltaFIFO\<lparr>df_populated := True\<rparr>\<rparr>"

definition rawDelta :: Delta where
  "rawDelta = \<lparr>d_Type = DeltaSync, d_Object = IObject rawObject\<rparr>"

definition rawFifo :: "bool \<Rightarrow> int \<Rightarrow> DeltaFIFO" where
  "rawFifo full cnt =
     \<lparr>df_items = (if full then [rawKey \<mapsto> [rawDelta]] else Map.empty), df_queue = (if full then [rawKey] else []),
      df_populated = True, df_initialPopulationCount = cnt\<rparr>"

definition rawStore :: threadSafeMap where
  "rawStore = \<lparr>tsm_items = [(rawKey, IObject rawObject)],
     tsm_indexers = [(NamespaceIndex, MetaNamespaceIndexFunc)], tsm_indices = [(NamespaceIndex, [(''ns'', [rawKey])])]\<rparr>"

definition listener :: "notification list \<Rightarrow> int \<Rightarrow> sharedProcessor" where
  "listener ns next_resync =
     \<lparr>sp_listeners = [\<lparr>pl_pendingNotifications = ns, pl_requestedResyncPeriod = period,
        pl_resyncPeriod = period, pl_nextResync = next_resync\<rparr>], sp_syncingListeners = [0]\<rparr>"

definition nobody :: sharedProcessor where
  "nobody = \<lparr>sp_listeners = [], sp_syncingListeners = []\<rparr>"

definition sharedBy :: "sharedProcessor \<Rightarrow> sharedIndexInformer" where
  "sharedBy p = (NewSharedIndexInformer period)\<lparr>si_started := True, si_processor := p\<rparr>"

text \<open>
  The notebook informer's part, then which other informers have listed (nothing) and which have
  their handler.
\<close>

definition mk ::
  "threadSafeMap informer \<Rightarrow> Delta list \<Rightarrow> bool \<Rightarrow> sharedProcessor \<Rightarrow> unit proc \<Rightarrow> ctl \<Rightarrow> kind set \<Rightarrow> kind set \<Rightarrow> operator" where
  "mk i ds due p h c A B =
     \<lparr>op_inf = (\<lambda>kd. if kd = KNotebook then i else if kd \<in> A then emptyInformer else freshInformer),
      op_handling = (\<lambda>kd. if kd = KNotebook then ds else []),
      op_due = (\<lambda>kd. kd = KNotebook \<and> due),
      op_shared = (\<lambda>kd. sharedBy (if kd = KNotebook then p else if kd \<in> B then listener [] period else nobody)),
      op_handler = (\<lambda>kd. if kd = KNotebook then h else Done ()),
      op_ctl = c\<rparr>"

lemma mk_start: "op_start 1 0 = mk freshInformer [] False nobody (Done ()) (startWorkers 1 0) {} {}"
  by (simp add: op_start_def mk_def freshInformer_def sharedBy_def nobody_def NewSharedIndexInformer_def fun_eq_iff)

section \<open>The steps\<close>

abbreviation opStep :: "operator \<Rightarrow> op_label \<Rightarrow> operator \<Rightarrow> bool" where
  "opStep \<equiv> op_step sampleCrypto sampleConfig"

lemma raw_key [simp]: "MetaNamespaceKey (nb_Meta rawNotebook) = rawKey"
  using raw_fields by (simp add: MetaNamespaceKey_def)

lemma raw_event: "notebook_event (Listed [rawObject]) freshInformer"
  using raw_fields
  by (simp add: apiNotebook_def plainNames_def list_safe_def freshInformer_def newInformerOn_def
      NewDeltaFIFO_def willObjectBeDeleted_def deltasAt_def)

lemmas fifo_eval = fifo_Replace_def fifo_Resync_def queueAction_def deltasAt_def dedupDeltas_def
  willObjectBeDeleted_def NewDeltaFIFO_def popKey_def fifo_Pop.simps

lemmas state_eval = freshInformer_def emptyInformer_def newInformerOn_def rawFifo_def rawStore_def
  rawDelta_def storeIndexer_def tsm_ListKeys_def tsm_Get_def NewThreadSafeStore_def

text \<open>The steps of the machine on such states.\<close>

lemma told_mk:
  assumes "\<not> crashed c" "inf_step storeIndexer KNotebook e i = Returns i'" "notebook_event e i"
    and "e \<noteq> Popped" "e \<noteq> Resynced"
  shows "opStep (mk i [] due p h c A B) (Told KNotebook e) (mk i' [] due p h c A B)"
  by (rule back_subst [of "opStep _ _", OF op_step.told [where kd = KNotebook and i = i']])
     (use assms in \<open>auto simp: mk_def fun_eq_iff\<close>)

lemma raw_listed:
  "inf_step storeIndexer KNotebook (Listed [rawObject]) freshInformer = Returns (freshInformer\<lparr>inf_fifo := rawFifo True 1\<rparr>)"
  "inf_step storeIndexer KNotebook (Listed [rawObject]) emptyInformer = Returns (freshInformer\<lparr>inf_fifo := rawFifo True 0\<rparr>)"
  by (simp_all add: fifo_eval state_eval)

lemma listed_empty:
  assumes "kd \<noteq> KNotebook" "\<not> crashed c" "kd \<notin> A"
  shows "opStep (mk i ds due p h c A B) (Told kd (Listed [])) (mk i ds due p h c (insert kd A) B)"
proof -
  have "inf_step storeIndexer kd (Listed []) freshInformer = Returns emptyInformer"
    by (simp add: fifo_eval state_eval)
  then show ?thesis
    by (intro back_subst [of "opStep _ _", OF op_step.told [where kd = kd and i = emptyInformer]])
       (use assms in \<open>auto simp: mk_def fun_eq_iff\<close>)
qed

lemma taken_mk:
  assumes "\<not> crashed c" "fifo_Pop (inf_fifo i) = Some (item, f)"
  shows "opStep (mk i [] due p h c A B) (Taken KNotebook) (mk (i\<lparr>inf_fifo := f\<rparr>) item due p h c A B)"
  by (rule back_subst [of "opStep _ _", OF op_step.taken [where kd = KNotebook and item = item and f = f]])
     (use assms in \<open>auto simp: mk_def fun_eq_iff\<close>)

lemma handled_mk:
  assumes "\<not> crashed c" "HandleDeltas storeIndexer [d] (inf_store i) = Returns (None, st, ns)"
  shows "opStep (mk i (d # ds) due p h c A B) (Handled KNotebook ns)
    (mk (i\<lparr>inf_store := st, inf_sent := inf_sent i @ ns\<rparr>) ds due (distributeAll ns p) h c A B)"
  by (rule back_subst [of "opStep _ _",
        OF op_step.handled [where kd = KNotebook and d = d and ds = ds and err = None and st = st and sent = ns]])
     (use assms in \<open>auto simp: mk_def setProcessor_def sharedBy_def fun_eq_iff simp del: HandleDeltas.simps\<close>)

lemma ticked_mk:
  assumes "\<not> crashed c" "shouldResync t p = (due, p')"
  shows "opStep (mk i ds False p h c A B) (Ticked KNotebook t) (mk i ds due p' h c A B)"
  by (rule back_subst [of "opStep _ _", OF op_step.ticked [where kd = KNotebook and due = due and p = p']])
     (use assms in \<open>auto simp: mk_def setProcessor_def sharedBy_def fun_eq_iff\<close>)

lemma resyncs_mk:
  assumes "\<not> crashed c" "inf_step storeIndexer KNotebook Resynced i = Returns i'"
  shows "opStep (mk i [] True p h c A B) (Resyncs KNotebook) (mk i' [] False p h c A B)"
  by (rule back_subst [of "opStep _ _", OF op_step.resyncs [where kd = KNotebook and i = i']])
     (use assms in \<open>auto simp: mk_def fun_eq_iff\<close>)

lemma notified_mk:
  assumes "\<not> crashed c" "p = \<lparr>sp_listeners = [l], sp_syncingListeners = b\<rparr>" "pl_pop l = Some (x, l')"
  shows "opStep (mk i ds due p (Done ()) c A B) (Notified KNotebook)
    (mk i ds due \<lparr>sp_listeners = [l'], sp_syncingListeners = b\<rparr> (notify KNotebook x) c A B)"
  by (rule back_subst [of "opStep _ _",
        OF op_step.notified [where kd = KNotebook and l = l and l' = l' and x = x]])
     (use assms in \<open>auto simp: mk_def setProcessor_def sharedBy_def fun_eq_iff\<close>)

lemma enqueues_mk:
  assumes "\<not> crashed c"
  shows "opStep (mk i ds due p (enqueueKey k) c A B) (Enqueues KNotebook k)
    (mk i ds due p (Done ()) (c\<lparr>queue := AddNow k (queue c)\<rparr>) A B)"
  by (rule back_subst [of "opStep _ _", OF op_step.enqueues [where kd = KNotebook and f = "\<lambda>_. Done ()"]])
     (use assms in \<open>auto simp: mk_def enqueueKey_def fun_eq_iff intro: work_step.enqueued\<close>)

definition others :: "kind set" where
  "others = set watched - {KNotebook}"

lemma works_mk:
  assumes "work_step sampleCrypto sampleConfig c l c'" "\<forall>k. l \<noteq> Enqueued k" "sp_listeners p \<noteq> []"
    and "\<forall>w a r. l = Acted w a r \<longrightarrow> answers (mk i ds due p h c others others) a r"
  shows "opStep (mk i ds due p h c others others) (Works l) (mk i ds due p h c' others others)"
  by (rule back_subst [of "opStep _ _", OF op_step.works [where c = c']])
     (use assms in \<open>auto simp: mk_def allJoined_def others_def sharedBy_def listener_def fun_eq_iff\<close>)

lemma joined_mk:
  assumes "\<not> crashed c" "fifo_HasSynced (inf_fifo i)"
  shows "opStep (mk i [] due nobody h c others B) (Joined KNotebook 0)
    (mk i [] due (listener (map Added (tsm_List (inf_store i))) period) h c others B)"
proof -
  have fold: "fold (\<lambda>item. pl_add (Added item)) items l =
      l\<lparr>pl_pendingNotifications := pl_pendingNotifications l @ map Added items\<rparr>" for items l
    by (induction items arbitrary: l) (simp_all add: pl_add_def)
  have "AddEventHandler (tsm_List (inf_store i)) 0 (sharedBy nobody) =
      sharedBy (listener (map Added (tsm_List (inf_store i))) period)"
    by (simp add: AddEventHandler_def AddEventHandlerWithResyncPeriod_def agreePeriod_def sharedBy_def
        NewSharedIndexInformer_def nobody_def listener_def addListener_def newProcessListener_def
        determineNextResync_def determineResyncPeriod_def resyncPeriod_def Minute_def Second_def minimumResyncPeriod_def fold)
  then show ?thesis
    by (intro back_subst [of "opStep _ _", OF op_step.joined [where kd = KNotebook]])
       (use assms in \<open>auto simp: mk_def watched_def others_def sharedBy_def nobody_def fun_eq_iff
          emptyInformer_def fifo_HasSynced_def NewDeltaFIFO_def\<close>)
qed

lemma joined_other:
  assumes "\<not> crashed c" "fifo_HasSynced (inf_fifo i)" "kd \<in> others - B"
  shows "opStep (mk i ds due p h c others B) (Joined kd 0) (mk i ds due p h c others (insert kd B))"
proof -
  have "AddEventHandler [] 0 (sharedBy nobody) = sharedBy (listener [] period)"
    by (simp add: AddEventHandler_def AddEventHandlerWithResyncPeriod_def agreePeriod_def sharedBy_def
        NewSharedIndexInformer_def nobody_def listener_def addListener_def newProcessListener_def
        determineNextResync_def determineResyncPeriod_def resyncPeriod_def Minute_def Second_def minimumResyncPeriod_def)
  then show ?thesis
    by (intro back_subst [of "opStep _ _", OF op_step.joined [where kd = kd]])
       (use assms in \<open>auto simp: mk_def watched_def others_def sharedBy_def nobody_def fun_eq_iff
          tsm_List_def state_eval fifo_HasSynced_def NewDeltaFIFO_def\<close>)
qed

section \<open>The parts of the run\<close>

lemma raw_pop: "fifo_Pop (rawFifo True n) = Some ([rawDelta], rawFifo False (if n > 0 then n - 1 else n))"
  by (simp add: rawFifo_def fifo_Pop.simps popKey_def fun_eq_iff)

lemma raw_added:
  "HandleDeltas storeIndexer [rawDelta] (inf_store freshInformer) = Returns (None, rawStore, [(Added (IObject rawObject), True)])"
  by (simp add: state_eval cache_Get_def cache_Add_def tsm_Add_def updateIndices_def
      MetaNamespaceIndexFunc_def indexOf_def indexSet_def distribute_def mput_def)

lemma raw_updated:
  "HandleDeltas storeIndexer [rawDelta] rawStore =
     Returns (None, rawStore, [(Updated (IObject rawObject) (IObject rawObject), True)])"
  by (simp add: state_eval cache_Get_def cache_Update_def tsm_Update_def updateIndices_def
      MetaNamespaceIndexFunc_def indexOf_def indexSet_def distribute_def mput_def NamespaceIndex_def)

lemma raw_resync:
  "inf_step storeIndexer KNotebook Resynced \<lparr>inf_fifo = rawFifo False 0, inf_store = rawStore, inf_sent = ns\<rparr> =
     Returns \<lparr>inf_fifo = rawFifo True 0, inf_store = rawStore, inf_sent = ns\<rparr>"
  by (simp add: fifo_eval state_eval syncKey_def)

definition rawRequest :: request where
  "rawRequest = Update ''ns'' (ONotebook (setKind (snd (SetDefaults rawNotebook))))"

lemma raw_pass:
  "\<exists>f g. sync sampleCrypto sampleDraw sampleConfig rawKey = Act (ALookup KNotebook rawKey) f
     \<and> f (Found (Some rawObject)) = Act (ARequest rawRequest) g \<and> g (Replied None) = Done None"
proof -
  have "metaKey (''ns'', ''nb'') = rawKey" by (simp add: metaKey_def MetaNamespaceKey_def)
  then have "SplitMetaNamespaceKey rawKey = Inr (''ns'', ''nb'')" using sample_key by simp
  moreover have "nb_Namespace (setKind (snd (SetDefaults rawNotebook))) = ''ns''" by code_simp
  ultimately show ?thesis
    by (simp add: sync_def NotebookLister_Get_def lister_Get_def lookup_def listerKey_def
        syncNotebook_branches raw_valid updateDefaults_def request_def rawRequest_def)
qed

text \<open>The workers with the key queued, and after the pass.\<close>

definition queuedCtl :: ctl where
  "queuedCtl = (startWorkers 1 0)\<lparr>queue := AddNow rawKey (queue (startWorkers 1 0))\<rparr>"

definition doneCtl :: ctl where
  "doneCtl = queuedCtl\<lparr>queue := Finish rawKey (Forget rawKey (snd (the (GetNext (queue queuedCtl)))))\<rparr>"

lemmas ctl_eval = queuedCtl_def startWorkers_def NewNamedRateLimitingQueue_def AddNow_def Add_def New_def
  GetNext_def Get_def

lemma queued_once: "queuedCtl\<lparr>queue := AddNow rawKey (queue queuedCtl)\<rparr> = queuedCtl"
  by (simp add: ctl_eval Let_def)

lemma done_rest:
  "\<not> crashed doneCtl" "\<not> shutting (queue doneCtl)" "wq_dirty (base (queue doneCtl)) = {}"
  "inbox (queue doneCtl) = []" "waiting (queue doneCtl) = []" "workers doneCtl = [Idle]"
  by (simp_all add: doneCtl_def ctl_eval Let_def Finish_def Forget_def DoneItem_def shutting_def)

abbreviation rawWork :: "label list" where
  "rawWork \<equiv> [Took 0 rawKey, Acted 0 (ALookup KNotebook rawKey) (Found (Some rawObject)),
     Acted 0 (ARequest rawRequest) (Replied None), Succeeded 0 rawKey, Finished 0 rawKey]"

definition ran :: "operator \<Rightarrow> op_label list \<Rightarrow> bool" where
  "ran s tr \<longleftrightarrow> (\<exists>v M. op_reach sampleCrypto sampleConfig 1 0 s v M tr)"

lemma ran_step: "opStep s l s' \<Longrightarrow> ran s tr \<Longrightarrow> ran s' (tr @ [l])"
  by (auto simp: ran_def intro: op_reach.step)

lemma ran_works:
  assumes "ran (mk i ds due p h queuedCtl others others) tr" "sp_listeners p \<noteq> []"
    and "objectAt (inf_store i) rawKey = Some rawObject"
  shows "ran (mk i ds due p h doneCtl others others) (tr @ map Works rawWork)"
proof -
  obtain f g where pass: "sync sampleCrypto sampleDraw sampleConfig rawKey = Act (ALookup KNotebook rawKey) f"
    "f (Found (Some rawObject)) = Act (ARequest rawRequest) g" "g (Replied None) = Done None"
    using raw_pass by blast
  obtain q where q: "GetNext (queue queuedCtl) = Some (Item rawKey, q)"
    by (simp add: ctl_eval Let_def)
  let ?c = "\<lambda>p. queuedCtl\<lparr>queue := q, workers := [Syncing rawKey p]\<rparr>"
  have ws: "workers queuedCtl = [Idle]" "\<not> crashed queuedCtl" by (simp_all add: ctl_eval Let_def)
  let ?w = "work_step sampleCrypto sampleConfig"
  have w1: "?w queuedCtl (Took 0 rawKey) (?c (sync sampleCrypto sampleDraw sampleConfig rawKey))"
    using work_step.take [of queuedCtl 0 rawKey q sampleCrypto sampleConfig sampleDraw] q ws by simp
  have w2: "?w (?c (sync sampleCrypto sampleDraw sampleConfig rawKey))
      (Acted 0 (ALookup KNotebook rawKey) (Found (Some rawObject))) (?c (Act (ARequest rawRequest) g))"
    using work_step.act [of "?c (Act (ALookup KNotebook rawKey) f)" 0 rawKey "ALookup KNotebook rawKey" f
        "Found (Some rawObject)" sampleCrypto sampleConfig] pass ws by simp
  have w3: "?w (?c (Act (ARequest rawRequest) g)) (Acted 0 (ARequest rawRequest) (Replied None)) (?c (Done None))"
    using work_step.act [of "?c (Act (ARequest rawRequest) g)" 0 rawKey "ARequest rawRequest" g
        "Replied None" sampleCrypto sampleConfig] pass ws by simp
  let ?d = "queuedCtl\<lparr>queue := Forget rawKey q, workers := [Finishing rawKey]\<rparr>"
  have w4: "?w (?c (Done None)) (Succeeded 0 rawKey) ?d"
    using work_step.succeed [of "?c (Done None)" 0 rawKey sampleCrypto sampleConfig] ws by simp
  have "?w ?d (Finished 0 rawKey) (queuedCtl\<lparr>queue := Finish rawKey (Forget rawKey q), workers := [Idle]\<rparr>)"
    using work_step.finish [of ?d 0 rawKey sampleCrypto sampleConfig] ws by simp
  moreover have "queuedCtl\<lparr>queue := Finish rawKey (Forget rawKey q), workers := [Idle]\<rparr> = doneCtl"
    using q ws by (simp add: doneCtl_def)
  ultimately have w5: "?w ?d (Finished 0 rawKey) doneCtl" by simp
  have look: "answers (mk i ds due p h c others others) (ALookup KNotebook rawKey) (Found (Some rawObject))"
    "answers (mk i ds due p h c others others) (ARequest rawRequest) (Replied None)" for c
    using assms(3) by (simp_all add: answers_def mk_def)
  note step = ran_step [OF works_mk [OF _ _ assms(2)]]
  from step [OF w5 _ _ step [OF w4 _ _ step [OF w3 _ _ step [OF w2 _ _ step [OF w1 _ _ assms(1)]]]]]
  show ?thesis using look by simp
qed

section \<open>The run\<close>

abbreviation rawInformer :: "bool \<Rightarrow> (notification \<times> bool) list \<Rightarrow> threadSafeMap informer" where
  "rawInformer full ns \<equiv> \<lparr>inf_fifo = rawFifo full 0, inf_store = rawStore, inf_sent = ns\<rparr>"

abbreviation rawAdded :: notification where
  "rawAdded \<equiv> Added (IObject rawObject)"

abbreviation rawUpdated :: notification where
  "rawUpdated \<equiv> Updated (IObject rawObject) (IObject rawObject)"

definition otherKinds :: "kind list" where
  "otherKinds = [KStatefulSet, KSecret, KService, KIngress]"

lemma others_kinds: "others = set otherKinds" "distinct otherKinds" "KNotebook \<notin> set otherKinds"
  by (auto simp: others_def watched_def otherKinds_def)

lemma ran_listed:
  assumes "ran (mk i ds due p h c {} B) tr" "\<not> crashed c"
  shows "ran (mk i ds due p h c others B) (tr @ map (\<lambda>kd. Told kd (Listed [])) otherKinds)"
proof -
  have "ran (mk i ds due p h c (set ks \<union> A) B) (tr' @ map (\<lambda>kd. Told kd (Listed [])) ks)"
    if "distinct ks" "KNotebook \<notin> set ks" "set ks \<inter> A = {}" "ran (mk i ds due p h c A B) tr'" for ks A tr'
    using that
  proof (induction ks arbitrary: A tr')
    case (Cons k ks)
    then have "ran (mk i ds due p h c (insert k A) B) (tr' @ [Told k (Listed [])])"
      using assms(2) by (intro ran_step [OF listed_empty]) auto
    with Cons.IH [of "insert k A" "tr' @ [Told k (Listed [])]"] Cons.prems show ?case by simp
  qed simp
  from this [OF others_kinds(2,3) _ assms(1)] show ?thesis by (simp add: others_kinds(1))
qed

lemma ran_joined:
  assumes "ran (mk i ds due p h c others {}) tr" "\<not> crashed c" "fifo_HasSynced (inf_fifo i)"
  shows "ran (mk i ds due p h c others others) (tr @ map (\<lambda>kd. Joined kd 0) otherKinds)"
proof -
  have "ran (mk i ds due p h c others (set ks \<union> B)) (tr' @ map (\<lambda>kd. Joined kd 0) ks)"
    if "distinct ks" "set ks \<subseteq> others" "set ks \<inter> B = {}" "ran (mk i ds due p h c others B) tr'" for ks B tr'
    using that
  proof (induction ks arbitrary: B tr')
    case (Cons k ks)
    then have "ran (mk i ds due p h c others (insert k B)) (tr' @ [Joined k 0])"
      using assms(2,3) by (intro ran_step [OF joined_other]) auto
    with Cons.IH [of "insert k B" "tr' @ [Joined k 0]"] Cons.prems show ?case by simp
  qed simp
  from this [OF others_kinds(2) _ _ assms(1)] show ?thesis by (simp add: others_kinds(1))
qed

abbreviation beforeResync :: "op_label list" where
  "beforeResync \<equiv> [Told KNotebook (Listed [rawObject])] @ map (\<lambda>kd. Told kd (Listed [])) otherKinds
     @ [Taken KNotebook, Handled KNotebook [(rawAdded, True)], Joined KNotebook 0]
     @ map (\<lambda>kd. Joined kd 0) otherKinds @ [Ticked KNotebook period]"

abbreviation afterResync :: "op_label list" where
  "afterResync \<equiv> [Taken KNotebook, Handled KNotebook [(rawUpdated, True)],
     Notified KNotebook, Enqueues KNotebook rawKey, Notified KNotebook, Enqueues KNotebook rawKey]
     @ map Works rawWork"

abbreviation restState :: operator where
  "restState \<equiv> mk (rawInformer False [(rawAdded, True), (rawUpdated, True)]) [] False
     (listener [] (2 * period)) (Done ()) doneCtl others others"

lemma before_ran:
  "ran (mk (rawInformer False [(rawAdded, True)]) [] True (listener [rawAdded] (2 * period)) (Done ())
     (startWorkers 1 0) others others) beforeResync"
proof -
  let ?c = "startWorkers 1 0"
  have c: "\<not> crashed ?c" by (simp add: startWorkers_def)
  have "ran (mk freshInformer [] False nobody (Done ()) ?c {} {}) []"
    using op_reach.start [of sampleCrypto sampleConfig 1 0] unfolding mk_start ran_def by blast
  from ran_listed [OF ran_step [OF told_mk [OF c raw_listed(1) raw_event] this] c]
  have "ran (mk (freshInformer\<lparr>inf_fifo := rawFifo True 1\<rparr>) [] False nobody (Done ()) ?c others {})
      ([Told KNotebook (Listed [rawObject])] @ map (\<lambda>kd. Told kd (Listed [])) otherKinds)" by simp
  from ran_step [OF taken_mk [OF c] this] raw_pop [of 1]
  have "ran (mk (freshInformer\<lparr>inf_fifo := rawFifo False 0\<rparr>) [rawDelta] False nobody (Done ()) ?c others {})
      ([Told KNotebook (Listed [rawObject])] @ map (\<lambda>kd. Told kd (Listed [])) otherKinds @ [Taken KNotebook])"
    by simp
  from ran_step [OF handled_mk [OF c] this] raw_added
  have "ran (mk (rawInformer False [(rawAdded, True)]) [] False nobody (Done ()) ?c others {})
      ([Told KNotebook (Listed [rawObject])] @ map (\<lambda>kd. Told kd (Listed [])) otherKinds
        @ [Taken KNotebook, Handled KNotebook [(rawAdded, True)]])"
    by (simp add: freshInformer_def newInformerOn_def nobody_def sp_distribute_def del: HandleDeltas.simps)
  moreover have synced: "fifo_HasSynced (inf_fifo (rawInformer False [(rawAdded, True)]))"
    by (simp add: rawFifo_def fifo_HasSynced_def)
  moreover have "tsm_List rawStore = [IObject rawObject]" by (simp add: rawStore_def tsm_List_def)
  ultimately have "ran (mk (rawInformer False [(rawAdded, True)]) [] False (listener [rawAdded] period) (Done ()) ?c others {})
      ([Told KNotebook (Listed [rawObject])] @ map (\<lambda>kd. Told kd (Listed [])) otherKinds
        @ [Taken KNotebook, Handled KNotebook [(rawAdded, True)], Joined KNotebook 0])"
    using ran_step [OF joined_mk [OF c synced]] by fastforce
  from ran_joined [OF this c synced]
  have "ran (mk (rawInformer False [(rawAdded, True)]) [] False (listener [rawAdded] period) (Done ()) ?c others others)
      ([Told KNotebook (Listed [rawObject])] @ map (\<lambda>kd. Told kd (Listed [])) otherKinds
        @ [Taken KNotebook, Handled KNotebook [(rawAdded, True)], Joined KNotebook 0] @ map (\<lambda>kd. Joined kd 0) otherKinds)"
    by simp
  moreover have "shouldResync period (listener [rawAdded] period) = (True, listener [rawAdded] (2 * period))"
    by (simp add: listener_def shouldResync_def pl_shouldResync_def determineNextResync_def resyncPeriod_def Minute_def Second_def)
  ultimately show ?thesis using ran_step [OF ticked_mk [OF c]] by fastforce
qed

lemma rest_ran: "ran restState (beforeResync @ Resyncs KNotebook # afterResync)"
proof -
  let ?c = "startWorkers 1 0" and ?a = "(rawAdded, True)" and ?u = "(rawUpdated, True)"
  have c: "\<not> crashed ?c" "\<not> crashed queuedCtl" by (simp_all add: ctl_eval Let_def)
  let ?l = "\<lambda>ns. listener ns (2 * period)"
  have ran: "ran (mk (rawInformer True [?a]) [] False (?l [rawAdded]) (Done ()) ?c others others)
      (beforeResync @ [Resyncs KNotebook])"
    by (rule ran_step [OF resyncs_mk [OF c(1) raw_resync] before_ran])
  from ran_step [OF taken_mk [OF c(1)] this, of "[rawDelta]" "rawFifo False 0"] raw_pop [of 0]
  have ran: "ran (mk (rawInformer False [?a]) [rawDelta] False (?l [rawAdded]) (Done ()) ?c others others)
      (beforeResync @ [Resyncs KNotebook, Taken KNotebook])" by simp
  from ran_step [OF handled_mk [OF c(1)] this, of rawStore "[?u]"] raw_updated
  have ran: "ran (mk (rawInformer False [?a, ?u]) [] False (?l [rawAdded, rawUpdated]) (Done ()) ?c others others)
      (beforeResync @ [Resyncs KNotebook, Taken KNotebook, Handled KNotebook [?u]])"
    by (simp add: listener_def sp_distribute_def sendTo_def pl_add_def del: HandleDeltas.simps)
  have enq: "notify KNotebook rawAdded = enqueueKey rawKey" "notify KNotebook rawUpdated = enqueueKey rawKey"
    by (simp_all add: notify_woken as_Notebook_def del: notify.simps)
  have pop: "pl_pop \<lparr>pl_pendingNotifications = x # xs, pl_requestedResyncPeriod = r, pl_resyncPeriod = q, pl_nextResync = m\<rparr>
      = Some (x, \<lparr>pl_pendingNotifications = xs, pl_requestedResyncPeriod = r, pl_resyncPeriod = q, pl_nextResync = m\<rparr>)"
    for x xs r q m by (simp add: pl_pop_def)
  have note_: "ran (mk i [] False (?l xs) (Done ()) queuedCtl others others) (tr @ [Notified KNotebook, Enqueues KNotebook rawKey])"
    if "ran (mk i [] False (?l (x # xs)) (Done ()) c0 others others) tr" "notify KNotebook x = enqueueKey rawKey"
      "\<not> crashed c0" "c0\<lparr>queue := AddNow rawKey (queue c0)\<rparr> = queuedCtl" for i x xs c0 tr
  proof -
    from ran_step [OF notified_mk [OF that(3) _ pop] that(1)] that(2)
    have "ran (mk i [] False (?l xs) (enqueueKey rawKey) c0 others others) (tr @ [Notified KNotebook])"
      by (simp add: listener_def)
    from ran_step [OF enqueues_mk [OF that(3)] this] that(4) show ?thesis by simp
  qed
  from note_ [OF ran enq(1) c(1)]
  have "ran (mk (rawInformer False [?a, ?u]) [] False (?l [rawUpdated]) (Done ()) queuedCtl others others)
      (beforeResync @ [Resyncs KNotebook, Taken KNotebook, Handled KNotebook [?u], Notified KNotebook, Enqueues KNotebook rawKey])"
    by (simp add: queuedCtl_def)
  from note_ [OF this enq(2) c(2) queued_once]
  have "ran (mk (rawInformer False [?a, ?u]) [] False (?l []) (Done ()) queuedCtl others others)
      (beforeResync @ [Resyncs KNotebook, Taken KNotebook, Handled KNotebook [?u], Notified KNotebook, Enqueues KNotebook rawKey,
         Notified KNotebook, Enqueues KNotebook rawKey])"
    by simp
  from ran_works [OF this] show ?thesis
    by (simp add: listener_def rawStore_def objectAt_def tsm_Get_def)
qed

lemma rest_at_rest: "at_rest restState"
  using done_rest by (simp add: at_rest_def mk_def rawFifo_def sharedBy_def listener_def inbox_of_def)

lemma rest_reach:
  obtains M where "op_reach sampleCrypto sampleConfig 1 0 restState [rawKey \<mapsto> rawObject] M
      (beforeResync @ Resyncs KNotebook # afterResync)" "rawKey \<notin> M"
proof -
  obtain v M where run: "op_reach sampleCrypto sampleConfig 1 0 restState v M
      (beforeResync @ Resyncs KNotebook # afterResync)"
    using rest_ran unfolding ran_def by blast
  have at: "storedAt restState KNotebook = [rawKey \<mapsto> rawObject]"
    by (rule ext) (simp add: mk_def rawStore_def objectAt_def tsm_Get_def)
  have "storedAt restState KNotebook = v" "queuedKeys (inf_fifo (op_inf restState KNotebook)) = {}"
    using at_rest_store [OF op_reach_inv [OF run]] rest_at_rest by (simp_all add: at_rest_def)
  moreover from this have "rawKey \<notin> M"
    using repairing_after_resync [OF run] at by (auto simp: repairing_def pendingKey_def mk_def)
  ultimately show thesis using that [of M] run at by simp
qed

lemma raw_names: "''ns'' \<noteq> []" "slashFree (''ns'', ''nb'')" "listerKey ''ns'' ''nb'' = rawKey"
  by (simp_all add: slashFree_def listerKey_def)

text \<open>The API server's history is the creation of the notebook, at revision 1.\<close>

definition sampleVersion :: "nat \<Rightarrow> string" where
  "sampleVersion n = (if n = 0 then ''0'' else replicate n (CHR ''7''))"

definition rawHistory :: history where
  "rawHistory = [(1, \<lparr>we_Type = WatchAddedType, we_Object = WatchObject rawObject\<rparr>)]"

lemma raw_server: "server_ok KNotebook sampleVersion rawHistory"
proof -
  have zero: "sampleVersion n = ''0'' \<longleftrightarrow> n = 0" for n
    by (cases n) (auto simp: sampleVersion_def)
  have "a = b" if eq: "sampleVersion a = sampleVersion b" for a b
  proof (cases "a = 0 \<or> b = 0")
    case True
    with eq zero [of a] zero [of b] show ?thesis by (auto simp: sampleVersion_def)
  next
    case False
    with arg_cong [OF eq, of length] show ?thesis by (simp add: sampleVersion_def)
  qed
  then have "inj sampleVersion" by (rule injI)
  moreover have "om_ResourceVersion (nb_Meta rawNotebook) = ''7''" by (simp add: rawNotebook_def)
  ultimately show ?thesis by (auto simp: server_ok_def change_ok_def rawHistory_def sampleVersion_def)
qed

lemma raw_contents: "contents rawHistory 1 = [rawKey \<mapsto> rawObject]"
  by (simp add: contents_def rawHistory_def change_def)

text \<open>The informer alone: an empty list, a watch from its version on, and the creation as its first event.\<close>

lemma raw_mirror:
  "\<exists>i. mirror sampleVersion rawHistory i [rawKey \<mapsto> rawObject]
     (newReflector\<lparr>rf_place := AtEvents 0 1, rf_resourceVersion := ''7'', rf_lastSyncResourceVersion := ''7''\<rparr>) 1"
proof -
  let ?r = "\<lambda>p v. newReflector\<lparr>rf_place := p, rf_resourceVersion := v, rf_lastSyncResourceVersion := v\<rparr>"
  let ?e = "\<lparr>we_Type = WatchAddedType, we_Object = WatchObject rawObject\<rparr>"
  have new: "newNotebookInformer = freshInformer" by (simp add: newNotebookInformer_def freshInformer_def)
  have "inf_step storeIndexer KNotebook (Listed []) freshInformer = Returns emptyInformer"
    by (simp add: fifo_eval state_eval)
  moreover have "rf_step storeIndexer KNotebook freshInformer (ListAnswer (Inr ([], sampleVersion 0))) newReflector
      = Some (?r AtWatch ''0'', Some (Listed []))"
    using syncWith_ok [of storeIndexer "[]" freshInformer]
    by (auto simp: rf_list_def newReflector_def sampleVersion_def split: prod.splits option.splits)
  moreover have "serves sampleVersion rawHistory 0 (ListAnswer (Inr ([], sampleVersion 0))) 0"
    by (auto simp: contents_def rawHistory_def)
  moreover have "notebook_event (Listed []) freshInformer"
    by (simp add: list_safe_def freshInformer_def newInformerOn_def NewDeltaFIFO_def)
  ultimately have "mirror sampleVersion rawHistory emptyInformer (\<lambda>_. None) (?r AtWatch ''0'') 0"
    using mirror.tells [OF mirror.start [of sampleVersion rawHistory 0, unfolded new]] by fastforce
  then have watch: "mirror sampleVersion rawHistory emptyInformer (\<lambda>_. None) (?r (AtEvents 0 0) ''0'') 0"
    by (rule mirror.quiet [where l = "WatchAnswer ''0'' WatchOpened 0"])
       (auto simp: rf_watch_def sampleVersion_def)
  obtain i where "inf_step storeIndexer KNotebook (WatchAdded rawObject) emptyInformer = Returns i" by simp
  moreover have "rf_step storeIndexer KNotebook emptyInformer (WatchEvent ?e) (?r (AtEvents 0 0) ''0'')
      = Some (?r (AtEvents 0 1) ''7'', Some (WatchAdded rawObject))"
    by (simp add: rf_event_def storeCall_def rawNotebook_def Let_def)
  moreover have "serves sampleVersion rawHistory 0 (WatchEvent ?e) 1"
    by (simp add: nextChange_def rawHistory_def)
  moreover have "notebook_event (WatchAdded rawObject) emptyInformer" by (simp add: plainNames_def)
  ultimately have "mirror sampleVersion rawHistory i (told KNotebook (WatchAdded rawObject) (\<lambda>_. None)) (?r (AtEvents 0 1) ''7'') 1"
    by (rule mirror.tells [OF watch, rotated -1])
  then show ?thesis by auto
qed



theorem events_suffice_witness:
  "\<exists>d es. lastPass rawKey (workLog (beforeResync @ Resyncs KNotebook # afterResync)) =
        Some ((ALookup KNotebook rawKey, Found (Some rawObject)) # es)
     \<and> feed (sync sampleCrypto d sampleConfig rawKey) ((ALookup KNotebook rawKey, Found (Some rawObject)) # es)
        = Some (Done None)"
proof -
  obtain M where "op_reach sampleCrypto sampleConfig 1 0 restState [rawKey \<mapsto> rawObject] M
      (beforeResync @ Resyncs KNotebook # afterResync)" "rawKey \<notin> M" by (rule rest_reach)
  from events_suffice [OF this(1) rest_at_rest raw_names(1,2)] this(2) show ?thesis
    by (simp add: raw_names(3))
qed

section \<open>A list the handler does not hear of\<close>

text \<open>The same notebook, created while the watch is broken, after a tick that came too early.\<close>

abbreviation earlyTick :: int where
  "earlyTick \<equiv> period - 1"

abbreviation unheardRun :: "op_label list" where
  "unheardRun \<equiv> [Told KNotebook (Listed [])] @ map (\<lambda>kd. Told kd (Listed [])) otherKinds
     @ [Joined KNotebook 0] @ map (\<lambda>kd. Joined kd 0) otherKinds
     @ [Ticked KNotebook earlyTick, Told KNotebook (Listed [rawObject]), Taken KNotebook,
        Handled KNotebook [(rawAdded, True)]]"

definition deaf :: sharedProcessor where
  "deaf = (listener [] period)\<lparr>sp_syncingListeners := []\<rparr>"

abbreviation unheardState :: operator where
  "unheardState \<equiv> mk (rawInformer False [(rawAdded, True)]) [] False deaf (Done ()) (startWorkers 1 0) others others"

lemma unheard_ran: "ran unheardState unheardRun"
proof -
  let ?c = "startWorkers 1 0"
  have c: "\<not> crashed ?c" by (simp add: startWorkers_def)
  have none: "inf_step storeIndexer KNotebook (Listed []) freshInformer = Returns emptyInformer"
    "notebook_event (Listed []) freshInformer" "fifo_HasSynced (inf_fifo emptyInformer)"
    by (simp_all add: fifo_eval state_eval list_safe_def fifo_HasSynced_def)
  have raw: "notebook_event (Listed [rawObject]) emptyInformer"
    using raw_fields
    by (simp add: apiNotebook_def plainNames_def list_safe_def emptyInformer_def freshInformer_def
        newInformerOn_def NewDeltaFIFO_def willObjectBeDeleted_def deltasAt_def)
  have "ran (mk freshInformer [] False nobody (Done ()) ?c {} {}) []"
    using op_reach.start [of sampleCrypto sampleConfig 1 0] unfolding mk_start ran_def by blast
  from ran_listed [OF ran_step [OF told_mk [OF c none(1,2)] this] c]
  have "ran (mk emptyInformer [] False nobody (Done ()) ?c others {})
      ([Told KNotebook (Listed [])] @ map (\<lambda>kd. Told kd (Listed [])) otherKinds)" by simp
  moreover have "tsm_List (inf_store emptyInformer) = []" by (simp add: state_eval tsm_List_def)
  ultimately have "ran (mk emptyInformer [] False (listener [] period) (Done ()) ?c others {})
      ([Told KNotebook (Listed [])] @ map (\<lambda>kd. Told kd (Listed [])) otherKinds @ [Joined KNotebook 0])"
    using ran_step [OF joined_mk [OF c none(3)]] by fastforce
  from ran_joined [OF this c none(3)]
  have ran: "ran (mk emptyInformer [] False (listener [] period) (Done ()) ?c others others)
      ([Told KNotebook (Listed [])] @ map (\<lambda>kd. Told kd (Listed [])) otherKinds @ [Joined KNotebook 0]
        @ map (\<lambda>kd. Joined kd 0) otherKinds)" (is "ran _ ?tr") by simp
  have "shouldResync earlyTick (listener [] period) = (False, deaf)"
    by (simp add: deaf_def listener_def shouldResync_def pl_shouldResync_def)
  from ran_step [OF told_mk [OF c raw_listed(2) raw] ran_step [OF ticked_mk [OF c this] ran]]
  have "ran (mk (freshInformer\<lparr>inf_fifo := rawFifo True 0\<rparr>) [] False deaf (Done ()) ?c others others)
      (?tr @ [Ticked KNotebook earlyTick, Told KNotebook (Listed [rawObject])])" by simp
  from ran_step [OF taken_mk [OF c] this, of "[rawDelta]" "rawFifo False 0"] raw_pop [of 0]
  have "ran (mk (freshInformer\<lparr>inf_fifo := rawFifo False 0\<rparr>) [rawDelta] False deaf (Done ()) ?c others others)
      (?tr @ [Ticked KNotebook earlyTick, Told KNotebook (Listed [rawObject]), Taken KNotebook])" by simp
  from ran_step [OF handled_mk [OF c] this] raw_added show ?thesis
    by (simp add: freshInformer_def newInformerOn_def deaf_def sp_distribute_def del: HandleDeltas.simps)
qed

text \<open>C34: A notebook can be stored and seen by nobody until the next resync: when the reflector's timer
  fires less than a period after the handlers joined, no handler hears of resyncs until it fires
  again, and a list in between (the watch had broken) brings its new notebooks as part of a resync;
  the operator comes to rest, its caches complete and all its handlers there, and no pass has been
  made over the notebook.\<close>

theorem relist_unheard:
  "\<exists>s M. op_reach sampleCrypto sampleConfig 1 0 s [rawKey \<mapsto> rawObject] M unheardRun
     \<and> at_rest s \<and> allJoined s
     \<and> storedAt s KNotebook = [rawKey \<mapsto> rawObject] \<and> lastPass rawKey (workLog unheardRun) = None"
proof -
  obtain v M where run: "op_reach sampleCrypto sampleConfig 1 0 unheardState v M unheardRun"
    using unheard_ran unfolding ran_def by blast
  have "at_rest unheardState"
    by (simp add: at_rest_def mk_def rawFifo_def sharedBy_def deaf_def listener_def inbox_of_def
        startWorkers_def NewNamedRateLimitingQueue_def New_def shutting_def)
  moreover have at: "storedAt unheardState KNotebook = [rawKey \<mapsto> rawObject]"
    by (rule ext) (simp add: mk_def rawStore_def objectAt_def tsm_Get_def)
  moreover have "storedAt unheardState KNotebook = v"
    using at_rest_store(1) [OF op_reach_inv [OF run]] \<open>at_rest unheardState\<close> by (simp add: at_rest_def)
  moreover have "allJoined unheardState"
    by (auto simp: allJoined_def mk_def sharedBy_def deaf_def listener_def others_def)
  moreover have "workLog unheardRun = []"
    by (simp add: workLog_def op_work_def otherKinds_def)
  ultimately show ?thesis using run by (intro exI [of _ unheardState] exI [of _ M]) simp
qed

end
