(* ===== verification/Spec2Isabelle.thy ===== *)
theory Spec2Isabelle
  imports Prelude Go_Strings Regexp Validation Meta_Types Notebook_Types Core_Types Deep Template_Diff
    Proc Interleave K8s_Names Service_Util Tls Secret_Util Retry Ingress_Util StatefulSet_Util Rollout
    Reconcilers Notebook_Resources Certificates Sync Handlers Workqueue Rate_Limit Worker
    OpenAPI_Schema OpenAPI_Core_A OpenAPI_Core_B OpenAPI_Core_C OpenAPI_Core_D OpenAPI_Core_E
    OpenAPI_Meta OpenAPI_Notebook OpenAPI_Table Crd OpenAPI_Resolve Startup Startup_Samples
    Deep_Copy Client_Scheme Fake_Client Clientset Thread_Safe_Store Delta_Fifo Informer
    Informer_Factory Operator_Main Shared_Informer Passes Operator_Loop Operator_Resync
    Watch_Events Reflector Operator_Server Generic_Lister Process_Loop List_Options Fake_Watch
    Samples Witnesses Client_Samples Loop_Samples
begin

text \<open>
  A model of the Jupyter operator, the Kubernetes controller of github.com/squat/jupyter-operator,
  and what it guarantees.

  \<^bold>\<open>The program.\<close> A user stores a Notebook; the operator keeps a Service, a Secret, a StatefulSet
  and an Ingress for it. An informer per kind mirrors the API server in a local store and calls
  event handlers, which put the key of the notebook concerned into a rate limited queue. Workers
  take keys from it and run sync, one pass over one notebook: read it from the store, copy it,
  validate it, store its defaults if some were missing, otherwise reconcile the four resources
  and set the notebook's phase. A pass that fails is tried again after a back-off. Before any of
  this the operator makes a CA, registers the custom resource definition of notebooks and waits
  for it and for the informers' stores.

  \<^bold>\<open>What models what.\<close>
  \<^item> \<open>Prelude\<close>, \<open>Go_Strings\<close>, \<open>Regexp\<close>: Go's errors, maps, pointers, strings and anchored regular
    expressions. An error is a value (\<open>go_error\<close>), a panic is \<open>Panics\<close> of \<open>outcome\<close>.
  \<^item> \<open>Meta_Types\<close>, \<open>Core_Types\<close>, \<open>Notebook_Types\<close>, \<open>Validation\<close>: the API objects with the fields the
    operator uses, and types.go and register.go of pkg/apis/jupyter/v1: Validate, SetDefaults,
    AsOwner. \<open>Deep_Copy\<close> has the generated copies and SetDefaults on a memory of cells.
  \<^item> \<open>Proc\<close>, \<open>Interleave\<close>: a routine that talks to the world is the tree of its actions, branching on
    the answers; two goroutines are the interleavings of two trees.
  \<^item> \<open>K8s_Names\<close>, \<open>Service_Util\<close>, \<open>Secret_Util\<close>, \<open>Ingress_Util\<close>, \<open>StatefulSet_Util\<close>: pkg/k8sutil, one
    theory per file. \<open>Deep\<close>, \<open>Template_Diff\<close>: the vendored deep.Equal and what it is applied to.
    \<open>Retry\<close>: the vendored retrier behind the waits. \<open>Tls\<close>, \<open>Certificates\<close>: pkg/tls.
  \<^item> \<open>Reconcilers\<close>, \<open>Sync\<close>, \<open>Handlers\<close>, \<open>Startup\<close>: pkg/controller: reconcilers.go; sync and
    setNotebookPhase; the event handlers with enqueue and resolveOwnerRef; New, Run, createCRD,
    initCRD and wait. \<open>Worker\<close> has the workers over the queue, \<open>Workqueue\<close> and \<open>Rate_Limit\<close> the
    vendored queue itself. \<open>Operator_Main\<close> is cmd/jupyter-operator/main.go.
  \<^item> \<open>OpenAPI_Schema\<close> to \<open>OpenAPI_Table\<close>: every function of openapi_generated.go and their table.
    \<open>Crd\<close>: the vendored crd-validation, which makes the custom resource definition of it;
    \<open>OpenAPI_Resolve\<close>: its recursion over this table.
  \<^item> \<open>Client_Scheme\<close>, \<open>Clientset\<close>, \<open>List_Options\<close>: pkg/clientset and pkg/client, each operation up to the
    request it makes, its list options as query parameters. \<open>Fake_Client\<close>, \<open>Fake_Watch\<close>: the fake
    clientset over the vendored object tracker, and what its watches hear.
  \<^item> \<open>Thread_Safe_Store\<close>, \<open>Generic_Lister\<close>, \<open>Informer_Factory\<close>: an informer's store with its indices,
    the notebook lister (pkg/listers) and the generic one; the generated factory (pkg/informers).
  \<^item> \<open>Watch_Events\<close>, \<open>Reflector\<close>, \<open>Delta_Fifo\<close>, \<open>Process_Loop\<close>, \<open>Informer\<close>, \<open>Shared_Informer\<close>: the
    vendored informer: its reflector (ListAndWatch), the queue the reflector fills, the loop that
    drains it, the machine of the two, the listeners and their resyncs.
  \<^item> \<open>Passes\<close>, \<open>Operator_Loop\<close>, \<open>Operator_Resync\<close>, \<open>Operator_Server\<close>: the informers, handlers, queue and
    workers as one machine, and this machine against an API server.
  \<^item> \<open>Samples\<close>, \<open>Startup_Samples\<close>, \<open>Client_Samples\<close>, \<open>Loop_Samples\<close>, \<open>Witnesses\<close>: concrete worlds and the applications
    of the properties to them.

  \<^bold>\<open>Interfaces.\<close> Five contracts are locales, each interpreted on the model: the codec of keys
  (\<open>Meta_Types\<close>), creating or updating a resource that is already there and its extension by a
  merge (\<open>K8s_Names\<close>, for the four resources), the work queue (\<open>Workqueue\<close>, for the plain and the
  rate limited one), the indexed store an informer keeps (\<open>Informer\<close>). The crypto libraries, the
  token bucket of the rate limiter, the clock and the random source, the API server and the
  transport are parameters; \<open>crypto_laws\<close> says what is relied on of the first.

  \<^bold>\<open>What is shown.\<close>
  \<^item> A pass: what it writes and in which order in each of its cases (deleted, invalid, lacking
    defaults, complete), that it never touches a resource it has not seen to be managed by the
    operator, in which ways alone it can panic or spin, and that a successful reconcile has
    written every resource and seen it ready.
  \<^item> Resources: the four computed objects refer to each other as they must; which spec edits the
    template comparison sees; a replacement waits for the old StatefulSet; the Secret holds a
    certificate of the operator's CA.
  \<^item> Queue and workers: under every interleaving no two workers hold a key, an event during a pass
    leads to another pass, keys are served in order, failures come back within the back-off.
  \<^item> From the API server to the handlers: once its queue is handled an informer's store is what the
    reflector was told, the handlers have been told the store, the listers find exactly what is
    stored; and the one way a notebook can be lost on the way.
  \<^item> The reflector: over a server whose lists and watches are those of one history of changes, what
    it has told the informer is what the server held at the version the reflector is at, through
    lost watches, errors and new lists. The requests it makes are those of its informer.
  \<^item> The whole: whatever the schedule, when the operator is at rest after a resync, its last pass over
    every notebook has found it as the server held it at the version the reflector last synced,
    valid and, when it is live and has its defaults, with its resources written and seen ready;
    between resyncs it has still found what was last told, unless the last change did not reach
    the handler, which a list can do.
  \<^item> The API: Validate decides the documented syntax, SetDefaults is idempotent, copies share no
    memory, the generated schemas are well formed and resolve, requests go where they belong. The
    events of a fake watch replay what the fake clientset stores.
  \<^item> Start and end: polls are bounded, Run starts workers only after everything else, and the error
    it returns does not reach the exit code.

  \<^bold>\<open>Bounds and fuel.\<close> The retrier of the waits runs with fuel 25: every wait pauses 5 seconds
  between its tries and closes its channel after one minute, so the fuel covers two minutes, a
  close that comes up to a minute late included (\<open>Retry\<close> shows when it can spin on). The conversion of
  schemas runs with fuel 11, the length of the longest chain of references in the table;
  \<open>OpenAPI_Resolve\<close> shows that no definition needs more. Polls run over the finite list of their
  ticks. All other functions are total. Machine integers keep their width where they are compared
  or wrap (32 bit fields of the API, the 64 bit durations of the back-off).

  \<^bold>\<open>Not modelled.\<close> The descriptions of the generated schemas, which nothing reads; the JSON
  encoding and \<open>Notebook.Copy\<close>, which nothing calls; HTTP and the decoding of answers (what a list or
  a watch brings is a value; \<open>Reflector\<close> states which values the API server documents); metrics and
  logging; parsing of flags; package documentation files and empty expansion interfaces.
\<close>

end
